(* ===== verification/Quest_Prelude.thy ===== *)
theory Quest_Prelude
  imports
    Main
    "HOL-Library.Word"
    "HOL-Library.Char_ord"
    "HOL-Library.List_Lexorder"
    "HOL-Library.Product_Lexorder"
begin

text \<open>
  Shared vocabulary of the development: the machine integers of the Rust sources, the
  \<open>Result\<close> plumbing of the \<open>?\<close> operator, the parts of Rust's string library that the
  crates call, and ordered maps (\<open>BTreeMap\<close>) as strictly sorted association lists.
  A Rust \<open>String\<close> is its UTF-8 byte sequence, so a \<^typ>\<open>string\<close> here is a list of
  bytes, \<^const>\<open>length\<close> is \<open>str::len\<close> and \<open><\<close> on strings is Rust's bytewise order.
\<close>

named_theorems result_simps \<open>unfolding and splitting of fallible computations\<close>
named_theorems btree_simps \<open>lookup after update of an ordered map\<close>

section \<open>Machine integers\<close>

type_synonym u8 = "8 word"
type_synonym u32 = "32 word"
type_synonym u64 = "64 word"
type_synonym bytes = "u8 list"

definition saturating_add :: "u64 \<Rightarrow> u64 \<Rightarrow> u64" where
  "saturating_add a b = (if unat a + unat b < 2 ^ 64 then a + b else - 1)"

definition saturating_sub :: "u64 \<Rightarrow> u64 \<Rightarrow> u64" where
  "saturating_sub a b = (if b \<le> a then a - b else 0)"

definition checked_add :: "u64 \<Rightarrow> u64 \<Rightarrow> u64 option" where
  "checked_add a b = (if unat a + unat b < 2 ^ 64 then Some (a + b) else None)"

definition checked_sub :: "u64 \<Rightarrow> u64 \<Rightarrow> u64 option" where
  "checked_sub a b = (if b \<le> a then Some (a - b) else None)"

lemma unat_saturating_add: "unat (saturating_add a b) = min (unat a + unat b) (2 ^ 64 - 1)"
proof (cases "unat a + unat b < 2 ^ 64")
  case True
  then have "unat (a + b) = unat a + unat b"
    by (simp add: unat_word_ariths)
  with True show ?thesis
    by (simp add: saturating_add_def)
next
  case False
  have "unat (- 1 :: u64) = 2 ^ 64 - 1"
    by (simp add: unsigned_minus_1_eq_mask mask_eq_exp_minus_1)
  with False show ?thesis
    by (simp add: saturating_add_def)
qed

lemma unat_saturating_sub: "unat (saturating_sub a b) = unat a - unat b"
  by (simp add: saturating_sub_def unat_sub word_le_nat_alt)

lemma checked_sub_eq_Some_iff:
  "checked_sub a b = Some d \<longleftrightarrow> unat b \<le> unat a \<and> unat d = unat a - unat b"
  by (auto simp: checked_sub_def unat_sub word_le_nat_alt split: if_splits
      intro: word_unat_eq_iff [THEN iffD2])

lemma checked_add_eq_Some_iff:
  "checked_add a b = Some s \<longleftrightarrow> unat a + unat b < 2 ^ 64 \<and> unat s = unat a + unat b"
proof -
  have "unat (a + b) = unat a + unat b" if "unat a + unat b < 2 ^ 64"
    using that by (simp add: unat_word_ariths)
  then show ?thesis
    by (auto simp: checked_add_def split: if_splits intro: word_unat_eq_iff [THEN iffD2])
qed

text \<open>For evaluation the bound is compared on integers, which compute in binary.\<close>

lemma unat_sum_bound: "unat a + unat b < 2 ^ 64 \<longleftrightarrow> uint a + uint b < 2 ^ 64" for a b :: u64
proof -
  have "int (unat a + unat b) < int (2 ^ 64) \<longleftrightarrow> uint a + uint b < 2 ^ 64"
    by simp
  then show ?thesis
    by (simp only: of_nat_less_iff)
qed

lemma saturating_add_code [code]:
  "saturating_add a b = (if uint a + uint b < 2 ^ 64 then a + b else - 1)"
  unfolding saturating_add_def unat_sum_bound by (rule refl)

lemma checked_add_code [code]:
  "checked_add a b = (if uint a + uint b < 2 ^ 64 then Some (a + b) else None)"
  unfolding checked_add_def unat_sum_bound by (rule refl)

section \<open>Results\<close>

text \<open>
  \<open>Result<T, E>\<close> is \<^typ>\<open>'e + 'a\<close> with \<^const>\<open>Inl\<close> for \<open>Err\<close>. \<open>and_then r f\<close> is both
  \<open>Result::and_then\<close> and what the \<open>?\<close> operator does with the rest of the function.
\<close>

definition and_then :: "'e + 'a \<Rightarrow> ('a \<Rightarrow> 'e + 'b) \<Rightarrow> 'e + 'b" where
  "and_then r f = (case r of Inl e \<Rightarrow> Inl e | Inr x \<Rightarrow> f x)"

definition map_err :: "('e \<Rightarrow> 'f) \<Rightarrow> 'e + 'a \<Rightarrow> 'f + 'a" where
  "map_err f r = (case r of Inl e \<Rightarrow> Inl (f e) | Inr x \<Rightarrow> Inr x)"

definition ok_or :: "'e \<Rightarrow> 'a option \<Rightarrow> 'e + 'a" where
  "ok_or e x = (case x of None \<Rightarrow> Inl e | Some v \<Rightarrow> Inr v)"

definition reject_if :: "bool \<Rightarrow> 'e \<Rightarrow> 'e + unit" where
  "reject_if c e = (if c then Inl e else Inr ())"

definition is_ok :: "'e + 'a \<Rightarrow> bool" where
  "is_ok r = (case r of Inl _ \<Rightarrow> False | Inr _ \<Rightarrow> True)"

text \<open>A sequence of checks, each followed by \<open>?\<close>: the first failure is the result.\<close>

primrec first_err :: "('e + unit) list \<Rightarrow> 'e + unit" where
  "first_err [] = Inr ()"
| "first_err (c # cs) = and_then c (\<lambda>_. first_err cs)"

lemma and_then_simps [simp]:
  "and_then (Inl e) f = Inl e"
  "and_then (Inr x) f = f x"
  by (simp_all add: and_then_def)

lemma and_then_eq_Inr [result_simps]:
  "and_then r f = Inr y \<longleftrightarrow> (\<exists>x. r = Inr x \<and> f x = Inr y)"
  by (cases r) simp_all

lemma and_then_eq_Inl [result_simps]:
  "and_then r f = Inl e \<longleftrightarrow> r = Inl e \<or> (\<exists>x. r = Inr x \<and> f x = Inl e)"
  by (cases r) simp_all

lemma map_err_simps [simp]:
  "map_err f (Inl e) = Inl (f e)"
  "map_err f (Inr x) = Inr x"
  by (simp_all add: map_err_def)

lemma map_err_eq_Inr [result_simps]: "map_err f r = Inr y \<longleftrightarrow> r = Inr y"
  by (cases r) simp_all

lemma ok_or_simps [simp]:
  "ok_or e None = Inl e"
  "ok_or e (Some v) = Inr v"
  by (simp_all add: ok_or_def)

lemma ok_or_eq_Inr [result_simps]: "ok_or e x = Inr v \<longleftrightarrow> x = Some v"
  by (cases x) simp_all

lemma reject_if_eq_Inr [result_simps]: "reject_if c e = Inr u \<longleftrightarrow> \<not> c"
  by (simp add: reject_if_def)

lemma reject_if_eq_Inl [result_simps]: "reject_if c e = Inl e' \<longleftrightarrow> c \<and> e' = e"
  by (auto simp: reject_if_def)

lemma is_ok_simps [simp]: "\<not> is_ok (Inl e)" "is_ok (Inr x)"
  by (simp_all add: is_ok_def)

lemma is_ok_unit: "is_ok r \<longleftrightarrow> r = Inr ()"
  by (simp add: is_ok_def split: sum.splits)

lemma first_err_eq_Inr [result_simps]:
  "first_err cs = Inr u \<longleftrightarrow> list_all (\<lambda>c. c = Inr ()) cs"
  by (induction cs) (auto simp: and_then_eq_Inr)

lemma first_err_append:
  "first_err (cs @ ds) = and_then (first_err cs) (\<lambda>_. first_err ds)"
proof (induction cs)
  case (Cons c cs)
  then show ?case by (cases c) simp_all
qed simp

lemma first_err_member: "first_err cs = Inl e \<Longrightarrow> Inl e \<in> set cs"
  by (induction cs) (auto simp: and_then_eq_Inl)

section \<open>Strings and bytes\<close>

definition starts_with :: "'a list \<Rightarrow> 'a list \<Rightarrow> bool" where
  "starts_with s p = (take (length p) s = p)"

definition ends_with :: "'a list \<Rightarrow> 'a list \<Rightarrow> bool" where
  "ends_with s p = (length p \<le> length s \<and> drop (length s - length p) s = p)"

definition strip_prefix :: "'a list \<Rightarrow> 'a list \<Rightarrow> 'a list option" where
  "strip_prefix p s = (if starts_with s p then Some (drop (length p) s) else None)"

text \<open>\<open>str::split\<close> on one character: never empty, adjacent separators give empty parts.\<close>

fun split_on :: "'a \<Rightarrow> 'a list \<Rightarrow> 'a list list" where
  "split_on d [] = [[]]"
| "split_on d (c # s) =
     (if c = d then [] # split_on d s
      else (case split_on d s of [] \<Rightarrow> [[c]] | p # ps \<Rightarrow> (c # p) # ps))"

definition byte_of :: "char \<Rightarrow> nat" where
  "byte_of c = of_char c"

definition in_range :: "nat \<Rightarrow> nat \<Rightarrow> char \<Rightarrow> bool" where
  "in_range lo hi c = (lo \<le> byte_of c \<and> byte_of c \<le> hi)"

definition is_ascii_lowercase :: "char \<Rightarrow> bool" where
  "is_ascii_lowercase = in_range 97 122"

definition is_ascii_uppercase :: "char \<Rightarrow> bool" where
  "is_ascii_uppercase = in_range 65 90"

definition is_ascii_digit :: "char \<Rightarrow> bool" where
  "is_ascii_digit = in_range 48 57"

definition is_ascii_alphanumeric :: "char \<Rightarrow> bool" where
  "is_ascii_alphanumeric c =
     (is_ascii_lowercase c \<or> is_ascii_uppercase c \<or> is_ascii_digit c)"

definition is_ascii_control :: "char \<Rightarrow> bool" where
  "is_ascii_control c = (byte_of c < 32 \<or> byte_of c = 127)"

definition is_ascii :: "string \<Rightarrow> bool" where
  "is_ascii s = list_all (\<lambda>c. byte_of c < 128) s"

definition to_ascii_lowercase :: "string \<Rightarrow> string" where
  "to_ascii_lowercase s =
     map (\<lambda>c. if is_ascii_uppercase c then char_of (byte_of c + 32) else c) s"

definition is_lower_hex :: "char \<Rightarrow> bool" where
  "is_lower_hex c = (is_ascii_digit c \<or> in_range 97 102 c)"

text \<open>
  \<open>s.trim().is_empty()\<close>: every character of \<open>s\<close> is Unicode white space. The multi-byte
  cases are the UTF-8 encodings of U+0085, U+00A0, U+1680, U+2000..U+200A, U+2028, U+2029,
  U+202F, U+205F and U+3000.
\<close>

fun blank_bytes :: "nat list \<Rightarrow> bool" where
  "blank_bytes [] = True"
| "blank_bytes (b # bs) =
     (if b = 32 \<or> (9 \<le> b \<and> b \<le> 13) then blank_bytes bs
      else if b = 194 then
        (case bs of c # cs \<Rightarrow> (c = 133 \<or> c = 160) \<and> blank_bytes cs | [] \<Rightarrow> False)
      else (case bs of
          c # d # ds \<Rightarrow>
            ((b = 225 \<and> c = 154 \<and> d = 128)
             \<or> (b = 226 \<and> c = 128 \<and> (128 \<le> d \<and> d \<le> 138 \<or> d = 168 \<or> d = 169 \<or> d = 175))
             \<or> (b = 226 \<and> c = 129 \<and> d = 159)
             \<or> (b = 227 \<and> c = 128 \<and> d = 128)) \<and> blank_bytes ds
        | _ \<Rightarrow> False))"

definition trim_is_empty :: "string \<Rightarrow> bool" where
  "trim_is_empty s = blank_bytes (map byte_of s)"

text \<open>\<open>str::as_bytes\<close> and its inverse, and the check of \<open>String::from_utf8\<close>.\<close>

definition str_bytes :: "string \<Rightarrow> bytes" where
  "str_bytes s = map (\<lambda>c. of_nat (byte_of c)) s"

definition bytes_str :: "bytes \<Rightarrow> string" where
  "bytes_str bs = map (\<lambda>b. char_of (unat b)) bs"

definition utf8_tail :: "nat \<Rightarrow> bool" where
  "utf8_tail b = (128 \<le> b \<and> b \<le> 191)"

fun utf8_valid :: "nat list \<Rightarrow> bool" where
  "utf8_valid [] = True"
| "utf8_valid (a # bs) =
     (if a < 128 then utf8_valid bs
      else if 194 \<le> a \<and> a \<le> 223 then
        (case bs of b # cs \<Rightarrow> utf8_tail b \<and> utf8_valid cs | [] \<Rightarrow> False)
      else if 224 \<le> a \<and> a \<le> 239 then
        (case bs of
           b # c # ds \<Rightarrow>
             utf8_tail b \<and> utf8_tail c \<and> (a = 224 \<longrightarrow> 160 \<le> b) \<and> (a = 237 \<longrightarrow> b \<le> 159)
             \<and> utf8_valid ds
         | _ \<Rightarrow> False)
      else if 240 \<le> a \<and> a \<le> 244 then
        (case bs of
           b # c # d # es \<Rightarrow>
             utf8_tail b \<and> utf8_tail c \<and> utf8_tail d \<and> (a = 240 \<longrightarrow> 144 \<le> b)
             \<and> (a = 244 \<longrightarrow> b \<le> 143) \<and> utf8_valid es
         | _ \<Rightarrow> False)
      else False)"

definition from_utf8 :: "bytes \<Rightarrow> string option" where
  "from_utf8 bs = (if utf8_valid (map unat bs) then Some (bytes_str bs) else None)"

text \<open>\<open>{}\<close> of an unsigned integer.\<close>

fun decimal :: "nat \<Rightarrow> string" where
  "decimal n = (if n < 10 then [char_of (48 + n)] else decimal (n div 10) @ [char_of (48 + n mod 10)])"

declare decimal.simps [simp del]

lemma byte_of_less [simp]: "byte_of c < 256"
proof -
  have "byte_of c mod 256 = byte_of c"
    unfolding byte_of_def by simp
  then show ?thesis
    by (metis mod_less_divisor zero_less_numeral)
qed

lemma bytes_str_inverse [simp]: "bytes_str (str_bytes s) = s"
proof -
  have "char_of (unat (of_nat (byte_of c) :: u8)) = c" for c
    by (simp add: unat_of_nat take_bit_eq_mod) (simp add: byte_of_def)
  then show ?thesis
    by (simp add: bytes_str_def str_bytes_def comp_def)
qed

lemma str_bytes_inverse [simp]: "str_bytes (bytes_str bs) = bs"
proof -
  have "of_nat (byte_of (char_of (unat b))) = b" for b :: u8
    using unsigned_less [of b, where ?'a = nat] by (simp add: byte_of_def)
  then show ?thesis
    by (simp add: bytes_str_def str_bytes_def comp_def)
qed

lemma length_str_bytes [simp]: "length (str_bytes s) = length s"
  by (simp add: str_bytes_def)

lemma str_bytes_eq_iff [simp]: "str_bytes s = str_bytes t \<longleftrightarrow> s = t"
  by (metis bytes_str_inverse)

lemma from_utf8_eq_Some: "from_utf8 bs = Some s \<Longrightarrow> bs = str_bytes s"
  by (auto simp: from_utf8_def split: if_splits)

text \<open>\<open>{:x}\<close> of a byte string: two lowercase digits per byte.\<close>

definition hex_digit :: "nat \<Rightarrow> char" where
  "hex_digit n = (if n < 10 then char_of (48 + n) else char_of (87 + n))"

definition lower_hex :: "bytes \<Rightarrow> string" where
  "lower_hex bs = concat (map (\<lambda>b. [hex_digit (unat b div 16), hex_digit (unat b mod 16)]) bs)"

lemma hex_digit_is_hex: "n < 16 \<Longrightarrow> is_lower_hex (hex_digit n)"
proof -
  assume "n < 16"
  then have "n \<in> set [0..<16]" by simp
  moreover have "list_all (\<lambda>n. is_lower_hex (hex_digit n)) [0..<16]"
    by (simp add: is_lower_hex_def hex_digit_def is_ascii_digit_def in_range_def byte_of_def upt_rec)
  ultimately show ?thesis by (simp add: list_all_iff)
qed

lemma length_lower_hex [simp]: "length (lower_hex bs) = 2 * length bs"
  by (induction bs) (simp_all add: lower_hex_def)

lemma lower_hex_is_hex [simp]: "list_all is_lower_hex (lower_hex bs)"
proof (induction bs)
  case (Cons b bs)
  have "unat b div 16 < 16"
    using unsigned_less [of b, where ?'a = nat] by (simp add: less_mult_imp_div_less)
  then have "is_lower_hex (hex_digit (unat b div 16))" "is_lower_hex (hex_digit (unat b mod 16))"
    by (simp_all add: hex_digit_is_hex)
  with Cons show ?case
    by (simp add: lower_hex_def)
qed (simp add: lower_hex_def)

lemma digit_char: "n < 10 \<Longrightarrow> is_ascii_digit (char_of (48 + n :: nat))"
  by (simp add: is_ascii_digit_def in_range_def byte_of_def)

lemma digit_char_inj: "m < 10 \<Longrightarrow> n < 10 \<Longrightarrow> char_of (48 + m :: nat) = char_of (48 + n) \<Longrightarrow> m = n"
  by (drule arg_cong [where f = byte_of]) (simp add: byte_of_def)

lemma decimal_digits: "list_all is_ascii_digit (decimal n)"
proof (induction n rule: decimal.induct)
  case (1 n)
  show ?case
    unfolding decimal.simps [of n] by (cases "n < 10") (use 1 in \<open>simp_all add: digit_char\<close>)
qed

lemma decimal_nonempty [simp]: "decimal n \<noteq> []"
  by (subst decimal.simps) simp

lemma decimal_inj: "decimal m = decimal n \<Longrightarrow> m = n"
proof (induction m arbitrary: n rule: decimal.induct)
  case (1 m)
  show ?case
  proof (cases "m < 10")
    case True
    then have "decimal n = [char_of (48 + m)]"
      using "1.prems" by (subst (asm) decimal.simps) simp
    with True show ?thesis
      by (subst (asm) decimal.simps) (auto split: if_splits dest: digit_char_inj)
  next
    case False
    then have n: "\<not> n < 10"
      using "1.prems" by (subst (asm) decimal.simps, subst (asm) (2) decimal.simps) (auto split: if_splits)
    have "decimal (m div 10) = decimal (n div 10)" "char_of (48 + m mod 10) = (char_of (48 + n mod 10) :: char)"
      using "1.prems" False n by (subst (asm) decimal.simps, subst (asm) (2) decimal.simps, simp)+
    then have "m div 10 = n div 10" "m mod 10 = n mod 10"
      using "1.IH" [OF False] digit_char_inj [of "m mod 10" "n mod 10"] by auto
    then show ?thesis
      by (metis div_mult_mod_eq)
  qed
qed

lemma starts_with_append [simp]: "starts_with (p @ s) p"
  by (simp add: starts_with_def)

lemma starts_withE:
  assumes "starts_with s p"
  obtains r where "s = p @ r"
  using assms append_take_drop_id [of "length p" s] by (metis starts_with_def)

lemma ends_with_iff: "ends_with s p \<longleftrightarrow> (\<exists>r. s = r @ p)"
  unfolding ends_with_def by (metis append_take_drop_id append_eq_conv_conj diff_add_inverse2
      le_add2 length_append)

lemma ends_with_append: "ends_with s p \<Longrightarrow> ends_with (r @ s) p"
  by (auto simp: ends_with_iff)

lemma strip_prefix_eq_Some: "strip_prefix p s = Some r \<longleftrightarrow> s = p @ r"
proof
  assume "strip_prefix p s = Some r"
  then have "take (length p) s = p" and "r = drop (length p) s"
    by (auto simp: strip_prefix_def starts_with_def split: if_splits)
  then show "s = p @ r"
    by (metis append_take_drop_id)
qed (simp add: strip_prefix_def)

lemma split_on_neq_Nil [simp]: "split_on d s \<noteq> []"
  by (induction s) (auto split: list.splits)

text \<open>Joining the parts with the separator gives the string back: \<^const>\<open>split_on\<close> loses nothing.\<close>

fun join_with :: "'a \<Rightarrow> 'a list list \<Rightarrow> 'a list" where
  "join_with d [] = []"
| "join_with d [p] = p"
| "join_with d (p # q # ps) = p @ d # join_with d (q # ps)"

lemma join_with_split_on: "join_with d (split_on d s) = s"
proof (induction s)
  case (Cons c s)
  obtain p ps where "split_on d s = p # ps"
    by (meson neq_Nil_conv split_on_neq_Nil)
  with Cons show ?case
    by (cases ps) auto
qed simp

lemma split_on_parts: "p \<in> set (split_on d s) \<Longrightarrow> d \<notin> set p \<and> set p \<subseteq> set s"
proof (induction s arbitrary: p)
  case (Cons c s)
  obtain q qs where q: "split_on d s = q # qs"
    by (meson neq_Nil_conv split_on_neq_Nil)
  with Cons show ?case
    by (auto split: if_splits) blast+
qed simp

section \<open>Ordered maps\<close>

text \<open>
  \<open>BTreeMap<K, V>\<close> as an association list. Insertion replaces an equal key or keeps the
  list strictly sorted; iteration order is list order; \<open>len\<close> is \<^const>\<open>length\<close>.
\<close>

type_synonym ('k, 'v) btree = "('k \<times> 'v) list"

abbreviation bt_get :: "('k, 'v) btree \<Rightarrow> 'k \<Rightarrow> 'v option" where
  "bt_get \<equiv> map_of"

fun bt_insert :: "'k::linorder \<Rightarrow> 'v \<Rightarrow> ('k, 'v) btree \<Rightarrow> ('k, 'v) btree" where
  "bt_insert k v [] = [(k, v)]"
| "bt_insert k v ((a, b) # m) =
     (if k < a then (k, v) # (a, b) # m
      else if k = a then (k, v) # m
      else (a, b) # bt_insert k v m)"

definition bt_remove :: "'k \<Rightarrow> ('k, 'v) btree \<Rightarrow> ('k, 'v) btree" where
  "bt_remove k m = filter (\<lambda>(a, _). a \<noteq> k) m"

definition bt_contains :: "'k \<Rightarrow> ('k, 'v) btree \<Rightarrow> bool" where
  "bt_contains k m = (bt_get m k \<noteq> None)"

definition bt_wf :: "('k::linorder, 'v) btree \<Rightarrow> bool" where
  "bt_wf m = sorted_wrt (<) (map fst m)"

lemma bt_get_insert [simp, btree_simps]:
  "bt_get (bt_insert k v m) = (bt_get m)(k \<mapsto> v)"
  by (induction k v m rule: bt_insert.induct) (auto simp: fun_eq_iff)

lemma bt_get_remove [simp, btree_simps]:
  "bt_get (bt_remove k m) = (bt_get m)(k := None)"
  by (induction m) (auto simp: bt_remove_def fun_eq_iff)

lemma bt_keys_insert [simp]: "set (map fst (bt_insert k v m)) = insert k (set (map fst m))"
  by (induction k v m rule: bt_insert.induct) auto

lemma bt_keys_remove [simp]: "set (map fst (bt_remove k m)) = set (map fst m) - {k}"
  by (auto simp: bt_remove_def)

lemma bt_wf_Nil [simp]: "bt_wf []"
  by (simp add: bt_wf_def)

lemma bt_wf_Cons: "bt_wf ((a, b) # m) \<longleftrightarrow> (\<forall>k \<in> set (map fst m). a < k) \<and> bt_wf m"
  by (simp add: bt_wf_def)

lemma bt_wf_insert [simp]: "bt_wf m \<Longrightarrow> bt_wf (bt_insert k v m)"
proof (induction k v m rule: bt_insert.induct)
  case (2 k v a b m)
  then show ?case
    by (auto simp: bt_wf_Cons simp del: set_map)
qed (simp add: bt_wf_def)

lemma bt_wf_remove [simp]: "bt_wf m \<Longrightarrow> bt_wf (bt_remove k m)"
  by (simp add: bt_wf_def bt_remove_def sorted_wrt_map sorted_wrt_filter)

lemma bt_wf_distinct: "bt_wf m \<Longrightarrow> distinct (map fst m)"
  by (simp add: bt_wf_def strict_sorted_iff)

lemma bt_contains_iff: "bt_contains k m \<longleftrightarrow> k \<in> set (map fst m)"
  by (simp add: bt_contains_def map_of_eq_None_iff)

lemma bt_length_insert:
  "bt_wf m \<Longrightarrow> length (bt_insert k v m) = (if bt_contains k m then length m else Suc (length m))"
proof -
  assume wf: "bt_wf m"
  have keys: "length n = card (set (map fst n))" if "bt_wf n" for n :: "('a, 'b) btree"
    using bt_wf_distinct [OF that] by (metis distinct_card length_map)
  show ?thesis
    unfolding keys [OF bt_wf_insert [OF wf]] keys [OF wf] bt_keys_insert
    by (simp add: bt_contains_iff insert_absorb del: set_map)
qed

lemma bt_length_remove_le: "length (bt_remove k m) \<le> length m"
  by (simp add: bt_remove_def)

lemma bt_length_remove_less: "k \<in> set (map fst m) \<Longrightarrow> length (bt_remove k m) < length m"
  unfolding bt_remove_def by (force intro: length_filter_less)

lemma bt_remove_fresh: "bt_get m k = None \<Longrightarrow> bt_remove k m = m"
  by (force simp: bt_remove_def map_of_eq_None_iff filter_id_conv)

lemma bt_remove_insert: "bt_get m k = None \<Longrightarrow> bt_remove k (bt_insert k v m) = m"
proof (induction k v m rule: bt_insert.induct)
  case (2 k v a b m)
  then have "bt_get m k = None" "a \<noteq> k"
    by (auto split: if_splits)
  with "2.IH" bt_remove_fresh [of m k] show ?case
    by (simp add: bt_remove_def)
qed (simp add: bt_remove_def)

lemma bt_get_in_set: "bt_get m k = Some v \<Longrightarrow> (k, v) \<in> set m"
  by (rule map_of_SomeD)

lemma bt_values_insert: "v \<in> snd ` set (bt_insert k w m) \<Longrightarrow> v = w \<or> v \<in> snd ` set m"
  by (induction k w m rule: bt_insert.induct) (auto split: if_splits)

lemma bt_set_remove: "set (bt_remove k m) = {(a, b) \<in> set m. a \<noteq> k}"
  by (auto simp: bt_remove_def)

end
