(* ===== verification/Base64_Bits.thy ===== *)
theory Base64_Bits
  imports Quest_Prelude
begin

unbundle bit_operations_syntax

text \<open>
  The bit arithmetic both Base64 codecs of the repository share (\<open>encode_base64url\<close> of the
  package updater and \<open>encode_signature_base64\<close> of the owner dispatch), and the contract of a
  canonical codec: decoding inverts encoding and accepts nothing that encoding does not
  produce. The contract is a locale; the two Base64 codecs and the dispatch wire frame
  interpret it.
\<close>

section \<open>Canonical codecs\<close>

locale canonical_codec =
  fixes enc :: "'a \<Rightarrow> 'b"
    and dec :: "'b \<Rightarrow> 'e + 'a"
    and encodable :: "'a \<Rightarrow> bool"
  assumes dec_enc: "encodable x \<Longrightarrow> dec (enc x) = Inr x"
    and dec_sound: "dec s = Inr x \<Longrightarrow> encodable x \<and> enc x = s"
begin

text \<open>The accepted inputs are exactly the encodings: there is one spelling per value.\<close>

lemma accepts_iff: "dec s = Inr x \<longleftrightarrow> encodable x \<and> s = enc x"
  using dec_enc dec_sound by blast

lemma unique_spelling: "dec s = Inr x \<Longrightarrow> dec t = Inr x \<Longrightarrow> s = t"
  using dec_sound by blast

lemma enc_injective: "encodable x \<Longrightarrow> encodable y \<Longrightarrow> enc x = enc y \<Longrightarrow> x = y"
  by (metis dec_enc sum.inject(2))

end

section \<open>Packing three bytes into a 24-bit word\<close>

definition pack24 :: "u8 \<Rightarrow> u8 \<Rightarrow> u8 \<Rightarrow> u32" where
  "pack24 a b c = push_bit 16 (ucast a) OR push_bit 8 (ucast b) OR ucast c"

definition sextet_at :: "nat \<Rightarrow> u32 \<Rightarrow> u32" where
  "sextet_at k w = drop_bit k w AND 63"

text \<open>\<open>((word >> k) & 0xff) as u8\<close> and \<open>(accumulator << 6) | sextet\<close>.\<close>

definition byte_at :: "nat \<Rightarrow> u32 \<Rightarrow> u8" where
  "byte_at k w = ucast (drop_bit k w AND 255)"

definition shift_in :: "u32 \<Rightarrow> u32 \<Rightarrow> u32" where
  "shift_in accumulator sextet = push_bit 6 accumulator OR sextet"

lemma bit_u8_beyond [simp]: "8 \<le> n \<Longrightarrow> \<not> bit (b::u8) n"
  using bit_imp_le_length [of b n] by auto

lemma below_8_cases:
  "n < (8::nat) \<Longrightarrow> n = 0 \<or> n = 1 \<or> n = 2 \<or> n = 3 \<or> n = 4 \<or> n = 5 \<or> n = 6 \<or> n = 7"
  by arith

lemmas byte_bits = pack24_def sextet_at_def byte_at_def shift_in_def bit_simps
  numeral_2_eq_2 numeral_3_eq_3

lemma u8_bits_eqI: "(\<And>n. n < 8 \<Longrightarrow> bit (a::u8) n \<longleftrightarrow> bit b n) \<Longrightarrow> a = b"
  by (rule bit_word_eqI) simp

text \<open>The three bytes a decoder pushes while it shifts four sextets into its accumulator.\<close>

lemma decode_byte0:
  "byte_at 4 (shift_in (shift_in acc (sextet_at 18 (pack24 a b c))) (sextet_at 12 (pack24 a b c))) = a"
  by (rule u8_bits_eqI, drule below_8_cases, elim disjE) (simp_all add: byte_bits)

lemma decode_byte1:
  "byte_at 2 (shift_in (shift_in acc (sextet_at 12 (pack24 a b c))) (sextet_at 6 (pack24 a b c))) = b"
  by (rule u8_bits_eqI, drule below_8_cases, elim disjE) (simp_all add: byte_bits)

lemma decode_byte2:
  "byte_at 0 (shift_in (shift_in acc (sextet_at 6 (pack24 a b c))) (sextet_at 0 (pack24 a b c))) = c"
  by (rule u8_bits_eqI, drule below_8_cases, elim disjE) (simp_all add: byte_bits)

text \<open>The unused bits of a final partial group are zero.\<close>

lemma unused_bits_1: "shift_in acc (sextet_at 12 (pack24 a 0 0)) AND mask 4 = 0"
  by (rule bit_word_eqI) (auto simp: pack24_def sextet_at_def shift_in_def bit_simps)

lemma unused_bits_2: "shift_in acc (sextet_at 6 (pack24 a b 0)) AND mask 2 = 0"
  by (rule bit_word_eqI) (auto simp: pack24_def sextet_at_def shift_in_def bit_simps)

text \<open>The group word put together again from its sextets.\<close>

definition unpack24 :: "u32 \<Rightarrow> u32 \<Rightarrow> u32 \<Rightarrow> u32 \<Rightarrow> u32" where
  "unpack24 a b c d = push_bit 18 a OR push_bit 12 b OR push_bit 6 c OR d"

lemma unpack24_byte0:
  "byte_at 16 (unpack24 (sextet_at 18 (pack24 a b c)) (sextet_at 12 (pack24 a b c))
     (sextet_at i u) (sextet_at j v)) = a"
  by (rule u8_bits_eqI, drule below_8_cases, elim disjE) (simp_all add: byte_bits unpack24_def)

lemma unpack24_byte1:
  "byte_at 8 (unpack24 (sextet_at 18 (pack24 a b c)) (sextet_at 12 (pack24 a b c))
     (sextet_at 6 (pack24 a b c)) (sextet_at j v)) = b"
  by (rule u8_bits_eqI, drule below_8_cases, elim disjE) (simp_all add: byte_bits unpack24_def)

lemma unpack24_byte2:
  "byte_at 0 (unpack24 (sextet_at 18 (pack24 a b c)) (sextet_at 12 (pack24 a b c))
     (sextet_at 6 (pack24 a b c)) (sextet_at 0 (pack24 a b c))) = c"
  by (rule u8_bits_eqI, drule below_8_cases, elim disjE) (simp_all add: byte_bits unpack24_def)

lemma sextet_through_u8: "(ucast (of_nat (unat (sextet_at k w)) :: u8) :: u32) = sextet_at k w"
proof -
  have "sextet_at k w = take_bit 6 (drop_bit k w)"
    by (simp add: sextet_at_def take_bit_eq_mask mask_eq_exp_minus_1)
  then show ?thesis
    by (auto intro!: bit_word_eqI simp: bit_simps)
qed

lemma sextet_at_less [simp]: "unat (sextet_at k w) < 64"
proof -
  have "w' AND 63 \<le> 63" for w' :: u32
    by (rule word_and_le1)
  then have "sextet_at k w \<le> 63"
    by (simp add: sextet_at_def)
  then show ?thesis
    by (simp add: word_le_nat_alt)
qed

end
