(* ===== verification/Package_Codec.thy ===== *)
theory Package_Codec
  imports Base64_Bits
begin

unbundle bit_operations_syntax

text \<open>
  Canonical unpadded base64url of the package updater
  (\<open>crates/rusty-quest-package-updater/src/lib.rs\<close>: \<open>decode_base64url_canonical\<close> and
  \<open>encode_base64url\<close>) and the crate's error value. The codec is shown canonical: it
  interprets the \<open>canonical_codec\<close> contract on the nonempty byte strings.
\<close>

datatype package_update_error = PackageUpdateError (err_code: string) (err_message: string)

section \<open>Encoding\<close>

definition alphabet_url :: string where
  "alphabet_url = ''ABCDEFGHIJKLMNOPQRSTUVWXYZabcdefghijklmnopqrstuvwxyz0123456789-_''"

definition digit_url :: "nat \<Rightarrow> u32 \<Rightarrow> char" where
  "digit_url k w = alphabet_url ! unat (sextet_at k w)"

text \<open>One equation per shape of \<open>bytes.chunks(3)\<close>; a missing byte of the last chunk reads as 0.\<close>

fun encode_base64url :: "bytes \<Rightarrow> string" where
  "encode_base64url [] = []"
| "encode_base64url [a] =
     (let word = pack24 a 0 0 in [digit_url 18 word, digit_url 12 word])"
| "encode_base64url [a, b] =
     (let word = pack24 a b 0 in [digit_url 18 word, digit_url 12 word, digit_url 6 word])"
| "encode_base64url (a # b # c # rest) =
     (let word = pack24 a b c in
      [digit_url 18 word, digit_url 12 word, digit_url 6 word, digit_url 0 word]
      @ encode_base64url rest)"

section \<open>Decoding\<close>

definition sextet_url :: "char \<Rightarrow> u8 option" where
  "sextet_url c =
     (if in_range 65 90 c then Some (of_nat (byte_of c - 65))
      else if in_range 97 122 c then Some (of_nat (byte_of c - 97 + 26))
      else if in_range 48 57 c then Some (of_nat (byte_of c - 48 + 52))
      else if c = CHR ''-'' then Some 62
      else if c = CHR ''_'' then Some 63
      else None)"

text \<open>
  The loop of \<open>decode_base64url_canonical\<close>: the 32-bit accumulator loses its high bits on
  every shift and \<open>bits\<close> counts the bits not yet pushed. \<^const>\<open>None\<close> is the
  \<open>unreachable!\<close> of the alphabet match.
\<close>

fun decode_loop :: "string \<Rightarrow> u32 \<Rightarrow> nat \<Rightarrow> bytes \<Rightarrow> (bytes \<times> u32 \<times> nat) option" where
  "decode_loop [] accumulator bits output = Some (output, accumulator, bits)"
| "decode_loop (c # cs) accumulator bits output =
     (case sextet_url c of
        None \<Rightarrow> None
      | Some sextet \<Rightarrow>
          let accumulator = shift_in accumulator (ucast sextet); bits = bits + 6 in
          if 8 \<le> bits
          then decode_loop cs accumulator (bits - 8)
                 (output @ [byte_at (bits - 8) accumulator])
          else decode_loop cs accumulator bits output)"

definition noncanonical :: "string \<Rightarrow> package_update_error" where
  "noncanonical message = PackageUpdateError ''noncanonical_base64url'' message"

definition is_url_digit :: "char \<Rightarrow> bool" where
  "is_url_digit c = (is_ascii_alphanumeric c \<or> c = CHR ''-'' \<or> c = CHR ''_'')"

definition decode_base64url_canonical :: "string \<Rightarrow> package_update_error + bytes" where
  "decode_base64url_canonical s =
     (if s = [] \<or> CHR ''='' \<in> set s \<or> \<not> list_all is_url_digit s \<or> length s mod 4 = 1
      then Inl (noncanonical ''value must be canonical unpadded base64url'')
      else case decode_loop s 0 0 [] of
        None \<Rightarrow> Inl (PackageUpdateError ''panic'' ''alphabet was checked'')
      | Some (output, accumulator, bits) \<Rightarrow>
          if 0 < bits \<and> accumulator AND (push_bit bits 1 - 1) \<noteq> 0
          then Inl (noncanonical ''unused base64url bits must be zero'')
          else if encode_base64url output \<noteq> s
          then Inl (noncanonical ''value must use the unique unpadded base64url encoding'')
          else Inr output)"

section \<open>The alphabet table\<close>

lemma alphabet_url_sextets: "map sextet_url alphabet_url = map (\<lambda>n. Some (of_nat n)) [0..<64]"
  by (simp add: alphabet_url_def sextet_url_def in_range_def byte_of_def upt_rec)

lemma alphabet_url_digits: "list_all (\<lambda>c. is_url_digit c \<and> c \<noteq> CHR ''='') alphabet_url"
  by (simp add: alphabet_url_def is_url_digit_def is_ascii_alphanumeric_def
      is_ascii_lowercase_def is_ascii_uppercase_def is_ascii_digit_def in_range_def byte_of_def)

lemma length_alphabet_url: "length alphabet_url = 64"
  by (simp add: alphabet_url_def)

lemma digit_url_props:
  "sextet_url (digit_url k w) = Some (of_nat (unat (sextet_at k w)))"
  "is_url_digit (digit_url k w)"
  "digit_url k w \<noteq> CHR ''=''"
  using arg_cong [OF alphabet_url_sextets, of "\<lambda>l. l ! unat (sextet_at k w)"]
    alphabet_url_digits sextet_at_less [of k w]
  by (simp_all add: digit_url_def length_alphabet_url list_all_length del: of_nat_unat)

lemma digit_url_decodes:
  "decode_loop (digit_url k w # cs) acc bits out =
     (let acc = shift_in acc (sextet_at k w); bits = bits + 6 in
      if 8 \<le> bits then decode_loop cs acc (bits - 8) (out @ [byte_at (bits - 8) acc])
      else decode_loop cs acc bits out)"
  by (simp add: digit_url_props(1) sextet_through_u8 Let_def del: word_of_nat_eq_0_iff of_nat_unat)

lemma sextet_url_complete: "is_url_digit c \<Longrightarrow> sextet_url c \<noteq> None"
  by (auto simp: is_url_digit_def is_ascii_alphanumeric_def is_ascii_lowercase_def
      is_ascii_uppercase_def is_ascii_digit_def sextet_url_def)

section \<open>Round trip\<close>

lemma encode_base64url_digits:
  "list_all is_url_digit (encode_base64url bs) \<and> CHR ''='' \<notin> set (encode_base64url bs)"
  by (induction bs rule: encode_base64url.induct)
    (simp_all add: digit_url_props Let_def digit_url_props(3) [symmetric])

lemma encode_base64url_length:
  "length (encode_base64url bs) = (4 * length bs + 2) div 3"
  by (induction bs rule: encode_base64url.induct) (simp_all add: Let_def)

lemma encode_base64url_length_mod: "length (encode_base64url bs) mod 4 \<noteq> 1"
  by (induction bs rule: encode_base64url.induct) (simp_all add: Let_def)

lemma decode_loop_encode:
  "\<exists>acc' bits. decode_loop (encode_base64url bs) acc 0 out = Some (out @ bs, acc', bits)
     \<and> (0 < bits \<longrightarrow> acc' AND mask bits = 0)"
proof (induction bs arbitrary: acc out rule: encode_base64url.induct)
  case (4 a b c rest)
  show ?case
    using "4.IH" [OF refl, of _ "out @ [a, b, c]"]
    by (simp add: Let_def digit_url_decodes decode_byte0 decode_byte1 decode_byte2
        del: decode_loop.simps(2))
next
  case (3 a b)
  show ?case
    by (simp add: Let_def digit_url_decodes decode_byte0 decode_byte1 unused_bits_2
        del: decode_loop.simps(2))
next
  case (2 a)
  show ?case
    by (simp add: Let_def digit_url_decodes decode_byte0 unused_bits_1 del: decode_loop.simps(2))
qed simp

lemma decode_loop_total:
  "list_all is_url_digit s \<Longrightarrow> \<exists>r. decode_loop s acc bits out = Some r"
  by (induction s arbitrary: acc bits out)
    (auto simp: Let_def dest: sextet_url_complete)

text \<open>The decoder's bit counter never exceeds what the shift amounts of the code allow.\<close>

lemma decode_loop_bits:
  "decode_loop s acc bits out = Some (out', acc', bits') \<Longrightarrow> bits < 8 \<Longrightarrow> bits' < 8"
  by (induction s arbitrary: acc bits out) (auto simp: Let_def split: option.splits if_splits)

lemma decode_encode_base64url:
  assumes "bs \<noteq> []"
  shows "decode_base64url_canonical (encode_base64url bs) = Inr bs"
proof -
  obtain acc bits where
    loop: "decode_loop (encode_base64url bs) 0 0 [] = Some (bs, acc, bits)"
    and zero: "0 < bits \<longrightarrow> acc AND mask bits = 0"
    using decode_loop_encode [of bs 0 "[]"] by auto
  have "encode_base64url bs \<noteq> []"
    using assms by (cases bs rule: encode_base64url.cases) (simp_all add: Let_def)
  then show ?thesis
    using encode_base64url_digits [of bs] encode_base64url_length_mod [of bs] loop zero
    by (auto simp: decode_base64url_canonical_def mask_eq_exp_minus_1)
qed

lemma decode_base64url_sound:
  "decode_base64url_canonical s = Inr bs \<Longrightarrow> bs \<noteq> [] \<and> encode_base64url bs = s"
  by (auto simp: decode_base64url_canonical_def split: if_splits option.splits)

interpretation b64url: canonical_codec encode_base64url decode_base64url_canonical "\<lambda>bs. bs \<noteq> []"
  by unfold_locales (auto simp: decode_encode_base64url dest: decode_base64url_sound)

text \<open>The \<open>unreachable!\<close> arm is not reached, and every refusal carries the documented code.\<close>

lemma decode_base64url_error_code:
  "decode_base64url_canonical s = Inl e \<Longrightarrow> err_code e = ''noncanonical_base64url''"
  using decode_loop_total [of s 0 0 "[]"]
  by (auto simp: decode_base64url_canonical_def noncanonical_def split: if_splits option.splits)

end
