(* ===== verification/Package_Identity.thy ===== *)
theory Package_Identity
  imports Package_Codec
begin

text \<open>
  The lexical checks of the package updater
  (\<open>crates/rusty-quest-package-updater/src/lib.rs\<close>): bounded tokens, Android application
  ids, SHA-256 identities, canonical HTTPS origins and artifact URLs, each with the facts the
  admission logic relies on. In particular an accepted origin is a prefix of the URL that ends
  at a delimiter, so no other host can spell it.
\<close>

section \<open>Checks\<close>

definition max_jcs_safe_integer :: u64 where
  "max_jcs_safe_integer = 9007199254740991"

definition validate_jcs_integers :: "u64 list \<Rightarrow> package_update_error + unit" where
  "validate_jcs_integers values =
     reject_if (list_ex (\<lambda>n. max_jcs_safe_integer < n) values)
       (PackageUpdateError ''integer_out_of_jcs_range''
          ''signed and receipt integers must fit the RFC 8785 I-JSON safe range'')"

definition is_token_char :: "char \<Rightarrow> bool" where
  "is_token_char c = (is_ascii_alphanumeric c \<or> c = CHR ''.'' \<or> c = CHR ''_'' \<or> c = CHR ''-'')"

definition token_error :: "string \<Rightarrow> package_update_error" where
  "token_error field =
     (if field = ''key_id'' then
        PackageUpdateError ''invalid_key_id'' ''key id is not a bounded canonical token''
      else if field = ''manifest_id'' then
        PackageUpdateError ''invalid_manifest_id'' ''manifest id is not a bounded canonical token''
      else if field = ''rollout_ring'' then
        PackageUpdateError ''invalid_rollout_ring'' ''rollout ring is not a bounded canonical token''
      else if field = ''version_name'' then
        PackageUpdateError ''invalid_version_name'' ''version name is not a bounded canonical token''
      else PackageUpdateError ''invalid_token'' ''value is not a bounded canonical token'')"

definition validate_token :: "string \<Rightarrow> string \<Rightarrow> nat \<Rightarrow> nat \<Rightarrow> package_update_error + unit" where
  "validate_token field s minimum maximum =
     reject_if (length s < minimum \<or> maximum < length s \<or> \<not> list_all is_token_char s)
       (token_error field)"

definition is_package_char :: "char \<Rightarrow> bool" where
  "is_package_char c = (is_ascii_lowercase c \<or> is_ascii_digit c \<or> c = CHR ''_'')"

definition validate_package_name :: "string \<Rightarrow> package_update_error + unit" where
  "validate_package_name s =
     reject_if (255 < length s \<or> length s < 3 \<or> CHR ''.'' \<notin> set s
         \<or> list_ex (\<lambda>part. part = []
              \<or> \<not> (case part of [] \<Rightarrow> False | c # _ \<Rightarrow> is_ascii_lowercase c)
              \<or> \<not> list_all is_package_char part) (split_on CHR ''.'' s))
       (PackageUpdateError ''invalid_package_name''
          ''package name is not a canonical Android application id'')"

definition validate_sha256_identity :: "string \<Rightarrow> package_update_error + unit" where
  "validate_sha256_identity s =
     and_then
       (ok_or (PackageUpdateError ''invalid_sha256''
                 ''SHA-256 identity must use the sha256: lowercase hexadecimal form'')
          (strip_prefix ''sha256:'' s))
       (\<lambda>hex. reject_if (length hex \<noteq> 64 \<or> \<not> list_all is_lower_hex hex)
          (PackageUpdateError ''invalid_sha256''
             ''SHA-256 identity must contain exactly 64 lowercase hexadecimal digits''))"

text \<open>The characters that end the authority of a URL, and \<open>str::rsplit_once\<close>.\<close>

definition is_delimiter :: "char \<Rightarrow> bool" where
  "is_delimiter c = (c = CHR ''/'' \<or> c = CHR ''?'' \<or> c = CHR ''#'')"

definition rsplit_once :: "char \<Rightarrow> string \<Rightarrow> (string \<times> string) option" where
  "rsplit_once d s =
     (if d \<in> set s
      then Some (rev (tl (dropWhile (\<lambda>c. c \<noteq> d) (rev s))), rev (takeWhile (\<lambda>c. c \<noteq> d) (rev s)))
      else None)"

text \<open>
  Host and port of an authority; \<^const>\<open>None\<close> is the early return. A bracketed host runs to
  the first closing bracket and only a port may follow it.
\<close>

definition split_authority :: "string \<Rightarrow> (string \<times> string option) option" where
  "split_authority authority =
     (if starts_with authority ''['' then
        (if CHR '']'' \<notin> set authority then None
         else
           let close = length (takeWhile (\<lambda>c. c \<noteq> CHR '']'') authority);
               host = take (Suc close) authority;
               suffix = drop (Suc close) authority
           in if suffix = [] then Some (host, None)
              else (case strip_prefix '':'' suffix of
                      None \<Rightarrow> None
                    | Some port \<Rightarrow> Some (host, Some port)))
      else
        (case rsplit_once CHR '':'' authority of
           Some (host, port) \<Rightarrow> if CHR '':'' \<in> set host then None else Some (host, Some port)
         | None \<Rightarrow> Some (authority, None)))"

definition is_label_char :: "char \<Rightarrow> bool" where
  "is_label_char c = (is_ascii_alphanumeric c \<or> c = CHR ''-'')"

definition bad_label :: "string \<Rightarrow> bool" where
  "bad_label label = (label = [] \<or> starts_with label ''-'' \<or> ends_with label ''-''
     \<or> \<not> list_all is_label_char label)"

definition canonical_https_origin :: "string \<Rightarrow> string option" where
  "canonical_https_origin url =
     (if \<not> is_ascii url \<or> \<not> starts_with url ''https://'' \<or> CHR 0x5C \<in> set url then None
      else
        let rest = drop (length ''https://'') url;
            authority = takeWhile (\<lambda>c. \<not> is_delimiter c) rest
        in if authority = [] \<or> CHR 0x40 \<in> set authority then None
           else (case split_authority authority of
                   None \<Rightarrow> None
                 | Some (host, port) \<Rightarrow>
                     if host = [] \<or> host \<noteq> to_ascii_lowercase host
                        \<or> (\<not> starts_with host ''[''
                           \<and> list_ex bad_label (split_on CHR ''.'' host))
                     then None
                     else if port \<noteq> None then None
                     else Some (''https://'' @ host)))"

definition validate_https_origin :: "string \<Rightarrow> package_update_error + unit" where
  "validate_https_origin origin =
     reject_if (canonical_https_origin origin \<noteq> Some origin)
       (PackageUpdateError ''invalid_https_origin''
          ''origin must be canonical HTTPS scheme and host without an explicit port'')"

definition url_has_exact_origin :: "string \<Rightarrow> string \<Rightarrow> bool" where
  "url_has_exact_origin url expected_origin = (canonical_https_origin url = Some expected_origin)"

fun contains_str :: "string \<Rightarrow> string \<Rightarrow> bool" where
  "contains_str [] p = (p = [])"
| "contains_str (c # s) p = (starts_with (c # s) p \<or> contains_str s p)"

definition validate_https_url :: "string \<Rightarrow> package_update_error + unit" where
  "validate_https_url url =
     (let after_scheme = drop (length ''https://'') url;
          path = dropWhile (\<lambda>c. \<not> is_delimiter c) after_scheme
      in first_err
        [reject_if (2048 < length url \<or> \<not> is_ascii url \<or> CHR 0x5C \<in> set url
             \<or> CHR ''#'' \<in> set url \<or> CHR ''?'' \<in> set url \<or> CHR ''%'' \<in> set url
             \<or> list_ex (\<lambda>c. is_ascii_control c \<or> c = CHR '' '') url
             \<or> \<not> starts_with url ''https://'' \<or> canonical_https_origin url = None)
           (PackageUpdateError ''invalid_apk_url''
              ''APK URL must be a bounded absolute HTTPS URL without fragment or userinfo''),
         reject_if (\<not> list_ex is_delimiter after_scheme)
           (PackageUpdateError ''invalid_apk_url''
              ''APK URL must contain an absolute nonempty path''),
         reject_if (take 1 path \<noteq> ''/'')
           (PackageUpdateError ''invalid_apk_url''
              ''APK URL must contain an absolute path before any query''),
         reject_if (path = ''/'' \<or> starts_with path ''//'' \<or> contains_str path ''//''
             \<or> list_ex (\<lambda>segment. segment = ''.'' \<or> segment = ''..'') (split_on CHR ''/'' path))
           (PackageUpdateError ''invalid_apk_url''
              ''APK URL path must be canonical, nonempty, and must not traverse'')])"

section \<open>Facts\<close>

lemma validate_jcs_integers_iff [simp]:
  "validate_jcs_integers ns = Inr u \<longleftrightarrow> list_all (\<lambda>n. n \<le> max_jcs_safe_integer) ns"
  by (auto simp: validate_jcs_integers_def reject_if_eq_Inr list_ex_iff list_all_iff)

lemma validate_token_iff [simp]:
  "validate_token f s lo hi = Inr u \<longleftrightarrow> lo \<le> length s \<and> length s \<le> hi \<and> list_all is_token_char s"
  by (auto simp: validate_token_def reject_if_eq_Inr)

definition sha256_shaped :: "string \<Rightarrow> bool" where
  "sha256_shaped s = (\<exists>hex. s = ''sha256:'' @ hex \<and> length hex = 64 \<and> list_all is_lower_hex hex)"

lemma validate_sha256_identity_iff [simp]:
  "validate_sha256_identity s = Inr u \<longleftrightarrow> sha256_shaped s"
  by (auto simp: validate_sha256_identity_def sha256_shaped_def result_simps strip_prefix_eq_Some)

lemma validate_https_origin_iff [simp]:
  "validate_https_origin s = Inr u \<longleftrightarrow> canonical_https_origin s = Some s"
  by (simp add: validate_https_origin_def reject_if_eq_Inr)

lemma rsplit_once_host_colon: "rsplit_once d s = Some (h, p) \<Longrightarrow> d \<in> set s"
  by (simp add: rsplit_once_def split: if_splits)

text \<open>Without a port the host is the whole authority.\<close>

lemma split_authority_no_port:
  assumes "split_authority a = Some (host, None)"
  shows "host = a"
proof (cases "starts_with a ''[''")
  case True
  with assms show ?thesis
    by (auto simp: split_authority_def Let_def split: if_splits option.splits)
next
  case False
  with assms show ?thesis
    by (auto simp: split_authority_def split: if_splits option.splits)
qed

lemma canonical_https_originD:
  assumes "canonical_https_origin url = Some origin"
  obtains host tail where
    "origin = ''https://'' @ host" "url = origin @ tail"
    "host \<noteq> []" "tail = [] \<or> is_delimiter (hd tail)" "list_all (\<lambda>c. \<not> is_delimiter c) host"
    "CHR 0x40 \<notin> set host" "is_ascii url" "CHR 0x5C \<notin> set url"
    "split_authority host = Some (host, None)"
    "host = to_ascii_lowercase host"
    "starts_with host ''['' \<or> \<not> list_ex bad_label (split_on CHR ''.'' host)"
proof -
  define rest where "rest = drop (length ''https://'') url"
  define host where "host = takeWhile (\<lambda>c. \<not> is_delimiter c) rest"
  obtain h port where
    guard: "is_ascii url" "starts_with url ''https://''" "CHR 0x5C \<notin> set url"
    and auth: "host \<noteq> []" "CHR 0x40 \<notin> set host" "split_authority host = Some (h, port)"
    and canon: "h = to_ascii_lowercase h"
      "starts_with h ''['' \<or> \<not> list_ex bad_label (split_on CHR ''.'' h)"
    and none: "port = None" and origin: "origin = ''https://'' @ h"
    using assms
    by (auto simp: canonical_https_origin_def Let_def host_def rest_def
        split: if_splits option.splits)
  have h: "h = host"
    using auth(3) none split_authority_no_port by blast
  have "url = ''https://'' @ rest"
    using guard(2) strip_prefix_eq_Some [of "''https://''" url rest]
    by (simp add: rest_def strip_prefix_def)
  moreover define tail where "tail = dropWhile (\<lambda>c. \<not> is_delimiter c) rest"
  ultimately have "url = origin @ tail"
    by (simp add: origin h host_def tail_def)
  moreover have "tail = [] \<or> is_delimiter (hd tail)"
    using hd_dropWhile [of "\<lambda>c. \<not> is_delimiter c" rest] unfolding tail_def by blast
  moreover have "list_all (\<lambda>c. \<not> is_delimiter c) host"
    by (auto simp: host_def list_all_iff dest: set_takeWhileD)
  ultimately show ?thesis
    using that [of host tail] auth guard canon none h origin by simp
qed

lemma is_ascii_append [simp]: "is_ascii (a @ b) \<longleftrightarrow> is_ascii a \<and> is_ascii b"
  by (simp add: is_ascii_def)

text \<open>An accepted origin is itself canonical: canonicalisation is idempotent.\<close>

lemma canonical_https_origin_idem:
  assumes "canonical_https_origin url = Some origin"
  shows "canonical_https_origin origin = Some origin"
  using assms
proof (rule canonical_https_originD)
  fix host tail
  assume o: "origin = ''https://'' @ host" "url = origin @ tail"
    and nd: "list_all (\<lambda>c. \<not> is_delimiter c) host"
    and rest: "host \<noteq> []" "CHR 0x40 \<notin> set host" "is_ascii url" "CHR 0x5C \<notin> set url"
      "split_authority host = Some (host, None)" "host = to_ascii_lowercase host"
      "starts_with host ''['' \<or> \<not> list_ex bad_label (split_on CHR ''.'' host)"
  have whole: "takeWhile (\<lambda>c. \<not> is_delimiter c) host = host"
    using nd by (simp add: takeWhile_eq_all_conv list_all_iff)
  have "is_ascii origin" "CHR 0x5C \<notin> set origin" "starts_with origin ''https://''"
    using rest(3,4) o by (simp_all add: starts_with_def is_ascii_def)
  moreover have "drop (length ''https://'') origin = host"
    by (simp add: o(1))
  ultimately show ?thesis
    using rest unfolding canonical_https_origin_def Let_def
    by (simp add: whole o(1) del: length_Cons)
qed

text \<open>Two hosts cannot share an origin: the origin is determined by the URL up to a delimiter.\<close>

lemma canonical_https_origin_extend:
  assumes "canonical_https_origin origin = Some origin"
    and "tail = [] \<or> is_delimiter (hd tail)" "is_ascii tail" "CHR 0x5C \<notin> set tail"
  shows "canonical_https_origin (origin @ tail) = Some origin"
  using assms(1)
proof (rule canonical_https_originD)
  fix host t
  assume o: "origin = ''https://'' @ host" "origin = origin @ t"
    and nd: "list_all (\<lambda>c. \<not> is_delimiter c) host"
    and rest: "host \<noteq> []" "CHR 0x40 \<notin> set host" "is_ascii origin" "CHR 0x5C \<notin> set origin"
      "split_authority host = Some (host, None)" "host = to_ascii_lowercase host"
      "starts_with host ''['' \<or> \<not> list_ex bad_label (split_on CHR ''.'' host)"
  have whole: "takeWhile (\<lambda>c. \<not> is_delimiter c) (host @ tail) = host"
    using nd assms(2) by (cases tail) (simp_all add: takeWhile_append takeWhile_eq_all_conv list_all_iff)
  have "is_ascii (origin @ tail)" "CHR 0x5C \<notin> set (origin @ tail)"
    "starts_with (origin @ tail) ''https://''"
    using rest(3,4) assms(3,4) o(1) by (simp_all add: starts_with_def is_ascii_def)
  moreover have "drop (length ''https://'') (origin @ tail) = host @ tail"
    by (simp add: o(1))
  ultimately show ?thesis
    using rest unfolding canonical_https_origin_def Let_def
    by (simp add: whole o(1) del: length_Cons)
qed

lemma url_has_exact_origin_iff:
  "url_has_exact_origin url origin \<longleftrightarrow>
     canonical_https_origin origin = Some origin
     \<and> (\<exists>tail. url = origin @ tail \<and> (tail = [] \<or> is_delimiter (hd tail))
          \<and> is_ascii tail \<and> CHR 0x5C \<notin> set tail)"
proof
  assume url: "url_has_exact_origin url origin"
  from url [unfolded url_has_exact_origin_def] show
    "canonical_https_origin origin = Some origin
     \<and> (\<exists>tail. url = origin @ tail \<and> (tail = [] \<or> is_delimiter (hd tail))
          \<and> is_ascii tail \<and> CHR 0x5C \<notin> set tail)"
    by (rule canonical_https_originD)
      (use url canonical_https_origin_idem [of url origin] in
        \<open>auto simp: url_has_exact_origin_def is_ascii_def\<close>)
qed (auto simp: url_has_exact_origin_def intro: canonical_https_origin_extend)

end
