(* ===== verification/Package_Updater.thy ===== *)
theory Package_Updater
  imports Package_Identity
begin

text \<open>
  Signed package-update admission
  (\<open>crates/rusty-quest-package-updater/src/lib.rs\<close>): the closed key registry, the caller's
  policy, the persisted anti-rollback state, \<open>verify_manifest\<close> and \<open>commit_installed_apk\<close>.
  The JSON parser, the JCS serializer, SHA-256 and Ed25519 are third-party code and are
  the fields of a parameter record; nothing is assumed of them unless a lemma says so.
\<close>

section \<open>Data\<close>

definition envelope_schema :: string where
  "envelope_schema = ''rusty.quest.package_update_manifest_envelope.v1''"

definition manifest_schema :: string where
  "manifest_schema = ''rusty.quest.package_update_manifest.v1''"

definition receipt_schema :: string where
  "receipt_schema = ''rusty.quest.package_update_receipt.v1''"

definition rollback_state_schema :: string where
  "rollback_state_schema = ''rusty.quest.package_update_rollback_state.v1''"

definition signature_algorithm :: string where
  "signature_algorithm = ''Ed25519''"

definition signature_domain :: bytes where
  "signature_domain = map of_char ''rusty.quest.package_update_manifest.v1'' @ [0]"

definition labs_site_base_path :: string where
  "labs_site_base_path = ''rusty-quest''"

record artifact =
  art_package_name :: string
  art_version_code :: u64
  art_version_name :: string
  art_apk_url :: string
  art_apk_sha256 :: string
  art_apk_size_bytes :: u64
  art_signer_sha256 :: string

record manifest =
  mf_schema :: string
  mf_manifest_id :: string
  mf_sequence :: u64
  mf_issued_at_ms :: u64
  mf_expires_at_ms :: u64
  mf_channel :: string
  mf_rollout_ring :: string
  mf_artifact :: artifact

record envelope =
  env_schema :: string
  env_key_id :: string
  env_algorithm :: string
  env_signature :: string
  env_signed :: manifest

record release_key_record =
  rk_key_id :: string
  rk_public_key :: string

record policy =
  pol_channel :: string
  pol_https_origin :: string
  pol_site_base_path :: string
  pol_package_name :: string
  pol_rollout_ring :: string
  pol_signer_sha256 :: string
  pol_key_id :: string
  pol_public_key :: string
  pol_installed_version_code :: u64
  pol_minimum_target_version_code :: u64
  pol_maximum_target_version_code :: u64
  pol_maximum_apk_size_bytes :: u64
  pol_maximum_manifest_validity_ms :: u64
  pol_maximum_future_issue_skew_ms :: u64

record checkpoint =
  cp_channel :: string
  cp_package_name :: string
  cp_rollout_ring :: string
  cp_signer_sha256 :: string
  cp_key_id :: string
  cp_public_key :: string
  cp_https_origin :: string
  cp_sequence :: u64
  cp_version_code :: u64
  cp_signed_manifest_sha256 :: string

record rollback_state =
  rs_schema :: string
  rs_checkpoints :: "checkpoint list"

record observed_apk =
  obs_package_name :: string
  obs_version_code :: u64
  obs_signer_sha256 :: string
  obs_apk_sha256 :: string
  obs_apk_size_bytes :: u64

datatype decision = Accepted | Rejected

datatype receipt_stage = ManifestAdmission | InstallCommit

record receipt =
  rc_schema :: string
  rc_stage :: receipt_stage
  rc_decision :: decision
  rc_code :: string
  rc_observed_at_ms :: u64
  rc_envelope_sha256 :: "string option"
  rc_signed_manifest_sha256 :: "string option"
  rc_key_id :: "string option"
  rc_manifest_id :: "string option"
  rc_channel :: "string option"
  rc_package_name :: "string option"
  rc_rollout_ring :: "string option"
  rc_sequence :: "u64 option"
  rc_version_code :: "u64 option"
  rc_prior_checkpoint :: "checkpoint option"
  rc_accepted_checkpoint :: "checkpoint option"
  rc_state_changed :: bool

record verified_update =
  vu_key_id :: string
  vu_public_key :: string
  vu_https_origin :: string
  vu_signed_manifest_sha256 :: string
  vu_manifest :: manifest

record admission =
  adm_receipt :: receipt
  adm_verified :: "verified_update option"

text \<open>
  Third-party operations: \<open>serde_json::from_slice\<close> at the envelope type,
  \<open>serde_jcs::to_vec\<close> at the manifest type, \<open>Sha256::digest\<close>, and
  \<open>VerifyingKey::{from_bytes, to_bytes, verify_strict}\<close> of \<open>ed25519_dalek\<close>.
\<close>

record 'k externals =
  x_parse_envelope :: "bytes \<Rightarrow> envelope option"
  x_jcs :: "manifest \<Rightarrow> bytes option"
  x_sha256 :: "bytes \<Rightarrow> bytes"
  x_key_from_bytes :: "bytes \<Rightarrow> 'k option"
  x_key_to_bytes :: "'k \<Rightarrow> bytes"
  x_verify_strict :: "'k \<Rightarrow> bytes \<Rightarrow> bytes \<Rightarrow> bool"

definition sha256_identity :: "'k externals \<Rightarrow> bytes \<Rightarrow> string" where
  "sha256_identity x bs = ''sha256:'' @ lower_hex (x_sha256 x bs)"

section \<open>The closed key registry\<close>

text \<open>\<open>ReleaseKeyRegistry::from_records\<close>: the loop state is the key map and the key material.\<close>

fun registry_loop ::
  "'k externals \<Rightarrow> (string, 'k) btree \<Rightarrow> bytes list \<Rightarrow> release_key_record list
     \<Rightarrow> package_update_error + (string, 'k) btree" where
  "registry_loop x keys key_material [] = Inr keys"
| "registry_loop x keys key_material (record # records) =
     and_then (validate_token ''key_id'' (rk_key_id record) 1 96) (\<lambda>_.
     and_then (decode_base64url_canonical (rk_public_key record)) (\<lambda>key_bytes.
     and_then (reject_if (length key_bytes \<noteq> 32)
       (PackageUpdateError ''invalid_release_key''
          ''release public key must contain exactly 32 bytes'')) (\<lambda>_.
     and_then (ok_or (PackageUpdateError ''invalid_release_key''
          ''release public key is not a valid Ed25519 key'')
        (x_key_from_bytes x key_bytes)) (\<lambda>key.
     and_then (reject_if (bt_contains (rk_key_id record) keys)
       (PackageUpdateError ''duplicate_release_key''
          ''release key identifiers must be unique'')) (\<lambda>_.
     and_then (reject_if (key_bytes \<in> set key_material)
       (PackageUpdateError ''duplicate_release_key_material''
          ''one release public key must not be registered under multiple identifiers'')) (\<lambda>_.
     registry_loop x (bt_insert (rk_key_id record) key keys) (key_bytes # key_material) records))))))"

definition registry_from_records ::
  "'k externals \<Rightarrow> release_key_record list \<Rightarrow> package_update_error + (string, 'k) btree" where
  "registry_from_records x records =
     and_then (registry_loop x [] [] records) (\<lambda>keys.
       if keys = []
       then Inl (PackageUpdateError ''empty_release_key_registry''
                   ''at least one known release key is required'')
       else Inr keys)"

section \<open>Policy\<close>

definition public_key_check :: "string \<Rightarrow> package_update_error \<Rightarrow> package_update_error + unit" where
  "public_key_check public_key e =
     and_then (decode_base64url_canonical public_key) (\<lambda>bs. reject_if (length bs \<noteq> 32) e)"

definition policy_validate :: "policy \<Rightarrow> package_update_error + unit" where
  "policy_validate p = first_err
     [validate_https_origin (pol_https_origin p),
      reject_if (pol_site_base_path p \<noteq> labs_site_base_path)
        (PackageUpdateError ''invalid_site_base_path''
           ''policy site base path must be the exact canonical rusty-quest project path''),
      validate_token ''channel'' (pol_channel p) 1 32,
      validate_package_name (pol_package_name p),
      validate_token ''rollout_ring'' (pol_rollout_ring p) 1 32,
      validate_sha256_identity (pol_signer_sha256 p),
      validate_token ''key_id'' (pol_key_id p) 1 96,
      public_key_check (pol_public_key p)
        (PackageUpdateError ''invalid_release_key''
           ''policy release public key must contain exactly 32 bytes''),
      reject_if (pol_minimum_target_version_code p = 0
          \<or> pol_maximum_target_version_code p < pol_minimum_target_version_code p
          \<or> pol_maximum_apk_size_bytes p = 0
          \<or> pol_maximum_manifest_validity_ms p = 0
          \<or> list_ex (\<lambda>n. max_jcs_safe_integer < n)
              [pol_installed_version_code p, pol_minimum_target_version_code p,
               pol_maximum_target_version_code p, pol_maximum_apk_size_bytes p,
               pol_maximum_manifest_validity_ms p, pol_maximum_future_issue_skew_ms p])
        (PackageUpdateError ''invalid_policy''
           ''version, size, and validity policy bounds must be positive and ordered'')]"

section \<open>Rollback state\<close>

definition default_rollback_state :: rollback_state where
  "default_rollback_state = \<lparr>rs_schema = rollback_state_schema, rs_checkpoints = []\<rparr>"

type_synonym tuple_key = "string \<times> string \<times> string \<times> string \<times> string \<times> string \<times> string"

definition checkpoint_key :: "checkpoint \<Rightarrow> tuple_key" where
  "checkpoint_key c =
     (cp_channel c, cp_package_name c, cp_rollout_ring c, cp_signer_sha256 c,
      cp_key_id c, cp_public_key c, cp_https_origin c)"

definition checkpoint_checks :: "checkpoint \<Rightarrow> (package_update_error + unit) list" where
  "checkpoint_checks c =
     [validate_package_name (cp_package_name c),
      validate_token ''channel'' (cp_channel c) 1 32,
      validate_token ''rollout_ring'' (cp_rollout_ring c) 1 32,
      validate_sha256_identity (cp_signer_sha256 c),
      validate_token ''key_id'' (cp_key_id c) 1 96,
      public_key_check (cp_public_key c)
        (PackageUpdateError ''invalid_rollback_checkpoint''
           ''rollback public key must contain exactly 32 bytes''),
      validate_https_origin (cp_https_origin c),
      validate_sha256_identity (cp_signed_manifest_sha256 c),
      reject_if (cp_sequence c = 0 \<or> cp_version_code c = 0)
        (PackageUpdateError ''invalid_rollback_checkpoint''
           ''rollback sequence and version must be positive''),
      validate_jcs_integers [cp_sequence c, cp_version_code c]]"

fun validate_checkpoints ::
  "tuple_key option \<Rightarrow> tuple_key list \<Rightarrow> checkpoint list \<Rightarrow> package_update_error + unit" where
  "validate_checkpoints prior_key seen [] = Inr ()"
| "validate_checkpoints prior_key seen (c # cs) =
     and_then (first_err (checkpoint_checks c)) (\<lambda>_.
     and_then (reject_if ((case prior_key of None \<Rightarrow> False | Some prior \<Rightarrow> checkpoint_key c \<le> prior)
         \<or> checkpoint_key c \<in> set seen)
       (PackageUpdateError ''noncanonical_rollback_state''
          ''rollback checkpoints must be a strict full-tuple sorted set'')) (\<lambda>_.
     validate_checkpoints (Some (checkpoint_key c)) (checkpoint_key c # seen) cs))"

definition rollback_validate :: "rollback_state \<Rightarrow> package_update_error + unit" where
  "rollback_validate st =
     and_then (reject_if (rs_schema st \<noteq> rollback_state_schema)
       (PackageUpdateError ''wrong_rollback_state_schema''
          ''rollback state schema is not supported'')) (\<lambda>_.
     validate_checkpoints None [] (rs_checkpoints st))"

text \<open>\<open>PackageUpdateRollbackState::checkpoint\<close>: the first entry with the full tuple.\<close>

definition find_checkpoint :: "rollback_state \<Rightarrow> tuple_key \<Rightarrow> checkpoint option" where
  "find_checkpoint st key = List.find (\<lambda>c. checkpoint_key c = key) (rs_checkpoints st)"

fun replace_first :: "('a \<Rightarrow> bool) \<Rightarrow> 'a \<Rightarrow> 'a list \<Rightarrow> 'a list" where
  "replace_first P y [] = []"
| "replace_first P y (x # xs) = (if P x then y # xs else x # replace_first P y xs)"

text \<open>\<open>PackageUpdateRollbackState::apply\<close>: replace in place, or push and stable-sort.\<close>

definition rollback_apply :: "rollback_state \<Rightarrow> checkpoint \<Rightarrow> rollback_state" where
  "rollback_apply st c =
     (if find_checkpoint st (checkpoint_key c) \<noteq> None
      then st\<lparr>rs_checkpoints :=
             replace_first (\<lambda>e. checkpoint_key e = checkpoint_key c) c (rs_checkpoints st)\<rparr>
      else st\<lparr>rs_checkpoints := sort_key checkpoint_key (rs_checkpoints st @ [c])\<rparr>)"

section \<open>Manifest checks\<close>

definition validate_manifest_fields :: "manifest \<Rightarrow> package_update_error + unit" where
  "validate_manifest_fields m = first_err
     [validate_token ''manifest_id'' (mf_manifest_id m) 1 128,
      validate_token ''channel'' (mf_channel m) 1 32,
      validate_token ''rollout_ring'' (mf_rollout_ring m) 1 32,
      reject_if (mf_sequence m = 0)
        (PackageUpdateError ''invalid_sequence'' ''manifest sequence must be positive''),
      validate_package_name (art_package_name (mf_artifact m)),
      validate_token ''version_name'' (art_version_name (mf_artifact m)) 1 64,
      reject_if (art_version_code (mf_artifact m) = 0)
        (PackageUpdateError ''invalid_version'' ''target version code must be positive''),
      validate_sha256_identity (art_apk_sha256 (mf_artifact m)),
      validate_sha256_identity (art_signer_sha256 (mf_artifact m)),
      reject_if (art_apk_size_bytes (mf_artifact m) = 0)
        (PackageUpdateError ''invalid_apk_size'' ''APK size must be positive''),
      validate_jcs_integers
        [mf_sequence m, mf_issued_at_ms m, mf_expires_at_ms m,
         art_version_code (mf_artifact m), art_apk_size_bytes (mf_artifact m)],
      validate_https_url (art_apk_url (mf_artifact m))]"

definition validate_time :: "manifest \<Rightarrow> policy \<Rightarrow> u64 \<Rightarrow> package_update_error + unit" where
  "validate_time m p now_ms =
     and_then (ok_or (PackageUpdateError ''invalid_validity_window''
                        ''manifest expiry must be later than issue time'')
                 (checked_sub (mf_expires_at_ms m) (mf_issued_at_ms m))) (\<lambda>validity.
     first_err
       [reject_if (validity = 0 \<or> pol_maximum_manifest_validity_ms p < validity)
          (PackageUpdateError ''invalid_validity_window''
             ''manifest validity exceeds the policy maximum''),
        reject_if (mf_expires_at_ms m \<le> now_ms)
          (PackageUpdateError ''manifest_expired'' ''manifest has expired''),
        reject_if (saturating_add now_ms (pol_maximum_future_issue_skew_ms p) < mf_issued_at_ms m)
          (PackageUpdateError ''manifest_from_future''
             ''manifest issue time exceeds allowed clock skew'')])"

definition expected_apk_url :: "policy \<Rightarrow> string \<Rightarrow> string \<Rightarrow> string" where
  "expected_apk_url p apk_digest version_name =
     pol_https_origin p @ ''/'' @ pol_site_base_path p
     @ ''/package-updates/rusty-kiosk/labs/artifacts/sha256/'' @ apk_digest
     @ ''/rusty-kiosk-'' @ version_name @ ''.apk''"

definition validate_policy :: "manifest \<Rightarrow> policy \<Rightarrow> package_update_error + unit" where
  "validate_policy m p =
     (let artifact = mf_artifact m in
      first_err
       [reject_if (mf_channel m \<noteq> pol_channel p)
          (PackageUpdateError ''channel_mismatch''
             ''manifest channel does not match the closed channel tuple''),
        reject_if (art_package_name artifact \<noteq> pol_package_name p)
          (PackageUpdateError ''package_mismatch''
             ''manifest package does not match the exact policy package''),
        reject_if (mf_rollout_ring m \<noteq> pol_rollout_ring p)
          (PackageUpdateError ''rollout_ring_mismatch''
             ''manifest rollout ring does not match the exact policy ring''),
        reject_if (art_signer_sha256 artifact \<noteq> pol_signer_sha256 p)
          (PackageUpdateError ''signer_mismatch''
             ''APK signer does not match the exact policy signer''),
        reject_if (art_version_code artifact \<le> pol_installed_version_code p
            \<or> art_version_code artifact < pol_minimum_target_version_code p
            \<or> pol_maximum_target_version_code p < art_version_code artifact)
          (PackageUpdateError ''version_policy_rejected''
             ''target version is not a strictly newer version inside policy bounds''),
        reject_if (pol_maximum_apk_size_bytes p < art_apk_size_bytes artifact)
          (PackageUpdateError ''apk_size_policy_rejected''
             ''APK exceeds the policy size limit''),
        reject_if (\<not> url_has_exact_origin (art_apk_url artifact) (pol_https_origin p))
          (PackageUpdateError ''origin_mismatch''
             ''APK URL does not use the exact configured HTTPS origin''),
        and_then (ok_or (PackageUpdateError ''invalid_sha256''
                           ''APK SHA-256 identity is not canonical'')
                    (strip_prefix ''sha256:'' (art_apk_sha256 artifact))) (\<lambda>apk_digest.
          reject_if (art_apk_url artifact
              \<noteq> expected_apk_url p apk_digest (art_version_name artifact))
            (PackageUpdateError ''apk_url_mismatch''
               ''APK URL does not match the exact content-addressed Labs artifact path''))])"

definition validate_sequence :: "manifest \<Rightarrow> checkpoint option \<Rightarrow> package_update_error + unit" where
  "validate_sequence m prior =
     (case prior of
        None \<Rightarrow> Inr ()
      | Some c \<Rightarrow> first_err
          [reject_if (mf_sequence m \<le> cp_sequence c)
             (PackageUpdateError ''sequence_rollback''
                ''manifest sequence does not advance the persisted checkpoint''),
           reject_if (art_version_code (mf_artifact m) \<le> cp_version_code c)
             (PackageUpdateError ''version_rollback''
                ''target version does not advance the persisted checkpoint'')])"

definition validate_observed_apk :: "artifact \<Rightarrow> observed_apk \<Rightarrow> package_update_error + unit" where
  "validate_observed_apk expected observed = first_err
     [validate_package_name (obs_package_name observed),
      validate_sha256_identity (obs_signer_sha256 observed),
      validate_sha256_identity (obs_apk_sha256 observed),
      validate_jcs_integers [obs_version_code observed, obs_apk_size_bytes observed],
      reject_if (obs_package_name observed \<noteq> art_package_name expected)
        (PackageUpdateError ''observed_package_mismatch''
           ''observed APK package differs from the signed manifest''),
      reject_if (obs_version_code observed \<noteq> art_version_code expected)
        (PackageUpdateError ''observed_version_mismatch''
           ''observed APK version differs from the signed manifest''),
      reject_if (obs_signer_sha256 observed \<noteq> art_signer_sha256 expected)
        (PackageUpdateError ''observed_signer_mismatch''
           ''observed APK signer differs from the signed manifest''),
      reject_if (obs_apk_sha256 observed \<noteq> art_apk_sha256 expected)
        (PackageUpdateError ''observed_hash_mismatch''
           ''observed APK hash differs from the signed manifest''),
      reject_if (obs_apk_size_bytes observed \<noteq> art_apk_size_bytes expected)
        (PackageUpdateError ''observed_size_mismatch''
           ''observed APK size differs from the signed manifest'')]"

section \<open>Authentication\<close>

definition canonicalization_failed :: package_update_error where
  "canonicalization_failed = PackageUpdateError ''canonicalization_failed''
     ''signed manifest could not be JCS canonicalized''"

definition canonical_signed_manifest :: "'k externals \<Rightarrow> manifest \<Rightarrow> package_update_error + bytes" where
  "canonical_signed_manifest x m = ok_or canonicalization_failed (x_jcs x m)"

definition manifest_signing_bytes :: "'k externals \<Rightarrow> manifest \<Rightarrow> package_update_error + bytes" where
  "manifest_signing_bytes x m =
     and_then (canonical_signed_manifest x m) (\<lambda>canonical. Inr (signature_domain @ canonical))"

definition unknown_release_key :: package_update_error where
  "unknown_release_key = PackageUpdateError ''unknown_release_key''
     ''manifest key id is absent from the known-key registry''"

definition authenticate_parsed_envelope ::
  "'k externals \<Rightarrow> envelope \<Rightarrow> bytes \<Rightarrow> (string, 'k) btree \<Rightarrow> package_update_error + unit" where
  "authenticate_parsed_envelope x env canonical keys =
     and_then (first_err
       [reject_if (env_schema env \<noteq> envelope_schema \<or> mf_schema (env_signed env) \<noteq> manifest_schema)
          (PackageUpdateError ''wrong_schema''
             ''envelope or signed manifest schema is not supported''),
        reject_if (env_algorithm env \<noteq> signature_algorithm)
          (PackageUpdateError ''unsupported_algorithm''
             ''only exact Ed25519 signatures are supported''),
        validate_token ''key_id'' (env_key_id env) 1 96,
        validate_manifest_fields (env_signed env)]) (\<lambda>_.
     and_then (ok_or unknown_release_key (bt_get keys (env_key_id env))) (\<lambda>key.
     and_then (decode_base64url_canonical (env_signature env)) (\<lambda>signature.
     and_then (reject_if (length signature \<noteq> 64)
       (PackageUpdateError ''invalid_signature_encoding''
          ''Ed25519 signature must contain exactly 64 bytes'')) (\<lambda>_.
     reject_if (\<not> x_verify_strict x key (signature_domain @ canonical) signature)
       (PackageUpdateError ''signature_verification_failed''
          ''manifest signature does not verify under the selected release key'')))))"

definition authenticate_manifest ::
  "'k externals \<Rightarrow> bytes \<Rightarrow> (string, 'k) btree \<Rightarrow> package_update_error + envelope" where
  "authenticate_manifest x envelope_json keys =
     and_then (ok_or (PackageUpdateError ''malformed_envelope'' ''manifest envelope is malformed'')
                 (x_parse_envelope x envelope_json)) (\<lambda>env.
     and_then (canonical_signed_manifest x (env_signed env)) (\<lambda>canonical.
     and_then (authenticate_parsed_envelope x env canonical keys) (\<lambda>_. Inr env)))"

definition envelope_tuple :: "envelope \<Rightarrow> policy \<Rightarrow> tuple_key" where
  "envelope_tuple env p =
     (mf_channel (env_signed env), art_package_name (mf_artifact (env_signed env)),
      mf_rollout_ring (env_signed env), art_signer_sha256 (mf_artifact (env_signed env)),
      env_key_id env, pol_public_key p, pol_https_origin p)"

definition verify_parsed_envelope ::
  "'k externals \<Rightarrow> envelope \<Rightarrow> bytes option \<Rightarrow> (string, 'k) btree \<Rightarrow> policy \<Rightarrow> rollback_state
     \<Rightarrow> u64 \<Rightarrow> package_update_error + unit" where
  "verify_parsed_envelope x env canonical keys p st now_ms =
     and_then (policy_validate p) (\<lambda>_.
     and_then (rollback_validate st) (\<lambda>_.
     and_then (ok_or canonicalization_failed canonical) (\<lambda>canonical.
     and_then (authenticate_parsed_envelope x env canonical keys) (\<lambda>_.
     and_then (reject_if (env_key_id env \<noteq> pol_key_id p)
       (PackageUpdateError ''key_id_mismatch''
          ''manifest key id does not match the closed channel tuple'')) (\<lambda>_.
     and_then (ok_or unknown_release_key (bt_get keys (env_key_id env))) (\<lambda>key.
     first_err
       [reject_if (encode_base64url (x_key_to_bytes x key) \<noteq> pol_public_key p)
          (PackageUpdateError ''public_key_mismatch''
             ''manifest verification key does not match the closed channel tuple''),
        validate_time (env_signed env) p now_ms,
        validate_policy (env_signed env) p,
        validate_sequence (env_signed env) (find_checkpoint st (envelope_tuple env p))]))))))"

section \<open>Receipts\<close>

definition receipt_base ::
  "receipt_stage \<Rightarrow> u64 \<Rightarrow> string option \<Rightarrow> string option \<Rightarrow> string option \<Rightarrow> manifest option
     \<Rightarrow> checkpoint option \<Rightarrow> receipt" where
  "receipt_base stage observed_at_ms envelope_sha256 signed_sha256 key_id m prior =
     \<lparr>rc_schema = receipt_schema, rc_stage = stage, rc_decision = Rejected,
      rc_code = ''unresolved'', rc_observed_at_ms = observed_at_ms,
      rc_envelope_sha256 = envelope_sha256, rc_signed_manifest_sha256 = signed_sha256,
      rc_key_id = key_id,
      rc_manifest_id = map_option mf_manifest_id m,
      rc_channel = map_option mf_channel m,
      rc_package_name = map_option (\<lambda>m. art_package_name (mf_artifact m)) m,
      rc_rollout_ring = map_option mf_rollout_ring m,
      rc_sequence = map_option mf_sequence m,
      rc_version_code = map_option (\<lambda>m. art_version_code (mf_artifact m)) m,
      rc_prior_checkpoint = prior, rc_accepted_checkpoint = None, rc_state_changed = False\<rparr>"

definition rejected_receipt :: "receipt \<Rightarrow> string \<Rightarrow> receipt" where
  "rejected_receipt r code = r\<lparr>rc_decision := Rejected, rc_code := code\<rparr>"

definition accepted_receipt :: "receipt \<Rightarrow> string \<Rightarrow> checkpoint option \<Rightarrow> receipt" where
  "accepted_receipt r code c =
     r\<lparr>rc_decision := Accepted, rc_code := code, rc_state_changed := c \<noteq> None,
       rc_accepted_checkpoint := c\<rparr>"

definition rejected_admission ::
  "string \<Rightarrow> u64 \<Rightarrow> string \<Rightarrow> string option \<Rightarrow> string option \<Rightarrow> receipt" where
  "rejected_admission code observed_at_ms envelope_sha256 signed_sha256 key_id =
     rejected_receipt
       (receipt_base ManifestAdmission observed_at_ms (Some envelope_sha256) signed_sha256 key_id
          None None) code"

section \<open>Admission and commit\<close>

text \<open>
  \<open>verify_manifest\<close>. The left injection is the panic of the \<open>expect\<close> on the digest; it is
  shown unreachable below.
\<close>

definition verify_manifest ::
  "'k externals \<Rightarrow> bytes \<Rightarrow> (string, 'k) btree \<Rightarrow> policy \<Rightarrow> rollback_state \<Rightarrow> u64
     \<Rightarrow> string + admission" where
  "verify_manifest x envelope_json keys p st now_ms =
     (let envelope_sha256 = sha256_identity x envelope_json in
      if max_jcs_safe_integer < now_ms then
        Inr \<lparr>adm_receipt = rejected_admission ''observation_time_out_of_range'' 0 envelope_sha256
                None None,
             adm_verified = None\<rparr>
      else (case x_parse_envelope x envelope_json of
        None \<Rightarrow>
          Inr \<lparr>adm_receipt = rejected_admission ''malformed_envelope'' now_ms envelope_sha256
                  None None,
               adm_verified = None\<rparr>
      | Some env \<Rightarrow>
          let canonical = x_jcs x (env_signed env);
              signed_digest = map_option (sha256_identity x) canonical;
              prior = find_checkpoint st (envelope_tuple env p);
              base = receipt_base ManifestAdmission now_ms (Some envelope_sha256) signed_digest
                       (Some (env_key_id env)) (Some (env_signed env)) prior
          in (case verify_parsed_envelope x env canonical keys p st now_ms of
            Inr _ \<Rightarrow> (case signed_digest of
                None \<Rightarrow> Inl ''successful canonicalization always has a digest''
              | Some digest \<Rightarrow>
                  Inr \<lparr>adm_receipt = accepted_receipt base ''manifest_accepted'' None,
                       adm_verified = Some
                         \<lparr>vu_key_id = env_key_id env, vu_public_key = pol_public_key p,
                          vu_https_origin = pol_https_origin p,
                          vu_signed_manifest_sha256 = digest,
                          vu_manifest = env_signed env\<rparr>\<rparr>)
          | Inl error \<Rightarrow>
              Inr \<lparr>adm_receipt = rejected_receipt base (err_code error), adm_verified = None\<rparr>)))"

definition verified_tuple :: "verified_update \<Rightarrow> tuple_key" where
  "verified_tuple v =
     (mf_channel (vu_manifest v), art_package_name (mf_artifact (vu_manifest v)),
      mf_rollout_ring (vu_manifest v), art_signer_sha256 (mf_artifact (vu_manifest v)),
      vu_key_id v, vu_public_key v, vu_https_origin v)"

definition new_checkpoint :: "verified_update \<Rightarrow> checkpoint" where
  "new_checkpoint v =
     \<lparr>cp_channel = mf_channel (vu_manifest v),
      cp_package_name = art_package_name (mf_artifact (vu_manifest v)),
      cp_rollout_ring = mf_rollout_ring (vu_manifest v),
      cp_signer_sha256 = art_signer_sha256 (mf_artifact (vu_manifest v)),
      cp_key_id = vu_key_id v, cp_public_key = vu_public_key v,
      cp_https_origin = vu_https_origin v,
      cp_sequence = mf_sequence (vu_manifest v),
      cp_version_code = art_version_code (mf_artifact (vu_manifest v)),
      cp_signed_manifest_sha256 = vu_signed_manifest_sha256 v\<rparr>"

definition commit_checks ::
  "verified_update \<Rightarrow> observed_apk \<Rightarrow> rollback_state \<Rightarrow> u64 \<Rightarrow> package_update_error + unit" where
  "commit_checks v observed st observed_at_ms = first_err
     [rollback_validate st,
      reject_if (mf_expires_at_ms (vu_manifest v) \<le> observed_at_ms)
        (PackageUpdateError ''manifest_expired''
           ''manifest expired before the installed APK was committed''),
      validate_observed_apk (mf_artifact (vu_manifest v)) observed,
      validate_sequence (vu_manifest v) (find_checkpoint st (verified_tuple v))]"

definition commit_installed_apk ::
  "verified_update \<Rightarrow> observed_apk \<Rightarrow> rollback_state \<Rightarrow> u64 \<Rightarrow> receipt \<times> rollback_state" where
  "commit_installed_apk v observed st observed_at_ms =
     (let prior = find_checkpoint st (verified_tuple v);
          base = (\<lambda>at_ms. receipt_base InstallCommit at_ms None (Some (vu_signed_manifest_sha256 v))
                    (Some (vu_key_id v)) (Some (vu_manifest v)) prior)
      in if max_jcs_safe_integer < observed_at_ms then
           (rejected_receipt (base 0) ''observation_time_out_of_range'', st)
         else (case commit_checks v observed st observed_at_ms of
             Inl error \<Rightarrow> (rejected_receipt (base observed_at_ms) (err_code error), st)
           | Inr _ \<Rightarrow>
               (accepted_receipt (base observed_at_ms) ''install_committed''
                  (Some (new_checkpoint v)),
                rollback_apply st (new_checkpoint v))))"

end
