(* ===== verification/Package_Rollback.thy ===== *)
theory Package_Rollback
  imports Package_Updater
begin

text \<open>
  The persisted anti-rollback state of the package updater as a store of checkpoints. The
  interface is a locale: what a lookup returns after a store and that stores keep the state
  valid. The monotonicity of every guarded history is proved once from it; the rollback state
  of \<open>crates/rusty-quest-package-updater/src/lib.rs\<close> interprets it.
\<close>

section \<open>The interface\<close>

locale checkpoint_store =
  fixes lookup :: "'s \<Rightarrow> 'key \<Rightarrow> 'c option"
    and store :: "'s \<Rightarrow> 'c \<Rightarrow> 's"
    and key_of :: "'c \<Rightarrow> 'key"
    and newer :: "'c \<Rightarrow> 'c \<Rightarrow> bool"
    and valid :: "'s \<Rightarrow> bool"
    and sound :: "'c \<Rightarrow> bool"
  assumes lookup_store: "valid s \<Longrightarrow> lookup (store s c) = (lookup s)(key_of c \<mapsto> c)"
    and valid_store: "valid s \<Longrightarrow> sound c \<Longrightarrow> valid (store s c)"
    and newer_trans: "newer a b \<Longrightarrow> newer b c \<Longrightarrow> newer a c"
begin

text \<open>The abstract step: store a checkpoint newer than the one held for its key, or do nothing.\<close>

definition admits :: "'s \<Rightarrow> 'c \<Rightarrow> bool" where
  "admits s c = (case lookup s (key_of c) of None \<Rightarrow> True | Some old \<Rightarrow> newer old c)"

inductive advance :: "'s \<Rightarrow> 's \<Rightarrow> bool" where
  stay: "valid s \<Longrightarrow> advance s s"
| put: "valid s \<Longrightarrow> sound c \<Longrightarrow> admits s c \<Longrightarrow> advance s (store s c)"

lemma advance_valid: "advance s t \<Longrightarrow> valid s \<and> valid t"
  by (auto elim!: advance.cases intro: valid_store)

lemma advance_keeps_or_renews:
  "advance s t \<Longrightarrow> lookup s k = Some c \<Longrightarrow>
     \<exists>c'. lookup t k = Some c' \<and> (c' = c \<or> newer c c')"
  by (auto elim!: advance.cases simp: lookup_store admits_def split: option.splits)

text \<open>Over any history the checkpoint of a key is kept or replaced by newer ones.\<close>

lemma history_keeps_or_renews:
  "advance\<^sup>*\<^sup>* s t \<Longrightarrow> lookup s k = Some c \<Longrightarrow>
     \<exists>c'. lookup t k = Some c' \<and> (c' = c \<or> newer c c')"
proof (induction rule: rtranclp_induct)
  case (step t u)
  then obtain c' where "lookup t k = Some c'" "c' = c \<or> newer c c'"
    by blast
  moreover from step.hyps(2) this(1) obtain c'' where
    "lookup u k = Some c''" "c'' = c' \<or> newer c' c''"
    using advance_keeps_or_renews by blast
  ultimately show ?case
    using newer_trans by blast
qed simp

lemma history_valid: "advance\<^sup>*\<^sup>* s t \<Longrightarrow> valid s \<Longrightarrow> valid t"
  by (induction rule: rtranclp_induct) (auto dest: advance_valid)

text \<open>A checkpoint once stored is never admitted again.\<close>

lemma no_second_admission:
  assumes "valid s" "advance\<^sup>*\<^sup>* (store s c) t" "\<And>a. \<not> newer a a"
  shows "\<not> admits t c"
proof -
  have "lookup (store s c) (key_of c) = Some c"
    using assms(1) by (simp add: lookup_store)
  then obtain c' where "lookup t (key_of c) = Some c'" "c' = c \<or> newer c c'"
    using history_keeps_or_renews [OF assms(2)] by blast
  with assms(3) newer_trans show ?thesis
    by (auto simp: admits_def)
qed

end

section \<open>The rollback state\<close>

definition checkpoint_ok :: "checkpoint \<Rightarrow> bool" where
  "checkpoint_ok c = (first_err (checkpoint_checks c) = Inr ())"

definition rollback_wf :: "rollback_state \<Rightarrow> bool" where
  "rollback_wf st = (rs_schema st = rollback_state_schema
     \<and> list_all checkpoint_ok (rs_checkpoints st)
     \<and> sorted_wrt (<) (map checkpoint_key (rs_checkpoints st)))"

definition checkpoint_newer :: "checkpoint \<Rightarrow> checkpoint \<Rightarrow> bool" where
  "checkpoint_newer old new =
     (cp_sequence old < cp_sequence new \<and> cp_version_code old < cp_version_code new)"

text \<open>The ordering part of the validation loop, over any linearly ordered keys.\<close>

fun keys_ok :: "'k::linorder option \<Rightarrow> 'k list \<Rightarrow> 'k list \<Rightarrow> bool" where
  "keys_ok prior seen [] = True"
| "keys_ok prior seen (k # ks) =
     (\<not> (case prior of None \<Rightarrow> False | Some p \<Rightarrow> k \<le> p) \<and> k \<notin> set seen
      \<and> keys_ok (Some k) (k # seen) ks)"

lemma keys_ok_from:
  "\<forall>s \<in> set seen. s \<le> p \<Longrightarrow> keys_ok (Some p) seen ks \<longleftrightarrow> sorted_wrt (<) (p # ks)"
proof (induction ks arbitrary: p seen)
  case (Cons k ks)
  show ?case
  proof (cases "p < k")
    case True
    with Cons.prems have "\<forall>s \<in> set (k # seen). s \<le> k" "k \<notin> set seen"
      by fastforce+
    with Cons.IH [of "k # seen" k] True show ?thesis
      by (auto intro: less_trans)
  qed auto
qed simp

lemma keys_ok_iff: "keys_ok None [] ks \<longleftrightarrow> sorted_wrt (<) ks"
  by (cases ks) (simp_all add: keys_ok_from)

lemma validate_checkpoints_iff:
  "validate_checkpoints prior seen cs = Inr u \<longleftrightarrow>
     list_all checkpoint_ok cs \<and> keys_ok prior seen (map checkpoint_key cs)"
  by (induction prior seen cs rule: validate_checkpoints.induct)
    (auto simp: result_simps checkpoint_ok_def reject_if_def)

lemma rollback_validate_iff [simp]: "rollback_validate st = Inr u \<longleftrightarrow> rollback_wf st"
  by (simp add: rollback_validate_def rollback_wf_def result_simps validate_checkpoints_iff keys_ok_iff)

lemma find_checkpoint_map_of:
  "find_checkpoint st k = map_of (map (\<lambda>c. (checkpoint_key c, c)) (rs_checkpoints st)) k"
proof -
  have "List.find (\<lambda>c. checkpoint_key c = k) cs = map_of (map (\<lambda>c. (checkpoint_key c, c)) cs) k"
    for cs
    by (induction cs) auto
  then show ?thesis
    by (simp add: find_checkpoint_def)
qed

lemma find_checkpoint_key: "find_checkpoint st k = Some c \<Longrightarrow> checkpoint_key c = k"
  by (auto simp: find_checkpoint_def find_Some_iff)

lemma replace_first_keys:
  "(\<And>x. P x \<Longrightarrow> f x = f y) \<Longrightarrow> map f (replace_first P y xs) = map f xs"
  by (induction xs) auto

lemma replace_first_all: "list_all Q xs \<Longrightarrow> Q y \<Longrightarrow> list_all Q (replace_first P y xs)"
  by (induction xs) auto

lemma replace_first_map_of:
  "list_ex (\<lambda>e. f e = f y) xs \<Longrightarrow>
     map_of (map (\<lambda>c. (f c, c)) (replace_first (\<lambda>e. f e = f y) y xs))
       = (map_of (map (\<lambda>c. (f c, c)) xs))(f y \<mapsto> y)"
  by (induction xs) (auto simp: fun_eq_iff)

lemma find_not_None_iff: "List.find P xs \<noteq> None \<longleftrightarrow> list_ex P xs"
  by (induction xs) auto

lemma apply_replaces:
  assumes "find_checkpoint st (checkpoint_key c) \<noteq> None"
  shows "find_checkpoint (rollback_apply st c) = (find_checkpoint st)(checkpoint_key c \<mapsto> c)"
proof -
  have "list_ex (\<lambda>e. checkpoint_key e = checkpoint_key c) (rs_checkpoints st)"
    using assms unfolding find_checkpoint_def find_not_None_iff .
  with assms show ?thesis
    by (simp add: fun_eq_iff rollback_apply_def find_checkpoint_map_of replace_first_map_of)
qed

lemma insert_keys_distinct:
  assumes "distinct (map f xs)" and "f y \<notin> f ` set xs"
  shows "distinct (map f (sort_key f (xs @ [y])))"
proof -
  have "distinct (map f (xs @ [y]))"
    using assms by simp
  then show ?thesis
    unfolding distinct_map by (simp only: distinct_sort set_sort)
qed

lemma apply_inserts:
  assumes wf: "rollback_wf st" and none: "find_checkpoint st (checkpoint_key c) = None"
  shows "find_checkpoint (rollback_apply st c) = (find_checkpoint st)(checkpoint_key c \<mapsto> c)"
    and "sorted_wrt (<) (map checkpoint_key (rs_checkpoints (rollback_apply st c)))"
proof -
  let ?xs = "rs_checkpoints st" and ?f = checkpoint_key
  let ?ys = "sort_key ?f (?xs @ [c])"
  have ys: "rs_checkpoints (rollback_apply st c) = ?ys"
    using none by (simp add: rollback_apply_def)
  have fresh: "?f c \<notin> ?f ` set ?xs"
    using none by (simp add: find_checkpoint_map_of map_of_eq_None_iff image_image)
  have "distinct (map ?f ?xs)"
    using wf by (simp add: rollback_wf_def strict_sorted_iff)
  then have d: "distinct (map ?f ?ys)"
    using fresh by (rule insert_keys_distinct)
  then show "sorted_wrt (<) (map ?f (rs_checkpoints (rollback_apply st c)))"
    unfolding ys strict_sorted_iff by simp
  have "map_of (map (\<lambda>e. (?f e, e)) ?ys) = map_of (map (\<lambda>e. (?f e, e)) ([c] @ ?xs))"
    by (rule map_of_inject_set [THEN iffD2])
      (use d fresh \<open>distinct (map ?f ?xs)\<close> in \<open>auto simp: comp_def\<close>)
  then show "find_checkpoint (rollback_apply st c) = (find_checkpoint st)(?f c \<mapsto> c)"
    by (simp add: fun_eq_iff find_checkpoint_map_of ys)
qed

lemma rollback_lookup_apply:
  "rollback_wf st \<Longrightarrow>
     find_checkpoint (rollback_apply st c) = (find_checkpoint st)(checkpoint_key c \<mapsto> c)"
  using apply_replaces apply_inserts(1) by blast

lemma rollback_wf_apply:
  assumes wf: "rollback_wf st" and ok: "checkpoint_ok c"
  shows "rollback_wf (rollback_apply st c)"
proof (cases "find_checkpoint st (checkpoint_key c)")
  case None
  have "list_all checkpoint_ok (rs_checkpoints (rollback_apply st c))"
    using wf ok None by (auto simp: rollback_apply_def rollback_wf_def list_all_iff)
  with apply_inserts(2) [OF wf None] wf None show ?thesis
    by (simp add: rollback_wf_def rollback_apply_def)
next
  case (Some d)
  have "map checkpoint_key (rs_checkpoints (rollback_apply st c))
      = map checkpoint_key (rs_checkpoints st)"
    using Some by (simp add: rollback_apply_def replace_first_keys)
  with wf ok Some show ?thesis
    by (simp add: rollback_wf_def rollback_apply_def replace_first_all)
qed

interpretation rollback: checkpoint_store find_checkpoint rollback_apply checkpoint_key
  checkpoint_newer rollback_wf checkpoint_ok
  by unfold_locales
    (auto simp: rollback_lookup_apply rollback_wf_apply checkpoint_newer_def)

section \<open>Commit refines the store\<close>

lemma new_checkpoint_key [simp]: "checkpoint_key (new_checkpoint v) = verified_tuple v"
  by (simp add: checkpoint_key_def new_checkpoint_def verified_tuple_def)

lemma new_checkpoint_sel [simp]:
  "cp_sequence (new_checkpoint v) = mf_sequence (vu_manifest v)"
  "cp_version_code (new_checkpoint v) = art_version_code (mf_artifact (vu_manifest v))"
  by (simp_all add: new_checkpoint_def)

lemma validate_sequence_iff [simp]:
  "validate_sequence m prior = Inr u \<longleftrightarrow>
     (case prior of None \<Rightarrow> True
      | Some c \<Rightarrow> cp_sequence c < mf_sequence m \<and> cp_version_code c < art_version_code (mf_artifact m))"
  by (auto simp: validate_sequence_def result_simps not_le split: option.splits)

lemma new_checkpoint_admitted:
  "validate_sequence (vu_manifest v) (find_checkpoint st (verified_tuple v)) = Inr u \<longleftrightarrow>
     rollback.admits st (new_checkpoint v)"
  by (auto simp: rollback.admits_def checkpoint_newer_def split: option.splits)

lemmas commit_defs = commit_installed_apk_def commit_checks_def receipt_base_def
  rejected_receipt_def accepted_receipt_def Let_def

lemma commit_accepted_iff:
  "rc_decision (fst (commit_installed_apk v obs st t)) = Accepted \<longleftrightarrow>
     t \<le> max_jcs_safe_integer \<and> commit_checks v obs st t = Inr ()"
  by (auto simp: commit_installed_apk_def receipt_base_def rejected_receipt_def
      accepted_receipt_def Let_def split: sum.splits)

lemma commit_state:
  "snd (commit_installed_apk v obs st t) =
     (if rc_decision (fst (commit_installed_apk v obs st t)) = Accepted
      then rollback_apply st (new_checkpoint v) else st)"
  by (auto simp: commit_installed_apk_def receipt_base_def rejected_receipt_def
      accepted_receipt_def Let_def split: sum.splits)

lemma commit_checks_iff:
  "commit_checks v obs st t = Inr u \<longleftrightarrow>
     rollback_wf st \<and> t < mf_expires_at_ms (vu_manifest v)
     \<and> validate_observed_apk (mf_artifact (vu_manifest v)) obs = Inr ()
     \<and> rollback.admits st (new_checkpoint v)"
  unfolding new_checkpoint_admitted [of v st "()", symmetric]
  by (simp add: commit_checks_def result_simps not_le del: validate_sequence_iff)

lemma commit_advances:
  assumes "rollback_wf st" and "checkpoint_ok (new_checkpoint v)"
  shows "rollback.advance st (snd (commit_installed_apk v obs st t))"
proof (cases "rc_decision (fst (commit_installed_apk v obs st t)) = Accepted")
  case True
  then have "rollback.admits st (new_checkpoint v)"
    by (simp add: commit_accepted_iff commit_checks_iff)
  with assms True show ?thesis
    by (simp add: commit_state rollback.advance.put)
next
  case False
  with assms(1) show ?thesis
    by (simp add: commit_state rollback.advance.stay)
qed

text \<open>A sequence of commits on one persisted state, with the receipts in order.\<close>

primrec commit_run ::
  "(verified_update \<times> observed_apk \<times> u64) list \<Rightarrow> rollback_state \<Rightarrow> receipt list \<times> rollback_state" where
  "commit_run [] st = ([], st)"
| "commit_run (e # es) st =
     (let out = commit_installed_apk (fst e) (fst (snd e)) st (snd (snd e));
          rest = commit_run es (snd out)
      in (fst out # fst rest, snd rest))"

definition run_ok :: "(verified_update \<times> observed_apk \<times> u64) list \<Rightarrow> bool" where
  "run_ok es = list_all (\<lambda>e. checkpoint_ok (new_checkpoint (fst e))) es"

lemma run_ok_Cons [simp]: "run_ok (e # es) \<longleftrightarrow> checkpoint_ok (new_checkpoint (fst e)) \<and> run_ok es"
  by (simp add: run_ok_def)

lemma commit_run_advances:
  "rollback_wf st \<Longrightarrow> run_ok es \<Longrightarrow> rollback.advance\<^sup>*\<^sup>* st (snd (commit_run es st))"
proof (induction es arbitrary: st)
  case (Cons e es)
  let ?st' = "snd (commit_installed_apk (fst e) (fst (snd e)) st (snd (snd e)))"
  have step: "rollback.advance st ?st'"
    using Cons.prems by (simp add: commit_advances)
  moreover from step have "rollback_wf ?st'"
    using rollback.advance_valid by blast
  ultimately show ?case
    using Cons by (simp add: Let_def converse_rtranclp_into_rtranclp)
qed simp

text \<open>Against a checkpoint already held, only a newer manifest is ever committed.\<close>

lemma commit_run_beats_held:
  assumes "rollback_wf st" "run_ok es" "i < length es"
    and "find_checkpoint st (verified_tuple (fst (es ! i))) = Some c"
    and "rc_decision (fst (commit_run es st) ! i) = Accepted"
  shows "checkpoint_newer c (new_checkpoint (fst (es ! i)))"
  using assms
proof (induction es arbitrary: st i c)
  case (Cons e es)
  let ?st' = "snd (commit_installed_apk (fst e) (fst (snd e)) st (snd (snd e)))"
  have step: "rollback.advance st ?st'"
    using Cons.prems by (simp add: commit_advances)
  show ?case
  proof (cases i)
    case 0
    with Cons.prems(5) have "rollback.admits st (new_checkpoint (fst e))"
      by (simp add: Let_def commit_accepted_iff commit_checks_iff)
    with 0 Cons.prems(4) show ?thesis
      by (simp add: rollback.admits_def)
  next
    case (Suc j)
    obtain c' where c': "find_checkpoint ?st' (verified_tuple (fst (es ! j))) = Some c'"
      "c' = c \<or> checkpoint_newer c c'"
      using rollback.advance_keeps_or_renews [OF step] Cons.prems(4) Suc by fastforce
    have "checkpoint_newer c' (new_checkpoint (fst (es ! j)))"
      using Cons.IH [of ?st' j c'] rollback.advance_valid [OF step] c'(1) Cons.prems Suc
      by (simp add: Let_def)
    with c'(2) Suc show ?thesis
      using rollback.newer_trans by auto
  qed
qed simp

text \<open>Of two commits under one tuple the later one is strictly newer.\<close>

lemma commit_run_strictly_newer:
  assumes "rollback_wf st" "run_ok es" "i < j" "j < length es"
    and "verified_tuple (fst (es ! i)) = verified_tuple (fst (es ! j))"
    and "rc_decision (fst (commit_run es st) ! i) = Accepted"
    and "rc_decision (fst (commit_run es st) ! j) = Accepted"
  shows "checkpoint_newer (new_checkpoint (fst (es ! i))) (new_checkpoint (fst (es ! j)))"
  using assms
proof (induction es arbitrary: st i j)
  case (Cons e es)
  let ?st' = "snd (commit_installed_apk (fst e) (fst (snd e)) st (snd (snd e)))"
  have wf': "rollback_wf ?st'"
    using Cons.prems(1,2) by (simp add: rollback.advance_valid [OF commit_advances])
  obtain k where j: "j = Suc k"
    using Cons.prems(3) by (cases j) auto
  show ?case
  proof (cases i)
    case 0
    with Cons.prems have "?st' = rollback_apply st (new_checkpoint (fst e))"
      by (simp add: Let_def commit_state)
    then have "find_checkpoint ?st' (verified_tuple (fst (es ! k))) = Some (new_checkpoint (fst e))"
      using Cons.prems 0 j by (simp add: rollback_lookup_apply)
    from commit_run_beats_held [OF wf' _ _ this] Cons.prems j 0 show ?thesis
      by (simp add: Let_def)
  next
    case (Suc l)
    with Cons.IH [of ?st' l k] Cons.prems wf' j show ?thesis
      by (simp add: Let_def)
  qed
qed simp

end
