(* ===== verification/Package_Admission.thy ===== *)
theory Package_Admission
  imports Package_Rollback
begin

text \<open>
  Lemmas on admission by the package updater: an admitted manifest is signed
  by the policy's key and inside the policy, every refusal leaves the persisted state alone,
  histories of commits never roll back, and an admitted update whose APK is observed in time
  is committed.
\<close>

section \<open>Admission unfolded\<close>

definition admits_update ::
  "'k externals \<Rightarrow> bytes \<Rightarrow> (string, 'k) btree \<Rightarrow> policy \<Rightarrow> rollback_state \<Rightarrow> u64
     \<Rightarrow> verified_update \<Rightarrow> bool" where
  "admits_update x ej keys p st now_ms v =
     (case verify_manifest x ej keys p st now_ms of
        Inl _ \<Rightarrow> False | Inr adm \<Rightarrow> adm_verified adm = Some v)"

lemma verify_parsed_envelope_canonical:
  "verify_parsed_envelope x env canonical keys p st now = Inr u \<Longrightarrow> canonical \<noteq> None"
  by (auto simp: verify_parsed_envelope_def result_simps)

lemma admits_update_iff:
  "admits_update x ej keys p st now v \<longleftrightarrow>
     now \<le> max_jcs_safe_integer \<and>
     (\<exists>env canonical. x_parse_envelope x ej = Some env \<and> x_jcs x (env_signed env) = Some canonical
        \<and> verify_parsed_envelope x env (Some canonical) keys p st now = Inr ()
        \<and> v = \<lparr>vu_key_id = env_key_id env, vu_public_key = pol_public_key p,
              vu_https_origin = pol_https_origin p,
              vu_signed_manifest_sha256 = sha256_identity x canonical,
              vu_manifest = env_signed env\<rparr>)"
  by (auto simp: admits_update_def verify_manifest_def Let_def not_less
      split: option.splits sum.splits dest: verify_parsed_envelope_canonical)

lemma verify_parsed_envelope_iff:
  "verify_parsed_envelope x env (Some canonical) keys p st now = Inr u \<longleftrightarrow>
     policy_validate p = Inr () \<and> rollback_wf st
     \<and> authenticate_parsed_envelope x env canonical keys = Inr ()
     \<and> env_key_id env = pol_key_id p
     \<and> (\<exists>key. bt_get keys (pol_key_id p) = Some key
          \<and> encode_base64url (x_key_to_bytes x key) = pol_public_key p)
     \<and> validate_time (env_signed env) p now = Inr ()
     \<and> validate_policy (env_signed env) p = Inr ()
     \<and> validate_sequence (env_signed env) (find_checkpoint st (envelope_tuple env p)) = Inr ()"
  by (auto simp: verify_parsed_envelope_def result_simps simp del: validate_sequence_iff)

lemma authenticate_parsed_envelope_iff:
  "authenticate_parsed_envelope x env canonical keys = Inr u \<longleftrightarrow>
     env_schema env = envelope_schema \<and> mf_schema (env_signed env) = manifest_schema
     \<and> env_algorithm env = signature_algorithm
     \<and> validate_token ''key_id'' (env_key_id env) 1 96 = Inr ()
     \<and> validate_manifest_fields (env_signed env) = Inr ()
     \<and> (\<exists>key signature. bt_get keys (env_key_id env) = Some key
          \<and> decode_base64url_canonical (env_signature env) = Inr signature
          \<and> length signature = 64
          \<and> x_verify_strict x key (signature_domain @ canonical) signature)"
  by (auto simp: authenticate_parsed_envelope_def result_simps simp del: validate_token_iff)

lemma validate_time_iff:
  "validate_time m p now = Inr u \<longleftrightarrow>
     unat (mf_issued_at_ms m) < unat (mf_expires_at_ms m)
     \<and> unat (mf_expires_at_ms m) - unat (mf_issued_at_ms m)
         \<le> unat (pol_maximum_manifest_validity_ms p)
     \<and> now < mf_expires_at_ms m
     \<and> unat (mf_issued_at_ms m) \<le> unat now + unat (pol_maximum_future_issue_skew_ms p)"
proof (cases "mf_issued_at_ms m \<le> mf_expires_at_ms m")
  case True
  let ?v = "mf_expires_at_ms m - mf_issued_at_ms m"
  have v: "unat ?v = unat (mf_expires_at_ms m) - unat (mf_issued_at_ms m)"
    using True by (simp add: unat_sub)
  have zero: "?v = 0 \<longleftrightarrow> unat (mf_expires_at_ms m) \<le> unat (mf_issued_at_ms m)"
    unfolding unat_eq_0 [symmetric] v by simp
  have skew: "saturating_add now (pol_maximum_future_issue_skew_ms p) < mf_issued_at_ms m \<longleftrightarrow>
      unat now + unat (pol_maximum_future_issue_skew_ms p) < unat (mf_issued_at_ms m)"
    using unsigned_less [of "mf_issued_at_ms m", where ?'a = nat]
    by (simp add: word_less_nat_alt unat_saturating_add min_def)
  have "validate_time m p now = Inr u \<longleftrightarrow>
      \<not> ?v = 0 \<and> ?v \<le> pol_maximum_manifest_validity_ms p \<and> now < mf_expires_at_ms m
      \<and> \<not> saturating_add now (pol_maximum_future_issue_skew_ms p) < mf_issued_at_ms m"
    using True by (simp add: validate_time_def checked_sub_def result_simps not_less not_le conj_ac)
  then show ?thesis
    unfolding zero skew word_le_nat_alt [of ?v] v by (auto simp: not_le not_less)
next
  case False
  then show ?thesis
    by (auto simp: validate_time_def checked_sub_def result_simps word_le_nat_alt)
qed

lemma validate_policy_iff:
  "validate_policy m p = Inr u \<longleftrightarrow>
     mf_channel m = pol_channel p
     \<and> art_package_name (mf_artifact m) = pol_package_name p
     \<and> mf_rollout_ring m = pol_rollout_ring p
     \<and> art_signer_sha256 (mf_artifact m) = pol_signer_sha256 p
     \<and> pol_installed_version_code p < art_version_code (mf_artifact m)
     \<and> pol_minimum_target_version_code p \<le> art_version_code (mf_artifact m)
     \<and> art_version_code (mf_artifact m) \<le> pol_maximum_target_version_code p
     \<and> art_apk_size_bytes (mf_artifact m) \<le> pol_maximum_apk_size_bytes p
     \<and> url_has_exact_origin (art_apk_url (mf_artifact m)) (pol_https_origin p)
     \<and> (\<exists>digest. art_apk_sha256 (mf_artifact m) = ''sha256:'' @ digest
          \<and> art_apk_url (mf_artifact m)
              = expected_apk_url p digest (art_version_name (mf_artifact m)))"
  by (auto simp: validate_policy_def Let_def result_simps not_le not_less strip_prefix_eq_Some)

section \<open>Admitted manifests give sound checkpoints\<close>

lemma sha256_identity_shaped:
  "length (x_sha256 x bs) = 32 \<Longrightarrow> sha256_shaped (sha256_identity x bs)"
  by (auto simp: sha256_identity_def sha256_shaped_def)

lemma admitted_checkpoint_ok:
  assumes adm: "admits_update x ej keys p st now v"
    and sha: "\<And>bs. length (x_sha256 x bs) = 32"
  shows "checkpoint_ok (new_checkpoint v)"
proof -
  obtain env canonical where v:
      "v = \<lparr>vu_key_id = env_key_id env, vu_public_key = pol_public_key p,
            vu_https_origin = pol_https_origin p,
            vu_signed_manifest_sha256 = sha256_identity x canonical, vu_manifest = env_signed env\<rparr>"
    and ok: "verify_parsed_envelope x env (Some canonical) keys p st now = Inr ()"
    using adm by (auto simp: admits_update_iff)
  have "validate_manifest_fields (env_signed env) = Inr ()"
    "validate_token ''key_id'' (env_key_id env) 1 96 = Inr ()"
    "policy_validate p = Inr ()"
    using ok unfolding verify_parsed_envelope_iff authenticate_parsed_envelope_iff by blast+
  then show ?thesis
    using sha256_identity_shaped [OF sha, of canonical]
    by (simp add: v checkpoint_ok_def checkpoint_checks_def new_checkpoint_def
        validate_manifest_fields_def policy_validate_def public_key_check_def result_simps)
qed

lemma admitted_manifest_fields:
  "admits_update x ej keys p st now v \<Longrightarrow> validate_manifest_fields (vu_manifest v) = Inr ()"
  by (auto simp: admits_update_iff verify_parsed_envelope_iff authenticate_parsed_envelope_iff)

text \<open>The observation that matches a manifest's artifact exactly.\<close>

definition faithful_observation :: "artifact \<Rightarrow> observed_apk" where
  "faithful_observation a =
     \<lparr>obs_package_name = art_package_name a, obs_version_code = art_version_code a,
      obs_signer_sha256 = art_signer_sha256 a, obs_apk_sha256 = art_apk_sha256 a,
      obs_apk_size_bytes = art_apk_size_bytes a\<rparr>"

lemma validate_observed_apk_iff:
  assumes "validate_manifest_fields m = Inr ()"
  shows "validate_observed_apk (mf_artifact m) obs = Inr u \<longleftrightarrow> obs = faithful_observation (mf_artifact m)"
  using assms
  by (cases obs) (auto simp: validate_observed_apk_def validate_manifest_fields_def
      faithful_observation_def result_simps)

lemma admitted_sequence_fresh:
  "admits_update x ej keys p st now v \<Longrightarrow> rollback_wf st \<and> rollback.admits st (new_checkpoint v)"
  by (auto simp: admits_update_iff verify_parsed_envelope_iff envelope_tuple_def verified_tuple_def
      rollback.admits_def checkpoint_newer_def split: option.splits)

section \<open>The registry\<close>

lemma registry_loop_sound:
  assumes "registry_loop x keys material rs = Inr out"
    and "\<And>bs key. x_key_from_bytes x bs = Some key \<Longrightarrow> x_key_to_bytes x key = bs"
    and "\<forall>(i, key) \<in> set keys. x_key_to_bytes x key \<in> set material"
    and "inj_on (\<lambda>i. map_option (x_key_to_bytes x) (bt_get keys i)) (dom (bt_get keys))"
  shows "inj_on (\<lambda>i. map_option (x_key_to_bytes x) (bt_get out i)) (dom (bt_get out))
     \<and> (\<forall>r \<in> set rs. \<exists>key. bt_get out (rk_key_id r) = Some key
          \<and> decode_base64url_canonical (rk_public_key r) = Inr (x_key_to_bytes x key))
     \<and> (\<forall>i key. bt_get keys i = Some key \<longrightarrow> bt_get out i = Some key)"
  using assms
proof (induction x keys material rs rule: registry_loop.induct)
  case (2 x keys material r rs)
  obtain key_bytes key where
    dec: "decode_base64url_canonical (rk_public_key r) = Inr key_bytes"
    and key: "x_key_from_bytes x key_bytes = Some key"
    and fresh: "bt_get keys (rk_key_id r) = None" "key_bytes \<notin> set material"
    and rest: "registry_loop x (bt_insert (rk_key_id r) key keys) (key_bytes # material) rs = Inr out"
    using "2.prems"(1) by (auto simp: result_simps bt_contains_def)
  have kb: "x_key_to_bytes x key = key_bytes"
    using key by (rule "2.prems"(2))
  have held: "bt_get keys i = Some k \<Longrightarrow> x_key_to_bytes x k \<in> set material" for i k
    using "2.prems"(3) by (auto dest: bt_get_in_set)
  let ?keys = "bt_insert (rk_key_id r) key keys"
  have mat: "\<forall>(i, k) \<in> set ?keys. x_key_to_bytes x k \<in> set (key_bytes # material)"
    using "2.prems"(3) kb bt_values_insert [of _ "rk_key_id r" key keys] by fastforce
  have inj: "inj_on (\<lambda>i. map_option (x_key_to_bytes x) (bt_get ?keys i)) (dom (bt_get ?keys))"
    unfolding inj_on_def
  proof (intro ballI impI)
    fix i j
    assume "i \<in> dom (bt_get ?keys)" "j \<in> dom (bt_get ?keys)"
      and eq: "map_option (x_key_to_bytes x) (bt_get ?keys i) = map_option (x_key_to_bytes x) (bt_get ?keys j)"
    then show "i = j"
      using "2.prems"(4) fresh kb held [of i] held [of j]
      by (cases "i = rk_key_id r"; cases "j = rk_key_id r") (auto dest!: inj_onD simp: domI)
  qed
  have IH: "inj_on (\<lambda>i. map_option (x_key_to_bytes x) (bt_get out i)) (dom (bt_get out))
     \<and> (\<forall>r \<in> set rs. \<exists>key. bt_get out (rk_key_id r) = Some key
          \<and> decode_base64url_canonical (rk_public_key r) = Inr (x_key_to_bytes x key))
     \<and> (\<forall>i k. bt_get ?keys i = Some k \<longrightarrow> bt_get out i = Some k)"
    using rest "2.prems"(2) mat inj by (rule "2.IH")
  have kept: "bt_get out i = Some k" if "bt_get keys i = Some k" for i k
    using IH that fresh(1) by (cases "i = rk_key_id r") auto
  from IH dec kb kept show ?case
    by auto
qed simp

end
