(* ===== verification/Package_Theorems.thy ===== *)
theory Package_Theorems
  imports Package_Admission
begin

text \<open>
  The guarantees of the package updater, each with an application to a concrete release: one
  registered key, one signed manifest for one Labs channel, and an empty rollback state.
\<close>

section \<open>A concrete release\<close>

definition demo_key :: bytes where
  "demo_key = replicate 32 7"

definition demo_digest :: string where
  "demo_digest = replicate 64 CHR ''a''"

definition demo_policy :: policy where
  "demo_policy =
     \<lparr>pol_channel = ''labs'', pol_https_origin = ''https://example.org'',
      pol_site_base_path = ''rusty-quest'', pol_package_name = ''org.kiosk'',
      pol_rollout_ring = ''ring0'', pol_signer_sha256 = ''sha256:'' @ demo_digest,
      pol_key_id = ''k1'', pol_public_key = encode_base64url demo_key,
      pol_installed_version_code = 1, pol_minimum_target_version_code = 1,
      pol_maximum_target_version_code = 9, pol_maximum_apk_size_bytes = 1000,
      pol_maximum_manifest_validity_ms = 100, pol_maximum_future_issue_skew_ms = 5\<rparr>"

definition demo_manifest :: "u64 \<Rightarrow> manifest" where
  "demo_manifest n =
     \<lparr>mf_schema = manifest_schema, mf_manifest_id = ''m1'', mf_sequence = n,
      mf_issued_at_ms = 10, mf_expires_at_ms = 60, mf_channel = ''labs'',
      mf_rollout_ring = ''ring0'',
      mf_artifact =
        \<lparr>art_package_name = ''org.kiosk'', art_version_code = n + 1, art_version_name = ''v2'',
         art_apk_url = expected_apk_url demo_policy demo_digest ''v2'',
         art_apk_sha256 = ''sha256:'' @ demo_digest, art_apk_size_bytes = 500,
         art_signer_sha256 = ''sha256:'' @ demo_digest\<rparr>\<rparr>"

definition demo_envelope :: envelope where
  "demo_envelope =
     \<lparr>env_schema = envelope_schema, env_key_id = ''k1'', env_algorithm = signature_algorithm,
      env_signature = encode_base64url (demo_key @ demo_key), env_signed = demo_manifest 1\<rparr>"

text \<open>
  Stand-ins for the third-party code: every message parses to the one envelope, a signature
  verifies when it repeats the key twice, digests are 32 bytes, a key is its bytes.
\<close>

definition demo_externals :: "bytes externals" where
  "demo_externals =
     \<lparr>x_parse_envelope = (\<lambda>_. Some demo_envelope), x_jcs = (\<lambda>m. Some [ucast (mf_sequence m)]),
      x_sha256 = (\<lambda>bs. take 32 (bs @ replicate 32 0)),
      x_key_from_bytes = (\<lambda>bs. if length bs = 32 then Some bs else None), x_key_to_bytes = id,
      x_verify_strict = (\<lambda>key _ signature. signature = key @ key)\<rparr>"

definition demo_records :: "release_key_record list" where
  "demo_records = [\<lparr>rk_key_id = ''k1'', rk_public_key = encode_base64url demo_key\<rparr>]"

definition demo_keys :: "(string, bytes) btree" where
  "demo_keys = [(''k1'', demo_key)]"

definition demo_update :: "u64 \<Rightarrow> verified_update" where
  "demo_update n =
     \<lparr>vu_key_id = ''k1'', vu_public_key = encode_base64url demo_key,
      vu_https_origin = ''https://example.org'',
      vu_signed_manifest_sha256 = sha256_identity demo_externals [ucast n],
      vu_manifest = demo_manifest n\<rparr>"

lemma demo_policy_valid: "policy_validate demo_policy = Inr ()"
  by code_simp

lemma demo_authentic:
  "authenticate_parsed_envelope demo_externals demo_envelope [1] demo_keys = Inr ()"
  by code_simp

lemma demo_in_time: "validate_time (demo_manifest 1) demo_policy 20 = Inr ()"
  by (simp add: validate_time_iff demo_manifest_def demo_policy_def)

lemma demo_in_policy: "validate_policy (demo_manifest 1) demo_policy = Inr ()"
  by code_simp

lemma demo_fresh:
  "rollback_wf default_rollback_state"
  "find_checkpoint default_rollback_state k = None"
  by (simp_all add: rollback_wf_def default_rollback_state_def find_checkpoint_def)

lemma demo_admitted:
  "admits_update demo_externals [] demo_keys demo_policy default_rollback_state 20 (demo_update 1)"
proof -
  have "env_signed demo_envelope = demo_manifest 1" "env_key_id demo_envelope = ''k1''"
    "pol_key_id demo_policy = ''k1''"
    by (simp_all add: demo_envelope_def demo_policy_def)
  then have "verify_parsed_envelope demo_externals demo_envelope (Some [1]) demo_keys demo_policy
      default_rollback_state 20 = Inr ()"
    using demo_policy_valid demo_authentic demo_in_time demo_in_policy demo_fresh
    by (simp add: verify_parsed_envelope_iff)
      (simp add: demo_keys_def demo_externals_def demo_policy_def)
  then show ?thesis
    unfolding admits_update_iff
    by (intro conjI exI [of _ demo_envelope] exI [of _ "[1]"])
      (simp_all add: max_jcs_safe_integer_def demo_externals_def demo_envelope_def
        demo_manifest_def demo_update_def demo_policy_def)
qed

lemma demo_registry: "registry_from_records demo_externals demo_records = Inr demo_keys"
  by code_simp

lemma demo_digest_length: "length (x_sha256 demo_externals bs) = 32"
  by (simp add: demo_externals_def)

section \<open>Guarantees\<close>

text \<open>C9. Authenticity: whenever \<open>verify_manifest\<close> hands out a verified update, its manifest is
  the one in the parsed envelope, the canonical bytes of that manifest under the domain prefix
  carry a 64-byte signature that verifies under the registered key named by the policy, and
  that key is the policy's public key.\<close>

theorem admitted_update_is_authenticated:
  assumes "admits_update x ej keys p st now v"
  shows "\<exists>env canonical key signature.
     x_parse_envelope x ej = Some env \<and> vu_manifest v = env_signed env
     \<and> x_jcs x (vu_manifest v) = Some canonical
     \<and> vu_signed_manifest_sha256 v = sha256_identity x canonical
     \<and> vu_key_id v = pol_key_id p \<and> bt_get keys (pol_key_id p) = Some key
     \<and> encode_base64url (x_key_to_bytes x key) = pol_public_key p
     \<and> decode_base64url_canonical (env_signature env) = Inr signature \<and> length signature = 64
     \<and> x_verify_strict x key (signature_domain @ canonical) signature"
  using assms
  by (auto simp: admits_update_iff verify_parsed_envelope_iff authenticate_parsed_envelope_iff)

theorem admitted_update_is_authenticated_witness:
  "\<exists>canonical key signature.
     x_jcs demo_externals (demo_manifest 1) = Some canonical
     \<and> bt_get demo_keys ''k1'' = Some key
     \<and> decode_base64url_canonical (env_signature demo_envelope) = Inr signature
     \<and> x_verify_strict demo_externals key (signature_domain @ canonical) signature"
  using admitted_update_is_authenticated [OF demo_admitted]
  by (auto simp: demo_update_def demo_policy_def demo_externals_def)

text \<open>C22. Policy: an admitted update is inside its validity window and the clock skew, targets a
  version strictly newer than the installed one and inside the policy's range and size, names
  the policy's channel, package, ring and signer, is served from exactly the content-addressed
  path under the policy's origin, and advances both counters of the checkpoint held for its
  channel tuple.\<close>

theorem admitted_update_obeys_policy:
  assumes "admits_update x ej keys p st now v"
  shows "let m = vu_manifest v; a = mf_artifact m in
       unat (mf_issued_at_ms m) \<le> unat now + unat (pol_maximum_future_issue_skew_ms p)
     \<and> now < mf_expires_at_ms m
     \<and> unat (mf_expires_at_ms m) - unat (mf_issued_at_ms m)
         \<le> unat (pol_maximum_manifest_validity_ms p)
     \<and> pol_installed_version_code p < art_version_code a
     \<and> pol_minimum_target_version_code p \<le> art_version_code a
     \<and> art_version_code a \<le> pol_maximum_target_version_code p
     \<and> 0 < art_apk_size_bytes a \<and> art_apk_size_bytes a \<le> pol_maximum_apk_size_bytes p
     \<and> mf_channel m = pol_channel p \<and> art_package_name a = pol_package_name p
     \<and> mf_rollout_ring m = pol_rollout_ring p \<and> art_signer_sha256 a = pol_signer_sha256 p
     \<and> (\<exists>digest. art_apk_sha256 a = ''sha256:'' @ digest \<and> length digest = 64
          \<and> art_apk_url a = expected_apk_url p digest (art_version_name a))
     \<and> (case find_checkpoint st (verified_tuple v) of None \<Rightarrow> True
        | Some c \<Rightarrow> cp_sequence c < mf_sequence m \<and> cp_version_code c < art_version_code a)"
proof -
  from assms obtain env canonical where
    v: "vu_manifest v = env_signed env" "verified_tuple v = envelope_tuple env p"
    and ok: "verify_parsed_envelope x env (Some canonical) keys p st now = Inr ()"
    by (auto simp: admits_update_iff verified_tuple_def envelope_tuple_def)
  have "sha256_shaped (art_apk_sha256 (mf_artifact (vu_manifest v)))"
    "0 < art_apk_size_bytes (mf_artifact (vu_manifest v))"
    using admitted_manifest_fields [OF assms]
    by (simp_all add: validate_manifest_fields_def result_simps word_neq_0_conv)
  with ok show ?thesis
    unfolding Let_def v verify_parsed_envelope_iff validate_time_iff validate_policy_iff
      validate_sequence_iff
    by (auto simp: sha256_shaped_def)
qed

theorem admitted_update_obeys_policy_witness:
  "(20 :: u64) < mf_expires_at_ms (demo_manifest 1)
   \<and> pol_installed_version_code demo_policy < art_version_code (mf_artifact (demo_manifest 1))
   \<and> (\<exists>digest. art_apk_url (mf_artifact (demo_manifest 1)) = expected_apk_url demo_policy digest ''v2'')"
  using admitted_update_obeys_policy [OF demo_admitted, unfolded Let_def]
  by (auto simp: demo_update_def demo_manifest_def)

text \<open>Admission is total: \<open>verify_manifest\<close> never reaches its panic, its receipt is an
  admission receipt that changes no state and accepts exactly when a verified update is handed
  out, and a reading of the clock beyond the I-JSON range or bytes that do not parse are
  refused with their own codes.\<close>

theorem verify_manifest_total:
  "\<exists>adm. verify_manifest x ej keys p st now = Inr adm
     \<and> rc_stage (adm_receipt adm) = ManifestAdmission
     \<and> rc_state_changed (adm_receipt adm) = False
     \<and> rc_envelope_sha256 (adm_receipt adm) = Some (sha256_identity x ej)
     \<and> (rc_decision (adm_receipt adm) = Accepted) = (adm_verified adm \<noteq> None)
     \<and> (rc_decision (adm_receipt adm) = Accepted) =
         (now \<le> max_jcs_safe_integer
          \<and> (\<exists>env. x_parse_envelope x ej = Some env
               \<and> verify_parsed_envelope x env (x_jcs x (env_signed env)) keys p st now = Inr ()))
     \<and> rc_code (adm_receipt adm) =
         (if max_jcs_safe_integer < now then ''observation_time_out_of_range''
          else case x_parse_envelope x ej of
              None \<Rightarrow> ''malformed_envelope''
            | Some env \<Rightarrow>
                (case verify_parsed_envelope x env (x_jcs x (env_signed env)) keys p st now of
                   Inl e \<Rightarrow> err_code e | Inr _ \<Rightarrow> ''manifest_accepted''))"
  by (cases "x_parse_envelope x ej"; cases "max_jcs_safe_integer < now")
    (auto simp: verify_manifest_def Let_def receipt_base_def rejected_receipt_def
      accepted_receipt_def rejected_admission_def not_less
      split: option.splits sum.splits dest: verify_parsed_envelope_canonical)

text \<open>C24. Commit is fail-closed: for a manifest that passed its field checks it is accepted
  exactly when the clock is in range and before expiry, the persisted state is valid, the
  observed package is in every field the artifact of the manifest, and the manifest advances
  the checkpoint of its tuple; otherwise the state is untouched and the receipt says so, and
  on acceptance the state holds the new checkpoint for that tuple and every other checkpoint
  as before.\<close>

theorem commit_is_fail_closed:
  assumes "validate_manifest_fields (vu_manifest v) = Inr ()"
  shows "let out = commit_installed_apk v obs st t in
     (if t \<le> max_jcs_safe_integer \<and> t < mf_expires_at_ms (vu_manifest v) \<and> rollback_wf st
        \<and> obs = faithful_observation (mf_artifact (vu_manifest v))
        \<and> (case find_checkpoint st (verified_tuple v) of None \<Rightarrow> True
           | Some c \<Rightarrow> checkpoint_newer c (new_checkpoint v))
      then rc_decision (fst out) = Accepted \<and> rc_state_changed (fst out)
        \<and> rc_accepted_checkpoint (fst out) = Some (new_checkpoint v)
        \<and> find_checkpoint (snd out) = (find_checkpoint st)(verified_tuple v \<mapsto> new_checkpoint v)
      else rc_decision (fst out) = Rejected \<and> \<not> rc_state_changed (fst out)
        \<and> rc_accepted_checkpoint (fst out) = None \<and> snd out = st)"
proof -
  have ok: "commit_checks v obs st t = Inr () \<longleftrightarrow>
      t < mf_expires_at_ms (vu_manifest v) \<and> rollback_wf st
      \<and> obs = faithful_observation (mf_artifact (vu_manifest v))
      \<and> (case find_checkpoint st (verified_tuple v) of None \<Rightarrow> True
         | Some c \<Rightarrow> checkpoint_newer c (new_checkpoint v))"
    by (auto simp: commit_checks_iff validate_observed_apk_iff [OF assms] rollback.admits_def)
  show ?thesis
  proof (cases "t \<le> max_jcs_safe_integer \<and> commit_checks v obs st t = Inr ()")
    case True
    then have "commit_installed_apk v obs st t =
        (accepted_receipt (receipt_base InstallCommit t None (Some (vu_signed_manifest_sha256 v))
           (Some (vu_key_id v)) (Some (vu_manifest v)) (find_checkpoint st (verified_tuple v)))
           ''install_committed'' (Some (new_checkpoint v)), rollback_apply st (new_checkpoint v))"
      by (simp add: commit_installed_apk_def Let_def leD)
    with True ok show ?thesis
      by (simp add: Let_def accepted_receipt_def receipt_base_def rollback_lookup_apply)
  next
    case False
    then have "\<exists>r code. commit_installed_apk v obs st t = (rejected_receipt r code, st)
        \<and> \<not> rc_state_changed r \<and> rc_accepted_checkpoint r = None"
      by (auto simp: commit_installed_apk_def Let_def receipt_base_def split: sum.splits)
    with False ok show ?thesis
      by (auto simp: Let_def rejected_receipt_def)
  qed
qed

lemma demo_fields: "validate_manifest_fields (demo_manifest 1) = Inr ()"
  using admitted_manifest_fields [OF demo_admitted] by (simp add: demo_update_def)

theorem commit_is_fail_closed_witness:
  "let obs = faithful_observation (mf_artifact (demo_manifest 1));
       good = commit_installed_apk (demo_update 1) obs default_rollback_state 30;
       bad = commit_installed_apk (demo_update 1) (obs\<lparr>obs_apk_size_bytes := 501\<rparr>)
               default_rollback_state 30
   in rc_decision (fst good) = Accepted \<and> rc_decision (fst bad) = Rejected
      \<and> snd bad = default_rollback_state"
proof -
  have m: "vu_manifest (demo_update 1) = demo_manifest 1"
    by (simp add: demo_update_def)
  have bad: "(faithful_observation a)\<lparr>obs_apk_size_bytes := 501\<rparr> \<noteq> faithful_observation a"
    if "art_apk_size_bytes a = 500" for a
    using that by (simp add: faithful_observation_def)
  have "(30 :: u64) \<le> max_jcs_safe_integer" "30 < mf_expires_at_ms (demo_manifest 1)"
    "art_apk_size_bytes (mf_artifact (demo_manifest 1)) = 500"
    by (simp_all add: max_jcs_safe_integer_def demo_manifest_def)
  with commit_is_fail_closed [of "demo_update 1" _ default_rollback_state 30, unfolded m Let_def,
      OF demo_fields] bad
  show ?thesis
    by (simp add: Let_def demo_fresh)
qed

text \<open>C3. No rollback: in any sequence of commits on a valid state, of two accepted commits for
  the same channel tuple the later one has a strictly larger manifest sequence and a strictly
  larger version code, whatever commits, accepted or refused, lie between them.\<close>

theorem commits_never_roll_back:
  assumes "rollback_wf st" "run_ok es" "i < j" "j < length es"
    and "verified_tuple (fst (es ! i)) = verified_tuple (fst (es ! j))"
    and "rc_decision (fst (commit_run es st) ! i) = Accepted"
    and "rc_decision (fst (commit_run es st) ! j) = Accepted"
  shows "mf_sequence (vu_manifest (fst (es ! i))) < mf_sequence (vu_manifest (fst (es ! j)))
     \<and> art_version_code (mf_artifact (vu_manifest (fst (es ! i))))
         < art_version_code (mf_artifact (vu_manifest (fst (es ! j))))"
  using commit_run_strictly_newer [OF assms] by (simp add: checkpoint_newer_def)

definition demo_event :: "u64 \<Rightarrow> verified_update \<times> observed_apk \<times> u64" where
  "demo_event n = (demo_update n, faithful_observation (mf_artifact (demo_manifest n)), 30)"

lemma demo_run_ok: "run_ok [demo_event 1, demo_event 3]"
  by code_simp

lemma demo_run_accepts:
  "map rc_decision (fst (commit_run [demo_event 1, demo_event 3] default_rollback_state))
     = [Accepted, Accepted]"
  by code_simp

theorem commits_never_roll_back_witness:
  "mf_sequence (demo_manifest 1) < mf_sequence (demo_manifest 3)"
  using commits_never_roll_back [OF demo_fresh(1) demo_run_ok, of 0 1] demo_run_accepts
  by (auto simp: demo_event_def demo_update_def demo_manifest_def verified_tuple_def
      map_eq_Cons_conv)

text \<open>The persisted state stays valid: if digests are 32 bytes long, committing any sequence of
  admitted updates, each admitted against whatever state and clock, keeps the state a strictly
  sorted set of sound checkpoints, so the next admission can never fail on it.\<close>

theorem committed_state_stays_valid:
  assumes "\<And>bs. length (x_sha256 x bs) = 32"
    and "rollback_wf st"
    and "\<And>e. e \<in> set es \<Longrightarrow> \<exists>ej p st' now. admits_update x ej keys p st' now (fst e)"
  shows "rollback_validate (snd (commit_run es st)) = Inr ()"
proof -
  have "run_ok es"
    using assms(3) admitted_checkpoint_ok [OF _ assms(1)] by (fastforce simp: run_ok_def list_all_iff)
  with assms(2) show ?thesis
    using rollback.history_valid [OF commit_run_advances] by simp
qed

theorem committed_state_stays_valid_witness:
  "rollback_validate (snd (commit_run [demo_event 1] default_rollback_state)) = Inr ()"
proof (rule committed_state_stays_valid [of demo_externals _ _ demo_keys])
  show "rollback_wf default_rollback_state"
    by (rule demo_fresh)
  show "length (x_sha256 demo_externals bs) = 32" for bs
    by (rule demo_digest_length)
  show "\<exists>ej p st' now. admits_update demo_externals ej demo_keys p st' now (fst e)"
    if "e \<in> set [demo_event 1]" for e
    using that demo_admitted by (auto simp: demo_event_def)
qed

text \<open>C23. Liveness and single use: an admitted update whose exact artifact is observed on the same
  state before expiry is committed, and after that commit and any further commits of admitted
  updates the same update is never committed again.\<close>

theorem admitted_update_commits_once:
  assumes adm: "admits_update x ej keys p st now v"
    and sha: "\<And>bs. length (x_sha256 x bs) = 32"
    and t: "t < mf_expires_at_ms (vu_manifest v)"
    and obs: "obs = faithful_observation (mf_artifact (vu_manifest v))"
    and later: "run_ok es"
  shows "rc_decision (fst (commit_installed_apk v obs st t)) = Accepted
     \<and> rc_decision (fst (commit_installed_apk v obs'
          (snd (commit_run es (snd (commit_installed_apk v obs st t)))) t')) = Rejected"
proof -
  have wf: "rollback_wf st" and fresh: "rollback.admits st (new_checkpoint v)"
    using admitted_sequence_fresh [OF adm] by blast+
  have fields: "validate_manifest_fields (vu_manifest v) = Inr ()"
    by (rule admitted_manifest_fields [OF adm])
  have "mf_expires_at_ms (vu_manifest v) \<le> max_jcs_safe_integer"
    using fields by (simp add: validate_manifest_fields_def result_simps)
  with t have acc: "rc_decision (fst (commit_installed_apk v obs st t)) = Accepted"
    using wf fresh obs
    by (simp add: commit_accepted_iff commit_checks_iff validate_observed_apk_iff [OF fields])
  let ?st = "rollback_apply st (new_checkpoint v)"
  have ok: "checkpoint_ok (new_checkpoint v)"
    by (rule admitted_checkpoint_ok [OF adm sha])
  have "rollback.advance\<^sup>*\<^sup>* ?st (snd (commit_run es ?st))"
    using rollback_wf_apply [OF wf ok] later by (rule commit_run_advances)
  then have "\<not> rollback.admits (snd (commit_run es ?st)) (new_checkpoint v)"
    by (rule rollback.no_second_admission [OF wf]) (simp add: checkpoint_newer_def)
  then have "rc_decision (fst (commit_installed_apk v obs' (snd (commit_run es ?st)) t')) \<noteq> Accepted"
    by (simp add: commit_accepted_iff commit_checks_iff)
  with acc show ?thesis
    by (simp add: commit_state) (metis decision.exhaust)
qed

theorem admitted_update_commits_once_witness:
  "let obs = faithful_observation (mf_artifact (demo_manifest 1));
       st' = snd (commit_installed_apk (demo_update 1) obs default_rollback_state 30)
   in rc_decision (fst (commit_installed_apk (demo_update 1) obs default_rollback_state 30)) = Accepted
      \<and> rc_decision (fst (commit_installed_apk (demo_update 1) obs
           (snd (commit_run [demo_event 3] st')) 31)) = Rejected"
proof -
  have "30 < mf_expires_at_ms (vu_manifest (demo_update 1))"
    "vu_manifest (demo_update 1) = demo_manifest 1" "run_ok [demo_event 3]"
    using demo_run_ok by (simp_all add: demo_update_def demo_manifest_def)
  with admitted_update_commits_once [OF demo_admitted demo_digest_length, of 30 _ "[demo_event 3]" _ 31]
  show ?thesis
    by (simp add: Let_def)
qed

text \<open>The unpadded base64url decoder is canonical: it accepts a text exactly when the text is the
  encoding of the nonempty byte string it returns, so no two texts decode to the same bytes
  and no padding, whitespace or stray final bits are tolerated; every refusal carries the one
  code of the decoder.\<close>

theorem base64url_is_canonical:
  "(decode_base64url_canonical s = Inr bs \<longleftrightarrow> bs \<noteq> [] \<and> s = encode_base64url bs)
   \<and> (case decode_base64url_canonical s of
        Inl e \<Rightarrow> err_code e = ''noncanonical_base64url'' | Inr _ \<Rightarrow> True)"
  using b64url.accepts_iff [of s bs] decode_base64url_error_code [of s]
  by (auto split: sum.splits)

text \<open>Origins cannot be confused: a URL is attributed to an origin exactly if the origin is its
  own canonical form and the URL is that origin followed by nothing or by a delimiter (and
  printable beyond it), so neither a longer host name nor userinfo nor a port can pass for it.\<close>

theorem origin_is_exact:
  "url_has_exact_origin url origin \<longleftrightarrow>
     validate_https_origin origin = Inr ()
     \<and> (\<exists>tail. url = origin @ tail \<and> (tail = [] \<or> is_delimiter (hd tail))
          \<and> is_ascii tail \<and> CHR 0x5C \<notin> set tail)"
  by (simp add: url_has_exact_origin_iff)

text \<open>A closed registry: when the registry is built, every record's key is registered under its
  identifier, no two identifiers share key material, and every record decodes to the bytes of
  the key registered for it.\<close>

theorem registry_is_injective:
  assumes "registry_from_records x records = Inr keys"
    and "\<And>bs key. x_key_from_bytes x bs = Some key \<Longrightarrow> x_key_to_bytes x key = bs"
  shows "keys \<noteq> []
     \<and> inj_on (\<lambda>i. map_option (x_key_to_bytes x) (bt_get keys i)) (dom (bt_get keys))
     \<and> (\<forall>r \<in> set records. \<exists>key. bt_get keys (rk_key_id r) = Some key
          \<and> decode_base64url_canonical (rk_public_key r) = Inr (x_key_to_bytes x key))"
proof -
  have "registry_loop x [] [] records = Inr keys" "keys \<noteq> []"
    using assms(1) by (auto simp: registry_from_records_def result_simps split: if_splits)
  with registry_loop_sound [OF this(1) assms(2)] show ?thesis
    by simp
qed

theorem registry_is_injective_witness:
  "\<exists>key. bt_get demo_keys ''k1'' = Some key
     \<and> decode_base64url_canonical (encode_base64url demo_key) = Inr key"
proof -
  have "x_key_to_bytes demo_externals key = bs"
    if "x_key_from_bytes demo_externals bs = Some key" for bs key
    using that by (simp add: demo_externals_def split: if_splits)
  from registry_is_injective [OF demo_registry this] show ?thesis
    by (auto simp: demo_records_def demo_externals_def)
qed

end
