(* ===== verification/Json_Value.thy ===== *)
theory Json_Value
  imports Quest_Prelude
begin

text \<open>
  JSON values as \<open>serde_json::Value\<close> has them, with objects as ordered maps, and the accessors the
  crates call on them. A number is whatever the serializer prints for it.
\<close>

section \<open>JSON values\<close>

datatype 'n json =
    JNull
  | JBool bool
  | JNumber 'n
  | JString string
  | JArray "'n json list"
  | JObject "(string \<times> 'n json) list"

primrec as_object :: "'n json \<Rightarrow> (string, 'n json) btree option" where
  "as_object JNull = None"
| "as_object (JBool b) = None"
| "as_object (JNumber n) = None"
| "as_object (JString s) = None"
| "as_object (JArray vs) = None"
| "as_object (JObject m) = Some m"

primrec as_str :: "'n json \<Rightarrow> string option" where
  "as_str JNull = None"
| "as_str (JBool b) = None"
| "as_str (JNumber n) = None"
| "as_str (JString s) = Some s"
| "as_str (JArray vs) = None"
| "as_str (JObject m) = None"

definition json_get :: "'n json \<Rightarrow> string \<Rightarrow> 'n json option" where
  "json_get v k = Option.bind (as_object v) (\<lambda>m. bt_get m k)"

definition is_object :: "'n json \<Rightarrow> bool" where
  "is_object v = (as_object v \<noteq> None)"

definition get_object :: "'n json \<Rightarrow> string \<Rightarrow> 'n json option" where
  "get_object v k =
     (case json_get v k of None \<Rightarrow> None | Some w \<Rightarrow> if is_object w then Some w else None)"

text \<open>Objects are maps: strictly sorted keys at every level.\<close>

primrec json_wf :: "'n json \<Rightarrow> bool" where
  "json_wf JNull = True"
| "json_wf (JBool b) = True"
| "json_wf (JNumber n) = True"
| "json_wf (JString s) = True"
| "json_wf (JArray vs) = list_all id (map json_wf vs)"
| "json_wf (JObject m) = (bt_wf m \<and> list_all snd (map (map_prod id json_wf) m))"

definition set_field :: "'n json \<Rightarrow> string \<Rightarrow> 'n json \<Rightarrow> 'n json" where
  "set_field v k w = (case as_object v of None \<Rightarrow> v | Some m \<Rightarrow> JObject (bt_insert k w m))"

section \<open>Ordered maps as objects\<close>

lemma bt_insert_twice: "bt_insert k v (bt_insert k w m) = bt_insert k v m"
  by (induction k w m rule: bt_insert.induct) auto

lemma bt_insert_swap:
  "k \<noteq> l \<Longrightarrow> bt_insert k v (bt_insert l w m) = bt_insert l w (bt_insert k v m)"
  by (induction k v m rule: bt_insert.induct) auto

lemma bt_insert_same: "bt_wf m \<Longrightarrow> bt_get m k = Some v \<Longrightarrow> bt_insert k v m = m"
proof (induction k v m rule: bt_insert.induct)
  case (2 k v a b m)
  then show ?case
    using map_of_SomeD [of m k v] by (force simp: bt_wf_Cons split: if_splits)
qed simp

lemma json_get_simps [simp]:
  "json_get (JObject m) k = bt_get m k"
  "is_object (JObject m)"
  by (simp_all add: json_get_def is_object_def)

lemma get_object_eq_Some:
  "get_object v k = Some w \<longleftrightarrow> json_get v k = Some w \<and> (\<exists>m. w = JObject m)"
  by (cases w) (auto simp: get_object_def is_object_def split: option.splits)

lemma as_object_eq_Some [simp]: "as_object v = Some m \<longleftrightarrow> v = JObject m"
  by (cases v) auto

lemma json_wf_field: "json_wf (JObject m) \<Longrightarrow> bt_get m k = Some v \<Longrightarrow> json_wf v"
  by (auto simp: list_all_iff dest!: map_of_SomeD)

end
