(* ===== verification/Peer_Wire.thy ===== *)
theory Peer_Wire
  imports Json_Value
begin

text \<open>
  The lossless wire projection of renewal receipts (\<open>crates/rusty-quest-peer-wire/src\<close>):
  \<open>project_renewal\<close> replaces the two checkpoint copies of the media authority by references,
  \<open>expand_renewal\<close> restores them. \<open>serde_json::to_vec\<close> and SHA-256 are parameters. A JSON
  number is its printed form, so numbers that compare equal are printed alike.
\<close>

section \<open>Projection\<close>

definition schema_of :: "'n json \<Rightarrow> string option" where
  "schema_of v = Option.bind (json_get v ''$schema'') as_str"

datatype wire_error =
    Json
  | CompleteReceiptBounds
  | ReceiptSchema
  | MediaAuthorityAbsent
  | CheckpointShape
  | CheckpointSchema
  | CheckpointAuthorityAbsent
  | UnwrappedReference
  | ProjectionShape
  | ClosedFields
  | ReferenceSchema
  | ClosedReference
  | ExactReceiptDiffers
  | CheckpointReferenceRequiresProjectedReceipt

primrec wire_error_code :: "wire_error \<Rightarrow> string" where
  "wire_error_code Json = ''json''"
| "wire_error_code CompleteReceiptBounds = ''complete_receipt_bounds''"
| "wire_error_code ReceiptSchema = ''receipt_schema''"
| "wire_error_code MediaAuthorityAbsent = ''media_authority_absent''"
| "wire_error_code CheckpointShape = ''checkpoint_shape''"
| "wire_error_code CheckpointSchema = ''checkpoint_schema''"
| "wire_error_code CheckpointAuthorityAbsent = ''checkpoint_authority_absent''"
| "wire_error_code UnwrappedReference = ''unwrapped_reference''"
| "wire_error_code ProjectionShape = ''projection_shape''"
| "wire_error_code ClosedFields = ''closed_fields''"
| "wire_error_code ReferenceSchema = ''reference_schema''"
| "wire_error_code ClosedReference = ''closed_reference''"
| "wire_error_code ExactReceiptDiffers = ''exact_receipt_differs''"
| "wire_error_code CheckpointReferenceRequiresProjectedReceipt =
     ''checkpoint_reference_requires_projected_receipt''"

definition receipt_v3 :: string where
  "receipt_v3 = ''rusty.quest.concurrent.authority_renewal_receipt.v3''"

definition checkpoint_v2 :: string where
  "checkpoint_v2 = ''rusty.manifold.peer.concurrent_media_checkpoint.v2''"

definition projection_v1 :: string where
  "projection_v1 = ''rusty.quest.concurrent.authority_renewal_projection.v1''"

definition media_reference_prefix :: string where
  "media_reference_prefix = ''rusty.quest.concurrent.media_authority_reference.''"

definition media_reference_v1 :: string where
  "media_reference_v1 = ''rusty.quest.concurrent.media_authority_reference.v1''"

definition checkpoint_reference_v1 :: string where
  "checkpoint_reference_v1 = ''rusty.quest.concurrent.checkpoint_reference.v1''"

record 'n wire_externals =
  w_to_vec :: "'n json \<Rightarrow> bytes option"
  w_sha256 :: "bytes \<Rightarrow> bytes"

definition full_schema :: "'n json \<Rightarrow> bool" where
  "full_schema v =
     (schema_of v = Some ''rusty.quest.concurrent.authority_renewal_receipt.v1''
      \<or> schema_of v = Some ''rusty.quest.concurrent.authority_renewal_receipt.v2''
      \<or> schema_of v = Some receipt_v3)"

definition receipt_sha256 :: "'n wire_externals \<Rightarrow> 'n json \<Rightarrow> wire_error + string" where
  "receipt_sha256 x v =
     and_then (ok_or Json (w_to_vec x v)) (\<lambda>bs.
       if 1048576 \<le> length bs then Inl CompleteReceiptBounds
       else Inr (''sha256:'' @ lower_hex (w_sha256 x bs)))"

definition is_projected :: "'n json \<Rightarrow> bool" where
  "is_projected v = (schema_of v = Some projection_v1)"

definition media_reference :: "'n json" where
  "media_reference = JObject (bt_insert ''$schema'' (JString media_reference_v1) [])"

text \<open>The loop over the two named slots; the counter is the number of references made.\<close>

fun project_slots ::
  "'n json \<Rightarrow> string list \<Rightarrow> (string, 'n json) btree \<Rightarrow> nat
     \<Rightarrow> wire_error + ((string, 'n json) btree \<times> nat)" where
  "project_slots media [] checkpoint references = Inr (checkpoint, references)"
| "project_slots media (field # names) checkpoint references =
     (case get_object (JObject checkpoint) field of
        None \<Rightarrow> Inl CheckpointAuthorityAbsent
      | Some v \<Rightarrow>
          if v = media
          then project_slots media names (bt_insert field media_reference checkpoint) (references + 1)
          else project_slots media names checkpoint references)"

definition projection_object :: "string \<Rightarrow> 'n json \<Rightarrow> 'n json" where
  "projection_object digest body =
     JObject (bt_insert ''receipt'' body
       (bt_insert ''receipt_sha256'' (JString digest)
         (bt_insert ''$schema'' (JString projection_v1) [])))"

definition slot_names :: "string list" where
  "slot_names = [''original'', ''baseline'']"

definition project_renewal :: "'n wire_externals \<Rightarrow> 'n json \<Rightarrow> wire_error + 'n json" where
  "project_renewal x receipt =
     (if \<not> full_schema receipt then Inl ReceiptSchema
      else if schema_of receipt \<noteq> Some receipt_v3
        \<or> (case json_get receipt ''continuation_checkpoint'' of
             None \<Rightarrow> True | Some v \<Rightarrow> v = JNull)
      then Inr receipt
      else
        and_then (ok_or MediaAuthorityAbsent (get_object receipt ''media_authority'')) (\<lambda>media.
        and_then (ok_or CheckpointShape
            (Option.bind (json_get receipt ''continuation_checkpoint'') as_object)) (\<lambda>checkpoint.
        and_then (reject_if (schema_of (JObject checkpoint) \<noteq> Some checkpoint_v2)
            CheckpointSchema) (\<lambda>_.
        and_then (project_slots media slot_names checkpoint 0) (\<lambda>(checkpoint, references).
        if references = 0 then Inr receipt
        else
          and_then (receipt_sha256 x receipt) (\<lambda>digest.
          Inr (projection_object digest
            (set_field receipt ''continuation_checkpoint'' (JObject checkpoint)))))))))"

section \<open>Expansion\<close>

definition is_reference_schema :: "string option \<Rightarrow> bool" where
  "is_reference_schema s =
     (case s of None \<Rightarrow> False | Some s \<Rightarrow> starts_with s media_reference_prefix)"

text \<open>\<open>Value::pointer\<close> at \<open>/continuation_checkpoint/<field>/$schema\<close>.\<close>

definition slot_schema :: "'n json \<Rightarrow> string \<Rightarrow> string option" where
  "slot_schema v field =
     Option.bind (json_get v ''continuation_checkpoint'') (\<lambda>c.
     Option.bind (json_get c field) schema_of)"

fun expand_slots ::
  "'n json \<Rightarrow> string list \<Rightarrow> (string, 'n json) btree
     \<Rightarrow> wire_error + (string, 'n json) btree" where
  "expand_slots media [] checkpoint = Inr checkpoint"
| "expand_slots media (field # names) checkpoint =
     (case bt_get checkpoint field of
        None \<Rightarrow> Inl CheckpointAuthorityAbsent
      | Some v \<Rightarrow>
          if is_reference_schema (schema_of v) \<and> schema_of v \<noteq> Some media_reference_v1
          then Inl ReferenceSchema
          else if schema_of v = Some media_reference_v1 then
            (if (case as_object v of None \<Rightarrow> True | Some m \<Rightarrow> length m \<noteq> 1)
             then Inl ClosedReference
             else expand_slots media names (bt_insert field media checkpoint))
          else expand_slots media names checkpoint)"

definition expand_renewal :: "'n wire_externals \<Rightarrow> 'n json \<Rightarrow> wire_error + 'n json" where
  "expand_renewal x projection =
     (if \<not> is_projected projection then
        (if \<not> full_schema projection then Inl ReceiptSchema
         else if list_ex (\<lambda>field. is_reference_schema (slot_schema projection field)) slot_names
         then Inl UnwrappedReference
         else Inr projection)
      else
        and_then (ok_or ProjectionShape (as_object projection)) (\<lambda>object.
        if length object \<noteq> 3 \<or> \<not> bt_contains ''receipt_sha256'' object
          \<or> \<not> bt_contains ''receipt'' object
        then Inl ClosedFields
        else
          (let receipt = (case json_get projection ''receipt'' of None \<Rightarrow> JNull | Some v \<Rightarrow> v) in
           and_then (reject_if (schema_of receipt \<noteq> Some receipt_v3) ReceiptSchema) (\<lambda>_.
           and_then (ok_or MediaAuthorityAbsent (get_object receipt ''media_authority'')) (\<lambda>media.
           and_then (ok_or CheckpointShape
               (Option.bind (json_get receipt ''continuation_checkpoint'') as_object)) (\<lambda>checkpoint.
           and_then (expand_slots media slot_names checkpoint) (\<lambda>checkpoint.
           let receipt = set_field receipt ''continuation_checkpoint'' (JObject checkpoint) in
           and_then (receipt_sha256 x receipt) (\<lambda>digest.
           if Option.bind (json_get projection ''receipt_sha256'') as_str \<noteq> Some digest
           then Inl ExactReceiptDiffers
           else
             and_then (project_renewal x receipt) (\<lambda>again.
             if again \<noteq> projection then Inl ExactReceiptDiffers else Inr receipt)))))))))"

definition checkpoint_reference :: "'n wire_externals \<Rightarrow> 'n json \<Rightarrow> wire_error + 'n json" where
  "checkpoint_reference x receipt =
     and_then (project_renewal x receipt) (\<lambda>p.
     if \<not> is_projected p then Inl CheckpointReferenceRequiresProjectedReceipt
     else
       and_then (receipt_sha256 x receipt) (\<lambda>digest.
       Inr (JObject (bt_insert ''receipt_sha256'' (JString digest)
         (bt_insert ''$schema'' (JString checkpoint_reference_v1) [])))))"

section \<open>Lemmas\<close>

lemma schema_set_field [simp]:
  "k \<noteq> ''$schema'' \<Longrightarrow> schema_of (set_field v k w) = schema_of v"
  by (cases v) (auto simp: set_field_def schema_of_def json_get_def)

lemma json_get_set_field: "k \<noteq> l \<Longrightarrow> json_get (set_field v k w) l = json_get v l"
  by (cases v) (auto simp: set_field_def json_get_def)

lemma get_object_set_field: "k \<noteq> l \<Longrightarrow> get_object (set_field v k w) l = get_object v l"
  by (simp add: get_object_def json_get_set_field)

lemma set_field_twice [simp]: "set_field (set_field v k w) k u = set_field v k u"
  by (cases v) (simp_all add: set_field_def bt_insert_twice)

lemma set_field_same: "json_wf v \<Longrightarrow> json_get v k = Some w \<Longrightarrow> set_field v k w = v"
  by (cases v) (simp_all add: set_field_def json_get_def bt_insert_same)

lemma media_reference_facts [simp]:
  "schema_of media_reference = Some media_reference_v1"
  "as_object media_reference = Some [(''$schema'', JString media_reference_v1)]"
  by (simp_all add: media_reference_def schema_of_def)

lemma reference_is_reference: "is_reference_schema (Some media_reference_v1)"
  by (simp add: is_reference_schema_def media_reference_v1_def media_reference_prefix_def
      starts_with_def)

lemma projection_object_facts [simp]:
  "schema_of (projection_object d b) = Some projection_v1"
  "is_projected (projection_object d b)"
  "json_get (projection_object d b) ''receipt'' = Some b"
  "json_get (projection_object d b) ''receipt_sha256'' = Some (JString d)"
  "projection_object d b \<noteq> JNull"
  by (simp_all add: projection_object_def schema_of_def is_projected_def)

lemma full_not_projected: "full_schema v \<Longrightarrow> \<not> is_projected v"
  by (auto simp: full_schema_def is_projected_def receipt_v3_def projection_v1_def)

text \<open>Expansion undoes projection slot by slot, as long as no slot held a reference before.\<close>

definition slots_plain :: "string list \<Rightarrow> (string, 'n json) btree \<Rightarrow> bool" where
  "slots_plain names c =
     list_all (\<lambda>f. case bt_get c f of None \<Rightarrow> True
                    | Some v \<Rightarrow> \<not> is_reference_schema (schema_of v)) names"

lemma expand_slots_insert:
  "expand_slots media names c = Inr d \<Longrightarrow> f \<notin> set names \<Longrightarrow>
     expand_slots media names (bt_insert f v c) = Inr (bt_insert f v d)"
proof (induction media names c rule: expand_slots.induct)
  case (2 media g names c)
  then show ?case
    by (auto simp: bt_insert_swap [of g f] split: option.splits if_splits)
qed simp

lemma expand_slots_other:
  "expand_slots media names c = Inr d \<Longrightarrow> f \<notin> set names \<Longrightarrow> bt_get d f = bt_get c f"
  by (induction media names c rule: expand_slots.induct) (auto split: option.splits if_splits)

lemma expand_project_slots:
  assumes "project_slots media names c n = Inr (c', n')"
    and "slots_plain names c" "distinct names" "bt_wf c"
  shows "expand_slots media names c' = Inr c \<and> (\<forall>f. f \<notin> set names \<longrightarrow> bt_get c' f = bt_get c f)"
  using assms
proof (induction media names c n rule: project_slots.induct)
  case (2 media f names c n)
  from "2.prems"(1) obtain v where v: "bt_get c f = Some v" "get_object (JObject c) f = Some v"
    by (auto simp: get_object_eq_Some split: option.splits)
  have f: "f \<notin> set names" and plain_v: "\<not> is_reference_schema (schema_of v)"
    using "2.prems"(2,3) v(1) by (auto simp: slots_plain_def)
  show ?case
  proof (cases "v = media")
    case True
    let ?c = "bt_insert f media_reference c"
    have plain: "slots_plain names ?c"
      using "2.prems"(2) f by (auto simp: slots_plain_def list_all_iff)
    have IH: "expand_slots media names c' = Inr ?c \<and> (\<forall>g. g \<notin> set names \<longrightarrow> bt_get c' g = bt_get ?c g)"
      using "2.IH"(1) [OF v(2) True _ plain] "2.prems" v True by simp
    then have "bt_get c' f = Some media_reference"
      using f by simp
    moreover have "expand_slots media names (bt_insert f media c') = Inr (bt_insert f media ?c)"
      using IH f by (intro expand_slots_insert) auto
    moreover have "bt_insert f media ?c = c"
      using "2.prems"(4) v True by (simp add: bt_insert_twice bt_insert_same)
    ultimately show ?thesis
      using IH by simp
  next
    case False
    have plain: "slots_plain names c"
      using "2.prems"(2) by (simp add: slots_plain_def)
    have IH: "expand_slots media names c' = Inr c \<and> (\<forall>g. g \<notin> set names \<longrightarrow> bt_get c' g = bt_get c g)"
      using "2.IH"(2) [OF v(2) False _ plain] "2.prems" v False by simp
    then have "bt_get c' f = Some v"
      using f v(1) by simp
    moreover have "schema_of v \<noteq> Some media_reference_v1"
      using plain_v reference_is_reference by auto
    ultimately show ?thesis
      using IH plain_v by simp
  qed
qed simp

section \<open>Round trips\<close>

text \<open>What \<open>project_renewal\<close> returns: the receipt itself, or a projection object.\<close>

lemma project_renewal_cases:
  assumes "project_renewal x r = Inr p"
  obtains "p = r" "full_schema r"
  | media c c' n digest where
      "schema_of r = Some receipt_v3" "get_object r ''media_authority'' = Some media"
      "json_get r ''continuation_checkpoint'' = Some (JObject c)"
      "project_slots media slot_names c 0 = Inr (c', n)" "n \<noteq> 0"
      "receipt_sha256 x r = Inr digest"
      "p = projection_object digest (set_field r ''continuation_checkpoint'' (JObject c'))"
proof (cases "schema_of r \<noteq> Some receipt_v3
    \<or> (case json_get r ''continuation_checkpoint'' of None \<Rightarrow> True | Some v \<Rightarrow> v = JNull)")
  case True
  then have "p = r" "full_schema r"
    using assms unfolding project_renewal_def by (simp_all split: if_splits)
  then show ?thesis
    by (rule that(1))
next
  case False
  then have schema: "schema_of r = Some receipt_v3"
    by blast
  have full: "\<not> \<not> full_schema r"
    using assms by (cases "full_schema r") (simp_all add: project_renewal_def)
  obtain media c c' n where parts: "get_object r ''media_authority'' = Some media"
      "Option.bind (json_get r ''continuation_checkpoint'') as_object = Some c"
      "project_slots media slot_names c 0 = Inr (c', n)"
    and out: "(if n = 0 then Inr r
       else and_then (receipt_sha256 x r) (\<lambda>digest. Inr (projection_object digest
              (set_field r ''continuation_checkpoint'' (JObject c'))))) = Inr p"
    using assms unfolding project_renewal_def if_not_P [OF False] if_not_P [OF full]
    by (simp only: result_simps split_paired_Ex prod.case) blast
  have "json_get r ''continuation_checkpoint'' = Some (JObject c)"
    using parts(2) by (simp add: bind_eq_Some_conv)
  note slots = schema parts(1) this parts(3)
  show ?thesis
  proof (cases "n = 0")
    case True
    then show ?thesis
      using out full that(1) by simp
  next
    case False
    then obtain digest where "receipt_sha256 x r = Inr digest"
        "p = projection_object digest (set_field r ''continuation_checkpoint'' (JObject c'))"
      using out by (simp only: if_False result_simps) blast
    with slots False show ?thesis
      by (intro that(2))
  qed
qed

definition plain_receipt :: "'n json \<Rightarrow> bool" where
  "plain_receipt r = list_all (\<lambda>f. \<not> is_reference_schema (slot_schema r f)) slot_names"

lemma plain_receipt_slots:
  "plain_receipt r \<Longrightarrow> json_get r ''continuation_checkpoint'' = Some (JObject c) \<Longrightarrow>
     slots_plain slot_names c"
  by (auto simp: plain_receipt_def slots_plain_def slot_schema_def list_all_iff split: option.splits)

text \<open>The wire projection is lossless: a well-formed receipt whose checkpoint holds no reference of its own
  is restored exactly by expanding whatever \<open>project_renewal\<close> made of it.\<close>

theorem expand_of_projection:
  assumes "json_wf r" "plain_receipt r" "project_renewal x r = Inr p"
  shows "expand_renewal x p = Inr r"
  using assms(3)
proof (cases rule: project_renewal_cases)
  case 1
  with assms(2) full_not_projected [of r] show ?thesis
    by (auto simp: expand_renewal_def plain_receipt_def list_ex_iff list_all_iff)
next
  case (2 media c c' n digest)
  let ?cc = "''continuation_checkpoint''"
  obtain m where m: "r = JObject m" "bt_get m ?cc = Some (JObject c)"
    using 2(3) by (auto simp: json_get_def bind_eq_Some_conv)
  have r: "bt_wf c" "set_field r ?cc (JObject c) = r"
    using set_field_same [OF assms(1) 2(3)] json_wf_field [of m ?cc "JObject c"] m assms(1) by auto
  have slots: "expand_slots media slot_names c' = Inr c"
    using expand_project_slots [OF 2(4) plain_receipt_slots [OF assms(2) 2(3)] _ r(1)]
    by (simp add: slot_names_def)
  let ?body = "set_field r ?cc (JObject c')"
  have body: "schema_of ?body = Some receipt_v3" "get_object ?body ''media_authority'' = Some media"
    "json_get ?body ?cc = Some (JObject c')"
    using 2(1-3) m by (simp_all add: get_object_set_field) (simp add: set_field_def)
  have obj: "as_object p = Some (bt_insert ''receipt'' ?body
      (bt_insert ''receipt_sha256'' (JString digest) (bt_insert ''$schema'' (JString projection_v1) [])))"
    by (simp add: 2(7) projection_object_def)
  show ?thesis
    using body slots r(2) 2(6) assms(3)
    unfolding expand_renewal_def obj
    by (simp add: 2(7) Let_def reject_if_def bt_contains_def bt_length_insert)
qed

text \<open>A two-slot receipt over strings as numbers, printed as nothing, hashed to zeros.\<close>

definition demo_media :: "unit json" where
  "demo_media = JObject [(''epoch'', JNumber ())]"

definition demo_receipt :: "unit json" where
  "demo_receipt = JObject
     [(''$schema'', JString receipt_v3),
      (''continuation_checkpoint'', JObject
        [(''$schema'', JString checkpoint_v2),
         (''baseline'', JObject []), (''original'', demo_media)]),
      (''media_authority'', demo_media)]"

definition demo_wire :: "unit wire_externals" where
  "demo_wire = \<lparr>w_to_vec = (\<lambda>_. Some [1, 2]), w_sha256 = (\<lambda>_. replicate 32 0)\<rparr>"

definition demo_projection :: "unit json" where
  "demo_projection = projection_object (''sha256:'' @ replicate 64 CHR ''0'') (JObject
     [(''$schema'', JString receipt_v3),
      (''continuation_checkpoint'', JObject
        [(''$schema'', JString checkpoint_v2),
         (''baseline'', JObject []), (''original'', media_reference)]),
      (''media_authority'', demo_media)])"

lemma demo_wire_digest: "lower_hex (replicate 32 0) = replicate 64 CHR ''0''"
  by code_simp

lemma demo_schemas:
  "full_schema demo_receipt" "schema_of demo_receipt = Some receipt_v3"
  by (simp_all add: full_schema_def demo_receipt_def schema_of_def)

lemma demo_projected: "project_renewal demo_wire demo_receipt = Inr demo_projection"
proof -
  have slots: "project_slots demo_media slot_names
      [(''$schema'', JString checkpoint_v2), (''baseline'', JObject []), (''original'', demo_media)] 0
    = Inr ([(''$schema'', JString checkpoint_v2), (''baseline'', JObject []),
            (''original'', media_reference)], 1)"
    by code_simp
  have body: "set_field demo_receipt ''continuation_checkpoint'' v = JObject
     [(''$schema'', JString receipt_v3), (''continuation_checkpoint'', v), (''media_authority'', demo_media)]"
    for v
    by (simp add: set_field_def demo_receipt_def less_char_def)
  have parts: "get_object demo_receipt ''media_authority'' = Some demo_media"
    "json_get demo_receipt ''continuation_checkpoint'' = Some (JObject
        [(''$schema'', JString checkpoint_v2), (''baseline'', JObject []), (''original'', demo_media)])"
    by (simp_all add: demo_receipt_def get_object_eq_Some) (simp add: demo_media_def)
  have "receipt_sha256 demo_wire demo_receipt = Inr (''sha256:'' @ replicate 64 CHR ''0'')"
    by (simp add: receipt_sha256_def demo_wire_def demo_wire_digest)
  then show ?thesis
    unfolding project_renewal_def parts
    by (simp add: demo_schemas slots body parts demo_projection_def reject_if_def
        schema_of_def [of "JObject _"])
qed

lemma demo_receipt_wf: "json_wf demo_receipt"
  by code_simp

lemma demo_receipt_plain: "plain_receipt demo_receipt"
  by code_simp

theorem expand_of_projection_witness:
  "project_renewal demo_wire demo_receipt = Inr demo_projection
   \<and> demo_projection \<noteq> demo_receipt
   \<and> expand_renewal demo_wire demo_projection = Inr demo_receipt"
proof -
  have "is_projected demo_projection" "\<not> is_projected demo_receipt"
    using full_not_projected [OF demo_schemas(1)] by (simp_all add: demo_projection_def)
  then have "demo_projection \<noteq> demo_receipt"
    by metis
  with expand_of_projection [OF demo_receipt_wf demo_receipt_plain demo_projected] demo_projected show ?thesis
    by simp
qed

text \<open>C40. Expansion is exact: an expanded receipt re-projects to exactly the projection it came from, is below the
  1 MiB bound and hashes to the digest that the projection carries; an unprojected receipt is passed on
  unchanged and only if its checkpoint holds no bare reference.\<close>

theorem expansion_is_exact:
  assumes "expand_renewal x p = Inr r"
  shows "if is_projected p
    then project_renewal x r = Inr p \<and> schema_of r = Some receipt_v3
      \<and> (\<exists>bs. w_to_vec x r = Some bs \<and> length bs < 1048576
           \<and> json_get p ''receipt_sha256'' = Some (JString (''sha256:'' @ lower_hex (w_sha256 x bs))))
    else r = p \<and> full_schema p \<and> plain_receipt p"
proof (cases "is_projected p")
  case False
  with assms show ?thesis
    by (auto simp: expand_renewal_def plain_receipt_def list_ex_iff list_all_iff split: if_splits)
next
  case True
  then obtain body c where
    schema: "schema_of body = Some receipt_v3"
    and r: "r = set_field body ''continuation_checkpoint'' (JObject c)"
    and again: "project_renewal x r = Inr p"
    and digest: "\<exists>d. receipt_sha256 x r = Inr d
      \<and> Option.bind (json_get p ''receipt_sha256'') as_str = Some d"
    using assms
    by (auto simp: expand_renewal_def result_simps Let_def simp del: bind_eq_Some_conv
        split: if_splits)
  have str: "as_str v = Some s \<longleftrightarrow> v = JString s" for v :: "'a json" and s
    by (cases v) auto
  show ?thesis
    using True schema again digest
    by (auto simp: r receipt_sha256_def result_simps bind_eq_Some_conv str not_le split: if_splits)
qed

theorem expansion_is_exact_witness:
  "project_renewal demo_wire demo_receipt = Inr demo_projection
   \<and> schema_of demo_receipt = Some receipt_v3"
proof -
  have "is_projected demo_projection"
    by (simp add: demo_projection_def)
  with expansion_is_exact [OF expand_of_projection [OF demo_receipt_wf demo_receipt_plain demo_projected]] show ?thesis
    by simp
qed

text \<open>Checkpoint references name projected receipts only: \<open>checkpoint_reference\<close> succeeds
  exactly when the receipt projects to a different value, and then its reference carries the
  very digest that the projection carries; otherwise the projection's own refusal, or the
  dedicated one, is returned.\<close>

theorem checkpoint_reference_agrees:
  "checkpoint_reference x r =
     (case project_renewal x r of
        Inl e \<Rightarrow> Inl e
      | Inr p \<Rightarrow>
          if p = r then Inl CheckpointReferenceRequiresProjectedReceipt
          else Inr (JObject [(''$schema'', JString checkpoint_reference_v1),
            (''receipt_sha256'', the (json_get p ''receipt_sha256''))]))"
proof (cases "project_renewal x r")
  case (Inr p)
  then show ?thesis
  proof (cases rule: project_renewal_cases)
    case 1
    with Inr full_not_projected [of r] show ?thesis
      by (simp add: checkpoint_reference_def)
  next
    case (2 media c c' n digest)
    have "full_schema r"
      using 2(1) by (simp add: full_schema_def)
    then have "p \<noteq> r"
      using full_not_projected 2(7) projection_object_facts(2) by metis
    moreover have "is_projected p" "json_get p ''receipt_sha256'' = Some (JString digest)"
      by (simp_all add: 2(7))
    ultimately show ?thesis
      using Inr 2(6) by (simp add: checkpoint_reference_def less_char_def)
  qed
qed (simp add: checkpoint_reference_def)

end
