(* ===== verification/Media_Failure.thy ===== *)
theory Media_Failure
  imports Quest_Prelude
begin

text \<open>
  The failure and recovery harness of the media runtime
  (\<open>crates/rusty-quest-media-stream/src/failure_recovery.rs\<close>): a state machine with one
  injection and one recovery. Its contract, over every sequence of calls, is stated as a
  step relation and every refused call is shown to leave the harness alone.
\<close>

section \<open>The harness\<close>

datatype media_failure_criterion =
    RouteLoss | SlowConsumer | QueuePressure | CodecFailure | CleanupFailure
  | ProviderDeath | NativeAppDeath | SpatialAppDeath

record media_failure_snapshot =
  fs_observed_state :: string
  fs_authority_revision :: u64
  fs_provider_epoch :: u64
  fs_cleanup_complete :: bool

record media_failure_harness =
  fh_criterion :: media_failure_criterion
  fh_snapshot :: media_failure_snapshot
  fh_injected :: bool

datatype media_failure_transition_error = InvalidPhase

definition new_harness :: "media_failure_criterion \<Rightarrow> media_failure_harness" where
  "new_harness c =
     \<lparr>fh_criterion = c,
      fh_snapshot = \<lparr>fs_observed_state = ''ready'', fs_authority_revision = 1,
        fs_provider_epoch = 1, fs_cleanup_complete = True\<rparr>,
      fh_injected = False\<rparr>"

primrec injected_state :: "media_failure_criterion \<Rightarrow> string" where
  "injected_state RouteLoss = ''route_unavailable''"
| "injected_state SlowConsumer = ''slow_consumer_observed''"
| "injected_state QueuePressure = ''queue_pressure_observed''"
| "injected_state CodecFailure = ''codec_failure_injected''"
| "injected_state CleanupFailure = ''cleanup_failure_injected''"
| "injected_state ProviderDeath = ''provider_terminated''"
| "injected_state NativeAppDeath = ''native_app_terminated''"
| "injected_state SpatialAppDeath = ''spatial_app_terminated''"

text \<open>A method with a mutable receiver returns its result and the receiver after the call.\<close>

definition inject ::
  "media_failure_harness
     \<Rightarrow> (media_failure_transition_error + media_failure_snapshot) \<times> media_failure_harness" where
  "inject h =
     (if fh_injected h \<or> fs_observed_state (fh_snapshot h) \<noteq> ''ready'' then (Inl InvalidPhase, h)
      else
        let s = (fh_snapshot h)\<lparr>fs_authority_revision := 2, fs_cleanup_complete := False,
                  fs_observed_state := injected_state (fh_criterion h)\<rparr>
        in (Inr s, h\<lparr>fh_injected := True, fh_snapshot := s\<rparr>))"

text \<open>The recovery arm of \<open>ProviderDeath\<close> also bumps the epoch.\<close>

definition recovered :: "media_failure_criterion \<Rightarrow> media_failure_snapshot \<Rightarrow> media_failure_snapshot" where
  "recovered c s =
     (case c of
        SlowConsumer \<Rightarrow> s\<lparr>fs_observed_state := ''bounded''\<rparr>
      | QueuePressure \<Rightarrow> s\<lparr>fs_observed_state := ''bounded''\<rparr>
      | CodecFailure \<Rightarrow> s\<lparr>fs_observed_state := ''rejected''\<rparr>
      | ProviderDeath \<Rightarrow> s\<lparr>fs_provider_epoch := fs_provider_epoch s + 1,
                          fs_observed_state := ''recovered_fresh_epoch''\<rparr>
      | _ \<Rightarrow> s\<lparr>fs_observed_state := ''recovered''\<rparr>)"

definition recover ::
  "media_failure_harness
     \<Rightarrow> (media_failure_transition_error + media_failure_snapshot) \<times> media_failure_harness" where
  "recover h =
     (if \<not> fh_injected h \<or> fs_authority_revision (fh_snapshot h) \<noteq> 2 then (Inl InvalidPhase, h)
      else
        let s = recovered (fh_criterion h)
                  ((fh_snapshot h)\<lparr>fs_authority_revision := 3, fs_cleanup_complete := True\<rparr>)
        in (Inr s, h\<lparr>fh_snapshot := s\<rparr>))"

section \<open>Every run\<close>

datatype failure_call = Inject | Recover

primrec failure_step ::
  "failure_call \<Rightarrow> media_failure_harness
     \<Rightarrow> (media_failure_transition_error + media_failure_snapshot) \<times> media_failure_harness" where
  "failure_step Inject h = inject h"
| "failure_step Recover h = recover h"

primrec failure_run ::
  "failure_call list \<Rightarrow> media_failure_harness
     \<Rightarrow> (media_failure_transition_error + media_failure_snapshot) list \<times> media_failure_harness" where
  "failure_run [] h = ([], h)"
| "failure_run (c # cs) h =
     (let out = failure_step c h; rest = failure_run cs (snd out)
      in (fst out # fst rest, snd rest))"

text \<open>The abstract phases and the three harness states they stand for.\<close>

datatype failure_phase = Ready | Damaged | Done

primrec phase_step :: "failure_call \<Rightarrow> failure_phase \<Rightarrow> failure_phase option" where
  "phase_step Inject p = (if p = Ready then Some Damaged else None)"
| "phase_step Recover p = (if p = Damaged then Some Done else None)"

primrec harness_at :: "media_failure_criterion \<Rightarrow> failure_phase \<Rightarrow> media_failure_harness" where
  "harness_at c Ready = new_harness c"
| "harness_at c Damaged = snd (inject (new_harness c))"
| "harness_at c Done = snd (recover (snd (inject (new_harness c))))"

primrec phase_run :: "failure_call list \<Rightarrow> failure_phase \<Rightarrow> bool list \<times> failure_phase" where
  "phase_run [] p = ([], p)"
| "phase_run (c # cs) p =
     (case phase_step c p of
        None \<Rightarrow> (let rest = phase_run cs p in (False # fst rest, snd rest))
      | Some q \<Rightarrow> (let rest = phase_run cs q in (True # fst rest, snd rest)))"

lemmas harness_defs = new_harness_def inject_def recover_def recovered_def Let_def

lemma injected_not_ready: "injected_state c \<noteq> ''ready''"
  by (cases c) simp_all

lemma step_refines:
  "(case phase_step call p of
      None \<Rightarrow> failure_step call (harness_at c p) = (Inl InvalidPhase, harness_at c p)
    | Some q \<Rightarrow> failure_step call (harness_at c p)
         = (Inr (fh_snapshot (harness_at c q)), harness_at c q))"
  by (cases call; cases p; cases c) (simp_all add: harness_defs)

text \<open>The failure harness implements a three-phase machine: over every sequence of calls a call succeeds
  exactly when the machine allows it, so injection and recovery each take effect at most once
  and in that order, a refused call changes nothing, and the harness is in the state of the
  phase reached.\<close>

theorem failure_run_refines_phases:
  "map is_ok (fst (failure_run cs (harness_at c p))) = fst (phase_run cs p)
   \<and> snd (failure_run cs (harness_at c p)) = harness_at c (snd (phase_run cs p))"
proof (induction cs arbitrary: p)
  case (Cons call cs)
  show ?case
    using step_refines [where call = call and p = p and c = c] Cons.IH
    by (cases "phase_step call p") (simp_all add: Let_def)
qed simp

text \<open>What each phase shows: revisions are 1, 2, 3 in phase order, cleanup is complete
  in every phase except the damaged one, and only the death of the provider starts a fresh
  epoch, and only on recovery.\<close>

theorem failure_phase_evidence:
  "let s = fh_snapshot (harness_at c p) in
     fs_authority_revision s = (case p of Ready \<Rightarrow> 1 | Damaged \<Rightarrow> 2 | Done \<Rightarrow> 3)
     \<and> fs_cleanup_complete s = (p \<noteq> Damaged)
     \<and> fs_provider_epoch s = (if p = Done \<and> c = ProviderDeath then 2 else 1)
     \<and> (fs_observed_state s = ''ready'') = (p = Ready)"
  by (cases p; cases c) (simp_all add: harness_defs)

end
