(* ===== verification/Media_Pair.thy ===== *)
theory Media_Pair
  imports Quest_Prelude "HOL-Library.Multiset"
begin

text \<open>
  Exact stereo pairing and once-only frame release
  (\<open>AndroidMediaPairRuntime\<close> in \<open>crates/rusty-quest-media-stream-android/src/lib.rs\<close>).
  Presentation timestamps (\<open>i64\<close>) are only compared and are mathematical integers here; every
  other integer keeps its width.
\<close>

section \<open>Data\<close>

datatype media_eye = EyeLeft | EyeRight

instantiation media_eye :: linorder
begin

definition less_eq_media_eye :: "media_eye \<Rightarrow> media_eye \<Rightarrow> bool" where
  "less_eq_media_eye a b = (a = EyeLeft \<or> b = EyeRight)"

definition less_media_eye :: "media_eye \<Rightarrow> media_eye \<Rightarrow> bool" where
  "less_media_eye a b = (a = EyeLeft \<and> b = EyeRight)"

instance
proof
  fix a b c :: media_eye
  show "a < b \<longleftrightarrow> a \<le> b \<and> \<not> b \<le> a" "a \<le> a"
    by (cases a; cases b; simp add: less_eq_media_eye_def less_media_eye_def)+
  show "a \<le> b \<Longrightarrow> b \<le> c \<Longrightarrow> a \<le> c" "a \<le> b \<Longrightarrow> b \<le> a \<Longrightarrow> a = b" "a \<le> b \<or> b \<le> a"
    by (cases a; cases b; cases c; simp add: less_eq_media_eye_def)+
qed

end

datatype media_contract_error =
    InvalidAuthority
  | InvalidSequence
  | SchemaMismatch
  | TicketMismatch
  | InvalidProviderEvidence
  | FrameContractMismatch
  | PairExpired

record media_frame =
  fr_generation :: u64
  fr_lease_id :: string
  fr_pair_id :: u64
  fr_eye :: media_eye
  fr_presentation_time_us :: int
  fr_submitted_at_ns :: u64
  fr_frame_handle_id :: string

record stereo_pair =
  sp_pair_id :: u64
  sp_left :: media_frame
  sp_right :: media_frame

type_synonym frame_key = "media_eye \<times> int"

record pair_runtime =
  pr_generation :: u64
  pr_lease_id :: string
  pr_max_pair_age_ns :: u64
  pr_pending_by_pts :: "(frame_key, media_frame) btree"
  pr_released_handles :: "(string, unit) btree"

section \<open>Operations\<close>

definition pair_runtime_new :: "u64 \<Rightarrow> string \<Rightarrow> u64 \<Rightarrow> media_contract_error + pair_runtime" where
  "pair_runtime_new generation lease_id max_pair_age_ns =
     (if generation = 0 \<or> trim_is_empty lease_id \<or> max_pair_age_ns = 0
      then Inl FrameContractMismatch
      else Inr \<lparr>pr_generation = generation, pr_lease_id = lease_id,
             pr_max_pair_age_ns = max_pair_age_ns, pr_pending_by_pts = [],
             pr_released_handles = []\<rparr>)"

definition frame_key_of :: "media_frame \<Rightarrow> frame_key" where
  "frame_key_of f = (fr_eye f, fr_presentation_time_us f)"

definition frame_refused :: "pair_runtime \<Rightarrow> media_frame \<Rightarrow> bool" where
  "frame_refused rt frame =
     (fr_generation frame \<noteq> pr_generation rt
      \<or> fr_lease_id frame \<noteq> pr_lease_id rt
      \<or> trim_is_empty (fr_frame_handle_id frame)
      \<or> bt_contains (fr_frame_handle_id frame) (pr_released_handles rt)
      \<or> bt_contains (frame_key_of frame) (pr_pending_by_pts rt)
      \<or> list_ex (\<lambda>pending. fr_frame_handle_id pending = fr_frame_handle_id frame
            \<or> (fr_pair_id pending = fr_pair_id frame \<and> fr_eye pending = fr_eye frame))
          (map snd (pr_pending_by_pts rt))
      \<or> 32 \<le> length (pr_pending_by_pts rt))"

definition too_old :: "pair_runtime \<Rightarrow> u64 \<Rightarrow> media_frame \<Rightarrow> bool" where
  "too_old rt now_ns frame =
     (pr_max_pair_age_ns rt < saturating_sub now_ns (fr_submitted_at_ns frame))"

definition counterpart :: "pair_runtime \<Rightarrow> media_frame \<Rightarrow> (frame_key \<times> media_frame) option" where
  "counterpart rt frame =
     List.find (\<lambda>(key, pending). fr_pair_id pending = fr_pair_id frame \<and> fr_eye pending \<noteq> fr_eye frame)
       (pr_pending_by_pts rt)"

text \<open>
  \<open>submit\<close>. The lookup and the removal at the counterpart's key find the entry the search
  found; the refusal after a failed removal is the branch the code has for the other case.
\<close>

definition submit ::
  "media_frame \<Rightarrow> u64 \<Rightarrow> pair_runtime
     \<Rightarrow> (media_contract_error + stereo_pair option) \<times> pair_runtime" where
  "submit frame now_ns rt =
     (if frame_refused rt frame then (Inl FrameContractMismatch, rt)
      else if too_old rt now_ns frame then (Inl PairExpired, rt)
      else (case counterpart rt frame of
          Some (key, pending) \<Rightarrow>
            (if too_old rt now_ns pending then (Inl PairExpired, rt)
             else (case bt_get (pr_pending_by_pts rt) key of
                 None \<Rightarrow> (Inl FrameContractMismatch, rt)
               | Some other \<Rightarrow>
                   let left = (if fr_eye frame = EyeLeft then frame else other);
                       right = (if fr_eye frame = EyeLeft then other else frame)
                   in (Inr (Some \<lparr>sp_pair_id = fr_pair_id left, sp_left = left, sp_right = right\<rparr>),
                       rt\<lparr>pr_pending_by_pts := bt_remove key (pr_pending_by_pts rt)\<rparr>)))
        | None \<Rightarrow>
            (Inr None,
             rt\<lparr>pr_pending_by_pts := bt_insert (frame_key_of frame) frame (pr_pending_by_pts rt)\<rparr>)))"

definition cancel_generation ::
  "u64 \<Rightarrow> u64 \<Rightarrow> pair_runtime \<Rightarrow> (media_contract_error + string list) \<times> pair_runtime" where
  "cancel_generation generation replacement rt =
     (if generation \<noteq> pr_generation rt \<or> replacement \<le> generation
      then (Inl FrameContractMismatch, rt)
      else (Inr (map (fr_frame_handle_id \<circ> snd) (pr_pending_by_pts rt)),
            rt\<lparr>pr_pending_by_pts := [], pr_generation := replacement\<rparr>))"

fun take_keys ::
  "'k list \<Rightarrow> ('k, 'v) btree \<Rightarrow> 'v list \<times> ('k, 'v) btree" where
  "take_keys [] m = ([], m)"
| "take_keys (k # ks) m =
     (case bt_get m k of
        None \<Rightarrow> take_keys ks m
      | Some v \<Rightarrow> (let rest = take_keys ks (bt_remove k m) in (v # fst rest, snd rest)))"

definition expire_pairs :: "u64 \<Rightarrow> pair_runtime \<Rightarrow> string list \<times> pair_runtime" where
  "expire_pairs now_ns rt =
     (let expired = map fst (filter (\<lambda>(_, frame). too_old rt now_ns frame) (pr_pending_by_pts rt));
          taken = take_keys expired (pr_pending_by_pts rt)
      in (map fr_frame_handle_id (fst taken), rt\<lparr>pr_pending_by_pts := snd taken\<rparr>))"

definition release ::
  "string \<Rightarrow> pair_runtime \<Rightarrow> (media_contract_error + unit) \<times> pair_runtime" where
  "release handle_id rt =
     (if trim_is_empty handle_id \<or> bt_contains handle_id (pr_released_handles rt)
      then (Inl FrameContractMismatch, rt)
      else (Inr (), rt\<lparr>pr_released_handles := bt_insert handle_id () (pr_released_handles rt)\<rparr>))"

section \<open>Lemmas on the pending map\<close>

lemma take_keys_spec:
  "distinct (map fst m) \<Longrightarrow> distinct ks \<Longrightarrow> set ks \<subseteq> fst ` set m \<Longrightarrow>
     take_keys ks m = (map (the \<circ> bt_get m) ks, filter (\<lambda>kv. fst kv \<notin> set ks) m)"
proof (induction ks arbitrary: m)
  case (Cons k ks)
  obtain v where v: "bt_get m k = Some v"
    using Cons.prems(1,3) by (metis (no_types, lifting) image_iff insert_subset list.simps(15)
        map_of_eq_None_iff not_None_eq)
  have keys: "set ks \<subseteq> fst ` set (bt_remove k m)"
    using Cons.prems(2,3) bt_keys_remove [of k m] by auto
  have "take_keys ks (bt_remove k m)
      = (map (the \<circ> bt_get (bt_remove k m)) ks, filter (\<lambda>kv. fst kv \<notin> set ks) (bt_remove k m))"
    using Cons.prems keys
    by (intro Cons.IH) (auto simp: bt_remove_def distinct_map_filter)
  moreover have "map (the \<circ> bt_get (bt_remove k m)) ks = map (the \<circ> bt_get m) ks"
    using Cons.prems(2) by auto
  moreover have "filter (\<lambda>kv. fst kv \<notin> set ks) (bt_remove k m) = filter (\<lambda>kv. fst kv \<notin> set (k # ks)) m"
    by (auto simp: bt_remove_def intro: filter_cong)
  ultimately show ?case
    using v by (simp add: Let_def)
qed simp

lemma take_filtered_keys:
  assumes "distinct (map fst m)"
  shows "take_keys (map fst (filter P m)) m = (map snd (filter P m), filter (\<lambda>kv. \<not> P kv) m)"
proof -
  have val: "the (bt_get m (fst kv)) = snd kv" if "kv \<in> set m" for kv
    using map_of_is_SomeI [OF assms, of "fst kv" "snd kv"] that by simp
  have mem: "fst kv \<in> fst ` set (filter P m) \<longleftrightarrow> P kv" if "kv \<in> set m" for kv
    using that assms by (force simp: distinct_map inj_on_def)
  have "map (the \<circ> bt_get m) (map fst (filter P m)) = map snd (filter P m)"
    by (simp add: val)
  moreover have "filter (\<lambda>kv. fst kv \<notin> set (map fst (filter P m))) m = filter (\<lambda>kv. \<not> P kv) m"
    using mem by (intro filter_cong) auto
  moreover have "set (map fst (filter P m)) \<subseteq> fst ` set m"
    by auto
  ultimately show ?thesis
    using take_keys_spec [OF assms, of "map fst (filter P m)"] assms
    by (simp add: distinct_map_filter)
qed

section \<open>The invariant\<close>

definition pair_wf :: "pair_runtime \<Rightarrow> bool" where
  "pair_wf rt =
     (bt_wf (pr_pending_by_pts rt)
      \<and> list_all (\<lambda>(key, f). key = frame_key_of f \<and> fr_generation f = pr_generation rt
           \<and> fr_lease_id f = pr_lease_id rt \<and> \<not> trim_is_empty (fr_frame_handle_id f))
          (pr_pending_by_pts rt)
      \<and> distinct (map (fr_frame_handle_id \<circ> snd) (pr_pending_by_pts rt))
      \<and> distinct (map (fr_pair_id \<circ> snd) (pr_pending_by_pts rt))
      \<and> length (pr_pending_by_pts rt) \<le> 32
      \<and> pr_generation rt \<noteq> 0 \<and> pr_max_pair_age_ns rt \<noteq> 0)"

lemma mset_bt_insert:
  "bt_get m k = None \<Longrightarrow> mset (bt_insert k v m) = add_mset (k, v) (mset m)"
  by (induction k v m rule: bt_insert.induct) (auto split: if_splits)

lemma mset_bt_remove:
  assumes "distinct (map fst m)" "bt_get m k = Some v"
  shows "mset m = add_mset (k, v) (mset (bt_remove k m))"
  using assms
proof (induction m)
  case (Cons e m)
  show ?case
  proof (cases "fst e = k")
    case True
    with Cons.prems have "\<forall>a \<in> set m. fst a \<noteq> k" "e = (k, v)"
      by (auto simp: image_iff)
    then show ?thesis
      by (auto simp: bt_remove_def filter_id_conv [THEN iffD2] split_beta)
  next
    case False
    with Cons show ?thesis
      by (cases e) (auto simp: bt_remove_def)
  qed
qed simp

text \<open>Distinctness of an attribute of the pending frames, through its multiset.\<close>

lemma distinct_map_mset: "mset xs = mset ys \<Longrightarrow> distinct (map f xs) \<longleftrightarrow> distinct (map f ys)"
  by (metis mset_eq_imp_distinct_iff mset_map)

lemma distinct_after_insert:
  assumes "bt_get m k = None" and "distinct (map f m)" and "f (k, v) \<notin> f ` set m"
  shows "distinct (map f (bt_insert k v m))"
  using assms distinct_map_mset [of "bt_insert k v m" "(k, v) # m" f] by (simp add: mset_bt_insert)

lemma distinct_after_remove: "distinct (map f m) \<Longrightarrow> distinct (map f (bt_remove k m))"
  by (simp add: bt_remove_def distinct_map_filter)

lemma list_all_bt_insert: "list_all P m \<Longrightarrow> P (k, v) \<Longrightarrow> list_all P (bt_insert k v m)"
  by (induction k v m rule: bt_insert.induct) auto

lemma list_all_bt_remove: "list_all P m \<Longrightarrow> list_all P (bt_remove k m)"
  by (auto simp: bt_remove_def list_all_iff)

lemma counterpart_Some:
  assumes "pair_wf rt" "counterpart rt frame = Some (key, f)"
  shows "bt_get (pr_pending_by_pts rt) key = Some f" "(key, f) \<in> set (pr_pending_by_pts rt)"
    "fr_pair_id f = fr_pair_id frame" "fr_eye f \<noteq> fr_eye frame"
proof -
  show mem: "(key, f) \<in> set (pr_pending_by_pts rt)"
    and "fr_pair_id f = fr_pair_id frame" "fr_eye f \<noteq> fr_eye frame"
    using assms(2) by (auto simp: counterpart_def find_Some_iff) (metis nth_mem)
  show "bt_get (pr_pending_by_pts rt) key = Some f"
    using mem assms(1) by (simp add: pair_wf_def bt_wf_distinct)
qed

lemma counterpart_None:
  "counterpart rt frame = None \<Longrightarrow> \<not> frame_refused rt frame \<Longrightarrow>
     fr_pair_id frame \<notin> (fr_pair_id \<circ> snd) ` set (pr_pending_by_pts rt)"
  by (auto simp: counterpart_def frame_refused_def find_None_iff list_ex_iff)

text \<open>The two effects of a successful submission.\<close>

lemma submit_cases:
  assumes "pair_wf rt"
  obtains (refused) e where "submit frame now rt = (Inl e, rt)"
    and "frame_refused rt frame \<or> too_old rt now frame
         \<or> (\<exists>key f. counterpart rt frame = Some (key, f) \<and> too_old rt now f)"
  | (held) "\<not> frame_refused rt frame" "\<not> too_old rt now frame" "counterpart rt frame = None"
      "submit frame now rt = (Inr None, rt\<lparr>pr_pending_by_pts :=
         bt_insert (frame_key_of frame) frame (pr_pending_by_pts rt)\<rparr>)"
  | (paired) key other where "\<not> frame_refused rt frame" "\<not> too_old rt now frame"
      "counterpart rt frame = Some (key, other)" "\<not> too_old rt now other"
      "submit frame now rt =
         (Inr (Some (if fr_eye frame = EyeLeft
                     then \<lparr>sp_pair_id = fr_pair_id frame, sp_left = frame, sp_right = other\<rparr>
                     else \<lparr>sp_pair_id = fr_pair_id other, sp_left = other, sp_right = frame\<rparr>)),
          rt\<lparr>pr_pending_by_pts := bt_remove key (pr_pending_by_pts rt)\<rparr>)"
proof (cases "frame_refused rt frame \<or> too_old rt now frame")
  case True
  then show ?thesis
    using refused [of "if frame_refused rt frame then FrameContractMismatch else PairExpired"]
    by (auto simp: submit_def)
next
  case False
  show ?thesis
  proof (cases "counterpart rt frame")
    case None
    with False show ?thesis
      using held by (simp add: submit_def)
  next
    case (Some kf)
    obtain key f where kf: "kf = (key, f)"
      by (cases kf)
    note found = counterpart_Some [OF assms Some [unfolded kf]]
    show ?thesis
    proof (cases "too_old rt now f")
      case True
      with False Some kf show ?thesis
        using refused [of PairExpired] by (auto simp: submit_def)
    next
      case fresh: False
      with False Some kf found(1) show ?thesis
        using paired [of key f] by (simp add: submit_def Let_def)
    qed
  qed
qed

lemma pair_wf_submit:
  assumes wf: "pair_wf rt"
  shows "pair_wf (snd (submit frame now rt))"
  using wf
proof (cases rule: submit_cases [where frame = frame and now = now])
  case held
  have none: "bt_get (pr_pending_by_pts rt) (frame_key_of frame) = None"
    using held(1) by (auto simp: frame_refused_def bt_contains_def)
  have "fr_frame_handle_id frame \<notin> (fr_frame_handle_id \<circ> snd) ` set (pr_pending_by_pts rt)"
    using held(1) by (auto simp: frame_refused_def list_ex_iff)
  with held wf none counterpart_None [OF held(3,1)] show ?thesis
    by (auto simp: pair_wf_def frame_refused_def bt_length_insert distinct_after_insert list_all_bt_insert)
next
  case (paired key other)
  with wf show ?thesis
    using bt_length_remove_le [of key "pr_pending_by_pts rt"]
    by (auto simp: pair_wf_def distinct_after_remove list_all_bt_remove)
qed (use wf in auto)

section \<open>Runs\<close>

datatype pair_op =
    OpSubmit media_frame u64
  | OpCancel u64 u64
  | OpExpire u64
  | OpRelease string

text \<open>
  What the callers see of one operation: the handle taken in, the handles handed out, and
  the handle whose release was recorded.
\<close>

record pair_event =
  ev_taken :: "string list"
  ev_handed_out :: "string list"
  ev_released :: "string list"

definition pair_handles :: "stereo_pair \<Rightarrow> string list" where
  "pair_handles p = [fr_frame_handle_id (sp_left p), fr_frame_handle_id (sp_right p)]"

primrec pair_step :: "pair_op \<Rightarrow> pair_runtime \<Rightarrow> pair_event \<times> pair_runtime" where
  "pair_step (OpSubmit frame now_ns) rt =
     (let out = submit frame now_ns rt in
      (case fst out of
         Inl _ \<Rightarrow> \<lparr>ev_taken = [], ev_handed_out = [], ev_released = []\<rparr>
       | Inr None \<Rightarrow> \<lparr>ev_taken = [fr_frame_handle_id frame], ev_handed_out = [], ev_released = []\<rparr>
       | Inr (Some p) \<Rightarrow>
           \<lparr>ev_taken = [fr_frame_handle_id frame], ev_handed_out = pair_handles p, ev_released = []\<rparr>,
       snd out))"
| "pair_step (OpCancel generation replacement) rt =
     (let out = cancel_generation generation replacement rt in
      (\<lparr>ev_taken = [],
        ev_handed_out = (case fst out of Inl _ \<Rightarrow> [] | Inr handles \<Rightarrow> handles), ev_released = []\<rparr>,
       snd out))"
| "pair_step (OpExpire now_ns) rt =
     (let out = expire_pairs now_ns rt in
      (\<lparr>ev_taken = [], ev_handed_out = fst out, ev_released = []\<rparr>, snd out))"
| "pair_step (OpRelease handle_id) rt =
     (let out = release handle_id rt in
      (\<lparr>ev_taken = [], ev_handed_out = [],
        ev_released = (case fst out of Inl _ \<Rightarrow> [] | Inr _ \<Rightarrow> [handle_id])\<rparr>,
       snd out))"

primrec pair_run :: "pair_op list \<Rightarrow> pair_runtime \<Rightarrow> pair_event list \<times> pair_runtime" where
  "pair_run [] rt = ([], rt)"
| "pair_run (op # ops) rt =
     (let out = pair_step op rt; rest = pair_run ops (snd out)
      in (fst out # fst rest, snd rest))"

definition pending_handles :: "pair_runtime \<Rightarrow> string list" where
  "pending_handles rt = map (fr_frame_handle_id \<circ> snd) (pr_pending_by_pts rt)"

lemma expire_pairs_eq:
  assumes "pair_wf rt"
  shows "expire_pairs now rt =
    (map (fr_frame_handle_id \<circ> snd) (filter (\<lambda>kv. too_old rt now (snd kv)) (pr_pending_by_pts rt)),
     rt\<lparr>pr_pending_by_pts := filter (\<lambda>kv. \<not> too_old rt now (snd kv)) (pr_pending_by_pts rt)\<rparr>)"
proof -
  have "distinct (map fst (pr_pending_by_pts rt))"
    using assms by (simp add: pair_wf_def bt_wf_distinct)
  from take_filtered_keys [OF this, of "\<lambda>kv. too_old rt now (snd kv)"] show ?thesis
    by (simp add: expire_pairs_def Let_def case_prod_unfold)
qed

lemma pair_wf_step: "pair_wf rt \<Longrightarrow> pair_wf (snd (pair_step op rt))"
proof (cases op)
  case (OpSubmit f now)
  then show "pair_wf rt \<Longrightarrow> ?thesis"
    by (simp add: Let_def pair_wf_submit)
next
  case (OpCancel g r)
  then show "pair_wf rt \<Longrightarrow> ?thesis"
    by (auto simp: Let_def cancel_generation_def pair_wf_def)
next
  case (OpExpire now)
  assume wf: "pair_wf rt"
  have len: "length (filter P xs) \<le> 32" if "length xs \<le> 32" for P and xs :: "'a list"
    using length_filter_le [of P xs] that by linarith
  from wf OpExpire show ?thesis
    by (auto simp: Let_def expire_pairs_eq [OF wf] pair_wf_def bt_wf_def sorted_wrt_map
        sorted_wrt_filter distinct_map_filter list_all_iff len)
next
  case (OpRelease h)
  then show "pair_wf rt \<Longrightarrow> ?thesis"
    by (auto simp: Let_def release_def pair_wf_def)
qed

lemma pair_wf_run: "pair_wf rt \<Longrightarrow> pair_wf (snd (pair_run ops rt))"
  by (induction ops arbitrary: rt) (simp_all add: Let_def pair_wf_step)

lemma mset_filter_split:
  "mset (map f xs) = mset (map f (filter P xs)) + mset (map f (filter (\<lambda>x. \<not> P x) xs))"
  by (induction xs) auto

text \<open>One operation moves handles between the pending map and the outside, losing none.\<close>

lemma step_conserves:
  fixes op :: pair_op
  assumes wf: "pair_wf rt"
  defines "out \<equiv> pair_step op rt"
  shows "mset (pending_handles rt) + mset (ev_taken (fst out))
     = mset (ev_handed_out (fst out)) + mset (pending_handles (snd out))"
proof (cases op)
  case (OpSubmit frame now)
  have distinct: "distinct (map fst (pr_pending_by_pts rt))"
    using wf by (simp add: pair_wf_def bt_wf_distinct)
  show ?thesis
    using wf
  proof (cases rule: submit_cases [where frame = frame and now = now])
    case held
    have "bt_get (pr_pending_by_pts rt) (frame_key_of frame) = None"
      using held(1) by (auto simp: frame_refused_def bt_contains_def)
    then show ?thesis
      using held(4) OpSubmit
      by (simp add: out_def Let_def pending_handles_def mset_bt_insert)
  next
    case (paired key other)
    have "mset (pr_pending_by_pts rt) = add_mset (key, other) (mset (bt_remove key (pr_pending_by_pts rt)))"
      using counterpart_Some(1) [OF wf paired(3)] distinct by (simp add: mset_bt_remove)
    then have "mset (pending_handles rt) = add_mset (fr_frame_handle_id other)
        (mset (map (fr_frame_handle_id \<circ> snd) (bt_remove key (pr_pending_by_pts rt))))"
      by (simp add: pending_handles_def)
    then show ?thesis
      using paired(5) OpSubmit by (simp add: out_def Let_def pending_handles_def pair_handles_def)
  qed (use OpSubmit in \<open>simp add: out_def Let_def\<close>)
next
  case (OpExpire now)
  then show ?thesis
    using mset_filter_split [of "fr_frame_handle_id \<circ> snd" "pr_pending_by_pts rt" "\<lambda>kv. too_old rt now (snd kv)"]
    by (simp add: out_def Let_def expire_pairs_eq [OF wf] pending_handles_def del: mset_map mset_filter)
next
  case (OpCancel g r)
  then show ?thesis
    by (auto simp: out_def Let_def cancel_generation_def pending_handles_def)
next
  case (OpRelease h)
  then show ?thesis
    by (auto simp: out_def Let_def release_def pending_handles_def)
qed

section \<open>Guarantees\<close>

text \<open>A concrete runtime and its frames, those of the conformance exercise.\<close>

definition conformance_frame :: "u64 \<Rightarrow> media_eye \<Rightarrow> int \<Rightarrow> string \<Rightarrow> media_frame" where
  "conformance_frame pair_id eye pts handle =
     \<lparr>fr_generation = 7, fr_lease_id = ''lease.conformance'', fr_pair_id = pair_id, fr_eye = eye,
      fr_presentation_time_us = pts, fr_submitted_at_ns = 1000, fr_frame_handle_id = handle\<rparr>"

definition conformance_runtime :: pair_runtime where
  "conformance_runtime =
     \<lparr>pr_generation = 7, pr_lease_id = ''lease.conformance'', pr_max_pair_age_ns = 100,
      pr_pending_by_pts = [], pr_released_handles = []\<rparr>"

lemma conformance_new: "pair_runtime_new 7 ''lease.conformance'' 100 = Inr conformance_runtime"
  by code_simp

lemma new_pair_wf: "pair_runtime_new g l b = Inr rt \<Longrightarrow> pair_wf rt \<and> pending_handles rt = []"
  by (auto simp: pair_runtime_new_def pair_wf_def pending_handles_def split: if_splits)

text \<open>Over a run the handles taken in are those handed back and those still pending.\<close>

lemma run_conserves:
  "pair_wf rt \<Longrightarrow> mset (pending_handles rt) + mset (concat (map ev_taken (fst (pair_run ops rt))))
     = mset (concat (map ev_handed_out (fst (pair_run ops rt))))
       + mset (pending_handles (snd (pair_run ops rt)))"
proof (induction ops arbitrary: rt)
  case (Cons op ops)
  note step = step_conserves [OF Cons.prems, of op]
  note rest = Cons.IH [OF pair_wf_step [OF Cons.prems, of op]]
  show ?case
    unfolding pair_run.simps Let_def fst_conv snd_conv list.map concat.simps mset_append
      add.assoc [symmetric] step
    using rest by (simp add: ac_simps)
qed simp

lemma other_ops_keep_released:
  "pr_released_handles (snd (submit f now rt)) = pr_released_handles rt"
  "pr_released_handles (snd (cancel_generation g r rt)) = pr_released_handles rt"
  "pr_released_handles (snd (expire_pairs now rt)) = pr_released_handles rt"
  by (auto simp: submit_def cancel_generation_def expire_pairs_def Let_def
      split: option.splits prod.splits)

lemma submit_accepts_fresh:
  "fst (submit f now rt) = Inr r \<Longrightarrow> \<not> bt_contains (fr_frame_handle_id f) (pr_released_handles rt)"
  by (auto simp: submit_def frame_refused_def split: if_splits)

lemma step_released:
  "bt_contains h (pr_released_handles (snd (pair_step op rt))) \<longleftrightarrow>
     bt_contains h (pr_released_handles rt) \<or> h \<in> set (ev_released (fst (pair_step op rt)))"
  by (cases op) (auto simp: Let_def other_ops_keep_released release_def bt_contains_iff
      simp flip: set_map split: sum.splits option.splits)

lemma step_release_distinct: "distinct (ev_released (fst (pair_step op rt)))"
  by (cases op) (auto simp: Let_def split: sum.splits option.splits)

lemma step_releases_fresh:
  "h \<in> set (ev_released (fst (pair_step op rt))) \<Longrightarrow> \<not> bt_contains h (pr_released_handles rt)"
  by (cases op) (auto simp: Let_def release_def split: sum.splits option.splits if_splits)

lemma step_takes_fresh:
  "h \<in> set (ev_taken (fst (pair_step op rt))) \<Longrightarrow> \<not> bt_contains h (pr_released_handles rt)"
  by (cases op) (auto simp: Let_def split: sum.splits option.splits dest: submit_accepts_fresh)

lemma run_keeps_released_out:
  "list_all (\<lambda>e. list_all (\<lambda>h. \<not> bt_contains h (pr_released_handles rt)) (ev_released e @ ev_taken e))
     (fst (pair_run ops rt))"
proof (induction ops arbitrary: rt)
  case (Cons op ops)
  from Cons.IH [of "snd (pair_step op rt)"] show ?case
    by (auto simp: Let_def list_all_iff step_released dest: step_releases_fresh step_takes_fresh)
qed simp

text \<open>Every release is recorded at most once: over every sequence of operations no handle is
  successfully released twice, nor one that was released before, and a handle once released is
  never taken in again by a later submission.\<close>

lemma release_is_exactly_once:
  "let evs = fst (pair_run ops rt) in
     distinct (concat (map ev_released evs))
     \<and> list_all (\<lambda>h. \<not> bt_contains h (pr_released_handles rt)) (concat (map ev_released evs))
     \<and> sorted_wrt (\<lambda>a b. set (ev_released a) \<inter> set (ev_taken b) = {}) evs"
proof (induction ops arbitrary: rt)
  case (Cons op ops)
  from Cons.IH [of "snd (pair_step op rt)"] run_keeps_released_out [of "snd (pair_step op rt)" ops]
  show ?case
    by (auto simp: Let_def list_all_iff step_released step_release_distinct dest: step_releases_fresh)
qed simp

text \<open>C38. Frames are conserved: from a fresh runtime and over every sequence of submissions,
  cancellations, expiries and releases, the handles taken in by accepted submissions are, with
  multiplicity, exactly the handles handed back in pairs, cancellations and expiries together with
  those still pending. No handle is released twice, and none is taken in after its release. (A
  release asks only whether the handle was released before, not whether it was handed back.)\<close>

theorem frames_are_conserved:
  assumes "pair_runtime_new g l b = Inr rt"
  shows "let evs = fst (pair_run ops rt); rt' = snd (pair_run ops rt) in
     mset (concat (map ev_taken evs))
       = mset (concat (map ev_handed_out evs)) + mset (pending_handles rt')
     \<and> distinct (concat (map ev_released evs))
     \<and> sorted_wrt (\<lambda>a b. set (ev_released a) \<inter> set (ev_taken b) = {}) evs"
  using run_conserves [of rt ops] new_pair_wf [OF assms] release_is_exactly_once [of ops rt]
  by (simp add: Let_def)

definition demo_ops :: "pair_op list" where
  "demo_ops =
     [OpSubmit (conformance_frame 11 EyeLeft 40 ''l'') 1050,
      OpSubmit (conformance_frame 11 EyeRight 42 ''r'') 1050,
      OpSubmit (conformance_frame 12 EyeLeft 60 ''x'') 1050, OpExpire 1101,
      OpRelease ''l'', OpRelease ''l'', OpSubmit (conformance_frame 13 EyeLeft 61 ''y'') 1050]"

theorem frames_are_conserved_witness:
  "mset (concat (map ev_handed_out (fst (pair_run demo_ops conformance_runtime))))
     + mset (pending_handles (snd (pair_run demo_ops conformance_runtime)))
   = {#''l'', ''r'', ''x'', ''y''#}
   \<and> concat (map ev_released (fst (pair_run demo_ops conformance_runtime))) = [''l'']"
proof -
  have "concat (map ev_taken (fst (pair_run demo_ops conformance_runtime))) = [''l'', ''r'', ''x'', ''y'']"
    "concat (map ev_released (fst (pair_run demo_ops conformance_runtime))) = [''l'']"
    by code_simp+
  with frames_are_conserved [OF conformance_new, of demo_ops] show ?thesis
    by (simp add: Let_def)
qed

text \<open>Pairs are exact: a completed pair is the submitted frame and one pending frame of the
  opposite eye with the same pair identity, generation and lease, neither older than the
  bound, in left/right order; the pending frame is removed and nothing else changes. Every
  refused submission leaves the runtime as it was.\<close>

theorem submitted_pairs_are_exact:
  assumes "pair_wf rt"
  shows "case submit frame now rt of
      (Inl e, rt') \<Rightarrow> rt' = rt
    | (Inr None, rt') \<Rightarrow>
        fr_pair_id frame \<notin> fr_pair_id ` snd ` set (pr_pending_by_pts rt)
        \<and> bt_get (pr_pending_by_pts rt') = (bt_get (pr_pending_by_pts rt))(frame_key_of frame \<mapsto> frame)
    | (Inr (Some p), rt') \<Rightarrow>
        (\<exists>other. bt_get (pr_pending_by_pts rt) (frame_key_of other) = Some other
           \<and> bt_get (pr_pending_by_pts rt') = (bt_get (pr_pending_by_pts rt))(frame_key_of other := None)
           \<and> {sp_left p, sp_right p} = {frame, other})
        \<and> fr_eye (sp_left p) = EyeLeft \<and> fr_eye (sp_right p) = EyeRight
        \<and> fr_pair_id (sp_left p) = sp_pair_id p \<and> fr_pair_id (sp_right p) = sp_pair_id p
        \<and> fr_generation (sp_left p) = pr_generation rt \<and> fr_generation (sp_right p) = pr_generation rt
        \<and> fr_lease_id (sp_left p) = pr_lease_id rt \<and> fr_lease_id (sp_right p) = pr_lease_id rt
        \<and> unat now - unat (fr_submitted_at_ns (sp_left p)) \<le> unat (pr_max_pair_age_ns rt)
        \<and> unat now - unat (fr_submitted_at_ns (sp_right p)) \<le> unat (pr_max_pair_age_ns rt)"
  using assms
proof (cases rule: submit_cases [where frame = frame and now = now])
  case held
  then show ?thesis
    using counterpart_None [OF held(3,1)] by (simp add: image_comp)
next
  case (paired key other)
  have age: "too_old rt now f \<longleftrightarrow> unat (pr_max_pair_age_ns rt) < unat now - unat (fr_submitted_at_ns f)" for f
    by (simp add: too_old_def word_less_nat_alt unat_saturating_sub)
  note found = counterpart_Some [OF assms paired(3)]
  have other: "key = frame_key_of other" "fr_generation other = pr_generation rt"
    "fr_lease_id other = pr_lease_id rt"
    using found(2) assms by (auto simp: pair_wf_def list_all_iff)
  have mine: "fr_generation frame = pr_generation rt" "fr_lease_id frame = pr_lease_id rt"
    using paired(1) by (auto simp: frame_refused_def)
  have eyes: "fr_eye frame = EyeLeft \<longleftrightarrow> fr_eye other = EyeRight" "fr_eye other = EyeLeft \<longleftrightarrow> fr_eye frame = EyeRight"
    using found(4) by (cases "fr_eye frame"; cases "fr_eye other"; simp)+
  show ?thesis
    using paired found(1,3) other mine eyes
    by (cases "fr_eye frame") (auto simp: age not_less)
qed simp

theorem submitted_pairs_are_exact_witness:
  "case submit (conformance_frame 11 EyeRight 42 ''r'') 1050
      (snd (submit (conformance_frame 11 EyeLeft 40 ''l'') 1050 conformance_runtime)) of
      (Inr (Some p), rt') \<Rightarrow> fr_eye (sp_left p) = EyeLeft \<and> fr_eye (sp_right p) = EyeRight
    | _ \<Rightarrow> False"
proof -
  let ?rt = "snd (submit (conformance_frame 11 EyeLeft 40 ''l'') 1050 conformance_runtime)"
  let ?out = "submit (conformance_frame 11 EyeRight 42 ''r'') 1050 ?rt"
  have wf: "pair_wf ?rt"
    using new_pair_wf [OF conformance_new] pair_wf_submit by blast
  have "case ?out of (Inr (Some p), _) \<Rightarrow> True | _ \<Rightarrow> False"
    by code_simp
  with submitted_pairs_are_exact [OF wf, of "conformance_frame 11 EyeRight 42 ''r''" 1050]
  show ?thesis
    by (auto split: sum.splits option.splits prod.splits)
qed

end
