(* ===== verification/Owner_Codec.thy ===== *)
theory Owner_Codec
  imports Base64_Bits
begin

unbundle bit_operations_syntax

text \<open>
  The byte formats of the owner dispatch protocol
  (\<open>crates/rusty-quest-media-stream-android/src/owner_dispatch.rs\<close>): the length-delimited wire
  frame, the bytes that are signed, digests in their printed form, and the canonical padded
  Base64 of a signature. Errors are the strings of the source; \<open>usize\<close> has 64 bits.
  Frame and signature codecs interpret the \<open>canonical_codec\<close> contract.
\<close>

section \<open>Digests\<close>

text \<open>\<open>valid_sha256\<close>, and \<open>digest\<close> of \<open>retained_cleanup.rs\<close> with the same body.\<close>

definition valid_sha256 :: "string \<Rightarrow> bool" where
  "valid_sha256 s =
     (length s = 71 \<and> starts_with s ''sha256:'' \<and> list_all is_lower_hex (drop 7 s))"

text \<open>\<open>encode_hex\<close>: the two table lookups per byte.\<close>

definition hex_table :: string where
  "hex_table = ''0123456789abcdef''"

definition encode_hex :: "bytes \<Rightarrow> string" where
  "encode_hex bs =
     concat (map (\<lambda>b. [hex_table ! unat (drop_bit 4 b), hex_table ! unat (b AND 15)]) bs)"

definition sha256_prefixed :: "(bytes \<Rightarrow> bytes) \<Rightarrow> bytes \<Rightarrow> string" where
  "sha256_prefixed sha bs = ''sha256:'' @ encode_hex (sha bs)"

section \<open>Wire frames\<close>

definition max_frame_bytes :: nat where
  "max_frame_bytes = 128 * 1024"

definition dispatch_magic :: bytes where
  "dispatch_magic = str_bytes ''RQOD1'' @ [10]"

definition be32 :: "u32 \<Rightarrow> bytes" where
  "be32 w = [ucast (drop_bit 24 w), ucast (drop_bit 16 w), ucast (drop_bit 8 w), ucast w]"

definition from_be32 :: "bytes \<Rightarrow> u32" where
  "from_be32 bs =
     push_bit 24 (ucast (bs ! 0)) OR push_bit 16 (ucast (bs ! 1)) OR push_bit 8 (ucast (bs ! 2))
     OR ucast (bs ! 3)"

definition u32_from_len :: "string \<Rightarrow> bytes \<Rightarrow> string + u32" where
  "u32_from_len e bs = (if length bs < 2 ^ 32 then Inr (of_nat (length bs)) else Inl e)"

definition wire_signing_bytes :: "bytes \<Rightarrow> bytes \<Rightarrow> bytes \<Rightarrow> string + bytes" where
  "wire_signing_bytes domain metadata payload =
     and_then (u32_from_len ''metadata bounds'' metadata) (\<lambda>metadata_len.
     and_then (u32_from_len ''payload bounds'' payload) (\<lambda>payload_len.
     Inr (domain @ be32 metadata_len @ be32 payload_len @ metadata @ payload)))"

definition encode_wire_frame :: "bytes \<Rightarrow> bytes \<Rightarrow> string + bytes" where
  "encode_wire_frame metadata payload =
     and_then (u32_from_len ''metadata bounds'' metadata) (\<lambda>metadata_len.
     and_then (u32_from_len ''payload bounds'' payload) (\<lambda>payload_len.
     let total = length dispatch_magic + 8 + length metadata + length payload in
     if max_frame_bytes < total then Inl ''dispatch frame bounds''
     else Inr (dispatch_magic @ be32 metadata_len @ be32 payload_len @ metadata @ payload)))"

definition decode_wire_frame :: "bytes \<Rightarrow> string + (bytes \<times> bytes)" where
  "decode_wire_frame frame =
     (if length frame < 14 \<or> max_frame_bytes < length frame \<or> take 6 frame \<noteq> dispatch_magic
      then Inl ''dispatch frame bounds or magic''
      else
        let metadata_len = unat (from_be32 (take 4 (drop 6 frame)));
            payload_len = unat (from_be32 (take 4 (drop 10 frame)));
            end_pos = 14 + metadata_len + payload_len
        in if end_pos \<noteq> length frame then Inl ''dispatch frame lengths''
           else Inr (take metadata_len (drop 14 frame),
                     take (end_pos - (14 + metadata_len)) (drop (14 + metadata_len) frame)))"

section \<open>Signatures in padded Base64\<close>

definition alphabet_std :: string where
  "alphabet_std = ''ABCDEFGHIJKLMNOPQRSTUVWXYZabcdefghijklmnopqrstuvwxyz0123456789+/''"

definition digit_std :: "nat \<Rightarrow> u32 \<Rightarrow> char" where
  "digit_std k w = alphabet_std ! unat (sextet_at k w)"

fun encode_signature_base64 :: "bytes \<Rightarrow> string" where
  "encode_signature_base64 [] = []"
| "encode_signature_base64 [a] =
     (let word = pack24 a 0 0 in [digit_std 18 word, digit_std 12 word, CHR ''='', CHR ''=''])"
| "encode_signature_base64 [a, b] =
     (let word = pack24 a b 0 in
      [digit_std 18 word, digit_std 12 word, digit_std 6 word, CHR ''=''])"
| "encode_signature_base64 (a # b # c # rest) =
     (let word = pack24 a b c in
      [digit_std 18 word, digit_std 12 word, digit_std 6 word, digit_std 0 word]
      @ encode_signature_base64 rest)"

definition base64_value :: "char \<Rightarrow> string + u8" where
  "base64_value c =
     (if in_range 65 90 c then Inr (of_nat (byte_of c - 65))
      else if in_range 97 122 c then Inr (of_nat (byte_of c - 97 + 26))
      else if in_range 48 57 c then Inr (of_nat (byte_of c - 48 + 52))
      else if c = CHR ''+'' then Inr 62
      else if c = CHR ''/'' then Inr 63
      else Inl ''invalid Ed25519 signature base64'')"

text \<open>The loop over \<open>chunks_exact(4)\<close>; a shorter remainder ends it.\<close>

fun decode_chunks :: "nat \<Rightarrow> string \<Rightarrow> bytes \<Rightarrow> string + bytes" where
  "decode_chunks index (c0 # c1 # c2 # c3 # rest) decoded =
     (let final_chunk = (index = 21) in
      if (\<not> final_chunk \<and> CHR ''='' \<in> set [c0, c1, c2, c3])
        \<or> (final_chunk \<and> (c2 \<noteq> CHR ''='' \<or> c3 \<noteq> CHR ''=''))
      then Inl ''invalid Ed25519 signature base64 padding''
      else
        and_then (base64_value c0) (\<lambda>a.
        and_then (base64_value c1) (\<lambda>b.
        and_then (if c2 = CHR ''='' then Inr 0 else base64_value c2) (\<lambda>c.
        and_then (if c3 = CHR ''='' then Inr 0 else base64_value c3) (\<lambda>d.
        let word = unpack24 (ucast a) (ucast b) (ucast c) (ucast d) in
        decode_chunks (index + 1) rest
          (decoded @ [byte_at 16 word]
           @ (if c2 \<noteq> CHR ''='' then [byte_at 8 word] else [])
           @ (if c3 \<noteq> CHR ''='' then [byte_at 0 word] else [])))))))"
| "decode_chunks index s decoded = Inr decoded"

definition decode_signature_base64 :: "string \<Rightarrow> string + bytes" where
  "decode_signature_base64 text =
     (if length text \<noteq> 88 \<or> \<not> ends_with text ''==''
      then Inl ''invalid Ed25519 signature base64 length''
      else
        and_then (decode_chunks 0 text []) (\<lambda>decoded.
        if length decoded \<noteq> 64 then Inl ''invalid Ed25519 signature base64 bytes''
        else if encode_signature_base64 decoded \<noteq> text
        then Inl ''non-canonical Ed25519 signature base64''
        else Inr decoded))"

section \<open>Digest lemmas\<close>

lemma valid_sha256_iff:
  "valid_sha256 s \<longleftrightarrow> (\<exists>hex. s = ''sha256:'' @ hex \<and> length hex = 64 \<and> list_all is_lower_hex hex)"
proof
  assume valid: "valid_sha256 s"
  then have "starts_with s ''sha256:''"
    by (simp add: valid_sha256_def)
  then obtain hex where "s = ''sha256:'' @ hex"
    by (rule starts_withE)
  with valid show "\<exists>hex. s = ''sha256:'' @ hex \<and> length hex = 64 \<and> list_all is_lower_hex hex"
    by (simp add: valid_sha256_def)
qed (auto simp: valid_sha256_def starts_with_def)

lemma encode_hex_is_lower_hex: "encode_hex bs = lower_hex bs"
proof -
  have table: "hex_table ! n = hex_digit n" if "n < 16" for n
  proof -
    have "list_all (\<lambda>n. hex_table ! n = hex_digit n) [0..<16]"
      by code_simp
    then show ?thesis
      using that by (simp add: list_all_iff)
  qed
  have "hex_table ! unat (drop_bit 4 b) = hex_digit (unat b div 16)"
    "hex_table ! unat (b AND 15) = hex_digit (unat b mod 16)" for b :: u8
  proof -
    have "unat b < 256"
      using unsigned_less [of b, where ?'a = nat] by simp
    moreover have "unat (drop_bit 4 b) = unat b div 16"
      by (simp add: drop_bit_eq_div unat_div)
    moreover have "b AND 15 = take_bit 4 b"
      by (simp add: take_bit_eq_mask mask_eq_exp_minus_1)
    moreover have "unat (take_bit 4 b) = unat b mod 16"
      by (simp add: take_bit_eq_mod unat_mod)
    ultimately show "hex_table ! unat (drop_bit 4 b) = hex_digit (unat b div 16)"
      "hex_table ! unat (b AND 15) = hex_digit (unat b mod 16)"
      by (simp_all add: table)
  qed
  then show ?thesis
    by (simp add: encode_hex_def lower_hex_def)
qed

lemma sha256_prefixed_valid: "length (sha bs) = 32 \<Longrightarrow> valid_sha256 (sha256_prefixed sha bs)"
  by (auto simp: valid_sha256_iff sha256_prefixed_def encode_hex_is_lower_hex)

section \<open>Frame lemmas\<close>

lemma length_be32 [simp]: "length (be32 w) = 4"
  by (simp add: be32_def)

lemma below_32_split: "(n::nat) < 32 \<Longrightarrow> n < 8 \<or> (8 \<le> n \<and> n < 16) \<or> (16 \<le> n \<and> n < 24) \<or> (24 \<le> n \<and> n < 32)"
  by arith

lemma from_be32_inverse [simp]: "from_be32 (be32 w) = w"
proof (rule bit_word_eqI)
  fix n
  assume "n < LENGTH(32)"
  then have "n < 32"
    by simp
  from below_32_split [OF this] show "bit (from_be32 (be32 w)) n = bit w n"
    by (elim disjE) (auto simp: from_be32_def be32_def bit_simps)
qed

lemma be32_inverse [simp]:
  assumes "length bs = 4"
  shows "be32 (from_be32 bs) = bs"
proof -
  from assms obtain a b c d where "bs = [a, b, c, d]"
    by (auto simp: length_Suc_conv numeral_eq_Suc)
  then show ?thesis
    by (auto simp: be32_def from_be32_def intro!: bit_word_eqI) (auto simp: bit_simps)
qed

lemma length_magic [simp]: "length dispatch_magic = 6"
  by (simp add: dispatch_magic_def)

text \<open>The frame of a metadata and payload pair, and the pairs that fit.\<close>

definition frame_of :: "bytes \<times> bytes \<Rightarrow> bytes" where
  "frame_of mp = dispatch_magic @ be32 (of_nat (length (fst mp))) @ be32 (of_nat (length (snd mp)))
     @ fst mp @ snd mp"

definition frame_fits :: "bytes \<times> bytes \<Rightarrow> bool" where
  "frame_fits mp = (14 + length (fst mp) + length (snd mp) \<le> max_frame_bytes)"

lemma frame_fits_bounds:
  "frame_fits (m, p) \<Longrightarrow> length m < 2 ^ 32 \<and> length p < 2 ^ 32"
  by (simp add: frame_fits_def max_frame_bytes_def)

lemma encode_wire_frame_iff:
  "encode_wire_frame m p = Inr frame \<longleftrightarrow> frame_fits (m, p) \<and> frame = frame_of (m, p)"
  using frame_fits_bounds [of m p]
  by (auto simp: encode_wire_frame_def u32_from_len_def result_simps Let_def frame_fits_def
      frame_of_def not_less split: if_splits)

lemma unat_of_len: "n < 2 ^ 32 \<Longrightarrow> unat (of_nat n :: u32) = n"
  by (simp add: unat_of_nat take_bit_eq_mod)

lemma decode_frame_of:
  assumes "frame_fits mp"
  shows "decode_wire_frame (frame_of mp) = Inr mp"
proof (cases mp)
  case (Pair m p)
  have b: "length m < 2 ^ 32" "length p < 2 ^ 32"
    using frame_fits_bounds [of m p] assms Pair by auto
  have pieces: "take 6 (frame_of (m, p)) = dispatch_magic"
    "take 4 (drop 6 (frame_of (m, p))) = be32 (of_nat (length m))"
    "take 4 (drop 10 (frame_of (m, p))) = be32 (of_nat (length p))"
    "drop 14 (frame_of (m, p)) = m @ p" "drop (14 + length m) (frame_of (m, p)) = p"
    by (simp_all add: frame_of_def)
  have len: "length (frame_of (m, p)) = 14 + length m + length p"
    by (simp add: frame_of_def)
  show ?thesis
    using assms b
    by (simp add: Pair decode_wire_frame_def pieces len frame_fits_def Let_def unat_of_len not_less)
qed

lemma decode_wire_frame_sound:
  assumes "decode_wire_frame frame = Inr mp"
  shows "frame_fits mp \<and> frame_of mp = frame"
proof -
  let ?ml = "unat (from_be32 (take 4 (drop 6 frame)))" and ?pl = "unat (from_be32 (take 4 (drop 10 frame)))"
  have guard: "14 \<le> length frame" "length frame \<le> max_frame_bytes" "take 6 frame = dispatch_magic"
    "14 + ?ml + ?pl = length frame"
    and mp: "mp = (take ?ml (drop 14 frame), take ?pl (drop (14 + ?ml) frame))"
    using assms by (auto simp: decode_wire_frame_def Let_def split: if_splits)
  have whole: "frame = take 6 frame @ take 4 (drop 6 frame) @ take 4 (drop 10 frame) @ drop 14 frame"
    using append_take_drop_id [of 6 frame] append_take_drop_id [of 4 "drop 6 frame"]
      append_take_drop_id [of 4 "drop 10 frame"] by simp
  have rest: "drop 14 frame = take ?ml (drop 14 frame) @ take ?pl (drop (14 + ?ml) frame)"
    using guard(4) append_take_drop_id [of ?ml "drop 14 frame"] by (simp add: add.commute)
  have lens: "length (take ?ml (drop 14 frame)) = ?ml" "length (take ?pl (drop (14 + ?ml) frame)) = ?pl"
    using guard(4) by auto
  have four: "length (take 4 (drop 6 frame)) = 4" "length (take 4 (drop 10 frame)) = 4"
    using guard(1) by simp_all
  have "frame_of mp = dispatch_magic @ take 4 (drop 6 frame) @ take 4 (drop 10 frame) @ drop 14 frame"
    unfolding frame_of_def mp fst_conv snd_conv lens rest [symmetric] append_assoc [symmetric]
    using four by simp
  also have "\<dots> = frame"
    using whole guard(3) by simp
  finally show ?thesis
    using guard(2,4) lens by (simp add: mp frame_fits_def)
qed

interpretation wire: canonical_codec frame_of decode_wire_frame frame_fits
  by unfold_locales (simp_all add: decode_frame_of decode_wire_frame_sound)

section \<open>Signature lemmas\<close>

lemma alphabet_std_values: "map base64_value alphabet_std = map (\<lambda>n. Inr (of_nat n)) [0..<64]"
  by (simp add: alphabet_std_def base64_value_def in_range_def byte_of_def upt_rec)

lemma alphabet_std_unpadded: "list_all (\<lambda>c. c \<noteq> CHR ''='') alphabet_std"
  by (simp add: alphabet_std_def)

lemma length_alphabet_std: "length alphabet_std = 64"
  by (simp add: alphabet_std_def)

lemma digit_std_props:
  "base64_value (digit_std k w) = Inr (of_nat (unat (sextet_at k w)))"
  "digit_std k w \<noteq> CHR ''=''"
  using arg_cong [OF alphabet_std_values, of "\<lambda>l. l ! unat (sextet_at k w)"]
    alphabet_std_unpadded sextet_at_less [of k w]
  by (simp_all add: digit_std_def length_alphabet_std list_all_length del: of_nat_unat)

lemma digit_std_unpadded: "CHR ''='' \<noteq> digit_std k w"
  using digit_std_props(2) [of k w] by metis

lemmas digit_std_simps = digit_std_props digit_std_unpadded

lemma length_encode_signature: "length (encode_signature_base64 bs) = 4 * ((length bs + 2) div 3)"
proof (induction bs rule: encode_signature_base64.induct)
  case (4 a b c rest)
  have "(length (a # b # c # rest) + 2) div 3 = (length rest + 2) div 3 + 1"
    by simp
  with "4.IH" [OF refl] show ?case
    by (simp add: Let_def)
qed (simp_all add: Let_def)

lemma decode_chunk_full:
  assumes "index \<noteq> 21"
  shows "decode_chunks index (digit_std 18 (pack24 a b c) # digit_std 12 (pack24 a b c)
      # digit_std 6 (pack24 a b c) # digit_std 0 (pack24 a b c) # rest) out
    = decode_chunks (index + 1) rest (out @ [a, b, c])"
  using assms
  by (simp add: Let_def digit_std_simps sextet_through_u8 unpack24_byte0 unpack24_byte1 unpack24_byte2
      del: of_nat_unat word_of_nat_eq_0_iff)

lemma sextet_0 [simp]: "sextet_at k 0 = 0"
  by (simp add: sextet_at_def)

lemma decode_chunk_last:
  "decode_chunks 21 [digit_std 18 (pack24 a 0 0), digit_std 12 (pack24 a 0 0), CHR ''='', CHR ''=''] out
    = Inr (out @ [a])"
  using unpack24_byte0 [of a 0 0 0 0 0 0]
  by (simp add: Let_def digit_std_simps sextet_through_u8 del: of_nat_unat word_of_nat_eq_0_iff)

lemma decode_encode_chunks:
  "length bs = 3 * (21 - i) + 1 \<Longrightarrow> i \<le> 21 \<Longrightarrow>
     decode_chunks i (encode_signature_base64 bs) out = Inr (out @ bs)"
proof (induction bs arbitrary: i out rule: encode_signature_base64.induct)
  case (2 a)
  then have "i = 21"
    by simp
  then show ?case
    by (simp add: Let_def decode_chunk_last del: decode_chunks.simps)
next
  case (4 a b c rest)
  then have "i < 21" "length rest = 3 * (21 - (i + 1)) + 1"
    by auto
  with "4.IH" [OF refl, of "i + 1" "out @ [a, b, c]"] show ?case
    by (simp add: Let_def decode_chunk_full del: decode_chunks.simps)
next
  case (3 a b)
  then have "2 = 3 * (21 - i) + 1"
    by simp
  then have False
    by presburger
  then show ?case ..
qed simp

lemma encode_signature_ends: "length bs mod 3 = 1 \<Longrightarrow> ends_with (encode_signature_base64 bs) ''==''"
proof (induction bs rule: encode_signature_base64.induct)
  case (4 a b c rest)
  have "length (a # b # c # rest) = length rest + 3"
    by simp
  then have len: "length rest mod 3 = 1"
    using "4.prems" by (metis mod_add_self2)
  from "4.IH" [OF refl this] show ?case
    unfolding encode_signature_base64.simps Let_def by (rule ends_with_append)
qed (simp_all add: ends_with_def Let_def)

lemma decode_encode_signature:
  assumes "length bs = 64"
  shows "decode_signature_base64 (encode_signature_base64 bs) = Inr bs"
  using decode_encode_chunks [of bs 0 "[]"] encode_signature_ends [of bs] assms
  by (simp add: decode_signature_base64_def length_encode_signature)

lemma decode_signature_sound:
  "decode_signature_base64 s = Inr bs \<Longrightarrow> length bs = 64 \<and> encode_signature_base64 bs = s"
  by (auto simp: decode_signature_base64_def result_simps split: if_splits)

interpretation b64sig: canonical_codec encode_signature_base64 decode_signature_base64
  "\<lambda>bs. length bs = 64"
  by unfold_locales (auto simp: decode_encode_signature dest: decode_signature_sound)

end
