(* ===== verification/Owner_Types.thy ===== *)
theory Owner_Types
  imports Json_Value Owner_Codec Media_Pair
begin

text \<open>
  The data of the owner dispatch protocols of \<open>crates/rusty-quest-media-stream-android/src\<close>
  (\<open>lib.rs\<close>, \<open>owner_dispatch.rs\<close>, \<open>retained_cleanup.rs\<close>, \<open>retained_cleanup_server.rs\<close>,
  \<open>remote_cleanup_proof.rs\<close>) and the parts of the media product model they carry
  (\<open>crates/rusty-quest-media-stream/src/product_runtime.rs\<close>). Arrays \<open>[u8; N]\<close> are byte lists.
\<close>

section \<open>Owner actions\<close>

datatype owner_kind = Source | Processor | Route | Socket | Codec | Sink | Cleanup

text \<open>The derived order of the owner kinds.\<close>

fun owner_rank :: "owner_kind \<Rightarrow> nat" where
  "owner_rank Source = 0"
| "owner_rank Processor = 1"
| "owner_rank Route = 2"
| "owner_rank Socket = 3"
| "owner_rank Codec = 4"
| "owner_rank Sink = 5"
| "owner_rank Cleanup = 6"

lemma owner_rank_inj: "owner_rank a = owner_rank b \<longleftrightarrow> a = b"
  by (cases a; cases b) simp_all

instantiation owner_kind :: linorder
begin

definition less_eq_owner_kind :: "owner_kind \<Rightarrow> owner_kind \<Rightarrow> bool" where
  "less_eq_owner_kind a b = (owner_rank a \<le> owner_rank b)"

definition less_owner_kind :: "owner_kind \<Rightarrow> owner_kind \<Rightarrow> bool" where
  "less_owner_kind a b = (owner_rank a < owner_rank b)"

instance
  by standard (auto simp: less_eq_owner_kind_def less_owner_kind_def owner_rank_inj)

end

datatype platform_operation = OpStart | OpStop

datatype owner_action_kind = ArmReceiver | ArmCleanup | ActStart | ActStop | ActCleanup

datatype execution_mode = Execute | CompensateUncertain

record owner_selection =
  sel_owner_kind :: owner_kind
  sel_owner_id :: string
  sel_resource_id :: string
  sel_lane_id :: "string option"
  sel_provider_kind :: string

record owner_action =
  oa_selection :: owner_selection
  oa_action_kind :: owner_action_kind

record client_authority =
  ca_client_id :: string
  ca_lease_id :: string
  ca_product_id :: string
  ca_feature_lock_id :: string
  ca_feature_lock_fingerprint :: string
  ca_session_capability_id :: string
  ca_session_admission_grant_id :: string
  ca_operation_capability_id :: string
  ca_operation_admission_grant_id :: string
  ca_operation_admission_use_request_id :: string

text \<open>The revoker evidence of an action is made of types outside the repository.\<close>

record 'e platform_action =
  pa_schema_id :: string
  pa_action_id :: string
  pa_authority_epoch_id :: string
  pa_operation :: platform_operation
  pa_client_authority :: client_authority
  pa_trusted_revoker_cleanup :: "'e option"
  pa_runtime_spec_id :: string
  pa_runtime_spec_canonical_sha256 :: string
  pa_manifold_descriptor_canonical_sha256 :: string
  pa_manifold_decision_id :: string
  pa_manifold_session_revision :: u64
  pa_media_acceptance_authority_revision :: u64
  pa_expected_runtime_revision :: u64
  pa_owner_actions :: "owner_action list"

record owner_provider_readback =
  opr_action_id :: string
  opr_authority_epoch_id :: string
  opr_media_acceptance_authority_revision :: u64
  opr_client_id :: string
  opr_lease_id :: string
  opr_provider_kind :: string
  opr_resource_id :: string
  opr_provider_handle_id :: string
  opr_provider_state_revision :: u64
  opr_observed_state :: string
  opr_receipt_id :: string

section \<open>Tickets\<close>

record execution_ticket =
  tk_schema_id :: string
  tk_capability :: string
  tk_executor_generation :: u64
  tk_action_id :: string
  tk_authority_epoch_id :: string
  tk_media_acceptance_authority_revision :: u64
  tk_expected_runtime_revision :: u64
  tk_client_id :: string
  tk_lease_id :: string
  tk_sequence :: u32
  tk_operation :: platform_operation
  tk_owner_kind :: owner_kind
  tk_action_kind :: owner_action_kind
  tk_owner_id :: string
  tk_provider_kind :: string
  tk_resource_id :: string

section \<open>Retained cleanup requests\<close>

record cleanup_authority =
  cu_schema_id :: string
  cu_authority_peer_id :: string
  cu_executor_peer_id :: string
  cu_peer_session_id :: string
  cu_route_grant_id :: string
  cu_route_authority_revision :: u64
  cu_provider_epoch_id :: string
  cu_platform_runtime_spec_id :: string
  cu_target_client_id :: string
  cu_target_runtime_lease_id :: string
  cu_requester_id :: string
  cu_requester_runtime_lease_id :: string
  cu_trusted_revoker :: bool
  cu_cleanup_target_sha256 :: string
  cu_terminal_route_sha256 :: string
  cu_signed_topology_sha256 :: string
  cu_historical_topology_expires_at_ms :: u64
  cu_requester_expires_at_ms :: u64
  cu_expires_at_ms :: u64

record cleanup_ticket =
  ct_schema_id :: string
  ct_authority :: cleanup_authority
  ct_target :: execution_ticket
  ct_mode :: execution_mode
  ct_owner_effect_sha256 :: string

record cleanup_request =
  cq_schema_id :: string
  cq_dispatch_id :: string
  cq_sequence :: u64
  cq_issued_at_ms :: u64
  cq_target_peer_id :: string
  cq_cleanup :: cleanup_ticket
  cq_signer_key_id :: string
  cq_signature_base64 :: string

record prepared_stop =
  ps_schema_id :: string
  ps_prepare_request_sha256 :: string
  ps_dispatch_id :: string
  ps_target_preparation_revision :: u64
  ps_source_ticket :: execution_ticket
  ps_target_ticket :: execution_ticket
  ps_authority :: cleanup_authority
  ps_signer_key_id :: string
  ps_signature_base64 :: string

record remote_cleanup_effect =
  rce_schema_id :: string
  rce_prepared :: prepared_stop
  rce_commit :: cleanup_request
  rce_response_bytes :: bytes
  rce_enrolled_target_key :: bytes

section \<open>Readbacks and effects\<close>

record owner_readback =
  rb_remote_cleanup :: "remote_cleanup_effect option"
  rb_schema_id :: string
  rb_capability :: string
  rb_executor_generation :: u64
  rb_action_id :: string
  rb_authority_epoch_id :: string
  rb_media_acceptance_authority_revision :: u64
  rb_expected_runtime_revision :: u64
  rb_client_id :: string
  rb_lease_id :: string
  rb_sequence :: u32
  rb_operation :: platform_operation
  rb_owner_kind :: owner_kind
  rb_action_kind :: owner_action_kind
  rb_owner_id :: string
  rb_provider_kind :: string
  rb_resource_id :: string
  rb_provider_handle_id :: string
  rb_provider_state_revision :: u64
  rb_observed_state :: string
  rb_receipt_id :: string

record verified_owner_effect =
  ve_schema_id :: string
  ve_receipt_id :: string
  ve_readback_sha256 :: string
  ve_executor_generation :: u64
  ve_provider_state_revision :: u64
  ve_observed_state :: string
  ve_terminal :: bool
  ve_provider_handle_id :: string
  ve_detail_sha256 :: string

record owner_effect =
  ef_readback :: owner_readback
  ef_readback_json :: string
  ef_verified :: verified_owner_effect

datatype dispatch_status = Completed | Uncertain | Rejected

record cleanup_response =
  cr_schema_id :: string
  cr_dispatch_id :: string
  cr_executor_peer_id :: string
  cr_request_sha256 :: string
  cr_status :: dispatch_status
  cr_effect :: "owner_effect option"
  cr_failure :: "string option"
  cr_signer_key_id :: string
  cr_signature_base64 :: string

section \<open>Owner dispatch and product activation\<close>

datatype authorization_kind = CurrentRoute | RetainedCleanup

record dispatch_authority =
  au_schema_id :: string
  au_authority_peer_id :: string
  au_executor_peer_id :: string
  au_peer_session_id :: string
  au_route_grant_id :: string
  au_route_authority_revision :: u64
  au_authority_runtime_host_id :: string
  au_authority_provider_epoch_id :: string
  au_platform_runtime_spec_id :: string
  au_authority_client_id :: string
  au_authority_runtime_lease_id :: string
  au_signed_topology_sha256 :: string
  au_route_configuration_sha256 :: string
  au_route_authority_evidence_sha256 :: string
  au_expires_at_ms :: u64
  au_authorization_kind :: authorization_kind

record dispatch_request =
  dq_schema_id :: string
  dq_dispatch_id :: string
  dq_sequence :: u64
  dq_issued_at_ms :: u64
  dq_target_peer_id :: string
  dq_authority :: dispatch_authority
  dq_ticket :: execution_ticket
  dq_mode :: execution_mode
  dq_signer_key_id :: string
  dq_signature_base64 :: string

record dispatch_response =
  dr_schema_id :: string
  dr_dispatch_id :: string
  dr_request_sha256 :: string
  dr_status :: dispatch_status
  dr_effect :: "owner_effect option"
  dr_failure :: "string option"
  dr_signer_key_id :: string
  dr_signature_base64 :: string

record activation_proof =
  ap_action_id :: string
  ap_provider_epoch_id :: string
  ap_client_id :: string
  ap_lease_id :: string
  ap_runtime_spec_id :: string
  ap_resulting_runtime_revision :: u64
  ap_owner_receipt_ids :: "string list"
  ap_completion_sha256 :: string

record activation_request =
  aq_schema_id :: string
  aq_activation_id :: string
  aq_issued_at_ms :: u64
  aq_expires_at_ms :: u64
  aq_target_peer_id :: string
  aq_authority :: dispatch_authority
  aq_proof :: activation_proof
  aq_completion_json :: string
  aq_signer_key_id :: string
  aq_signature_base64 :: string

record activation_readback =
  ab_schema_id :: string
  ab_activation_id :: string
  ab_route_grant_id :: string
  ab_resulting_state_revision :: u64
  ab_activated :: bool

record activation_response =
  as_schema_id :: string
  as_activation_id :: string
  as_request_sha256 :: string
  as_status :: dispatch_status
  as_readback :: "activation_readback option"
  as_failure :: "string option"
  as_signer_key_id :: string
  as_signature_base64 :: string

section \<open>Replay journals\<close>

text \<open>
  \<open>OwnerDispatchReplaySnapshot\<close> and \<open>ProductActivationReplaySnapshot\<close>, which differ only in
  the type of a terminal response, and the cleanup journal with its poison flag.
\<close>

record 'r replay_snapshot =
  pending_sha256 :: "(string, string) btree"
  terminal :: "(string, 'r) btree"

record cleanup_terminal =
  tr_request_sha256 :: string
  tr_response_bytes :: bytes

record cleanup_replay =
  cj_pending :: "(string, string) btree"
  cj_terminal :: "(string, cleanup_terminal) btree"
  cj_commit_uncertain :: bool

section \<open>Third-party code\<close>

text \<open>
  \<open>serde_json\<close> at each of the types it is used at, SHA-256 and Ed25519. The derived
  serializers go through \<^typ>\<open>'n json\<close> values where the source does.
\<close>

record ('k, 'n) media_externals =
  m_sha256 :: "bytes \<Rightarrow> bytes"
  m_key_from_bytes :: "bytes \<Rightarrow> 'k option"
  m_verify_strict :: "'k \<Rightarrow> bytes \<Rightarrow> bytes \<Rightarrow> bool"
  m_value_to_vec :: "'n json \<Rightarrow> bytes option"
  m_value_from_slice :: "bytes \<Rightarrow> 'n json option"
  m_ticket_to_vec :: "execution_ticket \<Rightarrow> bytes option"
  m_readback_from_str :: "string \<Rightarrow> owner_readback option"
  m_request_to_value :: "dispatch_request \<Rightarrow> 'n json option"
  m_request_from_value :: "'n json \<Rightarrow> dispatch_request option"
  m_response_to_value :: "dispatch_response \<Rightarrow> 'n json option"
  m_response_from_value :: "'n json \<Rightarrow> dispatch_response option"
  m_replay_to_vec :: "dispatch_response replay_snapshot \<Rightarrow> bytes option"
  m_activation_request_to_value :: "activation_request \<Rightarrow> 'n json option"
  m_activation_request_from_value :: "'n json \<Rightarrow> activation_request option"
  m_activation_response_to_value :: "activation_response \<Rightarrow> 'n json option"
  m_activation_response_to_vec :: "activation_response \<Rightarrow> bytes option"
  m_activation_response_from_slice :: "bytes \<Rightarrow> activation_response option"
  m_activation_replay_to_vec :: "activation_response replay_snapshot \<Rightarrow> bytes option"
  m_prepared_to_vec :: "prepared_stop \<Rightarrow> bytes option"
  m_cleanup_request_to_vec :: "cleanup_request \<Rightarrow> bytes option"
  m_cleanup_effect_to_vec :: "cleanup_authority \<Rightarrow> execution_ticket \<Rightarrow> execution_mode \<Rightarrow> bytes option"
  m_cleanup_response_to_vec :: "cleanup_response \<Rightarrow> bytes option"
  m_cleanup_response_from_slice :: "bytes \<Rightarrow> cleanup_response option"
  m_cleanup_replay_to_vec :: "cleanup_replay \<Rightarrow> bytes option"

end
