(* ===== verification/Owner_Evidence.thy ===== *)
theory Owner_Evidence
  imports Owner_Types
begin

text \<open>
  What the owner protocol accepts as evidence: tickets and readbacks (\<open>lib.rs\<close>), verified
  effects (\<open>validate_effect\<close> in \<open>owner_dispatch.rs\<close>), signed cleanup requests and responses
  (\<open>retained_cleanup.rs\<close>, \<open>retained_cleanup_server.rs\<close>) and the remote cleanup proof nested in a
  readback (\<open>remote_cleanup_proof.rs\<close>). These functions call each other through the response
  bytes a proof carries; the recursion is modelled with fuel and shown to need one level.
\<close>

section \<open>Constants\<close>

definition ticket_schema :: string where
  "ticket_schema = ''rusty.quest.android.media.execution-ticket.v1''"

definition readback_schema :: string where
  "readback_schema = ''rusty.quest.android.media.readback.v1''"

definition verified_effect_schema :: string where
  "verified_effect_schema = ''rusty.quest.android.media.verified_owner_effect.v1''"

definition retained_projection_schema :: string where
  "retained_projection_schema = ''rusty.quest.android.media.retained_cleanup_projection.v2''"

definition retained_ticket_schema :: string where
  "retained_ticket_schema = ''rusty.quest.android.media.retained_cleanup_ticket.v2''"

definition retained_request_schema :: string where
  "retained_request_schema = ''rusty.quest.android.media.retained_cleanup_dispatch_request.v2''"

definition retained_dispatch_domain :: bytes where
  "retained_dispatch_domain =
     str_bytes ''rusty.quest.android.media.retained_cleanup_dispatch.v2'' @ [0]
     @ str_bytes ''request'' @ [0]"

definition owned_projection_schema :: string where
  "owned_projection_schema = ''rusty.quest.android.media.retained_cleanup_projection.v3''"

definition owned_ticket_schema :: string where
  "owned_ticket_schema = ''rusty.quest.android.media.retained_cleanup_ticket.v3''"

definition owned_request_schema :: string where
  "owned_request_schema = ''rusty.quest.android.media.retained_cleanup_dispatch_request.v3''"

definition owned_dispatch_domain :: bytes where
  "owned_dispatch_domain =
     str_bytes ''rusty.quest.android.media.retained_cleanup_dispatch.v3'' @ [0]
     @ str_bytes ''request'' @ [0]"

definition owned_authentication_expired :: string where
  "owned_authentication_expired = ''owned_cleanup_authentication_expired_no_effect''"

definition retained_response_schema :: string where
  "retained_response_schema = ''rusty.quest.android.media.retained_cleanup_dispatch_response.v2''"

definition retained_response_domain :: bytes where
  "retained_response_domain =
     str_bytes ''rusty.quest.android.media.retained_cleanup_dispatch.v2'' @ [0]
     @ str_bytes ''response'' @ [0]"

definition owned_response_schema :: string where
  "owned_response_schema = ''rusty.quest.android.media.retained_cleanup_dispatch_response.v3''"

definition owned_response_domain :: bytes where
  "owned_response_domain =
     str_bytes ''rusty.quest.android.media.retained_cleanup_dispatch.v3'' @ [0]
     @ str_bytes ''response'' @ [0]"

definition prepared_stop_v1 :: string where
  "prepared_stop_v1 = ''rusty.quest.android.media.retained_cleanup_prepared_stop.v1''"

definition prepared_abort_v2 :: string where
  "prepared_abort_v2 = ''rusty.quest.android.media.retained_abort_prepared_stop.v2''"

definition prepare_domain :: bytes where
  "prepare_domain = str_bytes ''rusty.quest.android.media.retained_cleanup_prepare.v1'' @ [0]"

definition abort_prepare_domain :: bytes where
  "abort_prepare_domain = str_bytes ''rusty.quest.android.media.retained_abort_prepare.v2'' @ [0]"

definition remote_effect_v1 :: string where
  "remote_effect_v1 = ''rusty.quest.android.media.remote_retained_cleanup_effect.v1''"

definition remote_abort_v2 :: string where
  "remote_abort_v2 = ''rusty.quest.android.media.remote_retained_abort_effect.v2''"

section \<open>Tickets\<close>

text \<open>\<open>execution_ticket\<close>; the checked subtraction on the one-based position is the second guard.\<close>

definition issue_ticket ::
  "'e platform_action \<Rightarrow> owner_action \<Rightarrow> u32 \<Rightarrow> u64 \<Rightarrow> string
     \<Rightarrow> media_contract_error + execution_ticket" where
  "issue_ticket action owner sequence executor_generation capability =
     (if executor_generation = 0 \<or> trim_is_empty capability then Inl InvalidAuthority
      else if unat sequence = 0 then Inl InvalidSequence
      else
        let index = unat sequence - 1 in
        if \<not> (index < length (pa_owner_actions action)
               \<and> pa_owner_actions action ! index = owner)
        then Inl InvalidSequence
        else Inr
          \<lparr>tk_schema_id = ticket_schema, tk_capability = capability,
           tk_executor_generation = executor_generation,
           tk_action_id = pa_action_id action,
           tk_authority_epoch_id = pa_authority_epoch_id action,
           tk_media_acceptance_authority_revision = pa_media_acceptance_authority_revision action,
           tk_expected_runtime_revision = pa_expected_runtime_revision action,
           tk_client_id = ca_client_id (pa_client_authority action),
           tk_lease_id = ca_lease_id (pa_client_authority action),
           tk_sequence = sequence, tk_operation = pa_operation action,
           tk_owner_kind = sel_owner_kind (oa_selection owner),
           tk_action_kind = oa_action_kind owner,
           tk_owner_id = sel_owner_id (oa_selection owner),
           tk_provider_kind = sel_provider_kind (oa_selection owner),
           tk_resource_id = sel_resource_id (oa_selection owner)\<rparr>)"

definition is_retained_start_abort_ticket :: "execution_ticket \<Rightarrow> bool" where
  "is_retained_start_abort_ticket t =
     (tk_operation t = OpStart \<and> ends_with (tk_action_id t) ''.abort''
      \<and> (tk_action_kind t = ActStop \<or> tk_action_kind t = ActCleanup))"

section \<open>Signed bytes\<close>

definition prepared_signing_bytes :: "('k, 'n) media_externals \<Rightarrow> prepared_stop \<Rightarrow> string + bytes" where
  "prepared_signing_bytes x v =
     (let unsigned = v\<lparr>ps_signature_base64 := []\<rparr> in
      and_then (if ps_schema_id unsigned = prepared_stop_v1 then Inr prepare_domain
                else if ps_schema_id unsigned = prepared_abort_v2 then Inr abort_prepare_domain
                else Inl ''unknown cleanup preparation schema'') (\<lambda>domain.
      and_then (ok_or ''prepare encode'' (m_prepared_to_vec x unsigned)) (\<lambda>payload.
      Inr (domain @ payload))))"

definition cleanup_request_sha256 :: "('k, 'n) media_externals \<Rightarrow> cleanup_request \<Rightarrow> string + string" where
  "cleanup_request_sha256 x q =
     and_then (ok_or ''cleanup request encode failed'' (m_cleanup_request_to_vec x q)) (\<lambda>bs.
     if max_frame_bytes < length bs then Inl ''cleanup request exceeds frame bound''
     else Inr (''sha256:'' @ lower_hex (m_sha256 x bs)))"

definition cleanup_request_signing_bytes ::
  "('k, 'n) media_externals \<Rightarrow> cleanup_request \<Rightarrow> string + bytes" where
  "cleanup_request_signing_bytes x q =
     and_then (ok_or ''cleanup request encode failed''
         (m_cleanup_request_to_vec x (q\<lparr>cq_signature_base64 := []\<rparr>))) (\<lambda>payload.
     if max_frame_bytes < length payload then Inl ''cleanup request exceeds frame bound''
     else
       and_then (if cq_schema_id q = retained_request_schema then Inr retained_dispatch_domain
                 else if cq_schema_id q = owned_request_schema then Inr owned_dispatch_domain
                 else Inl ''cleanup request signing schema'') (\<lambda>domain.
       Inr (domain @ payload)))"

definition cleanup_response_signing_bytes ::
  "('k, 'n) media_externals \<Rightarrow> cleanup_response \<Rightarrow> string + bytes" where
  "cleanup_response_signing_bytes x r =
     and_then (ok_or ''cleanup response encode''
         (m_cleanup_response_to_vec x (r\<lparr>cr_signature_base64 := []\<rparr>))) (\<lambda>payload.
     and_then (if cr_schema_id r = retained_response_schema then Inr retained_response_domain
               else if cr_schema_id r = owned_response_schema then Inr owned_response_domain
               else Inl ''cleanup response signing schema'') (\<lambda>domain.
     Inr (domain @ payload)))"

text \<open>
  \<open>VerifyingKey::from_bytes\<close> followed by \<open>verify_strict\<close>, whose message is computed in between,
  with the two error strings.
\<close>

definition verify_under ::
  "('k, 'n) media_externals \<Rightarrow> bytes \<Rightarrow> string + bytes \<Rightarrow> bytes \<Rightarrow> string \<Rightarrow> string \<Rightarrow> string + unit" where
  "verify_under x key_bytes message signature bad_key bad_signature =
     and_then (ok_or bad_key (m_key_from_bytes x key_bytes)) (\<lambda>key.
     and_then message (\<lambda>message.
     reject_if (\<not> m_verify_strict x key message signature) bad_signature))"

section \<open>Cleanup tickets and requests\<close>

definition cleanup_ticket_refused ::
  "cleanup_ticket \<Rightarrow> cleanup_authority \<Rightarrow> u64 \<Rightarrow> bool" where
  "cleanup_ticket_refused t live now_ms =
     (let a = ct_authority t; owned = (cu_schema_id a = owned_projection_schema) in
      (if owned then ct_schema_id t \<noteq> owned_ticket_schema
       else ct_schema_id t \<noteq> retained_ticket_schema \<or> cu_schema_id a \<noteq> retained_projection_schema)
      \<or> a \<noteq> live
      \<or> (\<not> owned \<and> (cu_expires_at_ms a \<le> now_ms \<or> cu_requester_expires_at_ms a \<le> now_ms
                     \<or> cu_requester_expires_at_ms a < cu_expires_at_ms a))
      \<or> cu_route_authority_revision a = 0
      \<or> cu_provider_epoch_id a = [] \<or> cu_platform_runtime_spec_id a = []
      \<or> cu_route_grant_id a = [] \<or> cu_peer_session_id a = []
      \<or> \<not> valid_sha256 (cu_cleanup_target_sha256 a)
      \<or> \<not> valid_sha256 (cu_terminal_route_sha256 a)
      \<or> \<not> valid_sha256 (cu_signed_topology_sha256 a))"

definition cleanup_parties_match :: "cleanup_authority \<Rightarrow> bool" where
  "cleanup_parties_match a =
     (if cu_trusted_revoker a
      then cu_requester_id a \<noteq> cu_target_client_id a
           \<and> cu_requester_runtime_lease_id a \<noteq> cu_target_runtime_lease_id a
      else cu_requester_id a = cu_target_client_id a
           \<and> cu_requester_runtime_lease_id a = cu_target_runtime_lease_id a)"

definition verify_retained_cleanup_ticket ::
  "('k, 'n) media_externals \<Rightarrow> cleanup_ticket \<Rightarrow> cleanup_authority \<Rightarrow> execution_ticket \<Rightarrow> u64 \<Rightarrow> u64
     \<Rightarrow> string + unit" where
  "verify_retained_cleanup_ticket x t live expected_target expected_generation now_ms =
     (let a = ct_authority t; target = ct_target t in
      if cleanup_ticket_refused t live now_ms then Inl ''retained cleanup authority invalid''
      else if \<not> cleanup_parties_match a
        \<or> tk_schema_id target \<noteq> ticket_schema
        \<or> target \<noteq> expected_target
        \<or> tk_operation target \<noteq> OpStop
        \<or> \<not> (tk_action_kind target = ActStop \<or> tk_action_kind target = ActCleanup)
        \<or> tk_client_id target \<noteq> cu_target_client_id a
        \<or> tk_lease_id target \<noteq> cu_target_runtime_lease_id a
        \<or> tk_authority_epoch_id target \<noteq> cu_provider_epoch_id a
        \<or> expected_generation = 0
        \<or> tk_executor_generation target \<noteq> expected_generation
        \<or> tk_sequence target = 0
      then Inl ''retained cleanup target/requester mismatch''
      else
        and_then (ok_or ''retained cleanup effect encode failed''
            (m_cleanup_effect_to_vec x a target (ct_mode t))) (\<lambda>encoded.
        reject_if (ct_owner_effect_sha256 t \<noteq> ''sha256:'' @ lower_hex (m_sha256 x encoded))
          ''retained cleanup owner effect differs''))"

definition default_owned_validity_ms :: u64 where
  "default_owned_validity_ms = 30000"

text \<open>\<open>verify_signed_retained_cleanup_request_with_lifetime\<close>.\<close>

definition verify_cleanup_request ::
  "('k, 'n) media_externals \<Rightarrow> cleanup_request \<Rightarrow> cleanup_authority \<Rightarrow> execution_ticket \<Rightarrow> u64
     \<Rightarrow> string \<Rightarrow> string \<Rightarrow> bytes \<Rightarrow> u64 \<Rightarrow> u64 \<Rightarrow> string + unit" where
  "verify_cleanup_request x q live expected_target expected_generation executor_peer signer_key_id
       signer_key now_ms validity_ms =
     (let owned = (cq_schema_id q = owned_request_schema) in
      if validity_ms = 0 then Inl ''cleanup authentication policy invalid''
      else if (\<not> owned \<and> cq_schema_id q \<noteq> retained_request_schema)
        \<or> owned \<noteq> (ct_schema_id (cq_cleanup q) = owned_ticket_schema)
        \<or> owned \<noteq> (cu_schema_id live = owned_projection_schema)
        \<or> cq_dispatch_id q = [] \<or> cq_sequence q = 0 \<or> cq_issued_at_ms q = 0
        \<or> saturating_add now_ms 2000 < cq_issued_at_ms q
        \<or> (\<not> owned \<and> 30000 < saturating_sub now_ms (cq_issued_at_ms q))
        \<or> cq_target_peer_id q \<noteq> executor_peer
        \<or> cq_target_peer_id q \<noteq> cu_executor_peer_id live
        \<or> cq_signer_key_id q \<noteq> signer_key_id
      then Inl ''cleanup dispatch identity/freshness differs''
      else
        and_then (verify_retained_cleanup_ticket x (cq_cleanup q) live expected_target
            expected_generation now_ms) (\<lambda>_.
        and_then (cleanup_request_signing_bytes x q) (\<lambda>bs.
        and_then (decode_signature_base64 (cq_signature_base64 q)) (\<lambda>signature.
        and_then (verify_under x signer_key (Inr bs) signature ''cleanup enrolled signer key invalid''
            ''cleanup dispatch signature invalid'') (\<lambda>_.
        reject_if (owned \<and> validity_ms < saturating_sub now_ms (cq_issued_at_ms q))
          owned_authentication_expired)))))"

text \<open>\<open>verify_signed_retained_cleanup_request\<close>, with the compatibility horizon.\<close>

definition verify_cleanup_request_default ::
  "('k, 'n) media_externals \<Rightarrow> cleanup_request \<Rightarrow> cleanup_authority \<Rightarrow> execution_ticket \<Rightarrow> u64
     \<Rightarrow> string \<Rightarrow> string \<Rightarrow> bytes \<Rightarrow> u64 \<Rightarrow> string + unit" where
  "verify_cleanup_request_default x q live expected_target expected_generation executor_peer
       signer_key_id signer_key now_ms =
     verify_cleanup_request x q live expected_target expected_generation executor_peer signer_key_id
       signer_key now_ms default_owned_validity_ms"

section \<open>Prepared stops\<close>

definition verify_retained_cleanup_prepared ::
  "('k, 'n) media_externals \<Rightarrow> prepared_stop \<Rightarrow> execution_ticket \<Rightarrow> string \<Rightarrow> string \<Rightarrow> bytes
     \<Rightarrow> string + unit" where
  "verify_retained_cleanup_prepared x v source target_peer key_id key =
     (let source_allowed =
            (if ps_schema_id v = prepared_stop_v1 then tk_operation source = OpStop
             else if ps_schema_id v = prepared_abort_v2 then is_retained_start_abort_ticket source
             else False);
          target = ps_target_ticket v
      in if \<not> source_allowed
        \<or> ps_source_ticket v \<noteq> source
        \<or> cu_executor_peer_id (ps_authority v) \<noteq> target_peer
        \<or> ps_signer_key_id v \<noteq> key_id
        \<or> ps_dispatch_id v = []
        \<or> ps_target_preparation_revision v = 0
        \<or> length (ps_prepare_request_sha256 v) \<noteq> 71
        \<or> tk_operation target \<noteq> OpStop
        \<or> tk_capability target = tk_capability source
        \<or> tk_action_id target = tk_action_id source
        \<or> tk_client_id source \<noteq> tk_client_id target
        \<or> tk_lease_id source \<noteq> tk_lease_id target
        \<or> tk_authority_epoch_id source \<noteq> tk_authority_epoch_id target
        \<or> tk_owner_kind source \<noteq> tk_owner_kind target
        \<or> tk_owner_id source \<noteq> tk_owner_id target
        \<or> tk_provider_kind source \<noteq> tk_provider_kind target
        \<or> tk_resource_id source \<noteq> tk_resource_id target
      then Inl ''independent prepared Stop binding differs''
      else
        and_then (decode_signature_base64 (ps_signature_base64 v)) (\<lambda>signature.
        verify_under x key (prepared_signing_bytes x v) signature ''prepare key'' ''prepare signature''))"

section \<open>The evidence chain\<close>

text \<open>
  \<open>validate_effect\<close>, \<open>verify_retained_cleanup_response\<close>, \<open>RemoteRetainedCleanupEffect::verify\<close>
  and \<open>validate_source_readback\<close>, over the readback validator they end in.
\<close>

type_synonym readback_validator =
  "execution_ticket \<Rightarrow> owner_readback \<Rightarrow> media_contract_error + owner_provider_readback"

definition validate_effect_with ::
  "readback_validator \<Rightarrow> ('k, 'n) media_externals \<Rightarrow> execution_ticket \<Rightarrow> execution_mode \<Rightarrow> owner_effect
     \<Rightarrow> string + unit" where
  "validate_effect_with vr x ticket mode effect =
     (let verified = ef_verified effect; readback = ef_readback effect in
      and_then (ok_or ''verified readback JSON is invalid''
          (m_readback_from_str x (ef_readback_json effect))) (\<lambda>parsed.
      reject_if
        (ve_schema_id verified \<noteq> verified_effect_schema
         \<or> parsed \<noteq> readback
         \<or> \<not> is_ok (vr ticket readback)
         \<or> ve_receipt_id verified \<noteq> rb_receipt_id readback
         \<or> ve_readback_sha256 verified
             \<noteq> sha256_prefixed (m_sha256 x) (str_bytes (ef_readback_json effect))
         \<or> ve_executor_generation verified \<noteq> tk_executor_generation ticket
         \<or> ve_executor_generation verified \<noteq> rb_executor_generation readback
         \<or> ve_provider_state_revision verified \<noteq> rb_provider_state_revision readback
         \<or> ve_observed_state verified \<noteq> rb_observed_state readback
         \<or> ve_provider_handle_id verified \<noteq> rb_provider_handle_id readback
         \<or> length (ve_detail_sha256 verified) \<noteq> 71
         \<or> \<not> starts_with (ve_detail_sha256 verified) ''sha256:''
         \<or> ((tk_operation ticket = OpStop \<or> mode = CompensateUncertain) \<and> \<not> ve_terminal verified)
         \<or> \<not> valid_sha256 (ve_readback_sha256 verified)
         \<or> \<not> valid_sha256 (ve_detail_sha256 verified))
        ''verified owner effect mismatch''))"

definition verify_cleanup_response_with ::
  "readback_validator \<Rightarrow> ('k, 'n) media_externals \<Rightarrow> bytes \<Rightarrow> cleanup_request \<Rightarrow> execution_ticket
     \<Rightarrow> string \<Rightarrow> string \<Rightarrow> bytes \<Rightarrow> string + cleanup_response" where
  "verify_cleanup_response_with vr x response_bytes q expected_target executor_peer executor_key_id
       executor_key =
     and_then (ok_or ''cleanup response decode''
         (m_cleanup_response_from_slice x response_bytes)) (\<lambda>response.
     let owned = (cq_schema_id q = owned_request_schema);
         refresh = (owned \<and> cr_status response = Rejected \<and> cr_effect response = None
                    \<and> cr_failure response = Some owned_authentication_expired)
     in if (if owned then cr_schema_id response \<noteq> owned_response_schema
            else cr_schema_id response \<noteq> retained_response_schema)
          \<or> cr_dispatch_id response \<noteq> cq_dispatch_id q
          \<or> cr_executor_peer_id response \<noteq> executor_peer
          \<or> cr_executor_peer_id response \<noteq> cq_target_peer_id q
        then Inl ''cleanup response binding differs''
        else
          and_then (cleanup_request_sha256 x q) (\<lambda>request_sha256.
          if cr_request_sha256 response \<noteq> request_sha256
            \<or> ct_target (cq_cleanup q) \<noteq> expected_target
            \<or> cr_signer_key_id response \<noteq> executor_key_id
            \<or> (cr_status response = Rejected \<and> \<not> refresh)
            \<or> (cr_status response = Completed)
                \<noteq> (cr_effect response \<noteq> None \<and> cr_failure response = None)
            \<or> (cr_status response = Uncertain \<or> refresh)
                \<noteq> (cr_effect response = None \<and> cr_failure response \<noteq> None)
            \<or> (case cr_effect response of None \<Rightarrow> False
               | Some effect \<Rightarrow>
                   \<not> is_ok (validate_effect_with vr x expected_target (ct_mode (cq_cleanup q)) effect))
          then Inl ''cleanup response binding differs''
          else
            and_then (decode_signature_base64 (cr_signature_base64 response)) (\<lambda>signature.
            and_then (verify_under x executor_key (cleanup_response_signing_bytes x response) signature
                ''cleanup executor key invalid'' ''cleanup executor signature invalid'') (\<lambda>_.
            Inr response))))"

definition remote_effect_verify_with ::
  "readback_validator \<Rightarrow> ('k, 'n) media_externals \<Rightarrow> remote_cleanup_effect \<Rightarrow> execution_ticket
     \<Rightarrow> string \<Rightarrow> bytes \<Rightarrow> string + owner_effect" where
  "remote_effect_verify_with vr x e source key_id key =
     (let prepared = rce_prepared e; commit = rce_commit e;
          schema_allowed =
            (if rce_schema_id e = remote_effect_v1 then ps_schema_id prepared = prepared_stop_v1
             else if rce_schema_id e = remote_abort_v2
             then ps_schema_id prepared = prepared_abort_v2 \<and> is_retained_start_abort_ticket source
             else False)
      in if \<not> schema_allowed
          \<or> rce_enrolled_target_key e \<noteq> key
          \<or> max_frame_bytes < length (rce_response_bytes e)
          \<or> cq_dispatch_id commit \<noteq> ps_dispatch_id prepared
          \<or> ct_target (cq_cleanup commit) \<noteq> ps_target_ticket prepared
          \<or> ct_authority (cq_cleanup commit) \<noteq> ps_authority prepared
        then Inl ''remote cleanup proof differs''
        else
          and_then (verify_retained_cleanup_prepared x prepared source
              (cu_executor_peer_id (ps_authority prepared)) key_id key) (\<lambda>_.
          and_then (verify_cleanup_response_with vr x (rce_response_bytes e) commit
              (ps_target_ticket prepared) (cu_executor_peer_id (ps_authority prepared)) key_id key)
            (\<lambda>response.
          if cr_status response \<noteq> Completed then Inl ''remote cleanup remains uncertain''
          else
            and_then (ok_or ''remote cleanup effect missing'' (cr_effect response)) (\<lambda>effect.
            if rb_remote_cleanup (ef_readback effect) \<noteq> None then Inl ''recursive cleanup proof''
            else Inr effect))))"

definition cleanup_receipt_id :: "('k, 'n) media_externals \<Rightarrow> remote_cleanup_effect \<Rightarrow> string" where
  "cleanup_receipt_id x e = ''remote-cleanup.'' @ lower_hex (m_sha256 x (rce_response_bytes e))"

definition validate_source_readback_with ::
  "readback_validator \<Rightarrow> ('k, 'n) media_externals \<Rightarrow> remote_cleanup_effect \<Rightarrow> execution_ticket
     \<Rightarrow> owner_readback \<Rightarrow> string + unit" where
  "validate_source_readback_with vr x e source wrapper =
     and_then (remote_effect_verify_with vr x e source (ps_signer_key_id (rce_prepared e))
         (rce_enrolled_target_key e)) (\<lambda>effect.
     reject_if
       (rb_provider_handle_id wrapper \<noteq> rb_provider_handle_id (ef_readback effect)
        \<or> rb_provider_state_revision wrapper \<noteq> rb_provider_state_revision (ef_readback effect)
        \<or> rb_observed_state wrapper \<noteq> rb_observed_state (ef_readback effect)
        \<or> rb_receipt_id wrapper \<noteq> cleanup_receipt_id x e
        \<or> \<not> ve_terminal (ef_verified effect))
       ''source wrapper differs from actual remote Stop'')"

definition readback_echoes :: "execution_ticket \<Rightarrow> owner_readback \<Rightarrow> bool" where
  "readback_echoes t r =
     (rb_capability r = tk_capability t \<and> rb_executor_generation r = tk_executor_generation t
      \<and> rb_action_id r = tk_action_id t \<and> rb_authority_epoch_id r = tk_authority_epoch_id t
      \<and> rb_media_acceptance_authority_revision r = tk_media_acceptance_authority_revision t
      \<and> rb_expected_runtime_revision r = tk_expected_runtime_revision t
      \<and> rb_client_id r = tk_client_id t \<and> rb_lease_id r = tk_lease_id t
      \<and> rb_sequence r = tk_sequence t \<and> rb_operation r = tk_operation t
      \<and> rb_owner_kind r = tk_owner_kind t \<and> rb_action_kind r = tk_action_kind t
      \<and> rb_owner_id r = tk_owner_id t \<and> rb_provider_kind r = tk_provider_kind t
      \<and> rb_resource_id r = tk_resource_id t)"

definition provider_readback :: "owner_readback \<Rightarrow> owner_provider_readback" where
  "provider_readback r =
     \<lparr>opr_action_id = rb_action_id r, opr_authority_epoch_id = rb_authority_epoch_id r,
      opr_media_acceptance_authority_revision = rb_media_acceptance_authority_revision r,
      opr_client_id = rb_client_id r, opr_lease_id = rb_lease_id r,
      opr_provider_kind = rb_provider_kind r, opr_resource_id = rb_resource_id r,
      opr_provider_handle_id = rb_provider_handle_id r,
      opr_provider_state_revision = rb_provider_state_revision r,
      opr_observed_state = rb_observed_state r, opr_receipt_id = rb_receipt_id r\<rparr>"

text \<open>\<open>validate_readback\<close>, over the validator of the nested proof.\<close>

definition validate_readback_with ::
  "(remote_cleanup_effect \<Rightarrow> execution_ticket \<Rightarrow> owner_readback \<Rightarrow> string + unit)
     \<Rightarrow> readback_validator" where
  "validate_readback_with vp ticket readback =
     (if tk_schema_id ticket \<noteq> ticket_schema \<or> rb_schema_id readback \<noteq> readback_schema
      then Inl SchemaMismatch
      else if \<not> readback_echoes ticket readback then Inl TicketMismatch
      else if trim_is_empty (rb_provider_handle_id readback)
        \<or> rb_provider_state_revision readback = 0
        \<or> trim_is_empty (rb_observed_state readback)
        \<or> trim_is_empty (rb_receipt_id readback)
      then Inl InvalidProviderEvidence
      else case rb_remote_cleanup readback of
          None \<Rightarrow> Inr (provider_readback readback)
        | Some proof \<Rightarrow>
            and_then (map_err (\<lambda>_. InvalidProviderEvidence) (vp proof ticket readback))
              (\<lambda>_. Inr (provider_readback readback)))"

text \<open>The fuel bounds how many proofs may be nested; with none left a proof is not looked at.\<close>

primrec validate_readback_fuel :: "nat \<Rightarrow> ('k, 'n) media_externals \<Rightarrow> readback_validator" where
  "validate_readback_fuel 0 x = validate_readback_with (\<lambda>_ _ _. Inl ''fuel'')"
| "validate_readback_fuel (Suc n) x =
     validate_readback_with (validate_source_readback_with (validate_readback_fuel n x) x)"

definition validate_readback :: "('k, 'n) media_externals \<Rightarrow> readback_validator" where
  "validate_readback x = validate_readback_fuel 1 x"

definition validate_effect ::
  "('k, 'n) media_externals \<Rightarrow> execution_ticket \<Rightarrow> execution_mode \<Rightarrow> owner_effect \<Rightarrow> string + unit" where
  "validate_effect x = validate_effect_with (validate_readback x) x"

definition verify_cleanup_response ::
  "('k, 'n) media_externals \<Rightarrow> bytes \<Rightarrow> cleanup_request \<Rightarrow> execution_ticket
     \<Rightarrow> string \<Rightarrow> string \<Rightarrow> bytes \<Rightarrow> string + cleanup_response" where
  "verify_cleanup_response x = verify_cleanup_response_with (validate_readback x) x"

definition remote_effect_verify ::
  "('k, 'n) media_externals \<Rightarrow> remote_cleanup_effect \<Rightarrow> execution_ticket \<Rightarrow> string \<Rightarrow> bytes
     \<Rightarrow> string + owner_effect" where
  "remote_effect_verify x = remote_effect_verify_with (validate_readback x) x"

definition validate_source_readback ::
  "('k, 'n) media_externals \<Rightarrow> remote_cleanup_effect \<Rightarrow> execution_ticket \<Rightarrow> owner_readback
     \<Rightarrow> string + unit" where
  "validate_source_readback x = validate_source_readback_with (validate_readback x) x"

section \<open>Source readbacks\<close>

definition source_readback ::
  "('k, 'n) media_externals \<Rightarrow> remote_cleanup_effect \<Rightarrow> execution_ticket \<Rightarrow> string \<Rightarrow> bytes
     \<Rightarrow> string + owner_readback" where
  "source_readback x e source key_id key =
     and_then (remote_effect_verify x e source key_id key) (\<lambda>effect.
     Inr ((ef_readback effect)
       \<lparr>rb_capability := tk_capability source,
        rb_executor_generation := tk_executor_generation source,
        rb_action_id := tk_action_id source,
        rb_authority_epoch_id := tk_authority_epoch_id source,
        rb_media_acceptance_authority_revision := tk_media_acceptance_authority_revision source,
        rb_expected_runtime_revision := tk_expected_runtime_revision source,
        rb_client_id := tk_client_id source, rb_lease_id := tk_lease_id source,
        rb_sequence := tk_sequence source, rb_operation := tk_operation source,
        rb_owner_kind := tk_owner_kind source, rb_action_kind := tk_action_kind source,
        rb_owner_id := tk_owner_id source, rb_provider_kind := tk_provider_kind source,
        rb_resource_id := tk_resource_id source,
        rb_receipt_id := cleanup_receipt_id x e,
        rb_remote_cleanup := Some e\<rparr>))"

definition retained_local_source_readback ::
  "('k, 'n) media_externals \<Rightarrow> execution_ticket \<Rightarrow> execution_ticket \<Rightarrow> owner_effect
     \<Rightarrow> string + owner_readback" where
  "retained_local_source_readback x source target effect =
     (let expected = source\<lparr>tk_operation := OpStop\<rparr> in
      if \<not> (tk_operation source = OpStop \<or> is_retained_start_abort_ticket source)
        \<or> target \<noteq> expected
      then Inl ''retained local original/target differs''
      else
        and_then (validate_effect x target Execute effect) (\<lambda>_.
        if \<not> ve_terminal (ef_verified effect) then Inl ''retained local Stop remains nonterminal''
        else Inr ((ef_readback effect)\<lparr>rb_operation := tk_operation source\<rparr>)))"

definition is_ascii_hexdigit :: "char \<Rightarrow> bool" where
  "is_ascii_hexdigit c = (is_ascii_digit c \<or> in_range 97 102 c \<or> in_range 65 70 c)"

definition derive_retained_target_stop ::
  "execution_ticket \<Rightarrow> u64 \<Rightarrow> string \<Rightarrow> string + execution_ticket" where
  "derive_retained_target_stop original generation entropy =
     (if tk_operation original \<noteq> OpStart \<or> generation = 0 \<or> length entropy \<noteq> 32
        \<or> \<not> list_all is_ascii_hexdigit entropy
        \<or> tk_sequence original = 0 \<or> 7 < tk_sequence original
      then Inl ''independent original Start/entropy unavailable''
      else Inr (original
        \<lparr>tk_capability := ''cleanup.capability.'' @ entropy,
         tk_action_id := ''cleanup.action.'' @ entropy,
         tk_executor_generation := generation,
         tk_operation := OpStop,
         tk_action_kind := (if tk_owner_kind original = Cleanup then ActCleanup else ActStop),
         tk_sequence := 8 - tk_sequence original\<rparr>))"

end
