(* ===== verification/Owner_Wire.thy ===== *)
theory Owner_Wire
  imports Owner_Evidence
begin

text \<open>
  How dispatch requests, responses and activation messages are laid out in wire frames
  (\<open>owner_dispatch.rs\<close>): a JSON object of metadata without the payload field, a payload, and the
  payload's digest inside the metadata. The signed bytes are the same layout without the
  signature, under a domain prefix per message kind.
\<close>

section \<open>Domains and schemas\<close>

definition request_schema :: string where
  "request_schema = ''rusty.quest.android.media.owner_dispatch_request.v1''"

definition response_schema :: string where
  "response_schema = ''rusty.quest.android.media.owner_dispatch_response.v1''"

definition activation_request_schema :: string where
  "activation_request_schema = ''rusty.quest.android.media.product_activation_request.v1''"

definition activation_response_schema :: string where
  "activation_response_schema = ''rusty.quest.android.media.product_activation_response.v1''"

definition activation_readback_schema :: string where
  "activation_readback_schema = ''rusty.quest.android.media.product_activation_readback.v1''"

definition envelope_domain :: bytes where
  "envelope_domain = str_bytes ''rusty.quest.android.media.owner_dispatch_envelope.v1'' @ [0]"

definition request_domain :: bytes where
  "request_domain = envelope_domain @ str_bytes ''request'' @ [0]"

definition response_domain :: bytes where
  "response_domain = envelope_domain @ str_bytes ''terminal_response'' @ [0]"

definition activation_request_domain :: bytes where
  "activation_request_domain = envelope_domain @ str_bytes ''product_activation'' @ [0]"

definition activation_response_domain :: bytes where
  "activation_response_domain = envelope_domain @ str_bytes ''product_activation_ack'' @ [0]"

section \<open>Payload digests\<close>

definition x_sha :: "('k, 'n) media_externals \<Rightarrow> bytes \<Rightarrow> string" where
  "x_sha x = sha256_prefixed (m_sha256 x)"

text \<open>\<open>validate_payload_digest\<close> removes the digest from the metadata and compares it.\<close>

definition validate_payload_digest ::
  "('k, 'n) media_externals \<Rightarrow> 'n json \<Rightarrow> bytes \<Rightarrow> string + 'n json" where
  "validate_payload_digest x v payload =
     and_then (ok_or ''metadata shape'' (as_object v)) (\<lambda>object.
     and_then (ok_or ''payload digest absent''
         (Option.bind (bt_get object ''payload_sha256'') as_str)) (\<lambda>digest.
     if digest \<noteq> x_sha x payload then Inl ''payload digest mismatch''
     else Inr (JObject (bt_remove ''payload_sha256'' object))))"

definition finish_metadata ::
  "('k, 'n) media_externals \<Rightarrow> bool \<Rightarrow> (string, 'n json) btree \<Rightarrow> bytes \<Rightarrow> (string, 'n json) btree" where
  "finish_metadata x with_signature object payload =
     (let object = bt_insert ''payload_sha256'' (JString (x_sha x payload)) object in
      if with_signature then object else bt_remove ''signature_base64'' object)"

section \<open>Dispatch requests\<close>

definition request_wire_parts ::
  "('k, 'n) media_externals \<Rightarrow> dispatch_request \<Rightarrow> bool \<Rightarrow> string + (bytes \<times> bytes)" where
  "request_wire_parts x q with_signature =
     and_then (ok_or ''ticket encoding'' (m_ticket_to_vec x (dq_ticket q))) (\<lambda>payload.
     and_then (ok_or ''request metadata encoding'' (m_request_to_value x q)) (\<lambda>v.
     and_then (ok_or ''request metadata shape'' (as_object v)) (\<lambda>object.
     and_then (ok_or ''request metadata encoding''
         (m_value_to_vec x (JObject (finish_metadata x with_signature (bt_remove ''ticket'' object) payload))))
       (\<lambda>metadata. Inr (metadata, payload)))))"

definition request_signing_bytes :: "('k, 'n) media_externals \<Rightarrow> dispatch_request \<Rightarrow> string + bytes" where
  "request_signing_bytes x q =
     and_then (request_wire_parts x q False) (\<lambda>(metadata, payload).
     wire_signing_bytes request_domain metadata payload)"

definition encode_request_frame :: "('k, 'n) media_externals \<Rightarrow> dispatch_request \<Rightarrow> string + bytes" where
  "encode_request_frame x q =
     and_then (request_wire_parts x q True) (\<lambda>(metadata, payload).
     encode_wire_frame metadata payload)"

definition decode_request_frame :: "('k, 'n) media_externals \<Rightarrow> bytes \<Rightarrow> string + dispatch_request" where
  "decode_request_frame x frame =
     and_then (decode_wire_frame frame) (\<lambda>(metadata, payload).
     and_then (ok_or ''invalid dispatch request metadata'' (m_value_from_slice x metadata)) (\<lambda>v.
     and_then (validate_payload_digest x v payload) (\<lambda>v.
     and_then (ok_or ''request metadata shape'' (as_object v)) (\<lambda>object.
     and_then (ok_or ''invalid ticket payload'' (m_value_from_slice x payload)) (\<lambda>ticket.
     ok_or ''invalid dispatch request''
       (m_request_from_value x (JObject (bt_insert ''ticket'' ticket object))))))))"

section \<open>Dispatch responses\<close>

text \<open>
  The effect member loses its readback; its raw readback text becomes the payload. Without an
  effect object the payload is empty.
\<close>

definition split_effect ::
  "(string, 'n json) btree \<Rightarrow> string + ((string, 'n json) btree \<times> bytes)" where
  "split_effect object =
     (case Option.bind (bt_get object ''effect'') as_object of
        None \<Rightarrow> Inr (object, [])
      | Some effect \<Rightarrow>
          let effect = bt_remove ''readback'' effect in
          (case Option.bind (bt_get effect ''readback_json'') as_str of
             None \<Rightarrow> Inl ''completed response omitted raw readback''
           | Some text \<Rightarrow>
               Inr (bt_insert ''effect'' (JObject (bt_remove ''readback_json'' effect)) object,
                    str_bytes text)))"

definition response_wire_parts ::
  "('k, 'n) media_externals \<Rightarrow> dispatch_response \<Rightarrow> bool \<Rightarrow> string + (bytes \<times> bytes)" where
  "response_wire_parts x r with_signature =
     and_then (ok_or ''response metadata encoding'' (m_response_to_value x r)) (\<lambda>v.
     and_then (ok_or ''response metadata shape'' (as_object v)) (\<lambda>object.
     and_then (split_effect object) (\<lambda>(object, payload).
     and_then (ok_or ''response metadata encoding''
         (m_value_to_vec x (JObject (finish_metadata x with_signature object payload))))
       (\<lambda>metadata. Inr (metadata, payload)))))"

definition response_signing_bytes :: "('k, 'n) media_externals \<Rightarrow> dispatch_response \<Rightarrow> string + bytes" where
  "response_signing_bytes x r =
     and_then (response_wire_parts x r False) (\<lambda>(metadata, payload).
     wire_signing_bytes response_domain metadata payload)"

definition encode_response_frame :: "('k, 'n) media_externals \<Rightarrow> dispatch_response \<Rightarrow> string + bytes" where
  "encode_response_frame x r =
     and_then (response_wire_parts x r True) (\<lambda>(metadata, payload).
     encode_wire_frame metadata payload)"

definition decode_response_frame :: "('k, 'n) media_externals \<Rightarrow> bytes \<Rightarrow> string + dispatch_response" where
  "decode_response_frame x frame =
     and_then (decode_wire_frame frame) (\<lambda>(metadata, payload).
     and_then (ok_or ''invalid dispatch response metadata'' (m_value_from_slice x metadata)) (\<lambda>v.
     and_then (validate_payload_digest x v payload) (\<lambda>v.
     and_then
       (case Option.bind (json_get v ''effect'') as_object of
          Some effect \<Rightarrow>
            and_then (ok_or ''invalid readback payload'' (m_value_from_slice x payload)) (\<lambda>readback.
            and_then (ok_or ''readback payload UTF-8'' (from_utf8 payload)) (\<lambda>text.
            Inr (set_field v ''effect''
              (JObject (bt_insert ''readback_json'' (JString text)
                (bt_insert ''readback'' readback effect))))))
        | None \<Rightarrow> if payload \<noteq> [] then Inl ''unexpected response payload'' else Inr v) (\<lambda>v.
     ok_or ''invalid dispatch response'' (m_response_from_value x v)))))"

section \<open>Activation messages\<close>

definition activation_request_wire_parts ::
  "('k, 'n) media_externals \<Rightarrow> activation_request \<Rightarrow> bool \<Rightarrow> string + (bytes \<times> bytes)" where
  "activation_request_wire_parts x q with_signature =
     (let payload = str_bytes (aq_completion_json q) in
      and_then (ok_or ''activation metadata encoding'' (m_activation_request_to_value x q)) (\<lambda>v.
      and_then (ok_or ''activation metadata shape'' (as_object v)) (\<lambda>object.
      and_then (ok_or ''activation metadata encoding''
          (m_value_to_vec x
             (JObject (finish_metadata x with_signature (bt_remove ''completion_json'' object) payload))))
        (\<lambda>metadata. Inr (metadata, payload)))))"

definition activation_request_signing_bytes ::
  "('k, 'n) media_externals \<Rightarrow> activation_request \<Rightarrow> string + bytes" where
  "activation_request_signing_bytes x q =
     and_then (activation_request_wire_parts x q False) (\<lambda>(metadata, payload).
     wire_signing_bytes activation_request_domain metadata payload)"

definition encode_activation_request ::
  "('k, 'n) media_externals \<Rightarrow> string \<Rightarrow> (bytes \<Rightarrow> string + bytes) \<Rightarrow> activation_request \<Rightarrow> string + bytes" where
  "encode_activation_request x key_id sign q =
     (if aq_signer_key_id q \<noteq> key_id \<or> aq_signature_base64 q \<noteq> []
      then Inl ''activation signer mismatch''
      else
        and_then (activation_request_signing_bytes x q) (\<lambda>signing.
        and_then (sign signing) (\<lambda>signature.
        and_then (activation_request_wire_parts x
            (q\<lparr>aq_signature_base64 := encode_signature_base64 signature\<rparr>) True) (\<lambda>(metadata, payload).
        encode_wire_frame metadata payload))))"

definition decode_activation_request ::
  "('k, 'n) media_externals \<Rightarrow> bytes \<Rightarrow> string + activation_request" where
  "decode_activation_request x frame =
     and_then (decode_wire_frame frame) (\<lambda>(metadata, payload).
     and_then (ok_or ''activation metadata'' (m_value_from_slice x metadata)) (\<lambda>v.
     and_then (validate_payload_digest x v payload) (\<lambda>v.
     and_then (ok_or ''activation metadata shape'' (as_object v)) (\<lambda>object.
     and_then (ok_or ''activation completion UTF-8'' (from_utf8 payload)) (\<lambda>text.
     ok_or ''invalid activation request''
       (m_activation_request_from_value x
          (JObject (bt_insert ''completion_json'' (JString text) object))))))))"

definition activation_response_signing_bytes ::
  "('k, 'n) media_externals \<Rightarrow> activation_response \<Rightarrow> string + bytes" where
  "activation_response_signing_bytes x r =
     and_then (ok_or ''activation ack encoding'' (m_activation_response_to_value x r)) (\<lambda>v.
     and_then (ok_or ''activation ack shape'' (as_object v)) (\<lambda>object.
     and_then (ok_or ''activation ack encoding''
         (m_value_to_vec x (JObject (bt_remove ''signature_base64'' object)))) (\<lambda>metadata.
     wire_signing_bytes activation_response_domain metadata [])))"

definition encode_activation_response ::
  "('k, 'n) media_externals \<Rightarrow> activation_response \<Rightarrow> string + bytes" where
  "encode_activation_response x r =
     and_then (ok_or ''activation response encoding'' (m_activation_response_to_vec x r))
       (\<lambda>metadata. encode_wire_frame metadata [])"

definition decode_activation_response ::
  "('k, 'n) media_externals \<Rightarrow> bytes \<Rightarrow> string + activation_response" where
  "decode_activation_response x frame =
     and_then (decode_wire_frame frame) (\<lambda>(metadata, payload).
     if payload \<noteq> [] then Inl ''activation response payload''
     else ok_or ''invalid activation response'' (m_activation_response_from_slice x metadata))"

definition verify_activation_response ::
  "('k, 'n) media_externals \<Rightarrow> activation_response \<Rightarrow> string \<Rightarrow> bytes \<Rightarrow> string \<Rightarrow> bytes \<Rightarrow> string + unit" where
  "verify_activation_response x r expected_id request_frame expected_key_id signer_key =
     (if as_schema_id r \<noteq> activation_response_schema
        \<or> as_activation_id r \<noteq> expected_id
        \<or> as_request_sha256 r \<noteq> x_sha x request_frame
        \<or> as_signer_key_id r \<noteq> expected_key_id
        \<or> (as_status r = Completed
           \<and> (case as_readback r of None \<Rightarrow> True
              | Some v \<Rightarrow> ab_schema_id v \<noteq> activation_readback_schema \<or> \<not> ab_activated v
                         \<or> ab_activation_id v \<noteq> expected_id))
      then Inl ''activation acknowledgement binding mismatch''
      else
        and_then (ok_or ''invalid activation acknowledgement key'' (m_key_from_bytes x signer_key)) (\<lambda>key.
        and_then (decode_signature_base64 (as_signature_base64 r)) (\<lambda>signature.
        and_then (activation_response_signing_bytes x r) (\<lambda>signing.
        reject_if (\<not> m_verify_strict x key signing signature)
          ''activation acknowledgement signature''))))"

end
