(* ===== verification/Exactly_Once.thy ===== *)
theory Exactly_Once
  imports Quest_Prelude
begin

text \<open>
  The contract the three replay journals of the media crates share, as a locale: an effect is
  entered for an identity only if the journal did not know it, and by then the identity is both
  in memory and in the durable store; an identity that is in both stays in both, whatever
  happens next, crashes included. Exactly-once follows once and for all.
\<close>

section \<open>Durable commits\<close>

text \<open>
  The outcome of a store's \<open>commit\<close>: success makes the snapshot durable, and an error leaves
  open whether it was replaced.
\<close>

datatype commit_outcome = Committed | CommitFailed string bool

definition commit_result :: "commit_outcome \<Rightarrow> string + unit" where
  "commit_result c = (case c of Committed \<Rightarrow> Inr () | CommitFailed e _ \<Rightarrow> Inl e)"

definition commit_durable :: "commit_outcome \<Rightarrow> 's \<Rightarrow> 's \<Rightarrow> 's" where
  "commit_durable c old new =
     (case c of Committed \<Rightarrow> new | CommitFailed _ replaced \<Rightarrow> if replaced then new else old)"

lemma commit_durable_cases: "commit_durable c old new \<in> {old, new}"
  by (simp add: commit_durable_def split: commit_outcome.splits)

lemma commit_durable_ok: "commit_result c = Inr u \<Longrightarrow> commit_durable c old new = new"
  by (simp add: commit_durable_def commit_result_def split: commit_outcome.splits)

section \<open>The contract\<close>

locale effect_journal =
  fixes step :: "'event \<Rightarrow> 's \<Rightarrow> 's"
    and calls :: "'s \<Rightarrow> 'id list"
    and known :: "'s \<Rightarrow> 'id set"
    and durable :: "'s \<Rightarrow> 'id set"
  assumes step_keeps: "known s \<inter> durable s \<subseteq> known (step e s) \<inter> durable (step e s)"
    and step_enters: "calls (step e s) = calls s
      \<or> (\<exists>d. calls (step e s) = calls s @ [d] \<and> d \<notin> known s
           \<and> d \<in> known (step e s) \<inter> durable (step e s))"
begin

lemma journaled_step:
  assumes "distinct (calls s)" and "set (calls s) \<subseteq> known s \<inter> durable s"
  shows "distinct (calls (step e s)) \<and> set (calls (step e s)) \<subseteq> known (step e s) \<inter> durable (step e s)"
proof -
  have "set (calls s) \<subseteq> known (step e s) \<inter> durable (step e s)"
    using assms(2) step_keeps [of s e] by blast
  with assms step_enters [where e = e and s = s] show ?thesis
    by auto
qed

lemma journaled_run:
  "distinct (calls s) \<Longrightarrow> set (calls s) \<subseteq> known s \<inter> durable s \<Longrightarrow>
     distinct (calls (fold step es s))
     \<and> set (calls (fold step es s)) \<subseteq> known (fold step es s) \<inter> durable (fold step es s)"
proof (induction es arbitrary: s)
  case (Cons e es)
  with journaled_step [OF Cons.prems] show ?case
    by simp
qed simp

text \<open>Each identity enters its effect at most once.\<close>

lemma at_most_once: "calls s = [] \<Longrightarrow> distinct (calls (fold step es s))"
  using journaled_run [of s es] by simp

text \<open>The log of entered effects only grows, and an entered identity is never entered again.\<close>

lemma calls_grow: "\<exists>more. calls (fold step es s) = calls s @ more"
proof (induction es arbitrary: s)
  case (Cons e es)
  then obtain more where "calls (fold step es (step e s)) = calls (step e s) @ more"
    by blast
  with step_enters [where e = e and s = s] show ?case
    by auto
qed simp

lemma known_not_entered: "d \<in> known s \<Longrightarrow> calls (step e s) \<noteq> calls s @ [d]"
  using step_enters [where e = e and s = s] by auto

end

section \<open>Write-ahead servers\<close>

text \<open>
  The three servers handle a request in the same phases: classify it, reserve its identity
  durably, enter the platform effect, settle the result. A crash may fall after the reservation
  or after the effect; the process then starts again from what the store holds.
\<close>

datatype 'q server_event =
    Handle 'q
  | CrashAfterReserve 'q
  | CrashAfterEffect 'q
  | Restart

definition phased_reserved ::
  "('q \<Rightarrow> 's \<Rightarrow> 'w option) \<Rightarrow> ('q \<Rightarrow> 'w \<Rightarrow> 's \<Rightarrow> bool \<times> 's) \<Rightarrow> 'q \<Rightarrow> 's \<Rightarrow> 's" where
  "phased_reserved classify reserve q s =
     (case classify q s of None \<Rightarrow> s | Some w \<Rightarrow> snd (reserve q w s))"

definition phased_entered ::
  "('q \<Rightarrow> 's \<Rightarrow> 'w option) \<Rightarrow> ('q \<Rightarrow> 'w \<Rightarrow> 's \<Rightarrow> bool \<times> 's) \<Rightarrow> ('q \<Rightarrow> 'w \<Rightarrow> 's \<Rightarrow> 's)
     \<Rightarrow> 'q \<Rightarrow> 's \<Rightarrow> 's" where
  "phased_entered classify reserve enter q s =
     (case classify q s of None \<Rightarrow> s
      | Some w \<Rightarrow> (case reserve q w s of (ok, s') \<Rightarrow> if ok then enter q w s' else s'))"

definition phased_handle ::
  "('q \<Rightarrow> 's \<Rightarrow> 'w option) \<Rightarrow> ('q \<Rightarrow> 's \<Rightarrow> 's) \<Rightarrow> ('q \<Rightarrow> 'w \<Rightarrow> 's \<Rightarrow> bool \<times> 's)
     \<Rightarrow> ('q \<Rightarrow> 'w \<Rightarrow> 's \<Rightarrow> 's) \<Rightarrow> ('q \<Rightarrow> 'w \<Rightarrow> 's \<Rightarrow> 's) \<Rightarrow> 'q \<Rightarrow> 's \<Rightarrow> 's" where
  "phased_handle classify answer reserve enter settle q s =
     (case classify q s of None \<Rightarrow> answer q s
      | Some w \<Rightarrow> (case reserve q w s of (ok, s') \<Rightarrow> if ok then settle q w (enter q w s') else s'))"

primrec server_step ::
  "('q \<Rightarrow> 's \<Rightarrow> 's) \<Rightarrow> ('q \<Rightarrow> 's \<Rightarrow> 's) \<Rightarrow> ('q \<Rightarrow> 's \<Rightarrow> 's) \<Rightarrow> ('s \<Rightarrow> 's) \<Rightarrow> 'q server_event \<Rightarrow> 's \<Rightarrow> 's" where
  "server_step handle reserved entered reload (Handle q) s = handle q s"
| "server_step handle reserved entered reload (CrashAfterReserve q) s = reload (reserved q s)"
| "server_step handle reserved entered reload (CrashAfterEffect q) s = reload (entered q s)"
| "server_step handle reserved entered reload Restart s = reload s"

locale write_ahead =
  fixes classify :: "'q \<Rightarrow> 's \<Rightarrow> 'w option"
    and answer :: "'q \<Rightarrow> 's \<Rightarrow> 's"
    and reserve :: "'q \<Rightarrow> 'w \<Rightarrow> 's \<Rightarrow> bool \<times> 's"
    and enter :: "'q \<Rightarrow> 'w \<Rightarrow> 's \<Rightarrow> 's"
    and settle :: "'q \<Rightarrow> 'w \<Rightarrow> 's \<Rightarrow> 's"
    and reload :: "'s \<Rightarrow> 's"
    and ident :: "'w \<Rightarrow> 'id"
    and calls :: "'s \<Rightarrow> 'id list"
    and known :: "'s \<Rightarrow> 'id set"
    and durable :: "'s \<Rightarrow> 'id set"
  assumes classify_new: "classify q s = Some w \<Longrightarrow> ident w \<notin> known s"
    and answer_keeps: "known s \<inter> durable s \<subseteq> known (answer q s) \<inter> durable (answer q s)"
    and answer_calls: "calls (answer q s) = calls s"
    and reserve_keeps: "classify q s = Some w \<Longrightarrow> reserve q w s = (ok, s') \<Longrightarrow>
      known s \<inter> durable s \<subseteq> known s' \<inter> durable s'"
    and reserve_calls: "classify q s = Some w \<Longrightarrow> reserve q w s = (ok, s') \<Longrightarrow> calls s' = calls s"
    and reserve_known: "classify q s = Some w \<Longrightarrow> reserve q w s = (True, s') \<Longrightarrow>
      ident w \<in> known s' \<inter> durable s'"
    and enter_keeps: "known s \<inter> durable s \<subseteq> known (enter q w s) \<inter> durable (enter q w s)"
    and enter_calls: "calls (enter q w s) = calls s @ [ident w]"
    and settle_keeps: "known s \<inter> durable s \<subseteq> known (settle q w s) \<inter> durable (settle q w s)"
    and settle_calls: "calls (settle q w s) = calls s"
    and reload_keeps: "known s \<inter> durable s \<subseteq> known (reload s) \<inter> durable (reload s)"
    and reload_calls: "calls (reload s) = calls s"
begin

lemma reserved_once:
  "known s \<inter> durable s
     \<subseteq> known (phased_reserved classify reserve q s) \<inter> durable (phased_reserved classify reserve q s)"
  "calls (phased_reserved classify reserve q s) = calls s"
  using reserve_keeps [OF _ prod.collapse [symmetric]] reserve_calls [OF _ prod.collapse [symmetric]]
  by (auto simp: phased_reserved_def split: option.splits)

lemma entered_once:
  "known s \<inter> durable s \<subseteq> known (phased_entered classify reserve enter q s)
       \<inter> durable (phased_entered classify reserve enter q s)"
  "calls (phased_entered classify reserve enter q s) = calls s
   \<or> (\<exists>d. calls (phased_entered classify reserve enter q s) = calls s @ [d] \<and> d \<notin> known s
        \<and> d \<in> known (phased_entered classify reserve enter q s)
              \<inter> durable (phased_entered classify reserve enter q s))"
proof -
  have "known s \<inter> durable s \<subseteq> known (phased_entered classify reserve enter q s)
       \<inter> durable (phased_entered classify reserve enter q s)
     \<and> (calls (phased_entered classify reserve enter q s) = calls s
        \<or> (\<exists>d. calls (phased_entered classify reserve enter q s) = calls s @ [d] \<and> d \<notin> known s
             \<and> d \<in> known (phased_entered classify reserve enter q s)
                   \<inter> durable (phased_entered classify reserve enter q s)))"
  proof (cases "classify q s")
    case (Some w)
    obtain ok s' where r: "reserve q w s = (ok, s')"
      by (cases "reserve q w s")
    show ?thesis
    proof (cases ok)
      case True
      have "ident w \<in> known (enter q w s') \<inter> durable (enter q w s')"
        using reserve_known [OF Some, of s'] r True enter_keeps [of s' q w] by auto
      moreover have "known s \<inter> durable s \<subseteq> known (enter q w s') \<inter> durable (enter q w s')"
        using reserve_keeps [OF Some r] enter_keeps [of s' q w] by blast
      ultimately show ?thesis
        using classify_new [OF Some] reserve_calls [OF Some r] enter_calls [of q w s'] Some r True
        by (simp add: phased_entered_def)
    next
      case False
      with Some r reserve_keeps [OF Some r] reserve_calls [OF Some r] show ?thesis
        by (simp add: phased_entered_def)
    qed
  qed (simp add: phased_entered_def)
  then show "known s \<inter> durable s \<subseteq> known (phased_entered classify reserve enter q s)
       \<inter> durable (phased_entered classify reserve enter q s)"
    "calls (phased_entered classify reserve enter q s) = calls s
     \<or> (\<exists>d. calls (phased_entered classify reserve enter q s) = calls s @ [d] \<and> d \<notin> known s
          \<and> d \<in> known (phased_entered classify reserve enter q s)
                \<inter> durable (phased_entered classify reserve enter q s))"
    by simp_all
qed

lemma handled_settles:
  "phased_handle classify answer reserve enter settle q s =
     (case classify q s of None \<Rightarrow> answer q s
      | Some w \<Rightarrow> if fst (reserve q w s) then settle q w (phased_entered classify reserve enter q s)
                  else phased_entered classify reserve enter q s)"
  by (simp add: phased_handle_def phased_entered_def split: option.splits prod.splits)

lemma handled_once:
  "known s \<inter> durable s \<subseteq> known (phased_handle classify answer reserve enter settle q s)
       \<inter> durable (phased_handle classify answer reserve enter settle q s)"
  "calls (phased_handle classify answer reserve enter settle q s) = calls s
   \<or> (\<exists>d. calls (phased_handle classify answer reserve enter settle q s) = calls s @ [d] \<and> d \<notin> known s
        \<and> d \<in> known (phased_handle classify answer reserve enter settle q s)
              \<inter> durable (phased_handle classify answer reserve enter settle q s))"
proof -
  let ?e = "phased_entered classify reserve enter q s"
  note e = entered_once [where s = s and q = q]
  have settled: "known s \<inter> durable s \<subseteq> known (settle q w ?e) \<inter> durable (settle q w ?e)" for w
    using e(1) settle_keeps [of ?e q w] by blast
  show "known s \<inter> durable s \<subseteq> known (phased_handle classify answer reserve enter settle q s)
       \<inter> durable (phased_handle classify answer reserve enter settle q s)"
    using settled e(1) answer_keeps [of s q] by (auto simp: handled_settles split: option.splits)
  have "calls (settle q w ?e) = calls s
     \<or> (\<exists>d. calls (settle q w ?e) = calls s @ [d] \<and> d \<notin> known s
          \<and> d \<in> known (settle q w ?e) \<inter> durable (settle q w ?e))" for w
    using e(2) settle_keeps [of ?e q w] settle_calls [of q w ?e] by auto
  with e(2) answer_calls show "calls (phased_handle classify answer reserve enter settle q s) = calls s
   \<or> (\<exists>d. calls (phased_handle classify answer reserve enter settle q s) = calls s @ [d] \<and> d \<notin> known s
        \<and> d \<in> known (phased_handle classify answer reserve enter settle q s)
              \<inter> durable (phased_handle classify answer reserve enter settle q s))"
    by (simp add: handled_settles split: option.splits)
qed

end

sublocale write_ahead \<subseteq> effect_journal
  "server_step (phased_handle classify answer reserve enter settle) (phased_reserved classify reserve)
     (phased_entered classify reserve enter) reload" calls known durable
proof unfold_locales
  let ?step = "server_step (phased_handle classify answer reserve enter settle)
    (phased_reserved classify reserve) (phased_entered classify reserve enter) reload"
  fix s e
  have "known s \<inter> durable s \<subseteq> known (?step e s) \<inter> durable (?step e s)
    \<and> (calls (?step e s) = calls s
       \<or> (\<exists>d. calls (?step e s) = calls s @ [d] \<and> d \<notin> known s
            \<and> d \<in> known (?step e s) \<inter> durable (?step e s)))"
  proof (cases e)
    case (Handle q)
    then show ?thesis
      using handled_once [where s = s and q = q] by simp
  next
    case (CrashAfterReserve q)
    then show ?thesis
      using reserved_once [where s = s and q = q] reload_keeps [of "phased_reserved classify reserve q s"]
        reload_calls [of "phased_reserved classify reserve q s"] by auto
  next
    case (CrashAfterEffect q)
    then show ?thesis
      using entered_once [where s = s and q = q] reload_keeps [of "phased_entered classify reserve enter q s"]
        reload_calls [of "phased_entered classify reserve enter q s"] by auto
  next
    case Restart
    then show ?thesis
      using reload_keeps [of s] reload_calls [of s] by simp
  qed
  then show "known s \<inter> durable s \<subseteq> known (?step e s) \<inter> durable (?step e s)"
    "calls (?step e s) = calls s
       \<or> (\<exists>d. calls (?step e s) = calls s @ [d] \<and> d \<notin> known s
            \<and> d \<in> known (?step e s) \<inter> durable (?step e s))"
    by simp_all
qed

section \<open>Journal invariants\<close>

text \<open>
  An invariant of the state between requests, with what holds of a reserved work item in
  addition; it then holds after every history.
\<close>

locale write_ahead_invariant =
  fixes classify :: "'q \<Rightarrow> 's \<Rightarrow> 'w option"
    and answer :: "'q \<Rightarrow> 's \<Rightarrow> 's"
    and reserve :: "'q \<Rightarrow> 'w \<Rightarrow> 's \<Rightarrow> bool \<times> 's"
    and enter :: "'q \<Rightarrow> 'w \<Rightarrow> 's \<Rightarrow> 's"
    and settle :: "'q \<Rightarrow> 'w \<Rightarrow> 's \<Rightarrow> 's"
    and reload :: "'s \<Rightarrow> 's"
    and inv :: "'s \<Rightarrow> bool"
    and reserved :: "'w \<Rightarrow> 's \<Rightarrow> bool"
  assumes inv_answer: "inv s \<Longrightarrow> inv (answer q s)"
    and inv_reserve: "inv s \<Longrightarrow> classify q s = Some w \<Longrightarrow> reserve q w s = (ok, s') \<Longrightarrow> inv s'"
    and reserved_reserve: "inv s \<Longrightarrow> classify q s = Some w \<Longrightarrow> reserve q w s = (True, s') \<Longrightarrow> reserved w s'"
    and inv_enter: "inv s \<Longrightarrow> inv (enter q w s)"
    and reserved_enter: "reserved w s \<Longrightarrow> reserved w (enter q w s)"
    and inv_settle: "inv s \<Longrightarrow> reserved w s \<Longrightarrow> inv (settle q w s)"
    and inv_reload: "inv s \<Longrightarrow> inv (reload s)"
begin

lemma inv_handle:
  assumes "inv s"
  shows "inv (phased_handle classify answer reserve enter settle q s)"
proof (cases "classify q s")
  case (Some w)
  obtain ok s' where r: "reserve q w s = (ok, s')"
    by (cases "reserve q w s")
  show ?thesis
    using Some r inv_reserve [OF assms Some r] reserved_reserve [OF assms Some]
    by (cases ok) (simp_all add: phased_handle_def inv_settle inv_enter reserved_enter)
qed (simp add: phased_handle_def inv_answer assms)

lemma inv_crash:
  assumes "inv s"
  shows "inv (phased_reserved classify reserve q s)" "inv (phased_entered classify reserve enter q s)"
  using inv_reserve [OF assms _ prod.collapse [symmetric]] inv_reserve [OF assms] assms inv_enter
  by (auto simp: phased_reserved_def phased_entered_def split: option.splits prod.splits)

lemma inv_run:
  "inv s \<Longrightarrow> inv (fold (server_step (phased_handle classify answer reserve enter settle)
     (phased_reserved classify reserve) (phased_entered classify reserve enter) reload) es s)"
proof (induction es arbitrary: s)
  case (Cons e es)
  have "inv (server_step (phased_handle classify answer reserve enter settle)
     (phased_reserved classify reserve) (phased_entered classify reserve enter) reload e s)"
    by (cases e) (simp_all add: inv_handle inv_crash inv_reload Cons.prems)
  then show ?case
    by (simp add: Cons.IH)
qed simp

end

end
