(* ===== verification/Replay_Journal.thy ===== *)
theory Replay_Journal
  imports Owner_Types Exactly_Once
begin

text \<open>
  The replay snapshot that the dispatch server and the activation server share
  (\<open>OwnerDispatchReplaySnapshot\<close>, \<open>ProductActivationReplaySnapshot\<close> in \<open>owner_dispatch.rs\<close>): its
  bounds, its identities, its invariant, and how a write-ahead reservation and a terminal
  result change them.
\<close>

section \<open>Bounds\<close>

definition max_replays :: nat where
  "max_replays = 256"

definition max_pending :: nat where
  "max_pending = 32"

definition max_replay_bytes :: nat where
  "max_replay_bytes = 16 * 1024 * 1024"

definition max_future_skew_ms :: u64 where
  "max_future_skew_ms = 2000"

definition too_many_bytes :: "bytes option \<Rightarrow> bool" where
  "too_many_bytes encoded = (case encoded of None \<Rightarrow> True | Some bs \<Rightarrow> max_replay_bytes < length bs)"

text \<open>The structural part of the restored-state check.\<close>

definition replay_overlaps :: "'r replay_snapshot \<Rightarrow> bool" where
  "replay_overlaps r = list_ex (\<lambda>i. bt_contains i (terminal r)) (map fst (pending_sha256 r))"

section \<open>Identities\<close>

definition replay_ids :: "'r replay_snapshot \<Rightarrow> string set" where
  "replay_ids r = set (map fst (pending_sha256 r)) \<union> set (map fst (terminal r))"

lemma ids_reserved:
  "replay_ids (r\<lparr>pending_sha256 := bt_insert d h (pending_sha256 r)\<rparr>) = insert d (replay_ids r)"
  by (simp add: replay_ids_def del: set_map)

lemma ids_unreserved:
  "d \<notin> replay_ids r \<Longrightarrow>
     replay_ids (r\<lparr>pending_sha256 := bt_remove d (bt_insert d h (pending_sha256 r))\<rparr>) = replay_ids r"
  by (auto simp: replay_ids_def simp del: set_map)

lemma ids_settled:
  "replay_ids (r\<lparr>pending_sha256 := bt_remove d (pending_sha256 r), terminal := bt_insert d v (terminal r)\<rparr>)
     = insert d (replay_ids r)"
  by (auto simp: replay_ids_def simp del: set_map)

lemma not_in_replay_ids:
  "d \<notin> replay_ids r \<longleftrightarrow> bt_get (pending_sha256 r) d = None \<and> bt_get (terminal r) d = None"
  by (simp add: replay_ids_def map_of_eq_None_iff)

section \<open>The invariant\<close>

definition replay_wf :: "'r replay_snapshot \<Rightarrow> bool" where
  "replay_wf r = (bt_wf (pending_sha256 r) \<and> bt_wf (terminal r)
     \<and> length (pending_sha256 r) \<le> max_pending \<and> length (terminal r) \<le> max_replays
     \<and> \<not> replay_overlaps r)"

lemma replay_overlaps_iff:
  "replay_overlaps r \<longleftrightarrow> (\<exists>d. bt_contains d (pending_sha256 r) \<and> bt_contains d (terminal r))"
  by (auto simp: replay_overlaps_def list_ex_iff bt_contains_iff simp del: set_map)

lemma replay_wf_reserved:
  assumes "replay_wf r" "d \<notin> replay_ids r" "length (pending_sha256 r) < max_pending"
  shows "replay_wf (r\<lparr>pending_sha256 := bt_insert d h (pending_sha256 r)\<rparr>)"
  using assms
  by (auto simp: replay_wf_def replay_overlaps_iff bt_length_insert bt_contains_def not_in_replay_ids
      split: if_splits)

lemma replay_unreserved:
  "d \<notin> replay_ids r \<Longrightarrow> r\<lparr>pending_sha256 := bt_remove d (bt_insert d h (pending_sha256 r))\<rparr> = r"
  by (simp add: not_in_replay_ids bt_remove_insert)

lemma replay_wf_settled:
  assumes "replay_wf r" "d \<in> set (map fst (pending_sha256 r))" "length (terminal r) < max_replays"
  shows "replay_wf (r\<lparr>pending_sha256 := bt_remove d (pending_sha256 r),
      terminal := bt_insert d v (terminal r)\<rparr>)"
  using assms bt_length_remove_le [of d "pending_sha256 r"]
  by (auto simp: replay_wf_def replay_overlaps_iff bt_length_insert bt_contains_def split: if_splits)

lemma commit_durable_wf: "replay_wf old \<Longrightarrow> replay_wf new \<Longrightarrow> replay_wf (commit_durable c old new)"
  using commit_durable_cases [of c old new] by auto

end
