(* ===== verification/Owner_Server.thy ===== *)
theory Owner_Server
  imports Owner_Wire Replay_Journal
begin

text \<open>
  The dispatch server of one target process (\<open>OwnerDispatchServer\<close> in \<open>owner_dispatch.rs\<close>).
  Its collaborators (clock, verifier, admission callback, platform registry, signer and replay
  store) are implemented by the embedding app; what they answer during one call is the
  environment of that call. The server carries its replay journal, what the store holds
  durably, and a log of the registry calls it made.
\<close>

section \<open>State\<close>

type_synonym dispatch_replay = "dispatch_response replay_snapshot"

record owner_env =
  oe_now_ms :: "string + u64"
  oe_validity_ms :: "string + u64"
  oe_verify_current :: "dispatch_request \<Rightarrow> bytes \<Rightarrow> bytes \<Rightarrow> string + unit"
  oe_admit :: "dispatch_request \<Rightarrow> string + unit"
  oe_execute :: "dispatch_authority \<Rightarrow> execution_ticket \<Rightarrow> execution_mode \<Rightarrow> string + owner_effect"
  oe_sign :: "bytes \<Rightarrow> string + bytes"
  oe_commit :: "dispatch_replay \<Rightarrow> commit_outcome"

type_synonym owner_call = "string \<times> dispatch_authority \<times> execution_ticket \<times> execution_mode"

record owner_server =
  sv_target_peer_id :: string
  sv_signer_key_id :: string
  sv_replay :: dispatch_replay
  sv_durable :: dispatch_replay
  sv_calls :: "owner_call list"

definition restore_owner_server ::
  "('k, 'n) media_externals \<Rightarrow> string \<Rightarrow> string \<Rightarrow> dispatch_replay \<Rightarrow> string + owner_server" where
  "restore_owner_server x target_peer_id signer_key_id replay =
     (if target_peer_id = []
        \<or> max_pending < length (pending_sha256 replay)
        \<or> max_replays < length (terminal replay)
        \<or> too_many_bytes (m_replay_to_vec x replay)
        \<or> replay_overlaps replay
      then Inl ''invalid dispatch replay state''
      else Inr \<lparr>sv_target_peer_id = target_peer_id, sv_signer_key_id = signer_key_id,
             sv_replay = replay, sv_durable = replay, sv_calls = []\<rparr>)"

section \<open>Handling a frame\<close>

definition validate_request_shape :: "dispatch_request \<Rightarrow> string \<Rightarrow> string + unit" where
  "validate_request_shape q target_peer_id =
     (let a = dq_authority q; t = dq_ticket q in
      reject_if
        (dq_schema_id q \<noteq> request_schema \<or> dq_dispatch_id q = [] \<or> dq_sequence q = 0
         \<or> dq_issued_at_ms q = 0 \<or> dq_target_peer_id q \<noteq> target_peer_id
         \<or> dq_signer_key_id q = [] \<or> au_executor_peer_id a \<noteq> target_peer_id
         \<or> au_expires_at_ms a < dq_issued_at_ms q
         \<or> au_authority_provider_epoch_id a \<noteq> tk_authority_epoch_id t
         \<or> au_authority_client_id a \<noteq> tk_client_id t
         \<or> au_authority_runtime_lease_id a \<noteq> tk_lease_id t
         \<or> au_platform_runtime_spec_id a = [] \<or> au_authority_runtime_host_id a = []
         \<or> au_route_authority_revision a = 0
         \<or> \<not> valid_sha256 (au_signed_topology_sha256 a)
         \<or> \<not> valid_sha256 (au_route_configuration_sha256 a)
         \<or> \<not> valid_sha256 (au_route_authority_evidence_sha256 a)
         \<or> (au_authorization_kind a = RetainedCleanup \<and> tk_operation t \<noteq> OpStop
            \<and> dq_mode q \<noteq> CompensateUncertain))
        ''dispatch request binding mismatch'')"

definition owner_signed_response ::
  "('k, 'n) media_externals \<Rightarrow> owner_env \<Rightarrow> owner_server \<Rightarrow> string \<Rightarrow> string \<Rightarrow> dispatch_status
     \<Rightarrow> owner_effect option \<Rightarrow> string option \<Rightarrow> string + bytes" where
  "owner_signed_response x env sv dispatch_id request_sha256 status effect failure =
     (let response =
        \<lparr>dr_schema_id = response_schema, dr_dispatch_id = dispatch_id,
         dr_request_sha256 = request_sha256, dr_status = status, dr_effect = effect,
         dr_failure = failure, dr_signer_key_id = sv_signer_key_id sv, dr_signature_base64 = []\<rparr>
      in
      and_then (response_signing_bytes x response) (\<lambda>bs.
      and_then (oe_sign env bs) (\<lambda>signature.
      encode_response_frame x (response\<lparr>dr_signature_base64 := encode_signature_base64 signature\<rparr>))))"

text \<open>
  Everything up to the write-ahead reservation: an error, the bytes of a known request, or an
  authenticated and admitted new request with its digest.
\<close>

definition owner_classify ::
  "('k, 'n) media_externals \<Rightarrow> owner_env \<Rightarrow> bytes \<Rightarrow> owner_server
     \<Rightarrow> string + (bytes + dispatch_request \<times> string)" where
  "owner_classify x env frame sv =
     (if frame = [] \<or> max_frame_bytes < length frame then Inl ''dispatch frame bounds''
      else
        and_then (decode_request_frame x frame) (\<lambda>q.
        and_then (validate_request_shape q (sv_target_peer_id sv)) (\<lambda>_.
        let request_sha256 = x_sha x frame in
        case bt_get (terminal (sv_replay sv)) (dq_dispatch_id q) of
          Some cached \<Rightarrow>
            if dr_request_sha256 cached \<noteq> request_sha256
            then Inl ''dispatch replay identity collision''
            else and_then (encode_response_frame x cached) (\<lambda>bs. Inr (Inl bs))
        | None \<Rightarrow>
        (case bt_get (pending_sha256 (sv_replay sv)) (dq_dispatch_id q) of
          Some pending \<Rightarrow>
            if pending \<noteq> request_sha256 then Inl ''dispatch replay identity collision''
            else
              and_then (owner_signed_response x env sv (dq_dispatch_id q) request_sha256 Uncertain
                  None (Some ''pending_compensation_required'')) (\<lambda>bs. Inr (Inl bs))
        | None \<Rightarrow>
            and_then (oe_now_ms env) (\<lambda>now_ms.
            and_then (oe_validity_ms env) (\<lambda>validity_ms.
            if validity_ms = 0 \<or> now_ms = 0
              \<or> saturating_add now_ms max_future_skew_ms < dq_issued_at_ms q
              \<or> validity_ms < saturating_sub now_ms (dq_issued_at_ms q)
            then Inl ''dispatch request is not currently fresh''
            else if max_pending \<le> length (pending_sha256 (sv_replay sv))
              \<or> max_replays \<le> length (terminal (sv_replay sv))
            then Inl ''dispatch replay capacity''
            else
              and_then (request_signing_bytes x q) (\<lambda>signing.
              and_then (decode_signature_base64 (dq_signature_base64 q)) (\<lambda>signature.
              and_then (oe_verify_current env q signing signature) (\<lambda>_.
              and_then (oe_admit env q) (\<lambda>_.
              Inr (Inr (q, request_sha256)))))))))))) "

definition owner_reserve ::
  "owner_env \<Rightarrow> dispatch_request \<Rightarrow> string \<Rightarrow> owner_server \<Rightarrow> (string + unit) \<times> owner_server" where
  "owner_reserve env q request_sha256 sv =
     (let old = sv_replay sv;
          replay = old\<lparr>pending_sha256 := bt_insert (dq_dispatch_id q) request_sha256 (pending_sha256 old)\<rparr>;
          outcome = oe_commit env replay;
          durable = commit_durable outcome (sv_durable sv) replay
      in case commit_result outcome of
           Inr _ \<Rightarrow> (Inr (), sv\<lparr>sv_replay := replay, sv_durable := durable\<rparr>)
         | Inl error \<Rightarrow>
             (Inl (''dispatch pending persistence: '' @ error),
              sv\<lparr>sv_replay := replay\<lparr>pending_sha256 := bt_remove (dq_dispatch_id q) (pending_sha256 replay)\<rparr>,
                 sv_durable := durable\<rparr>))"

type_synonym owner_outcome = "dispatch_status \<times> owner_effect option \<times> string option"

definition owner_effect_outcome ::
  "('k, 'n) media_externals \<Rightarrow> dispatch_request \<Rightarrow> string + owner_effect \<Rightarrow> owner_outcome" where
  "owner_effect_outcome x q execution =
     (case execution of
        Inr effect \<Rightarrow>
          if is_ok (validate_effect x (dq_ticket q) (dq_mode q) effect)
          then (Completed, Some effect, None)
          else (Uncertain, None, Some ''platform_evidence_invalid'')
      | Inl _ \<Rightarrow> (Uncertain, None, Some ''platform_effect_uncertain''))"

definition owner_enter ::
  "('k, 'n) media_externals \<Rightarrow> owner_env \<Rightarrow> dispatch_request \<Rightarrow> owner_server
     \<Rightarrow> owner_outcome \<times> owner_server" where
  "owner_enter x env q sv =
     (owner_effect_outcome x q (oe_execute env (dq_authority q) (dq_ticket q) (dq_mode q)),
      sv\<lparr>sv_calls := sv_calls sv @ [(dq_dispatch_id q, dq_authority q, dq_ticket q, dq_mode q)]\<rparr>)"

definition owner_settle ::
  "('k, 'n) media_externals \<Rightarrow> owner_env \<Rightarrow> dispatch_request \<Rightarrow> string \<Rightarrow> owner_outcome \<Rightarrow> owner_server
     \<Rightarrow> (string + bytes) \<times> owner_server" where
  "owner_settle x env q request_sha256 out sv =
     (let prepared =
        and_then (owner_signed_response x env sv (dq_dispatch_id q) request_sha256
            (fst out) (fst (snd out)) (snd (snd out))) (\<lambda>encoded.
        and_then (decode_response_frame x encoded) (\<lambda>response.
        let replay = sv_replay sv;
            committed = replay\<lparr>pending_sha256 := bt_remove (dq_dispatch_id q) (pending_sha256 replay),
              terminal := bt_insert (dq_dispatch_id q) response (terminal replay)\<rparr>
        in if too_many_bytes (m_replay_to_vec x committed) then Inl ''dispatch replay byte capacity''
           else Inr (encoded, committed)))
      in case prepared of
           Inl error \<Rightarrow> (Inl error, sv)
         | Inr (encoded, committed) \<Rightarrow>
             let outcome = oe_commit env committed;
                 durable = commit_durable outcome (sv_durable sv) committed
             in (case commit_result outcome of
                   Inl error \<Rightarrow> (Inl error, sv\<lparr>sv_durable := durable\<rparr>)
                 | Inr _ \<Rightarrow> (Inr encoded, sv\<lparr>sv_replay := committed, sv_durable := durable\<rparr>)))"

definition handle_frame_with_admission ::
  "('k, 'n) media_externals \<Rightarrow> owner_env \<Rightarrow> bytes \<Rightarrow> owner_server \<Rightarrow> (string + bytes) \<times> owner_server" where
  "handle_frame_with_admission x env frame sv =
     (case owner_classify x env frame sv of
        Inl error \<Rightarrow> (Inl error, sv)
      | Inr (Inl bs) \<Rightarrow> (Inr bs, sv)
      | Inr (Inr (q, request_sha256)) \<Rightarrow>
          (case owner_reserve env q request_sha256 sv of
             (Inl error, sv) \<Rightarrow> (Inl error, sv)
           | (Inr _, sv) \<Rightarrow>
               (case owner_enter x env q sv of
                  (out, sv) \<Rightarrow> owner_settle x env q request_sha256 out sv)))"

text \<open>\<open>handle_frame\<close>: no admission callback.\<close>

definition handle_frame ::
  "('k, 'n) media_externals \<Rightarrow> owner_env \<Rightarrow> bytes \<Rightarrow> owner_server \<Rightarrow> (string + bytes) \<times> owner_server" where
  "handle_frame x env = handle_frame_with_admission x (env\<lparr>oe_admit := (\<lambda>_. Inr ())\<rparr>)"

section \<open>Histories\<close>

text \<open>
  The phases of \<open>handle_frame_with_admission\<close> as state changes, for a request that consists of the
  environment of the call and the frame, and the histories they give.
\<close>

definition owner_new ::
  "('k, 'n) media_externals \<Rightarrow> owner_env \<times> bytes \<Rightarrow> owner_server \<Rightarrow> (dispatch_request \<times> string) option" where
  "owner_new x = (\<lambda>(env, frame) sv.
     case owner_classify x env frame sv of Inr (Inr work) \<Rightarrow> Some work | _ \<Rightarrow> None)"

definition owner_reserve_state ::
  "owner_env \<times> bytes \<Rightarrow> dispatch_request \<times> string \<Rightarrow> owner_server \<Rightarrow> bool \<times> owner_server" where
  "owner_reserve_state = (\<lambda>(env, _) (q, request_sha256) sv.
     case owner_reserve env q request_sha256 sv of (r, sv) \<Rightarrow> (is_ok r, sv))"

definition owner_enter_state ::
  "('k, 'n) media_externals \<Rightarrow> owner_env \<times> bytes \<Rightarrow> dispatch_request \<times> string \<Rightarrow> owner_server \<Rightarrow> owner_server" where
  "owner_enter_state x = (\<lambda>(env, _) (q, _) sv. snd (owner_enter x env q sv))"

definition owner_settle_state ::
  "('k, 'n) media_externals \<Rightarrow> owner_env \<times> bytes \<Rightarrow> dispatch_request \<times> string \<Rightarrow> owner_server \<Rightarrow> owner_server" where
  "owner_settle_state x = (\<lambda>(env, _) (q, request_sha256) sv.
     snd (owner_settle x env q request_sha256
       (owner_effect_outcome x q (oe_execute env (dq_authority q) (dq_ticket q) (dq_mode q))) sv))"

definition owner_reload :: "owner_server \<Rightarrow> owner_server" where
  "owner_reload sv = sv\<lparr>sv_replay := sv_durable sv\<rparr>"

definition owner_step ::
  "('k, 'n) media_externals \<Rightarrow> (owner_env \<times> bytes) server_event \<Rightarrow> owner_server \<Rightarrow> owner_server" where
  "owner_step x = server_step
     (\<lambda>(env, frame) sv. snd (handle_frame_with_admission x env frame sv))
     (phased_reserved (owner_new x) owner_reserve_state)
     (phased_entered (owner_new x) owner_reserve_state (owner_enter_state x)) owner_reload"

text \<open>A whole history of the server, oldest event first.\<close>

definition owner_run ::
  "('k, 'n) media_externals \<Rightarrow> (owner_env \<times> bytes) server_event list \<Rightarrow> owner_server \<Rightarrow> owner_server" where
  "owner_run x = fold (owner_step x)"

end
