(* ===== verification/Owner_Proofs.thy ===== *)
theory Owner_Proofs
  imports Owner_Evidence
begin

text \<open>
  Guarantees of the evidence layer: nested proofs are decided by one level of fuel, the source
  readback built from a remote cleanup validates, a verified cleanup request authorises only
  the exact retained stop, and derived stops reverse the start order. The theory opens with a
  concrete exchange used by the applications.
\<close>

section \<open>A concrete exchange\<close>

definition demo_ticket :: "string \<Rightarrow> string \<Rightarrow> platform_operation \<Rightarrow> execution_ticket" where
  "demo_ticket capability action_id operation =
     \<lparr>tk_schema_id = ticket_schema, tk_capability = capability, tk_executor_generation = 1,
      tk_action_id = action_id, tk_authority_epoch_id = ''epoch'',
      tk_media_acceptance_authority_revision = 1, tk_expected_runtime_revision = 1,
      tk_client_id = ''client'', tk_lease_id = ''lease'', tk_sequence = 2,
      tk_operation = operation, tk_owner_kind = Codec, tk_action_kind = ActStop,
      tk_owner_id = ''owner'', tk_provider_kind = ''codec'', tk_resource_id = ''res''\<rparr>"

definition demo_zero_sha :: string where
  "demo_zero_sha = ''sha256:'' @ replicate 64 CHR ''0''"

definition demo_cleanup_authority :: cleanup_authority where
  "demo_cleanup_authority =
     \<lparr>cu_schema_id = retained_projection_schema, cu_authority_peer_id = ''a'',
      cu_executor_peer_id = ''peer'', cu_peer_session_id = ''s'', cu_route_grant_id = ''g'',
      cu_route_authority_revision = 1, cu_provider_epoch_id = ''epoch'',
      cu_platform_runtime_spec_id = ''spec'', cu_target_client_id = ''client'',
      cu_target_runtime_lease_id = ''lease'', cu_requester_id = ''client'',
      cu_requester_runtime_lease_id = ''lease'', cu_trusted_revoker = False,
      cu_cleanup_target_sha256 = demo_zero_sha, cu_terminal_route_sha256 = demo_zero_sha,
      cu_signed_topology_sha256 = demo_zero_sha, cu_historical_topology_expires_at_ms = 0,
      cu_requester_expires_at_ms = 100, cu_expires_at_ms = 100\<rparr>"

definition demo_signature :: string where
  "demo_signature = encode_signature_base64 (replicate 64 0)"

definition demo_target :: execution_ticket where
  "demo_target = demo_ticket ''cap2'' ''stop2'' OpStop"

definition demo_source :: execution_ticket where
  "demo_source = demo_ticket ''cap1'' ''stop1'' OpStop"

definition demo_cleanup_request :: cleanup_request where
  "demo_cleanup_request =
     \<lparr>cq_schema_id = retained_request_schema, cq_dispatch_id = ''d1'', cq_sequence = 1,
      cq_issued_at_ms = 50, cq_target_peer_id = ''peer'',
      cq_cleanup = \<lparr>ct_schema_id = retained_ticket_schema, ct_authority = demo_cleanup_authority,
        ct_target = demo_target, ct_mode = Execute, ct_owner_effect_sha256 = demo_zero_sha\<rparr>,
      cq_signer_key_id = ''coordinator'', cq_signature_base64 = demo_signature\<rparr>"

definition demo_readback :: owner_readback where
  "demo_readback =
     \<lparr>rb_remote_cleanup = None, rb_schema_id = readback_schema, rb_capability = ''cap2'',
      rb_executor_generation = 1, rb_action_id = ''stop2'', rb_authority_epoch_id = ''epoch'',
      rb_media_acceptance_authority_revision = 1, rb_expected_runtime_revision = 1,
      rb_client_id = ''client'', rb_lease_id = ''lease'', rb_sequence = 2,
      rb_operation = OpStop, rb_owner_kind = Codec, rb_action_kind = ActStop,
      rb_owner_id = ''owner'', rb_provider_kind = ''codec'', rb_resource_id = ''res'',
      rb_provider_handle_id = ''h'', rb_provider_state_revision = 5,
      rb_observed_state = ''stopped'', rb_receipt_id = ''r''\<rparr>"

definition demo_effect :: owner_effect where
  "demo_effect =
     \<lparr>ef_readback = demo_readback, ef_readback_json = ''json'',
      ef_verified = \<lparr>ve_schema_id = verified_effect_schema, ve_receipt_id = ''r'',
        ve_readback_sha256 = demo_zero_sha, ve_executor_generation = 1,
        ve_provider_state_revision = 5, ve_observed_state = ''stopped'', ve_terminal = True,
        ve_provider_handle_id = ''h'', ve_detail_sha256 = demo_zero_sha\<rparr>\<rparr>"

definition demo_cleanup_response :: cleanup_response where
  "demo_cleanup_response =
     \<lparr>cr_schema_id = retained_response_schema, cr_dispatch_id = ''d1'', cr_executor_peer_id = ''peer'',
      cr_request_sha256 = demo_zero_sha, cr_status = Completed, cr_effect = Some demo_effect,
      cr_failure = None, cr_signer_key_id = ''target'', cr_signature_base64 = demo_signature\<rparr>"

definition demo_remote_effect :: remote_cleanup_effect where
  "demo_remote_effect =
     \<lparr>rce_schema_id = remote_effect_v1,
      rce_prepared = \<lparr>ps_schema_id = prepared_stop_v1, ps_prepare_request_sha256 = demo_zero_sha,
        ps_dispatch_id = ''d1'', ps_target_preparation_revision = 1, ps_source_ticket = demo_source,
        ps_target_ticket = demo_target, ps_authority = demo_cleanup_authority,
        ps_signer_key_id = ''target'', ps_signature_base64 = demo_signature\<rparr>,
      rce_commit = demo_cleanup_request, rce_response_bytes = [1],
      rce_enrolled_target_key = replicate 32 0\<rparr>"

text \<open>
  Stand-ins for the third-party code: serializers that print constants, parsers that return the
  values of the exchange, a constant digest, and a signature scheme that accepts the zero
  signature under every key.
\<close>

definition demo_exchange :: "(unit, unit) media_externals" where
  "demo_exchange =
     \<lparr>m_sha256 = (\<lambda>_. replicate 32 0), m_key_from_bytes = (\<lambda>_. Some ()),
      m_verify_strict = (\<lambda>_ _ signature. signature = replicate 64 0),
      m_value_to_vec = (\<lambda>_. Some []), m_value_from_slice = (\<lambda>_. None),
      m_ticket_to_vec = (\<lambda>_. Some []), m_readback_from_str = (\<lambda>_. Some demo_readback),
      m_request_to_value = (\<lambda>_. None), m_request_from_value = (\<lambda>_. None),
      m_response_to_value = (\<lambda>_. None), m_response_from_value = (\<lambda>_. None),
      m_replay_to_vec = (\<lambda>_. Some []),
      m_activation_request_to_value = (\<lambda>_. None), m_activation_request_from_value = (\<lambda>_. None),
      m_activation_response_to_value = (\<lambda>_. None), m_activation_response_to_vec = (\<lambda>_. Some []),
      m_activation_response_from_slice = (\<lambda>_. None), m_activation_replay_to_vec = (\<lambda>_. Some []),
      m_prepared_to_vec = (\<lambda>_. Some []), m_cleanup_request_to_vec = (\<lambda>_. Some []),
      m_cleanup_effect_to_vec = (\<lambda>_ _ _. Some []), m_cleanup_response_to_vec =
        (\<lambda>r. if r = demo_cleanup_response then Some [1]
          else if r = demo_cleanup_response\<lparr>cr_signature_base64 := []\<rparr> then Some [2] else None),
      m_cleanup_response_from_slice = (\<lambda>bs. if bs = [2]
        then Some (demo_cleanup_response\<lparr>cr_signature_base64 := []\<rparr>) else Some demo_cleanup_response),
      m_cleanup_replay_to_vec = (\<lambda>_. Some [])\<rparr>"

lemma demo_signature_nonempty: "demo_signature \<noteq> []"
  unfolding demo_signature_def by code_simp

lemma demo_unsigned_response: "demo_cleanup_response\<lparr>cr_signature_base64 := []\<rparr> \<noteq> demo_cleanup_response"
  using demo_signature_nonempty by (simp add: demo_cleanup_response_def)

lemma demo_exchange_sel [simp]:
  "m_sha256 demo_exchange bs = replicate 32 0" "m_key_from_bytes demo_exchange bs = Some ()"
  "m_verify_strict demo_exchange k bs sig = (sig = replicate 64 0)"
  "m_readback_from_str demo_exchange s = Some demo_readback"
  "m_prepared_to_vec demo_exchange v = Some []" "m_cleanup_request_to_vec demo_exchange q = Some []"
  "m_cleanup_effect_to_vec demo_exchange a t m = Some []"
  "m_cleanup_response_to_vec demo_exchange demo_cleanup_response = Some [1]"
  "m_cleanup_response_to_vec demo_exchange (demo_cleanup_response\<lparr>cr_signature_base64 := []\<rparr>) = Some [2]"
  "m_cleanup_response_from_slice demo_exchange [1] = Some demo_cleanup_response"
  by (simp_all add: demo_exchange_def demo_unsigned_response)

lemma demo_hex:
  "lower_hex (replicate 32 0) = replicate 64 CHR ''0''"
  "encode_hex (replicate 32 0) = replicate 64 CHR ''0''"
  "valid_sha256 demo_zero_sha"
  by code_simp+

lemma demo_signature_decodes: "decode_signature_base64 demo_signature = Inr (replicate 64 0)"
  by (simp add: demo_signature_def decode_encode_signature)

lemmas demo_values = demo_ticket_def demo_target_def demo_source_def demo_cleanup_authority_def
  demo_cleanup_request_def demo_readback_def demo_effect_def demo_cleanup_response_def
  demo_remote_effect_def

lemmas schema_values = ticket_schema_def readback_schema_def verified_effect_schema_def
  owned_request_schema_def retained_request_schema_def owned_ticket_schema_def
  retained_ticket_schema_def owned_projection_schema_def retained_projection_schema_def
  owned_response_schema_def retained_response_schema_def prepared_stop_v1_def
  prepared_abort_v2_def remote_effect_v1_def remote_abort_v2_def

lemma demo_cleanup_verified:
  "verify_cleanup_request demo_exchange demo_cleanup_request demo_cleanup_authority demo_target 1
     ''peer'' ''coordinator'' (replicate 32 0) 60 30000 = Inr ()"
  by (simp add: verify_cleanup_request_def verify_retained_cleanup_ticket_def
      cleanup_ticket_refused_def cleanup_parties_match_def cleanup_request_signing_bytes_def
      verify_under_def demo_values demo_signature_decodes demo_hex Let_def reject_if_def
      max_frame_bytes_def saturating_add_def saturating_sub_def schema_values)
    (simp add: demo_zero_sha_def)

lemma demo_readback_valid: "is_ok (validate_readback demo_exchange demo_target demo_readback)"
  by (simp add: validate_readback_def validate_readback_with_def readback_echoes_def demo_values
      trim_is_empty_def byte_of_def)

lemma demo_effect_valid: "validate_effect demo_exchange demo_target Execute demo_effect = Inr ()"
  using demo_readback_valid
  by (simp add: validate_effect_def validate_effect_with_def Let_def reject_if_def)
    (simp add: demo_values sha256_prefixed_def demo_hex, simp add: demo_zero_sha_def starts_with_def)

lemma demo_response_verified:
  "verify_cleanup_response demo_exchange [1] demo_cleanup_request demo_target ''peer'' ''target''
     (replicate 32 0) = Inr demo_cleanup_response"
proof -
  have "cleanup_request_sha256 demo_exchange demo_cleanup_request = Inr demo_zero_sha"
    by (simp add: cleanup_request_sha256_def max_frame_bytes_def demo_hex) (simp add: demo_zero_sha_def)
  moreover have "is_ok (validate_effect_with (validate_readback demo_exchange) demo_exchange demo_target
      Execute demo_effect)"
    using demo_effect_valid by (simp add: validate_effect_def)
  moreover obtain bs where "cleanup_response_signing_bytes demo_exchange demo_cleanup_response = Inr bs"
    by (simp add: cleanup_response_signing_bytes_def) (simp add: demo_cleanup_response_def)
  moreover have "cr_schema_id demo_cleanup_response = retained_response_schema"
    "cr_dispatch_id demo_cleanup_response = ''d1''" "cr_executor_peer_id demo_cleanup_response = ''peer''"
    "cr_request_sha256 demo_cleanup_response = demo_zero_sha" "cr_status demo_cleanup_response = Completed"
    "cr_effect demo_cleanup_response = Some demo_effect" "cr_failure demo_cleanup_response = None"
    "cr_signer_key_id demo_cleanup_response = ''target''"
    "cr_signature_base64 demo_cleanup_response = demo_signature"
    by (simp_all add: demo_cleanup_response_def)
  moreover have "cq_schema_id demo_cleanup_request \<noteq> owned_request_schema"
    "cq_dispatch_id demo_cleanup_request = ''d1''" "cq_target_peer_id demo_cleanup_request = ''peer''"
    "ct_target (cq_cleanup demo_cleanup_request) = demo_target" "ct_mode (cq_cleanup demo_cleanup_request) = Execute"
    by (simp_all add: demo_cleanup_request_def schema_values)
  ultimately show ?thesis
    by (simp add: verify_cleanup_response_def verify_cleanup_response_with_def verify_under_def
        reject_if_def demo_signature_decodes Let_def)
qed

lemma demo_prepared_verified:
  "verify_retained_cleanup_prepared demo_exchange (rce_prepared demo_remote_effect) demo_source
     ''peer'' ''target'' (replicate 32 0) = Inr ()"
  by (simp add: verify_retained_cleanup_prepared_def prepared_signing_bytes_def verify_under_def
      demo_values demo_signature_decodes Let_def reject_if_def schema_values)
    (simp add: demo_zero_sha_def)

lemma demo_remote_verified:
  "remote_effect_verify demo_exchange demo_remote_effect demo_source ''target'' (replicate 32 0)
     = Inr demo_effect"
proof -
  have parts: "rce_response_bytes demo_remote_effect = [1]" "rce_commit demo_remote_effect = demo_cleanup_request"
    "cu_executor_peer_id (ps_authority (rce_prepared demo_remote_effect)) = ''peer''"
    "ps_target_ticket (rce_prepared demo_remote_effect) = demo_target"
    "cr_status demo_cleanup_response = Completed" "cr_effect demo_cleanup_response = Some demo_effect"
    "rb_remote_cleanup (ef_readback demo_effect) = None"
    by (simp_all add: demo_remote_effect_def demo_cleanup_authority_def demo_cleanup_response_def
        demo_effect_def demo_readback_def)
  show ?thesis
    using demo_prepared_verified demo_response_verified
    unfolding remote_effect_verify_def remote_effect_verify_with_def verify_cleanup_response_def Let_def parts
    by (simp add: parts) (simp add: demo_remote_effect_def demo_cleanup_request_def max_frame_bytes_def)
qed

section \<open>Characterisations\<close>

lemma verify_under_iff:
  "verify_under x key m sig e e' = Inr u \<longleftrightarrow>
     (\<exists>k bs. m_key_from_bytes x key = Some k \<and> m = Inr bs \<and> m_verify_strict x k bs sig)"
  by (auto simp: verify_under_def result_simps)

lemma validate_effect_with_iff:
  "validate_effect_with vr x ticket mode e = Inr u \<longleftrightarrow>
     m_readback_from_str x (ef_readback_json e) = Some (ef_readback e)
     \<and> ve_schema_id (ef_verified e) = verified_effect_schema
     \<and> is_ok (vr ticket (ef_readback e))
     \<and> ve_receipt_id (ef_verified e) = rb_receipt_id (ef_readback e)
     \<and> ve_readback_sha256 (ef_verified e)
         = sha256_prefixed (m_sha256 x) (str_bytes (ef_readback_json e))
     \<and> ve_executor_generation (ef_verified e) = tk_executor_generation ticket
     \<and> ve_executor_generation (ef_verified e) = rb_executor_generation (ef_readback e)
     \<and> ve_provider_state_revision (ef_verified e) = rb_provider_state_revision (ef_readback e)
     \<and> ve_observed_state (ef_verified e) = rb_observed_state (ef_readback e)
     \<and> ve_provider_handle_id (ef_verified e) = rb_provider_handle_id (ef_readback e)
     \<and> (tk_operation ticket = OpStop \<or> mode = CompensateUncertain \<longrightarrow> ve_terminal (ef_verified e))
     \<and> valid_sha256 (ve_readback_sha256 (ef_verified e))
     \<and> valid_sha256 (ve_detail_sha256 (ef_verified e))"
  by (auto simp: validate_effect_with_def Let_def result_simps valid_sha256_def)

lemma validate_readback_with_iff:
  "validate_readback_with vp ticket r = Inr p \<longleftrightarrow>
     tk_schema_id ticket = ticket_schema \<and> rb_schema_id r = readback_schema
     \<and> readback_echoes ticket r
     \<and> \<not> trim_is_empty (rb_provider_handle_id r) \<and> rb_provider_state_revision r \<noteq> 0
     \<and> \<not> trim_is_empty (rb_observed_state r) \<and> \<not> trim_is_empty (rb_receipt_id r)
     \<and> (case rb_remote_cleanup r of None \<Rightarrow> True | Some proof \<Rightarrow> vp proof ticket r = Inr ())
     \<and> p = provider_readback r"
  by (auto simp: validate_readback_with_def result_simps split: option.splits)

text \<open>A verified response under one validator, and when the validator does not matter.\<close>

lemma verify_cleanup_response_effect:
  assumes "verify_cleanup_response_with vr x bs q target peer key_id key = Inr response"
    and "cr_effect response = Some e"
  shows "validate_effect_with vr x target (ct_mode (cq_cleanup q)) e = Inr ()"
  using assms
  by (auto simp: verify_cleanup_response_with_def Let_def result_simps is_ok_def
      split: if_splits sum.splits)

lemma verify_cleanup_response_swap:
  assumes "verify_cleanup_response_with vr x bs q target peer key_id key = Inr response"
    and "\<And>e. cr_effect response = Some e \<Longrightarrow>
      validate_effect_with vr' x target (ct_mode (cq_cleanup q)) e = Inr ()"
  shows "verify_cleanup_response_with vr' x bs q target peer key_id key = Inr response"
  using assms
  by (auto simp: verify_cleanup_response_with_def Let_def result_simps split: if_splits option.splits)

text \<open>The validators agree on readbacks without a proof.\<close>

definition agree_plain :: "readback_validator \<Rightarrow> readback_validator \<Rightarrow> bool" where
  "agree_plain vr vr' =
     (\<forall>t r. rb_remote_cleanup r = None \<longrightarrow> is_ok (vr t r) = is_ok (vr' t r))"

lemma remote_effect_verify_transfer:
  assumes agree: "agree_plain vr vr'"
    and ok: "remote_effect_verify_with vr x e source key_id key = Inr effect"
  shows "remote_effect_verify_with vr' x e source key_id key = Inr effect"
proof -
  obtain response where
    resp: "verify_cleanup_response_with vr x (rce_response_bytes e) (rce_commit e)
      (ps_target_ticket (rce_prepared e)) (cu_executor_peer_id (ps_authority (rce_prepared e)))
      key_id key = Inr response"
    and eff: "cr_effect response = Some effect" "rb_remote_cleanup (ef_readback effect) = None"
    using ok by (auto simp: remote_effect_verify_with_def Let_def result_simps split: if_splits)
  have "validate_effect_with vr' x (ps_target_ticket (rce_prepared e))
      (ct_mode (cq_cleanup (rce_commit e))) effect = Inr ()"
    using verify_cleanup_response_effect [OF resp eff(1)] agree eff(2)
    by (auto simp: validate_effect_with_iff agree_plain_def)
  then have "verify_cleanup_response_with vr' x (rce_response_bytes e) (rce_commit e)
      (ps_target_ticket (rce_prepared e)) (cu_executor_peer_id (ps_authority (rce_prepared e)))
      key_id key = Inr response"
    using verify_cleanup_response_swap [OF resp] eff(1) by auto
  with ok resp show ?thesis
    by (auto simp: remote_effect_verify_with_def Let_def result_simps split: if_splits)
qed

lemma validate_source_readback_transfer:
  "agree_plain vr vr' \<Longrightarrow> validate_source_readback_with vr x e s w = Inr u \<Longrightarrow>
     validate_source_readback_with vr' x e s w = Inr u"
  by (auto simp: validate_source_readback_with_def result_simps dest: remote_effect_verify_transfer)

lemma fuel_agree: "agree_plain (validate_readback_fuel m x) (validate_readback_fuel n x)"
proof -
  have "is_ok (validate_readback_fuel k x t r) = is_ok (validate_readback_fuel 0 x t r)"
    if "rb_remote_cleanup r = None" for k t r
    using that by (cases k) (simp_all add: validate_readback_with_def)
  then show ?thesis
    by (auto simp: agree_plain_def)
qed

lemma validate_readback_with_cong:
  assumes "\<And>e. vp e ticket r = Inr () \<longleftrightarrow> vp' e ticket r = Inr ()"
  shows "validate_readback_with vp ticket r = validate_readback_with vp' ticket r"
proof (cases "rb_remote_cleanup r")
  case (Some e)
  have "map_err (\<lambda>_. InvalidProviderEvidence) (vp e ticket r)
      = map_err (\<lambda>_. InvalidProviderEvidence) (vp' e ticket r)"
    using assms [of e] by (cases "vp e ticket r"; cases "vp' e ticket r") auto
  with Some show ?thesis
    by (simp add: validate_readback_with_def)
qed (simp add: validate_readback_with_def)

section \<open>Guarantees\<close>

text \<open>C37. Nested cleanup proofs never need a second level: with any positive fuel the readback
  validator decides every readback, proof included, exactly as it does with fuel one, because
  a proof whose own readback carries a proof is refused whatever the inner answer is. So the
  recursion through response bytes ends and its depth does not affect the verdict.\<close>

theorem nested_proofs_are_decided:
  "validate_readback_fuel (Suc n) x ticket r = validate_readback x ticket r"
proof -
  have "validate_source_readback_with (validate_readback_fuel n x) x e t w = Inr () \<longleftrightarrow>
      validate_source_readback_with (validate_readback_fuel 0 x) x e t w = Inr ()" for e t w
    using validate_source_readback_transfer [OF fuel_agree] by blast
  then show ?thesis
    unfolding validate_readback_def One_nat_def validate_readback_fuel.simps(2)
    by (intro validate_readback_with_cong) auto
qed

lemma prepared_verified:
  assumes "verify_retained_cleanup_prepared x v source peer key_id key = Inr u"
  shows "ps_signer_key_id v = key_id \<and> tk_operation (ps_target_ticket v) = OpStop
    \<and> ps_source_ticket v = source \<and> cu_executor_peer_id (ps_authority v) = peer"
  using assms by (auto simp: verify_retained_cleanup_prepared_def Let_def split: if_splits)

lemma remote_effect_verifiedE:
  assumes "remote_effect_verify_with vr x e source key_id key = Inr effect"
  obtains response where
    "verify_retained_cleanup_prepared x (rce_prepared e) source
       (cu_executor_peer_id (ps_authority (rce_prepared e))) key_id key = Inr ()"
    "verify_cleanup_response_with vr x (rce_response_bytes e) (rce_commit e)
       (ps_target_ticket (rce_prepared e)) (cu_executor_peer_id (ps_authority (rce_prepared e)))
       key_id key = Inr response"
    "cr_status response = Completed" "cr_effect response = Some effect"
    "rb_remote_cleanup (ef_readback effect) = None" "rce_enrolled_target_key e = key"
  using assms by (auto simp: remote_effect_verify_with_def Let_def result_simps split: if_splits)

text \<open>What the effect of a verified remote cleanup carries.\<close>

lemma remote_effect_evidence:
  assumes "remote_effect_verify_with vr x e source key_id key = Inr effect"
    and plain: "\<And>t r. rb_remote_cleanup r = None \<Longrightarrow> is_ok (vr t r) \<Longrightarrow>
        is_ok (validate_readback_with (\<lambda>_ _ _. Inl ''fuel'') t r)"
  shows "ve_terminal (ef_verified effect) \<and> rb_schema_id (ef_readback effect) = readback_schema
    \<and> \<not> trim_is_empty (rb_provider_handle_id (ef_readback effect))
    \<and> rb_provider_state_revision (ef_readback effect) \<noteq> 0
    \<and> \<not> trim_is_empty (rb_observed_state (ef_readback effect))"
proof -
  from assms(1) obtain response where
    prep: "verify_retained_cleanup_prepared x (rce_prepared e) source
       (cu_executor_peer_id (ps_authority (rce_prepared e))) key_id key = Inr ()"
    and resp: "verify_cleanup_response_with vr x (rce_response_bytes e) (rce_commit e)
       (ps_target_ticket (rce_prepared e)) (cu_executor_peer_id (ps_authority (rce_prepared e)))
       key_id key = Inr response"
    and eff: "cr_effect response = Some effect" "rb_remote_cleanup (ef_readback effect) = None"
    by (rule remote_effect_verifiedE)
  have effect: "validate_effect_with vr x (ps_target_ticket (rce_prepared e))
      (ct_mode (cq_cleanup (rce_commit e))) effect = Inr ()"
    by (rule verify_cleanup_response_effect [OF resp eff(1)])
  then have "is_ok (validate_readback_with (\<lambda>_ _ _. Inl ''fuel'')
      (ps_target_ticket (rce_prepared e)) (ef_readback effect))"
    using plain [OF eff(2)] by (simp add: validate_effect_with_iff)
  then obtain p where "validate_readback_with (\<lambda>_ _ _. Inl ''fuel'')
      (ps_target_ticket (rce_prepared e)) (ef_readback effect) = Inr p"
    by (auto simp: is_ok_def split: sum.splits)
  with effect prepared_verified [OF prep] show ?thesis
    by (simp add: validate_readback_with_iff validate_effect_with_iff)
qed

text \<open>The source side can always complete: the readback that \<open>source_readback\<close> builds from a
  verified remote cleanup passes \<open>validate_readback\<close> for the source's own ticket, keeping the
  target's handle, revision and state, with a receipt that names the exact response bytes.\<close>

theorem source_readback_validates:
  assumes schema: "tk_schema_id source = ticket_schema"
    and built: "source_readback x e source key_id key = Inr w"
  shows "validate_readback x source w = Inr (provider_readback w)
    \<and> rb_remote_cleanup w = Some e \<and> rb_receipt_id w = cleanup_receipt_id x e
    \<and> readback_echoes source w"
proof -
  from built obtain effect where ver: "remote_effect_verify x e source key_id key = Inr effect"
    and w: "w = (ef_readback effect)
       \<lparr>rb_capability := tk_capability source,
        rb_executor_generation := tk_executor_generation source,
        rb_action_id := tk_action_id source,
        rb_authority_epoch_id := tk_authority_epoch_id source,
        rb_media_acceptance_authority_revision := tk_media_acceptance_authority_revision source,
        rb_expected_runtime_revision := tk_expected_runtime_revision source,
        rb_client_id := tk_client_id source, rb_lease_id := tk_lease_id source,
        rb_sequence := tk_sequence source, rb_operation := tk_operation source,
        rb_owner_kind := tk_owner_kind source, rb_action_kind := tk_action_kind source,
        rb_owner_id := tk_owner_id source, rb_provider_kind := tk_provider_kind source,
        rb_resource_id := tk_resource_id source,
        rb_receipt_id := cleanup_receipt_id x e,
        rb_remote_cleanup := Some e\<rparr>"
    unfolding source_readback_def and_then_eq_Inr by blast
  have v0: "remote_effect_verify_with (validate_readback_fuel 0 x) x e source key_id key = Inr effect"
    using ver remote_effect_verify_transfer [OF fuel_agree]
    unfolding remote_effect_verify_def validate_readback_def by blast
  have evidence: "ve_terminal (ef_verified effect)" "rb_schema_id (ef_readback effect) = readback_schema"
    "\<not> trim_is_empty (rb_provider_handle_id (ef_readback effect))"
    "rb_provider_state_revision (ef_readback effect) \<noteq> 0"
    "\<not> trim_is_empty (rb_observed_state (ef_readback effect))"
    using remote_effect_evidence [OF v0] by simp_all
  have keys: "ps_signer_key_id (rce_prepared e) = key_id" "rce_enrolled_target_key e = key"
    using v0 by (auto elim!: remote_effect_verifiedE dest!: prepared_verified)
  have receipt: "\<not> trim_is_empty (cleanup_receipt_id x e)"
    by (simp add: cleanup_receipt_id_def trim_is_empty_def byte_of_def)
  have echo: "readback_echoes source w"
    by (simp add: w readback_echoes_def)
  have "validate_source_readback_with (validate_readback_fuel 0 x) x e source w = Inr ()"
    unfolding validate_source_readback_with_def keys v0
    by (simp add: w evidence reject_if_def)
  then show ?thesis
    using schema evidence receipt echo
    by (simp add: validate_readback_def validate_readback_with_iff) (simp add: w)
qed

theorem source_readback_validates_witness:
  "\<exists>w. source_readback demo_exchange demo_remote_effect demo_source ''target'' (replicate 32 0) = Inr w
     \<and> validate_readback demo_exchange demo_source w = Inr (provider_readback w)"
proof -
  obtain w where w: "source_readback demo_exchange demo_remote_effect demo_source ''target'' (replicate 32 0)
      = Inr w"
    unfolding source_readback_def demo_remote_verified by simp
  have "tk_schema_id demo_source = ticket_schema"
    by (simp add: demo_source_def demo_ticket_def)
  from source_readback_validates [OF this w] w show ?thesis
    by blast
qed

text \<open>A verified cleanup request authorises one exact stop: it names the retained target that
  was derived independently, that target is a stop or cleanup under the live generation and the
  retained client and lease, the live projection equals the signed one, the coordinator's
  enrolled key signed the domain-separated request, and its issue time lies within the skew and
  validity bounds.\<close>

theorem cleanup_request_authorises_exact_stop:
  assumes "verify_cleanup_request x q live target gen peer key_id key now validity = Inr ()"
  shows "ct_target (cq_cleanup q) = target \<and> ct_authority (cq_cleanup q) = live
    \<and> tk_operation target = OpStop \<and> tk_action_kind target \<in> {ActStop, ActCleanup}
    \<and> tk_executor_generation target = gen \<and> gen \<noteq> 0
    \<and> tk_client_id target = cu_target_client_id live
    \<and> tk_lease_id target = cu_target_runtime_lease_id live
    \<and> cleanup_parties_match live
    \<and> cq_target_peer_id q = peer \<and> cu_executor_peer_id live = peer
    \<and> (\<exists>k bs signature. m_key_from_bytes x key = Some k
         \<and> cleanup_request_signing_bytes x q = Inr bs
         \<and> decode_signature_base64 (cq_signature_base64 q) = Inr signature
         \<and> m_verify_strict x k bs signature)
    \<and> unat (cq_issued_at_ms q) \<le> unat now + 2000
    \<and> unat now - unat (cq_issued_at_ms q)
        \<le> (if cq_schema_id q = owned_request_schema then unat validity else 30000)"
proof -
  let ?t = "cq_cleanup q"
  have ticket: "verify_retained_cleanup_ticket x ?t live target gen now = Inr ()"
    and sig: "\<exists>k bs signature. m_key_from_bytes x key = Some k
         \<and> cleanup_request_signing_bytes x q = Inr bs
         \<and> decode_signature_base64 (cq_signature_base64 q) = Inr signature
         \<and> m_verify_strict x k bs signature"
    and ids: "cq_target_peer_id q = peer" "cu_executor_peer_id live = peer"
    and future: "\<not> saturating_add now 2000 < cq_issued_at_ms q"
    and age: "cq_schema_id q \<noteq> owned_request_schema \<longrightarrow> \<not> 30000 < saturating_sub now (cq_issued_at_ms q)"
      "cq_schema_id q = owned_request_schema \<longrightarrow> \<not> validity < saturating_sub now (cq_issued_at_ms q)"
    using assms
    by (auto simp: verify_cleanup_request_def Let_def result_simps verify_under_iff split: if_splits)
  have fresh: "unat (cq_issued_at_ms q) \<le> unat now + 2000"
    using future by (simp add: word_less_nat_alt unat_saturating_add min_def not_less split: if_splits)
  have old: "unat now - unat (cq_issued_at_ms q)
      \<le> (if cq_schema_id q = owned_request_schema then unat validity else 30000)"
    using age by (auto simp: word_less_nat_alt unat_saturating_sub not_less)
  have refused: "ct_authority ?t = live"
    using ticket by (auto simp: verify_retained_cleanup_ticket_def cleanup_ticket_refused_def Let_def
        split: if_splits)
  have target: "ct_target ?t = target" "tk_operation target = OpStop"
    "tk_action_kind target \<in> {ActStop, ActCleanup}" "tk_executor_generation target = gen" "gen \<noteq> 0"
    "tk_client_id target = cu_target_client_id live"
    "tk_lease_id target = cu_target_runtime_lease_id live" "cleanup_parties_match live"
    using ticket refused by (auto simp: verify_retained_cleanup_ticket_def Let_def split: if_splits)
  show ?thesis
    using refused target sig ids fresh old by simp
qed

theorem cleanup_request_authorises_exact_stop_witness:
  "ct_target (cq_cleanup demo_cleanup_request) = demo_target \<and> tk_operation demo_target = OpStop"
  using cleanup_request_authorises_exact_stop [OF demo_cleanup_verified] by simp

text \<open>A derived stop undoes its start: it keeps the owner, client, lease and epoch of the
  retained start, changes capability and action, is a cleanup exactly for the cleanup owner,
  and takes the mirrored position, so that stops derived from starts at increasing positions
  run in decreasing order within one to seven.\<close>

theorem derived_stop_mirrors_start:
  assumes "derive_retained_target_stop original gen entropy = Inr t"
  shows "tk_operation t = OpStop
    \<and> tk_action_kind t = (if tk_owner_kind original = Cleanup then ActCleanup else ActStop)
    \<and> tk_executor_generation t = gen \<and> gen \<noteq> 0
    \<and> tk_owner_kind t = tk_owner_kind original \<and> tk_owner_id t = tk_owner_id original
    \<and> tk_client_id t = tk_client_id original \<and> tk_lease_id t = tk_lease_id original
    \<and> tk_authority_epoch_id t = tk_authority_epoch_id original
    \<and> tk_resource_id t = tk_resource_id original
    \<and> unat (tk_sequence t) + unat (tk_sequence original) = 8
    \<and> 1 \<le> unat (tk_sequence t) \<and> unat (tk_sequence t) \<le> 7"
proof -
  have ok: "tk_sequence original \<noteq> 0" "tk_sequence original \<le> 7" "gen \<noteq> 0"
    and t: "t = original
        \<lparr>tk_capability := ''cleanup.capability.'' @ entropy,
         tk_action_id := ''cleanup.action.'' @ entropy,
         tk_executor_generation := gen,
         tk_operation := OpStop,
         tk_action_kind := (if tk_owner_kind original = Cleanup then ActCleanup else ActStop),
         tk_sequence := 8 - tk_sequence original\<rparr>"
    using assms by (auto simp: derive_retained_target_stop_def not_less split: if_splits)
  have "unat (tk_sequence original) \<le> 7" "0 < unat (tk_sequence original)"
    using ok by (simp_all add: word_le_nat_alt unat_gt_0)
  moreover from this have "unat (8 - tk_sequence original) = 8 - unat (tk_sequence original)"
    by (subst unat_sub) (simp_all add: word_le_nat_alt)
  ultimately show ?thesis
    using ok(3) by (simp add: t) arith
qed

theorem derived_stop_mirrors_start_witness:
  "\<exists>t. derive_retained_target_stop (demo_ticket ''cap'' ''start'' OpStart) 9 (replicate 32 CHR ''a'') = Inr t
     \<and> tk_sequence t = 6 \<and> tk_operation t = OpStop"
proof -
  obtain t where t:
    "derive_retained_target_stop (demo_ticket ''cap'' ''start'' OpStart) 9 (replicate 32 CHR ''a'') = Inr t"
    by (simp add: derive_retained_target_stop_def demo_ticket_def is_ascii_hexdigit_def
        is_ascii_digit_def in_range_def byte_of_def list_all_iff)
  have "unat (tk_sequence (demo_ticket ''cap'' ''start'' OpStart)) = 2"
    by (simp add: demo_ticket_def)
  with derived_stop_mirrors_start [OF t] have "unat (tk_sequence t) = 6" "tk_operation t = OpStop"
    by auto
  then have "tk_sequence t = 6"
    using word_unat_eq_iff [of "tk_sequence t" 6] by simp
  with t \<open>tk_operation t = OpStop\<close> show ?thesis
    by blast
qed

end
