(* ===== verification/Owner_Wire_Proofs.thy ===== *)
theory Owner_Wire_Proofs
  imports Owner_Wire
begin

text \<open>
  The wire frames of dispatch requests and responses (\<open>Owner_Wire\<close>) lose nothing. The printers and
  parsers of \<open>serde_json\<close> and the derived conversions of the message types are parameters; what is
  relied on is their documented behaviour: a printed value parses back, a derived conversion to a
  value is inverted by the derived conversion from it, members carry the names of the fields, and
  a member may be replaced by a value that denotes the same field.
\<close>

section \<open>Ordered maps\<close>

lemma bt_as_keys: "distinct (map fst m) \<Longrightarrow> map (\<lambda>k. (k, the (bt_get m k))) (map fst m) = m"
  by (auto simp: comp_def intro!: map_idI)

lemma bt_ext:
  assumes "bt_wf a" "bt_wf b" "bt_get a = bt_get b"
  shows "a = b"
proof -
  have "fst ` set a = fst ` set b"
    using assms(3) by (metis dom_map_of_conv_image_fst)
  then have "map fst a = map fst b"
    using assms(1,2) by (intro strict_sorted_equal) (simp_all add: bt_wf_def)
  then show ?thesis
    using bt_as_keys [OF bt_wf_distinct [OF assms(1)]] bt_as_keys [OF bt_wf_distinct [OF assms(2)]] assms(3)
    by simp
qed

section \<open>What the serializers promise\<close>

definition value_serde :: "('k, 'n) media_externals \<Rightarrow> bool" where
  "value_serde x = (\<forall>v bs. m_value_to_vec x v = Some bs \<longrightarrow> m_value_from_slice x bs = Some v)"

text \<open>A request is an object whose ticket member is the value that the ticket's own text parses to.\<close>

definition request_serde :: "('k, 'n) media_externals \<Rightarrow> bool" where
  "request_serde x =
     (\<forall>q v. m_request_to_value x q = Some v \<longrightarrow>
        m_request_from_value x v = Some q
        \<and> (\<exists>members. v = JObject members \<and> bt_wf members \<and> bt_get members ''payload_sha256'' = None
             \<and> (\<forall>bs. m_ticket_to_vec x (dq_ticket q) = Some bs \<longrightarrow>
                  (\<exists>ticket. m_value_from_slice x bs = Some ticket
                     \<and> bt_get members ''ticket'' = Some ticket))))"

text \<open>The effect member of a response: null without an effect, otherwise an object with the readback
  and its text.\<close>

definition effect_member :: "owner_effect option \<Rightarrow> (string, 'n json) btree \<Rightarrow> bool" where
  "effect_member effect members =
     (case effect of
        None \<Rightarrow> Option.bind (bt_get members ''effect'') as_object = None
      | Some e \<Rightarrow> (\<exists>inner. bt_get members ''effect'' = Some (JObject inner) \<and> bt_wf inner
          \<and> bt_get inner ''readback_json'' = Some (JString (ef_readback_json e))))"

text \<open>
  The last law is about a response whose readback text denotes its readback: that text is JSON, and
  its value in place of the readback member denotes the same response.
\<close>

definition response_serde :: "('k, 'n) media_externals \<Rightarrow> bool" where
  "response_serde x =
     ((\<forall>r v. m_response_to_value x r = Some v \<longrightarrow>
         m_response_from_value x v = Some r
         \<and> (\<exists>members. v = JObject members \<and> bt_wf members \<and> bt_get members ''payload_sha256'' = None
              \<and> effect_member (dr_effect r) members))
      \<and> (\<forall>r s a b. m_response_to_value x r = Some (JObject a) \<longrightarrow>
           m_response_to_value x (r\<lparr>dr_signature_base64 := s\<rparr>) = Some (JObject b) \<longrightarrow>
           bt_remove ''signature_base64'' b = bt_remove ''signature_base64'' a)
      \<and> (\<forall>r e members inner. m_response_to_value x r = Some (JObject members) \<longrightarrow>
           dr_effect r = Some e \<longrightarrow> bt_get members ''effect'' = Some (JObject inner) \<longrightarrow>
           m_readback_from_str x (ef_readback_json e) = Some (ef_readback e) \<longrightarrow>
           (\<exists>readback. m_value_from_slice x (str_bytes (ef_readback_json e)) = Some readback
              \<and> m_response_from_value x
                  (JObject (bt_insert ''effect'' (JObject (bt_insert ''readback'' readback inner)) members))
                = Some r)))"

text \<open>A readback text that is a Rust string and denotes the readback.\<close>

definition readback_text_ok :: "('k, 'n) media_externals \<Rightarrow> owner_effect \<Rightarrow> bool" where
  "readback_text_ok x e =
     (m_readback_from_str x (ef_readback_json e) = Some (ef_readback e)
      \<and> from_utf8 (str_bytes (ef_readback_json e)) = Some (ef_readback_json e))"

section \<open>Round trips\<close>

lemma digest_checked:
  assumes "bt_get members ''payload_sha256'' = None"
  shows "validate_payload_digest x (JObject (finish_metadata x True members payload)) payload = Inr (JObject members)"
  using assms by (simp add: validate_payload_digest_def finish_metadata_def bt_remove_insert)

lemma request_frame_round_trip:
  assumes "value_serde x" "request_serde x" "encode_request_frame x q = Inr frame"
  shows "decode_request_frame x frame = Inr q"
proof -
  obtain payload v members metadata where
    parts: "m_ticket_to_vec x (dq_ticket q) = Some payload" "m_request_to_value x q = Some v"
      "v = JObject members"
      "m_value_to_vec x (JObject (finish_metadata x True (bt_remove ''ticket'' members) payload)) = Some metadata"
    and frame: "frame_fits (metadata, payload)" "frame = frame_of (metadata, payload)"
    using assms(3) by (auto simp: encode_request_frame_def request_wire_parts_def encode_wire_frame_iff result_simps)
  obtain ticket where ticket: "m_value_from_slice x payload = Some ticket" "bt_get members ''ticket'' = Some ticket"
    and wf: "bt_wf members" "bt_get members ''payload_sha256'' = None"
    and inverse: "m_request_from_value x v = Some q"
    using assms(2) parts(1-3) unfolding request_serde_def by blast
  have "bt_insert ''ticket'' ticket (bt_remove ''ticket'' members) = members"
    using wf(1) ticket(2) by (intro bt_ext) auto
  moreover have "m_value_from_slice x metadata
      = Some (JObject (finish_metadata x True (bt_remove ''ticket'' members) payload))"
    using assms(1) parts(4) by (simp add: value_serde_def)
  ultimately show ?thesis
    using frame ticket(1) inverse parts(3) wf(2)
    by (simp add: decode_request_frame_def decode_frame_of digest_checked)
qed

lemma split_effect_None:
  "effect_member None members \<Longrightarrow> split_effect members = Inr (members, [])"
  by (simp add: split_effect_def effect_member_def)

lemma response_frame_round_trip:
  assumes "value_serde x" "response_serde x" "encode_response_frame x r = Inr frame"
    and "\<And>e. dr_effect r = Some e \<Longrightarrow> readback_text_ok x e"
  shows "decode_response_frame x frame = Inr r"
proof -
  obtain members object payload metadata where
    parts: "m_response_to_value x r = Some (JObject members)" "split_effect members = Inr (object, payload)"
      "m_value_to_vec x (JObject (finish_metadata x True object payload)) = Some metadata"
    and frame: "frame_fits (metadata, payload)" "frame = frame_of (metadata, payload)"
    using assms(3) by (auto simp: encode_response_frame_def response_wire_parts_def encode_wire_frame_iff result_simps)
  have laws: "m_response_from_value x (JObject members) = Some r" "bt_wf members"
    "bt_get members ''payload_sha256'' = None" "effect_member (dr_effect r) members"
    using assms(2) parts(1) unfolding response_serde_def by blast+
  have parsed: "m_value_from_slice x metadata = Some (JObject (finish_metadata x True object payload))"
    using assms(1) parts(3) by (simp add: value_serde_def)
  show ?thesis
  proof (cases "dr_effect r")
    case None
    then have "object = members" "payload = []" "Option.bind (bt_get members ''effect'') as_object = None"
      using laws(4) parts(2) by (auto simp: split_effect_None effect_member_def)
    then show ?thesis
      using frame parsed laws(1,3)
      by (simp add: decode_response_frame_def decode_frame_of digest_checked json_get_def)
  next
    case (Some e)
    then obtain inner where inner: "bt_get members ''effect'' = Some (JObject inner)" "bt_wf inner"
      "bt_get inner ''readback_json'' = Some (JString (ef_readback_json e))"
      using laws(4) by (auto simp: effect_member_def)
    have denotes: "m_readback_from_str x (ef_readback_json e) = Some (ef_readback e)"
      "from_utf8 (str_bytes (ef_readback_json e)) = Some (ef_readback_json e)"
      using assms(4) [OF Some] by (simp_all add: readback_text_ok_def)
    let ?kept = "bt_remove ''readback_json'' (bt_remove ''readback'' inner)"
    have object: "object = bt_insert ''effect'' (JObject ?kept) members" "payload = str_bytes (ef_readback_json e)"
      using parts(2) inner by (simp_all add: split_effect_def Let_def)
    obtain readback where readback: "m_value_from_slice x payload = Some readback"
      "m_response_from_value x (JObject (bt_insert ''effect'' (JObject (bt_insert ''readback'' readback inner)) members)) = Some r"
      using assms(2) parts(1) Some inner(1) denotes(1) unfolding response_serde_def object(2) by blast
    have "bt_insert ''readback_json'' (JString (ef_readback_json e)) (bt_insert ''readback'' readback ?kept)
        = bt_insert ''readback'' readback inner"
      using inner(2,3) by (intro bt_ext) auto
    then show ?thesis
      using frame parsed laws(3) readback denotes(2) object
      by (simp add: decode_response_frame_def decode_frame_of digest_checked json_get_def set_field_def
          bt_insert_twice)
  qed
qed

text \<open>The signature is not part of the signed bytes.\<close>

lemma split_effect_signature:
  assumes "bt_wf a" "bt_wf b" "bt_remove ''signature_base64'' b = bt_remove ''signature_base64'' a"
    and "split_effect a = Inr (object, payload)"
  shows "\<exists>object'. split_effect b = Inr (object', payload)
    \<and> bt_remove ''signature_base64'' object' = bt_remove ''signature_base64'' object"
proof -
  have get: "bt_get b k = bt_get a k" if "k \<noteq> ''signature_base64''" for k
    using arg_cong [OF assms(3), of "\<lambda>m. bt_get m k"] that by simp
  have "bt_remove ''signature_base64'' (bt_insert ''effect'' v b) = bt_remove ''signature_base64'' (bt_insert ''effect'' v a)" for v
    using assms(1,2) by (intro bt_ext) (auto simp: get)
  then show ?thesis
    using assms(3,4) get [of "''effect''"]
    by (auto simp: split_effect_def Let_def split: option.splits)
qed

lemma response_signing_ignores_signature:
  assumes "response_serde x" "response_signing_bytes x r = Inr m"
    and "encode_response_frame x (r\<lparr>dr_signature_base64 := s\<rparr>) = Inr frame"
  shows "response_signing_bytes x (r\<lparr>dr_signature_base64 := s\<rparr>) = Inr m"
proof -
  obtain a object payload metadata where
    parts: "m_response_to_value x r = Some (JObject a)" "split_effect a = Inr (object, payload)"
      "m_value_to_vec x (JObject (finish_metadata x False object payload)) = Some metadata"
    and m: "wire_signing_bytes response_domain metadata payload = Inr m"
    using assms(2) by (auto simp: response_signing_bytes_def response_wire_parts_def result_simps)
  obtain b where b: "m_response_to_value x (r\<lparr>dr_signature_base64 := s\<rparr>) = Some (JObject b)"
    using assms(3) by (auto simp: encode_response_frame_def response_wire_parts_def result_simps)
  have wf: "bt_wf a" "bt_wf b" "bt_get a ''payload_sha256'' = None" "bt_get b ''payload_sha256'' = None"
    and same: "bt_remove ''signature_base64'' b = bt_remove ''signature_base64'' a"
    using assms(1) parts(1) b unfolding response_serde_def by blast+
  obtain object' where object': "split_effect b = Inr (object', payload)"
    "bt_remove ''signature_base64'' object' = bt_remove ''signature_base64'' object"
    using split_effect_signature [OF wf(1,2) same parts(2)] by blast
  have "bt_wf object" "bt_wf object'"
    using parts(2) object'(1) wf by (auto simp: split_effect_def Let_def split: option.splits)
  moreover have "bt_get object' k = bt_get object k" if "k \<noteq> ''signature_base64''" for k
    using arg_cong [OF object'(2), of "\<lambda>m. bt_get m k"] that by simp
  ultimately have "finish_metadata x False object' payload = finish_metadata x False object payload"
    unfolding finish_metadata_def Let_def by (auto intro!: bt_ext)
  then show ?thesis
    using b object'(1) parts(3) m by (simp add: response_signing_bytes_def response_wire_parts_def)
qed

end
