(* ===== verification/Owner_Server_Proofs.thy ===== *)
theory Owner_Server_Proofs
  imports Owner_Server Owner_Proofs Owner_Wire_Proofs
begin

text \<open>
  The dispatch server meets the exactly-once contract: its journal interprets
  \<open>effect_journal\<close>, so no identity enters the platform registry twice, in any sequence of
  frames, store failures, crashes and restarts.
\<close>

section \<open>A concrete server\<close>

definition demo_request :: dispatch_request where
  "demo_request =
     \<lparr>dq_schema_id = request_schema, dq_dispatch_id = ''d1'', dq_sequence = 1, dq_issued_at_ms = 50,
      dq_target_peer_id = ''peer'',
      dq_authority = \<lparr>au_schema_id = [], au_authority_peer_id = ''a'', au_executor_peer_id = ''peer'',
        au_peer_session_id = ''s'', au_route_grant_id = ''g'', au_route_authority_revision = 1,
        au_authority_runtime_host_id = ''host'', au_authority_provider_epoch_id = ''epoch'',
        au_platform_runtime_spec_id = ''spec'', au_authority_client_id = ''client'',
        au_authority_runtime_lease_id = ''lease'', au_signed_topology_sha256 = demo_zero_sha,
        au_route_configuration_sha256 = demo_zero_sha,
        au_route_authority_evidence_sha256 = demo_zero_sha, au_expires_at_ms = 100,
        au_authorization_kind = CurrentRoute\<rparr>,
      dq_ticket = demo_target, dq_mode = Execute, dq_signer_key_id = ''k'',
      dq_signature_base64 = demo_signature\<rparr>"

text \<open>The response to it, by the outcome of the platform call.\<close>

definition demo_response :: "owner_outcome \<Rightarrow> dispatch_response" where
  "demo_response out =
     \<lparr>dr_schema_id = response_schema, dr_dispatch_id = ''d1'', dr_request_sha256 = demo_zero_sha,
      dr_status = fst out, dr_effect = fst (snd out), dr_failure = snd (snd out),
      dr_signer_key_id = ''t'', dr_signature_base64 = demo_signature\<rparr>"

definition demo_failed :: owner_outcome where
  "demo_failed = (Uncertain, None, Some ''platform_effect_uncertain'')"

definition demo_completed :: owner_outcome where
  "demo_completed = (Completed, Some demo_effect, None)"

definition demo_digest_object :: "(string, unit json) btree" where
  "demo_digest_object = [(''payload_sha256'', JString demo_zero_sha)]"

text \<open>
  The members of the response with a given signature; on the wire the effect member loses the
  readback and its text, which becomes the payload, and the digest of the payload is added.
\<close>

definition demo_members :: "owner_outcome \<Rightarrow> string \<Rightarrow> (string, unit json) btree" where
  "demo_members out signature =
     [(''effect'', case fst (snd out) of
         None \<Rightarrow> JNull
       | Some e \<Rightarrow> JObject [(''readback'', JNull), (''readback_json'', JString (ef_readback_json e))]),
      (''signature_base64'', JString signature)]"

definition demo_payload :: "owner_outcome \<Rightarrow> bytes" where
  "demo_payload out = (case fst (snd out) of None \<Rightarrow> [] | Some e \<Rightarrow> str_bytes (ef_readback_json e))"

definition demo_metadata :: "owner_outcome \<Rightarrow> (string, unit json) btree" where
  "demo_metadata out =
     [(''effect'', case fst (snd out) of None \<Rightarrow> JNull | Some e \<Rightarrow> JObject []),
      (''payload_sha256'', JString demo_zero_sha)]"

definition demo_signed_metadata :: "owner_outcome \<Rightarrow> (string, unit json) btree" where
  "demo_signed_metadata out = demo_metadata out @ [(''signature_base64'', JString demo_signature)]"

text \<open>
  The exchange extended with parsers and printers for one request and for one response, signed and
  unsigned.
\<close>

definition demo_dispatch :: "owner_outcome \<Rightarrow> (unit, unit) media_externals" where
  "demo_dispatch out = demo_exchange
     \<lparr>m_ticket_to_vec := (\<lambda>_. Some [3]),
      m_value_from_slice := (\<lambda>bs. if bs = [1] then Some (JObject (demo_signed_metadata out))
        else if bs = [2] then Some (JObject (demo_metadata out))
        else if bs = [4] then Some (JObject demo_digest_object) else Some JNull),
      m_value_to_vec := (\<lambda>v. if v = JObject (demo_signed_metadata out) then Some [1]
        else if v = JObject (demo_metadata out) then Some [2]
        else if v = JObject demo_digest_object then Some [4] else None),
      m_request_to_value := (\<lambda>q. if q = demo_request then Some (JObject [(''ticket'', JNull)]) else None),
      m_request_from_value := (\<lambda>_. Some demo_request),
      m_response_to_value := (\<lambda>r. if r = demo_response out
        then Some (JObject (demo_members out demo_signature))
        else if r = (demo_response out)\<lparr>dr_signature_base64 := []\<rparr> then Some (JObject (demo_members out []))
        else None),
      m_response_from_value := (\<lambda>v. if json_get v ''signature_base64'' = Some (JString demo_signature)
        then Some (demo_response out) else Some ((demo_response out)\<lparr>dr_signature_base64 := []\<rparr>))\<rparr>"

definition demo_frame :: bytes where
  "demo_frame = frame_of ([4], [3])"

definition demo_env :: "string + owner_effect \<Rightarrow> owner_env" where
  "demo_env execution =
     \<lparr>oe_now_ms = Inr 60, oe_validity_ms = Inr 30000, oe_verify_current = (\<lambda>_ _ _. Inr ()),
      oe_admit = (\<lambda>_. Inr ()), oe_execute = (\<lambda>_ _ _. execution),
      oe_sign = (\<lambda>_. Inr (replicate 64 0)), oe_commit = (\<lambda>_. Committed)\<rparr>"

definition demo_server :: owner_server where
  "demo_server =
     \<lparr>sv_target_peer_id = ''peer'', sv_signer_key_id = ''t'',
      sv_replay = \<lparr>pending_sha256 = [], terminal = []\<rparr>,
      sv_durable = \<lparr>pending_sha256 = [], terminal = []\<rparr>, sv_calls = []\<rparr>"

lemma demo_restored:
  "restore_owner_server (demo_dispatch out) ''peer'' ''t'' \<lparr>pending_sha256 = [], terminal = []\<rparr> = Inr demo_server"
  by (simp add: restore_owner_server_def too_many_bytes_def replay_overlaps_def demo_dispatch_def
      demo_exchange_def demo_server_def)

lemma demo_sha: "x_sha (demo_dispatch out) bs = demo_zero_sha"
  by (simp add: x_sha_def sha256_prefixed_def demo_dispatch_def demo_exchange_def demo_hex)
    (simp add: demo_zero_sha_def)

lemma demo_values:
  "demo_signed_metadata out \<noteq> demo_metadata out" "demo_signed_metadata out \<noteq> demo_digest_object"
  "demo_metadata out \<noteq> demo_digest_object"
  by (simp_all add: demo_signed_metadata_def demo_metadata_def demo_digest_object_def)

lemma demo_value_sel [simp]:
  "m_value_to_vec (demo_dispatch out) (JObject (demo_signed_metadata out)) = Some [1]"
  "m_value_to_vec (demo_dispatch out) (JObject (demo_metadata out)) = Some [2]"
  "m_value_to_vec (demo_dispatch out) (JObject demo_digest_object) = Some [4]"
  "m_value_from_slice (demo_dispatch out) [1] = Some (JObject (demo_signed_metadata out))"
  "m_value_from_slice (demo_dispatch out) [3] = Some JNull"
  "m_value_from_slice (demo_dispatch out) [4] = Some (JObject demo_digest_object)"
  "m_request_to_value (demo_dispatch out) demo_request = Some (JObject [(''ticket'', JNull)])"
  "m_ticket_to_vec (demo_dispatch out) t = Some [3]"
  "m_response_to_value (demo_dispatch out) (demo_response out) = Some (JObject (demo_members out demo_signature))"
  "m_response_to_value (demo_dispatch out) ((demo_response out)\<lparr>dr_signature_base64 := []\<rparr>)
     = Some (JObject (demo_members out []))"
  using demo_values [of out] demo_signature_nonempty
  by (auto simp: demo_dispatch_def demo_response_def)

lemma demo_value_serde: "value_serde (demo_dispatch out)"
  by (auto simp: value_serde_def demo_dispatch_def)

lemma demo_request_serde: "request_serde (demo_dispatch out)"
  by (auto simp: request_serde_def demo_dispatch_def bt_wf_def)

lemma demo_response_printed:
  assumes "m_response_to_value (demo_dispatch out) r = Some v"
  obtains "r = demo_response out" "v = JObject (demo_members out demo_signature)"
  | "r = (demo_response out)\<lparr>dr_signature_base64 := []\<rparr>" "v = JObject (demo_members out [])"
  using assms by (auto simp: demo_dispatch_def split: if_splits)

lemma demo_response_serde:
  assumes "out \<in> {demo_failed, demo_completed}"
  shows "response_serde (demo_dispatch out)"
proof -
  have signed: "demo_response out \<noteq> (demo_response out)\<lparr>dr_signature_base64 := []\<rparr>" "demo_signature \<noteq> []"
    using demo_signature_nonempty by (simp_all add: demo_response_def)
  have from_value: "m_response_from_value (demo_dispatch out) v =
      (if json_get v ''signature_base64'' = Some (JString demo_signature) then Some (demo_response out)
       else Some ((demo_response out)\<lparr>dr_signature_base64 := []\<rparr>))" for v
    by (simp add: demo_dispatch_def)
  have payload: "m_value_from_slice (demo_dispatch out) (str_bytes (ef_readback_json e)) = Some JNull"
    if "fst (snd out) = Some e" for e
    using that assms by (auto simp: demo_failed_def demo_completed_def demo_effect_def demo_dispatch_def str_bytes_def)
  have effect: "dr_effect (demo_response out) = fst (snd out)"
    by (simp add: demo_response_def)
  have members: "bt_wf (demo_members out s)" "bt_get (demo_members out s) ''payload_sha256'' = None"
    "effect_member (fst (snd out)) (demo_members out s)"
    "bt_get (demo_members out s) ''signature_base64'' = Some (JString s)"
    "bt_get (bt_insert ''effect'' w (demo_members out s)) ''signature_base64'' = Some (JString s)"
    "bt_remove ''signature_base64'' (demo_members out s) = [hd (demo_members out [])]" for s w
    by (simp_all add: demo_members_def bt_wf_def effect_member_def json_get_def bt_remove_def split: option.splits)
  show ?thesis
    unfolding response_serde_def
  proof (intro conjI allI impI)
    fix r v
    assume printed: "m_response_to_value (demo_dispatch out) r = Some v"
    then show "m_response_from_value (demo_dispatch out) v = Some r"
      by (cases rule: demo_response_printed) (simp_all add: from_value json_get_def members(4) signed signed(2) [symmetric])
    from printed show "\<exists>members. v = JObject members \<and> bt_wf members \<and> bt_get members ''payload_sha256'' = None
         \<and> effect_member (dr_effect r) members"
      by (cases rule: demo_response_printed) (simp_all add: members(1-3) effect)
  next
    fix r s a b
    assume "m_response_to_value (demo_dispatch out) r = Some (JObject a)"
      "m_response_to_value (demo_dispatch out) (r\<lparr>dr_signature_base64 := s\<rparr>) = Some (JObject b)"
    then show "bt_remove ''signature_base64'' b = bt_remove ''signature_base64'' a"
      by (elim demo_response_printed) (simp_all add: members(6))
  next
    fix r e members' inner
    assume "m_response_to_value (demo_dispatch out) r = Some (JObject members')" "dr_effect r = Some e"
    then show "\<exists>readback. m_value_from_slice (demo_dispatch out) (str_bytes (ef_readback_json e)) = Some readback
        \<and> m_response_from_value (demo_dispatch out) (JObject (bt_insert ''effect''
            (JObject (bt_insert ''readback'' readback inner)) members')) = Some r"
      by (cases rule: demo_response_printed) (simp_all add: from_value json_get_def members(4) signed signed(2) [symmetric] effect payload)
  qed
qed

lemma demo_request_metadata:
  "finish_metadata (demo_dispatch out) w (bt_remove ''ticket'' [(''ticket'', JNull)]) [3] = demo_digest_object"
  by (cases w) (simp_all add: finish_metadata_def bt_remove_def demo_sha demo_digest_object_def)

lemma demo_request_encodes: "encode_request_frame (demo_dispatch out) demo_request = Inr demo_frame"
  by (simp add: encode_request_frame_def request_wire_parts_def demo_request_metadata demo_frame_def
      encode_wire_frame_iff frame_fits_def max_frame_bytes_def)

lemma demo_request_decodes: "decode_request_frame (demo_dispatch out) demo_frame = Inr demo_request"
  by (rule request_frame_round_trip [OF demo_value_serde demo_request_serde demo_request_encodes])

lemma demo_request_shape: "validate_request_shape demo_request ''peer'' = Inr ()"
  by (simp add: validate_request_shape_def demo_request_def demo_target_def demo_ticket_def Let_def
      demo_hex reject_if_def)

lemma demo_classified:
  "owner_classify (demo_dispatch out) (demo_env execution) demo_frame demo_server = Inr (Inr (demo_request, demo_zero_sha))"
proof -
  have "length demo_frame = 16"
    by (simp add: demo_frame_def frame_of_def)
  then have bounds: "demo_frame \<noteq> []" "\<not> max_frame_bytes < length demo_frame"
    by (auto simp: max_frame_bytes_def)
  have signing: "\<exists>bs. request_signing_bytes (demo_dispatch out) demo_request = Inr bs"
    by (simp add: request_signing_bytes_def request_wire_parts_def demo_request_metadata
        wire_signing_bytes_def u32_from_len_def)
  have sel: "sv_replay demo_server = \<lparr>pending_sha256 = [], terminal = []\<rparr>"
    "sv_target_peer_id demo_server = ''peer''" "dq_issued_at_ms demo_request = 50"
    "dq_signature_base64 demo_request = demo_signature"
    by (simp_all add: demo_server_def demo_request_def)
  show ?thesis
    using bounds signing
    by (auto simp: owner_classify_def demo_request_decodes demo_request_shape sel demo_sha demo_env_def
        demo_signature_decodes saturating_add_def saturating_sub_def max_future_skew_ms_def
        max_pending_def max_replays_def Let_def)
qed

lemma demo_response_parts:
  "split_effect (demo_members out signature)
     = Inr ([(''effect'', case fst (snd out) of None \<Rightarrow> JNull | Some e \<Rightarrow> JObject []),
             (''signature_base64'', JString signature)], demo_payload out)"
  by (simp add: split_effect_def demo_members_def demo_payload_def bt_remove_def split: option.splits)

lemma demo_response_wire:
  "response_wire_parts (demo_dispatch out) (demo_response out) True = Inr ([1], demo_payload out)"
  "response_wire_parts (demo_dispatch out) (demo_response out) False = Inr ([2], demo_payload out)"
  "response_wire_parts (demo_dispatch out) ((demo_response out)\<lparr>dr_signature_base64 := []\<rparr>) False
     = Inr ([2], demo_payload out)"
proof -
  have "finish_metadata (demo_dispatch out) True
      [(''effect'', v), (''signature_base64'', JString demo_signature)] payload
    = [(''effect'', v), (''payload_sha256'', JString demo_zero_sha), (''signature_base64'', JString demo_signature)]"
    "finish_metadata (demo_dispatch out) False [(''effect'', v), (''signature_base64'', JString s)] payload
    = [(''effect'', v), (''payload_sha256'', JString demo_zero_sha)]" for v s payload
    by (simp_all add: finish_metadata_def demo_sha bt_remove_def)
  then show "response_wire_parts (demo_dispatch out) (demo_response out) True = Inr ([1], demo_payload out)"
    "response_wire_parts (demo_dispatch out) (demo_response out) False = Inr ([2], demo_payload out)"
    "response_wire_parts (demo_dispatch out) ((demo_response out)\<lparr>dr_signature_base64 := []\<rparr>) False
       = Inr ([2], demo_payload out)"
    using demo_value_sel(1,2) [of out]
    by (simp_all add: response_wire_parts_def demo_response_parts demo_signed_metadata_def demo_metadata_def)
qed

lemma demo_payload_fits: "out \<in> {demo_failed, demo_completed} \<Longrightarrow> frame_fits ([1], demo_payload out)"
  by (auto simp: frame_fits_def max_frame_bytes_def demo_payload_def demo_failed_def demo_completed_def demo_effect_def)

lemma demo_response_encodes:
  assumes "out \<in> {demo_failed, demo_completed}"
  shows "encode_response_frame (demo_dispatch out) (demo_response out) = Inr (frame_of ([1], demo_payload out))"
    "decode_response_frame (demo_dispatch out) (frame_of ([1], demo_payload out)) = Inr (demo_response out)"
proof -
  show encoded: "encode_response_frame (demo_dispatch out) (demo_response out) = Inr (frame_of ([1], demo_payload out))"
    using demo_payload_fits [OF assms] by (simp add: encode_response_frame_def demo_response_wire encode_wire_frame_iff)
  have "readback_text_ok (demo_dispatch out) e" if "dr_effect (demo_response out) = Some e" for e
  proof -
    have e: "e = demo_effect"
      using that assms by (auto simp: demo_response_def demo_failed_def demo_completed_def)
    have "from_utf8 (str_bytes ''json'') = Some ''json''"
      by code_simp
    then show ?thesis
      by (simp add: readback_text_ok_def e demo_effect_def demo_dispatch_def)
  qed
  then show "decode_response_frame (demo_dispatch out) (frame_of ([1], demo_payload out)) = Inr (demo_response out)"
    by (rule response_frame_round_trip [OF demo_value_serde demo_response_serde [OF assms] encoded])
qed

lemma demo_response_signed:
  assumes "out \<in> {demo_failed, demo_completed}"
  shows "owner_signed_response (demo_dispatch out) (demo_env execution) demo_server ''d1'' demo_zero_sha (fst out)
     (fst (snd out)) (snd (snd out)) = Inr (frame_of ([1], demo_payload out))"
proof -
  let ?unsigned = "(demo_response out)\<lparr>dr_signature_base64 := []\<rparr>"
  have response: "\<lparr>dr_schema_id = response_schema, dr_dispatch_id = ''d1'', dr_request_sha256 = demo_zero_sha,
      dr_status = fst out, dr_effect = fst (snd out), dr_failure = snd (snd out),
      dr_signer_key_id = sv_signer_key_id demo_server, dr_signature_base64 = []\<rparr> = ?unsigned"
    by (simp add: demo_response_def demo_server_def)
  have "length (demo_payload out) < 2 ^ 32"
    using assms by (auto simp: demo_payload_def demo_failed_def demo_completed_def demo_effect_def)
  then have signing: "\<exists>bs. response_signing_bytes (demo_dispatch out) ?unsigned = Inr bs"
    by (simp add: response_signing_bytes_def demo_response_wire wire_signing_bytes_def u32_from_len_def)
  have signed: "?unsigned\<lparr>dr_signature_base64 := encode_signature_base64 (replicate 64 0)\<rparr> = (demo_response out)"
    by (simp add: demo_response_def demo_signature_def)
  show ?thesis
    unfolding owner_signed_response_def Let_def response
    using signing signed demo_response_encodes(1) [OF assms] by (auto simp: demo_env_def)
qed

definition demo_handled_server :: "owner_outcome \<Rightarrow> owner_server" where
  "demo_handled_server out =
     (let journal = \<lparr>pending_sha256 = [], terminal = [(''d1'', (demo_response out))]\<rparr> in
      demo_server\<lparr>sv_replay := journal, sv_durable := journal,
        sv_calls := [(''d1'', dq_authority demo_request, demo_target, Execute)]\<rparr>)"

lemma demo_handled:
  assumes "owner_effect_outcome (demo_dispatch out) demo_request execution = out"
    and known: "out \<in> {demo_failed, demo_completed}"
  shows "handle_frame_with_admission (demo_dispatch out) (demo_env execution) demo_frame demo_server
     = (Inr (frame_of ([1], demo_payload out)), demo_handled_server out)"
proof -
  let ?pending = "\<lparr>pending_sha256 = [(''d1'', demo_zero_sha)], terminal = []\<rparr> :: dispatch_replay"
  let ?sv1 = "demo_server\<lparr>sv_replay := ?pending, sv_durable := ?pending\<rparr>"
  let ?sv2 = "?sv1\<lparr>sv_calls := [(''d1'', dq_authority demo_request, demo_target, Execute)]\<rparr>"
  have env: "oe_commit (demo_env execution) r = Committed" "oe_execute (demo_env execution) a t m = execution" for r a t m
    by (simp_all add: demo_env_def)
  have q: "dq_dispatch_id demo_request = ''d1''" "dq_ticket demo_request = demo_target"
    "dq_mode demo_request = Execute"
    by (simp_all add: demo_request_def)
  have reserve: "owner_reserve (demo_env execution) demo_request demo_zero_sha demo_server = (Inr (), ?sv1)"
    by (simp add: owner_reserve_def env q commit_result_def commit_durable_def demo_server_def Let_def)
  have enter: "owner_enter (demo_dispatch out) (demo_env execution) demo_request ?sv1 = (out, ?sv2)"
    using assms(1) by (simp add: owner_enter_def env q demo_server_def)
  have sv2: "owner_signed_response (demo_dispatch out) (demo_env execution) ?sv2 = owner_signed_response (demo_dispatch out) (demo_env execution) demo_server"
    by (simp add: owner_signed_response_def fun_eq_iff)
  have vec: "m_replay_to_vec (demo_dispatch out) r = Some []" for r
    by (simp add: demo_dispatch_def demo_exchange_def)
  have "owner_settle (demo_dispatch out) (demo_env execution) demo_request demo_zero_sha out ?sv2
     = (Inr (frame_of ([1], demo_payload out)), demo_handled_server out)"
    unfolding owner_settle_def q fst_conv snd_conv sv2 demo_response_signed [OF known]
    by (simp add: demo_response_encodes(2) [OF known] vec too_many_bytes_def env commit_result_def commit_durable_def
        demo_handled_server_def Let_def bt_remove_def)
  then show ?thesis
    by (simp add: handle_frame_with_admission_def demo_classified reserve enter)
qed

lemma demo_failed_handled:
  "handle_frame_with_admission (demo_dispatch demo_failed) (demo_env (Inl ''no device'')) demo_frame demo_server
     = (Inr (frame_of ([1], [])), demo_handled_server demo_failed)"
  using demo_handled [of demo_failed "Inl ''no device''"]
  by (simp add: owner_effect_outcome_def demo_failed_def demo_payload_def)

section \<open>Journal identities\<close>

text \<open>What both the memory and the store hold survives.\<close>

definition keeps_ids :: "owner_server \<Rightarrow> owner_server \<Rightarrow> bool" where
  "keeps_ids sv sv' =
     (replay_ids (sv_replay sv) \<inter> replay_ids (sv_durable sv)
       \<subseteq> replay_ids (sv_replay sv') \<inter> replay_ids (sv_durable sv'))"

lemma keeps_ids_refl [simp]: "keeps_ids sv sv"
  by (simp add: keeps_ids_def)

lemma keeps_ids_trans: "keeps_ids a b \<Longrightarrow> keeps_ids b c \<Longrightarrow> keeps_ids a c"
  unfolding keeps_ids_def by (rule subset_trans)

lemma owner_classify_new:
  "owner_classify x env frame sv = Inr (Inr (q, h)) \<Longrightarrow>
     dq_dispatch_id q \<notin> replay_ids (sv_replay sv) \<and> h = x_sha x frame
     \<and> decode_request_frame x frame = Inr q"
  by (auto simp: owner_classify_def Let_def result_simps not_in_replay_ids
      split: if_splits option.splits)

lemma owner_reserve_facts:
  assumes "dq_dispatch_id q \<notin> replay_ids (sv_replay sv)"
    and "owner_reserve env q h sv = (r, sv')"
  shows "keeps_ids sv sv'" "sv_calls sv' = sv_calls sv"
    "r = Inr () \<Longrightarrow> dq_dispatch_id q \<in> replay_ids (sv_replay sv') \<inter> replay_ids (sv_durable sv')"
  using assms commit_durable_cases
    [of "oe_commit env ((sv_replay sv)\<lparr>pending_sha256 :=
        bt_insert (dq_dispatch_id q) h (pending_sha256 (sv_replay sv))\<rparr>)" "sv_durable sv"
      "(sv_replay sv)\<lparr>pending_sha256 :=
        bt_insert (dq_dispatch_id q) h (pending_sha256 (sv_replay sv))\<rparr>"]
  by (auto simp: owner_reserve_def Let_def keeps_ids_def ids_reserved ids_unreserved
      commit_durable_ok split: sum.splits)

lemma owner_enter_facts:
  assumes "owner_enter x env q sv = (out, sv')"
  shows "keeps_ids sv sv'" "sv_replay sv' = sv_replay sv" "sv_durable sv' = sv_durable sv"
    "map fst (sv_calls sv') = map fst (sv_calls sv) @ [dq_dispatch_id q]"
  using assms by (auto simp: owner_enter_def keeps_ids_def)

lemma owner_settle_facts:
  assumes "owner_settle x env q h out sv = (r, sv')"
  shows "keeps_ids sv sv'" "sv_calls sv' = sv_calls sv"
proof -
  have d: "commit_durable c old new = old \<or> commit_durable c old new = new" for c and old new :: dispatch_replay
    using commit_durable_cases [of c old new] by simp
  show "sv_calls sv' = sv_calls sv"
    using assms by (auto simp: owner_settle_def Let_def split: sum.splits prod.splits)
  show "keeps_ids sv sv'"
    using assms
    by (auto simp: owner_settle_def Let_def result_simps keeps_ids_def ids_settled commit_durable_ok
        split: sum.splits prod.splits if_splits)
      (metis d ids_settled insertCI)+
qed

lemma owner_reload_keeps: "keeps_ids sv (owner_reload sv)" "sv_calls (owner_reload sv) = sv_calls sv"
  by (auto simp: keeps_ids_def owner_reload_def)

lemma owner_handled_phases:
  "snd (handle_frame_with_admission x env frame sv)
     = phased_handle (owner_new x) (\<lambda>_ sv. sv) owner_reserve_state (owner_enter_state x)
         (owner_settle_state x) (env, frame) sv"
  by (auto simp: handle_frame_with_admission_def phased_handle_def owner_new_def owner_reserve_state_def
      owner_enter_state_def owner_settle_state_def owner_enter_def split: sum.splits prod.splits)

lemma owner_step_phases:
  "owner_step x = server_step
     (phased_handle (owner_new x) (\<lambda>_ sv. sv) owner_reserve_state (owner_enter_state x) (owner_settle_state x))
     (phased_reserved (owner_new x) owner_reserve_state)
     (phased_entered (owner_new x) owner_reserve_state (owner_enter_state x)) owner_reload"
proof -
  have "(\<lambda>(env, frame) sv. snd (handle_frame_with_admission x env frame sv))
     = phased_handle (owner_new x) (\<lambda>_ sv. sv) owner_reserve_state (owner_enter_state x) (owner_settle_state x)"
    by (auto simp: fun_eq_iff owner_handled_phases)
  then show ?thesis
    by (simp only: owner_step_def)
qed

lemma owner_new_iff:
  "owner_new x (env, frame) sv = Some w \<longleftrightarrow> owner_classify x env frame sv = Inr (Inr w)"
  by (auto simp: owner_new_def split: sum.splits)

lemma owner_reserve_state_eq:
  "owner_reserve_state (env, frame) (q, h) sv = (ok, sv') \<longleftrightarrow>
     (\<exists>r. owner_reserve env q h sv = (r, sv') \<and> ok = is_ok r)"
  by (auto simp: owner_reserve_state_def split: prod.splits)

interpretation owner_journal: write_ahead "owner_new x" "\<lambda>_ sv. sv" owner_reserve_state
  "owner_enter_state x" "owner_settle_state x" owner_reload "\<lambda>w. dq_dispatch_id (fst w)"
  "\<lambda>sv. map fst (sv_calls sv)" "\<lambda>sv. replay_ids (sv_replay sv)" "\<lambda>sv. replay_ids (sv_durable sv)" for x
proof unfold_locales
  fix f :: "owner_env \<times> bytes" and w :: "dispatch_request \<times> string" and sv sv' ok
  obtain env frame q h where fw [simp]: "f = (env, frame)" "w = (q, h)"
    by (cases f, cases w)
  show "replay_ids (sv_replay sv) \<inter> replay_ids (sv_durable sv)
      \<subseteq> replay_ids (sv_replay (owner_enter_state x f w sv)) \<inter> replay_ids (sv_durable (owner_enter_state x f w sv))"
    "map fst (sv_calls (owner_enter_state x f w sv)) = map fst (sv_calls sv) @ [dq_dispatch_id (fst w)]"
    by (simp_all add: owner_enter_state_def owner_enter_def)
  show "replay_ids (sv_replay sv) \<inter> replay_ids (sv_durable sv)
      \<subseteq> replay_ids (sv_replay (owner_settle_state x f w sv)) \<inter> replay_ids (sv_durable (owner_settle_state x f w sv))"
    "map fst (sv_calls (owner_settle_state x f w sv)) = map fst (sv_calls sv)"
    using owner_settle_facts [where x = x, OF prod.collapse [symmetric]]
    by (simp_all add: owner_settle_state_def keeps_ids_def)
  assume new: "owner_new x f sv = Some w"
  then have unknown: "dq_dispatch_id q \<notin> replay_ids (sv_replay sv)"
    using owner_classify_new [of x env frame sv q h] by (simp add: owner_new_iff)
  then show "dq_dispatch_id (fst w) \<notin> replay_ids (sv_replay sv)"
    by simp
  show "replay_ids (sv_replay sv) \<inter> replay_ids (sv_durable sv)
      \<subseteq> replay_ids (sv_replay sv') \<inter> replay_ids (sv_durable sv')"
    "map fst (sv_calls sv') = map fst (sv_calls sv)"
    if "owner_reserve_state f w sv = (ok, sv')"
    using that owner_reserve_facts(1,2) [OF unknown, of env h _ sv']
    by (simp_all add: owner_reserve_state_eq keeps_ids_def) metis+
  show "dq_dispatch_id (fst w) \<in> replay_ids (sv_replay sv') \<inter> replay_ids (sv_durable sv')"
    if "owner_reserve_state f w sv = (True, sv')"
    using that owner_reserve_facts(3) [OF unknown] by (auto simp: owner_reserve_state_eq is_ok_unit)
qed (simp_all add: owner_reload_def)

section \<open>Guarantees\<close>

text \<open>C1. Exactly once: from a restored server, in any sequence of frames handled, store commits
  failing in either way, crashes before or after the platform effect, and restarts from the
  durable snapshot, no dispatch identity enters the platform registry more than once.\<close>

theorem owner_effects_exactly_once:
  assumes "restore_owner_server x target key replay = Inr sv"
  shows "distinct (map fst (sv_calls (owner_run x events sv)))"
proof -
  have "map fst (sv_calls sv) = []"
    using assms by (auto simp: restore_owner_server_def split: if_splits)
  then show ?thesis
    unfolding owner_run_def owner_step_phases by (rule owner_journal.at_most_once)
qed

theorem owner_effects_exactly_once_witness:
  "restore_owner_server (demo_dispatch demo_failed) ''peer'' ''t'' \<lparr>pending_sha256 = [], terminal = []\<rparr> = Inr demo_server
   \<and> map fst (sv_calls (owner_run (demo_dispatch demo_failed) [Handle ((demo_env (Inl ''no device'')), demo_frame), Restart] demo_server)) = [''d1'']
   \<and> distinct (map fst (sv_calls (owner_run (demo_dispatch demo_failed) [Handle ((demo_env (Inl ''no device'')), demo_frame), Restart] demo_server)))"
  using owner_effects_exactly_once [OF demo_restored] demo_restored
  by (simp add: owner_run_def owner_step_def demo_failed_handled demo_handled_server_def owner_reload_def Let_def)

lemma owner_classify_newD:
  assumes "owner_classify x env frame sv = Inr (Inr (q, h))"
  shows "\<exists>now validity signing signature.
     validate_request_shape q (sv_target_peer_id sv) = Inr ()
     \<and> oe_now_ms env = Inr now \<and> oe_validity_ms env = Inr validity
     \<and> \<not> saturating_add now max_future_skew_ms < dq_issued_at_ms q
     \<and> \<not> validity < saturating_sub now (dq_issued_at_ms q)
     \<and> request_signing_bytes x q = Inr signing
     \<and> decode_signature_base64 (dq_signature_base64 q) = Inr signature
     \<and> oe_verify_current env q signing signature = Inr () \<and> oe_admit env q = Inr ()"
    and "length (pending_sha256 (sv_replay sv)) < max_pending"
      "length (terminal (sv_replay sv)) < max_replays"
  using assms
  by (auto simp: owner_classify_def Let_def result_simps split: if_splits option.splits)

lemma handle_frame_cases:
  assumes "handle_frame_with_admission x env frame sv = (r, sv')"
  obtains (old) "sv' = sv"
  | (unreserved) q h e where "owner_classify x env frame sv = Inr (Inr (q, h))"
      "owner_reserve env q h sv = (Inl e, sv')" "r = Inl e"
  | (entered) q h sv1 out sv2 where "owner_classify x env frame sv = Inr (Inr (q, h))"
      "owner_reserve env q h sv = (Inr (), sv1)" "owner_enter x env q sv1 = (out, sv2)"
      "owner_settle x env q h out sv2 = (r, sv')"
  using assms unfolding handle_frame_with_admission_def
  by (auto split: sum.splits prod.splits)

text \<open>C12. Only authentic requests reach the platform: whenever handling a frame calls the registry,
  the frame decodes to a request for this peer that no journal entry knew, issued within the
  skew and validity bounds of the clock, whose signature the current authority verified and the
  process admitted, and the call is made with exactly its authority, ticket and mode.\<close>

theorem owner_effect_is_authenticated:
  assumes handled: "handle_frame_with_admission x env frame sv = (r, sv')"
    and entered: "sv_calls sv' \<noteq> sv_calls sv"
  shows "\<exists>q now validity signing signature.
     decode_request_frame x frame = Inr q
     \<and> dq_target_peer_id q = sv_target_peer_id sv
     \<and> au_executor_peer_id (dq_authority q) = sv_target_peer_id sv
     \<and> tk_client_id (dq_ticket q) = au_authority_client_id (dq_authority q)
     \<and> tk_lease_id (dq_ticket q) = au_authority_runtime_lease_id (dq_authority q)
     \<and> dq_dispatch_id q \<notin> replay_ids (sv_replay sv)
     \<and> oe_now_ms env = Inr now \<and> oe_validity_ms env = Inr validity
     \<and> unat (dq_issued_at_ms q) \<le> unat now + 2000
     \<and> unat now - unat (dq_issued_at_ms q) \<le> unat validity
     \<and> request_signing_bytes x q = Inr signing
     \<and> decode_signature_base64 (dq_signature_base64 q) = Inr signature
     \<and> oe_verify_current env q signing signature = Inr () \<and> oe_admit env q = Inr ()
     \<and> sv_calls sv' = sv_calls sv @ [(dq_dispatch_id q, dq_authority q, dq_ticket q, dq_mode q)]"
  using handled
proof (cases rule: handle_frame_cases)
  case (unreserved q h e)
  then show ?thesis
    using entered owner_reserve_facts(2) [OF _ unreserved(2)] owner_classify_new [OF unreserved(1)] by simp
next
  case (entered q h sv1 out sv2)
  note new = owner_classify_new [OF entered(1)]
  obtain now validity signing signature where
    ok: "validate_request_shape q (sv_target_peer_id sv) = Inr ()"
      "oe_now_ms env = Inr now" "oe_validity_ms env = Inr validity"
      "\<not> saturating_add now max_future_skew_ms < dq_issued_at_ms q"
      "\<not> validity < saturating_sub now (dq_issued_at_ms q)"
      "request_signing_bytes x q = Inr signing"
      "decode_signature_base64 (dq_signature_base64 q) = Inr signature"
      "oe_verify_current env q signing signature = Inr ()" "oe_admit env q = Inr ()"
    using owner_classify_newD(1) [OF entered(1)] by blast
  have "unat (dq_issued_at_ms q) \<le> unat now + 2000"
    using ok(4) by (simp add: word_less_nat_alt unat_saturating_add max_future_skew_ms_def min_def
        not_less split: if_splits)
  moreover have "unat now - unat (dq_issued_at_ms q) \<le> unat validity"
    using ok(5) by (simp add: word_less_nat_alt unat_saturating_sub not_less)
  moreover have "sv_calls sv' = sv_calls sv @ [(dq_dispatch_id q, dq_authority q, dq_ticket q, dq_mode q)]"
    using owner_settle_facts(2) [OF entered(4)] entered(3) owner_reserve_facts(2) [OF _ entered(2)] new
    by (auto simp: owner_enter_def)
  ultimately show ?thesis
    using ok new by (auto simp: validate_request_shape_def Let_def result_simps)
qed (use entered in simp)

theorem owner_effect_is_authenticated_witness:
  "sv_calls (demo_handled_server demo_failed) \<noteq> sv_calls demo_server
   \<and> (\<exists>q. decode_request_frame (demo_dispatch demo_failed) demo_frame = Inr q \<and> oe_admit (demo_env (Inl ''no device'')) q = Inr ()
        \<and> sv_calls (demo_handled_server demo_failed)
            = sv_calls demo_server @ [(dq_dispatch_id q, dq_authority q, dq_ticket q, dq_mode q)])"
proof -
  have "sv_calls (demo_handled_server demo_failed) \<noteq> sv_calls demo_server"
    by (simp add: demo_handled_server_def demo_server_def Let_def)
  with owner_effect_is_authenticated [OF demo_failed_handled this] show ?thesis
    by blast
qed

section \<open>Bounds\<close>

definition server_wf :: "owner_server \<Rightarrow> bool" where
  "server_wf sv = (replay_wf (sv_replay sv) \<and> replay_wf (sv_durable sv))"

lemma owner_reserve_wf:
  assumes "owner_classify x env frame sv = Inr (Inr (q, h))" "server_wf sv"
    and "owner_reserve env q h sv = (r, sv')"
  shows "server_wf sv'"
proof -
  let ?r = "(sv_replay sv)\<lparr>pending_sha256 := bt_insert (dq_dispatch_id q) h (pending_sha256 (sv_replay sv))\<rparr>"
  have new: "dq_dispatch_id q \<notin> replay_ids (sv_replay sv)"
    using owner_classify_new [OF assms(1)] by simp
  have wf: "replay_wf ?r"
    using assms(2) new owner_classify_newD(2) [OF assms(1)]
    by (simp add: server_wf_def replay_wf_reserved)
  with assms(2) have durable: "replay_wf (commit_durable c (sv_durable sv) ?r)" for c
    by (simp add: server_wf_def commit_durable_wf)
  from assms(3) wf durable assms(2) replay_unreserved [OF new, of h] show ?thesis
    by (auto simp: owner_reserve_def Let_def server_wf_def split: sum.splits)
qed

lemma owner_settle_wf:
  assumes "server_wf sv" "dq_dispatch_id q \<in> set (map fst (pending_sha256 (sv_replay sv)))"
    "length (terminal (sv_replay sv)) < max_replays"
    and "owner_settle x env q h out sv = (r, sv')"
  shows "server_wf sv'"
proof -
  have wf: "replay_wf ((sv_replay sv)\<lparr>pending_sha256 := bt_remove (dq_dispatch_id q) (pending_sha256 (sv_replay sv)),
      terminal := bt_insert (dq_dispatch_id q) v (terminal (sv_replay sv))\<rparr>)" for v
    using assms(1-3) by (simp only: server_wf_def replay_wf_settled)
  from assms(4) wf commit_durable_wf [OF _ wf] assms(1) show ?thesis
    by (auto simp: owner_settle_def Let_def result_simps server_wf_def
        split: sum.splits prod.splits if_splits)
qed

lemma owner_reserved_pending:
  assumes "owner_reserve env q h sv = (Inr (), sv')"
  shows "dq_dispatch_id q \<in> set (map fst (pending_sha256 (sv_replay sv')))"
    "terminal (sv_replay sv') = terminal (sv_replay sv)"
  using assms by (auto simp: owner_reserve_def Let_def simp del: set_map split: sum.splits)

interpretation owner_bounds: write_ahead_invariant "owner_new x" "\<lambda>_ sv. sv" owner_reserve_state
  "owner_enter_state x" "owner_settle_state x" owner_reload server_wf
  "\<lambda>w sv. dq_dispatch_id (fst w) \<in> set (map fst (pending_sha256 (sv_replay sv)))
     \<and> length (terminal (sv_replay sv)) < max_replays" for x
proof unfold_locales
  fix f :: "owner_env \<times> bytes" and w :: "dispatch_request \<times> string" and sv sv' ok
  obtain env frame q h where fw [simp]: "f = (env, frame)" "w = (q, h)"
    by (cases f, cases w)
  assume wf: "server_wf sv"
  then show "server_wf (owner_enter_state x f w sv)"
    by (simp add: owner_enter_state_def owner_enter_def server_wf_def)
  show "server_wf (owner_settle_state x f w sv)"
    if "dq_dispatch_id (fst w) \<in> set (map fst (pending_sha256 (sv_replay sv)))
      \<and> length (terminal (sv_replay sv)) < max_replays"
    using owner_settle_wf [OF wf _ _ prod.collapse [symmetric], of q] that
    by (simp add: owner_settle_state_def del: set_map)
  assume "owner_new x f sv = Some w"
  then have new: "owner_classify x env frame sv = Inr (Inr (q, h))"
    by (simp add: owner_new_iff)
  show "server_wf sv'" if "owner_reserve_state f w sv = (ok, sv')"
    using that owner_reserve_wf [OF new wf] by (auto simp: owner_reserve_state_eq)
  show "dq_dispatch_id (fst w) \<in> set (map fst (pending_sha256 (sv_replay sv')))
      \<and> length (terminal (sv_replay sv')) < max_replays" if "owner_reserve_state f w sv = (True, sv')"
    using that owner_reserved_pending owner_classify_newD(3) [OF new]
    by (auto simp: owner_reserve_state_eq is_ok_unit simp del: set_map)
qed (auto simp: owner_enter_state_def owner_enter_def owner_reload_def server_wf_def simp del: set_map
    split: prod.splits)

text \<open>The journals stay within their bounds: starting from a restored, well-ordered journal, after
  any history of frames, failures and crashes both the journal in memory and the durable one
  hold at most 32 pending and 256 terminal identities, and no identity is in both maps.\<close>

theorem owner_journals_stay_bounded:
  assumes "restore_owner_server x target key replay = Inr sv"
    and "bt_wf (pending_sha256 replay)" "bt_wf (terminal replay)"
  shows "let sv' = owner_run x events sv in
     replay_wf (sv_replay sv') \<and> replay_wf (sv_durable sv')"
proof -
  have "server_wf sv"
    using assms by (auto simp: restore_owner_server_def server_wf_def replay_wf_def split: if_splits)
  then have "server_wf (owner_run x events sv)"
    unfolding owner_run_def owner_step_phases by (rule owner_bounds.inv_run)
  then show ?thesis
    by (simp add: server_wf_def Let_def)
qed

theorem owner_journals_stay_bounded_witness:
  "restore_owner_server (demo_dispatch demo_failed) ''peer'' ''t'' \<lparr>pending_sha256 = [], terminal = []\<rparr> = Inr demo_server
   \<and> replay_wf (sv_durable (owner_run (demo_dispatch demo_failed) [Handle ((demo_env (Inl ''no device'')), demo_frame)] demo_server))"
  using owner_journals_stay_bounded [OF demo_restored [of demo_failed], of "[Handle ((demo_env (Inl ''no device'')), demo_frame)]"] demo_restored
  by (simp add: bt_wf_def Let_def)

end
