(* ===== verification/Activation_Server.thy ===== *)
theory Activation_Server
  imports Owner_Wire Replay_Journal
begin

text \<open>
  The product activation server (\<open>ProductActivationServer\<close> in \<open>owner_dispatch.rs\<close>): the same
  write-ahead journal as the dispatch server, but a retry of a pending activation is settled as
  uncertain instead of being answered from the pending entry.
\<close>

section \<open>State\<close>

type_synonym activation_replay = "activation_response replay_snapshot"

record activation_env =
  ae_now_ms :: "string + u64"
  ae_validity_ms :: "string + u64"
  ae_verify_activation :: "activation_request \<Rightarrow> bytes \<Rightarrow> bytes \<Rightarrow> string + unit"
  ae_activate :: "string \<Rightarrow> dispatch_authority \<Rightarrow> activation_proof \<Rightarrow> string + activation_readback"
  ae_sign :: "bytes \<Rightarrow> string + bytes"
  ae_commit :: "activation_replay \<Rightarrow> commit_outcome"

record activation_server =
  av_target_peer_id :: string
  av_signer_key_id :: string
  av_replay :: activation_replay
  av_durable :: activation_replay
  av_calls :: "(string \<times> dispatch_authority \<times> activation_proof) list"

definition restore_activation_server ::
  "('k, 'n) media_externals \<Rightarrow> string \<Rightarrow> string \<Rightarrow> activation_replay \<Rightarrow> string + activation_server" where
  "restore_activation_server x target_peer_id signer_key_id replay =
     (if target_peer_id = []
        \<or> max_pending < length (pending_sha256 replay)
        \<or> max_replays < length (terminal replay)
        \<or> too_many_bytes (m_activation_replay_to_vec x replay)
        \<or> replay_overlaps replay
      then Inl ''invalid activation replay state''
      else Inr \<lparr>av_target_peer_id = target_peer_id, av_signer_key_id = signer_key_id,
             av_replay = replay, av_durable = replay, av_calls = []\<rparr>)"

section \<open>Requests\<close>

definition validate_product_activation_shape ::
  "('k, 'n) media_externals \<Rightarrow> activation_request \<Rightarrow> string \<Rightarrow> string + unit" where
  "validate_product_activation_shape x q target_peer_id =
     (let p = aq_proof q; a = aq_authority q in
      reject_if
        (aq_schema_id q \<noteq> activation_request_schema \<or> aq_activation_id q = []
         \<or> aq_issued_at_ms q = 0 \<or> aq_expires_at_ms q \<le> aq_issued_at_ms q
         \<or> aq_target_peer_id q \<noteq> target_peer_id
         \<or> au_executor_peer_id a \<noteq> target_peer_id
         \<or> aq_signer_key_id q = []
         \<or> au_authorization_kind a \<noteq> CurrentRoute
         \<or> au_expires_at_ms a < aq_expires_at_ms q
         \<or> ap_action_id p = []
         \<or> ap_provider_epoch_id p \<noteq> au_authority_provider_epoch_id a
         \<or> ap_client_id p \<noteq> au_authority_client_id a
         \<or> ap_lease_id p \<noteq> au_authority_runtime_lease_id a
         \<or> ap_runtime_spec_id p \<noteq> au_platform_runtime_spec_id a
         \<or> ap_resulting_runtime_revision p = 0
         \<or> length (ap_owner_receipt_ids p) \<noteq> 7
         \<or> list_ex (\<lambda>i. i = []) (ap_owner_receipt_ids p)
         \<or> length (remdups (ap_owner_receipt_ids p)) \<noteq> 7
         \<or> \<not> valid_sha256 (ap_completion_sha256 p)
         \<or> ap_completion_sha256 p \<noteq> x_sha x (str_bytes (aq_completion_json q)))
        ''product activation binding mismatch'')"

definition activation_signed_response ::
  "('k, 'n) media_externals \<Rightarrow> activation_env \<Rightarrow> activation_server \<Rightarrow> string \<Rightarrow> string \<Rightarrow> dispatch_status
     \<Rightarrow> activation_readback option \<Rightarrow> string option \<Rightarrow> string + bytes" where
  "activation_signed_response x env sv activation_id request_sha256 status readback failure =
     (let response =
        \<lparr>as_schema_id = activation_response_schema, as_activation_id = activation_id,
         as_request_sha256 = request_sha256, as_status = status, as_readback = readback,
         as_failure = failure, as_signer_key_id = av_signer_key_id sv, as_signature_base64 = []\<rparr>
      in
      and_then (activation_response_signing_bytes x response) (\<lambda>bs.
      and_then (ae_sign env bs) (\<lambda>signature.
      encode_activation_response x (response\<lparr>as_signature_base64 := encode_signature_base64 signature\<rparr>))))"

text \<open>
  The end of \<open>handle_frame\<close> and the whole of \<open>terminalize_pending\<close> are the same code: sign,
  decode again, move the identity to the terminal map, commit, adopt.
\<close>

definition activation_finish ::
  "('k, 'n) media_externals \<Rightarrow> activation_env \<Rightarrow> string \<Rightarrow> string \<Rightarrow> dispatch_status
     \<Rightarrow> activation_readback option \<Rightarrow> string option \<Rightarrow> activation_server
     \<Rightarrow> (string + bytes) \<times> activation_server" where
  "activation_finish x env activation_id request_sha256 status readback failure sv =
     (let prepared =
        and_then (activation_signed_response x env sv activation_id request_sha256 status readback failure)
          (\<lambda>encoded.
        and_then (decode_activation_response x encoded) (\<lambda>response.
        let replay = av_replay sv;
            committed = replay\<lparr>pending_sha256 := bt_remove activation_id (pending_sha256 replay),
              terminal := bt_insert activation_id response (terminal replay)\<rparr>
        in if too_many_bytes (m_activation_replay_to_vec x committed)
           then Inl ''activation replay byte capacity''
           else Inr (encoded, committed)))
      in case prepared of
           Inl error \<Rightarrow> (Inl error, sv)
         | Inr (encoded, committed) \<Rightarrow>
             let outcome = ae_commit env committed;
                 durable = commit_durable outcome (av_durable sv) committed
             in (case commit_result outcome of
                   Inl error \<Rightarrow> (Inl error, sv\<lparr>av_durable := durable\<rparr>)
                 | Inr _ \<Rightarrow> (Inr encoded, sv\<lparr>av_replay := committed, av_durable := durable\<rparr>)))"

definition terminalize_pending ::
  "('k, 'n) media_externals \<Rightarrow> activation_env \<Rightarrow> string \<Rightarrow> string \<Rightarrow> activation_server
     \<Rightarrow> (string + bytes) \<times> activation_server" where
  "terminalize_pending x env activation_id request_sha256 sv =
     activation_finish x env activation_id request_sha256 Uncertain None
       (Some ''activation_state_uncertain'') sv"

text \<open>Up to the reservation, \<open>handle_frame\<close> finds one of three things.\<close>

datatype activation_class =
    Replayed bytes
  | PendingRetry string string
  | NewActivation activation_request string

definition activation_classify ::
  "('k, 'n) media_externals \<Rightarrow> activation_env \<Rightarrow> bytes \<Rightarrow> activation_server \<Rightarrow> string + activation_class" where
  "activation_classify x env frame sv =
     and_then (decode_activation_request x frame) (\<lambda>q.
     and_then (validate_product_activation_shape x q (av_target_peer_id sv)) (\<lambda>_.
     let request_sha256 = x_sha x frame in
     case bt_get (terminal (av_replay sv)) (aq_activation_id q) of
       Some response \<Rightarrow>
         if as_request_sha256 response \<noteq> request_sha256
         then Inl ''activation replay identity collision''
         else and_then (encode_activation_response x response) (\<lambda>bs. Inr (Replayed bs))
     | None \<Rightarrow>
     (case bt_get (pending_sha256 (av_replay sv)) (aq_activation_id q) of
       Some pending \<Rightarrow>
         if pending \<noteq> request_sha256 then Inl ''activation replay identity collision''
         else Inr (PendingRetry (aq_activation_id q) request_sha256)
     | None \<Rightarrow>
         and_then (ae_now_ms env) (\<lambda>now_ms.
         and_then (ae_validity_ms env) (\<lambda>validity_ms.
         if validity_ms = 0 \<or> now_ms = 0
           \<or> saturating_add now_ms max_future_skew_ms < aq_issued_at_ms q
           \<or> aq_expires_at_ms q \<le> now_ms
           \<or> validity_ms < saturating_sub now_ms (aq_issued_at_ms q)
         then Inl ''activation request is not current''
         else if max_pending \<le> length (pending_sha256 (av_replay sv))
           \<or> max_replays \<le> length (terminal (av_replay sv))
         then Inl ''activation replay capacity''
         else
           and_then (activation_request_signing_bytes x q) (\<lambda>signing.
           and_then (decode_signature_base64 (aq_signature_base64 q)) (\<lambda>signature.
           and_then (ae_verify_activation env q signing signature) (\<lambda>_.
           Inr (NewActivation q request_sha256)))))))))"

definition activation_reserve ::
  "activation_env \<Rightarrow> activation_request \<Rightarrow> string \<Rightarrow> activation_server
     \<Rightarrow> (string + unit) \<times> activation_server" where
  "activation_reserve env q request_sha256 sv =
     (let old = av_replay sv;
          replay = old\<lparr>pending_sha256 := bt_insert (aq_activation_id q) request_sha256 (pending_sha256 old)\<rparr>;
          outcome = ae_commit env replay;
          durable = commit_durable outcome (av_durable sv) replay
      in case commit_result outcome of
           Inr _ \<Rightarrow> (Inr (), sv\<lparr>av_replay := replay, av_durable := durable\<rparr>)
         | Inl error \<Rightarrow>
             (Inl (''activation pending persistence: '' @ error),
              sv\<lparr>av_replay := replay\<lparr>pending_sha256 := bt_remove (aq_activation_id q) (pending_sha256 replay)\<rparr>,
                 av_durable := durable\<rparr>))"

type_synonym activation_outcome = "dispatch_status \<times> activation_readback option \<times> string option"

definition activation_outcome_of ::
  "activation_request \<Rightarrow> string + activation_readback \<Rightarrow> activation_outcome" where
  "activation_outcome_of q activation =
     (let uncertain = (Uncertain, None, Some ''activation_effect_uncertain'') in
      case activation of
        Inl _ \<Rightarrow> uncertain
      | Inr v \<Rightarrow>
          if ab_schema_id v = activation_readback_schema
            \<and> ab_activation_id v = aq_activation_id q
            \<and> ab_route_grant_id v = au_route_grant_id (aq_authority q)
            \<and> 0 < ab_resulting_state_revision v
            \<and> ab_activated v
          then (Completed, Some v, None)
          else uncertain)"

definition activation_enter :: "activation_env \<Rightarrow> activation_request \<Rightarrow> activation_server
     \<Rightarrow> activation_outcome \<times> activation_server" where
  "activation_enter env q sv =
     (activation_outcome_of q (ae_activate env (aq_activation_id q) (aq_authority q) (aq_proof q)),
      sv\<lparr>av_calls := av_calls sv @ [(aq_activation_id q, aq_authority q, aq_proof q)]\<rparr>)"

definition activation_handle_frame ::
  "('k, 'n) media_externals \<Rightarrow> activation_env \<Rightarrow> bytes \<Rightarrow> activation_server
     \<Rightarrow> (string + bytes) \<times> activation_server" where
  "activation_handle_frame x env frame sv =
     (case activation_classify x env frame sv of
        Inl error \<Rightarrow> (Inl error, sv)
      | Inr (Replayed bs) \<Rightarrow> (Inr bs, sv)
      | Inr (PendingRetry activation_id request_sha256) \<Rightarrow>
          terminalize_pending x env activation_id request_sha256 sv
      | Inr (NewActivation q request_sha256) \<Rightarrow>
          (case activation_reserve env q request_sha256 sv of
             (Inl error, sv) \<Rightarrow> (Inl error, sv)
           | (Inr _, sv) \<Rightarrow>
               (case activation_enter env q sv of
                  ((status, readback, failure), sv) \<Rightarrow>
                    activation_finish x env (aq_activation_id q) request_sha256 status readback failure sv)))"

section \<open>Histories\<close>

definition activation_new ::
  "('k, 'n) media_externals \<Rightarrow> activation_env \<times> bytes \<Rightarrow> activation_server
     \<Rightarrow> (activation_request \<times> string) option" where
  "activation_new x = (\<lambda>(env, frame) sv.
     case activation_classify x env frame sv of Inr (NewActivation q h) \<Rightarrow> Some (q, h) | _ \<Rightarrow> None)"

definition activation_answer_state ::
  "('k, 'n) media_externals \<Rightarrow> activation_env \<times> bytes \<Rightarrow> activation_server \<Rightarrow> activation_server" where
  "activation_answer_state x = (\<lambda>(env, frame) sv.
     case activation_classify x env frame sv of
       Inr (PendingRetry activation_id h) \<Rightarrow> snd (terminalize_pending x env activation_id h sv)
     | _ \<Rightarrow> sv)"

definition activation_reserve_state ::
  "activation_env \<times> bytes \<Rightarrow> activation_request \<times> string \<Rightarrow> activation_server \<Rightarrow> bool \<times> activation_server" where
  "activation_reserve_state = (\<lambda>(env, _) (q, request_sha256) sv.
     case activation_reserve env q request_sha256 sv of (r, sv) \<Rightarrow> (is_ok r, sv))"

definition activation_enter_state ::
  "activation_env \<times> bytes \<Rightarrow> activation_request \<times> string \<Rightarrow> activation_server \<Rightarrow> activation_server" where
  "activation_enter_state = (\<lambda>(env, _) (q, _) sv. snd (activation_enter env q sv))"

definition activation_settle_state ::
  "('k, 'n) media_externals \<Rightarrow> activation_env \<times> bytes \<Rightarrow> activation_request \<times> string
     \<Rightarrow> activation_server \<Rightarrow> activation_server" where
  "activation_settle_state x = (\<lambda>(env, _) (q, request_sha256) sv.
     case activation_outcome_of q (ae_activate env (aq_activation_id q) (aq_authority q) (aq_proof q)) of
       (status, readback, failure) \<Rightarrow>
         snd (activation_finish x env (aq_activation_id q) request_sha256 status readback failure sv))"

definition activation_reload :: "activation_server \<Rightarrow> activation_server" where
  "activation_reload sv = sv\<lparr>av_replay := av_durable sv\<rparr>"

definition activation_step ::
  "('k, 'n) media_externals \<Rightarrow> (activation_env \<times> bytes) server_event \<Rightarrow> activation_server
     \<Rightarrow> activation_server" where
  "activation_step x = server_step
     (\<lambda>(env, frame) sv. snd (activation_handle_frame x env frame sv))
     (phased_reserved (activation_new x) activation_reserve_state)
     (phased_entered (activation_new x) activation_reserve_state activation_enter_state) activation_reload"

definition activation_run ::
  "('k, 'n) media_externals \<Rightarrow> (activation_env \<times> bytes) server_event list \<Rightarrow> activation_server
     \<Rightarrow> activation_server" where
  "activation_run x = fold (activation_step x)"

end
