(* ===== verification/Activation_Proofs.thy ===== *)
theory Activation_Proofs
  imports Activation_Server Owner_Server_Proofs
begin

text \<open>
  The activation server meets the same exactly-once contract as the dispatch server, enters the
  registry only for authenticated, fully bound activations, and bounds its journal; the bound is
  larger than what its own restore accepts.
\<close>

section \<open>A concrete server\<close>

definition demo_activation_request :: activation_request where
  "demo_activation_request =
     \<lparr>aq_schema_id = activation_request_schema, aq_activation_id = ''a1'', aq_issued_at_ms = 50,
      aq_expires_at_ms = 90, aq_target_peer_id = ''peer'', aq_authority = dq_authority demo_request,
      aq_proof = \<lparr>ap_action_id = ''act'', ap_provider_epoch_id = ''epoch'', ap_client_id = ''client'',
        ap_lease_id = ''lease'', ap_runtime_spec_id = ''spec'', ap_resulting_runtime_revision = 1,
        ap_owner_receipt_ids = [''1'', ''2'', ''3'', ''4'', ''5'', ''6'', ''7''],
        ap_completion_sha256 = demo_zero_sha\<rparr>,
      aq_completion_json = ''{}'', aq_signer_key_id = ''k'', aq_signature_base64 = demo_signature\<rparr>"

definition demo_ack :: activation_response where
  "demo_ack =
     \<lparr>as_schema_id = activation_response_schema, as_activation_id = ''a1'',
      as_request_sha256 = demo_zero_sha, as_status = Uncertain, as_readback = None,
      as_failure = Some ''activation_effect_uncertain'', as_signer_key_id = ''t'',
      as_signature_base64 = demo_signature\<rparr>"

definition demo_activation :: "(unit, unit) media_externals" where
  "demo_activation = (demo_dispatch demo_failed)
     \<lparr>m_value_to_vec := (\<lambda>_. Some [4]),
      m_activation_request_to_value := (\<lambda>_. Some (JObject [])),
      m_activation_request_from_value := (\<lambda>_. Some demo_activation_request),
      m_activation_response_to_value := (\<lambda>_. Some (JObject [])),
      m_activation_response_to_vec := (\<lambda>_. Some [7]),
      m_activation_response_from_slice := (\<lambda>_. Some demo_ack)\<rparr>"

definition demo_activation_env :: activation_env where
  "demo_activation_env =
     \<lparr>ae_now_ms = Inr 60, ae_validity_ms = Inr 30000, ae_verify_activation = (\<lambda>_ _ _. Inr ()),
      ae_activate = (\<lambda>_ _ _. Inl ''no device''), ae_sign = (\<lambda>_. Inr (replicate 64 0)),
      ae_commit = (\<lambda>_. Committed)\<rparr>"

definition demo_activation_server :: "activation_replay \<Rightarrow> activation_server" where
  "demo_activation_server replay =
     \<lparr>av_target_peer_id = ''peer'', av_signer_key_id = ''t'', av_replay = replay, av_durable = replay,
      av_calls = []\<rparr>"

definition empty_replay :: activation_replay where
  "empty_replay = \<lparr>pending_sha256 = [], terminal = []\<rparr>"

lemma demo_activation_sel [simp]:
  "m_value_to_vec demo_activation v = Some [4]"
  "m_activation_request_to_value demo_activation q = Some (JObject [])"
  "m_activation_request_from_value demo_activation v = Some demo_activation_request"
  "m_activation_response_to_value demo_activation r = Some (JObject [])"
  "m_activation_response_to_vec demo_activation r = Some [7]"
  "m_activation_response_from_slice demo_activation bs = Some demo_ack"
  "m_activation_replay_to_vec demo_activation replay = Some []"
  "m_value_from_slice demo_activation [4] = Some (JObject demo_digest_object)"
  by (simp_all add: demo_activation_def demo_dispatch_def demo_exchange_def)

lemma demo_activation_sha: "x_sha demo_activation bs = demo_zero_sha"
  using demo_sha [of demo_failed bs] by (simp add: x_sha_def demo_activation_def)

lemma demo_activation_env_sel [simp]:
  "ae_now_ms demo_activation_env = Inr 60" "ae_validity_ms demo_activation_env = Inr 30000"
  "ae_verify_activation demo_activation_env q bs signature = Inr ()"
  "ae_activate demo_activation_env i a p = Inl ''no device''"
  "ae_sign demo_activation_env bs = Inr (replicate 64 0)" "ae_commit demo_activation_env r = Committed"
  by (simp_all add: demo_activation_env_def)

lemma demo_activation_restored:
  "length (pending_sha256 r) \<le> 32 \<Longrightarrow> length (terminal r) \<le> 256 \<Longrightarrow> \<not> replay_overlaps r \<Longrightarrow>
     restore_activation_server demo_activation ''peer'' ''t'' r = Inr (demo_activation_server r)"
  by (simp add: restore_activation_server_def too_many_bytes_def demo_activation_server_def
      max_pending_def max_replays_def)

lemma demo_activation_decodes:
  "decode_activation_request demo_activation demo_frame = Inr demo_activation_request"
proof -
  have "decode_wire_frame demo_frame = Inr ([4], [3])"
    unfolding demo_frame_def by (rule decode_frame_of) (simp add: frame_fits_def max_frame_bytes_def)
  moreover have "validate_payload_digest demo_activation (JObject demo_digest_object) [3] = Inr (JObject [])"
    by (simp add: validate_payload_digest_def demo_activation_sha demo_digest_object_def bt_remove_def)
  moreover have "from_utf8 [3] \<noteq> None"
    by code_simp
  ultimately show ?thesis
    by (auto simp: decode_activation_request_def)
qed

lemma demo_activation_shape:
  "validate_product_activation_shape demo_activation demo_activation_request ''peer'' = Inr ()"
  by (simp add: validate_product_activation_shape_def demo_activation_request_def demo_request_def
      demo_activation_sha demo_hex reject_if_def Let_def)

lemma demo_ack_decodes: "decode_activation_response demo_activation (frame_of ([7], [])) = Inr demo_ack"
  by (simp add: decode_activation_response_def decode_frame_of frame_fits_def max_frame_bytes_def)

lemma demo_ack_signed:
  "activation_signed_response demo_activation demo_activation_env sv i h status readback failure
     = Inr (frame_of ([7], []))"
  by (simp add: activation_signed_response_def activation_response_signing_bytes_def
      encode_activation_response_def wire_signing_bytes_def u32_from_len_def encode_wire_frame_iff
      frame_fits_def max_frame_bytes_def Let_def)

lemma demo_activation_finish:
  "activation_finish demo_activation demo_activation_env i h status readback failure sv =
     (let committed = (av_replay sv)\<lparr>pending_sha256 := bt_remove i (pending_sha256 (av_replay sv)),
            terminal := bt_insert i demo_ack (terminal (av_replay sv))\<rparr>
      in (Inr (frame_of ([7], [])), sv\<lparr>av_replay := committed, av_durable := committed\<rparr>))"
  by (simp add: activation_finish_def demo_ack_signed demo_ack_decodes too_many_bytes_def
      commit_result_def commit_durable_def Let_def)

lemma demo_activation_new:
  "activation_classify demo_activation demo_activation_env demo_frame (demo_activation_server empty_replay)
     = Inr (NewActivation demo_activation_request demo_zero_sha)"
proof -
  have "\<exists>bs. activation_request_signing_bytes demo_activation demo_activation_request = Inr bs"
    by (simp add: activation_request_signing_bytes_def activation_request_wire_parts_def
        wire_signing_bytes_def u32_from_len_def demo_activation_request_def Let_def)
  moreover have "aq_issued_at_ms demo_activation_request = 50" "aq_expires_at_ms demo_activation_request = 90"
    "aq_signature_base64 demo_activation_request = demo_signature"
    by (simp_all add: demo_activation_request_def)
  ultimately show ?thesis
    by (auto simp: activation_classify_def demo_activation_decodes demo_activation_shape
        demo_activation_server_def empty_replay_def demo_activation_sha demo_signature_decodes
        saturating_add_def saturating_sub_def max_future_skew_ms_def max_pending_def max_replays_def Let_def)
qed

lemma demo_activation_calls: "av_calls (demo_activation_server r) = []"
  by (simp add: demo_activation_server_def)

lemma demo_activation_handled:
  "\<exists>sv'. activation_handle_frame demo_activation demo_activation_env demo_frame
       (demo_activation_server empty_replay) = (Inr (frame_of ([7], [])), sv')
     \<and> av_calls sv' = [(''a1'', aq_authority demo_activation_request, aq_proof demo_activation_request)]"
proof -
  have "aq_activation_id demo_activation_request = ''a1''"
    by (simp add: demo_activation_request_def)
  then show ?thesis
    by (simp add: activation_handle_frame_def demo_activation_new activation_reserve_def
        commit_result_def commit_durable_def activation_enter_def activation_outcome_of_def
        demo_activation_finish demo_activation_calls Let_def)
qed

section \<open>Phases\<close>

lemma activation_handled_phases:
  "snd (activation_handle_frame x env frame sv)
     = phased_handle (activation_new x) (activation_answer_state x) activation_reserve_state
         activation_enter_state (activation_settle_state x) (env, frame) sv"
  by (auto simp: activation_handle_frame_def phased_handle_def activation_new_def
      activation_answer_state_def activation_reserve_state_def activation_enter_state_def
      activation_settle_state_def activation_enter_def split: sum.splits prod.splits activation_class.splits)

lemma activation_step_phases:
  "activation_step x = server_step
     (phased_handle (activation_new x) (activation_answer_state x) activation_reserve_state
        activation_enter_state (activation_settle_state x))
     (phased_reserved (activation_new x) activation_reserve_state)
     (phased_entered (activation_new x) activation_reserve_state activation_enter_state) activation_reload"
proof -
  have "(\<lambda>(env, frame) sv. snd (activation_handle_frame x env frame sv))
     = phased_handle (activation_new x) (activation_answer_state x) activation_reserve_state
         activation_enter_state (activation_settle_state x)"
    by (auto simp: fun_eq_iff activation_handled_phases)
  then show ?thesis
    by (simp only: activation_step_def)
qed

lemma activation_new_iff:
  "activation_new x (env, frame) sv = Some w \<longleftrightarrow>
     activation_classify x env frame sv = Inr (NewActivation (fst w) (snd w))"
  by (auto simp: activation_new_def split: sum.splits activation_class.splits)

lemma activation_reserve_state_eq:
  "activation_reserve_state (env, frame) (q, h) sv = (ok, sv') \<longleftrightarrow>
     (\<exists>r. activation_reserve env q h sv = (r, sv') \<and> ok = is_ok r)"
  by (auto simp: activation_reserve_state_def split: prod.splits)

lemma activation_classify_newD:
  assumes "activation_classify x env frame sv = Inr (NewActivation q h)"
  shows "aq_activation_id q \<notin> replay_ids (av_replay sv)"
    "length (pending_sha256 (av_replay sv)) < max_pending"
    "length (terminal (av_replay sv)) < max_replays"
    "\<exists>now validity signing signature.
       decode_activation_request x frame = Inr q
       \<and> validate_product_activation_shape x q (av_target_peer_id sv) = Inr ()
       \<and> ae_now_ms env = Inr now \<and> ae_validity_ms env = Inr validity
       \<and> \<not> saturating_add now max_future_skew_ms < aq_issued_at_ms q
       \<and> \<not> aq_expires_at_ms q \<le> now
       \<and> \<not> validity < saturating_sub now (aq_issued_at_ms q)
       \<and> activation_request_signing_bytes x q = Inr signing
       \<and> decode_signature_base64 (aq_signature_base64 q) = Inr signature
       \<and> ae_verify_activation env q signing signature = Inr ()"
  using assms
  by (auto simp: activation_classify_def Let_def result_simps not_in_replay_ids
      split: if_splits option.splits)

section \<open>Exactly once\<close>

lemma activation_reserve_facts:
  assumes "aq_activation_id q \<notin> replay_ids (av_replay sv)"
    and "activation_reserve env q h sv = (r, sv')"
  shows "replay_ids (av_replay sv) \<inter> replay_ids (av_durable sv)
      \<subseteq> replay_ids (av_replay sv') \<inter> replay_ids (av_durable sv')"
    "av_calls sv' = av_calls sv"
    "r = Inr () \<Longrightarrow> aq_activation_id q \<in> replay_ids (av_replay sv') \<inter> replay_ids (av_durable sv')"
  using assms commit_durable_cases
    [of "ae_commit env ((av_replay sv)\<lparr>pending_sha256 :=
        bt_insert (aq_activation_id q) h (pending_sha256 (av_replay sv))\<rparr>)" "av_durable sv"
      "(av_replay sv)\<lparr>pending_sha256 :=
        bt_insert (aq_activation_id q) h (pending_sha256 (av_replay sv))\<rparr>"]
  by (auto simp: activation_reserve_def Let_def ids_reserved ids_unreserved
      commit_durable_ok split: sum.splits)

lemma activation_finish_cases:
  assumes "activation_finish x env i h status readback failure sv = (r, sv')"
  obtains (unchanged) "sv' = sv"
  | (failed) v c e where "commit_result c = Inl e"
      "sv' = sv\<lparr>av_durable := commit_durable c (av_durable sv)
         ((av_replay sv)\<lparr>pending_sha256 := bt_remove i (pending_sha256 (av_replay sv)),
            terminal := bt_insert i v (terminal (av_replay sv))\<rparr>)\<rparr>"
  | (committed) v where
      "sv' = sv\<lparr>av_replay := (av_replay sv)\<lparr>pending_sha256 := bt_remove i (pending_sha256 (av_replay sv)),
            terminal := bt_insert i v (terminal (av_replay sv))\<rparr>,
          av_durable := (av_replay sv)\<lparr>pending_sha256 := bt_remove i (pending_sha256 (av_replay sv)),
            terminal := bt_insert i v (terminal (av_replay sv))\<rparr>\<rparr>"
  using assms
  by (auto simp: activation_finish_def Let_def result_simps commit_durable_ok
      split: sum.splits prod.splits if_splits)

lemma activation_finish_facts:
  assumes "activation_finish x env i h status readback failure sv = (r, sv')"
  shows "replay_ids (av_replay sv) \<inter> replay_ids (av_durable sv)
      \<subseteq> replay_ids (av_replay sv') \<inter> replay_ids (av_durable sv')"
    "av_calls sv' = av_calls sv"
proof -
  have d: "commit_durable c old new = old \<or> commit_durable c old new = new"
    for c and old new :: activation_replay
    using commit_durable_cases [of c old new] by simp
  from assms have "replay_ids (av_replay sv) \<inter> replay_ids (av_durable sv)
      \<subseteq> replay_ids (av_replay sv') \<inter> replay_ids (av_durable sv') \<and> av_calls sv' = av_calls sv"
  proof (cases rule: activation_finish_cases)
    case (failed v c e)
    then show ?thesis
      using d [of c "av_durable sv" "(av_replay sv)\<lparr>pending_sha256 := bt_remove i (pending_sha256 (av_replay sv)),
            terminal := bt_insert i v (terminal (av_replay sv))\<rparr>"]
      by (elim disjE) (auto simp: ids_settled)
  qed (auto simp: ids_settled)
  then show "replay_ids (av_replay sv) \<inter> replay_ids (av_durable sv)
      \<subseteq> replay_ids (av_replay sv') \<inter> replay_ids (av_durable sv')"
    "av_calls sv' = av_calls sv"
    by simp_all
qed

lemma activation_answer_cases:
  obtains "activation_answer_state x (env, frame) sv = sv"
  | i h where "activation_classify x env frame sv = Inr (PendingRetry i h)"
      "activation_answer_state x (env, frame) sv = snd (terminalize_pending x env i h sv)"
proof (cases "\<exists>i h. activation_classify x env frame sv = Inr (PendingRetry i h)")
  case False
  then have "activation_answer_state x (env, frame) sv = sv"
    by (auto simp: activation_answer_state_def split: sum.splits activation_class.splits)
  then show thesis
    by (rule that)
qed (auto simp: activation_answer_state_def intro: that)

lemma activation_settle_eq:
  "\<exists>status readback failure. activation_settle_state x (env, frame) (q, h) sv
     = snd (activation_finish x env (aq_activation_id q) h status readback failure sv)"
  by (auto simp: activation_settle_state_def split: prod.splits)

interpretation activation_journal: write_ahead "activation_new x" "activation_answer_state x"
  activation_reserve_state activation_enter_state "activation_settle_state x" activation_reload
  "\<lambda>w. aq_activation_id (fst w)" "\<lambda>sv. map fst (av_calls sv)"
  "\<lambda>sv. replay_ids (av_replay sv)" "\<lambda>sv. replay_ids (av_durable sv)" for x
proof unfold_locales
  fix f :: "activation_env \<times> bytes" and w :: "activation_request \<times> string" and sv sv' ok
  obtain env frame q h where fw [simp]: "f = (env, frame)" "w = (q, h)"
    by (cases f, cases w)
  have finish: "replay_ids (av_replay sv) \<inter> replay_ids (av_durable sv)
      \<subseteq> replay_ids (av_replay s) \<inter> replay_ids (av_durable s) \<and> map fst (av_calls s) = map fst (av_calls sv)"
    if "s = snd (activation_finish x env i h status readback failure sv)" for s i h status readback failure
    using activation_finish_facts [where x = x, OF prod.collapse [symmetric]] that by simp
  have "replay_ids (av_replay sv) \<inter> replay_ids (av_durable sv)
      \<subseteq> replay_ids (av_replay (activation_answer_state x f sv))
        \<inter> replay_ids (av_durable (activation_answer_state x f sv))
     \<and> map fst (av_calls (activation_answer_state x f sv)) = map fst (av_calls sv)"
    using finish by (cases rule: activation_answer_cases [of x env frame sv]) (simp_all add: terminalize_pending_def)
  then show "replay_ids (av_replay sv) \<inter> replay_ids (av_durable sv)
      \<subseteq> replay_ids (av_replay (activation_answer_state x f sv))
        \<inter> replay_ids (av_durable (activation_answer_state x f sv))"
    "map fst (av_calls (activation_answer_state x f sv)) = map fst (av_calls sv)"
    by simp_all
  show "replay_ids (av_replay sv) \<inter> replay_ids (av_durable sv)
      \<subseteq> replay_ids (av_replay (activation_enter_state f w sv))
        \<inter> replay_ids (av_durable (activation_enter_state f w sv))"
    "map fst (av_calls (activation_enter_state f w sv)) = map fst (av_calls sv) @ [aq_activation_id (fst w)]"
    by (simp_all add: activation_enter_state_def activation_enter_def)
  show "replay_ids (av_replay sv) \<inter> replay_ids (av_durable sv)
      \<subseteq> replay_ids (av_replay (activation_settle_state x f w sv))
        \<inter> replay_ids (av_durable (activation_settle_state x f w sv))"
    "map fst (av_calls (activation_settle_state x f w sv)) = map fst (av_calls sv)"
    using activation_settle_eq [of x env frame q h sv] by (auto dest!: finish)
  assume "activation_new x f sv = Some w"
  then have unknown: "aq_activation_id q \<notin> replay_ids (av_replay sv)"
    using activation_classify_newD(1) [of x env frame sv q h] by (simp add: activation_new_iff)
  then show "aq_activation_id (fst w) \<notin> replay_ids (av_replay sv)"
    by simp
  show "replay_ids (av_replay sv) \<inter> replay_ids (av_durable sv)
      \<subseteq> replay_ids (av_replay sv') \<inter> replay_ids (av_durable sv')"
    "map fst (av_calls sv') = map fst (av_calls sv)"
    if "activation_reserve_state f w sv = (ok, sv')"
    using that activation_reserve_facts(1,2) [OF unknown, of env h _ sv']
    by (simp_all add: activation_reserve_state_eq) metis+
  show "aq_activation_id (fst w) \<in> replay_ids (av_replay sv') \<inter> replay_ids (av_durable sv')"
    if "activation_reserve_state f w sv = (True, sv')"
    using that activation_reserve_facts(3) [OF unknown] by (auto simp: activation_reserve_state_eq is_ok_unit)
qed (simp_all add: activation_reload_def)

text \<open>C15. Product activation happens at most once per identity: from a restored server, in any
  sequence of frames, retries, store failures, crashes and restarts, no activation identity
  enters the activation registry more than once.\<close>

theorem activation_exactly_once:
  assumes "restore_activation_server x target key replay = Inr sv"
  shows "distinct (map fst (av_calls (activation_run x events sv)))"
proof -
  have "map fst (av_calls sv) = []"
    using assms by (auto simp: restore_activation_server_def split: if_splits)
  then show ?thesis
    unfolding activation_run_def activation_step_phases by (rule activation_journal.at_most_once)
qed


theorem activation_exactly_once_witness:
  "restore_activation_server demo_activation ''peer'' ''t'' empty_replay = Inr (demo_activation_server empty_replay)
   \<and> map fst (av_calls (activation_run demo_activation [Handle (demo_activation_env, demo_frame)]
        (demo_activation_server empty_replay))) = [''a1'']
   \<and> distinct (map fst (av_calls (activation_run demo_activation
        [Handle (demo_activation_env, demo_frame), Restart, Handle (demo_activation_env, demo_frame)]
        (demo_activation_server empty_replay))))"
proof -
  have restored: "restore_activation_server demo_activation ''peer'' ''t'' empty_replay
      = Inr (demo_activation_server empty_replay)"
    by (rule demo_activation_restored) (simp_all add: empty_replay_def replay_overlaps_def)
  show ?thesis
    using restored demo_activation_handled
      activation_exactly_once [OF restored,
        of "[Handle (demo_activation_env, demo_frame), Restart, Handle (demo_activation_env, demo_frame)]"]
    by (auto simp: activation_run_def activation_step_def)
qed

lemma activation_handle_cases:
  assumes "activation_handle_frame x env frame sv = (r, sv')"
  obtains (answered) "sv' = activation_answer_state x (env, frame) sv"
  | (unreserved) q h e where "activation_classify x env frame sv = Inr (NewActivation q h)"
      "activation_reserve env q h sv = (Inl e, sv')"
  | (entered) q h sv1 sv2 status readback failure where
      "activation_classify x env frame sv = Inr (NewActivation q h)"
      "activation_reserve env q h sv = (Inr (), sv1)"
      "activation_enter env q sv1 = ((status, readback, failure), sv2)"
      "activation_finish x env (aq_activation_id q) h status readback failure sv2 = (r, sv')"
  using assms unfolding activation_handle_frame_def
  by (auto simp: activation_answer_state_def split: sum.splits prod.splits activation_class.splits)

text \<open>Only fully bound activations reach the registry: whenever handling a frame calls it, the
  frame decodes to a request for this peer under the current route, fresh and unexpired by the
  clock, whose signature was verified, whose proof names seven distinct owner receipts of the
  authority's client, lease, epoch and runtime and the digest of the completion it carries.\<close>

theorem activation_is_authenticated:
  assumes handled: "activation_handle_frame x env frame sv = (r, sv')"
    and entered: "av_calls sv' \<noteq> av_calls sv"
  shows "\<exists>q now validity signing signature.
     decode_activation_request x frame = Inr q
     \<and> aq_target_peer_id q = av_target_peer_id sv
     \<and> au_authorization_kind (aq_authority q) = CurrentRoute
     \<and> ap_client_id (aq_proof q) = au_authority_client_id (aq_authority q)
     \<and> ap_lease_id (aq_proof q) = au_authority_runtime_lease_id (aq_authority q)
     \<and> ap_runtime_spec_id (aq_proof q) = au_platform_runtime_spec_id (aq_authority q)
     \<and> length (ap_owner_receipt_ids (aq_proof q)) = 7
     \<and> distinct (ap_owner_receipt_ids (aq_proof q))
     \<and> ap_completion_sha256 (aq_proof q) = x_sha x (str_bytes (aq_completion_json q))
     \<and> ae_now_ms env = Inr now \<and> ae_validity_ms env = Inr validity
     \<and> now < aq_expires_at_ms q \<and> aq_expires_at_ms q \<le> au_expires_at_ms (aq_authority q)
     \<and> unat (aq_issued_at_ms q) \<le> unat now + 2000
     \<and> unat now - unat (aq_issued_at_ms q) \<le> unat validity
     \<and> activation_request_signing_bytes x q = Inr signing
     \<and> decode_signature_base64 (aq_signature_base64 q) = Inr signature
     \<and> ae_verify_activation env q signing signature = Inr ()
     \<and> av_calls sv' = av_calls sv @ [(aq_activation_id q, aq_authority q, aq_proof q)]"
  using handled
proof (cases rule: activation_handle_cases)
  case answered
  then show ?thesis
    using entered activation_finish_facts(2) [where x = x, OF prod.collapse [symmetric]]
    by (cases rule: activation_answer_cases [of x env frame sv]) (simp_all add: terminalize_pending_def)
next
  case (unreserved q h e)
  then show ?thesis
    using entered activation_reserve_facts(2) [OF activation_classify_newD(1) [OF unreserved(1)] unreserved(2)]
    by simp
next
  case (entered q h sv1 sv2 status readback failure)
  obtain now validity signing signature where
    ok: "decode_activation_request x frame = Inr q"
      "validate_product_activation_shape x q (av_target_peer_id sv) = Inr ()"
      "ae_now_ms env = Inr now" "ae_validity_ms env = Inr validity"
      "\<not> saturating_add now max_future_skew_ms < aq_issued_at_ms q"
      "\<not> aq_expires_at_ms q \<le> now"
      "\<not> validity < saturating_sub now (aq_issued_at_ms q)"
      "activation_request_signing_bytes x q = Inr signing"
      "decode_signature_base64 (aq_signature_base64 q) = Inr signature"
      "ae_verify_activation env q signing signature = Inr ()"
    using activation_classify_newD(4) [OF entered(1)] by blast
  have "unat (aq_issued_at_ms q) \<le> unat now + 2000"
    using ok(5) by (simp add: word_less_nat_alt unat_saturating_add max_future_skew_ms_def min_def
        not_less split: if_splits)
  moreover have "unat now - unat (aq_issued_at_ms q) \<le> unat validity"
    using ok(7) by (simp add: word_less_nat_alt unat_saturating_sub not_less)
  moreover have "av_calls sv' = av_calls sv @ [(aq_activation_id q, aq_authority q, aq_proof q)]"
    using activation_finish_facts(2) [OF entered(4)] entered(3)
      activation_reserve_facts(2) [OF activation_classify_newD(1) [OF entered(1)] entered(2)]
    by (auto simp: activation_enter_def)
  moreover have "distinct (ap_owner_receipt_ids (aq_proof q))"
    using ok(2) by (auto simp: validate_product_activation_shape_def Let_def result_simps
        card_distinct length_remdups_card_conv)
  ultimately show ?thesis
    using ok by (auto simp: validate_product_activation_shape_def Let_def result_simps not_le not_less)
qed

theorem activation_is_authenticated_witness:
  "\<exists>sv'. activation_handle_frame demo_activation demo_activation_env demo_frame
       (demo_activation_server empty_replay) = (Inr (frame_of ([7], [])), sv')
     \<and> (\<exists>q. decode_activation_request demo_activation demo_frame = Inr q
          \<and> distinct (ap_owner_receipt_ids (aq_proof q))
          \<and> av_calls sv' = [(aq_activation_id q, aq_authority q, aq_proof q)])"
proof -
  obtain sv' where handled: "activation_handle_frame demo_activation demo_activation_env demo_frame
       (demo_activation_server empty_replay) = (Inr (frame_of ([7], [])), sv')"
    and calls: "av_calls sv' = [(''a1'', aq_authority demo_activation_request, aq_proof demo_activation_request)]"
    using demo_activation_handled by blast
  have none: "av_calls (demo_activation_server empty_replay) = []"
    by (simp add: demo_activation_server_def)
  have "av_calls sv' \<noteq> av_calls (demo_activation_server empty_replay)"
    by (simp add: calls none)
  from activation_is_authenticated [OF handled this] handled none show ?thesis
    by auto
qed

section \<open>Bounds\<close>

text \<open>
  Settling a pending activation does not look at the size of the terminal map: what stays
  bounded is the sum of both maps.
\<close>

definition activation_replay_wf :: "activation_replay \<Rightarrow> bool" where
  "activation_replay_wf r = (bt_wf (pending_sha256 r) \<and> bt_wf (terminal r)
     \<and> length (pending_sha256 r) \<le> max_pending
     \<and> length (pending_sha256 r) + length (terminal r) \<le> max_pending + max_replays
     \<and> \<not> replay_overlaps r)"

definition activation_server_wf :: "activation_server \<Rightarrow> bool" where
  "activation_server_wf sv = (activation_replay_wf (av_replay sv) \<and> activation_replay_wf (av_durable sv))"

lemma activation_replay_wf_reserved:
  assumes "activation_replay_wf r" "d \<notin> replay_ids r" "length (pending_sha256 r) < max_pending"
    "length (terminal r) < max_replays"
  shows "activation_replay_wf (r\<lparr>pending_sha256 := bt_insert d h (pending_sha256 r)\<rparr>)"
  using assms
  by (auto simp: activation_replay_wf_def replay_overlaps_iff bt_length_insert bt_contains_def
      not_in_replay_ids split: if_splits)

lemma activation_replay_wf_settled:
  assumes "activation_replay_wf r" "d \<in> set (map fst (pending_sha256 r))"
  shows "activation_replay_wf (r\<lparr>pending_sha256 := bt_remove d (pending_sha256 r),
      terminal := bt_insert d v (terminal r)\<rparr>)"
  using assms bt_length_remove_less [OF assms(2)]
  by (auto simp: activation_replay_wf_def replay_overlaps_iff bt_length_insert bt_contains_def
      simp del: set_map split: if_splits)

lemma activation_commit_wf:
  "activation_replay_wf old \<Longrightarrow> activation_replay_wf new \<Longrightarrow> activation_replay_wf (commit_durable c old new)"
  using commit_durable_cases [of c old new] by auto

lemma activation_finish_wf:
  assumes "activation_server_wf sv" "i \<in> set (map fst (pending_sha256 (av_replay sv)))"
    and "activation_finish x env i h status readback failure sv = (r, sv')"
  shows "activation_server_wf sv'"
proof -
  have wf: "activation_replay_wf ((av_replay sv)\<lparr>pending_sha256 := bt_remove i (pending_sha256 (av_replay sv)),
      terminal := bt_insert i v (terminal (av_replay sv))\<rparr>)" for v
    using assms(1,2) by (simp only: activation_server_wf_def activation_replay_wf_settled)
  from assms(3) show ?thesis
    using assms(1) wf activation_commit_wf [OF _ wf]
    by (cases rule: activation_finish_cases) (auto simp: activation_server_wf_def)
qed

lemma activation_reserve_wf:
  assumes "activation_classify x env frame sv = Inr (NewActivation q h)" "activation_server_wf sv"
    and "activation_reserve env q h sv = (r, sv')"
  shows "activation_server_wf sv'"
    "r = Inr () \<Longrightarrow> aq_activation_id q \<in> set (map fst (pending_sha256 (av_replay sv')))"
proof -
  let ?r = "(av_replay sv)\<lparr>pending_sha256 := bt_insert (aq_activation_id q) h (pending_sha256 (av_replay sv))\<rparr>"
  note new = activation_classify_newD(1-3) [OF assms(1)]
  have wf: "activation_replay_wf ?r"
    using assms(2) new by (simp add: activation_server_wf_def activation_replay_wf_reserved)
  with assms(2) have durable: "activation_replay_wf (commit_durable c (av_durable sv) ?r)" for c
    by (simp add: activation_server_wf_def activation_commit_wf)
  from assms(3) wf durable assms(2) replay_unreserved [OF new(1), of h] show "activation_server_wf sv'"
    by (auto simp: activation_reserve_def Let_def activation_server_wf_def split: sum.splits)
  show "r = Inr () \<Longrightarrow> aq_activation_id q \<in> set (map fst (pending_sha256 (av_replay sv')))"
    using assms(3) by (auto simp: activation_reserve_def Let_def simp del: set_map split: sum.splits)
qed

lemma activation_retry_pending:
  "activation_classify x env frame sv = Inr (PendingRetry i h) \<Longrightarrow>
     i \<in> set (map fst (pending_sha256 (av_replay sv)))"
  by (auto simp: activation_classify_def Let_def result_simps split: if_splits option.splits
      dest!: map_of_SomeD intro: rev_image_eqI)

interpretation activation_bounds: write_ahead_invariant "activation_new x" "activation_answer_state x"
  activation_reserve_state activation_enter_state "activation_settle_state x" activation_reload
  activation_server_wf
  "\<lambda>w sv. aq_activation_id (fst w) \<in> set (map fst (pending_sha256 (av_replay sv)))" for x
proof unfold_locales
  fix f :: "activation_env \<times> bytes" and w :: "activation_request \<times> string" and sv sv' ok
  obtain env frame q h where fw [simp]: "f = (env, frame)" "w = (q, h)"
    by (cases f, cases w)
  assume wf: "activation_server_wf sv"
  then show "activation_server_wf (activation_enter_state f w sv)"
    by (simp add: activation_enter_state_def activation_enter_def activation_server_wf_def)
  have finish: "activation_server_wf (snd (activation_finish x env i h status readback failure sv))"
    if "i \<in> set (map fst (pending_sha256 (av_replay sv)))" for i h status readback failure
    by (rule activation_finish_wf [OF wf that prod.collapse [symmetric]])
  show "activation_server_wf (activation_answer_state x f sv)"
    using wf finish activation_retry_pending [of x env frame sv]
    by (cases rule: activation_answer_cases [of x env frame sv]) (simp_all add: terminalize_pending_def)
  show "activation_server_wf (activation_settle_state x f w sv)"
    if "aq_activation_id (fst w) \<in> set (map fst (pending_sha256 (av_replay sv)))"
    using that finish activation_settle_eq [of x env frame q h sv] by (auto simp del: set_map)
  assume "activation_new x f sv = Some w"
  then have new: "activation_classify x env frame sv = Inr (NewActivation q h)"
    by (simp add: activation_new_iff)
  show "activation_server_wf sv'" if "activation_reserve_state f w sv = (ok, sv')"
    using that activation_reserve_wf(1) [OF new wf] by (auto simp: activation_reserve_state_eq)
  show "aq_activation_id (fst w) \<in> set (map fst (pending_sha256 (av_replay sv')))"
    if "activation_reserve_state f w sv = (True, sv')"
    using that activation_reserve_wf(2) [OF new wf]
    by (auto simp: activation_reserve_state_eq is_ok_unit simp del: set_map)
qed (auto simp: activation_enter_state_def activation_enter_def activation_reload_def activation_server_wf_def
    simp del: set_map split: prod.splits)

text \<open>The activation journal is bounded by 32 pending identities and 288 in all: over every
  history from a restored, well-ordered snapshot, in memory and in the store, and no identity is
  pending and terminal at once.\<close>

theorem activation_journal_bounded:
  assumes "restore_activation_server x target key replay = Inr sv"
    and "bt_wf (pending_sha256 replay)" "bt_wf (terminal replay)"
  shows "let r = av_durable (activation_run x events sv) in
     length (pending_sha256 r) \<le> 32 \<and> length (pending_sha256 r) + length (terminal r) \<le> 288
     \<and> \<not> replay_overlaps r"
proof -
  have "activation_server_wf sv"
    using assms by (auto simp: restore_activation_server_def activation_server_wf_def
        activation_replay_wf_def split: if_splits)
  then have "activation_server_wf (activation_run x events sv)"
    unfolding activation_run_def activation_step_phases by (rule activation_bounds.inv_run)
  then show ?thesis
    by (simp add: activation_server_wf_def activation_replay_wf_def Let_def max_pending_def max_replays_def)
qed

theorem activation_journal_bounded_witness:
  "restore_activation_server demo_activation ''peer'' ''t'' empty_replay = Inr (demo_activation_server empty_replay)
   \<and> length (terminal (av_durable (activation_run demo_activation
        [Handle (demo_activation_env, demo_frame)] (demo_activation_server empty_replay)))) \<le> 288"
proof -
  have restored: "restore_activation_server demo_activation ''peer'' ''t'' empty_replay
      = Inr (demo_activation_server empty_replay)"
    by (rule demo_activation_restored) (simp_all add: empty_replay_def replay_overlaps_def)
  show ?thesis
    using restored activation_journal_bounded [OF restored, of "[Handle (demo_activation_env, demo_frame)]"]
    by (simp add: empty_replay_def Let_def)
qed

text \<open>A full terminal map beside one pending activation: what restore accepts.\<close>

definition full_replay :: activation_replay where
  "full_replay = \<lparr>pending_sha256 = [(''a1'', demo_zero_sha)],
     terminal = map (\<lambda>n. (CHR ''t'' # replicate n CHR ''x'', demo_ack)) [0..<256]\<rparr>"

lemma full_replay_fresh: "bt_get (terminal full_replay) ''a1'' = None"
  by (auto simp: full_replay_def map_of_eq_None_iff)

lemma bt_length_insert_new: "bt_get m k = None \<Longrightarrow> length (bt_insert k v m) = Suc (length m)"
  by (induction k v m rule: bt_insert.induct) (auto split: if_splits)

lemma activation_retry_new:
  "activation_classify x env frame sv = Inr (PendingRetry i h) \<Longrightarrow> bt_get (terminal (av_replay sv)) i = None"
  by (auto simp: activation_classify_def Let_def result_simps split: if_splits option.splits)

lemma activation_finish_committed:
  assumes "activation_finish x env i h status readback failure sv = (Inr bs, sv')"
  obtains v where "terminal (av_durable sv') = bt_insert i v (terminal (av_replay sv))"
  using assms
  by (auto simp: activation_finish_def Let_def result_simps commit_durable_ok
      split: sum.splits prod.splits if_splits)

text \<open>C36. A retry can outgrow the bound that restore checks. A retry of a pending activation that is
  answered commits one terminal entry more than there were, whatever their number; so with 256
  entries or more it commits a snapshot from which no server can be restored, with any externals,
  peer and key. New requests, in contrast, are refused at 256 entries.\<close>

theorem activation_retry_outgrows_restore:
  assumes retry: "activation_classify x env frame sv = Inr (PendingRetry i h)"
    and handled: "activation_handle_frame x env frame sv = (Inr bs, sv')"
  shows "length (terminal (av_durable sv')) = Suc (length (terminal (av_replay sv)))
     \<and> (256 \<le> length (terminal (av_replay sv)) \<longrightarrow>
          restore_activation_server y target key (av_durable sv') = Inl ''invalid activation replay state''
          \<and> (\<forall>env frame q h. activation_classify x env frame sv \<noteq> Inr (NewActivation q h)))"
proof -
  have "activation_finish x env i h Uncertain None (Some ''activation_state_uncertain'') sv = (Inr bs, sv')"
    using assms by (simp add: activation_handle_frame_def terminalize_pending_def)
  then obtain v where "terminal (av_durable sv') = bt_insert i v (terminal (av_replay sv))"
    by (rule activation_finish_committed)
  then have grown: "length (terminal (av_durable sv')) = Suc (length (terminal (av_replay sv)))"
    by (simp add: bt_length_insert_new activation_retry_new [OF retry])
  have "activation_classify x env frame sv \<noteq> Inr (NewActivation q h)"
    if "256 \<le> length (terminal (av_replay sv))" for env frame q h
    using activation_classify_newD(3) [of x env frame sv q h] that by (auto simp: max_replays_def)
  with grown show ?thesis
    by (simp add: restore_activation_server_def max_replays_def Let_def)
qed

theorem activation_retry_outgrows_restore_witness:
  "length (terminal full_replay) = 256
   \<and> restore_activation_server demo_activation ''peer'' ''t'' full_replay = Inr (demo_activation_server full_replay)
   \<and> (case activation_handle_frame demo_activation demo_activation_env demo_frame
          (demo_activation_server full_replay) of
        (Inr _, sv') \<Rightarrow> length (terminal (av_durable sv')) = 257
          \<and> restore_activation_server demo_activation ''peer'' ''t'' (av_durable sv')
              = Inl ''invalid activation replay state''
      | _ \<Rightarrow> False)"
proof -
  have "aq_activation_id demo_activation_request = ''a1''"
    by (simp add: demo_activation_request_def)
  then have retry: "activation_classify demo_activation demo_activation_env demo_frame
      (demo_activation_server full_replay) = Inr (PendingRetry ''a1'' demo_zero_sha)"
    using full_replay_fresh
    by (simp add: activation_classify_def demo_activation_decodes demo_activation_shape
        demo_activation_server_def demo_activation_sha Let_def) (simp add: full_replay_def)
  have restored: "restore_activation_server demo_activation ''peer'' ''t'' full_replay
      = Inr (demo_activation_server full_replay)"
    using full_replay_fresh
    by (intro demo_activation_restored) (simp_all add: full_replay_def replay_overlaps_def bt_contains_def)
  obtain sv' where handled: "activation_handle_frame demo_activation demo_activation_env demo_frame
      (demo_activation_server full_replay) = (Inr (frame_of ([7], [])), sv')"
    using retry by (simp add: activation_handle_frame_def terminalize_pending_def demo_activation_finish Let_def)
  have full: "length (terminal full_replay) = 256" "av_replay (demo_activation_server full_replay) = full_replay"
    by (simp_all add: full_replay_def demo_activation_server_def)
  show ?thesis
    using restored handled full
      activation_retry_outgrows_restore [OF retry handled, of demo_activation "''peer''" "''t''"] by simp
qed

end
