(* ===== verification/Cleanup_Server.thy ===== *)
theory Cleanup_Server
  imports Owner_Evidence Exactly_Once
begin

text \<open>
  The retained cleanup journal (\<open>RetainedCleanupReplaySnapshot\<close> in \<open>retained_cleanup.rs\<close>) and the
  server on top of it (\<open>RetainedCleanupDispatchServer\<close> in \<open>retained_cleanup_server.rs\<close>). The
  journal poisons itself after a failed commit and then refuses everything until it is reloaded.
\<close>

section \<open>The journal\<close>

definition max_cleanup_replay_bytes :: nat where
  "max_cleanup_replay_bytes = 16 * 1024 * 1024"

definition max_cleanup_pending :: nat where
  "max_cleanup_pending = 32"

definition max_cleanup_terminal :: nat where
  "max_cleanup_terminal = 256"

definition cleanup_validate :: "('k, 'n) media_externals \<Rightarrow> cleanup_replay \<Rightarrow> string + unit" where
  "cleanup_validate x r =
     reject_if
       (cj_commit_uncertain r
        \<or> max_cleanup_pending < length (cj_pending r)
        \<or> max_cleanup_terminal < length (cj_terminal r)
        \<or> list_ex (\<lambda>i. bt_contains i (cj_terminal r)) (map fst (cj_pending r))
        \<or> list_ex (\<lambda>v. \<not> valid_sha256 v) (map snd (cj_pending r))
        \<or> list_ex (\<lambda>v. \<not> valid_sha256 (tr_request_sha256 v) \<or> tr_response_bytes v = [])
            (map snd (cj_terminal r))
        \<or> (case m_cleanup_replay_to_vec x r of None \<Rightarrow> True
           | Some bs \<Rightarrow> max_cleanup_replay_bytes < length bs))
       ''retained cleanup replay state invalid''"

datatype replay_decision = DecideNew | PendingUncertain | DecideTerminal bytes

definition cleanup_classify ::
  "('k, 'n) media_externals \<Rightarrow> string \<Rightarrow> string \<Rightarrow> cleanup_replay \<Rightarrow> string + replay_decision" where
  "cleanup_classify x dispatch_id request_sha256 r =
     and_then (cleanup_validate x r) (\<lambda>_.
     if dispatch_id = [] \<or> \<not> valid_sha256 request_sha256
     then Inl ''retained cleanup replay identity invalid''
     else case bt_get (cj_terminal r) dispatch_id of
         Some v \<Rightarrow>
           if tr_request_sha256 v = request_sha256 then Inr (DecideTerminal (tr_response_bytes v))
           else Inl ''retained cleanup replay collision''
       | None \<Rightarrow>
           (case bt_get (cj_pending r) dispatch_id of
              Some v \<Rightarrow>
                if v = request_sha256 then Inr PendingUncertain
                else Inl ''retained cleanup replay collision''
            | None \<Rightarrow> Inr DecideNew))"

text \<open>
  The common end of \<open>reserve\<close> and \<open>complete\<close>: commit the next snapshot, or poison the one in
  memory. The journal is paired with what the store holds.
\<close>

definition cleanup_adopt ::
  "(cleanup_replay \<Rightarrow> commit_outcome) \<Rightarrow> cleanup_replay \<Rightarrow> cleanup_replay \<times> cleanup_replay
     \<Rightarrow> (string + unit) \<times> cleanup_replay \<times> cleanup_replay" where
  "cleanup_adopt commit next = (\<lambda>(memory, durable).
     let outcome = commit next; durable = commit_durable outcome durable next in
     case commit_result outcome of
       Inl error \<Rightarrow>
         (Inl (''retained cleanup replay commit uncertain: '' @ error),
          memory\<lparr>cj_commit_uncertain := True\<rparr>, durable)
     | Inr _ \<Rightarrow> (Inr (), next, durable))"

definition cleanup_reserve ::
  "('k, 'n) media_externals \<Rightarrow> (cleanup_replay \<Rightarrow> commit_outcome) \<Rightarrow> string \<Rightarrow> string
     \<Rightarrow> cleanup_replay \<times> cleanup_replay \<Rightarrow> (string + unit) \<times> cleanup_replay \<times> cleanup_replay" where
  "cleanup_reserve x commit dispatch_id request_sha256 = (\<lambda>(memory, durable).
     case cleanup_classify x dispatch_id request_sha256 memory of
       Inl error \<Rightarrow> (Inl error, memory, durable)
     | Inr decision \<Rightarrow>
         if decision \<noteq> DecideNew \<or> max_cleanup_pending \<le> length (cj_pending memory)
         then (Inl ''retained cleanup request already reserved'', memory, durable)
         else
           let next = memory\<lparr>cj_pending := bt_insert dispatch_id request_sha256 (cj_pending memory)\<rparr> in
           (case cleanup_validate x next of
              Inl error \<Rightarrow> (Inl error, memory, durable)
            | Inr _ \<Rightarrow> cleanup_adopt commit next (memory, durable)))"

definition cleanup_complete ::
  "('k, 'n) media_externals \<Rightarrow> (cleanup_replay \<Rightarrow> commit_outcome) \<Rightarrow> string \<Rightarrow> string \<Rightarrow> bytes
     \<Rightarrow> cleanup_replay \<times> cleanup_replay \<Rightarrow> (string + unit) \<times> cleanup_replay \<times> cleanup_replay" where
  "cleanup_complete x commit dispatch_id request_sha256 response_bytes = (\<lambda>(memory, durable).
     case cleanup_classify x dispatch_id request_sha256 memory of
       Inl error \<Rightarrow> (Inl error, memory, durable)
     | Inr decision \<Rightarrow>
         if decision \<noteq> PendingUncertain \<or> max_cleanup_terminal \<le> length (cj_terminal memory)
         then (Inl ''retained cleanup request is not pending'', memory, durable)
         else
           let next = memory\<lparr>cj_pending := bt_remove dispatch_id (cj_pending memory),
                 cj_terminal := bt_insert dispatch_id
                   \<lparr>tr_request_sha256 = request_sha256, tr_response_bytes = response_bytes\<rparr>
                   (cj_terminal memory)\<rparr> in
           (case cleanup_validate x next of
              Inl error \<Rightarrow> (Inl error, memory, durable)
            | Inr _ \<Rightarrow> cleanup_adopt commit next (memory, durable)))"

text \<open>The client's side: signing a source-authored request.\<close>

definition sign_retained_cleanup_request ::
  "('k, 'n) media_externals \<Rightarrow> string \<Rightarrow> (bytes \<Rightarrow> string + bytes) \<Rightarrow> cleanup_request
     \<Rightarrow> string + cleanup_request" where
  "sign_retained_cleanup_request x key_id sign q =
     (if cq_signer_key_id q \<noteq> key_id \<or> cq_signature_base64 q \<noteq> []
      then Inl ''cleanup signer identity differs''
      else
        and_then (cleanup_request_signing_bytes x q) (\<lambda>bs.
        and_then (sign bs) (\<lambda>signature.
        Inr (q\<lparr>cq_signature_base64 := encode_signature_base64 signature\<rparr>))))"

section \<open>The server\<close>

record cleanup_live =
  cl_projection :: cleanup_authority
  cl_expected_target :: execution_ticket
  cl_executor_generation :: u64
  cl_signer_key_id :: string
  cl_signer_key :: bytes

record cleanup_env =
  ce_now_ms :: "string + u64"
  ce_current_source :: "cleanup_request \<Rightarrow> u64 \<Rightarrow> string + cleanup_live"
  ce_validity_ms :: "string + u64"
  ce_execute :: "cleanup_authority \<Rightarrow> execution_ticket \<Rightarrow> execution_mode \<Rightarrow> string + owner_effect"
  ce_sign :: "bytes \<Rightarrow> string + bytes"
  ce_commit :: "cleanup_replay \<Rightarrow> commit_outcome"

record cleanup_server =
  cs_target_peer_id :: string
  cs_signer_key_id :: string
  cs_replay :: cleanup_replay
  cs_durable :: cleanup_replay
  cs_calls :: "(string \<times> cleanup_authority \<times> execution_ticket \<times> execution_mode) list"

definition restore_cleanup_server ::
  "('k, 'n) media_externals \<Rightarrow> string \<Rightarrow> string \<Rightarrow> string \<Rightarrow> cleanup_replay \<Rightarrow> string + cleanup_server" where
  "restore_cleanup_server x target_peer_id executor_signer_key_id signer_key_id replay =
     (if target_peer_id = [] \<or> executor_signer_key_id = [] \<or> signer_key_id \<noteq> executor_signer_key_id
      then Inl ''cleanup target signer binding differs''
      else
        and_then (cleanup_validate x replay) (\<lambda>_.
        Inr \<lparr>cs_target_peer_id = target_peer_id, cs_signer_key_id = executor_signer_key_id,
             cs_replay = replay, cs_durable = replay, cs_calls = []\<rparr>))"

definition cleanup_signed_response ::
  "('k, 'n) media_externals \<Rightarrow> cleanup_env \<Rightarrow> cleanup_server \<Rightarrow> cleanup_request \<Rightarrow> string
     \<Rightarrow> dispatch_status \<Rightarrow> owner_effect option \<Rightarrow> string option \<Rightarrow> string + bytes" where
  "cleanup_signed_response x env sv q request_sha256 status effect failure =
     (let response =
        \<lparr>cr_schema_id = (if cq_schema_id q = owned_request_schema then owned_response_schema
                         else retained_response_schema),
         cr_dispatch_id = cq_dispatch_id q, cr_executor_peer_id = cs_target_peer_id sv,
         cr_request_sha256 = request_sha256, cr_status = status, cr_effect = effect,
         cr_failure = failure, cr_signer_key_id = cs_signer_key_id sv, cr_signature_base64 = []\<rparr>
      in
      and_then (cleanup_response_signing_bytes x response) (\<lambda>bs.
      and_then (ce_sign env bs) (\<lambda>signature.
      ok_or ''cleanup response encode''
        (m_cleanup_response_to_vec x
           (response\<lparr>cr_signature_base64 := encode_signature_base64 signature\<rparr>)))))"

text \<open>
  \<open>handle\<close> up to the reservation: an answer, or the live source of an authenticated new request
  with the request digest.
\<close>

definition cleanup_admit ::
  "('k, 'n) media_externals \<Rightarrow> cleanup_env \<Rightarrow> cleanup_request \<Rightarrow> cleanup_server
     \<Rightarrow> string + (bytes + cleanup_live \<times> string)" where
  "cleanup_admit x env q sv =
     and_then (cleanup_request_sha256 x q) (\<lambda>request_sha256.
     and_then (cleanup_classify x (cq_dispatch_id q) request_sha256 (cs_replay sv)) (\<lambda>decision.
     case decision of
       DecideTerminal bs \<Rightarrow> Inr (Inl bs)
     | PendingUncertain \<Rightarrow>
         and_then (cleanup_signed_response x env sv q request_sha256 Uncertain None
             (Some ''pending_compensation_required'')) (\<lambda>bs. Inr (Inl bs))
     | DecideNew \<Rightarrow>
         and_then (ce_now_ms env) (\<lambda>now_ms.
         and_then (ce_current_source env q now_ms) (\<lambda>live.
         and_then (ce_validity_ms env) (\<lambda>validity_ms.
         case verify_cleanup_request x q (cl_projection live) (cl_expected_target live)
             (cl_executor_generation live) (cs_target_peer_id sv) (cl_signer_key_id live)
             (cl_signer_key live) now_ms validity_ms of
           Inl refusal \<Rightarrow>
             if cq_schema_id q = owned_request_schema \<and> refusal = owned_authentication_expired
             then and_then (cleanup_signed_response x env sv q request_sha256 Rejected None
                 (Some owned_authentication_expired)) (\<lambda>bs. Inr (Inl bs))
             else Inl refusal
         | Inr _ \<Rightarrow> Inr (Inr (live, request_sha256)))))))"

definition cleanup_reserve_server ::
  "('k, 'n) media_externals \<Rightarrow> cleanup_env \<Rightarrow> string \<Rightarrow> string \<Rightarrow> cleanup_server
     \<Rightarrow> (string + unit) \<times> cleanup_server" where
  "cleanup_reserve_server x env dispatch_id request_sha256 sv =
     (case cleanup_reserve x (ce_commit env) dispatch_id request_sha256 (cs_replay sv, cs_durable sv) of
        (r, memory, durable) \<Rightarrow> (r, sv\<lparr>cs_replay := memory, cs_durable := durable\<rparr>))"

definition cleanup_effect_outcome ::
  "('k, 'n) media_externals \<Rightarrow> execution_ticket \<Rightarrow> execution_mode \<Rightarrow> string + owner_effect
     \<Rightarrow> dispatch_status \<times> owner_effect option \<times> string option" where
  "cleanup_effect_outcome x target mode execution =
     (case execution of
        Inr effect \<Rightarrow>
          if is_ok (validate_effect x target mode effect) then (Completed, Some effect, None)
          else (Uncertain, None, Some ''platform_evidence_invalid'')
      | Inl _ \<Rightarrow> (Uncertain, None, Some ''platform_effect_uncertain''))"

definition cleanup_enter :: "cleanup_request \<Rightarrow> cleanup_live \<Rightarrow> cleanup_server \<Rightarrow> cleanup_server" where
  "cleanup_enter q live sv =
     sv\<lparr>cs_calls := cs_calls sv
         @ [(cq_dispatch_id q, cl_projection live, cl_expected_target live, ct_mode (cq_cleanup q))]\<rparr>"

definition cleanup_settle ::
  "('k, 'n) media_externals \<Rightarrow> cleanup_env \<Rightarrow> cleanup_request \<Rightarrow> string
     \<Rightarrow> dispatch_status \<times> owner_effect option \<times> string option \<Rightarrow> cleanup_server
     \<Rightarrow> (string + bytes) \<times> cleanup_server" where
  "cleanup_settle x env q request_sha256 = (\<lambda>(status, effect, failure) sv.
     case cleanup_signed_response x env sv q request_sha256 status effect failure of
       Inl error \<Rightarrow> (Inl error, sv)
     | Inr response \<Rightarrow>
         if status = Completed then
           (case cleanup_complete x (ce_commit env) (cq_dispatch_id q) request_sha256 response
               (cs_replay sv, cs_durable sv) of
              (r, memory, durable) \<Rightarrow>
                (and_then r (\<lambda>_. Inr response), sv\<lparr>cs_replay := memory, cs_durable := durable\<rparr>))
         else (Inr response, sv))"

definition cleanup_execution ::
  "('k, 'n) media_externals \<Rightarrow> cleanup_env \<Rightarrow> cleanup_request \<Rightarrow> cleanup_live
     \<Rightarrow> dispatch_status \<times> owner_effect option \<times> string option" where
  "cleanup_execution x env q live =
     cleanup_effect_outcome x (cl_expected_target live) (ct_mode (cq_cleanup q))
       (ce_execute env (cl_projection live) (cl_expected_target live) (ct_mode (cq_cleanup q)))"

definition cleanup_handle ::
  "('k, 'n) media_externals \<Rightarrow> cleanup_env \<Rightarrow> cleanup_request \<Rightarrow> cleanup_server
     \<Rightarrow> (string + bytes) \<times> cleanup_server" where
  "cleanup_handle x env q sv =
     (case cleanup_admit x env q sv of
        Inl error \<Rightarrow> (Inl error, sv)
      | Inr (Inl bs) \<Rightarrow> (Inr bs, sv)
      | Inr (Inr (live, request_sha256)) \<Rightarrow>
          (case cleanup_reserve_server x env (cq_dispatch_id q) request_sha256 sv of
             (Inl error, sv) \<Rightarrow> (Inl error, sv)
           | (Inr _, sv) \<Rightarrow>
               cleanup_settle x env q request_sha256 (cleanup_execution x env q live)
                 (cleanup_enter q live sv)))"

section \<open>Histories\<close>

definition cleanup_new ::
  "('k, 'n) media_externals \<Rightarrow> cleanup_env \<times> cleanup_request \<Rightarrow> cleanup_server
     \<Rightarrow> (cleanup_request \<times> cleanup_live \<times> string) option" where
  "cleanup_new x = (\<lambda>(env, q) sv.
     case cleanup_admit x env q sv of Inr (Inr (live, h)) \<Rightarrow> Some (q, live, h) | _ \<Rightarrow> None)"

definition cleanup_reserve_state ::
  "('k, 'n) media_externals \<Rightarrow> cleanup_env \<times> cleanup_request \<Rightarrow> cleanup_request \<times> cleanup_live \<times> string
     \<Rightarrow> cleanup_server \<Rightarrow> bool \<times> cleanup_server" where
  "cleanup_reserve_state x = (\<lambda>(env, _) (q, _, h) sv.
     case cleanup_reserve_server x env (cq_dispatch_id q) h sv of (r, sv) \<Rightarrow> (is_ok r, sv))"

definition cleanup_enter_state ::
  "cleanup_env \<times> cleanup_request \<Rightarrow> cleanup_request \<times> cleanup_live \<times> string
     \<Rightarrow> cleanup_server \<Rightarrow> cleanup_server" where
  "cleanup_enter_state = (\<lambda>_ (q, live, _). cleanup_enter q live)"

definition cleanup_settle_state ::
  "('k, 'n) media_externals \<Rightarrow> cleanup_env \<times> cleanup_request \<Rightarrow> cleanup_request \<times> cleanup_live \<times> string
     \<Rightarrow> cleanup_server \<Rightarrow> cleanup_server" where
  "cleanup_settle_state x = (\<lambda>(env, _) (q, live, h) sv.
     snd (cleanup_settle x env q h (cleanup_execution x env q live) sv))"

definition cleanup_reload :: "cleanup_server \<Rightarrow> cleanup_server" where
  "cleanup_reload sv = sv\<lparr>cs_replay := cs_durable sv\<rparr>"

definition cleanup_step ::
  "('k, 'n) media_externals \<Rightarrow> (cleanup_env \<times> cleanup_request) server_event \<Rightarrow> cleanup_server
     \<Rightarrow> cleanup_server" where
  "cleanup_step x = server_step
     (\<lambda>(env, q) sv. snd (cleanup_handle x env q sv))
     (phased_reserved (cleanup_new x) (cleanup_reserve_state x))
     (phased_entered (cleanup_new x) (cleanup_reserve_state x) cleanup_enter_state) cleanup_reload"

definition cleanup_run ::
  "('k, 'n) media_externals \<Rightarrow> (cleanup_env \<times> cleanup_request) server_event list \<Rightarrow> cleanup_server
     \<Rightarrow> cleanup_server" where
  "cleanup_run x = fold (cleanup_step x)"

end
