(* ===== verification/Cleanup_Proofs.thy ===== *)
theory Cleanup_Proofs
  imports Cleanup_Server Owner_Proofs
begin

text \<open>
  The cleanup server meets the exactly-once contract, its memory and its store never disagree
  silently, every snapshot it commits can be restored, and a terminal retry is byte-exact.
\<close>

section \<open>A concrete server\<close>

definition demo_cleanup_live :: cleanup_live where
  "demo_cleanup_live = \<lparr>cl_projection = demo_cleanup_authority, cl_expected_target = demo_target,
     cl_executor_generation = 1, cl_signer_key_id = ''coordinator'', cl_signer_key = replicate 32 0\<rparr>"

definition demo_cleanup_env :: cleanup_env where
  "demo_cleanup_env = \<lparr>ce_now_ms = Inr 60, ce_current_source = (\<lambda>_ _. Inr demo_cleanup_live),
     ce_validity_ms = Inr 30000, ce_execute = (\<lambda>_ _ _. Inr demo_effect),
     ce_sign = (\<lambda>_. Inr (replicate 64 0)), ce_commit = (\<lambda>_. Committed)\<rparr>"

definition demo_cleanup_server :: cleanup_server where
  "demo_cleanup_server =
     (let empty = \<lparr>cj_pending = [], cj_terminal = [], cj_commit_uncertain = False\<rparr> in
      \<lparr>cs_target_peer_id = ''peer'', cs_signer_key_id = ''target'', cs_replay = empty, cs_durable = empty,
       cs_calls = []\<rparr>)"

definition demo_cleanup_done :: cleanup_server where
  "demo_cleanup_done =
     (let journal = \<lparr>cj_pending = [],
        cj_terminal = [(''d1'', \<lparr>tr_request_sha256 = demo_zero_sha, tr_response_bytes = [1]\<rparr>)],
        cj_commit_uncertain = False\<rparr> in
      demo_cleanup_server\<lparr>cs_replay := journal, cs_durable := journal,
        cs_calls := [(''d1'', demo_cleanup_authority, demo_target, Execute)]\<rparr>)"

lemma demo_cleanup_valid:
  "m_cleanup_replay_to_vec demo_exchange r = Some []"
  by (simp add: demo_exchange_def)

lemma demo_cleanup_restored:
  "restore_cleanup_server demo_exchange ''peer'' ''target'' ''target'' (cs_durable demo_cleanup_server)
     = Inr demo_cleanup_server"
  by (simp add: restore_cleanup_server_def cleanup_validate_def reject_if_def demo_cleanup_server_def
      demo_cleanup_valid Let_def)

lemma demo_cleanup_sha: "cleanup_request_sha256 demo_exchange demo_cleanup_request = Inr demo_zero_sha"
  by (simp add: cleanup_request_sha256_def max_frame_bytes_def demo_hex) (simp add: demo_zero_sha_def)

lemma demo_cleanup_env_sel [simp]:
  "ce_now_ms demo_cleanup_env = Inr 60" "ce_current_source demo_cleanup_env q now = Inr demo_cleanup_live"
  "ce_validity_ms demo_cleanup_env = Inr 30000" "ce_execute demo_cleanup_env a t m = Inr demo_effect"
  "ce_sign demo_cleanup_env bs = Inr (replicate 64 0)" "ce_commit demo_cleanup_env r = Committed"
  by (simp_all add: demo_cleanup_env_def)

lemma demo_cleanup_request_sel:
  "cq_dispatch_id demo_cleanup_request = ''d1''" "ct_mode (cq_cleanup demo_cleanup_request) = Execute"
  "cq_schema_id demo_cleanup_request = retained_request_schema"
  "ct_target (cq_cleanup demo_cleanup_request) = demo_target"
  by (simp_all add: demo_cleanup_request_def)

lemma demo_cleanup_handled:
  "cleanup_handle demo_exchange demo_cleanup_env demo_cleanup_request demo_cleanup_server
     = (Inr [1], demo_cleanup_done)"
proof -
  let ?pending = "\<lparr>cj_pending = [(''d1'', demo_zero_sha)], cj_terminal = [], cj_commit_uncertain = False\<rparr>"
  let ?sv1 = "demo_cleanup_server\<lparr>cs_replay := ?pending, cs_durable := ?pending\<rparr>"
  have classify: "cleanup_classify demo_exchange ''d1'' demo_zero_sha (cs_replay demo_cleanup_server) = Inr DecideNew"
    by (simp add: cleanup_classify_def cleanup_validate_def reject_if_def demo_cleanup_server_def
        demo_cleanup_valid demo_hex Let_def)
  have admit: "cleanup_admit demo_exchange demo_cleanup_env demo_cleanup_request demo_cleanup_server
      = Inr (Inr (demo_cleanup_live, demo_zero_sha))"
    using demo_cleanup_verified
    by (simp add: cleanup_admit_def demo_cleanup_sha demo_cleanup_request_sel classify demo_cleanup_live_def)
      (simp add: demo_cleanup_server_def Let_def)
  have reserve: "cleanup_reserve_server demo_exchange demo_cleanup_env ''d1'' demo_zero_sha demo_cleanup_server
      = (Inr (), ?sv1)"
    using classify
    by (simp add: cleanup_reserve_server_def cleanup_reserve_def cleanup_adopt_def commit_result_def
        commit_durable_def max_cleanup_pending_def)
      (simp add: cleanup_validate_def reject_if_def demo_cleanup_server_def demo_cleanup_valid demo_hex
        max_cleanup_pending_def bt_contains_def cleanup_adopt_def commit_result_def commit_durable_def Let_def)
  have execution: "cleanup_execution demo_exchange demo_cleanup_env demo_cleanup_request demo_cleanup_live
      = (Completed, Some demo_effect, None)"
    using demo_effect_valid
    by (simp add: cleanup_execution_def cleanup_effect_outcome_def demo_cleanup_live_def demo_cleanup_request_sel)
  have signed: "cleanup_signed_response demo_exchange demo_cleanup_env sv demo_cleanup_request demo_zero_sha
      Completed (Some demo_effect) None = Inr [1]"
    if "cs_target_peer_id sv = ''peer''" "cs_signer_key_id sv = ''target''" for sv
  proof -
    let ?unsigned = "demo_cleanup_response\<lparr>cr_signature_base64 := []\<rparr>"
    have schema: "(if retained_request_schema = owned_request_schema then owned_response_schema
        else retained_response_schema) = retained_response_schema"
      by (simp add: schema_values)
    have "\<lparr>cr_schema_id = retained_response_schema, cr_dispatch_id = ''d1'', cr_executor_peer_id = ''peer'',
        cr_request_sha256 = demo_zero_sha, cr_status = Completed, cr_effect = Some demo_effect,
        cr_failure = None, cr_signer_key_id = ''target'', cr_signature_base64 = []\<rparr> = ?unsigned"
      "?unsigned\<lparr>cr_signature_base64 := encode_signature_base64 (replicate 64 0)\<rparr> = demo_cleanup_response"
      by (simp_all add: demo_cleanup_response_def demo_signature_def)
    moreover have "\<exists>bs. cleanup_response_signing_bytes demo_exchange ?unsigned = Inr bs"
      by (simp add: cleanup_response_signing_bytes_def) (simp add: demo_cleanup_response_def)
    ultimately show ?thesis
      by (auto simp: cleanup_signed_response_def demo_cleanup_request_sel schema that Let_def)
  qed
  let ?done = "\<lparr>cj_pending = [],
      cj_terminal = [(''d1'', \<lparr>tr_request_sha256 = demo_zero_sha, tr_response_bytes = [1]\<rparr>)],
      cj_commit_uncertain = False\<rparr>"
  have complete: "cleanup_complete demo_exchange (ce_commit demo_cleanup_env) ''d1'' demo_zero_sha [1]
      (?pending, ?pending) = (Inr (), ?done, ?done)"
    by (simp add: cleanup_complete_def cleanup_classify_def cleanup_validate_def cleanup_adopt_def
        commit_result_def commit_durable_def reject_if_def demo_cleanup_valid demo_hex bt_contains_def
        max_cleanup_pending_def max_cleanup_terminal_def max_cleanup_replay_bytes_def bt_remove_def Let_def)
  let ?sv2 = "cleanup_enter demo_cleanup_request demo_cleanup_live ?sv1"
  have sv2: "cs_replay ?sv2 = ?pending" "cs_durable ?sv2 = ?pending"
    "cs_target_peer_id ?sv2 = ''peer''" "cs_signer_key_id ?sv2 = ''target''"
    "?sv2\<lparr>cs_replay := ?done, cs_durable := ?done\<rparr> = demo_cleanup_done"
    by (simp_all add: cleanup_enter_def demo_cleanup_server_def demo_cleanup_done_def demo_cleanup_live_def
        demo_cleanup_request_sel Let_def)
  have "cleanup_settle demo_exchange demo_cleanup_env demo_cleanup_request demo_zero_sha
      (Completed, Some demo_effect, None) ?sv2 = (Inr [1], demo_cleanup_done)"
    by (simp add: cleanup_settle_def signed [OF sv2(3,4)] sv2 demo_cleanup_request_sel complete)
  then show ?thesis
    by (simp add: cleanup_handle_def admit demo_cleanup_request_sel reserve execution)
qed

section \<open>Journal transitions\<close>

definition cj_ids :: "cleanup_replay \<Rightarrow> string set" where
  "cj_ids r = set (map fst (cj_pending r)) \<union> set (map fst (cj_terminal r))"

lemma cj_ids_poisoned [simp]: "cj_ids (r\<lparr>cj_commit_uncertain := b\<rparr>) = cj_ids r"
  by (simp add: cj_ids_def)

lemma cj_ids_reserved:
  "cj_ids (r\<lparr>cj_pending := bt_insert d h (cj_pending r)\<rparr>) = insert d (cj_ids r)"
  by (simp add: cj_ids_def del: set_map)

lemma cj_ids_completed:
  "cj_ids (r\<lparr>cj_pending := bt_remove d (cj_pending r), cj_terminal := bt_insert d v (cj_terminal r)\<rparr>)
     = insert d (cj_ids r)"
  by (auto simp: cj_ids_def simp del: set_map)

lemma cleanup_classify_newD:
  assumes "cleanup_classify x d h r = Inr DecideNew"
  shows "d \<notin> cj_ids r" "cleanup_validate x r = Inr ()"
  using assms by (auto simp: cleanup_classify_def result_simps cj_ids_def map_of_eq_None_iff
      split: if_splits option.splits)

text \<open>A journal operation leaves both sides alone, moves both to a valid snapshot, or poisons memory.\<close>

definition journal_move ::
  "('k, 'n) media_externals \<Rightarrow> cleanup_replay \<Rightarrow> string + unit \<Rightarrow> cleanup_replay \<times> cleanup_replay
     \<Rightarrow> cleanup_replay \<times> cleanup_replay \<Rightarrow> bool" where
  "journal_move x next r = (\<lambda>(memory, durable) (memory', durable').
     (r \<noteq> Inr () \<and> memory' = memory \<and> durable' = durable)
     \<or> (cleanup_validate x next = Inr ()
        \<and> ((r = Inr () \<and> memory' = next \<and> durable' = next)
           \<or> (r \<noteq> Inr () \<and> memory' = memory\<lparr>cj_commit_uncertain := True\<rparr>
              \<and> (durable' = durable \<or> durable' = next)))))"

lemma cleanup_adopt_moves:
  assumes "cleanup_validate x n = Inr ()" "cleanup_adopt commit n (m, d) = (r, m', d')"
  shows "journal_move x n r (m, d) (m', d')"
  using assms commit_durable_cases [of "commit n" d n]
  by (auto simp: cleanup_adopt_def journal_move_def Let_def commit_durable_ok split: sum.splits)

lemma journal_move_kept: "r \<noteq> Inr () \<Longrightarrow> journal_move x n r (m, d) (m, d)"
  by (simp add: journal_move_def)

lemma cleanup_reserve_moves:
  assumes "cleanup_reserve x commit i h (m, d) = (r, m', d')"
  shows "journal_move x (m\<lparr>cj_pending := bt_insert i h (cj_pending m)\<rparr>) r (m, d) (m', d')"
    "r = Inr () \<Longrightarrow> cleanup_classify x i h m = Inr DecideNew"
proof -
  show "journal_move x (m\<lparr>cj_pending := bt_insert i h (cj_pending m)\<rparr>) r (m, d) (m', d')"
    using assms
    by (auto simp: cleanup_reserve_def Let_def journal_move_kept intro: cleanup_adopt_moves
        split: sum.splits if_splits) (metis journal_move_kept sum.distinct(1))
  show "r = Inr () \<Longrightarrow> cleanup_classify x i h m = Inr DecideNew"
    using assms by (auto simp: cleanup_reserve_def Let_def split: sum.splits if_splits)
qed

lemma cleanup_complete_moves:
  assumes "cleanup_complete x commit i h bs (m, d) = (r, m', d')"
  shows "journal_move x (m\<lparr>cj_pending := bt_remove i (cj_pending m),
      cj_terminal := bt_insert i \<lparr>tr_request_sha256 = h, tr_response_bytes = bs\<rparr> (cj_terminal m)\<rparr>)
     r (m, d) (m', d')"
  using assms
  by (auto simp: cleanup_complete_def Let_def journal_move_kept intro: cleanup_adopt_moves
      split: sum.splits if_splits) (metis journal_move_kept sum.distinct(1))

lemma journal_move_ids:
  assumes "journal_move x next r (m, d) (m', d')" "cj_ids m \<subseteq> cj_ids next"
  shows "cj_ids m \<inter> cj_ids d \<subseteq> cj_ids m' \<inter> cj_ids d'"
  using assms by (auto simp: journal_move_def)

section \<open>Exactly once\<close>

lemma cleanup_handled_phases:
  "snd (cleanup_handle x env q sv)
     = phased_handle (cleanup_new x) (\<lambda>_ sv. sv) (cleanup_reserve_state x) cleanup_enter_state
         (cleanup_settle_state x) (env, q) sv"
  by (auto simp: cleanup_handle_def phased_handle_def cleanup_new_def cleanup_reserve_state_def
      cleanup_enter_state_def cleanup_settle_state_def split: sum.splits prod.splits)

lemma cleanup_step_phases:
  "cleanup_step x = server_step
     (phased_handle (cleanup_new x) (\<lambda>_ sv. sv) (cleanup_reserve_state x) cleanup_enter_state
        (cleanup_settle_state x))
     (phased_reserved (cleanup_new x) (cleanup_reserve_state x))
     (phased_entered (cleanup_new x) (cleanup_reserve_state x) cleanup_enter_state) cleanup_reload"
proof -
  have "(\<lambda>(env, q) sv. snd (cleanup_handle x env q sv))
     = phased_handle (cleanup_new x) (\<lambda>_ sv. sv) (cleanup_reserve_state x) cleanup_enter_state
         (cleanup_settle_state x)"
    by (auto simp: fun_eq_iff cleanup_handled_phases)
  then show ?thesis
    by (simp only: cleanup_step_def)
qed

lemma cleanup_admit_newD:
  assumes "cleanup_admit x env q sv = Inr (Inr (live, h))"
  shows "cleanup_request_sha256 x q = Inr h"
    "cleanup_classify x (cq_dispatch_id q) h (cs_replay sv) = Inr DecideNew"
    "\<exists>now validity. ce_now_ms env = Inr now \<and> ce_current_source env q now = Inr live
       \<and> ce_validity_ms env = Inr validity
       \<and> verify_cleanup_request x q (cl_projection live) (cl_expected_target live)
           (cl_executor_generation live) (cs_target_peer_id sv) (cl_signer_key_id live)
           (cl_signer_key live) now validity = Inr ()"
proof -
  obtain h' decision where sha: "cleanup_request_sha256 x q = Inr h'"
    and decided: "cleanup_classify x (cq_dispatch_id q) h' (cs_replay sv) = Inr decision"
    using assms by (auto simp: cleanup_admit_def result_simps)
  have new: "decision = DecideNew"
    using assms sha decided by (cases decision) (auto simp: cleanup_admit_def result_simps)
  obtain now live' validity where source: "ce_now_ms env = Inr now" "ce_current_source env q now = Inr live'"
    "ce_validity_ms env = Inr validity"
    using assms sha decided new by (auto simp: cleanup_admit_def result_simps)
  let ?verified = "verify_cleanup_request x q (cl_projection live') (cl_expected_target live')
      (cl_executor_generation live') (cs_target_peer_id sv) (cl_signer_key_id live')
      (cl_signer_key live') now validity"
  have "?verified = Inr () \<and> live' = live \<and> h' = h"
    using assms sha decided new source
    by (cases ?verified) (auto simp: cleanup_admit_def result_simps split: if_splits)
  with sha decided new source show "cleanup_request_sha256 x q = Inr h"
    "cleanup_classify x (cq_dispatch_id q) h (cs_replay sv) = Inr DecideNew"
    "\<exists>now validity. ce_now_ms env = Inr now \<and> ce_current_source env q now = Inr live
       \<and> ce_validity_ms env = Inr validity
       \<and> verify_cleanup_request x q (cl_projection live) (cl_expected_target live)
           (cl_executor_generation live) (cs_target_peer_id sv) (cl_signer_key_id live)
           (cl_signer_key live) now validity = Inr ()"
    by auto
qed

lemma cleanup_new_iff:
  "cleanup_new x (env, q) sv = Some w \<longleftrightarrow>
     (\<exists>live h. w = (q, live, h) \<and> cleanup_admit x env q sv = Inr (Inr (live, h)))"
  by (auto simp: cleanup_new_def split: sum.splits)

lemma cleanup_reserve_server_eq:
  "cleanup_reserve_server x env i h sv = (r, sv') \<longleftrightarrow>
     (\<exists>m d. cleanup_reserve x (ce_commit env) i h (cs_replay sv, cs_durable sv) = (r, m, d)
        \<and> sv' = sv\<lparr>cs_replay := m, cs_durable := d\<rparr>)"
  by (auto simp: cleanup_reserve_server_def split: prod.splits)

lemma cleanup_reserve_facts:
  assumes "cleanup_reserve_server x env i h sv = (r, sv')"
  shows "cj_ids (cs_replay sv) \<inter> cj_ids (cs_durable sv) \<subseteq> cj_ids (cs_replay sv') \<inter> cj_ids (cs_durable sv')"
    "cs_calls sv' = cs_calls sv" "cs_target_peer_id sv' = cs_target_peer_id sv"
    "r = Inr () \<Longrightarrow> i \<in> cj_ids (cs_replay sv') \<inter> cj_ids (cs_durable sv')"
proof -
  obtain m d where reserve: "cleanup_reserve x (ce_commit env) i h (cs_replay sv, cs_durable sv) = (r, m, d)"
    and sv': "sv' = sv\<lparr>cs_replay := m, cs_durable := d\<rparr>"
    using assms by (auto simp: cleanup_reserve_server_eq)
  note move = cleanup_reserve_moves(1) [OF reserve]
  show "cj_ids (cs_replay sv) \<inter> cj_ids (cs_durable sv) \<subseteq> cj_ids (cs_replay sv') \<inter> cj_ids (cs_durable sv')"
    using journal_move_ids [OF move] by (auto simp: sv' cj_ids_reserved)
  show "r = Inr () \<Longrightarrow> i \<in> cj_ids (cs_replay sv') \<inter> cj_ids (cs_durable sv')"
    using move by (auto simp: journal_move_def sv' cj_ids_reserved)
qed (use assms in \<open>auto simp: cleanup_reserve_server_eq\<close>)

lemma cleanup_settle_cases:
  assumes "cleanup_settle x env q h out sv = (r, sv')"
  obtains (kept) "sv' = sv"
  | (completed) effect failure bs m d u where
      "cleanup_signed_response x env sv q h Completed effect failure = Inr bs"
      "cleanup_complete x (ce_commit env) (cq_dispatch_id q) h bs (cs_replay sv, cs_durable sv) = (u, m, d)"
      "r = and_then u (\<lambda>_. Inr bs)" "sv' = sv\<lparr>cs_replay := m, cs_durable := d\<rparr>"
proof -
  obtain status effect failure where out: "out = (status, effect, failure)"
    by (cases out)
  show thesis
  proof (cases "cleanup_signed_response x env sv q h status effect failure")
    case (Inr bs)
    obtain u m d where complete: "cleanup_complete x (ce_commit env) (cq_dispatch_id q) h bs
        (cs_replay sv, cs_durable sv) = (u, m, d)"
      by (cases "cleanup_complete x (ce_commit env) (cq_dispatch_id q) h bs (cs_replay sv, cs_durable sv)")
    show ?thesis
    proof (cases "status = Completed")
      case True
      with assms out Inr complete show ?thesis
        by (intro completed [OF _ complete]) (auto simp: cleanup_settle_def)
    qed (use assms out Inr in \<open>auto simp: cleanup_settle_def intro: kept\<close>)
  qed (use assms out in \<open>auto simp: cleanup_settle_def intro: kept\<close>)
qed

lemma cleanup_settle_facts:
  assumes "cleanup_settle x env q h out sv = (r, sv')"
  shows "cj_ids (cs_replay sv) \<inter> cj_ids (cs_durable sv) \<subseteq> cj_ids (cs_replay sv') \<inter> cj_ids (cs_durable sv')
     \<and> cs_calls sv' = cs_calls sv"
  using assms
proof (cases rule: cleanup_settle_cases)
  case (completed effect failure bs m d u)
  then show ?thesis
    using journal_move_ids [OF cleanup_complete_moves [OF completed(2)]] by (auto simp: cj_ids_completed)
qed simp

interpretation cleanup_journal: write_ahead "cleanup_new x" "\<lambda>_ sv. sv" "cleanup_reserve_state x"
  cleanup_enter_state "cleanup_settle_state x" cleanup_reload "\<lambda>w. cq_dispatch_id (fst w)"
  "\<lambda>sv. map fst (cs_calls sv)" "\<lambda>sv. cj_ids (cs_replay sv)" "\<lambda>sv. cj_ids (cs_durable sv)" for x
proof unfold_locales
  fix f :: "cleanup_env \<times> cleanup_request" and w :: "cleanup_request \<times> cleanup_live \<times> string"
    and sv sv' ok
  obtain env q0 q live h where fw [simp]: "f = (env, q0)" "w = (q, live, h)"
    by (cases f, cases w)
  show "cj_ids (cs_replay sv) \<inter> cj_ids (cs_durable sv)
      \<subseteq> cj_ids (cs_replay (cleanup_enter_state f w sv)) \<inter> cj_ids (cs_durable (cleanup_enter_state f w sv))"
    "map fst (cs_calls (cleanup_enter_state f w sv)) = map fst (cs_calls sv) @ [cq_dispatch_id (fst w)]"
    by (simp_all add: cleanup_enter_state_def cleanup_enter_def)
  show "cj_ids (cs_replay sv) \<inter> cj_ids (cs_durable sv)
      \<subseteq> cj_ids (cs_replay (cleanup_settle_state x f w sv)) \<inter> cj_ids (cs_durable (cleanup_settle_state x f w sv))"
    "map fst (cs_calls (cleanup_settle_state x f w sv)) = map fst (cs_calls sv)"
    using cleanup_settle_facts [where x = x, OF prod.collapse [symmetric]]
    by (simp_all add: cleanup_settle_state_def)
  have reserve: "\<exists>r. cleanup_reserve_server x env (cq_dispatch_id q) h sv = (r, sv') \<and> ok = is_ok r"
    if "cleanup_reserve_state x f w sv = (ok, sv')" for ok
    using that by (auto simp: cleanup_reserve_state_def split: prod.splits)
  assume "cleanup_new x f sv = Some w"
  then show "cq_dispatch_id (fst w) \<notin> cj_ids (cs_replay sv)"
    using cleanup_classify_newD(1) [of x] cleanup_admit_newD(2) [of x] by (fastforce simp: cleanup_new_iff)
  show "cj_ids (cs_replay sv) \<inter> cj_ids (cs_durable sv) \<subseteq> cj_ids (cs_replay sv') \<inter> cj_ids (cs_durable sv')"
    "map fst (cs_calls sv') = map fst (cs_calls sv)"
    if "cleanup_reserve_state x f w sv = (ok, sv')"
    using reserve [OF that] cleanup_reserve_facts(1,2) by (metis (no_types))+
  show "cq_dispatch_id (fst w) \<in> cj_ids (cs_replay sv') \<inter> cj_ids (cs_durable sv')"
    if "cleanup_reserve_state x f w sv = (True, sv')"
    using reserve [OF that] cleanup_reserve_facts(4) [of x] by (auto simp: is_ok_unit)
qed (simp_all add: cleanup_reload_def)

text \<open>C17. A retained cleanup stops its owner at most once: from a restored server, in any sequence
  of requests, failed commits, crashes and restarts, no dispatch identity enters the cleanup
  registry more than once.\<close>

theorem cleanup_effects_exactly_once:
  assumes "restore_cleanup_server x target key signer replay = Inr sv"
  shows "distinct (map fst (cs_calls (cleanup_run x events sv)))"
proof -
  have "map fst (cs_calls sv) = []"
    using assms by (auto simp: restore_cleanup_server_def result_simps split: if_splits)
  then show ?thesis
    unfolding cleanup_run_def cleanup_step_phases by (rule cleanup_journal.at_most_once)
qed

theorem cleanup_effects_exactly_once_witness:
  "restore_cleanup_server demo_exchange ''peer'' ''target'' ''target'' (cs_durable demo_cleanup_server)
     = Inr demo_cleanup_server
   \<and> map fst (cs_calls (cleanup_run demo_exchange [Handle (demo_cleanup_env, demo_cleanup_request), Restart]
        demo_cleanup_server)) = [''d1'']
   \<and> distinct (map fst (cs_calls (cleanup_run demo_exchange
        [Handle (demo_cleanup_env, demo_cleanup_request), Restart] demo_cleanup_server)))"
  using cleanup_effects_exactly_once [OF demo_cleanup_restored,
      of "[Handle (demo_cleanup_env, demo_cleanup_request), Restart]"] demo_cleanup_restored
  by (simp add: cleanup_run_def cleanup_step_def demo_cleanup_handled demo_cleanup_done_def
      cleanup_reload_def Let_def)

section \<open>Memory and store\<close>

text \<open>The store holds a snapshot that restores, and memory equals it or is poisoned.\<close>

definition cleanup_synced :: "('k, 'n) media_externals \<Rightarrow> cleanup_replay \<Rightarrow> cleanup_replay \<Rightarrow> bool" where
  "cleanup_synced x memory durable =
     (cleanup_validate x durable = Inr () \<and> (memory = durable \<or> cj_commit_uncertain memory))"

lemma journal_move_synced:
  "journal_move x n r (m, d) (m', d') \<Longrightarrow> cleanup_synced x m d \<Longrightarrow> cleanup_synced x m' d'"
  by (auto simp: journal_move_def cleanup_synced_def)

interpretation cleanup_sync: write_ahead_invariant "cleanup_new x" "\<lambda>_ sv. sv" "cleanup_reserve_state x"
  cleanup_enter_state "cleanup_settle_state x" cleanup_reload
  "\<lambda>sv. cleanup_synced x (cs_replay sv) (cs_durable sv)" "\<lambda>_ _. True" for x
proof unfold_locales
  fix f :: "cleanup_env \<times> cleanup_request" and w :: "cleanup_request \<times> cleanup_live \<times> string"
    and sv sv' :: cleanup_server and ok
  obtain env q0 q live h where fw [simp]: "f = (env, q0)" "w = (q, live, h)"
    by (cases f, cases w)
  assume synced: "cleanup_synced x (cs_replay sv) (cs_durable sv)"
  show "cleanup_synced x (cs_replay (cleanup_enter_state f w sv)) (cs_durable (cleanup_enter_state f w sv))"
    using synced by (simp add: cleanup_enter_state_def cleanup_enter_def)
  show "cleanup_synced x (cs_replay sv') (cs_durable sv')" if "cleanup_reserve_state x f w sv = (ok, sv')"
  proof -
    have "\<exists>r m d. cleanup_reserve x (ce_commit env) (cq_dispatch_id q) h (cs_replay sv, cs_durable sv) = (r, m, d)
        \<and> sv' = sv\<lparr>cs_replay := m, cs_durable := d\<rparr>"
      using that by (auto simp: cleanup_reserve_state_def cleanup_reserve_server_def split: prod.splits)
    then show ?thesis
      using journal_move_synced [OF cleanup_reserve_moves(1) synced] by auto
  qed
  obtain r sv'' where settled: "cleanup_settle x env q h (cleanup_execution x env q live) sv = (r, sv'')"
    by (cases "cleanup_settle x env q h (cleanup_execution x env q live) sv")
  then have "cleanup_synced x (cs_replay sv'') (cs_durable sv'')"
  proof (cases rule: cleanup_settle_cases)
    case (completed effect failure bs m d u)
    then show ?thesis
      using journal_move_synced [OF cleanup_complete_moves [OF completed(2)] synced] by simp
  qed (use synced in simp)
  then show "cleanup_synced x (cs_replay (cleanup_settle_state x f w sv)) (cs_durable (cleanup_settle_state x f w sv))"
    using settled by (simp add: cleanup_settle_state_def)
  show "cleanup_synced x (cs_replay (cleanup_reload sv)) (cs_durable (cleanup_reload sv))"
    using synced by (simp add: cleanup_reload_def cleanup_synced_def)
qed simp_all

text \<open>C8. Memory and store never disagree silently: over every history from a restored server the
  store holds a snapshot that passes validation, so a restart always succeeds, and the journal in
  memory equals it unless a commit failed; after a failed commit every request is refused, with
  no platform call and no change, until the journal is reloaded.\<close>

theorem cleanup_restart_always_restores:
  assumes "restore_cleanup_server x target key signer replay = Inr sv"
  shows "let sv' = cleanup_run x events sv in
     (\<exists>again. restore_cleanup_server x target key signer (cs_durable sv') = Inr again)
     \<and> (cs_replay sv' = cs_durable sv'
        \<or> (\<forall>env q. \<exists>e. cleanup_handle x env q sv' = (Inl e, sv')))"
proof -
  let ?sv = "cleanup_run x events sv"
  have "cleanup_synced x (cs_replay sv) (cs_durable sv)"
    using assms by (auto simp: restore_cleanup_server_def result_simps cleanup_synced_def split: if_splits)
  then have synced: "cleanup_synced x (cs_replay ?sv) (cs_durable ?sv)"
    unfolding cleanup_run_def cleanup_step_phases by (rule cleanup_sync.inv_run)
  have refused: "\<exists>e. cleanup_handle x env q ?sv = (Inl e, ?sv)" if "cj_commit_uncertain (cs_replay ?sv)" for env q
  proof -
    have "\<exists>e. cleanup_classify x d h (cs_replay ?sv) = Inl e" for d h
      using that by (auto simp: cleanup_classify_def cleanup_validate_def reject_if_def)
    then have "\<exists>e. cleanup_admit x env q ?sv = Inl e"
      by (cases "cleanup_request_sha256 x q") (simp_all add: cleanup_admit_def, metis and_then_simps(1))
    then show ?thesis
      by (auto simp: cleanup_handle_def)
  qed
  have "\<exists>again. restore_cleanup_server x target key signer (cs_durable ?sv) = Inr again"
    using assms synced by (auto simp: restore_cleanup_server_def cleanup_synced_def split: if_splits)
  with synced refused show ?thesis
    by (auto simp: Let_def cleanup_synced_def)
qed

theorem cleanup_restart_always_restores_witness:
  "restore_cleanup_server demo_exchange ''peer'' ''target'' ''target'' (cs_durable demo_cleanup_server)
     = Inr demo_cleanup_server
   \<and> (\<exists>again. restore_cleanup_server demo_exchange ''peer'' ''target'' ''target''
        (cs_durable (cleanup_run demo_exchange [Handle (demo_cleanup_env, demo_cleanup_request)]
           demo_cleanup_server)) = Inr again)"
  using cleanup_restart_always_restores [OF demo_cleanup_restored,
      of "[Handle (demo_cleanup_env, demo_cleanup_request)]"] demo_cleanup_restored
  by (simp add: Let_def)

section \<open>What enters the registry\<close>

lemma cleanup_handle_cases:
  assumes "cleanup_handle x env q sv = (r, sv')"
  obtains (answered) "sv' = sv"
  | (unreserved) e h where "r = Inl e" "cleanup_reserve_server x env (cq_dispatch_id q) h sv = (Inl e, sv')"
  | (entered) live h sv1 where "cleanup_admit x env q sv = Inr (Inr (live, h))"
      "cleanup_reserve_server x env (cq_dispatch_id q) h sv = (Inr (), sv1)"
      "cleanup_settle x env q h (cleanup_execution x env q live) (cleanup_enter q live sv1) = (r, sv')"
proof (cases "cleanup_admit x env q sv")
  case (Inr a)
  show thesis
  proof (cases a)
    case new: (Inr lh)
    obtain live h where lh: "lh = (live, h)"
      by (cases lh)
    obtain u sv1 where reserve: "cleanup_reserve_server x env (cq_dispatch_id q) h sv = (u, sv1)"
      by (cases "cleanup_reserve_server x env (cq_dispatch_id q) h sv")
    show thesis
      using assms Inr new lh reserve
      by (cases u) (auto simp: cleanup_handle_def intro: unreserved entered)
  qed (use assms Inr in \<open>auto simp: cleanup_handle_def intro: answered\<close>)
qed (use assms in \<open>auto simp: cleanup_handle_def intro: answered\<close>)

lemma cleanup_handle_entered:
  assumes "cleanup_handle x env q sv = (r, sv')" "cs_calls sv' \<noteq> cs_calls sv"
  obtains live h sv1 where "cleanup_admit x env q sv = Inr (Inr (live, h))"
    "cleanup_reserve_server x env (cq_dispatch_id q) h sv = (Inr (), sv1)"
    "cleanup_settle x env q h (cleanup_execution x env q live) (cleanup_enter q live sv1) = (r, sv')"
  using assms(1)
proof (cases rule: cleanup_handle_cases)
  case (unreserved e h)
  then show thesis
    using assms(2) cleanup_reserve_facts(2) [OF unreserved(2)] by simp
qed (use assms(2) that in auto)

text \<open>C35. Only the independently derived stop is executed: when handling a request calls the
  registry, the live source was obtained for the clock's time, the signed request verified
  against it, and the call carries the source's own projection and target, which are exactly the
  ones the request signed.\<close>

theorem cleanup_effect_is_authorised:
  assumes handled: "cleanup_handle x env q sv = (r, sv')"
    and entered: "cs_calls sv' \<noteq> cs_calls sv"
  shows "\<exists>live now validity.
     ce_now_ms env = Inr now \<and> ce_current_source env q now = Inr live \<and> ce_validity_ms env = Inr validity
     \<and> verify_cleanup_request x q (cl_projection live) (cl_expected_target live)
         (cl_executor_generation live) (cs_target_peer_id sv) (cl_signer_key_id live)
         (cl_signer_key live) now validity = Inr ()
     \<and> cl_projection live = ct_authority (cq_cleanup q) \<and> cl_expected_target live = ct_target (cq_cleanup q)
     \<and> cq_dispatch_id q \<notin> cj_ids (cs_replay sv)
     \<and> cs_calls sv' = cs_calls sv @ [(cq_dispatch_id q, cl_projection live, cl_expected_target live,
         ct_mode (cq_cleanup q))]"
proof -
  obtain live h sv1 where admit: "cleanup_admit x env q sv = Inr (Inr (live, h))"
    and reserve: "cleanup_reserve_server x env (cq_dispatch_id q) h sv = (Inr (), sv1)"
    and settle: "cleanup_settle x env q h (cleanup_execution x env q live) (cleanup_enter q live sv1) = (r, sv')"
    using handled entered by (rule cleanup_handle_entered)
  obtain now validity where ok: "ce_now_ms env = Inr now" "ce_current_source env q now = Inr live"
    "ce_validity_ms env = Inr validity"
    "verify_cleanup_request x q (cl_projection live) (cl_expected_target live)
         (cl_executor_generation live) (cs_target_peer_id sv) (cl_signer_key_id live)
         (cl_signer_key live) now validity = Inr ()"
    using cleanup_admit_newD(3) [OF admit] by blast
  have exact: "cl_projection live = ct_authority (cq_cleanup q)" "cl_expected_target live = ct_target (cq_cleanup q)"
    using ok(4) by (auto simp: verify_cleanup_request_def verify_retained_cleanup_ticket_def
        cleanup_ticket_refused_def Let_def result_simps split: if_splits)
  have "cs_calls sv' = cs_calls sv @ [(cq_dispatch_id q, cl_projection live, cl_expected_target live,
         ct_mode (cq_cleanup q))]"
    using cleanup_settle_facts [OF settle] cleanup_reserve_facts(2) [OF reserve] by (simp add: cleanup_enter_def)
  with ok exact cleanup_classify_newD(1) [OF cleanup_admit_newD(2) [OF admit]] show ?thesis
    by blast
qed

theorem cleanup_effect_is_authorised_witness:
  "cs_calls demo_cleanup_done \<noteq> cs_calls demo_cleanup_server
   \<and> (\<exists>live :: cleanup_live. cl_expected_target live = ct_target (cq_cleanup demo_cleanup_request)
        \<and> cs_calls demo_cleanup_done = cs_calls demo_cleanup_server
            @ [(cq_dispatch_id demo_cleanup_request, cl_projection live, cl_expected_target live,
                ct_mode (cq_cleanup demo_cleanup_request))])"
proof -
  have entered: "cs_calls demo_cleanup_done \<noteq> cs_calls demo_cleanup_server"
    by (simp add: demo_cleanup_done_def demo_cleanup_server_def Let_def)
  from cleanup_effect_is_authorised [OF demo_cleanup_handled entered] entered show ?thesis
    by blast
qed

text \<open>Terminal retries are byte-exact: if handling a request leaves a terminal entry for it and
  answers with some bytes, then handling the same request again, at any later time and whatever
  the clock, source or store then do, answers with the same bytes and changes nothing.\<close>

theorem cleanup_retry_is_exact:
  assumes handled: "cleanup_handle x env q sv = (Inr bs, sv')"
    and terminal: "bt_get (cj_terminal (cs_replay sv')) (cq_dispatch_id q) \<noteq> None"
  shows "cleanup_handle x env' q sv' = (Inr bs, sv')"
proof -
  have again: "cleanup_handle x any q s = (Inr (tr_response_bytes v), s)"
    if "cleanup_request_sha256 x q = Inr h" "cleanup_validate x (cs_replay s) = Inr ()"
      "cq_dispatch_id q \<noteq> []" "valid_sha256 h"
      "bt_get (cj_terminal (cs_replay s)) (cq_dispatch_id q) = Some v" "tr_request_sha256 v = h" for s h v any
    using that by (simp add: cleanup_handle_def cleanup_admit_def cleanup_classify_def)
  obtain h decision where sha: "cleanup_request_sha256 x q = Inr h"
    and decided: "cleanup_classify x (cq_dispatch_id q) h (cs_replay sv) = Inr decision"
    using handled by (auto simp: cleanup_handle_def cleanup_admit_def result_simps split: sum.splits)
  have valid: "cleanup_validate x (cs_replay sv) = Inr ()" "cq_dispatch_id q \<noteq> []" "valid_sha256 h"
    using decided by (auto simp: cleanup_classify_def result_simps split: if_splits)
  show ?thesis
  proof (cases "bt_get (cj_terminal (cs_replay sv)) (cq_dispatch_id q)")
    case (Some v)
    then have "tr_request_sha256 v = h"
      using decided valid by (auto simp: cleanup_classify_def split: if_splits)
    from again [OF sha valid Some this] handled show ?thesis
      by simp
  next
    case None
    from handled show ?thesis
    proof (cases rule: cleanup_handle_cases)
      case (entered live h' sv1)
      have h': "h' = h"
        using cleanup_admit_newD(1) [OF entered(1)] sha by simp
      obtain m d where reserve: "cleanup_reserve x (ce_commit env) (cq_dispatch_id q) h
          (cs_replay sv, cs_durable sv) = (Inr (), m, d)"
        and sv1: "sv1 = sv\<lparr>cs_replay := m, cs_durable := d\<rparr>"
        using entered(2) h' by (auto simp: cleanup_reserve_server_eq)
      have "bt_get (cj_terminal m) (cq_dispatch_id q) = None"
        using cleanup_reserve_moves(1) [OF reserve] None by (simp add: journal_move_def)
      with entered(3) terminal sv1 show ?thesis
      proof (cases rule: cleanup_settle_cases)
        case (completed effect failure bytes m' d' u)
        have u: "u = Inr ()" "bytes = bs"
          using completed(3) by (cases u, auto)+
        have "m' = (cs_replay (cleanup_enter q live sv1))\<lparr>cj_pending := bt_remove (cq_dispatch_id q)
              (cj_pending (cs_replay (cleanup_enter q live sv1))),
            cj_terminal := bt_insert (cq_dispatch_id q) \<lparr>tr_request_sha256 = h, tr_response_bytes = bs\<rparr>
              (cj_terminal (cs_replay (cleanup_enter q live sv1)))\<rparr>" "cleanup_validate x m' = Inr ()"
          using cleanup_complete_moves [OF completed(2)] u h' by (simp_all add: journal_move_def)
        with completed(4) again [OF sha, of sv' _ env'] valid show ?thesis
          by simp
      qed (simp add: cleanup_enter_def)
    qed (use None terminal in simp_all)
  qed
qed

theorem cleanup_retry_is_exact_witness:
  "cleanup_handle demo_exchange demo_cleanup_env demo_cleanup_request demo_cleanup_server
     = (Inr [1], demo_cleanup_done)
   \<and> cleanup_handle demo_exchange (demo_cleanup_env\<lparr>ce_now_ms := Inl ''no clock''\<rparr>) demo_cleanup_request
       demo_cleanup_done = (Inr [1], demo_cleanup_done)"
proof -
  have "bt_get (cj_terminal (cs_replay demo_cleanup_done)) (cq_dispatch_id demo_cleanup_request) \<noteq> None"
    by (simp add: demo_cleanup_done_def demo_cleanup_request_sel Let_def)
  from cleanup_retry_is_exact [OF demo_cleanup_handled this] demo_cleanup_handled show ?thesis
    by simp
qed

section \<open>The coordinator accepts what the server answers\<close>

lemma cleanup_signing_ignores_signature:
  "cleanup_response_signing_bytes x (r\<lparr>cr_signature_base64 := s\<rparr>) = cleanup_response_signing_bytes x r"
  by (simp add: cleanup_response_signing_bytes_def)

text \<open>C16. Both ends agree: if the serializer round-trips and the server's signer makes signatures that
  verify under its enrolled key, then whatever a newly executed cleanup answers, completed or
  uncertain, passes the coordinator's verification against its own request and target.\<close>

theorem cleanup_answer_verifies:
  assumes handled: "cleanup_handle x env q sv = (Inr bs, sv')"
    and entered: "cs_calls sv' \<noteq> cs_calls sv"
    and round_trip: "\<And>r bytes. m_cleanup_response_to_vec x r = Some bytes \<Longrightarrow>
        m_cleanup_response_from_slice x bytes = Some r"
    and key: "m_key_from_bytes x enrolled = Some k"
    and signer: "\<And>m signature. ce_sign env m = Inr signature \<Longrightarrow>
        length signature = 64 \<and> m_verify_strict x k m signature"
  shows "\<exists>response. verify_cleanup_response x bs q (ct_target (cq_cleanup q)) (cs_target_peer_id sv)
      (cs_signer_key_id sv) enrolled = Inr response \<and> cr_status response \<in> {Completed, Uncertain}"
proof -
  obtain live h sv1 where admit: "cleanup_admit x env q sv = Inr (Inr (live, h))"
    and reserve: "cleanup_reserve_server x env (cq_dispatch_id q) h sv = (Inr (), sv1)"
    and settle: "cleanup_settle x env q h (cleanup_execution x env q live) (cleanup_enter q live sv1)
      = (Inr bs, sv')"
    using handled entered by (rule cleanup_handle_entered)
  let ?sv = "cleanup_enter q live sv1"
  obtain status effect failure where out: "cleanup_execution x env q live = (status, effect, failure)"
    by (cases "cleanup_execution x env q live")
  have sv: "cs_target_peer_id ?sv = cs_target_peer_id sv" "cs_signer_key_id ?sv = cs_signer_key_id sv"
    using reserve by (auto simp: cleanup_enter_def cleanup_reserve_server_eq)
  have signed: "cleanup_signed_response x env ?sv q h status effect failure = Inr bs"
    using settle out by (cases "cleanup_signed_response x env ?sv q h status effect failure")
      (auto simp: cleanup_settle_def result_simps split: prod.splits if_splits)
  have sha: "cleanup_request_sha256 x q = Inr h"
    by (rule cleanup_admit_newD(1) [OF admit])
  have exact: "cl_expected_target live = ct_target (cq_cleanup q)" "cq_target_peer_id q = cs_target_peer_id sv"
    using cleanup_admit_newD(3) [OF admit]
    by (auto simp: verify_cleanup_request_def verify_retained_cleanup_ticket_def
        cleanup_ticket_refused_def Let_def result_simps split: if_splits)
  define unsigned where "unsigned =
        \<lparr>cr_schema_id = (if cq_schema_id q = owned_request_schema then owned_response_schema
                         else retained_response_schema),
         cr_dispatch_id = cq_dispatch_id q, cr_executor_peer_id = cs_target_peer_id sv,
         cr_request_sha256 = h, cr_status = status, cr_effect = effect,
         cr_failure = failure, cr_signer_key_id = cs_signer_key_id sv, cr_signature_base64 = []\<rparr>"
  obtain m signature where bytes: "cleanup_response_signing_bytes x unsigned = Inr m"
    and sign: "ce_sign env m = Inr signature"
    and encoded: "m_cleanup_response_to_vec x
        (unsigned\<lparr>cr_signature_base64 := encode_signature_base64 signature\<rparr>) = Some bs"
    using signed by (auto simp: cleanup_signed_response_def sv result_simps Let_def simp flip: unsigned_def)
  let ?r = "unsigned\<lparr>cr_signature_base64 := encode_signature_base64 signature\<rparr>"
  have "cleanup_response_signing_bytes x ?r = Inr m"
    using bytes by (simp add: cleanup_signing_ignores_signature)
  moreover have "decode_signature_base64 (encode_signature_base64 signature) = Inr signature"
    "m_verify_strict x k m signature"
    using signer [OF sign] by (simp_all add: decode_encode_signature)
  moreover have "(status = Completed \<and> failure = None
        \<and> (\<exists>e. effect = Some e \<and> is_ok (validate_effect x (ct_target (cq_cleanup q)) (ct_mode (cq_cleanup q)) e)))
      \<or> (status = Uncertain \<and> effect = None \<and> failure \<noteq> None)"
    using out exact by (auto simp: cleanup_execution_def cleanup_effect_outcome_def split: sum.splits if_splits)
  ultimately have "verify_cleanup_response x bs q (ct_target (cq_cleanup q)) (cs_target_peer_id sv)
      (cs_signer_key_id sv) enrolled = Inr ?r \<and> cr_status ?r \<in> {Completed, Uncertain}"
    using round_trip [OF encoded] exact key sha
    by (auto simp: verify_cleanup_response_def verify_cleanup_response_with_def validate_effect_def
        unsigned_def verify_under_def reject_if_def Let_def)
  then show ?thesis
    by blast
qed

theorem cleanup_answer_verifies_witness:
  "cleanup_handle demo_exchange demo_cleanup_env demo_cleanup_request demo_cleanup_server
     = (Inr [1], demo_cleanup_done)
   \<and> (\<exists>response. verify_cleanup_response demo_exchange [1] demo_cleanup_request demo_target ''peer'' ''target''
        (replicate 32 0) = Inr response)"
proof -
  have entered: "cs_calls demo_cleanup_done \<noteq> cs_calls demo_cleanup_server"
    by (simp add: demo_cleanup_done_def demo_cleanup_server_def Let_def)
  have "\<exists>response. verify_cleanup_response demo_exchange [1] demo_cleanup_request
      (ct_target (cq_cleanup demo_cleanup_request)) (cs_target_peer_id demo_cleanup_server)
      (cs_signer_key_id demo_cleanup_server) (replicate 32 0) = Inr response
      \<and> cr_status response \<in> {Completed, Uncertain}"
  proof (rule cleanup_answer_verifies [OF demo_cleanup_handled entered])
    show "m_key_from_bytes demo_exchange (replicate 32 0) = Some ()"
      by simp
    show "m_cleanup_response_from_slice demo_exchange bytes = Some r"
      if "m_cleanup_response_to_vec demo_exchange r = Some bytes" for r bytes
      using that by (auto simp: demo_exchange_def split: if_splits)
    show "length signature = 64 \<and> m_verify_strict demo_exchange () m signature"
      if "ce_sign demo_cleanup_env m = Inr signature" for m signature
      using that by auto
  qed
  with demo_cleanup_handled show ?thesis
    by (auto simp: demo_cleanup_request_sel demo_cleanup_server_def Let_def)
qed

end
