(* ===== verification/Owner_Executor.thy ===== *)
theory Owner_Executor
  imports Owner_Wire
begin

text \<open>
  The executors behind \<open>AndroidMediaOwnerExecutor\<close>: the remote dispatch client and the composite
  of one product (\<open>owner_dispatch.rs\<close>), the deterministic executor and the synthetic conformance
  run (\<open>lib.rs\<close>).
\<close>

section \<open>The remote client\<close>

record 'k remote_executor =
  re_signer_key_id :: string
  re_executor_key :: 'k
  re_executor_key_id :: string
  re_next_sequence :: u64

definition remote_executor_new ::
  "('k, 'n) media_externals \<Rightarrow> string \<Rightarrow> bytes \<Rightarrow> string \<Rightarrow> string + 'k remote_executor" where
  "remote_executor_new x signer_key_id executor_key executor_key_id =
     (if executor_key_id = [] then Inl ''empty executor key id''
      else
        and_then (ok_or ''invalid executor public key'' (m_key_from_bytes x executor_key)) (\<lambda>key.
        Inr \<lparr>re_signer_key_id = signer_key_id, re_executor_key = key,
             re_executor_key_id = executor_key_id, re_next_sequence = 1\<rparr>))"

text \<open>\<open>format!("dispatch.{}.{}")\<close> of the action and the sequence number.\<close>

definition dispatch_id_of :: "string \<Rightarrow> u64 \<Rightarrow> string" where
  "dispatch_id_of action_id sequence = ''dispatch.'' @ action_id @ ''.'' @ decimal (unat sequence)"

definition prepare_request ::
  "('k, 'n) media_externals \<Rightarrow> (bytes \<Rightarrow> string + bytes) \<Rightarrow> string \<Rightarrow> dispatch_authority
     \<Rightarrow> execution_ticket \<Rightarrow> execution_mode \<Rightarrow> u64 \<Rightarrow> 'k remote_executor
     \<Rightarrow> (string + dispatch_request) \<times> 'k remote_executor" where
  "prepare_request x sign target_peer_id authority ticket mode now_ms ex =
     (case checked_add (re_next_sequence ex) 1 of
        None \<Rightarrow> (Inl ''dispatch sequence exhausted'', ex)
      | Some next_sequence \<Rightarrow>
          let request =
            \<lparr>dq_schema_id = request_schema,
             dq_dispatch_id = dispatch_id_of (tk_action_id ticket) (re_next_sequence ex),
             dq_sequence = re_next_sequence ex, dq_issued_at_ms = now_ms,
             dq_target_peer_id = target_peer_id, dq_authority = authority, dq_ticket = ticket,
             dq_mode = mode, dq_signer_key_id = re_signer_key_id ex, dq_signature_base64 = []\<rparr>
          in
          (and_then (request_signing_bytes x request) (\<lambda>bs.
           and_then (sign bs) (\<lambda>signature.
           Inr (request\<lparr>dq_signature_base64 := encode_signature_base64 signature\<rparr>))),
           ex\<lparr>re_next_sequence := next_sequence\<rparr>))"

text \<open>\<open>execute_prepared\<close>, with the transport's answer to a frame and a size bound.\<close>

definition execute_prepared ::
  "('k, 'n) media_externals \<Rightarrow> (bytes \<Rightarrow> nat \<Rightarrow> string + bytes) \<Rightarrow> dispatch_request
     \<Rightarrow> 'k remote_executor \<Rightarrow> string + owner_effect" where
  "execute_prepared x exchange q ex =
     and_then (encode_request_frame x q) (\<lambda>frame.
     and_then (exchange frame max_frame_bytes) (\<lambda>response_frame.
     and_then (decode_response_frame x response_frame) (\<lambda>response.
     if dr_schema_id response \<noteq> response_schema
       \<or> dr_dispatch_id response \<noteq> dq_dispatch_id q
       \<or> dr_request_sha256 response \<noteq> x_sha x frame
       \<or> dr_signer_key_id response \<noteq> re_executor_key_id ex
     then Inl ''dispatch response binding mismatch''
     else
       and_then (decode_signature_base64 (dr_signature_base64 response)) (\<lambda>signature.
       and_then (response_signing_bytes x response) (\<lambda>signing.
       if \<not> m_verify_strict x (re_executor_key ex) signing signature
       then Inl ''dispatch response signature''
       else (case (dr_status response, dr_effect response) of
           (Completed, Some effect) \<Rightarrow>
             and_then (validate_effect x (dq_ticket q) (dq_mode q) effect) (\<lambda>_. Inr effect)
         | (Uncertain, _) \<Rightarrow> Inl ''remote platform effect uncertain''
         | _ \<Rightarrow> Inl ''remote owner dispatch rejected''))))))"

definition remote_execute ::
  "('k, 'n) media_externals \<Rightarrow> (bytes \<Rightarrow> string + bytes) \<Rightarrow> (bytes \<Rightarrow> nat \<Rightarrow> string + bytes) \<Rightarrow> string
     \<Rightarrow> dispatch_authority \<Rightarrow> execution_ticket \<Rightarrow> execution_mode \<Rightarrow> u64 \<Rightarrow> 'k remote_executor
     \<Rightarrow> (string + owner_effect) \<times> 'k remote_executor" where
  "remote_execute x sign exchange target_peer_id authority ticket mode now_ms ex =
     (case prepare_request x sign target_peer_id authority ticket mode now_ms ex of
        (r, ex) \<Rightarrow> (and_then r (\<lambda>q. execute_prepared x exchange q ex), ex))"

section \<open>The composite executor\<close>

datatype placement_target = Local | Remote string

record owner_placement =
  pl_owner_kind :: owner_kind
  pl_owner_id :: string
  pl_provider_kind :: string
  pl_resource_id :: string
  pl_target :: placement_target

type_synonym placement_key = "owner_kind \<times> string \<times> string \<times> string"

text \<open>What the local registry, the remote client, the projection source and the clock answer.\<close>

record composite_env =
  cx_now_ms :: "string + u64"
  cx_target_generation :: "string \<Rightarrow> string + u64"
  cx_projection :: "execution_ticket \<Rightarrow> string \<Rightarrow> execution_mode \<Rightarrow> u64 \<Rightarrow> string + dispatch_authority"
  cx_local :: "dispatch_authority \<Rightarrow> execution_ticket \<Rightarrow> execution_mode \<Rightarrow> string + owner_effect"
  cx_remote :: "string \<Rightarrow> dispatch_authority \<Rightarrow> execution_ticket \<Rightarrow> execution_mode \<Rightarrow> u64 \<Rightarrow> string + owner_effect"

record composite_executor =
  cp_generation :: u64
  cp_local_peer_id :: string
  cp_placements :: "(placement_key, placement_target) btree"
  cp_verified :: "(string, execution_ticket \<times> owner_effect) btree"

definition all_families :: "owner_kind list" where
  "all_families = [Source, Processor, Route, Socket, Codec, Sink, Cleanup]"

definition placement_key_of :: "owner_placement \<Rightarrow> placement_key" where
  "placement_key_of p = (pl_owner_kind p, pl_owner_id p, pl_provider_kind p, pl_resource_id p)"

fun collect_placements ::
  "owner_placement list \<Rightarrow> (placement_key, placement_target) btree \<Rightarrow> owner_kind list
     \<Rightarrow> string + (placement_key, placement_target) btree \<times> owner_kind list" where
  "collect_placements [] exact families = Inr (exact, families)"
| "collect_placements (p # ps) exact families =
     (if pl_owner_id p = [] \<or> pl_provider_kind p = [] \<or> pl_resource_id p = [] \<or> pl_target p = Remote []
      then Inl ''invalid owner placement''
      else if bt_contains (placement_key_of p) exact then Inl ''duplicate owner placement''
      else collect_placements ps (bt_insert (placement_key_of p) (pl_target p) exact)
             (pl_owner_kind p # families))"

definition composite_new ::
  "u64 \<Rightarrow> string \<Rightarrow> owner_placement list \<Rightarrow> string + composite_executor" where
  "composite_new generation local_peer_id placements =
     and_then (collect_placements placements [] []) (\<lambda>(exact, families).
     if generation = 0 \<or> local_peer_id = [] \<or> set families \<noteq> set all_families
     then Inl ''incomplete seven-family placement''
     else Inr \<lparr>cp_generation = generation, cp_local_peer_id = local_peer_id, cp_placements = exact,
            cp_verified = []\<rparr>)"

definition placement_of ::
  "composite_executor \<Rightarrow> owner_kind \<Rightarrow> string \<Rightarrow> string \<Rightarrow> string \<Rightarrow> string + placement_target" where
  "placement_of ex kind owner_id provider_kind resource_id =
     ok_or ''owner placement absent'' (bt_get (cp_placements ex) (kind, owner_id, provider_kind, resource_id))"

definition target_generation ::
  "composite_env \<Rightarrow> composite_executor \<Rightarrow> placement_target \<Rightarrow> string + u64" where
  "target_generation env ex target =
     and_then (case target of Local \<Rightarrow> Inr (cp_generation ex)
               | Remote peer_id \<Rightarrow> cx_target_generation env peer_id) (\<lambda>generation.
     if generation = 0 then Inl ''authenticated target executor generation unavailable''
     else Inr generation)"

definition executor_generation_for ::
  "composite_env \<Rightarrow> composite_executor \<Rightarrow> owner_action \<Rightarrow> string + u64" where
  "executor_generation_for env ex owner =
     (let s = oa_selection owner in
      and_then (placement_of ex (sel_owner_kind s) (sel_owner_id s) (sel_provider_kind s) (sel_resource_id s))
        (target_generation env ex))"

definition composite_execute ::
  "('k, 'n) media_externals \<Rightarrow> composite_env \<Rightarrow> execution_ticket \<Rightarrow> execution_mode \<Rightarrow> composite_executor
     \<Rightarrow> (string + owner_readback) \<times> composite_executor" where
  "composite_execute x env ticket mode ex =
     (let outcome =
        and_then (placement_of ex (tk_owner_kind ticket) (tk_owner_id ticket) (tk_provider_kind ticket)
            (tk_resource_id ticket)) (\<lambda>target.
        and_then (target_generation env ex target) (\<lambda>generation.
        if tk_executor_generation ticket \<noteq> generation then Inl ''executor generation mismatch''
        else
          and_then (cx_now_ms env) (\<lambda>now_ms.
          and_then (cx_projection env ticket
              (case target of Local \<Rightarrow> cp_local_peer_id ex | Remote peer_id \<Rightarrow> peer_id) mode now_ms)
            (\<lambda>projection.
          and_then (case target of
                Local \<Rightarrow> cx_local env projection ticket mode
              | Remote peer_id \<Rightarrow> cx_remote env peer_id projection ticket mode now_ms) (\<lambda>effect.
          and_then (validate_effect x ticket mode effect) (\<lambda>_. Inr effect))))))
      in case outcome of
           Inl error \<Rightarrow> (Inl error, ex)
         | Inr effect \<Rightarrow>
             (Inr (ef_readback effect),
              ex\<lparr>cp_verified := bt_insert (tk_capability ticket) (ticket, effect) (cp_verified ex)\<rparr>))"

text \<open>\<open>verify\<close> takes the retained effect out of the map behind the lock.\<close>

definition composite_verify ::
  "execution_ticket \<Rightarrow> owner_readback \<Rightarrow> composite_executor \<Rightarrow> bool \<times> composite_executor" where
  "composite_verify ticket readback ex =
     ((case bt_get (cp_verified ex) (tk_capability ticket) of
         None \<Rightarrow> False
       | Some (expected, effect) \<Rightarrow> expected = ticket \<and> ef_readback effect = readback),
      ex\<lparr>cp_verified := bt_remove (tk_capability ticket) (cp_verified ex)\<rparr>)"

section \<open>The deterministic executor\<close>

record test_executor =
  te_generation :: u64
  te_revision :: u64
  te_handles :: "(string \<times> string, string) btree"
  te_verified :: "(string, owner_readback) btree"

definition test_executor_new :: "u64 \<Rightarrow> media_contract_error + test_executor" where
  "test_executor_new generation =
     (if generation = 0 then Inl InvalidAuthority
      else Inr \<lparr>te_generation = generation, te_revision = 0, te_handles = [], te_verified = []\<rparr>)"

definition test_handle :: "execution_ticket \<Rightarrow> string" where
  "test_handle ticket = ''test-handle.'' @ tk_owner_id ticket @ ''.'' @ tk_resource_id ticket"

definition test_observed :: "owner_action_kind \<Rightarrow> string" where
  "test_observed kind =
     (case kind of
        ArmReceiver \<Rightarrow> ''receiver_armed''
      | ArmCleanup \<Rightarrow> ''cleanup_armed''
      | ActStart \<Rightarrow> ''started''
      | ActStop \<Rightarrow> ''stopped''
      | ActCleanup \<Rightarrow> ''cleaned'')"

definition test_readback :: "execution_ticket \<Rightarrow> string \<Rightarrow> u64 \<Rightarrow> owner_readback" where
  "test_readback t handle revision =
     \<lparr>rb_remote_cleanup = None, rb_schema_id = readback_schema, rb_capability = tk_capability t,
      rb_executor_generation = tk_executor_generation t, rb_action_id = tk_action_id t,
      rb_authority_epoch_id = tk_authority_epoch_id t,
      rb_media_acceptance_authority_revision = tk_media_acceptance_authority_revision t,
      rb_expected_runtime_revision = tk_expected_runtime_revision t, rb_client_id = tk_client_id t,
      rb_lease_id = tk_lease_id t, rb_sequence = tk_sequence t, rb_operation = tk_operation t,
      rb_owner_kind = tk_owner_kind t, rb_action_kind = tk_action_kind t, rb_owner_id = tk_owner_id t,
      rb_provider_kind = tk_provider_kind t, rb_resource_id = tk_resource_id t,
      rb_provider_handle_id = handle, rb_provider_state_revision = revision,
      rb_observed_state = test_observed (tk_action_kind t),
      rb_receipt_id = ''test-receipt.'' @ tk_action_id t @ ''.'' @ decimal (unat (tk_sequence t)) @ ''.''
        @ decimal (unat revision)\<rparr>"

text \<open>
  The revision is counted before the handle is looked at, and a duplicate start has already
  replaced the handle when it is refused.
\<close>

definition test_execute ::
  "execution_ticket \<Rightarrow> execution_mode \<Rightarrow> test_executor \<Rightarrow> (string + owner_readback) \<times> test_executor" where
  "test_execute t mode ex =
     (if tk_executor_generation t \<noteq> te_generation ex then (Inl ''stale executor generation'', ex)
      else case checked_add (te_revision ex) 1 of
          None \<Rightarrow> (Inl ''provider revision exhausted'', ex)
        | Some revision \<Rightarrow>
            let ex = ex\<lparr>te_revision := revision\<rparr>;
                key = (tk_owner_id t, tk_resource_id t);
                starting = (tk_action_kind t \<in> {ArmReceiver, ArmCleanup, ActStart} \<and> mode = Execute);
                old = bt_get (te_handles ex) key;
                taken =
                  (if starting then
                     ((if old \<noteq> None then Inl ''test handle already active'' else Inr (test_handle t)),
                      bt_insert key (test_handle t) (te_handles ex))
                   else if mode = CompensateUncertain then
                     (Inr (case old of None \<Rightarrow> test_handle t | Some h \<Rightarrow> h), bt_remove key (te_handles ex))
                   else (ok_or ''test handle absent'' old, bt_remove key (te_handles ex)));
                ex = ex\<lparr>te_handles := snd taken\<rparr>
            in (case fst taken of
                  Inl error \<Rightarrow> (Inl error, ex)
                | Inr handle \<Rightarrow>
                    let readback = test_readback t handle revision in
                    (Inr readback,
                     ex\<lparr>te_verified := bt_insert (tk_capability t) readback (te_verified ex)\<rparr>)))"

definition test_verify :: "execution_ticket \<Rightarrow> owner_readback \<Rightarrow> test_executor \<Rightarrow> bool" where
  "test_verify t readback ex = (bt_get (te_verified ex) (tk_capability t) = Some readback)"

section \<open>The synthetic conformance run\<close>

record conformance_report =
  co_schema_id :: string
  co_exact_pair :: bool
  co_generation_lease :: bool
  co_exactly_once_release :: bool
  co_external_effects :: "string list"

definition run_synthetic_android_conformance :: "media_contract_error + conformance_report" where
  "run_synthetic_android_conformance =
     and_then (pair_runtime_new 7 ''lease.conformance'' 100) (\<lambda>rt.
     case submit (conformance_frame 11 EyeLeft 40 ''frame.left'') 1050 rt of (r1, rt) \<Rightarrow>
     and_then r1 (\<lambda>first.
     if first \<noteq> None then Inl FrameContractMismatch
     else case submit (conformance_frame 11 EyeRight 42 ''frame.right'') 1050 rt of (r2, rt) \<Rightarrow>
     and_then (and_then r2 (ok_or FrameContractMismatch)) (\<lambda>pair.
     if fr_presentation_time_us (sp_left pair) \<noteq> 40 \<or> fr_presentation_time_us (sp_right pair) \<noteq> 42
     then Inl FrameContractMismatch
     else case release (fr_frame_handle_id (sp_left pair)) rt of (r3, rt) \<Rightarrow>
     and_then r3 (\<lambda>_.
     case release (fr_frame_handle_id (sp_right pair)) rt of (r4, rt) \<Rightarrow>
     and_then r4 (\<lambda>_.
     case release (fr_frame_handle_id (sp_left pair)) rt of (r5, rt) \<Rightarrow>
     if is_ok r5 then Inl FrameContractMismatch
     else case submit (conformance_frame 12 EyeLeft 60 ''frame.expiring'') 1050 rt of (r6, rt) \<Rightarrow>
     and_then r6 (\<lambda>_.
     case expire_pairs 1101 rt of (expired, rt) \<Rightarrow>
     if expired \<noteq> [''frame.expiring''] then Inl FrameContractMismatch
     else case release (hd expired) rt of (r7, rt) \<Rightarrow>
     and_then r7 (\<lambda>_.
     case cancel_generation 7 8 rt of (r8, rt) \<Rightarrow>
     and_then r8 (\<lambda>_.
     if is_ok (fst (submit (conformance_frame 11 EyeLeft 50 ''frame.stale'') 1050 rt))
     then Inl FrameContractMismatch
     else Inr \<lparr>co_schema_id = ''rusty.quest.android.media.conformance.v1'', co_exact_pair = True,
            co_generation_lease = True, co_exactly_once_release = True, co_external_effects = []\<rparr>))))))))"

end
