(* ===== verification/Executor_Proofs.thy ===== *)
theory Executor_Proofs
  imports Owner_Executor Owner_Server_Proofs
begin

text \<open>
  The clients of the dispatch protocol: identities that never repeat, effects that are what the
  target signed, one-shot verification, and the composition of the remote client with the
  dispatch server over an unreliable link.
\<close>

section \<open>Fresh identities\<close>

lemma dispatch_id_inj: "dispatch_id_of a s = dispatch_id_of b t \<Longrightarrow> s = t"
proof -
  assume eq: "dispatch_id_of a s = dispatch_id_of b t"
  have tail: "takeWhile is_ascii_digit (rev (dispatch_id_of c u)) = rev (decimal (unat u))" for c u
  proof -
    have "\<not> is_ascii_digit CHR ''.''"
      by (simp add: is_ascii_digit_def in_range_def byte_of_def)
    then show ?thesis
      using decimal_digits [of "unat u"]
      by (simp add: dispatch_id_of_def takeWhile_tail takeWhile_eq_all_conv list_all_iff)
  qed
  from arg_cong [OF eq, of "\<lambda>i. takeWhile is_ascii_digit (rev i)"]
  have "decimal (unat s) = decimal (unat t)"
    by (simp add: tail)
  then show "s = t"
    using decimal_inj [of "unat s" "unat t"] by (simp add: word_unat_eq_iff)
qed

text \<open>A sequence of preparations on one executor; each call has its own signer and arguments.\<close>

record prepare_call =
  pc_sign :: "bytes \<Rightarrow> string + bytes"
  pc_target :: string
  pc_authority :: dispatch_authority
  pc_ticket :: execution_ticket
  pc_mode :: execution_mode
  pc_now_ms :: u64

primrec prepare_run ::
  "('k, 'n) media_externals \<Rightarrow> prepare_call list \<Rightarrow> 'k remote_executor \<Rightarrow> (string + dispatch_request) list" where
  "prepare_run x [] ex = []"
| "prepare_run x (c # cs) ex =
     (case prepare_request x (pc_sign c) (pc_target c) (pc_authority c) (pc_ticket c) (pc_mode c) (pc_now_ms c) ex of
        (r, ex) \<Rightarrow> r # prepare_run x cs ex)"

definition prepared :: "(string + dispatch_request) list \<Rightarrow> dispatch_request list" where
  "prepared rs = concat (map (\<lambda>r. case r of Inl _ \<Rightarrow> [] | Inr q \<Rightarrow> [q]) rs)"

lemma prepare_request_facts:
  assumes "prepare_request x sign target authority ticket mode now ex = (r, ex')"
  shows "unat (re_next_sequence ex) \<le> unat (re_next_sequence ex')"
    "r = Inr q \<Longrightarrow> dq_sequence q = re_next_sequence ex
       \<and> dq_dispatch_id q = dispatch_id_of (tk_action_id ticket) (re_next_sequence ex)
       \<and> dq_ticket q = ticket \<and> dq_mode q = mode \<and> dq_authority q = authority
       \<and> unat (re_next_sequence ex) < unat (re_next_sequence ex')"
  using assms
  by (auto simp: prepare_request_def Let_def checked_add_eq_Some_iff result_simps split: option.splits)

lemma prepare_run_sequences:
  "q \<in> set (prepared (prepare_run x cs ex)) \<Longrightarrow> unat (re_next_sequence ex) \<le> unat (dq_sequence q)"
proof (induction cs arbitrary: ex)
  case (Cons c cs)
  obtain r ex' where p: "prepare_request x (pc_sign c) (pc_target c) (pc_authority c) (pc_ticket c) (pc_mode c)
      (pc_now_ms c) ex = (r, ex')"
    by (cases "prepare_request x (pc_sign c) (pc_target c) (pc_authority c) (pc_ticket c) (pc_mode c)
      (pc_now_ms c) ex")
  show ?case
    using Cons.prems Cons.IH [of ex'] prepare_request_facts [OF p] p
    by (cases r) (force simp: prepared_def)+
qed (simp add: prepared_def)

lemma prepared_identity:
  "q \<in> set (prepared (prepare_run x cs ex)) \<Longrightarrow> \<exists>a. dq_dispatch_id q = dispatch_id_of a (dq_sequence q)"
proof (induction cs arbitrary: ex)
  case (Cons c cs)
  obtain r ex' where p: "prepare_request x (pc_sign c) (pc_target c) (pc_authority c) (pc_ticket c) (pc_mode c)
      (pc_now_ms c) ex = (r, ex')"
    by (cases "prepare_request x (pc_sign c) (pc_target c) (pc_authority c) (pc_ticket c) (pc_mode c)
      (pc_now_ms c) ex")
  show ?case
  proof (cases r)
    case (Inr q')
    then show ?thesis
      using Cons.prems Cons.IH [of ex'] prepare_request_facts(2) [OF p Inr] p by (auto simp: prepared_def)
  qed (use Cons.prems Cons.IH [of ex'] p in \<open>simp add: prepared_def\<close>)
qed (simp add: prepared_def)

text \<open>A client never reuses a dispatch identity: over every sequence of preparations on one
  executor, whatever the actions, signers and failures in between, all prepared requests carry
  pairwise different identities and increasing sequence numbers.\<close>

theorem prepared_identities_are_fresh:
  "distinct (map dq_dispatch_id (prepared (prepare_run x calls ex)))
   \<and> sorted_wrt (\<lambda>a b. unat (dq_sequence a) < unat (dq_sequence b)) (prepared (prepare_run x calls ex))"
proof -
  have sorted: "sorted_wrt (\<lambda>a b. unat (dq_sequence a) < unat (dq_sequence b)) (prepared (prepare_run x calls ex))"
  proof (induction calls arbitrary: ex)
    case (Cons c cs)
    obtain r ex' where p: "prepare_request x (pc_sign c) (pc_target c) (pc_authority c) (pc_ticket c)
        (pc_mode c) (pc_now_ms c) ex = (r, ex')"
      by (cases "prepare_request x (pc_sign c) (pc_target c) (pc_authority c) (pc_ticket c) (pc_mode c)
        (pc_now_ms c) ex")
    have "prepared (prepare_run x (c # cs) ex)
        = (case r of Inl _ \<Rightarrow> [] | Inr q \<Rightarrow> [q]) @ prepared (prepare_run x cs ex')"
      by (simp add: p prepared_def)
    then show ?case
      using Cons.IH [of ex'] prepare_request_facts(2) [OF p] prepare_run_sequences [of _ x cs ex']
      by (cases r) fastforce+
  qed (simp add: prepared_def)
  have "distinct (map dq_dispatch_id qs)"
    if "sorted_wrt (\<lambda>a b. unat (dq_sequence a) < unat (dq_sequence b)) qs"
      "\<And>q. q \<in> set qs \<Longrightarrow> \<exists>a. dq_dispatch_id q = dispatch_id_of a (dq_sequence q)" for qs
    using that
  proof (induction qs)
    case (Cons q qs)
    have "dq_dispatch_id q \<noteq> dq_dispatch_id q'" if "q' \<in> set qs" for q'
    proof
      assume eq: "dq_dispatch_id q = dq_dispatch_id q'"
      have "dq_sequence q = dq_sequence q'"
        using eq Cons.prems(2) [of q] Cons.prems(2) [of q'] that dispatch_id_inj by force
      with Cons.prems(1) that show False
        by auto
    qed
    with Cons show ?case
      by (auto simp: image_iff)
  qed simp
  with sorted prepared_identity show ?thesis
    by blast
qed

section \<open>Remote effects\<close>

lemma completed_effect_iff:
  "(case s of Completed \<Rightarrow> (case e of None \<Rightarrow> Inl b | Some effect \<Rightarrow> and_then (v effect) (\<lambda>_. Inr effect))
      | Uncertain \<Rightarrow> Inl a | Rejected \<Rightarrow> Inl b) = Inr effect
   \<longleftrightarrow> s = Completed \<and> e = Some effect \<and> v effect = Inr ()"
  by (cases s; cases e) (auto simp: result_simps)

lemma execute_prepared_iff:
  "execute_prepared x exchange q ex = Inr effect \<longleftrightarrow>
     (\<exists>frame bs response signature signing.
        encode_request_frame x q = Inr frame \<and> exchange frame max_frame_bytes = Inr bs
        \<and> decode_response_frame x bs = Inr response
        \<and> dr_schema_id response = response_schema \<and> dr_dispatch_id response = dq_dispatch_id q
        \<and> dr_request_sha256 response = x_sha x frame \<and> dr_signer_key_id response = re_executor_key_id ex
        \<and> decode_signature_base64 (dr_signature_base64 response) = Inr signature
        \<and> response_signing_bytes x response = Inr signing
        \<and> m_verify_strict x (re_executor_key ex) signing signature
        \<and> dr_status response = Completed \<and> dr_effect response = Some effect
        \<and> validate_effect x (dq_ticket q) (dq_mode q) effect = Inr ())"
    (is "_ \<longleftrightarrow> ?bound")
proof
  show "execute_prepared x exchange q ex = Inr effect \<Longrightarrow> ?bound"
    by (auto simp: execute_prepared_def result_simps completed_effect_iff split: if_splits)
  show "?bound \<Longrightarrow> execute_prepared x exchange q ex = Inr effect"
    by (elim exE conjE) (simp add: execute_prepared_def)
qed

text \<open>C21. A remote effect is what the target signed: if the client returns an effect, the target's
  enrolled key signed a completed response that names this request's identity and the digest of
  the exact frame sent, and the effect in it is valid evidence for the ticket and mode asked for.\<close>

theorem remote_effect_is_bound:
  assumes "execute_prepared x exchange q ex = Inr effect"
  shows "\<exists>frame bs response signature signing.
     encode_request_frame x q = Inr frame \<and> exchange frame max_frame_bytes = Inr bs
     \<and> decode_response_frame x bs = Inr response
     \<and> dr_dispatch_id response = dq_dispatch_id q \<and> dr_request_sha256 response = x_sha x frame
     \<and> decode_signature_base64 (dr_signature_base64 response) = Inr signature
     \<and> response_signing_bytes x response = Inr signing
     \<and> m_verify_strict x (re_executor_key ex) signing signature
     \<and> dr_status response = Completed \<and> dr_effect response = Some effect
     \<and> (\<exists>readback. validate_readback x (dq_ticket q) (ef_readback effect) = Inr readback)
     \<and> (tk_operation (dq_ticket q) = OpStop \<or> dq_mode q = CompensateUncertain
         \<longrightarrow> ve_terminal (ef_verified effect))"
proof -
  have "(\<exists>readback. validate_readback x t (ef_readback effect) = Inr readback)
      \<and> (tk_operation t = OpStop \<or> mode = CompensateUncertain \<longrightarrow> ve_terminal (ef_verified effect))"
    if "validate_effect x t mode effect = Inr ()" for t mode
    using that by (auto simp: validate_effect_def validate_effect_with_def Let_def result_simps is_ok_def
        split: sum.splits)
  with assms show ?thesis
    unfolding execute_prepared_iff by blast
qed

section \<open>Client and server over an unreliable link\<close>

lemma owner_settled:
  assumes "owner_settle x env q h out sv = (Inr bs, sv')"
  shows "\<exists>response. owner_signed_response x env sv (dq_dispatch_id q) h (fst out) (fst (snd out)) (snd (snd out)) = Inr bs
     \<and> decode_response_frame x bs = Inr response
     \<and> bt_get (terminal (sv_replay sv')) (dq_dispatch_id q) = Some response
     \<and> sv_target_peer_id sv' = sv_target_peer_id sv"
  using assms
  by (auto simp: owner_settle_def Let_def result_simps split: sum.splits if_splits)

lemma owner_signed_parts:
  assumes "owner_signed_response x env sv d h status effect failure = Inr bs"
  obtains m signature r where
    "r = \<lparr>dr_schema_id = response_schema, dr_dispatch_id = d, dr_request_sha256 = h, dr_status = status,
        dr_effect = effect, dr_failure = failure, dr_signer_key_id = sv_signer_key_id sv,
        dr_signature_base64 = []\<rparr>"
    "response_signing_bytes x r = Inr m" "oe_sign env m = Inr signature"
    "encode_response_frame x (r\<lparr>dr_signature_base64 := encode_signature_base64 signature\<rparr>) = Inr bs"
  using assms by (auto simp: owner_signed_response_def result_simps Let_def)

text \<open>C7. A lost response costs nothing: take a client and a server that share serializers behaving as
  documented (\<open>value_serde\<close>, \<open>request_serde\<close>, \<open>response_serde\<close>), and a signer that is sound for the
  enrolled key. If the server newly executes the client's frame and the platform returns valid
  evidence, whose text is a Rust string, then the client that receives the answer returns exactly
  that evidence; and sending the same frame again, at any later time and under any conditions,
  yields the same bytes without touching the platform or the journal.\<close>

theorem lost_response_costs_nothing:
  assumes serde: "value_serde x" "request_serde x" "response_serde x"
    and frame: "encode_request_frame x q = Inr frame"
    and signer: "\<And>m s. oe_sign env m = Inr s \<Longrightarrow> length s = 64 \<and> m_verify_strict x (re_executor_key ex) m s"
    and key: "re_executor_key_id ex = sv_signer_key_id sv"
    and handled: "handle_frame_with_admission x env frame sv = (Inr bs, sv')"
    and entered: "sv_calls sv' \<noteq> sv_calls sv"
    and platform: "oe_execute env (dq_authority q) (dq_ticket q) (dq_mode q) = Inr effect"
      "validate_effect x (dq_ticket q) (dq_mode q) effect = Inr ()"
      "from_utf8 (str_bytes (ef_readback_json effect)) = Some (ef_readback_json effect)"
  shows "execute_prepared x (\<lambda>_ _. Inr bs) q ex = Inr effect
     \<and> (\<forall>env'. handle_frame_with_admission x env' frame sv' = (Inr bs, sv'))"
  using handled
proof (cases rule: handle_frame_cases)
  case (entered q' h sv1 out sv2)
  note decoded = request_frame_round_trip [OF serde(1,2) frame]
  have q': "q' = q" "h = x_sha x frame"
    using owner_classify_new [OF entered(1)] decoded by simp_all
  have out: "out = (Completed, Some effect, None)"
    using entered(3) platform q' by (simp add: owner_enter_def owner_effect_outcome_def)
  have sv2: "sv_signer_key_id sv2 = sv_signer_key_id sv" "sv_target_peer_id sv2 = sv_target_peer_id sv"
    using entered(2,3) by (auto simp: owner_reserve_def owner_enter_def Let_def split: sum.splits)
  obtain response where settled: "owner_signed_response x env sv2 (dq_dispatch_id q) h Completed (Some effect) None = Inr bs"
      "decode_response_frame x bs = Inr response"
      "bt_get (terminal (sv_replay sv')) (dq_dispatch_id q) = Some response"
      "sv_target_peer_id sv' = sv_target_peer_id sv2"
    using owner_settled [OF entered(4)] out q' by auto
  from settled(1) obtain m signature r where
    r: "r = \<lparr>dr_schema_id = response_schema, dr_dispatch_id = dq_dispatch_id q, dr_request_sha256 = h,
        dr_status = Completed, dr_effect = Some effect, dr_failure = None,
        dr_signer_key_id = sv_signer_key_id sv2, dr_signature_base64 = []\<rparr>"
    and m: "response_signing_bytes x r = Inr m" and signed: "oe_sign env m = Inr signature"
    and encoded: "encode_response_frame x (r\<lparr>dr_signature_base64 := encode_signature_base64 signature\<rparr>) = Inr bs"
    by (rule owner_signed_parts)
  have "readback_text_ok x effect"
    using platform(2,3)
    by (auto simp: readback_text_ok_def validate_effect_def validate_effect_with_def Let_def result_simps)
  then have response: "response = r\<lparr>dr_signature_base64 := encode_signature_base64 signature\<rparr>"
    using response_frame_round_trip [OF serde(1,3) encoded] settled(2) r by simp
  have "execute_prepared x (\<lambda>_ _. Inr bs) q ex = Inr effect"
    unfolding execute_prepared_iff
    using frame settled(2) response r m signed response_signing_ignores_signature [OF serde(3) m encoded]
      signer [OF signed] key sv2(1) q'(2) platform(2)
    by (auto simp: decode_encode_signature)
  moreover have "owner_classify x env' frame sv' = Inr (Inl bs)" for env'
  proof -
    have "frame \<noteq> []" "\<not> max_frame_bytes < length frame"
      using entered(1) by (auto simp: owner_classify_def split: if_splits)
    moreover have "validate_request_shape q (sv_target_peer_id sv') = Inr ()"
      using owner_classify_newD(1) [OF entered(1)] q' settled(4) sv2(2) by auto
    ultimately show ?thesis
      using decoded settled(3) response r encoded q'(2) by (simp add: owner_classify_def Let_def)
  qed
  ultimately show ?thesis
    by (simp add: handle_frame_with_admission_def)
qed (use entered in auto)

lemma demo_completed_valid:
  "validate_effect (demo_dispatch out) (dq_ticket demo_request) (dq_mode demo_request) demo_effect = Inr ()"
proof -
  let ?x = "demo_dispatch out"
  have "validate_readback ?x demo_target demo_readback = validate_readback demo_exchange demo_target demo_readback"
    by (simp add: validate_readback_def validate_readback_with_def) (simp add: demo_readback_def)
  moreover have "m_sha256 ?x = m_sha256 demo_exchange" "m_readback_from_str ?x = m_readback_from_str demo_exchange"
    by (simp_all add: demo_dispatch_def)
  moreover have "dq_ticket demo_request = demo_target" "dq_mode demo_request = Execute"
    "ef_readback demo_effect = demo_readback"
    by (simp_all add: demo_request_def demo_effect_def)
  ultimately show ?thesis
    using demo_effect_valid by (simp add: validate_effect_def validate_effect_with_def Let_def)
qed

definition demo_remote :: "unit remote_executor" where
  "demo_remote = \<lparr>re_signer_key_id = ''k'', re_executor_key = (), re_executor_key_id = ''t'', re_next_sequence = 1\<rparr>"

lemma demo_remote_executed:
  "execute_prepared (demo_dispatch demo_completed) (\<lambda>_ _. Inr (frame_of ([1], demo_payload demo_completed)))
     demo_request demo_remote = Inr demo_effect"
proof -
  have "\<exists>bs. response_signing_bytes (demo_dispatch demo_completed) (demo_response demo_completed) = Inr bs"
    by (simp add: response_signing_bytes_def demo_response_wire wire_signing_bytes_def u32_from_len_def
        demo_payload_def demo_completed_def demo_effect_def)
  moreover have "m_verify_strict (demo_dispatch demo_completed) () m (replicate 64 0)" for m
    by (simp add: demo_dispatch_def)
  moreover have "dr_schema_id (demo_response out) = response_schema" "dr_dispatch_id (demo_response out) = ''d1''"
    "dr_request_sha256 (demo_response out) = demo_zero_sha" "dr_signer_key_id (demo_response out) = ''t''"
    "dr_signature_base64 (demo_response out) = demo_signature" "dr_status (demo_response demo_completed) = Completed"
    "dr_effect (demo_response demo_completed) = Some demo_effect" "dq_dispatch_id demo_request = ''d1''" for out
    by (simp_all add: demo_response_def demo_completed_def demo_request_def)
  ultimately show ?thesis
    unfolding execute_prepared_iff
    by (auto simp: demo_request_encodes demo_response_encodes demo_sha demo_signature_decodes
        demo_completed_valid demo_remote_def)
qed

theorem lost_response_costs_nothing_witness:
  "let x = demo_dispatch demo_completed; env = demo_env (Inr demo_effect);
       ex = demo_remote; bs = frame_of ([1], str_bytes ''json'')
   in execute_prepared x (\<lambda>_ _. Inr bs) demo_request ex = Inr demo_effect
      \<and> handle_frame_with_admission x env demo_frame (demo_handled_server demo_completed)
          = (Inr bs, demo_handled_server demo_completed)"
proof -
  let ?x = "demo_dispatch demo_completed" and ?env = "demo_env (Inr demo_effect)"
  let ?ex = demo_remote
  note valid = demo_completed_valid
  have handled: "handle_frame_with_admission ?x ?env demo_frame demo_server
      = (Inr (frame_of ([1], demo_payload demo_completed)), demo_handled_server demo_completed)"
    by (rule demo_handled) (simp add: owner_effect_outcome_def valid, simp add: demo_completed_def, simp)
  have "execute_prepared ?x (\<lambda>_ _. Inr (frame_of ([1], demo_payload demo_completed))) demo_request ?ex = Inr demo_effect
     \<and> (\<forall>env'. handle_frame_with_admission ?x env' demo_frame (demo_handled_server demo_completed)
          = (Inr (frame_of ([1], demo_payload demo_completed)), demo_handled_server demo_completed))"
  proof (rule lost_response_costs_nothing [OF demo_value_serde demo_request_serde demo_response_serde
        demo_request_encodes _ _ handled _ _ valid])
    show "length s = 64 \<and> m_verify_strict ?x (re_executor_key ?ex) m s" if "oe_sign ?env m = Inr s" for m s
      using that by (auto simp: demo_env_def demo_dispatch_def)
    show "re_executor_key_id ?ex = sv_signer_key_id demo_server"
      by (simp add: demo_server_def demo_remote_def)
    show "sv_calls (demo_handled_server demo_completed) \<noteq> sv_calls demo_server"
      by (simp add: demo_handled_server_def demo_server_def Let_def)
    show "oe_execute ?env (dq_authority demo_request) (dq_ticket demo_request) (dq_mode demo_request)
        = Inr demo_effect"
      by (simp add: demo_env_def)
    have "from_utf8 (str_bytes ''json'') = Some ''json''"
      by code_simp
    then show "from_utf8 (str_bytes (ef_readback_json demo_effect)) = Some (ef_readback_json demo_effect)"
      by (simp add: demo_effect_def)
  qed simp
  then show ?thesis
    by (simp add: Let_def) (simp add: demo_payload_def demo_completed_def demo_effect_def)
qed

theorem remote_effect_is_bound_witness:
  "\<exists>response. decode_response_frame (demo_dispatch demo_completed)
       (frame_of ([1], demo_payload demo_completed)) = Inr response
     \<and> dr_dispatch_id response = ''d1'' \<and> dr_effect response = Some demo_effect"
  using remote_effect_is_bound [OF demo_remote_executed] by (auto simp: demo_request_def)

section \<open>The composite executor\<close>

lemma collect_families:
  "collect_placements ps exact families = Inr (exact', families') \<Longrightarrow>
     set families' = set families \<union> pl_owner_kind ` set ps"
  by (induction ps exact families rule: collect_placements.induct) (auto split: if_splits)

lemma collect_keeps:
  "collect_placements ps exact families = Inr (exact', families') \<Longrightarrow> bt_get exact k = Some t \<Longrightarrow>
     bt_get exact' k = Some t"
proof (induction ps exact families rule: collect_placements.induct)
  case (2 p ps exact families)
  then have "placement_key_of p \<noteq> k"
    by (auto simp: bt_contains_def split: if_splits)
  with 2 show ?case
    by (auto split: if_splits)
qed simp

lemma collect_places:
  "collect_placements ps exact families = Inr (exact', families') \<Longrightarrow> p \<in> set ps \<Longrightarrow>
     bt_get exact' (placement_key_of p) = Some (pl_target p)"
proof (induction ps exact families rule: collect_placements.induct)
  case (2 q ps exact families)
  have rest: "collect_placements ps (bt_insert (placement_key_of q) (pl_target q) exact)
      (pl_owner_kind q # families) = Inr (exact', families')"
    using "2.prems"(1) by (auto split: if_splits)
  show ?case
  proof (cases "p = q")
    case True
    then show ?thesis
      using collect_keeps [OF rest, of "placement_key_of q" "pl_target q"] by simp
  next
    case False
    with 2 show ?thesis
      by (auto split: if_splits)
  qed
qed simp

lemma collect_origin:
  "collect_placements ps exact families = Inr (exact', families') \<Longrightarrow> bt_get exact' k = Some t \<Longrightarrow>
     bt_get exact k = Some t \<or> (\<exists>p \<in> set ps. placement_key_of p = k \<and> pl_target p = t)"
  by (induction ps exact families rule: collect_placements.induct) (fastforce split: if_splits)+

text \<open>One product, exact routing, one-shot evidence: an executor built from placements covers all
  seven owner families and routes every placed owner tuple to its own target and nothing else; an
  execution happens only under that target's generation; and after it returned a readback, the
  first verification with the same ticket and readback succeeds and every later one fails.\<close>

theorem composite_routes_and_verifies_once:
  assumes new: "composite_new generation local_peer placements = Inr ex"
  shows "(\<forall>family. \<exists>p \<in> set placements. pl_owner_kind p = family)
     \<and> (\<forall>kind i provider resource target.
          placement_of ex kind i provider resource = Inr target \<longleftrightarrow>
          (\<exists>p \<in> set placements. placement_key_of p = (kind, i, provider, resource) \<and> pl_target p = target))
     \<and> (\<forall>(x :: ('k, 'n) media_externals) env t mode readback ex' ex''. cp_placements ex'' = cp_placements ex \<longrightarrow>
          composite_execute x env t mode ex'' = (Inr readback, ex') \<longrightarrow>
          (\<exists>p \<in> set placements. placement_key_of p
               = (tk_owner_kind t, tk_owner_id t, tk_provider_kind t, tk_resource_id t)
             \<and> target_generation env ex'' (pl_target p) = Inr (tk_executor_generation t))
          \<and> (case composite_verify t readback ex' of (ok, later) \<Rightarrow>
               ok \<and> (\<forall>r. \<not> fst (composite_verify t r later))))"
proof -
  obtain exact families where collected: "collect_placements placements [] [] = Inr (exact, families)"
    and all: "set families = set all_families" and ex: "cp_placements ex = exact"
    using new by (auto simp: composite_new_def result_simps split: if_splits)
  have families: "\<exists>p \<in> set placements. pl_owner_kind p = family" for family
  proof -
    have "family \<in> set all_families"
      by (cases family) (simp_all add: all_families_def)
    then show ?thesis
      using collect_families [OF collected] all by auto
  qed
  have routes: "placement_of e kind i provider resource = Inr target \<longleftrightarrow>
      (\<exists>p \<in> set placements. placement_key_of p = (kind, i, provider, resource) \<and> pl_target p = target)"
    if "cp_placements e = exact" for e kind i provider resource target
    using collect_places [OF collected] collect_origin [OF collected] that
    by (fastforce simp: placement_of_def result_simps)
  have once: "(\<exists>p \<in> set placements. placement_key_of p
               = (tk_owner_kind t, tk_owner_id t, tk_provider_kind t, tk_resource_id t)
             \<and> target_generation env ex'' (pl_target p) = Inr (tk_executor_generation t))
          \<and> (case composite_verify t readback ex' of (ok, later) \<Rightarrow>
               ok \<and> (\<forall>r. \<not> fst (composite_verify t r later)))"
    if place: "cp_placements ex'' = exact" and run: "composite_execute x env t mode ex'' = (Inr readback, ex')"
    for x :: "('k, 'n) media_externals" and env t mode readback ex' ex''
  proof
    obtain target where "placement_of ex'' (tk_owner_kind t) (tk_owner_id t) (tk_provider_kind t)
        (tk_resource_id t) = Inr target" "target_generation env ex'' target = Inr (tk_executor_generation t)"
      using run by (auto simp: composite_execute_def Let_def result_simps split: sum.splits if_splits)
    then show "\<exists>p \<in> set placements. placement_key_of p
               = (tk_owner_kind t, tk_owner_id t, tk_provider_kind t, tk_resource_id t)
             \<and> target_generation env ex'' (pl_target p) = Inr (tk_executor_generation t)"
      using routes [OF place] by auto
    show "case composite_verify t readback ex' of (ok, later) \<Rightarrow>
        ok \<and> (\<forall>r. \<not> fst (composite_verify t r later))"
      using run by (auto simp: composite_execute_def composite_verify_def Let_def split: sum.splits)
  qed
  show ?thesis
    by (rule conjI, use families in blast, rule conjI, use routes [OF ex] in blast,
        (rule allI)+, (rule impI)+, rule once) (simp_all add: ex)
qed

definition demo_placements :: "owner_placement list" where
  "demo_placements = map (\<lambda>kind. \<lparr>pl_owner_kind = kind, pl_owner_id = ''owner'', pl_provider_kind = ''codec'',
     pl_resource_id = ''res'', pl_target = (if kind = Sink then Remote ''far'' else Local)\<rparr>) all_families"

theorem composite_routes_and_verifies_once_witness:
  "\<exists>ex. composite_new 1 ''peer'' demo_placements = Inr ex
     \<and> placement_of ex Sink ''owner'' ''codec'' ''res'' = Inr (Remote ''far'')"
proof -
  have "is_ok (composite_new 1 ''peer'' demo_placements)"
    by code_simp
  then obtain ex where new: "composite_new 1 ''peer'' demo_placements = Inr ex"
    by (auto simp: is_ok_def split: sum.splits)
  have "\<lparr>pl_owner_kind = Sink, pl_owner_id = ''owner'', pl_provider_kind = ''codec'', pl_resource_id = ''res'',
      pl_target = Remote ''far''\<rparr> \<in> set demo_placements"
    by (simp add: demo_placements_def all_families_def)
  then have "\<exists>p \<in> set demo_placements. placement_key_of p = (Sink, ''owner'', ''codec'', ''res'')
      \<and> pl_target p = Remote ''far''"
    by (rule bexI [rotated]) (simp add: placement_key_of_def)
  then have "placement_of ex Sink ''owner'' ''codec'' ''res'' = Inr (Remote ''far'')"
    using composite_routes_and_verifies_once [OF new] by blast
  with new show ?thesis
    by blast
qed

section \<open>Deterministic runs\<close>

definition test_run :: "(execution_ticket \<times> execution_mode) list \<Rightarrow> test_executor \<Rightarrow> test_executor" where
  "test_run steps ex = fold (\<lambda>(t, mode) ex. snd (test_execute t mode ex)) steps ex"

text \<open>Every handle the executor holds is the one it made for its owner and resource.\<close>

definition test_wf :: "test_executor \<Rightarrow> bool" where
  "test_wf ex = (\<forall>owner resource handle. bt_get (te_handles ex) (owner, resource) = Some handle \<longrightarrow>
     handle = ''test-handle.'' @ owner @ ''.'' @ resource)"

lemma test_wf_execute: "test_wf ex \<Longrightarrow> test_wf (snd (test_execute t mode ex))"
  by (auto simp: test_execute_def test_wf_def test_handle_def Let_def split: option.splits sum.splits)

lemma test_wf_run: "test_wf ex \<Longrightarrow> test_wf (test_run steps ex)"
  unfolding test_run_def by (induction steps arbitrary: ex) (auto simp: test_wf_execute)

lemma test_wf_new: "test_executor_new generation = Inr ex \<Longrightarrow> test_wf ex"
  by (auto simp: test_executor_new_def test_wf_def split: if_splits)

lemma test_execute_ok:
  assumes wf: "test_wf ex" and run: "test_execute t mode ex = (Inr readback, ex')"
  shows "readback = test_readback t (test_handle t) (te_revision ex')
     \<and> unat (te_revision ex') = unat (te_revision ex) + 1
     \<and> te_verified ex' = bt_insert (tk_capability t) readback (te_verified ex)"
proof -
  have held: "old = test_handle t" if "bt_get (te_handles ex) (tk_owner_id t, tk_resource_id t) = Some old" for old
    using wf that by (simp add: test_wf_def test_handle_def)
  show ?thesis
    using run held
    by (auto simp: test_execute_def Let_def checked_add_eq_Some_iff ok_or_def split: if_splits option.splits sum.splits)
qed

lemma letter_not_blank: "\<not> trim_is_empty (c # s)" if "33 \<le> byte_of c" "byte_of c < 128"
  using that by (auto simp: trim_is_empty_def split: list.splits)

lemma test_readback_valid:
  "rb_schema_id (test_readback t (test_handle t) revision) = readback_schema"
  "readback_echoes t (test_readback t (test_handle t) revision)"
  "rb_provider_state_revision (test_readback t (test_handle t) revision) = revision"
  "rb_remote_cleanup (test_readback t (test_handle t) revision) = None"
  "\<not> trim_is_empty (rb_provider_handle_id (test_readback t (test_handle t) revision))"
  "\<not> trim_is_empty (rb_receipt_id (test_readback t (test_handle t) revision))"
  "\<not> trim_is_empty (rb_observed_state (test_readback t (test_handle t) revision))"
  by (simp_all add: test_readback_def readback_echoes_def test_handle_def test_observed_def letter_not_blank byte_of_def
      split: owner_action_kind.split)

text \<open>The deterministic executor conforms: from a new executor, after any run of tickets, whenever it
  executes a ticket of the right schema its readback passes the readback check of the contract, names
  the one handle of its owner and resource, carries the next state revision, and is accepted by the
  executor's own verification.\<close>

theorem test_executor_conforms:
  assumes new: "test_executor_new generation = Inr ex0"
    and run: "test_execute t mode (test_run steps ex0) = (Inr readback, ex')"
    and schema: "tk_schema_id t = ticket_schema"
  shows "validate_readback x t readback = Inr (provider_readback readback)
     \<and> rb_provider_handle_id readback = test_handle t
     \<and> unat (rb_provider_state_revision readback) = unat (te_revision (test_run steps ex0)) + 1
     \<and> test_verify t readback ex'"
proof -
  let ?rev = "te_revision ex'"
  note facts = test_execute_ok [OF test_wf_run [OF test_wf_new [OF new]] run]
  have "?rev \<noteq> 0"
    using facts by auto
  then have "validate_readback x t (test_readback t (test_handle t) ?rev)
      = Inr (provider_readback (test_readback t (test_handle t) ?rev))"
    by (simp add: validate_readback_def validate_readback_with_def schema test_readback_valid)
  then show ?thesis
    using facts by (simp add: test_verify_def) (simp add: test_readback_def)
qed

definition demo_start_ticket :: execution_ticket where
  "demo_start_ticket = demo_target\<lparr>tk_action_kind := ActStart, tk_executor_generation := 1\<rparr>"

theorem test_executor_conforms_witness:
  "\<exists>ex0 readback ex'. test_executor_new 1 = Inr ex0
     \<and> test_execute demo_start_ticket Execute (test_run [] ex0) = (Inr readback, ex')
     \<and> validate_readback demo_exchange demo_start_ticket readback = Inr (provider_readback readback)"
proof -
  let ?ex = "\<lparr>te_generation = 1, te_revision = 0, te_handles = [], te_verified = []\<rparr> :: test_executor"
  have new: "test_executor_new 1 = Inr ?ex"
    by (simp add: test_executor_new_def)
  obtain readback ex' where run: "test_execute demo_start_ticket Execute (test_run [] ?ex) = (Inr readback, ex')"
    by (simp add: test_execute_def test_run_def demo_start_ticket_def checked_add_def Let_def)
  have "tk_schema_id demo_start_ticket = ticket_schema"
    by (simp add: demo_start_ticket_def demo_target_def Owner_Proofs.demo_ticket_def)
  with test_executor_conforms [OF new run] new run show ?thesis
    by blast
qed

text \<open>The shipped conformance exercise passes: the synthetic run of the pair runtime returns its
  report with every check passed and no external effect.\<close>

theorem conformance_passes:
  "run_synthetic_android_conformance = Inr \<lparr>co_schema_id = ''rusty.quest.android.media.conformance.v1'',
     co_exact_pair = True, co_generation_lease = True, co_exactly_once_release = True, co_external_effects = []\<rparr>"
  by code_simp

end
