(* ===== verification/Canonical_Json.thy ===== *)
theory Canonical_Json
  imports Json_Value
begin

text \<open>
  The canonical JSON text of \<open>canonical_v2_json\<close> (\<open>rusty-quest-feature-activation\<close>): sorted keys, no
  blanks, and every UTF-16 unit outside printable ASCII escaped. The text of a number is the
  serializer's.
\<close>

section \<open>The encoder\<close>

text \<open>\<open>str::encode_utf16\<close> on the UTF-8 bytes of a string.\<close>

fun utf16_units :: "nat list \<Rightarrow> nat list" where
  "utf16_units [] = []"
| "utf16_units (a # bs) =
     (if a < 128 then a # utf16_units bs
      else if a < 224 then
        (case bs of b # cs \<Rightarrow> ((a - 192) * 64 + (b - 128)) # utf16_units cs | [] \<Rightarrow> [])
      else if a < 240 then
        (case bs of
           b # c # ds \<Rightarrow> ((a - 224) * 4096 + (b - 128) * 64 + (c - 128)) # utf16_units ds
         | _ \<Rightarrow> [])
      else
        (case bs of
           b # c # d # es \<Rightarrow>
             let offset = (a - 240) * 262144 + (b - 128) * 4096 + (c - 128) * 64 + (d - 128) - 65536
             in (55296 + offset div 1024) # (56320 + offset mod 1024) # utf16_units es
         | _ \<Rightarrow> []))"

text \<open>\<open>{unit:04x}\<close>.\<close>

definition hex4 :: "nat \<Rightarrow> string" where
  "hex4 u = [hex_digit (u div 4096), hex_digit (u div 256 mod 16), hex_digit (u div 16 mod 16), hex_digit (u mod 16)]"

definition backslash :: char where
  "backslash = CHR 0x5C"

definition quote_mark :: char where
  "quote_mark = CHR 0x22"

definition escape_unit :: "nat \<Rightarrow> string" where
  "escape_unit u =
     (if u = 8 then [backslash, CHR ''b'']
      else if u = 9 then [backslash, CHR ''t'']
      else if u = 10 then [backslash, CHR ''n'']
      else if u = 12 then [backslash, CHR ''f'']
      else if u = 13 then [backslash, CHR ''r'']
      else if u = 34 then [backslash, quote_mark]
      else if u = 92 then [backslash, backslash]
      else if u \<le> 31 \<or> 127 \<le> u then [backslash, CHR ''u''] @ hex4 u
      else [char_of u])"

definition quoted :: "string \<Rightarrow> string" where
  "quoted s = quote_mark # concat (map escape_unit (utf16_units (map byte_of s))) @ [quote_mark]"

primrec canonical_v2_json :: "('n \<Rightarrow> string) \<Rightarrow> 'n json \<Rightarrow> string" where
  "canonical_v2_json num JNull = ''null''"
| "canonical_v2_json num (JBool b) = (if b then ''true'' else ''false'')"
| "canonical_v2_json num (JNumber n) = num n"
| "canonical_v2_json num (JString s) = quoted s"
| "canonical_v2_json num (JArray vs) =
     ''['' @ join_with CHR '','' (map (canonical_v2_json num) vs) @ '']''"
| "canonical_v2_json num (JObject m) =
     ''{'' @ join_with CHR '','' (map (\<lambda>(key, text). quoted key @ '':'' @ text)
       (map (map_prod id (canonical_v2_json num)) m)) @ ''}''"

end
