(* ===== verification/Canonical_Proofs.thy ===== *)
theory Canonical_Proofs
  imports Canonical_Json
begin

text \<open>
  The canonical text determines the value: escapes and UTF-16 units are undone by explicit decoders,
  and the nesting is recovered because no encoded value is a prefix of another one followed by a
  delimiter.
\<close>

section \<open>Strings\<close>

definition hex_value :: "char \<Rightarrow> nat" where
  "hex_value c = (if byte_of c < 58 then byte_of c - 48 else byte_of c - 87)"

lemma hex_value_digit: "n < 16 \<Longrightarrow> hex_value (hex_digit n) = n"
  by (simp add: hex_value_def hex_digit_def byte_of_def)

fun unescape :: "string \<Rightarrow> (nat \<times> string) option" where
  "unescape [] = None"
| "unescape (c # s) =
     (if c \<noteq> backslash then Some (byte_of c, s)
      else case s of
          [] \<Rightarrow> None
        | d # t \<Rightarrow>
            if d = CHR ''b'' then Some (8, t) else if d = CHR ''t'' then Some (9, t)
            else if d = CHR ''n'' then Some (10, t) else if d = CHR ''f'' then Some (12, t)
            else if d = CHR ''r'' then Some (13, t) else if d = quote_mark then Some (34, t)
            else if d = backslash then Some (92, t)
            else (case t of
                w # x # y # z # t \<Rightarrow>
                  Some (hex_value w * 4096 + hex_value x * 256 + hex_value y * 16 + hex_value z, t)
              | _ \<Rightarrow> None))"

lemma hex4_value:
  fixes u :: nat
  assumes "u < 65536"
  shows "(u div 4096) * 4096 + (u div 256 mod 16) * 256 + (u div 16 mod 16) * 16 + u mod 16 = u"
proof -
  have parts: "u div 256 = u div 16 div 16" "u div 4096 = u div 16 div 16 div 16"
    by (simp_all flip: div_mult2_eq)
  have join: "a * 4096 + b * 256 + c * 16 + d = ((a * 16 + b) * 16 + c) * 16 + d" for a b c d :: nat
    by simp
  show ?thesis
    unfolding parts join div_mult_mod_eq ..
qed

lemma byte_of_char: "u < 256 \<Longrightarrow> byte_of (char_of u) = u"
  by (simp add: byte_of_def)

lemma byte_marks: "byte_of backslash = 92" "byte_of quote_mark = 34"
  by (simp_all add: byte_of_def backslash_def quote_mark_def)

lemma marks_distinct:
  "backslash \<noteq> CHR ''b''" "backslash \<noteq> CHR ''t''" "backslash \<noteq> CHR ''n''" "backslash \<noteq> CHR ''f''"
  "backslash \<noteq> CHR ''r''" "quote_mark \<noteq> CHR ''b''" "quote_mark \<noteq> CHR ''t''" "quote_mark \<noteq> CHR ''n''"
  "quote_mark \<noteq> CHR ''f''" "quote_mark \<noteq> CHR ''r''" "backslash \<noteq> quote_mark" "CHR ''u'' \<noteq> backslash"
  "CHR ''u'' \<noteq> quote_mark" "quote_mark \<noteq> backslash"
  by (simp_all add: backslash_def quote_mark_def)

definition plain_unit :: "nat \<Rightarrow> bool" where
  "plain_unit u = (31 < u \<and> u < 127 \<and> u \<noteq> 34 \<and> u \<noteq> 92)"

lemma plain_unit_char:
  assumes "plain_unit u"
  shows "escape_unit u = [char_of u]" "char_of u \<noteq> backslash" "char_of u \<noteq> quote_mark" "byte_of (char_of u) = u"
proof -
  show byte: "byte_of (char_of u) = u"
    using assms by (simp add: plain_unit_def byte_of_char)
  show "escape_unit u = [char_of u]"
    using assms by (simp add: plain_unit_def escape_unit_def)
  show "char_of u \<noteq> backslash" "char_of u \<noteq> quote_mark"
    using assms byte byte_marks by (auto simp: plain_unit_def)
qed

lemma escaped_unit_cases:
  assumes "\<not> plain_unit u"
  shows "escape_unit u = backslash # tl (escape_unit u)"
  using assms by (auto simp: plain_unit_def escape_unit_def)

lemma unescape_escape:
  assumes "u < 65536"
  shows "unescape (escape_unit u @ r) = Some (u, r)"
proof (cases "plain_unit u")
  case True
  then show ?thesis
    by (simp add: plain_unit_char)
next
  case False
  have "u div 4096 < 16"
    using assms by (simp add: less_mult_imp_div_less)
  moreover from False have "u \<le> 31 \<or> 127 \<le> u \<or> u = 34 \<or> u = 92"
    by (auto simp: plain_unit_def)
  ultimately show ?thesis
    using assms by (elim disjE) (simp_all add: escape_unit_def hex4_def hex_value_digit hex4_value marks_distinct)
qed

lemma escape_start: "\<exists>c s. escape_unit u = c # s \<and> c \<noteq> quote_mark"
proof (cases "plain_unit u")
  case False
  then show ?thesis
    using escaped_unit_cases [of u] marks_distinct by metis
qed (simp add: plain_unit_char)

lemma escaped_units:
  assumes "list_all (\<lambda>u. u < 65536) us" "list_all (\<lambda>u. u < 65536) vs"
    and "concat (map escape_unit us) @ quote_mark # r = concat (map escape_unit vs) @ quote_mark # r'"
  shows "us = vs \<and> r = r'"
  using assms
proof (induction us arbitrary: vs)
  case Nil
  show ?case
  proof (cases vs)
    case (Cons v vs')
    obtain c s where "escape_unit v = c # s" "c \<noteq> quote_mark"
      using escape_start by blast
    with Nil.prems(3) Cons show ?thesis
      by simp
  qed (use Nil.prems(3) in simp)
next
  case (Cons u us)
  obtain v vs' where vs: "vs = v # vs'"
  proof (cases vs)
    case Nil
    obtain c s where "escape_unit u = c # s" "c \<noteq> quote_mark"
      using escape_start by blast
    with Cons.prems(3) Nil have False
      by simp
    then show ?thesis ..
  qed (use that in blast)
  have "Some (u, concat (map escape_unit us) @ quote_mark # r)
      = unescape (escape_unit u @ concat (map escape_unit us) @ quote_mark # r)"
    using Cons.prems(1) by (simp add: unescape_escape)
  also have "\<dots> = unescape (escape_unit v @ concat (map escape_unit vs') @ quote_mark # r')"
    using Cons.prems(3) vs by simp
  also have "\<dots> = Some (v, concat (map escape_unit vs') @ quote_mark # r')"
    using Cons.prems(2) vs by (simp add: unescape_escape)
  finally show ?case
    using Cons.IH [of vs'] Cons.prems vs by auto
qed

text \<open>UTF-16 units back to UTF-8 bytes.\<close>

fun units_utf8 :: "nat list \<Rightarrow> nat list" where
  "units_utf8 [] = []"
| "units_utf8 (u # us) =
     (if u < 128 then u # units_utf8 us
      else if u < 2048 then (192 + u div 64) # (128 + u mod 64) # units_utf8 us
      else if 55296 \<le> u \<and> u < 56320 then
        (case us of
           [] \<Rightarrow> []
         | w # ws \<Rightarrow>
             let c = 65536 + (u - 55296) * 1024 + (w - 56320) in
             (240 + c div 262144) # (128 + c div 4096 mod 64) # (128 + c div 64 mod 64) # (128 + c mod 64)
               # units_utf8 ws)
      else (224 + u div 4096) # (128 + u div 64 mod 64) # (128 + u mod 64) # units_utf8 us)"

lemma digits64:
  fixes a b c d :: nat
  assumes "b < 64" "c < 64" "d < 64"
  shows "(a * 64 + b) div 64 = a" "(a * 64 + b) mod 64 = b"
    "(a * 4096 + b * 64 + c) div 4096 = a" "(a * 4096 + b * 64 + c) div 64 mod 64 = b"
    "(a * 4096 + b * 64 + c) mod 64 = c"
    "(a * 262144 + b * 4096 + c * 64 + d) div 262144 = a" "(a * 262144 + b * 4096 + c * 64 + d) div 4096 mod 64 = b"
    "(a * 262144 + b * 4096 + c * 64 + d) div 64 mod 64 = c" "(a * 262144 + b * 4096 + c * 64 + d) mod 64 = d"
proof -
  have base: "(x * 64 + y) div 64 = x" "(x * 64 + y) mod 64 = y" if "y < 64" for x y :: nat
    using that by simp_all
  have "a * 4096 + b * 64 + c = (a * 64 + b) * 64 + c"
    "a * 262144 + b * 4096 + c * 64 + d = ((a * 64 + b) * 64 + c) * 64 + d"
    by simp_all
  moreover have "n div 4096 = n div 64 div 64" "n div 262144 = n div 64 div 64 div 64" for n :: nat
    by (simp_all flip: div_mult2_eq)
  ultimately show "(a * 64 + b) div 64 = a" "(a * 64 + b) mod 64 = b"
    "(a * 4096 + b * 64 + c) div 4096 = a" "(a * 4096 + b * 64 + c) div 64 mod 64 = b"
    "(a * 4096 + b * 64 + c) mod 64 = c"
    "(a * 262144 + b * 4096 + c * 64 + d) div 262144 = a" "(a * 262144 + b * 4096 + c * 64 + d) div 4096 mod 64 = b"
    "(a * 262144 + b * 4096 + c * 64 + d) div 64 mod 64 = c" "(a * 262144 + b * 4096 + c * 64 + d) mod 64 = d"
    using assms by (simp_all only: base)
qed

lemma two_byte_unit:
  assumes "194 \<le> a" "a \<le> 223" "utf8_tail b"
  defines "u \<equiv> (a - 192) * 64 + (b - 128)"
  shows "units_utf8 (u # us) = a # b # units_utf8 us" "u < 65536"
proof -
  define p q where "p = a - 192" and "q = b - 128"
  then have p: "a = 192 + p" "2 \<le> p" "p \<le> 31" and q: "b = 128 + q" "q < 64"
    using assms(1-3) by (auto simp: utf8_tail_def)
  then have u: "u = p * 64 + q"
    by (simp add: u_def)
  then have "\<not> u < 128" "u < 2048"
    using p q by auto
  then show "units_utf8 (u # us) = a # b # units_utf8 us" "u < 65536"
    using p q u digits64(1,2) [of q 0 0 p] by simp_all
qed

lemma three_byte_unit:
  assumes "224 \<le> a" "a \<le> 239" "utf8_tail b" "utf8_tail c" "a = 224 \<longrightarrow> 160 \<le> b" "a = 237 \<longrightarrow> b \<le> 159"
  defines "u \<equiv> (a - 224) * 4096 + (b - 128) * 64 + (c - 128)"
  shows "units_utf8 (u # us) = a # b # c # units_utf8 us" "u < 65536"
proof -
  define p q r where "p = a - 224" and "q = b - 128" and "r = c - 128"
  then have p: "a = 224 + p" "p \<le> 15" and q: "b = 128 + q" "q < 64" and r: "c = 128 + r" "r < 64"
    using assms(1-4) by (auto simp: utf8_tail_def)
  then have u: "u = p * 4096 + q * 64 + r"
    by (simp add: u_def)
  have "2048 \<le> u"
    using assms(5) p q r u by (cases "p = 0") auto
  moreover have "\<not> (55296 \<le> u \<and> u < 56320)"
  proof (cases "p = 13")
    case True
    then show ?thesis
      using assms(6) p q r u by auto
  next
    case False
    then have "p \<le> 12 \<or> 14 \<le> p"
      by auto
    then show ?thesis
      using q r u by auto
  qed
  moreover have "u div 4096 = p" "u div 64 mod 64 = q" "u mod 64 = r"
    using q r digits64(3-5) [of q r 0 p] by (simp_all add: u)
  ultimately show "units_utf8 (u # us) = a # b # c # units_utf8 us"
    using p q r by auto
  show "u < 65536"
    using p q r u by simp
qed

lemma four_byte_units:
  assumes "240 \<le> a" "a \<le> 244" "utf8_tail b" "utf8_tail c" "utf8_tail d" "a = 240 \<longrightarrow> 144 \<le> b" "a = 244 \<longrightarrow> b \<le> 143"
  defines "x \<equiv> (a - 240) * 262144 + (b - 128) * 4096 + (c - 128) * 64 + (d - 128) - 65536"
  shows "units_utf8 ((55296 + x div 1024) # (56320 + x mod 1024) # us) = a # b # c # d # units_utf8 us"
    "55296 + x div 1024 < 65536" "56320 + x mod 1024 < 65536"
proof -
  define p q r t where "p = a - 240" and "q = b - 128" and "r = c - 128" and "t = d - 128"
  then have p: "a = 240 + p" "p \<le> 4" and q: "b = 128 + q" "q < 64" and r: "c = 128 + r" "r < 64"
    and t: "d = 128 + t" "t < 64"
    using assms(1-5) by (auto simp: utf8_tail_def)
  define code where "code = p * 262144 + q * 4096 + r * 64 + t"
  have x: "x = code - 65536"
    by (simp add: x_def code_def p q r t)
  have low: "65536 \<le> code"
    using assms(6) p q r t by (cases "p = 0") (auto simp: code_def)
  have high: "code < 1114112"
    using assms(7) p q r t by (cases "p = 4") (auto simp: code_def)
  define y z where "y = x div 1024" and "z = x mod 1024"
  have "x < 1048576"
    using high low x by simp
  then have y: "y < 1024" and z: "z < 1024"
    by (simp_all add: y_def z_def less_mult_imp_div_less)
  have "y * 1024 + z = x"
    by (simp add: y_def z_def)
  then have "65536 + y * 1024 + z = code"
    using low x by simp
  moreover have "code div 262144 = p" "code div 4096 mod 64 = q" "code div 64 mod 64 = r" "code mod 64 = t"
    using q r t digits64(6-9) [of q r t p] by (simp_all add: code_def)
  ultimately have "units_utf8 ((55296 + y) # (56320 + z) # us) = a # b # c # d # units_utf8 us"
    using y p q r t by (simp add: Let_def)
  then show "units_utf8 ((55296 + x div 1024) # (56320 + x mod 1024) # us) = a # b # c # d # units_utf8 us"
    by (simp only: y_def z_def)
  show "55296 + x div 1024 < 65536" "56320 + x mod 1024 < 65536"
    using y z by (simp_all add: y_def z_def)
qed

lemma utf16_round_trip:
  "utf8_valid bs \<Longrightarrow> units_utf8 (utf16_units bs) = bs \<and> list_all (\<lambda>u. u < 65536) (utf16_units bs)"
proof (induction bs rule: utf8_valid.induct)
  case (2 a bs)
  consider (one) "a < 128" | (two) "194 \<le> a" "a \<le> 223" | (three) "224 \<le> a" "a \<le> 239" | (four) "240 \<le> a" "a \<le> 244"
    using "2.prems" by (auto split: if_splits)
  then show ?case
  proof cases
    case one
    with 2 show ?thesis
      by simp
  next
    case two
    with "2.prems" obtain b cs where bs: "bs = b # cs" "utf8_tail b" "utf8_valid cs"
      by (auto split: list.splits)
    then have "utf16_units (a # bs) = ((a - 192) * 64 + (b - 128)) # utf16_units cs"
      using two by simp
    moreover have "units_utf8 (utf16_units cs) = cs \<and> list_all (\<lambda>u. u < 65536) (utf16_units cs)"
      using "2.IH"(2) two bs by simp
    ultimately show ?thesis
      using two_byte_unit [OF two bs(2)] bs(1) by (simp del: units_utf8.simps utf16_units.simps)
  next
    case three
    with "2.prems" obtain b c ds where bs: "bs = b # c # ds" "utf8_tail b" "utf8_tail c"
      "a = 224 \<longrightarrow> 160 \<le> b" "a = 237 \<longrightarrow> b \<le> 159" "utf8_valid ds"
      by (auto split: list.splits)
    then have "utf16_units (a # bs) = ((a - 224) * 4096 + (b - 128) * 64 + (c - 128)) # utf16_units ds"
      using three by simp
    moreover have "units_utf8 (utf16_units ds) = ds \<and> list_all (\<lambda>u. u < 65536) (utf16_units ds)"
      using "2.IH"(3) three bs by simp
    ultimately show ?thesis
      using three_byte_unit [OF three bs(2-5)] bs(1) by (simp del: units_utf8.simps utf16_units.simps)
  next
    case four
    then have "case bs of b # c # d # es \<Rightarrow> utf8_tail b \<and> utf8_tail c \<and> utf8_tail d \<and> (a = 240 \<longrightarrow> 144 \<le> b)
        \<and> (a = 244 \<longrightarrow> b \<le> 143) \<and> utf8_valid es | _ \<Rightarrow> False"
      using "2.prems" by simp
    then obtain b c d es where bs: "bs = b # c # d # es" "utf8_tail b" "utf8_tail c" "utf8_tail d"
      "a = 240 \<longrightarrow> 144 \<le> b" "a = 244 \<longrightarrow> b \<le> 143" "utf8_valid es"
      by (simp split: list.splits)
    let ?x = "(a - 240) * 262144 + (b - 128) * 4096 + (c - 128) * 64 + (d - 128) - 65536"
    have "utf16_units (a # bs) = (55296 + ?x div 1024) # (56320 + ?x mod 1024) # utf16_units es"
      using four bs(1) by (simp add: Let_def)
    moreover have "units_utf8 (utf16_units es) = es \<and> list_all (\<lambda>u. u < 65536) (utf16_units es)"
      using "2.IH"(4) four bs(1,7) by simp
    ultimately show ?thesis
      using four_byte_units [OF four bs(2-6)] bs(1) by (simp del: units_utf8.simps utf16_units.simps)
  qed
qed simp

lemma utf16_inj: "utf8_valid as \<Longrightarrow> utf8_valid bs \<Longrightarrow> utf16_units as = utf16_units bs \<Longrightarrow> as = bs"
  by (metis utf16_round_trip)

definition valid_text :: "string \<Rightarrow> bool" where
  "valid_text s = utf8_valid (map byte_of s)"

lemma byte_of_inj: "byte_of c = byte_of d \<longleftrightarrow> c = d"
  by (simp add: byte_of_def)

lemma quoted_inj:
  assumes "valid_text s" "valid_text t" "quoted s @ r = quoted t @ r'"
  shows "s = t \<and> r = r'"
proof -
  have "utf16_units (map byte_of s) = utf16_units (map byte_of t) \<and> r = r'"
    using assms(3) escaped_units [of "utf16_units (map byte_of s)" "utf16_units (map byte_of t)" r r']
      utf16_round_trip assms(1,2) by (simp add: quoted_def valid_text_def)
  then have "map byte_of s = map byte_of t" "r = r'"
    using utf16_inj assms(1,2) by (auto simp: valid_text_def)
  moreover have "inj byte_of"
    by (rule injI) (simp add: byte_of_inj)
  ultimately show ?thesis
    by (simp add: inj_map_eq_map)
qed

section \<open>Values\<close>

primrec json_text :: "'n json \<Rightarrow> bool" where
  "json_text JNull = True"
| "json_text (JBool b) = True"
| "json_text (JNumber n) = True"
| "json_text (JString s) = valid_text s"
| "json_text (JArray vs) = list_all id (map json_text vs)"
| "json_text (JObject m) = list_all (\<lambda>(key, ok). valid_text key \<and> ok) (map (map_prod id json_text) m)"

text \<open>What may follow a value, and what a value may not start with.\<close>

definition delimiters :: "char set" where
  "delimiters = {CHR '','', CHR '']'', CHR ''}''}"

definition delimited :: "string \<Rightarrow> bool" where
  "delimited r = (r = [] \<or> hd r \<in> delimiters)"

lemma join_with_Cons: "join_with d (p # ps) = p @ concat (map ((#) d) ps)"
  by (induction ps arbitrary: p) simp_all

lemma joined_tail_inj:
  assumes enc: "\<And>x y r r'. x \<in> set xs \<Longrightarrow> y \<in> set ys \<Longrightarrow> enc x @ r = enc y @ r' \<Longrightarrow> delimited r \<Longrightarrow> delimited r'
       \<Longrightarrow> x = y \<and> r = r'"
    and close: "c \<in> delimiters" "c \<noteq> CHR '',''"
    and eq: "concat (map (\<lambda>x. CHR '','' # enc x) xs) @ c # r = concat (map (\<lambda>x. CHR '','' # enc x) ys) @ c # r'"
  shows "xs = ys \<and> r = r'"
  using enc eq
proof (induction xs arbitrary: ys)
  case Nil
  then show ?case
    using close by (cases ys) auto
next
  case (Cons x xs)
  from Cons.prems(2) close(2) obtain y zs where ys: "ys = y # zs"
    by (cases ys) auto
  let ?rest = "\<lambda>xs r. concat (map (\<lambda>x. CHR '','' # enc x) xs) @ c # r"
  have "delimited (?rest us t)" for us t
    using close by (cases us) (auto simp: delimited_def delimiters_def)
  then have "x = y \<and> ?rest xs r = ?rest zs r'"
    by (intro Cons.prems(1)) (use Cons.prems(2) ys in simp_all)
  then show ?case
    using Cons.IH [of zs] Cons.prems(1) ys by auto
qed

lemma joined_inj:
  assumes enc: "\<And>x y r r'. x \<in> set xs \<Longrightarrow> y \<in> set ys \<Longrightarrow> enc x @ r = enc y @ r' \<Longrightarrow> delimited r \<Longrightarrow> delimited r'
       \<Longrightarrow> x = y \<and> r = r'"
    and start: "\<And>x. \<exists>a s. enc x = a # s \<and> a \<notin> delimiters"
    and close: "c \<in> delimiters" "c \<noteq> CHR '',''"
    and eq: "join_with CHR '','' (map enc xs) @ c # r = join_with CHR '','' (map enc ys) @ c # r'"
  shows "xs = ys \<and> r = r'"
proof (cases xs; cases ys)
  fix x xs' y ys'
  assume xs: "xs = x # xs'" and ys: "ys = y # ys'"
  let ?rest = "\<lambda>xs r. concat (map (\<lambda>x. CHR '','' # enc x) xs) @ c # r"
  have "enc x @ ?rest xs' r = enc y @ ?rest ys' r'"
    using eq xs ys by (simp add: join_with_Cons comp_def)
  moreover have "delimited (?rest us t)" for us t
    using close by (cases us) (auto simp: delimited_def delimiters_def)
  ultimately have "x = y \<and> ?rest xs' r = ?rest ys' r'"
    by (intro enc) (use xs ys in simp_all)
  then show ?thesis
    using joined_tail_inj [of xs' ys' enc c r r'] enc close xs ys by auto
next
  fix y ys'
  assume "xs = []" "ys = y # ys'"
  with eq start [of y] close show ?thesis
    by (auto simp: join_with_Cons)
next
  fix x xs'
  assume "xs = x # xs'" "ys = []"
  with eq start [of x] close show ?thesis
    by (auto simp: join_with_Cons)
qed (use eq in simp)

definition number_char :: "char \<Rightarrow> bool" where
  "number_char c = (is_ascii_digit c \<or> c \<in> {CHR ''-'', CHR ''+'', CHR ''.'', CHR ''e'', CHR ''E''})"

lemma not_number_char:
  "\<not> number_char CHR ''n''" "\<not> number_char CHR ''t''" "\<not> number_char CHR ''f''" "\<not> number_char CHR ''[''"
  "\<not> number_char CHR ''{''" "\<not> number_char quote_mark" "c \<in> delimiters \<Longrightarrow> \<not> number_char c"
  by (auto simp: number_char_def is_ascii_digit_def in_range_def byte_of_def quote_mark_def delimiters_def)

text \<open>The first character of a text tells the constructor of its value.\<close>

primrec json_tag :: "'n json \<Rightarrow> nat" where
  "json_tag JNull = 0"
| "json_tag (JBool b) = 1"
| "json_tag (JNumber n) = 2"
| "json_tag (JString s) = 3"
| "json_tag (JArray vs) = 4"
| "json_tag (JObject m) = 5"

definition char_tag :: "char \<Rightarrow> nat" where
  "char_tag c =
     (if c = CHR ''n'' then 0 else if c = CHR ''t'' \<or> c = CHR ''f'' then 1 else if number_char c then 2
      else if c = quote_mark then 3 else if c = CHR ''['' then 4 else 5)"

lemma json_tag_cases:
  "json_tag v = 0 \<Longrightarrow> v = JNull" "json_tag v = 1 \<Longrightarrow> \<exists>b. v = JBool b" "json_tag v = 2 \<Longrightarrow> \<exists>n. v = JNumber n"
  "json_tag v = 3 \<Longrightarrow> \<exists>s. v = JString s" "json_tag v = 4 \<Longrightarrow> \<exists>vs. v = JArray vs" "json_tag v = 5 \<Longrightarrow> \<exists>m. v = JObject m"
  by (cases v; simp)+

text \<open>What is relied on of the serializer's number text.\<close>

locale number_printer =
  fixes num :: "'n \<Rightarrow> string"
  assumes num_inj: "num m = num n \<Longrightarrow> m = n"
    and num_chars: "num n \<noteq> [] \<and> list_all number_char (num n)"
begin

lemma num_cons: "\<exists>c s. num n = c # s \<and> number_char c"
  using num_chars [of n] by (cases "num n") auto

lemma num_prefix:
  assumes "num m @ r = num n @ r'" "delimited r" "delimited r'"
  shows "m = n \<and> r = r'"
proof -
  have "takeWhile number_char (num k @ t) = num k" if "delimited t" for k t
    using num_chars [of k] that not_number_char(7)
    by (cases t) (auto simp: takeWhile_append delimited_def list_all_iff)
  then show ?thesis
    using assms num_inj by (metis same_append_eq)
qed

lemma canonical_start:
  "\<exists>c s. canonical_v2_json num v = c # s \<and> c \<notin> delimiters"
proof (cases v)
  case (JNumber n)
  then show ?thesis
    using num_cons [of n] not_number_char(7) by auto
qed (simp_all add: quoted_def quote_mark_def delimiters_def)

lemma canonical_tag: "\<exists>c s. canonical_v2_json num v = c # s \<and> char_tag c = json_tag v"
proof (cases v)
  case (JNumber n)
  obtain c s where num: "num n = c # s" "number_char c"
    using num_cons by blast
  then have "c \<noteq> CHR ''n''" "c \<noteq> CHR ''t''" "c \<noteq> CHR ''f''"
    using not_number_char(1-3) by metis+
  with num JNumber show ?thesis
    by (simp add: char_tag_def)
next
  case (JString s)
  then show ?thesis
    using not_number_char(6) by (auto simp: char_tag_def quoted_def) (simp_all add: quote_mark_def)
qed (use not_number_char(4,5) in \<open>auto simp: char_tag_def quote_mark_def\<close>)

lemma same_tag:
  assumes "canonical_v2_json num v @ r = canonical_v2_json num w @ r'"
  shows "json_tag w = json_tag v"
proof -
  obtain c s d t where "canonical_v2_json num v = c # s" "char_tag c = json_tag v"
    "canonical_v2_json num w = d # t" "char_tag d = json_tag w"
    using canonical_tag [of v] canonical_tag [of w] by blast
  with assms show ?thesis
    by simp
qed

definition member_text :: "string \<times> 'n json \<Rightarrow> string" where
  "member_text e = quoted (fst e) @ '':'' @ canonical_v2_json num (snd e)"

lemma canonical_object:
  "canonical_v2_json num (JObject m) = ''{'' @ join_with CHR '','' (map member_text m) @ ''}''"
  by (simp add: member_text_def [abs_def] comp_def case_prod_beta)

lemma json_text_members:
  "json_text (JArray vs) \<longleftrightarrow> (\<forall>v \<in> set vs. json_text v)"
  "json_text (JObject m) \<longleftrightarrow> (\<forall>e \<in> set m. valid_text (fst e) \<and> json_text (snd e))"
  by (auto simp: list_all_iff)

lemma canonical_prefix:
  "json_text v \<Longrightarrow> json_text w \<Longrightarrow> canonical_v2_json num v @ r = canonical_v2_json num w @ r' \<Longrightarrow>
     delimited r \<Longrightarrow> delimited r' \<Longrightarrow> v = w \<and> r = r'"
proof (induction v arbitrary: w r r')
  case JNull
  then have "w = JNull"
    using same_tag [OF JNull(3)] json_tag_cases(1) by simp
  with JNull show ?case
    by simp
next
  case (JBool b)
  then obtain b' where "w = JBool b'"
    using same_tag [OF JBool(3)] json_tag_cases(2) [of w] by auto
  with JBool show ?case
    by (auto split: if_splits)
next
  case (JNumber n)
  then obtain n' where "w = JNumber n'"
    using same_tag [OF JNumber(3)] json_tag_cases(3) [of w] by auto
  with JNumber show ?case
    using num_prefix [of n r n' r'] by simp
next
  case (JString s)
  then obtain s' where "w = JString s'"
    using same_tag [OF JString(3)] json_tag_cases(4) [of w] by auto
  with JString show ?case
    using quoted_inj [of s s' r r'] by simp
next
  case (JArray vs)
  then obtain ws where w: "w = JArray ws"
    using same_tag [OF JArray.prems(3)] json_tag_cases(5) [of w] by auto
  have "vs = ws \<and> r = r'"
  proof (rule joined_inj [of vs ws "canonical_v2_json num" "CHR '']''"])
    show "x = y \<and> t = t'" if "x \<in> set vs" "y \<in> set ws" "canonical_v2_json num x @ t = canonical_v2_json num y @ t'"
      "delimited t" "delimited t'" for x y t t'
      using JArray.IH [OF that(1) _ _ that(3-5)] JArray.prems(1,2) that(1,2) w
      by (simp add: json_text_members del: json_text.simps)
  qed (use JArray.prems(3) w canonical_start in \<open>simp_all add: delimiters_def\<close>)
  with w show ?case
    by simp
next
  case (JObject m)
  then obtain m' where w: "w = JObject m'"
    using same_tag [OF JObject.prems(3)] json_tag_cases(6) [of w] by auto
  have "m = m' \<and> r = r'"
  proof (rule joined_inj [of m m' member_text "CHR ''}''"])
    show "x = y \<and> t = t'" if in_m: "x \<in> set m" "y \<in> set m'" and eq: "member_text x @ t = member_text y @ t'"
      and ends: "delimited t" "delimited t'" for x y t t'
    proof -
      have ok: "valid_text (fst x)" "json_text (snd x)" "valid_text (fst y)" "json_text (snd y)"
        using JObject.prems(1,2) in_m w by (simp_all add: json_text_members del: json_text.simps)
      have key: "fst x = fst y" and rest: "canonical_v2_json num (snd x) @ t = canonical_v2_json num (snd y) @ t'"
        using quoted_inj [OF ok(1,3), of "'':'' @ canonical_v2_json num (snd x) @ t" "'':'' @ canonical_v2_json num (snd y) @ t'"] eq
        by (simp_all add: member_text_def)
      have "snd x \<in> Basic_BNFs.snds x"
        by (simp add: snds.simps)
      then have "snd x = snd y \<and> t = t'"
        using JObject.IH [OF in_m(1) _ ok(2,4) rest ends] by blast
      with key show ?thesis
        by (simp add: prod_eq_iff)
    qed
    show "\<exists>a s. member_text x = a # s \<and> a \<notin> delimiters" for x
      by (simp add: member_text_def quoted_def quote_mark_def delimiters_def)
  qed (use JObject.prems(3) w in \<open>simp_all add: canonical_object delimiters_def del: canonical_v2_json.simps\<close>)
  with w show ?case
    by simp
qed

lemma canonical_inj:
  "json_text v \<Longrightarrow> json_text w \<Longrightarrow> canonical_v2_json num v = canonical_v2_json num w \<Longrightarrow> v = w"
  using canonical_prefix [of v w "[]" "[]"] by (simp add: delimited_def)

end

text \<open>The revisions of a lock are 64-bit numbers in decimal.\<close>

interpretation u64_text: number_printer "\<lambda>n :: u64. decimal (unat n)"
proof
  show "m = n" if "decimal (unat m) = decimal (unat n)" for m n :: u64
    using decimal_inj [OF that] by (simp add: word_unat_eq_iff)
  show "decimal (unat n) \<noteq> [] \<and> list_all number_char (decimal (unat n))" for n :: u64
    using decimal_digits [of "unat n"] by (auto simp: list_all_iff number_char_def)
qed

text \<open>C14. The canonical text commits to the value: with the decimal text of 64-bit numbers, two values whose
  strings are well-formed UTF-8 have the same canonical text only if they are the same value, so a
  fingerprint of the text is a fingerprint of every key, list order, string and number in it.\<close>

theorem canonical_text_determines_value:
  assumes "json_text v" "json_text w"
  shows "canonical_v2_json (\<lambda>n :: u64. decimal (unat n)) v = canonical_v2_json (\<lambda>n. decimal (unat n)) w
     \<longleftrightarrow> v = w"
  using u64_text.canonical_inj [OF assms] by blast

theorem canonical_text_determines_value_witness:
  "canonical_v2_json (\<lambda>n :: u64. decimal (unat n)) (JObject [(''k'', JArray [JNumber 1, JString ''a''])])
     \<noteq> canonical_v2_json (\<lambda>n :: u64. decimal (unat n)) (JObject [(''k'', JArray [JNumber 1, JString ''b''])])"
proof -
  have "json_text (JObject [(''k'', JArray [JNumber (1 :: u64), JString ''a''])])"
    "json_text (JObject [(''k'', JArray [JNumber (1 :: u64), JString ''b''])])"
    by (simp_all add: valid_text_def byte_of_def)
  from canonical_text_determines_value [OF this] show ?thesis
    by (simp del: canonical_v2_json.simps)
qed

end
