(* ===== verification/Dfs_Acyclic.thy ===== *)
theory Dfs_Acyclic
  imports Quest_Prelude
begin

text \<open>
  The depth-first cycle check that both feature-lock generations run over their features: a recursive
  \<open>visit\<close> with one state byte per node (0 new, 1 on the stack, 2 done). The fuel bounds the depth of
  the recursion; one more than the number of nodes is always enough.
\<close>

section \<open>The search\<close>

fun visit_node :: "nat \<Rightarrow> (nat \<Rightarrow> nat option list) \<Rightarrow> nat \<Rightarrow> u8 list \<Rightarrow> (bool \<times> u8 list) option"
  and visit_list :: "nat \<Rightarrow> (nat \<Rightarrow> nat option list) \<Rightarrow> nat option list \<Rightarrow> u8 list \<Rightarrow> (bool \<times> u8 list) option"
where
  "visit_node 0 succ i st = None"
| "visit_node (Suc n) succ i st =
     (if st ! i = 1 then Some (False, st)
      else if st ! i = 2 then Some (True, st)
      else (case visit_list n succ (succ i) (st[i := 1]) of
          None \<Rightarrow> None
        | Some (ok, st) \<Rightarrow> Some (if ok then (True, st[i := 2]) else (False, st))))"
| "visit_list n succ [] st = Some (True, st)"
| "visit_list n succ (None # ds) st = Some (False, st)"
| "visit_list n succ (Some j # ds) st =
     (case visit_node n succ j st of
        None \<Rightarrow> None
      | Some (ok, st) \<Rightarrow> if ok then visit_list n succ ds st else Some (False, st))"

text \<open>\<open>(0..len).all(|index| visit(index, ...))\<close> on fresh states.\<close>

definition dfs_acyclic :: "(nat \<Rightarrow> nat option list) \<Rightarrow> nat \<Rightarrow> bool option" where
  "dfs_acyclic succ n =
     map_option fst (visit_list (Suc n) succ (map Some [0..<n]) (replicate n 0))"

section \<open>What it decides\<close>

definition nodes_in :: "u8 \<Rightarrow> u8 list \<Rightarrow> nat set" where
  "nodes_in s st = {i. i < length st \<and> st ! i = s}"

definition fresh_nodes :: "u8 list \<Rightarrow> nat set" where
  "fresh_nodes st = {i. i < length st \<and> st ! i \<noteq> 1 \<and> st ! i \<noteq> 2}"

definition edges :: "(nat \<Rightarrow> nat option list) \<Rightarrow> nat set \<Rightarrow> (nat \<times> nat) set" where
  "edges succ A = {(i, j). i \<in> A \<and> Some j \<in> set (succ i)}"

definition resolved :: "(nat \<Rightarrow> nat option list) \<Rightarrow> nat set \<Rightarrow> bool" where
  "resolved succ A = (\<forall>i \<in> A. None \<notin> set (succ i))"

definition in_bounds :: "(nat \<Rightarrow> nat option list) \<Rightarrow> nat \<Rightarrow> bool" where
  "in_bounds succ n = (\<forall>i < n. \<forall>j. Some j \<in> set (succ i) \<longrightarrow> j < n)"

text \<open>A finished set is closed under successors and has no cycle.\<close>

definition finished :: "(nat \<Rightarrow> nat option list) \<Rightarrow> nat set \<Rightarrow> bool" where
  "finished succ B = (resolved succ B \<and> edges succ B `` B \<subseteq> B \<and> acyclic (edges succ B))"

lemma nodes_in_update:
  "i < length st \<Longrightarrow> nodes_in s (st[i := t]) = (if s = t then insert i (nodes_in s st) else nodes_in s st - {i})"
  by (auto simp: nodes_in_def nth_list_update)

lemma nodes_in_disjoint: "i \<in> nodes_in 1 st \<Longrightarrow> i \<notin> nodes_in 2 st"
  by (simp add: nodes_in_def)

lemma fresh_update:
  "i < length st \<Longrightarrow> t = 1 \<or> t = 2 \<Longrightarrow> fresh_nodes (st[i := t]) = fresh_nodes st - {i}"
  by (auto simp: fresh_nodes_def nth_list_update)

lemma finite_fresh [simp]: "finite (fresh_nodes st)"
  by (simp add: fresh_nodes_def)

lemma finished_insert:
  assumes B: "finished succ B" and i: "i \<notin> B" and none: "None \<notin> set (succ i)"
    and into: "\<And>j. Some j \<in> set (succ i) \<Longrightarrow> j \<in> B"
  shows "finished succ (insert i B)"
proof -
  have closed: "b \<in> B" if "(a, b) \<in> edges succ (insert i B)" for a b
    using that B into by (auto simp: edges_def finished_def)
  have reach: "(a, b) \<in> (edges succ (insert i B))\<^sup>+ \<Longrightarrow> a \<in> B \<Longrightarrow> (a, b) \<in> (edges succ B)\<^sup>+ \<and> b \<in> B" for a b
  proof (induction rule: trancl_induct)
    case (base y)
    from base have "(a, y) \<in> edges succ B"
      by (simp add: edges_def)
    with closed [OF base(1)] show ?case
      by blast
  next
    case (step y z)
    then have "(y, z) \<in> edges succ B"
      by (simp add: edges_def)
    with step closed [OF step(2)] show ?case
      by (blast intro: trancl_into_trancl)
  qed
  have "(a, a) \<notin> (edges succ (insert i B))\<^sup>+" for a
  proof
    assume cycle: "(a, a) \<in> (edges succ (insert i B))\<^sup>+"
    then obtain c where "(c, a) \<in> edges succ (insert i B)"
      by (meson tranclD2)
    then have "a \<in> B"
      by (rule closed)
    with reach [OF cycle] B show False
      by (auto simp: finished_def acyclic_def)
  qed
  then have "acyclic (edges succ (insert i B))"
    by (simp add: acyclic_def)
  moreover have "resolved succ (insert i B)"
    using B none by (auto simp: finished_def resolved_def)
  ultimately show ?thesis
    using closed by (auto simp: finished_def)
qed

text \<open>A visit changes no node that is on the stack, and finished nodes stay finished.\<close>

definition advances :: "u8 list \<Rightarrow> u8 list \<Rightarrow> bool" where
  "advances st st' = (length st' = length st \<and> nodes_in 1 st' = nodes_in 1 st
     \<and> nodes_in 2 st \<subseteq> nodes_in 2 st' \<and> fresh_nodes st' \<subseteq> fresh_nodes st)"

lemma advances_refl [simp]: "advances st st"
  by (simp add: advances_def)

lemma advances_trans: "advances a b \<Longrightarrow> advances b c \<Longrightarrow> advances a c"
  by (auto simp: advances_def)

lemma advances_node:
  assumes "advances (st[i := 1]) st'" "i < length st" "st ! i \<noteq> 1" "st ! i \<noteq> 2"
  shows "advances st (st'[i := 2])"
  using assms by (auto simp: advances_def nodes_in_update fresh_update) (auto simp: nodes_in_def fresh_nodes_def)

lemma visit_advances:
  "visit_node n succ i st = Some (True, st') \<Longrightarrow> i < length st \<Longrightarrow> in_bounds succ (length st) \<Longrightarrow>
     advances st st' \<and> i \<in> nodes_in 2 st'"
  "visit_list n succ ds st = Some (True, st') \<Longrightarrow> \<forall>j. Some j \<in> set ds \<longrightarrow> j < length st \<Longrightarrow>
     in_bounds succ (length st) \<Longrightarrow>
     advances st st' \<and> None \<notin> set ds \<and> (\<forall>j. Some j \<in> set ds \<longrightarrow> j \<in> nodes_in 2 st')"
proof (induction n succ i st and n succ ds st arbitrary: st' and st' rule: visit_node_visit_list.induct)
  case (2 n succ i st)
  show ?case
  proof (cases "st ! i = 1 \<or> st ! i = 2")
    case True
    with "2.prems" show ?thesis
      by (auto simp: nodes_in_def)
  next
    case False
    with "2.prems" obtain st1 where st1: "visit_list n succ (succ i) (st[i := 1]) = Some (True, st1)"
      and st': "st' = st1[i := 2]"
      by (auto split: option.splits prod.splits if_splits)
    have "advances (st[i := 1]) st1"
      using "2.IH" [of st1] False st1 "2.prems" by (auto simp: in_bounds_def)
    with False "2.prems"(2) st' advances_node [of st i st1] show ?thesis
      by (auto simp: nodes_in_update advances_def)
  qed
next
  case (5 n succ j ds st)
  then obtain st1 where st1: "visit_node n succ j st = Some (True, st1)"
    and rest: "visit_list n succ ds st1 = Some (True, st')"
    by (auto split: option.splits prod.splits if_splits)
  have node: "advances st st1 \<and> j \<in> nodes_in 2 st1"
    using "5.IH"(1) [OF st1] "5.prems" by auto
  then have len: "length st1 = length st"
    by (simp add: advances_def)
  have "advances st1 st' \<and> None \<notin> set ds \<and> (\<forall>j. Some j \<in> set ds \<longrightarrow> j \<in> nodes_in 2 st')"
    using "5.IH"(2) [OF st1 _ _ rest] "5.prems" len by auto
  with node show ?case
    using advances_trans [of st st1 st'] by (auto simp: advances_def)
qed auto

text \<open>Success: the finished nodes stay closed and free of cycles.\<close>

lemma visit_finished:
  "visit_node n succ i st = Some (True, st') \<Longrightarrow> i < length st \<Longrightarrow> in_bounds succ (length st) \<Longrightarrow>
     finished succ (nodes_in 2 st) \<Longrightarrow> finished succ (nodes_in 2 st')"
  "visit_list n succ ds st = Some (True, st') \<Longrightarrow> \<forall>j. Some j \<in> set ds \<longrightarrow> j < length st \<Longrightarrow>
     in_bounds succ (length st) \<Longrightarrow> finished succ (nodes_in 2 st) \<Longrightarrow> finished succ (nodes_in 2 st')"
proof (induction n succ i st and n succ ds st arbitrary: st' and st' rule: visit_node_visit_list.induct)
  case (2 n succ i st)
  show ?case
  proof (cases "st ! i = 1 \<or> st ! i = 2")
    case True
    with "2.prems" show ?thesis
      by auto
  next
    case False
    with "2.prems" obtain st1 where st1: "visit_list n succ (succ i) (st[i := 1]) = Some (True, st1)"
      and st': "st' = st1[i := 2]"
      by (auto split: option.splits prod.splits if_splits)
    have new: "i \<notin> nodes_in 2 st" "i \<in> nodes_in 1 (st[i := 1])"
      using False "2.prems"(2) by (auto simp: nodes_in_def)
    then have fin: "finished succ (nodes_in 2 (st[i := 1]))"
      using "2.prems" by (simp add: nodes_in_update)
    have bounds: "\<forall>j. Some j \<in> set (succ i) \<longrightarrow> j < length (st[i := 1])" "in_bounds succ (length (st[i := 1]))"
      using "2.prems" by (auto simp: in_bounds_def)
    have adv: "advances (st[i := 1]) st1" "None \<notin> set (succ i)"
      "\<And>j. Some j \<in> set (succ i) \<Longrightarrow> j \<in> nodes_in 2 st1"
      using visit_advances(2) [OF st1 bounds] by auto
    then have "i \<notin> nodes_in 2 st1"
      using new(2) nodes_in_disjoint [of i st1] by (simp add: advances_def)
    moreover have "finished succ (nodes_in 2 st1)"
      using "2.IH" [OF _ _ st1 bounds fin] False by auto
    ultimately have "finished succ (insert i (nodes_in 2 st1))"
      using finished_insert adv by blast
    moreover have "i < length st1"
      using adv "2.prems"(2) by (simp add: advances_def)
    ultimately show ?thesis
      by (simp add: st' nodes_in_update)
  qed
next
  case (5 n succ j ds st)
  then obtain st1 where st1: "visit_node n succ j st = Some (True, st1)"
    and rest: "visit_list n succ ds st1 = Some (True, st')"
    by (auto split: option.splits prod.splits if_splits)
  have "length st1 = length st"
    using visit_advances(1) [OF st1] "5.prems" by (auto simp: advances_def)
  then show ?case
    using "5.IH"(1) [OF st1] "5.IH"(2) [OF st1 _ _ rest] "5.prems" by auto
qed auto

text \<open>Failure: there is an unresolved name or a cycle.\<close>

lemma visit_failed:
  "visit_node n succ i st = Some (False, st') \<Longrightarrow> i < length st \<Longrightarrow> in_bounds succ (length st) \<Longrightarrow>
     \<forall>g \<in> nodes_in 1 st. (g, i) \<in> (edges succ {..<length st})\<^sup>+ \<Longrightarrow>
     \<not> (resolved succ {..<length st} \<and> acyclic (edges succ {..<length st}))"
  "visit_list n succ ds st = Some (False, st') \<Longrightarrow> \<forall>j. Some j \<in> set ds \<longrightarrow> j < length st \<Longrightarrow>
     in_bounds succ (length st) \<Longrightarrow>
     \<forall>g \<in> nodes_in 1 st. \<forall>j. Some j \<in> set ds \<longrightarrow> (g, j) \<in> (edges succ {..<length st})\<^sup>+ \<Longrightarrow>
     (None \<in> set ds \<longrightarrow> \<not> resolved succ {..<length st}) \<Longrightarrow>
     \<not> (resolved succ {..<length st} \<and> acyclic (edges succ {..<length st}))"
proof (induction n succ i st and n succ ds st arbitrary: st' and st' rule: visit_node_visit_list.induct)
  case (2 n succ i st)
  let ?E = "edges succ {..<length st}"
  show ?case
  proof (cases "st ! i = 1")
    case True
    then have "(i, i) \<in> ?E\<^sup>+"
      using "2.prems" by (simp add: nodes_in_def)
    then show ?thesis
      by (auto simp: acyclic_def)
  next
    case False
    with "2.prems" have st1: "visit_list n succ (succ i) (st[i := 1]) = Some (False, st')" "st ! i \<noteq> 2"
      by (auto split: option.splits prod.splits if_splits)
    have step: "Some j \<in> set (succ i) \<Longrightarrow> (i, j) \<in> ?E" for j
      using "2.prems"(2) by (simp add: edges_def)
    have reach: "\<forall>g \<in> nodes_in 1 (st[i := 1]). \<forall>j. Some j \<in> set (succ i) \<longrightarrow> (g, j) \<in> ?E\<^sup>+"
      using "2.prems"(2,4) step by (auto simp: nodes_in_update intro: trancl_into_trancl)
    have "None \<in> set (succ i) \<longrightarrow> \<not> resolved succ {..<length st}"
      using "2.prems"(2) by (auto simp: resolved_def)
    then show ?thesis
      using "2.IH" [OF _ _ st1(1)] False st1(2) reach "2.prems"(2,3) by (auto simp: in_bounds_def)
  qed
next
  case (5 n succ j ds st)
  show ?case
  proof (cases "visit_node n succ j st = Some (False, st')")
    case True
    then show ?thesis
      using "5.IH"(1) [OF True] "5.prems" by auto
  next
    case False
    with "5.prems"(1) obtain st1 where st1: "visit_node n succ j st = Some (True, st1)"
      and rest: "visit_list n succ ds st1 = Some (False, st')"
      by (auto split: option.splits prod.splits if_splits)
    have "advances st st1"
      using visit_advances(1) [OF st1] "5.prems" by auto
    then show ?thesis
      using "5.IH"(2) [OF st1 _ _ rest] "5.prems" by (auto simp: advances_def)
  qed
qed auto

text \<open>Enough fuel: more than there are fresh nodes.\<close>

lemma visit_total:
  "card (fresh_nodes st) < n \<Longrightarrow> i < length st \<Longrightarrow> in_bounds succ (length st) \<Longrightarrow> visit_node n succ i st \<noteq> None"
  "card (fresh_nodes st) < n \<Longrightarrow> \<forall>j. Some j \<in> set ds \<longrightarrow> j < length st \<Longrightarrow> in_bounds succ (length st) \<Longrightarrow>
     visit_list n succ ds st \<noteq> None"
proof (induction n succ i st and n succ ds st rule: visit_node_visit_list.induct)
  case (2 n succ i st)
  show ?case
  proof (cases "st ! i = 1 \<or> st ! i = 2")
    case False
    then have "i \<in> fresh_nodes st"
      using "2.prems"(2) by (simp add: fresh_nodes_def)
    then have "card (fresh_nodes st - {i}) < card (fresh_nodes st)"
      by (intro card_Diff1_less) simp_all
    then have "card (fresh_nodes (st[i := 1])) < n"
      using "2.prems"(1,2) by (simp add: fresh_update)
    then have "visit_list n succ (succ i) (st[i := 1]) \<noteq> None"
      using "2.IH" False "2.prems" by (auto simp: in_bounds_def)
    with False show ?thesis
      by auto
  qed auto
next
  case (5 n succ j ds st)
  then obtain ok st1 where st1: "visit_node n succ j st = Some (ok, st1)"
    by auto
  show ?case
  proof (cases ok)
    case True
    then have "advances st st1"
      using visit_advances(1) st1 "5.prems" by auto
    moreover from this have "card (fresh_nodes st1) \<le> card (fresh_nodes st)"
      by (simp add: advances_def card_mono)
    ultimately show ?thesis
      using "5.IH"(2) [OF st1 refl] "5.prems" st1 True by (auto simp: advances_def)
  qed (use st1 in auto)
qed auto

theorem dfs_decides:
  assumes "in_bounds succ n"
  shows "dfs_acyclic succ n = Some (resolved succ {..<n} \<and> acyclic (edges succ {..<n}))"
proof -
  let ?st = "replicate n (0 :: u8)"
  have start: "\<forall>j. Some j \<in> set (map Some [0..<n]) \<longrightarrow> j < length ?st" "in_bounds succ (length ?st)"
    "nodes_in 1 ?st = {}" "nodes_in 2 ?st = {}"
    using assms by (auto simp: nodes_in_def)
  have "card (fresh_nodes ?st) < Suc n"
    using card_mono [of "{..<n}" "fresh_nodes ?st"] by (fastforce simp: fresh_nodes_def less_Suc_eq_le)
  then obtain ok st' where run: "visit_list (Suc n) succ (map Some [0..<n]) ?st = Some (ok, st')"
    using visit_total(2) [OF _ start(1,2), of "Suc n"] by auto
  have "ok \<longleftrightarrow> resolved succ {..<n} \<and> acyclic (edges succ {..<n})"
  proof (cases ok)
    case True
    with run have run: "visit_list (Suc n) succ (map Some [0..<n]) ?st = Some (True, st')"
      by simp
    note adv = visit_advances(2) [OF run start(1,2)]
    then have "i \<in> nodes_in 2 st'" if "i < n" for i
      using that by simp
    moreover have "length st' = n"
      using adv by (simp add: advances_def)
    ultimately have "nodes_in 2 st' = {..<n}"
      by (auto simp: nodes_in_def)
    moreover have "finished succ (nodes_in 2 st')"
      using visit_finished(2) [OF run start(1,2)] start(4)
      by (simp add: finished_def resolved_def edges_def acyclic_def)
    ultimately show ?thesis
      using True by (simp add: finished_def)
  next
    case False
    with run have run: "visit_list (Suc n) succ (map Some [0..<n]) ?st = Some (False, st')"
      by simp
    have "\<not> (resolved succ {..<length ?st} \<and> acyclic (edges succ {..<length ?st}))"
      by (rule visit_failed(2) [OF run start(1,2)]) (simp_all add: start(3))
    with False show ?thesis
      by simp
  qed
  with run show ?thesis
    by (simp add: dfs_acyclic_def)
qed

end
