(* ===== verification/Feature_Lock.thy ===== *)
theory Feature_Lock
  imports Dfs_Acyclic
begin

text \<open>
  The first generation of feature locks (\<open>rusty-quest-feature-activation\<close>): the lock tree, its
  lexical checks, the closure check, the decision of \<open>resolve_lock_bound_activation\<close> and its marker
  line. Parsing and hashing belong to serde and sha2 and are the fields of \<open>lock_externals\<close>.
\<close>

section \<open>Bounds and lexical checks\<close>

definition lock_bound_activation_schema :: string where
  "lock_bound_activation_schema = ''rusty.quest.lock_bound_activation.v1''"

definition workflow_feature_lock_schema :: string where
  "workflow_feature_lock_schema = ''rusty.morphospace.workflow.feature_lock.v1''"

definition max_lock_bytes :: nat where
  "max_lock_bytes = 256 * 1024"

definition max_features :: nat where
  "max_features = 256"

definition max_list_items :: nat where
  "max_list_items = 128"

definition max_identity_bytes :: nat where
  "max_identity_bytes = 256"

definition max_descriptor_bytes :: nat where
  "max_descriptor_bytes = 512"

definition is_word_byte :: "char \<Rightarrow> bool" where
  "is_word_byte c = (is_ascii_lowercase c \<or> is_ascii_digit c)"

definition starts_word :: "string \<Rightarrow> bool" where
  "starts_word s = (case s of [] \<Rightarrow> False | c # _ \<Rightarrow> is_word_byte c)"

definition valid_id :: "string \<Rightarrow> bool" where
  "valid_id s = (2 \<le> length s \<and> length s \<le> 64 \<and> starts_word s
     \<and> list_all (\<lambda>c. is_word_byte c \<or> c = CHR ''-'') s)"

definition valid_dotted_id :: "string \<Rightarrow> bool" where
  "valid_dotted_id s = (3 \<le> length s \<and> length s \<le> 128 \<and> starts_word s
     \<and> list_all (\<lambda>c. is_word_byte c \<or> c \<in> {CHR ''.'', CHR ''_'', CHR ''-''}) s)"

definition valid_selector :: "string \<Rightarrow> bool" where
  "valid_selector s = (length s \<le> max_identity_bytes \<and> starts_word s
     \<and> list_all (\<lambda>c. is_word_byte c \<or> c \<in> {CHR ''.'', CHR ''_'', CHR ''-'', CHR '':'', CHR ''/''}) s)"

text \<open>
  \<open>value.chars().any(char::is_control)\<close> on the UTF-8 bytes: U+0000..U+001F and U+007F are one byte,
  U+0080..U+009F are C2 followed by 80..9F.
\<close>

fun any_control :: "nat list \<Rightarrow> bool" where
  "any_control [] = False"
| "any_control (b # bs) =
     (b < 32 \<or> b = 127
      \<or> (b = 194 \<and> (case bs of [] \<Rightarrow> False | c # _ \<Rightarrow> 128 \<le> c \<and> c \<le> 159))
      \<or> any_control bs)"

definition valid_bounded_string :: "string \<Rightarrow> nat \<Rightarrow> bool \<Rightarrow> bool" where
  "valid_bounded_string s max_bytes allow_empty =
     ((allow_empty \<or> s \<noteq> []) \<and> length s \<le> max_bytes \<and> \<not> any_control (map byte_of s))"

text \<open>\<open>values.iter().collect::<HashSet<_>>().len() == values.len()\<close>.\<close>

definition all_unique :: "string list \<Rightarrow> bool" where
  "all_unique vs = (length (remdups vs) = length vs)"

definition valid_id_list :: "string list \<Rightarrow> bool" where
  "valid_id_list vs = (length vs \<le> max_list_items \<and> list_all valid_id vs \<and> all_unique vs)"

definition valid_value_list :: "string list \<Rightarrow> bool" where
  "valid_value_list vs = (length vs \<le> max_list_items
     \<and> list_all (\<lambda>v. valid_bounded_string v max_descriptor_bytes False) vs \<and> all_unique vs)"

definition is_hex_byte :: "char \<Rightarrow> bool" where
  "is_hex_byte c = (is_ascii_digit c \<or> in_range 97 102 c \<or> in_range 65 70 c)"

definition valid_lock_sha256 :: "string \<Rightarrow> bool" where
  "valid_lock_sha256 s = (length s = 64 \<and> list_all is_hex_byte s)"

definition eq_ignore_ascii_case :: "string \<Rightarrow> string \<Rightarrow> bool" where
  "eq_ignore_ascii_case s t = (to_ascii_lowercase s = to_ascii_lowercase t)"

definition is_marker_byte :: "char \<Rightarrow> bool" where
  "is_marker_byte c =
     (is_ascii_alphanumeric c \<or> c \<in> {CHR ''.'', CHR ''-'', CHR ''_'', CHR '':'', CHR ''/''})"

definition marker_token :: "string \<Rightarrow> string" where
  "marker_token s = (let token = filter is_marker_byte s in if token = [] then ''none'' else token)"

section \<open>The lock\<close>

record parameter_authority =
  pa_parameter :: string
  pa_owner :: string

record activation_receipt =
  ar_required :: bool
  ar_schema :: string
  ar_effective_marker :: string

record workflow_feature =
  ft_feature_id :: string
  ft_module_id :: string
  ft_enabled :: bool
  ft_requested_by :: string
  ft_descriptor :: string
  ft_dependencies :: "string list"
  ft_conflicts :: "string list"
  ft_permissions :: "string list"
  ft_routes :: "string list"
  ft_assets :: "string list"
  ft_parameter_authorities :: "parameter_authority list"
  ft_activation_receipt :: activation_receipt

record workflow_lock =
  lk_schema_uri :: "string option"
  lk_schema :: string
  lk_project_id :: string
  lk_revision :: u64
  lk_default_activation :: string
  lk_features :: "workflow_feature list"

section \<open>The closure check\<close>

text \<open>\<open>any\<close> over the authorities, with the set of parameters seen so far.\<close>

fun authorities_refused :: "(string \<Rightarrow> bool) \<Rightarrow> parameter_authority list \<Rightarrow> string list \<Rightarrow> bool" where
  "authorities_refused owner_ok [] seen = False"
| "authorities_refused owner_ok (a # as) seen =
     (\<not> valid_dotted_id (pa_parameter a) \<or> \<not> owner_ok (pa_owner a) \<or> pa_parameter a \<in> set seen
      \<or> authorities_refused owner_ok as (pa_parameter a # seen))"

definition feature_refused :: "workflow_feature \<Rightarrow> bool" where
  "feature_refused f =
     (\<not> valid_id (ft_feature_id f)
      \<or> \<not> valid_id (ft_module_id f)
      \<or> \<not> valid_bounded_string (ft_descriptor f) max_descriptor_bytes (\<not> ft_enabled f)
      \<or> (ft_enabled f \<and> \<not> valid_selector (ft_requested_by f))
      \<or> (ft_requested_by f \<noteq> [] \<and> \<not> valid_selector (ft_requested_by f))
      \<or> \<not> valid_id_list (ft_dependencies f)
      \<or> \<not> valid_id_list (ft_conflicts f)
      \<or> \<not> valid_value_list (ft_permissions f)
      \<or> \<not> valid_value_list (ft_routes f)
      \<or> \<not> valid_value_list (ft_assets f)
      \<or> \<not> valid_dotted_id (ar_schema (ft_activation_receipt f))
      \<or> \<not> valid_dotted_id (ar_effective_marker (ft_activation_receipt f))
      \<or> max_list_items < length (ft_parameter_authorities f)
      \<or> authorities_refused valid_id (ft_parameter_authorities f) [])"

text \<open>The indices are hash maps from an identity to a position; \<open>insert(..).is_some()\<close> is a duplicate.\<close>

type_synonym name_index = "(string \<times> nat) list"

fun index_features ::
  "workflow_feature list \<Rightarrow> nat \<Rightarrow> name_index \<Rightarrow> name_index \<Rightarrow> (name_index \<times> name_index) option" where
  "index_features [] i by_feature by_module = Some (by_feature, by_module)"
| "index_features (f # fs) i by_feature by_module =
     (if feature_refused f \<or> map_of by_feature (ft_feature_id f) \<noteq> None
        \<or> map_of by_module (ft_module_id f) \<noteq> None
      then None
      else index_features fs (Suc i) ((ft_feature_id f, i) # by_feature) ((ft_module_id f, i) # by_module))"

definition dependency_refused ::
  "workflow_feature list \<Rightarrow> name_index \<Rightarrow> workflow_feature \<Rightarrow> string \<Rightarrow> bool" where
  "dependency_refused fs by_module f d =
     (d = ft_module_id f
      \<or> (case map_of by_module d of
           None \<Rightarrow> True
         | Some i \<Rightarrow> ft_enabled f \<and> \<not> ft_enabled (fs ! i)))"

definition conflict_refused ::
  "workflow_feature list \<Rightarrow> name_index \<Rightarrow> workflow_feature \<Rightarrow> string \<Rightarrow> bool" where
  "conflict_refused fs by_feature f c =
     (c = ft_feature_id f
      \<or> (case map_of by_feature c of
           None \<Rightarrow> False
         | Some i \<Rightarrow> ft_enabled f \<and> ft_enabled (fs ! i)))"

definition dependencies_are_acyclic :: "workflow_feature list \<Rightarrow> name_index \<Rightarrow> bool option" where
  "dependencies_are_acyclic fs by_module =
     dfs_acyclic (\<lambda>i. map (map_of by_module) (ft_dependencies (fs ! i))) (length fs)"

definition valid_feature_lock_closure :: "workflow_lock \<Rightarrow> bool" where
  "valid_feature_lock_closure lock =
     (let fs = lk_features lock in
      if \<not> valid_id (lk_project_id lock) \<or> fs = [] \<or> max_features < length fs
        \<or> (case lk_schema_uri lock of
             None \<Rightarrow> False
           | Some v \<Rightarrow> \<not> valid_bounded_string v max_descriptor_bytes True)
      then False
      else case index_features fs 0 [] [] of
          None \<Rightarrow> False
        | Some (by_feature, by_module) \<Rightarrow>
            if list_ex (\<lambda>f. list_ex (dependency_refused fs by_module f) (ft_dependencies f)
                 \<or> list_ex (conflict_refused fs by_feature f) (ft_conflicts f)) fs
            then False
            else dependencies_are_acyclic fs by_module = Some True)"

section \<open>The decision\<close>

record activation_policy =
  po_requested_by :: string
  po_receipt_schema :: string
  po_effective_marker :: string

record runtime_input =
  ri_enabled :: bool
  ri_profile_id :: string
  ri_project_id :: string
  ri_feature_id :: string
  ri_lock_revision :: u64
  ri_lock_sha256 :: string

datatype activation_state = Applied | Rejected

datatype activation_rejection =
    InvalidExpectation
  | InvalidLock
  | InvalidFeatureClosure
  | UnacceptedLock
  | ProjectMismatch
  | FeatureMismatch
  | ModuleMismatch
  | FeatureNotSelected
  | InvalidSelection
  | EffectiveMarkerMismatch
  | RuntimeInputDisabled
  | RuntimeProfileMismatch
  | RuntimeProjectMismatch
  | RuntimeFeatureMismatch
  | RuntimeRevisionMismatch
  | RuntimeDigestMismatch

fun state_token :: "activation_state \<Rightarrow> string" where
  "state_token Applied = ''applied''"
| "state_token Rejected = ''rejected''"

fun rejection_token :: "activation_rejection \<Rightarrow> string" where
  "rejection_token InvalidExpectation = ''activation-expectation-invalid''"
| "rejection_token InvalidLock = ''invalid-lock''"
| "rejection_token InvalidFeatureClosure = ''lock-feature-closure-invalid''"
| "rejection_token UnacceptedLock = ''lock-not-accepted''"
| "rejection_token ProjectMismatch = ''lock-project-mismatch''"
| "rejection_token FeatureMismatch = ''lock-feature-mismatch''"
| "rejection_token ModuleMismatch = ''lock-module-mismatch''"
| "rejection_token FeatureNotSelected = ''lock-feature-not-selected''"
| "rejection_token InvalidSelection = ''lock-selection-invalid''"
| "rejection_token EffectiveMarkerMismatch = ''lock-effective-marker-mismatch''"
| "rejection_token RuntimeInputDisabled = ''runtime-input-disabled''"
| "rejection_token RuntimeProfileMismatch = ''runtime-profile-mismatch''"
| "rejection_token RuntimeProjectMismatch = ''runtime-project-mismatch''"
| "rejection_token RuntimeFeatureMismatch = ''runtime-feature-mismatch''"
| "rejection_token RuntimeRevisionMismatch = ''runtime-revision-mismatch''"
| "rejection_token RuntimeDigestMismatch = ''runtime-digest-mismatch''"

record activation_decision =
  de_schema :: string
  de_state :: activation_state
  de_project_id :: string
  de_feature_id :: string
  de_lock_revision :: u64
  de_lock_sha256 :: string
  de_runtime_profile_id :: string
  de_rejection :: "activation_rejection option"

definition is_applied :: "activation_decision \<Rightarrow> bool" where
  "is_applied d = (de_state d = Applied \<and> de_rejection d = None)"

definition marker_fields :: "activation_decision \<Rightarrow> string" where
  "marker_fields d =
     ''lockBindingSchema='' @ de_schema d
     @ '' activationState='' @ state_token (de_state d)
     @ '' projectId='' @ marker_token (de_project_id d)
     @ '' featureId='' @ marker_token (de_feature_id d)
     @ '' conformanceLockRevision='' @ decimal (unat (de_lock_revision d))
     @ '' conformanceLockSha256='' @ de_lock_sha256 d
     @ '' runtimeProfileId='' @ marker_token (de_runtime_profile_id d)
     @ '' activationRejectReason=''
     @ (case de_rejection d of None \<Rightarrow> ''none'' | Some r \<Rightarrow> rejection_token r)"

definition rejected ::
  "string \<Rightarrow> string \<Rightarrow> u64 \<Rightarrow> string \<Rightarrow> runtime_input \<Rightarrow> activation_rejection \<Rightarrow> activation_decision" where
  "rejected project_id feature_id lock_revision lock_sha256 input rejection =
     \<lparr>de_schema = lock_bound_activation_schema, de_state = Rejected, de_project_id = project_id,
      de_feature_id = feature_id, de_lock_revision = lock_revision, de_lock_sha256 = lock_sha256,
      de_runtime_profile_id = ri_profile_id input, de_rejection = Some rejection\<rparr>"

text \<open>\<open>Sha256::digest\<close> and \<open>serde_json::from_str\<close> at the lock type.\<close>

record lock_externals =
  lx_sha256 :: "bytes \<Rightarrow> bytes"
  lx_lock_from_str :: "string \<Rightarrow> workflow_lock option"

definition sha256_hex :: "(bytes \<Rightarrow> bytes) \<Rightarrow> bytes \<Rightarrow> string" where
  "sha256_hex sha bs = lower_hex (sha bs)"

definition resolve_lock_bound_activation ::
  "lock_externals \<Rightarrow> string \<Rightarrow> string \<Rightarrow> string \<Rightarrow> string \<Rightarrow> string \<Rightarrow> string \<Rightarrow> activation_policy
     \<Rightarrow> runtime_input \<Rightarrow> activation_decision" where
  "resolve_lock_bound_activation x lock_json accepted_lock_sha256 expected_project_id
       expected_feature_id expected_module_id accepted_profile_id policy input =
     (let lock_sha256 = sha256_hex (lx_sha256 x) (str_bytes lock_json) in
      if max_lock_bytes < length lock_json
        \<or> \<not> valid_lock_sha256 accepted_lock_sha256
        \<or> \<not> valid_id expected_project_id
        \<or> \<not> valid_id expected_feature_id
        \<or> \<not> valid_id expected_module_id
        \<or> \<not> valid_selector accepted_profile_id
        \<or> \<not> valid_selector (po_requested_by policy)
        \<or> \<not> valid_dotted_id (po_receipt_schema policy)
        \<or> \<not> valid_dotted_id (po_effective_marker policy)
      then rejected expected_project_id expected_feature_id 0 lock_sha256 input InvalidExpectation
      else case lx_lock_from_str x lock_json of
          None \<Rightarrow> rejected expected_project_id expected_feature_id 0 lock_sha256 input InvalidLock
        | Some lock \<Rightarrow>
            let reject = rejected (lk_project_id lock) expected_feature_id (lk_revision lock) lock_sha256 input in
            if lk_schema lock \<noteq> workflow_feature_lock_schema
              \<or> lk_default_activation lock \<noteq> ''disabled''
              \<or> lk_revision lock = 0
            then reject InvalidLock
            else if \<not> valid_feature_lock_closure lock then reject InvalidFeatureClosure
            else if lk_project_id lock \<noteq> expected_project_id then reject ProjectMismatch
            else case filter (\<lambda>f. ft_feature_id f = expected_feature_id) (lk_features lock) of
                [feature] \<Rightarrow>
                  if ft_module_id feature \<noteq> expected_module_id then reject ModuleMismatch
                  else if \<not> ft_enabled feature then reject FeatureNotSelected
                  else if ft_requested_by feature \<noteq> po_requested_by policy then reject InvalidSelection
                  else if \<not> ar_required (ft_activation_receipt feature)
                    \<or> ar_schema (ft_activation_receipt feature) \<noteq> po_receipt_schema policy
                    \<or> ar_effective_marker (ft_activation_receipt feature) \<noteq> po_effective_marker policy
                  then reject EffectiveMarkerMismatch
                  else if \<not> eq_ignore_ascii_case accepted_lock_sha256 lock_sha256 then reject UnacceptedLock
                  else if \<not> ri_enabled input then reject RuntimeInputDisabled
                  else if ri_profile_id input \<noteq> accepted_profile_id then reject RuntimeProfileMismatch
                  else if ri_project_id input \<noteq> lk_project_id lock then reject RuntimeProjectMismatch
                  else if ri_feature_id input \<noteq> expected_feature_id then reject RuntimeFeatureMismatch
                  else if ri_lock_revision input \<noteq> lk_revision lock then reject RuntimeRevisionMismatch
                  else if \<not> valid_lock_sha256 (ri_lock_sha256 input)
                    \<or> \<not> eq_ignore_ascii_case (ri_lock_sha256 input) lock_sha256
                  then reject RuntimeDigestMismatch
                  else \<lparr>de_schema = lock_bound_activation_schema, de_state = Applied,
                        de_project_id = lk_project_id lock, de_feature_id = expected_feature_id,
                        de_lock_revision = lk_revision lock, de_lock_sha256 = accepted_lock_sha256,
                        de_runtime_profile_id = ri_profile_id input, de_rejection = None\<rparr>
              | _ \<Rightarrow> reject FeatureMismatch)"

end
