(* ===== verification/Feature_Lock_V2.thy ===== *)
theory Feature_Lock_V2
  imports Feature_Lock Canonical_Json
begin

text \<open>
  The second generation of feature locks (\<open>rusty-quest-feature-activation\<close>): effects, the closure
  check with its dependency search and exact effect union, and the inspection that authenticates the
  bytes and the resolver fingerprint. Serde and sha2 are the fields of \<open>v2_externals\<close>.
\<close>

section \<open>Effects\<close>

datatype v2_effect =
    PermissionEffect
  | ServiceEffect
  | ActivityEffect
  | QueryEffect
  | ToolEffect
  | AssetEffect
  | ShaderEffect
  | NativeLibraryEffect
  | CommandEffect
  | RouteEffect
  | StreamEffect
  | InputEffect
  | SceneEffect
  | MarkerEffect

record v2_effects =
  ve_permissions :: "string list"
  ve_services :: "string list"
  ve_activities :: "string list"
  ve_queries :: "string list"
  ve_tools :: "string list"
  ve_assets :: "string list"
  ve_shaders :: "string list"
  ve_native_libraries :: "string list"
  ve_commands :: "string list"
  ve_routes :: "string list"
  ve_streams :: "string list"
  ve_inputs :: "string list"
  ve_scenes :: "string list"
  ve_markers :: "string list"

fun effect_members :: "v2_effects \<Rightarrow> v2_effect \<Rightarrow> string list" where
  "effect_members e PermissionEffect = ve_permissions e"
| "effect_members e ServiceEffect = ve_services e"
| "effect_members e ActivityEffect = ve_activities e"
| "effect_members e QueryEffect = ve_queries e"
| "effect_members e ToolEffect = ve_tools e"
| "effect_members e AssetEffect = ve_assets e"
| "effect_members e ShaderEffect = ve_shaders e"
| "effect_members e NativeLibraryEffect = ve_native_libraries e"
| "effect_members e CommandEffect = ve_commands e"
| "effect_members e RouteEffect = ve_routes e"
| "effect_members e StreamEffect = ve_streams e"
| "effect_members e InputEffect = ve_inputs e"
| "effect_members e SceneEffect = ve_scenes e"
| "effect_members e MarkerEffect = ve_markers e"

definition effect_families :: "v2_effects \<Rightarrow> string list list" where
  "effect_families e =
     [ve_permissions e, ve_services e, ve_activities e, ve_queries e, ve_tools e, ve_assets e,
      ve_shaders e, ve_native_libraries e, ve_commands e, ve_routes e, ve_streams e, ve_inputs e,
      ve_scenes e, ve_markers e]"

definition effects_valid :: "v2_effects \<Rightarrow> bool" where
  "effects_valid e = list_all (\<lambda>items. length items \<le> max_list_items
     \<and> list_all (\<lambda>item. valid_bounded_string item max_descriptor_bytes False) items
     \<and> all_unique items) (effect_families e)"

section \<open>The lock\<close>

record v2_descriptor =
  vd_path :: string
  vd_sha256 :: string
  vd_source_repo :: string
  vd_source_revision :: string
  vd_source_path :: string
  vd_source_sha256 :: string

record v2_activation =
  va_rule :: string
  va_runtime_inputs :: "string list"
  va_receipt_schema :: string
  va_effective_marker :: string

record v2_feature =
  vf_feature_id :: string
  vf_module_id :: string
  vf_version :: string
  vf_owner_lane :: string
  vf_selected :: bool
  vf_run_activation_default :: string
  vf_descriptor :: v2_descriptor
  vf_dependencies :: "string list"
  vf_conflicts :: "string list"
  vf_exclusive_group :: "string option"
  vf_effects :: v2_effects
  vf_parameter_authorities :: "parameter_authority list"
  vf_activation :: v2_activation
  vf_validation_profile :: string
  vf_rollback_profile :: string

record v2_lock =
  vl_schema_uri :: string
  vl_schema :: string
  vl_project_id :: string
  vl_project_revision :: u64
  vl_revision :: u64
  vl_generated_at :: string
  vl_resolver_version :: string
  vl_lock_fingerprint :: string
  vl_default_activation :: string
  vl_activation_rule :: string
  vl_selected_features :: "string list"
  vl_denied_features :: "string list"
  vl_features :: "v2_feature list"
  vl_effect_union :: v2_effects

section \<open>Lexical checks\<close>

definition valid_v2_id :: "string \<Rightarrow> bool" where
  "valid_v2_id s = (2 \<le> length s \<and> length s \<le> 128 \<and> starts_word s
     \<and> list_all (\<lambda>c. is_word_byte c \<or> c = CHR ''-'') s)"

definition valid_v2_path :: "string \<Rightarrow> bool" where
  "valid_v2_path s = (s \<noteq> [] \<and> length s \<le> max_descriptor_bytes \<and> \<not> starts_with s ''/''
     \<and> CHR 0x5C \<notin> set s \<and> CHR '':'' \<notin> set s
     \<and> \<not> list_ex (\<lambda>part. part = [] \<or> part = ''.'' \<or> part = ''..'') (split_on CHR ''/'' s)
     \<and> \<not> any_control (map byte_of s))"

text \<open>\<open>windows(2).all(|pair| pair[0] < pair[1])\<close>.\<close>

definition strictly_ascending :: "string list \<Rightarrow> bool" where
  "strictly_ascending vs = successively (<) vs"

definition valid_v2_sorted_ids :: "string list \<Rightarrow> bool" where
  "valid_v2_sorted_ids vs = (length vs \<le> max_features \<and> list_all valid_v2_id vs \<and> strictly_ascending vs)"

definition valid_v2_unique_ids :: "string list \<Rightarrow> bool" where
  "valid_v2_unique_ids vs = (length vs \<le> max_features \<and> list_all valid_v2_id vs \<and> all_unique vs)"

definition digits_value :: "string \<Rightarrow> nat" where
  "digits_value s = foldl (\<lambda>n c. 10 * n + (byte_of c - 48)) 0 s"

definition timestamp_number :: "string \<Rightarrow> nat \<Rightarrow> nat \<Rightarrow> nat option" where
  "timestamp_number s start stop =
     (let text = take (stop - start) (drop start s) in
      if list_all is_ascii_digit text then Some (digits_value text) else None)"

definition leap_year :: "nat \<Rightarrow> bool" where
  "leap_year year = (year mod 4 = 0 \<and> (year mod 100 \<noteq> 0 \<or> year mod 400 = 0))"

definition max_day_of :: "nat \<Rightarrow> nat \<Rightarrow> nat option" where
  "max_day_of year month =
     (if month \<in> {1, 3, 5, 7, 8, 10, 12} then Some 31
      else if month \<in> {4, 6, 9, 11} then Some 30
      else if month = 2 then Some (if leap_year year then 29 else 28)
      else None)"

definition number_offset :: "string \<Rightarrow> nat option" where
  "number_offset s =
     (if length s \<noteq> 2 \<or> \<not> list_all is_ascii_digit s then None
      else Some ((byte_of (s ! 0) - 48) * 10 + (byte_of (s ! 1) - 48)))"

definition valid_offset :: "string \<Rightarrow> bool" where
  "valid_offset tail =
     (tail = ''Z''
      \<or> (length tail = 6 \<and> (tail ! 0 = CHR ''+'' \<or> tail ! 0 = CHR ''-'') \<and> tail ! 3 = CHR '':''
         \<and> (case number_offset (take 2 (drop 1 tail)) of None \<Rightarrow> False | Some hours \<Rightarrow> hours \<le> 23)
         \<and> (case number_offset (take 2 (drop 4 tail)) of None \<Rightarrow> False | Some minutes \<Rightarrow> minutes \<le> 59)))"

definition valid_fraction :: "string \<Rightarrow> bool" where
  "valid_fraction tail =
     (case strip_prefix ''.'' tail of
        None \<Rightarrow> valid_offset tail
      | Some fraction \<Rightarrow>
          let digits = length (takeWhile is_ascii_digit fraction) in
          digits \<noteq> 0 \<and> valid_offset (drop digits fraction))"

definition valid_v2_timestamp :: "string \<Rightarrow> bool" where
  "valid_v2_timestamp s =
     (if length s < 20 \<or> 64 < length s \<or> \<not> is_ascii s
        \<or> s ! 4 \<noteq> CHR ''-'' \<or> s ! 7 \<noteq> CHR ''-'' \<or> s ! 10 \<noteq> CHR ''T'' \<or> s ! 13 \<noteq> CHR '':'' \<or> s ! 16 \<noteq> CHR '':''
      then False
      else case (timestamp_number s 0 4, timestamp_number s 5 7, timestamp_number s 8 10,
          timestamp_number s 11 13, timestamp_number s 14 16, timestamp_number s 17 19) of
          (Some year, Some month, Some day, Some hour, Some minute, Some second) \<Rightarrow>
            (case max_day_of year month of
               None \<Rightarrow> False
             | Some max_day \<Rightarrow>
                 \<not> (year = 0 \<or> day = 0 \<or> max_day < day \<or> 23 < hour \<or> 59 < minute \<or> 59 < second)
                 \<and> valid_fraction (drop 19 s))
        | _ \<Rightarrow> False)"

section \<open>The closure check\<close>

definition v2_feature_refused ::
  "v2_lock \<Rightarrow> bool \<Rightarrow> nat \<Rightarrow> v2_feature \<Rightarrow> bool" where
  "v2_feature_refused lock resolver_order index f =
     (vf_feature_id f \<noteq> vl_selected_features lock ! index
      \<or> \<not> valid_v2_id (vf_module_id f)
      \<or> \<not> valid_v2_id (vf_owner_lane f)
      \<or> \<not> valid_bounded_string (vf_version f) 64 False
      \<or> \<not> vf_selected f
      \<or> vf_run_activation_default f \<noteq> ''disabled''
      \<or> \<not> valid_v2_path (vd_path (vf_descriptor f))
      \<or> \<not> valid_v2_path (vd_source_path (vf_descriptor f))
      \<or> \<not> valid_lock_sha256 (vd_sha256 (vf_descriptor f))
      \<or> \<not> valid_lock_sha256 (vd_source_sha256 (vf_descriptor f))
      \<or> length (vd_source_revision (vf_descriptor f)) \<noteq> 40
      \<or> \<not> list_all is_hex_byte (vd_source_revision (vf_descriptor f))
      \<or> \<not> valid_v2_id (vd_source_repo (vf_descriptor f))
      \<or> \<not> valid_v2_sorted_ids (vf_dependencies f)
      \<or> \<not> valid_v2_sorted_ids (vf_conflicts f)
      \<or> list_ex (\<lambda>d. d \<notin> set (vl_selected_features lock) \<or> d = vf_feature_id f
            \<or> (\<not> resolver_order \<and> d \<notin> set (take index (vl_selected_features lock)))) (vf_dependencies f)
      \<or> list_ex (\<lambda>c. c \<in> set (vl_selected_features lock)) (vf_conflicts f)
      \<or> (case vf_exclusive_group f of None \<Rightarrow> False | Some grp \<Rightarrow> \<not> valid_v2_id grp)
      \<or> \<not> effects_valid (vf_effects f)
      \<or> \<not> valid_v2_id (vf_validation_profile f)
      \<or> \<not> valid_v2_id (vf_rollback_profile f)
      \<or> va_rule (vf_activation f) \<noteq> ''selected-lock-and-runtime-input''
      \<or> va_runtime_inputs (vf_activation f) = []
      \<or> \<not> valid_value_list (va_runtime_inputs (vf_activation f))
      \<or> \<not> valid_dotted_id (va_receipt_schema (vf_activation f))
      \<or> \<not> valid_dotted_id (va_effective_marker (vf_activation f))
      \<or> va_effective_marker (vf_activation f) \<notin> set (ve_markers (vf_effects f))
      \<or> list_ex (\<lambda>input. input \<notin> set (ve_inputs (vf_effects f))) (va_runtime_inputs (vf_activation f))
      \<or> max_list_items < length (vf_parameter_authorities f)
      \<or> authorities_refused valid_v2_id (vf_parameter_authorities f) [])"

text \<open>
  The loop over the features with its three accumulators: modules seen, exclusive groups seen, and
  the effects of each family. \<open>None\<close> is the early return.
\<close>

fun collect_v2_features ::
  "v2_lock \<Rightarrow> bool \<Rightarrow> v2_feature list \<Rightarrow> nat \<Rightarrow> string list \<Rightarrow> string list \<Rightarrow> string list list
     \<Rightarrow> string list list option" where
  "collect_v2_features lock resolver_order [] index modules groups effects = Some effects"
| "collect_v2_features lock resolver_order (f # fs) index modules groups effects =
     (if v2_feature_refused lock resolver_order index f
        \<or> vf_module_id f \<in> set modules
        \<or> (case vf_exclusive_group f of None \<Rightarrow> False | Some grp \<Rightarrow> grp \<in> set groups)
      then None
      else collect_v2_features lock resolver_order fs (Suc index) (vf_module_id f # modules)
             (case vf_exclusive_group f of None \<Rightarrow> groups | Some grp \<Rightarrow> grp # groups)
             (map2 (@) effects (effect_families (vf_effects f))))"

text \<open>\<open>by_id\<close> is collected from all features, so a later position replaces an earlier one.\<close>

definition v2_dependencies_acyclic :: "v2_feature list \<Rightarrow> bool option" where
  "v2_dependencies_acyclic fs =
     (let by_id = rev (zip (map vf_feature_id fs) [0..<length fs]) in
      dfs_acyclic (\<lambda>i. map (map_of by_id) (vf_dependencies (fs ! i))) (length fs))"

definition valid_v2_closure :: "v2_lock \<Rightarrow> bool" where
  "valid_v2_closure lock =
     (let resolver_order = strictly_ascending (vl_selected_features lock);
          fs = vl_features lock;
          union = effect_families (vl_effect_union lock)
      in
      if max_features < length fs
        \<or> \<not> valid_v2_unique_ids (vl_selected_features lock)
        \<or> \<not> valid_v2_sorted_ids (vl_denied_features lock)
        \<or> length (vl_selected_features lock) \<noteq> length fs
        \<or> \<not> effects_valid (vl_effect_union lock)
        \<or> list_ex (\<lambda>items. \<not> strictly_ascending items) union
      then False
      else if list_ex (\<lambda>i. i \<in> set (vl_selected_features lock)) (vl_denied_features lock) then False
      else case collect_v2_features lock resolver_order fs 0 [] [] (replicate 14 []) of
          None \<Rightarrow> False
        | Some effects \<Rightarrow>
            if v2_dependencies_acyclic fs \<noteq> Some True then False
            else list_all (\<lambda>(members, declared). set members = set declared) (zip union effects))"

section \<open>Inspection\<close>

datatype v2_rejection =
    V2InvalidExpectation
  | V2UnacceptedBytes
  | V2InvalidLock
  | V2InvalidFingerprint
  | V2InvalidClosure
  | V2FeatureNotSelected

record inspected_lock =
  il_generation :: u8
  il_raw_sha256 :: string
  il_project_id :: string
  il_project_revision :: u64
  il_lock_revision :: u64
  il_resolver_fingerprint :: string
  il_feature_id :: string
  il_module_id :: string
  il_receipt_schema :: string
  il_effective_marker :: string
  il_runtime_inputs :: "string list"
  il_selected_effects :: v2_effects
  il_union_effects :: v2_effects

definition selected_has_effect :: "inspected_lock \<Rightarrow> v2_effect \<Rightarrow> string \<Rightarrow> bool" where
  "selected_has_effect r family v = list_ex (\<lambda>member. member = v) (effect_members (il_selected_effects r) family)"

definition union_has_effect :: "inspected_lock \<Rightarrow> v2_effect \<Rightarrow> string \<Rightarrow> bool" where
  "union_has_effect r family v = list_ex (\<lambda>member. member = v) (effect_members (il_union_effects r) family)"

record 'n v2_externals =
  vx_sha256 :: "bytes \<Rightarrow> bytes"
  vx_lock_from_str :: "string \<Rightarrow> v2_lock option"
  vx_lock_to_value :: "v2_lock \<Rightarrow> 'n json option"
  vx_lock_to_string :: "v2_lock \<Rightarrow> string option"
  vx_number_to_string :: "'n \<Rightarrow> string"

definition v2_schema_uri :: string where
  "v2_schema_uri = ''https://github.com/MesmerPrism/rusty-morphospace-work-environment/schemas/feature-lock-v2.schema.json''"

definition inspect_feature_lock_v2 ::
  "'n v2_externals \<Rightarrow> string \<Rightarrow> string \<Rightarrow> string \<Rightarrow> v2_rejection + inspected_lock" where
  "inspect_feature_lock_v2 x lock_json accepted_raw_sha256 selected_feature_id =
     (if max_lock_bytes < length lock_json \<or> \<not> valid_lock_sha256 accepted_raw_sha256
        \<or> \<not> valid_v2_id selected_feature_id
      then Inl V2InvalidExpectation
      else
        let raw_sha256 = sha256_hex (vx_sha256 x) (str_bytes lock_json) in
        if accepted_raw_sha256 \<noteq> raw_sha256 then Inl V2UnacceptedBytes
        else
          and_then (ok_or V2InvalidLock (vx_lock_from_str x lock_json)) (\<lambda>lock.
          if vl_schema_uri lock \<noteq> v2_schema_uri
            \<or> vl_schema lock \<noteq> ''rusty.morphospace.workflow.feature_lock.v2''
            \<or> vl_resolver_version lock \<noteq> ''rusty-morphospace-feature-resolver/2''
            \<or> vl_default_activation lock \<noteq> ''disabled''
            \<or> vl_activation_rule lock \<noteq> ''selected-lock-and-runtime-input''
            \<or> vl_project_revision lock = 0 \<or> vl_revision lock = 0
            \<or> \<not> valid_v2_id (vl_project_id lock)
            \<or> \<not> valid_v2_timestamp (vl_generated_at lock)
            \<or> \<not> valid_lock_sha256 (vl_lock_fingerprint lock)
          then Inl V2InvalidLock
          else
            let fingerprint = vl_lock_fingerprint lock;
                zeroed = lock\<lparr>vl_lock_fingerprint := replicate 64 CHR ''0''\<rparr>
            in
            and_then (ok_or V2InvalidLock (vx_lock_to_value x zeroed)) (\<lambda>v.
            let canonical = sha256_hex (vx_sha256 x) (str_bytes (canonical_v2_json (vx_number_to_string x) v)) in
            and_then (ok_or V2InvalidLock (vx_lock_to_string x zeroed)) (\<lambda>ordered.
            let historic = sha256_hex (vx_sha256 x) (str_bytes ordered) in
            if fingerprint \<noteq> canonical \<and> fingerprint \<noteq> historic then Inl V2InvalidFingerprint
            else if \<not> valid_v2_closure lock then Inl V2InvalidClosure
            else
              and_then (ok_or V2FeatureNotSelected
                  (find (\<lambda>f. vf_feature_id f = selected_feature_id) (vl_features lock))) (\<lambda>selected.
              Inr \<lparr>il_generation = 2, il_raw_sha256 = raw_sha256, il_project_id = vl_project_id lock,
                   il_project_revision = vl_project_revision lock, il_lock_revision = vl_revision lock,
                   il_resolver_fingerprint = fingerprint, il_feature_id = vf_feature_id selected,
                   il_module_id = vf_module_id selected,
                   il_receipt_schema = va_receipt_schema (vf_activation selected),
                   il_effective_marker = va_effective_marker (vf_activation selected),
                   il_runtime_inputs = va_runtime_inputs (vf_activation selected),
                   il_selected_effects = vf_effects selected,
                   il_union_effects = vl_effect_union lock\<rparr>)))))"

end
