(* ===== verification/Feature_Proofs.thy ===== *)
theory Feature_Proofs
  imports Feature_Lock
begin

text \<open>
  The first generation of feature locks against a specification without indices and search: a lock
  is a closed world of features, and an activation applies exactly when every party names it.
\<close>

section \<open>Indices\<close>

lemma all_unique_iff: "all_unique vs \<longleftrightarrow> distinct vs"
  by (simp add: all_unique_def length_remdups_eq)

definition name_positions :: "string list \<Rightarrow> name_index" where
  "name_positions names = rev (zip names [0..<length names])"

lemma map_of_positions:
  assumes "distinct names"
  shows "map_of (name_positions names) name = Some i \<longleftrightarrow> i < length names \<and> names ! i = name"
proof -
  have "distinct (map fst (name_positions names))"
    using assms by (simp add: name_positions_def flip: rev_map)
  then have "map_of (name_positions names) name = Some i \<longleftrightarrow> (name, i) \<in> set (name_positions names)"
    by (rule map_of_eq_Some_iff)
  also have "\<dots> \<longleftrightarrow> i < length names \<and> names ! i = name"
    by (auto simp: name_positions_def in_set_zip)
  finally show ?thesis .
qed

lemma map_of_positions_None: "map_of (name_positions names) name = None \<longleftrightarrow> name \<notin> set names"
  by (auto simp: name_positions_def map_of_eq_None_iff simp flip: set_map)

lemma index_features_eq:
  "index_features fs i by_feature by_module =
     (if list_ex feature_refused fs \<or> \<not> distinct (map ft_feature_id fs) \<or> \<not> distinct (map ft_module_id fs)
        \<or> set (map ft_feature_id fs) \<inter> set (map fst by_feature) \<noteq> {}
        \<or> set (map ft_module_id fs) \<inter> set (map fst by_module) \<noteq> {}
      then None
      else Some (rev (zip (map ft_feature_id fs) [i..<i + length fs]) @ by_feature,
                 rev (zip (map ft_module_id fs) [i..<i + length fs]) @ by_module))"
proof (induction fs i by_feature by_module rule: index_features.induct)
  case (2 f fs i by_feature by_module)
  show ?case
  proof (cases "feature_refused f \<or> map_of by_feature (ft_feature_id f) \<noteq> None
      \<or> map_of by_module (ft_module_id f) \<noteq> None")
    case True
    then show ?thesis
      by (auto simp: map_of_eq_None_iff)
  next
    case False
    then have "ft_feature_id f \<notin> fst ` set by_feature" "ft_module_id f \<notin> fst ` set by_module"
      by (simp_all add: map_of_eq_None_iff)
    moreover have "[i..<i + length (f # fs)] = i # [Suc i..<Suc i + length fs]"
      by (subst upt_rec) simp
    ultimately show ?thesis
      using False 2 by (auto simp del: upt_Suc)
  qed
qed simp

lemma index_features_start:
  "index_features fs 0 [] [] = Some (by_feature, by_module) \<longleftrightarrow>
     \<not> list_ex feature_refused fs \<and> distinct (map ft_feature_id fs) \<and> distinct (map ft_module_id fs)
     \<and> by_feature = name_positions (map ft_feature_id fs) \<and> by_module = name_positions (map ft_module_id fs)"
  by (auto simp: index_features_eq name_positions_def)

section \<open>The dependency graph\<close>

definition depends_on :: "workflow_feature list \<Rightarrow> (workflow_feature \<times> workflow_feature) set" where
  "depends_on fs = {(f, g). f \<in> set fs \<and> g \<in> set fs \<and> ft_module_id g \<in> set (ft_dependencies f)}"

text \<open>A graph on positions has a cycle exactly when the graph on the listed elements has one.\<close>

lemma acyclic_nth_iff:
  assumes xs: "distinct xs" and S: "\<And>a b. (a, b) \<in> S \<Longrightarrow> a \<in> set xs \<and> b \<in> set xs"
    and R: "\<And>i j. (i, j) \<in> R \<longleftrightarrow> i < length xs \<and> j < length xs \<and> (xs ! i, xs ! j) \<in> S"
  shows "acyclic R \<longleftrightarrow> acyclic S"
proof
  have up: "(i, j) \<in> R\<^sup>+ \<Longrightarrow> (xs ! i, xs ! j) \<in> S\<^sup>+" for i j
    by (induction rule: trancl_induct) (auto simp: R intro: trancl_into_trancl)
  assume "acyclic S"
  then show "acyclic R"
    using up by (auto simp: acyclic_def)
next
  have down: "(a, b) \<in> S\<^sup>+ \<Longrightarrow> \<exists>i j. (i, j) \<in> R\<^sup>+ \<and> xs ! i = a \<and> xs ! j = b \<and> i < length xs \<and> j < length xs" for a b
  proof (induction rule: trancl_induct)
    case (base b)
    then obtain i j where "i < length xs" "xs ! i = a" "j < length xs" "xs ! j = b"
      using S by (meson in_set_conv_nth)
    with base R [of i j] show ?case
      by (intro exI [of _ i] exI [of _ j]) auto
  next
    case (step b c)
    then obtain i j where "(i, j) \<in> R\<^sup>+" "xs ! i = a" "xs ! j = b" "i < length xs" "j < length xs"
      by blast
    moreover obtain k where "k < length xs" "xs ! k = c"
      using S [OF step(2)] by (meson in_set_conv_nth)
    ultimately show ?case
      using step(2) R [of j k] by (intro exI [of _ i] exI [of _ k]) (auto intro: trancl_into_trancl)
  qed
  assume "acyclic R"
  moreover have "i = j" if "xs ! i = a" "xs ! j = a" "i < length xs" "j < length xs" for i j a
    using that xs nth_eq_iff_index_eq by blast
  ultimately show "acyclic S"
    using down by (metis acyclic_def)
qed

text \<open>The search over any named elements, with their dependencies looked up by position.\<close>

lemma search_decides:
  fixes name :: "'a \<Rightarrow> string" and deps :: "'a \<Rightarrow> string list"
  assumes "distinct (map name xs)"
  shows "dfs_acyclic (\<lambda>i. map (map_of (name_positions (map name xs))) (deps (xs ! i))) (length xs) = Some True \<longleftrightarrow>
     (\<forall>x \<in> set xs. set (deps x) \<subseteq> name ` set xs)
     \<and> acyclic {(x, y). x \<in> set xs \<and> y \<in> set xs \<and> name y \<in> set (deps x)}"
proof -
  let ?names = "map name xs" and ?graph = "{(x, y). x \<in> set xs \<and> y \<in> set xs \<and> name y \<in> set (deps x)}"
  let ?succ = "\<lambda>i. map (map_of (name_positions ?names)) (deps (xs ! i))"
  have some: "Some j \<in> set (?succ i) \<longleftrightarrow> j < length xs \<and> name (xs ! j) \<in> set (deps (xs ! i))" for i j
  proof -
    have "Some j \<in> set (?succ i) \<longleftrightarrow> (\<exists>d \<in> set (deps (xs ! i)). map_of (name_positions ?names) d = Some j)"
      by (auto simp: image_iff eq_commute)
    then show ?thesis
      unfolding map_of_positions [OF assms] by auto
  qed
  have none: "None \<in> set (?succ i) \<longleftrightarrow> \<not> set (deps (xs ! i)) \<subseteq> name ` set xs" for i
  proof -
    have "None \<in> set (?succ i) \<longleftrightarrow> (\<exists>d \<in> set (deps (xs ! i)). map_of (name_positions ?names) d = None)"
      by (auto simp: image_iff eq_commute)
    then show ?thesis
      unfolding map_of_positions_None by auto
  qed
  have "in_bounds ?succ (length xs)"
    by (simp only: in_bounds_def some) simp
  moreover have "resolved ?succ {..<length xs} \<longleftrightarrow> (\<forall>x \<in> set xs. set (deps x) \<subseteq> name ` set xs)"
    unfolding resolved_def none by (auto simp: all_set_conv_all_nth)
  moreover have "acyclic (edges ?succ {..<length xs}) \<longleftrightarrow> acyclic ?graph"
  proof (rule acyclic_nth_iff)
    show "distinct xs"
      using assms by (rule distinct_map [THEN iffD1, THEN conjunct1])
    show "(i, j) \<in> edges ?succ {..<length xs} \<longleftrightarrow> i < length xs \<and> j < length xs \<and> (xs ! i, xs ! j) \<in> ?graph" for i j
      unfolding edges_def mem_Collect_eq case_prod_conv some by auto
  qed auto
  ultimately show ?thesis
    by (simp add: dfs_decides)
qed

lemma acyclic_decided:
  assumes "distinct (map ft_module_id fs)"
  shows "dependencies_are_acyclic fs (name_positions (map ft_module_id fs)) = Some True \<longleftrightarrow>
     (\<forall>f \<in> set fs. set (ft_dependencies f) \<subseteq> ft_module_id ` set fs) \<and> acyclic (depends_on fs)"
  unfolding dependencies_are_acyclic_def depends_on_def by (rule search_decides [OF assms])

section \<open>The closed world\<close>

text \<open>What a lock promises, over its features alone.\<close>

definition closed_world :: "workflow_feature list \<Rightarrow> bool" where
  "closed_world fs =
     (distinct (map ft_feature_id fs) \<and> distinct (map ft_module_id fs)
      \<and> (\<forall>f \<in> set fs. set (ft_dependencies f) \<subseteq> ft_module_id ` set fs)
      \<and> acyclic (depends_on fs)
      \<and> (\<forall>(f, g) \<in> (depends_on fs)\<^sup>+. ft_enabled f \<longrightarrow> ft_enabled g)
      \<and> (\<forall>f \<in> set fs. ft_feature_id f \<notin> set (ft_conflicts f))
      \<and> (\<forall>f \<in> set fs. \<forall>g \<in> set fs. ft_enabled f \<and> ft_enabled g \<longrightarrow> ft_feature_id g \<notin> set (ft_conflicts f)))"

lemma dependency_refused_iff:
  assumes "distinct (map ft_module_id fs)"
  shows "dependency_refused fs (name_positions (map ft_module_id fs)) f d \<longleftrightarrow>
     d = ft_module_id f \<or> d \<notin> ft_module_id ` set fs
     \<or> (\<exists>g \<in> set fs. ft_module_id g = d \<and> ft_enabled f \<and> \<not> ft_enabled g)"
proof (cases "map_of (name_positions (map ft_module_id fs)) d")
  case None
  then have "d \<notin> ft_module_id ` set fs"
    using map_of_positions_None by fastforce
  with None show ?thesis
    by (simp add: dependency_refused_def)
next
  case (Some i)
  then have i: "i < length fs" "ft_module_id (fs ! i) = d"
    using map_of_positions [OF assms] by auto
  have "g = fs ! i" if "g \<in> set fs" "ft_module_id g = d" for g
    using that i assms by (metis distinct_map inj_onD nth_mem)
  with Some i show ?thesis
    by (auto simp: dependency_refused_def)
qed

lemma conflict_refused_iff:
  assumes "distinct (map ft_feature_id fs)"
  shows "conflict_refused fs (name_positions (map ft_feature_id fs)) f c \<longleftrightarrow>
     c = ft_feature_id f \<or> (\<exists>g \<in> set fs. ft_feature_id g = c \<and> ft_enabled f \<and> ft_enabled g)"
proof (cases "map_of (name_positions (map ft_feature_id fs)) c")
  case None
  then have "c \<notin> ft_feature_id ` set fs"
    using map_of_positions_None by fastforce
  with None show ?thesis
    by (auto simp: conflict_refused_def)
next
  case (Some i)
  then have i: "i < length fs" "ft_feature_id (fs ! i) = c"
    using map_of_positions [OF assms] by auto
  have "g = fs ! i" if "g \<in> set fs" "ft_feature_id g = c" for g
    using that i assms by (metis distinct_map inj_onD nth_mem)
  with Some i show ?thesis
    by (auto simp: conflict_refused_def)
qed

lemma enabled_closed:
  assumes "\<forall>(f, g) \<in> R. P f \<longrightarrow> P g"
  shows "\<forall>(f, g) \<in> R\<^sup>+. P f \<longrightarrow> P g"
proof -
  have "P f \<longrightarrow> P g" if "(f, g) \<in> R\<^sup>+" for f g
    using that by (induction rule: trancl_induct) (use assms in auto)
  then show ?thesis
    by auto
qed

lemma enabled_closed_iff: "(\<forall>(f, g) \<in> R\<^sup>+. P f \<longrightarrow> P g) \<longleftrightarrow> (\<forall>(f, g) \<in> R. P f \<longrightarrow> P g)"
  using enabled_closed [of R P] by (auto intro: r_into_trancl)

lemma dependencies_accepted:
  assumes "distinct (map ft_module_id fs)" "acyclic (depends_on fs)"
    and known: "\<forall>f \<in> set fs. set (ft_dependencies f) \<subseteq> ft_module_id ` set fs"
  shows "(\<exists>f \<in> set fs. \<exists>d \<in> set (ft_dependencies f).
       dependency_refused fs (name_positions (map ft_module_id fs)) f d) \<longleftrightarrow>
     \<not> (\<forall>(f, g) \<in> depends_on fs. ft_enabled f \<longrightarrow> ft_enabled g)"
proof -
  have "(f, f) \<notin> depends_on fs" for f
    using assms(2) by (auto simp: acyclic_def)
  then have "f \<in> set fs \<Longrightarrow> ft_module_id f \<notin> set (ft_dependencies f)" for f
    by (auto simp: depends_on_def)
  then show ?thesis
    unfolding dependency_refused_iff [OF assms(1)] using known by (fastforce simp: depends_on_def)
qed

lemma conflicts_accepted:
  assumes "distinct (map ft_feature_id fs)"
  shows "(\<exists>f \<in> set fs. \<exists>c \<in> set (ft_conflicts f).
       conflict_refused fs (name_positions (map ft_feature_id fs)) f c) \<longleftrightarrow>
     \<not> ((\<forall>f \<in> set fs. ft_feature_id f \<notin> set (ft_conflicts f))
      \<and> (\<forall>f \<in> set fs. \<forall>g \<in> set fs. ft_enabled f \<and> ft_enabled g \<longrightarrow> ft_feature_id g \<notin> set (ft_conflicts f)))"
  unfolding conflict_refused_iff [OF assms] by blast

text \<open>C5. The closure check decides the closed world: a lock passes exactly when its header and each
  feature pass their own checks, feature and module names are unique, every dependency names a module
  of the lock, no chain of dependencies returns to its start, everything an enabled feature depends on,
  directly or not, is enabled, no feature conflicts with itself, and no two enabled features conflict.\<close>

theorem lock_closure_is_closed_world:
  "valid_feature_lock_closure lock \<longleftrightarrow>
     valid_id (lk_project_id lock) \<and> lk_features lock \<noteq> [] \<and> length (lk_features lock) \<le> max_features
     \<and> (case lk_schema_uri lock of None \<Rightarrow> True | Some v \<Rightarrow> valid_bounded_string v max_descriptor_bytes True)
     \<and> \<not> list_ex feature_refused (lk_features lock) \<and> closed_world (lk_features lock)"
proof -
  let ?fs = "lk_features lock"
  let ?by_feature = "name_positions (map ft_feature_id ?fs)" and ?by_module = "name_positions (map ft_module_id ?fs)"
  have "(\<not> (list_ex (\<lambda>f. list_ex (dependency_refused ?fs ?by_module f) (ft_dependencies f)
           \<or> list_ex (conflict_refused ?fs ?by_feature f) (ft_conflicts f)) ?fs)
         \<and> dependencies_are_acyclic ?fs ?by_module = Some True) \<longleftrightarrow> closed_world ?fs"
    if d: "distinct (map ft_feature_id ?fs)" "distinct (map ft_module_id ?fs)"
    unfolding acyclic_decided [OF d(2)] list_ex_iff bex_disj_distrib conflicts_accepted [OF d(1)]
      closed_world_def enabled_closed_iff
    using d dependencies_accepted [OF d(2)] by blast
  then show ?thesis
    by (cases "index_features ?fs 0 [] []")
      (auto simp: valid_feature_lock_closure_def Let_def index_features_eq index_features_start
        closed_world_def name_positions_def split: option.splits if_splits)
qed

section \<open>The decision\<close>

lemma closure_unique_ids: "valid_feature_lock_closure lock \<Longrightarrow> distinct (map ft_feature_id (lk_features lock))"
  by (auto simp: valid_feature_lock_closure_def Let_def index_features_start split: option.splits if_splits)

lemma filter_unique_cases:
  assumes "distinct (map ft_feature_id fs)"
  obtains (none) "filter (\<lambda>f. ft_feature_id f = name) fs = []" "\<And>f. f \<in> set fs \<Longrightarrow> ft_feature_id f \<noteq> name"
    | (one) f where "filter (\<lambda>f. ft_feature_id f = name) fs = [f]"
proof (cases "filter (\<lambda>f. ft_feature_id f = name) fs")
  case Nil
  then show ?thesis
    by (intro none) (auto simp: filter_empty_conv)
next
  case (Cons f gs)
  have "gs = []"
  proof (rule ccontr)
    assume "gs \<noteq> []"
    then obtain g hs where gs: "gs = g # hs"
      by (cases gs) auto
    have "f \<in> set (filter (\<lambda>f. ft_feature_id f = name) fs)" "g \<in> set (filter (\<lambda>f. ft_feature_id f = name) fs)"
      unfolding Cons gs by simp_all
    then have "ft_feature_id f = ft_feature_id g"
      by simp
    moreover have "distinct (map ft_feature_id (filter (\<lambda>f. ft_feature_id f = name) fs))"
      using assms by (rule distinct_map_filter)
    ultimately show False
      unfolding Cons gs by simp
  qed
  with Cons show ?thesis
    by (intro one) simp
qed

lemma filter_unique_ex:
  assumes "filter (\<lambda>f. ft_feature_id f = name) fs = [f]"
  shows "(\<exists>g. g \<in> set fs \<and> ft_feature_id g = name \<and> P g) \<longleftrightarrow> P f"
proof -
  have "g \<in> set fs \<and> ft_feature_id g = name \<longleftrightarrow> g \<in> set (filter (\<lambda>f. ft_feature_id f = name) fs)" for g
    by simp
  then show ?thesis
    unfolding assms conj_assoc [symmetric] by simp
qed

lemma not_applied [simp]: "\<not> is_applied (rejected project feature revision digest input reason)"
  by (simp add: is_applied_def rejected_def)

lemma applied_record [simp]: "de_state d = Applied \<Longrightarrow> de_rejection d = None \<Longrightarrow> is_applied d"
  by (simp add: is_applied_def)

lemma applied_if [simp]:
  "is_applied (if c then rejected project feature revision digest input reason else d) \<longleftrightarrow> \<not> c \<and> is_applied d"
  by simp

lemma if_holds: "(c \<Longrightarrow> P a) \<Longrightarrow> (\<not> c \<Longrightarrow> P b) \<Longrightarrow> P (if c then a else b)"
  by simp

lemma list_case_holds:
  "(xs = [] \<Longrightarrow> P a) \<Longrightarrow> (\<And>y ys. xs = y # ys \<Longrightarrow> P (b y ys)) \<Longrightarrow> P (case xs of [] \<Rightarrow> a | y # ys \<Rightarrow> b y ys)"
  by (cases xs) simp_all

lemma resolve_split:
  assumes rejects: "\<And>p r reason. P (rejected p feature r (sha256_hex (lx_sha256 x) (str_bytes json)) input reason)"
    and applies: "\<And>revision. valid_lock_sha256 accepted \<Longrightarrow> ri_profile_id input = profile \<Longrightarrow>
      ri_lock_revision input = revision \<Longrightarrow>
      P \<lparr>de_schema = lock_bound_activation_schema, de_state = Applied, de_project_id = project,
         de_feature_id = feature, de_lock_revision = revision, de_lock_sha256 = accepted,
         de_runtime_profile_id = profile, de_rejection = None\<rparr>"
  shows "P (resolve_lock_bound_activation x json accepted project feature module profile policy input)"
proof (cases "lx_lock_from_str x json")
  case None
  then show ?thesis
    by (simp add: resolve_lock_bound_activation_def Let_def rejects)
next
  case (Some lock)
  show ?thesis
    unfolding resolve_lock_bound_activation_def Let_def Some option.case
    by (intro if_holds [where P = P] list_case_holds [where P = P] rejects) (simp add: applies)
qed

lemma hex_not_upper: "is_lower_hex c \<Longrightarrow> \<not> is_ascii_uppercase c"
  by (auto simp: is_lower_hex_def is_ascii_uppercase_def is_ascii_digit_def in_range_def)

lemma lowercase_hex [simp]: "to_ascii_lowercase (lower_hex bs) = lower_hex bs"
  unfolding to_ascii_lowercase_def
  using lower_hex_is_hex [of bs] by (intro map_idI) (auto simp: list_all_iff dest: hex_not_upper)

text \<open>C20. An activation applies exactly when everyone names the same thing: the caller's expectations are
  well formed, the lock parses under its schema, is disabled by default, has a revision and a valid
  closure, belongs to the expected project, holds the expected feature enabled under the expected
  module, requester and receipt, the accepted digest is the digest of the supplied bytes, and the
  runtime input is enabled and carries that profile, project, feature, revision and digest. The
  decision then carries them, and every other decision is a rejection with a reason.\<close>

theorem activation_applies_exactly:
  "let d = resolve_lock_bound_activation x json accepted project feature module profile policy input;
       digest = sha256_hex (lx_sha256 x) (str_bytes json)
   in is_applied d =
     (length json \<le> max_lock_bytes \<and> valid_lock_sha256 accepted \<and> valid_id project \<and> valid_id feature
      \<and> valid_id module \<and> valid_selector profile \<and> valid_selector (po_requested_by policy)
      \<and> valid_dotted_id (po_receipt_schema policy) \<and> valid_dotted_id (po_effective_marker policy)
      \<and> (\<exists>lock. lx_lock_from_str x json = Some lock \<and> lk_schema lock = workflow_feature_lock_schema
          \<and> lk_default_activation lock = ''disabled'' \<and> lk_revision lock \<noteq> 0
          \<and> valid_feature_lock_closure lock \<and> lk_project_id lock = project
          \<and> (\<exists>f. f \<in> set (lk_features lock) \<and> ft_feature_id f = feature \<and> ft_module_id f = module
               \<and> ft_enabled f \<and> ft_requested_by f = po_requested_by policy
               \<and> ar_required (ft_activation_receipt f)
               \<and> ar_schema (ft_activation_receipt f) = po_receipt_schema policy
               \<and> ar_effective_marker (ft_activation_receipt f) = po_effective_marker policy)
          \<and> to_ascii_lowercase accepted = digest
          \<and> ri_enabled input \<and> ri_profile_id input = profile \<and> ri_project_id input = project
          \<and> ri_feature_id input = feature \<and> ri_lock_revision input = lk_revision lock
          \<and> valid_lock_sha256 (ri_lock_sha256 input) \<and> to_ascii_lowercase (ri_lock_sha256 input) = digest))
     \<and> (is_applied d \<and> de_project_id d = project \<and> de_feature_id d = feature \<and> de_lock_sha256 d = accepted
          \<and> de_lock_revision d = ri_lock_revision input \<and> de_runtime_profile_id d = profile
        \<or> de_state d = Rejected \<and> (\<exists>reason. de_rejection d = Some reason))"
  (is "let d = ?d; digest = ?digest in is_applied d = ?agreed digest \<and> ?decided d")
proof -
  note rules = resolve_lock_bound_activation_def Let_def eq_ignore_ascii_case_def sha256_hex_def
  have "is_applied ?d = ?agreed ?digest"
  proof (cases "lx_lock_from_str x json")
    case (Some lock)
    show ?thesis
    proof (cases "valid_feature_lock_closure lock")
      case closed: True
      show ?thesis
      proof (rule filter_unique_cases [OF closure_unique_ids [OF closed], of feature])
        fix f
        assume one: "filter (\<lambda>f. ft_feature_id f = feature) (lk_features lock) = [f]"
        show ?thesis
          by (simp add: Some closed one filter_unique_ex [OF one] rules not_less) blast
      next
        assume "filter (\<lambda>f. ft_feature_id f = feature) (lk_features lock) = []"
          and "\<And>f. f \<in> set (lk_features lock) \<Longrightarrow> ft_feature_id f \<noteq> feature"
        then show ?thesis
          by (auto simp: Some closed rules)
      qed
    qed (simp add: Some rules)
  qed (simp add: rules)
  moreover have "?decided ?d"
    by (rule resolve_split) (simp_all add: is_applied_def rejected_def)
  ultimately show ?thesis
    by (simp add: Let_def)
qed

section \<open>Marker lines\<close>

lemma split_on_field: "d \<notin> set p \<Longrightarrow> split_on d (p @ d # s) = p # split_on d s"
  by (induction p) auto

lemma split_on_last: "d \<notin> set p \<Longrightarrow> split_on d p = [p]"
  by (induction p) auto

lemma split_on_join: "\<forall>p \<in> set ps. d \<notin> set p \<Longrightarrow> ps \<noteq> [] \<Longrightarrow> split_on d (join_with d ps) = ps"
  by (induction d ps rule: join_with.induct) (simp_all add: split_on_field split_on_last)

lemma marker_byte_no_space: "\<not> is_marker_byte CHR '' ''"
  by (simp add: is_marker_byte_def is_ascii_alphanumeric_def is_ascii_lowercase_def is_ascii_uppercase_def
      is_ascii_digit_def in_range_def byte_of_def)

lemma marker_token_no_space: "CHR '' '' \<notin> set (marker_token s)"
  using marker_byte_no_space by (auto simp: marker_token_def Let_def)

lemma digits_no_space: "list_all P s \<Longrightarrow> \<not> P CHR '' '' \<Longrightarrow> CHR '' '' \<notin> set s"
  by (auto simp: list_all_iff)

lemma decimal_no_space: "CHR '' '' \<notin> set (decimal n)"
  by (rule digits_no_space [OF decimal_digits]) (simp add: is_ascii_digit_def in_range_def byte_of_def)

lemma lower_hex_no_space: "CHR '' '' \<notin> set (lower_hex bs)"
  by (rule digits_no_space [OF lower_hex_is_hex]) (simp add: is_lower_hex_def is_ascii_digit_def in_range_def byte_of_def)

lemma valid_sha_no_space: "valid_lock_sha256 s \<Longrightarrow> CHR '' '' \<notin> set s"
  by (rule digits_no_space [of is_hex_byte]) (auto simp: valid_lock_sha256_def is_hex_byte_def is_ascii_digit_def in_range_def byte_of_def)

lemma state_token_no_space: "CHR '' '' \<notin> set (state_token s)"
  by (cases s) simp_all

lemma rejection_token_no_space: "CHR '' '' \<notin> set (rejection_token r)"
  by (cases r) simp_all

lemma schema_no_space: "CHR '' '' \<notin> set lock_bound_activation_schema"
  by (simp add: lock_bound_activation_schema_def)

lemmas tokens_no_space = state_token_no_space rejection_token_no_space schema_no_space

lemma resolved_digest:
  "CHR '' '' \<notin> set (de_lock_sha256 (resolve_lock_bound_activation x json accepted project feature module profile policy input))
   \<and> de_schema (resolve_lock_bound_activation x json accepted project feature module profile policy input)
       = lock_bound_activation_schema"
  by (rule resolve_split [where P = "\<lambda>d. CHR '' '' \<notin> set (de_lock_sha256 d) \<and> de_schema d = lock_bound_activation_schema"])
    (simp_all add: rejected_def sha256_hex_def lower_hex_no_space valid_sha_no_space)

text \<open>A marker line cannot be forged: whatever strings the lock, the caller and the runtime input carry, the
  line of a decision splits at blanks into exactly its eight fields, in order.\<close>

theorem marker_line_has_eight_fields:
  "let d = resolve_lock_bound_activation x json accepted project feature module profile policy input
   in split_on CHR '' '' (marker_fields d) =
     [''lockBindingSchema='' @ lock_bound_activation_schema,
      ''activationState='' @ state_token (de_state d),
      ''projectId='' @ marker_token (de_project_id d),
      ''featureId='' @ marker_token (de_feature_id d),
      ''conformanceLockRevision='' @ decimal (unat (de_lock_revision d)),
      ''conformanceLockSha256='' @ de_lock_sha256 d,
      ''runtimeProfileId='' @ marker_token (de_runtime_profile_id d),
      ''activationRejectReason='' @ (case de_rejection d of None \<Rightarrow> ''none'' | Some r \<Rightarrow> rejection_token r)]"
proof -
  let ?d = "resolve_lock_bound_activation x json accepted project feature module profile policy input"
  define line where "line = [''lockBindingSchema='' @ de_schema ?d,
      ''activationState='' @ state_token (de_state ?d),
      ''projectId='' @ marker_token (de_project_id ?d),
      ''featureId='' @ marker_token (de_feature_id ?d),
      ''conformanceLockRevision='' @ decimal (unat (de_lock_revision ?d)),
      ''conformanceLockSha256='' @ de_lock_sha256 ?d,
      ''runtimeProfileId='' @ marker_token (de_runtime_profile_id ?d),
      ''activationRejectReason='' @ (case de_rejection ?d of None \<Rightarrow> ''none'' | Some r \<Rightarrow> rejection_token r)]"
  have "\<forall>p \<in> set line. CHR '' '' \<notin> set p"
    using resolved_digest [of x json accepted project feature module profile policy input]
    by (simp add: line_def tokens_no_space marker_token_no_space decimal_no_space split: option.split)
  then have "split_on CHR '' '' (join_with CHR '' '' line) = line"
    by (rule split_on_join) (simp add: line_def)
  moreover have "marker_fields ?d = join_with CHR '' '' line"
    by (simp add: marker_fields_def line_def)
  moreover have "de_schema ?d = lock_bound_activation_schema"
    using resolved_digest by blast
  ultimately show ?thesis
    by (simp add: line_def Let_def)
qed

end
