(* ===== verification/Feature_V2_Proofs.thy ===== *)
theory Feature_V2_Proofs
  imports Feature_Lock_V2 Feature_Proofs
begin

text \<open>
  The second generation of feature locks against a specification without loops and search: the closure
  check decides a closed world whose effect union is exact, and an inspection only returns facts of a
  lock that its caller accepted byte for byte.
\<close>

section \<open>The loop over the features\<close>

definition exclusive_groups :: "v2_feature list \<Rightarrow> string list" where
  "exclusive_groups fs = List.map_filter vf_exclusive_group fs"

lemma exclusive_groups_simps [simp]:
  "exclusive_groups [] = []"
  "exclusive_groups (f # fs) = (case vf_exclusive_group f of None \<Rightarrow> exclusive_groups fs | Some g \<Rightarrow> g # exclusive_groups fs)"
  by (simp_all add: exclusive_groups_def map_filter_simps split: option.split)

definition positions_accepted :: "v2_lock \<Rightarrow> bool \<Rightarrow> v2_feature list \<Rightarrow> nat \<Rightarrow> bool" where
  "positions_accepted lock resolver_order fs start =
     (\<forall>i < length fs. \<not> v2_feature_refused lock resolver_order (start + i) (fs ! i))"

lemma positions_accepted_simps [simp]:
  "positions_accepted lock ro [] start"
  "positions_accepted lock ro (f # fs) start \<longleftrightarrow>
     \<not> v2_feature_refused lock ro start f \<and> positions_accepted lock ro fs (Suc start)"
  by (auto simp: positions_accepted_def less_Suc_eq_0_disj)

lemma collect_v2_eq:
  "collect_v2_features lock ro fs start modules groups effects =
     (if positions_accepted lock ro fs start \<and> distinct (map vf_module_id fs) \<and> distinct (exclusive_groups fs)
        \<and> set (map vf_module_id fs) \<inter> set modules = {} \<and> set (exclusive_groups fs) \<inter> set groups = {}
      then Some (foldl (map2 (@)) effects (map (\<lambda>f. effect_families (vf_effects f)) fs))
      else None)"
proof (induction lock ro fs start modules groups effects rule: collect_v2_features.induct)
  case (2 lock ro f fs start modules groups effects)
  then show ?case
    by (cases "vf_exclusive_group f") auto
qed simp

section \<open>Effects\<close>

fun family_index :: "v2_effect \<Rightarrow> nat" where
  "family_index PermissionEffect = 0"
| "family_index ServiceEffect = 1"
| "family_index ActivityEffect = 2"
| "family_index QueryEffect = 3"
| "family_index ToolEffect = 4"
| "family_index AssetEffect = 5"
| "family_index ShaderEffect = 6"
| "family_index NativeLibraryEffect = 7"
| "family_index CommandEffect = 8"
| "family_index RouteEffect = 9"
| "family_index StreamEffect = 10"
| "family_index InputEffect = 11"
| "family_index SceneEffect = 12"
| "family_index MarkerEffect = 13"

lemma length_families [simp]: "length (effect_families e) = 14"
  by (simp add: effect_families_def)

lemma effect_members_nth: "effect_members e family = effect_families e ! family_index family"
  by (cases family) (simp_all add: effect_families_def)

lemma family_index_onto: "i < 14 \<Longrightarrow> \<exists>family. family_index family = i"
proof -
  assume "i < 14"
  then have "i \<in> family_index ` {PermissionEffect, ServiceEffect, ActivityEffect, QueryEffect, ToolEffect, AssetEffect,
      ShaderEffect, NativeLibraryEffect, CommandEffect, RouteEffect, StreamEffect, InputEffect, SceneEffect, MarkerEffect}"
    by (simp, presburger)
  then show ?thesis
    by blast
qed

lemma family_index_less: "family_index family < 14"
  by (cases family) simp_all

lemma families_all: "(\<forall>i < 14. P i) \<longleftrightarrow> (\<forall>family. P (family_index family))"
  using family_index_onto family_index_less by metis

lemma collected_effects:
  assumes "length effects = 14" "i < 14"
  shows "length (foldl (map2 (@)) effects (map (\<lambda>f. effect_families (vf_effects f)) fs)) = 14"
    "set (foldl (map2 (@)) effects (map (\<lambda>f. effect_families (vf_effects f)) fs) ! i)
       = set (effects ! i) \<union> (\<Union>f \<in> set fs. set (effect_families (vf_effects f) ! i))"
  using assms by (induction fs arbitrary: effects) auto

section \<open>The closed world\<close>

definition v2_depends_on :: "v2_feature list \<Rightarrow> (v2_feature \<times> v2_feature) set" where
  "v2_depends_on fs = {(f, g). f \<in> set fs \<and> g \<in> set fs \<and> vf_feature_id g \<in> set (vf_dependencies f)}"

text \<open>The checks of the lock itself.\<close>

definition v2_lock_shape :: "v2_lock \<Rightarrow> bool" where
  "v2_lock_shape lock =
     (length (vl_features lock) \<le> max_features \<and> valid_v2_unique_ids (vl_selected_features lock)
      \<and> valid_v2_sorted_ids (vl_denied_features lock)
      \<and> length (vl_selected_features lock) = length (vl_features lock)
      \<and> effects_valid (vl_effect_union lock)
      \<and> (\<forall>family. strictly_ascending (effect_members (vl_effect_union lock) family)))"

text \<open>What the lock promises about its features together.\<close>

definition v2_closed_world :: "v2_lock \<Rightarrow> bool" where
  "v2_closed_world lock =
     (let fs = vl_features lock; selected = set (vl_selected_features lock) in
      selected \<inter> set (vl_denied_features lock) = {}
      \<and> distinct (map vf_module_id fs) \<and> distinct (exclusive_groups fs)
      \<and> acyclic (v2_depends_on fs)
      \<and> (\<forall>family. set (effect_members (vl_effect_union lock) family)
           = (\<Union>f \<in> set fs. set (effect_members (vf_effects f) family))))"

definition v2_features_accepted :: "v2_lock \<Rightarrow> bool" where
  "v2_features_accepted lock =
     positions_accepted lock (strictly_ascending (vl_selected_features lock)) (vl_features lock) 0"

lemma not_refused_facts:
  assumes "\<not> v2_feature_refused lock ro i f"
  shows "vf_feature_id f = vl_selected_features lock ! i"
    "set (vf_dependencies f) \<subseteq> set (vl_selected_features lock)" "vf_feature_id f \<notin> set (vf_dependencies f)"
    "set (vf_conflicts f) \<inter> set (vl_selected_features lock) = {}"
    "ro \<or> set (vf_dependencies f) \<subseteq> set (take i (vl_selected_features lock))"
    "va_effective_marker (vf_activation f) \<in> set (ve_markers (vf_effects f))"
    "set (va_runtime_inputs (vf_activation f)) \<subseteq> set (ve_inputs (vf_effects f))"
    "va_runtime_inputs (vf_activation f) \<noteq> []"
  using assms unfolding v2_feature_refused_def list_ex_iff by blast+

lemma accepted_at:
  "v2_features_accepted lock \<Longrightarrow> i < length (vl_features lock) \<Longrightarrow>
     \<not> v2_feature_refused lock (strictly_ascending (vl_selected_features lock)) i (vl_features lock ! i)"
  by (simp add: v2_features_accepted_def positions_accepted_def)

lemma accepted_feature:
  assumes "v2_features_accepted lock" "f \<in> set (vl_features lock)"
  obtains i where "i < length (vl_features lock)" "vl_features lock ! i = f"
    "\<not> v2_feature_refused lock (strictly_ascending (vl_selected_features lock)) i f"
  using assms accepted_at by (metis in_set_conv_nth)

lemma accepted_ids:
  assumes "v2_lock_shape lock" "v2_features_accepted lock"
  shows "map vf_feature_id (vl_features lock) = vl_selected_features lock"
proof (rule nth_equalityI)
  fix i
  assume "i < length (map vf_feature_id (vl_features lock))"
  then show "map vf_feature_id (vl_features lock) ! i = vl_selected_features lock ! i"
    using not_refused_facts(1) [OF accepted_at [OF assms(2)], of i] by simp
qed (use assms in \<open>simp add: v2_lock_shape_def\<close>)

lemma v2_search_decides:
  assumes "v2_lock_shape lock" "v2_features_accepted lock"
  shows "v2_dependencies_acyclic (vl_features lock) = Some True \<longleftrightarrow> acyclic (v2_depends_on (vl_features lock))"
proof -
  let ?fs = "vl_features lock"
  have ids: "map vf_feature_id ?fs = vl_selected_features lock"
    using assms by (rule accepted_ids)
  then have "distinct (map vf_feature_id ?fs)"
    using assms(1) by (simp add: v2_lock_shape_def valid_v2_unique_ids_def all_unique_iff)
  moreover have "set (vf_dependencies f) \<subseteq> vf_feature_id ` set ?fs" if f: "f \<in> set ?fs" for f
  proof -
    have "set (vf_dependencies f) \<subseteq> set (vl_selected_features lock)"
      using accepted_feature [OF assms(2) f] not_refused_facts(2) by metis
    then show ?thesis
      unfolding ids [symmetric] by simp
  qed
  ultimately show ?thesis
    unfolding v2_dependencies_acyclic_def Let_def v2_depends_on_def
    using search_decides [of vf_feature_id ?fs vf_dependencies] by (simp add: name_positions_def)
qed

lemma ascending_families:
  "list_ex (\<lambda>items. \<not> strictly_ascending items) (effect_families e)
     \<longleftrightarrow> \<not> (\<forall>family. strictly_ascending (effect_members e family))"
proof -
  have "list_ex (\<lambda>items. \<not> strictly_ascending items) (effect_families e)
      \<longleftrightarrow> \<not> (\<forall>i < 14. strictly_ascending (effect_families e ! i))"
    by (auto simp: list_ex_length)
  then show ?thesis
    by (simp only: families_all effect_members_nth)
qed

lemma closure_shape:
  assumes "valid_v2_closure lock"
  shows "v2_lock_shape lock \<and> v2_features_accepted lock"
  using assms unfolding valid_v2_closure_def v2_lock_shape_def v2_features_accepted_def collect_v2_eq Let_def
    ascending_families
  by (simp split: if_splits) 

lemma v2_closure_iff:
  "valid_v2_closure lock \<longleftrightarrow> v2_lock_shape lock \<and> v2_features_accepted lock \<and> v2_closed_world lock"
proof (cases "v2_lock_shape lock \<and> v2_features_accepted lock")
  case False
  then show ?thesis
    using closure_shape by blast
next
  case True
  let ?fs = "vl_features lock" and ?union = "effect_families (vl_effect_union lock)"
  let ?effects = "foldl (map2 (@)) (replicate 14 []) (map (\<lambda>f. effect_families (vf_effects f)) ?fs)"
  have asc: "\<not> list_ex (\<lambda>items. \<not> strictly_ascending items) ?union"
    using True by (simp add: v2_lock_shape_def ascending_families)
  have len: "length ?effects = 14"
    using collected_effects(1) [of "replicate 14 []" 0] by simp
  have "list_all (\<lambda>(members, declared). set members = set declared) (zip ?union ?effects)
      \<longleftrightarrow> (\<forall>i < 14. set (?union ! i) = set (?effects ! i))"
    by (simp add: list_all_length len)
  also have "\<dots> \<longleftrightarrow> (\<forall>i < 14. set (?union ! i) = (\<Union>f \<in> set ?fs. set (effect_families (vf_effects f) ! i)))"
    using collected_effects(2) [of "replicate 14 []" _ ?fs] by simp
  finally have union: "list_all (\<lambda>(members, declared). set members = set declared) (zip ?union ?effects)
      \<longleftrightarrow> (\<forall>family. set (effect_members (vl_effect_union lock) family)
            = (\<Union>f \<in> set ?fs. set (effect_members (vf_effects f) family)))"
    unfolding effect_members_nth families_all .
  have search: "v2_dependencies_acyclic ?fs = Some True \<longleftrightarrow> acyclic (v2_depends_on ?fs)"
    using True by (simp add: v2_search_decides)
  have collected: "collect_v2_features lock (strictly_ascending (vl_selected_features lock)) ?fs 0 [] [] (replicate 14 [])
      = (if distinct (map vf_module_id ?fs) \<and> distinct (exclusive_groups ?fs) then Some ?effects else None)"
    using True by (simp add: collect_v2_eq v2_features_accepted_def)
  have shape: "\<not> max_features < length ?fs" "valid_v2_unique_ids (vl_selected_features lock)"
    "valid_v2_sorted_ids (vl_denied_features lock)" "length (vl_selected_features lock) = length ?fs"
    "effects_valid (vl_effect_union lock)"
    using True by (auto simp: v2_lock_shape_def)
  show ?thesis
    using True unfolding valid_v2_closure_def v2_closed_world_def Let_def
    by (simp add: shape asc collected union search) (auto simp: list_ex_iff)
qed

text \<open>C10. The second-generation closure check decides a closed world: a lock passes exactly when it and each
  of its features, at its position, pass their own checks, no selected feature is denied, modules and
  exclusive groups are unique, no chain of dependencies returns to its start, and the published effect
  union is, family by family, exactly the union of the effects of its features.\<close>

theorem v2_closure_is_closed_world:
  "valid_v2_closure lock \<longleftrightarrow> v2_lock_shape lock \<and> v2_features_accepted lock \<and> v2_closed_world lock"
  by (rule v2_closure_iff)

section \<open>Inspection\<close>

lemma checked_eq_Inr: "(if c then Inl e else b) = Inr r \<longleftrightarrow> \<not> c \<and> b = Inr r"
  by simp

lemma inspected:
  assumes "inspect_feature_lock_v2 x json accepted selected = Inr r"
  obtains lock f v ordered where
    "accepted = sha256_hex (vx_sha256 x) (str_bytes json)" "vx_lock_from_str x json = Some lock"
    "vx_lock_to_value x (lock\<lparr>vl_lock_fingerprint := replicate 64 CHR ''0''\<rparr>) = Some v"
    "vx_lock_to_string x (lock\<lparr>vl_lock_fingerprint := replicate 64 CHR ''0''\<rparr>) = Some ordered"
    "vl_lock_fingerprint lock = sha256_hex (vx_sha256 x) (str_bytes (canonical_v2_json (vx_number_to_string x) v))
     \<or> vl_lock_fingerprint lock = sha256_hex (vx_sha256 x) (str_bytes ordered)"
    "valid_v2_closure lock" "find (\<lambda>f. vf_feature_id f = selected) (vl_features lock) = Some f"
    "il_raw_sha256 r = accepted" "il_resolver_fingerprint r = vl_lock_fingerprint lock"
    "il_feature_id r = vf_feature_id f" "il_module_id r = vf_module_id f"
    "il_effective_marker r = va_effective_marker (vf_activation f)"
    "il_runtime_inputs r = va_runtime_inputs (vf_activation f)"
    "il_selected_effects r = vf_effects f" "il_union_effects r = vl_effect_union lock"
  using assms unfolding inspect_feature_lock_v2_def Let_def checked_eq_Inr result_simps by auto

text \<open>C19. An inspection returns facts of the accepted lock only: the bytes have the accepted digest, the lock
  parsed from them carries a fingerprint of itself, with that field zeroed, as canonical or as ordered
  text, and passes the closure check; the reported feature is selected by the lock and not denied; what
  it may do is within the published union, which holds exactly what some feature of the lock declares;
  and its marker and its runtime inputs, of which there is one, are among its own effects.\<close>

theorem v2_inspection_authenticates:
  assumes "inspect_feature_lock_v2 x json accepted selected = Inr r"
  shows "\<exists>lock f. accepted = sha256_hex (vx_sha256 x) (str_bytes json) \<and> il_raw_sha256 r = accepted
     \<and> vx_lock_from_str x json = Some lock
     \<and> (let zeroed = lock\<lparr>vl_lock_fingerprint := replicate 64 CHR ''0''\<rparr> in
        il_resolver_fingerprint r \<in> sha256_hex (vx_sha256 x) ` str_bytes `
          (canonical_v2_json (vx_number_to_string x) ` set_option (vx_lock_to_value x zeroed)
           \<union> set_option (vx_lock_to_string x zeroed)))
     \<and> valid_v2_closure lock
     \<and> f \<in> set (vl_features lock) \<and> vf_feature_id f = selected \<and> il_feature_id r = selected
     \<and> il_module_id r = vf_module_id f
     \<and> selected \<in> set (vl_selected_features lock) - set (vl_denied_features lock)
     \<and> (\<forall>family value. selected_has_effect r family value \<longrightarrow> union_has_effect r family value)
     \<and> (\<forall>family value. union_has_effect r family value \<longleftrightarrow>
          (\<exists>g \<in> set (vl_features lock). value \<in> set (effect_members (vf_effects g) family)))
     \<and> selected_has_effect r MarkerEffect (il_effective_marker r)
     \<and> il_runtime_inputs r \<noteq> [] \<and> list_all (selected_has_effect r InputEffect) (il_runtime_inputs r)"
proof -
  obtain lock f v ordered where facts: "accepted = sha256_hex (vx_sha256 x) (str_bytes json)" "vx_lock_from_str x json = Some lock"
    "vx_lock_to_value x (lock\<lparr>vl_lock_fingerprint := replicate 64 CHR ''0''\<rparr>) = Some v"
    "vx_lock_to_string x (lock\<lparr>vl_lock_fingerprint := replicate 64 CHR ''0''\<rparr>) = Some ordered"
    "vl_lock_fingerprint lock = sha256_hex (vx_sha256 x) (str_bytes (canonical_v2_json (vx_number_to_string x) v))
     \<or> vl_lock_fingerprint lock = sha256_hex (vx_sha256 x) (str_bytes ordered)"
    and closure: "valid_v2_closure lock" and find: "find (\<lambda>f. vf_feature_id f = selected) (vl_features lock) = Some f"
    and r: "il_raw_sha256 r = accepted" "il_resolver_fingerprint r = vl_lock_fingerprint lock"
      "il_feature_id r = vf_feature_id f" "il_module_id r = vf_module_id f"
      "il_effective_marker r = va_effective_marker (vf_activation f)"
      "il_runtime_inputs r = va_runtime_inputs (vf_activation f)"
      "il_selected_effects r = vf_effects f" "il_union_effects r = vl_effect_union lock"
    using assms by (rule inspected)
  have f: "f \<in> set (vl_features lock)" "vf_feature_id f = selected"
    using find by (auto simp: find_Some_iff)
  note closed = closure [unfolded v2_closure_iff]
  obtain i where refused: "\<not> v2_feature_refused lock (strictly_ascending (vl_selected_features lock)) i f"
    using accepted_feature [of lock f] closed f(1) by metis
  have "selected \<in> set (vl_selected_features lock)"
    using accepted_ids [of lock] closed f by (metis image_eqI list.set_map)
  moreover have "set (vl_selected_features lock) \<inter> set (vl_denied_features lock) = {}"
    and union: "set (effect_members (vl_effect_union lock) family)
      = (\<Union>g \<in> set (vl_features lock). set (effect_members (vf_effects g) family))" for family
    using closed by (simp_all add: v2_closed_world_def Let_def)
  moreover have "union_has_effect r family v \<longleftrightarrow> v \<in> set (effect_members (vl_effect_union lock) family)"
    "selected_has_effect r family v \<longleftrightarrow> v \<in> set (effect_members (vf_effects f) family)" for family v
    using r by (simp_all add: union_has_effect_def selected_has_effect_def list_ex_iff)
  moreover note not_refused_facts(6-8) [OF refused]
  ultimately show ?thesis
    using facts closure f r by (intro exI [of _ lock] exI [of _ f]) (auto simp: Let_def list_all_iff)
qed

definition demo_v2_effects :: v2_effects where
  "demo_v2_effects =
     \<lparr>ve_permissions = [], ve_services = [], ve_activities = [], ve_queries = [], ve_tools = [], ve_assets = [],
      ve_shaders = [], ve_native_libraries = [], ve_commands = [], ve_routes = [], ve_streams = [],
      ve_inputs = [''in''], ve_scenes = [], ve_markers = [''mk1'']\<rparr>"

definition demo_zeros :: string where
  "demo_zeros = replicate 64 CHR ''0''"

definition demo_v2_feature :: v2_feature where
  "demo_v2_feature =
     \<lparr>vf_feature_id = ''fa'', vf_module_id = ''ma'', vf_version = ''1'', vf_owner_lane = ''la'', vf_selected = True,
      vf_run_activation_default = ''disabled'',
      vf_descriptor = \<lparr>vd_path = ''p'', vd_sha256 = demo_zeros, vd_source_repo = ''re'',
        vd_source_revision = replicate 40 CHR ''0'', vd_source_path = ''p'', vd_source_sha256 = demo_zeros\<rparr>,
      vf_dependencies = [], vf_conflicts = [], vf_exclusive_group = None, vf_effects = demo_v2_effects,
      vf_parameter_authorities = [],
      vf_activation = \<lparr>va_rule = ''selected-lock-and-runtime-input'', va_runtime_inputs = [''in''],
        va_receipt_schema = ''abc'', va_effective_marker = ''mk1''\<rparr>,
      vf_validation_profile = ''va'', vf_rollback_profile = ''ro''\<rparr>"

definition demo_v2_lock :: v2_lock where
  "demo_v2_lock =
     \<lparr>vl_schema_uri = v2_schema_uri, vl_schema = ''rusty.morphospace.workflow.feature_lock.v2'',
      vl_project_id = ''pr'', vl_project_revision = 1, vl_revision = 1, vl_generated_at = ''2024-02-29T00:00:00Z'',
      vl_resolver_version = ''rusty-morphospace-feature-resolver/2'', vl_lock_fingerprint = demo_zeros,
      vl_default_activation = ''disabled'', vl_activation_rule = ''selected-lock-and-runtime-input'',
      vl_selected_features = [''fa''], vl_denied_features = [], vl_features = [demo_v2_feature],
      vl_effect_union = demo_v2_effects\<rparr>"

definition demo_v2_externals :: "unit v2_externals" where
  "demo_v2_externals =
     \<lparr>vx_sha256 = (\<lambda>_. replicate 32 0), vx_lock_from_str = (\<lambda>_. Some demo_v2_lock), vx_lock_to_value = (\<lambda>_. Some JNull),
      vx_lock_to_string = (\<lambda>_. Some []), vx_number_to_string = (\<lambda>_. ''0'')\<rparr>"

lemma demo_v2_closure: "valid_v2_closure demo_v2_lock"
  by code_simp

lemma demo_v2_texts:
  "valid_v2_timestamp ''2024-02-29T00:00:00Z''" "valid_lock_sha256 demo_zeros" "valid_v2_id ''fa''" "valid_v2_id ''pr''"
  by code_simp+

lemma demo_v2_digest: "sha256_hex (\<lambda>_. replicate 32 0) bs = demo_zeros"
proof -
  have "lower_hex (replicate 32 0) = demo_zeros"
    by code_simp
  then show ?thesis
    by (simp add: sha256_hex_def)
qed

lemma demo_v2_sel:
  "vl_schema_uri demo_v2_lock = v2_schema_uri"
  "vl_schema demo_v2_lock = ''rusty.morphospace.workflow.feature_lock.v2''"
  "vl_resolver_version demo_v2_lock = ''rusty-morphospace-feature-resolver/2''"
  "vl_default_activation demo_v2_lock = ''disabled''"
  "vl_activation_rule demo_v2_lock = ''selected-lock-and-runtime-input''"
  "vl_project_id demo_v2_lock = ''pr''" "vl_project_revision demo_v2_lock = 1" "vl_revision demo_v2_lock = 1"
  "vl_generated_at demo_v2_lock = ''2024-02-29T00:00:00Z''" "vl_lock_fingerprint demo_v2_lock = demo_zeros"
  "vl_features demo_v2_lock = [demo_v2_feature]" "vf_feature_id demo_v2_feature = ''fa''"
  by (simp_all add: demo_v2_lock_def demo_v2_feature_def)

theorem v2_inspection_authenticates_witness:
  "\<exists>r. inspect_feature_lock_v2 demo_v2_externals [] demo_zeros ''fa'' = Inr r
     \<and> selected_has_effect r MarkerEffect (il_effective_marker r)"
proof -
  obtain r where r: "inspect_feature_lock_v2 demo_v2_externals [] demo_zeros ''fa'' = Inr r"
    by (simp add: inspect_feature_lock_v2_def demo_v2_externals_def demo_v2_texts demo_v2_digest demo_v2_sel
        demo_v2_closure)
  then show ?thesis
    using v2_inspection_authenticates [OF r] by blast
qed

end
