(* ===== verification/Media_Plan.thy ===== *)
theory Media_Plan
  imports Quest_Prelude
begin

text \<open>
  Media stream session plans: the records of
  \<open>crates/rusty-quest-media-stream/src/model.rs\<close> and the validation rules of
  \<open>crates/rusty-quest-media-stream/src/validation.rs\<close>. The Rust validators push messages onto a
  shared vector that nothing reads until the end, so each is here a function to the messages it
  pushes, in order, and the caller concatenates them.
\<close>

type_synonym u16 = "16 word"

section \<open>The data of a plan\<close>

record media_device =
  dv_device_id :: string
  dv_device_kind :: string
  dv_role :: string

record display_crop =
  cw_left :: u32
  cw_top :: u32
  cw_width :: u32
  cw_height :: u32

record display_capture =
  di_display_id :: string
  di_rotation :: string
  di_density_dpi :: u32
  di_content_crop :: display_crop
  di_protected_content_policy :: string
  di_consent_state :: string
  di_privacy_indicator :: string
  di_foreground_package_reporting :: string

record camera_track =
  cat_track_role :: string
  cat_camera_id :: string

record camera_capture =
  cam_camera_id :: string
  cam_camera_ids :: "camera_track list"
  cam_camera_facing :: string
  cam_permission_policy :: string

record media_source =
  so_source_id :: string
  so_device_id :: string
  so_source_family :: string
  so_source_kind :: string
  so_capture_route :: string
  so_capture_authority :: string
  so_deployment_classification :: string
  so_track_role :: string
  so_developer_shell_required :: bool
  so_consent_required :: bool
  so_display :: "display_capture option"
  so_camera :: "camera_capture option"

record media_config =
  mc_track_id :: string
  mc_track_role :: string
  mc_track_kind :: string
  mc_codec :: string
  mc_stream_framing :: string
  mc_width :: u32
  mc_height :: u32
  mc_frame_rate_hz :: u32
  mc_bitrate_bps :: u32
  mc_max_packet_bytes :: u32
  mc_metadata_transport :: string
  mc_timestamp_domain :: string
  mc_high_rate_payload_plane :: string

record transport_config =
  tp_transport_kind :: string
  tp_relay_required :: bool
  tp_encryption_required :: bool
  tp_relay_session_id :: "string option"

record queue_policy =
  qu_max_buffered_packets :: u32
  qu_max_buffered_bytes :: u32
  qu_drop_policy :: string
  qu_slow_peer_close :: bool

record media_lane =
  la_lane_id :: string
  la_direction :: string
  la_source_id :: string
  la_source_device_id :: string
  la_sink_device_id :: string
  la_media :: media_config
  la_transport :: transport_config
  la_queue :: queue_policy
  la_receiver_first_required :: bool

record source_binding =
  sb_source_id :: string
  sb_track_role :: string
  sb_source_host :: string
  sb_source_port :: u16

record port_binding =
  pt_track_role :: string
  pt_port :: u16

record runtime_endpoint =
  ep_device_id :: string
  ep_adapter_kind :: string
  ep_source_bindings :: "source_binding list"
  ep_receiver_bind_host :: string
  ep_receiver_ports :: "port_binding list"
  ep_transport_bind_host :: string
  ep_transport_receive_ports :: "port_binding list"

record transport_route =
  tro_lane_id :: string
  tro_source_device_id :: string
  tro_sink_device_id :: string
  tro_track_role :: string
  tro_route_kind :: string
  tro_connect_host :: string
  tro_connect_port :: u16
  tro_relay_channel :: "string option"
  tro_relay_token_ref :: "string option"
  tro_tls_server_name :: "string option"

record security_policy =
  sec_visible_streaming_indicator :: bool
  sec_explicit_pairing_required :: bool
  sec_immediate_stop_command :: string
  sec_raw_media_logging :: bool

record observability_policy =
  ob_required_markers :: "string list"
  ob_required_counters :: "string list"

record session_plan =
  mp_schema :: string
  mp_session_id :: string
  mp_topology_id :: string
  mp_privacy_tier :: string
  mp_devices :: "media_device list"
  mp_sources :: "media_source list"
  mp_lanes :: "media_lane list"
  mp_runtime_endpoints :: "runtime_endpoint list"
  mp_transport_routes :: "transport_route list"
  mp_security :: security_policy
  mp_observability :: observability_policy

section \<open>Elementary rules\<close>

definition push_if :: "bool \<Rightarrow> string \<Rightarrow> string list" where
  "push_if c message = (if c then [message] else [])"

lemma push_if_Nil [simp]: "push_if c message = [] \<longleftrightarrow> \<not> c"
  by (simp add: push_if_def)

definition validate_required_text :: "string \<Rightarrow> string \<Rightarrow> string list" where
  "validate_required_text label text = push_if (trim_is_empty text) (label @ '' must not be empty'')"

definition validate_route_token :: "string \<Rightarrow> string \<Rightarrow> string list" where
  "validate_route_token label text =
     push_if (CHR ''|'' \<in> set text \<or> CHR '';'' \<in> set text)
       (label @ '' must not contain transport route delimiters'')"

definition track_roles :: "string list" where
  "track_roles = [''left'', ''right'', ''mono'', ''display'', ''camera'', ''stereo'']"

definition validate_track_role :: "string \<Rightarrow> string \<Rightarrow> string list" where
  "validate_track_role label text =
     push_if (text \<notin> set track_roles) (label @ '' has unsupported track role '' @ text)"

section \<open>Devices\<close>

definition validate_device :: "media_device \<Rightarrow> string list" where
  "validate_device d =
     validate_required_text ''device_id'' (dv_device_id d)
     @ validate_required_text ''device_kind'' (dv_device_kind d)
     @ validate_required_text ''role'' (dv_role d)
     @ push_if (dv_device_kind d \<notin> {''quest'', ''android_phone'', ''windows_pc'', ''relay''})
         (''unsupported device_kind '' @ dv_device_kind d)
     @ validate_route_token ''device.device_id'' (dv_device_id d)"

text \<open>
  The three maps of a plan are filled by \<open>seen.insert(id, item)\<close>, which keeps the last item of
  an id and reports whether the id was there. \<open>insert_each\<close> is that loop, around the checks of
  one item.
\<close>

primrec insert_each ::
  "('a \<Rightarrow> string) \<Rightarrow> ('a \<Rightarrow> string list) \<Rightarrow> ('a \<Rightarrow> string) \<Rightarrow> ('a \<Rightarrow> string list) \<Rightarrow> 'a list
     \<Rightarrow> (string, 'a) btree \<Rightarrow> string list \<times> (string, 'a) btree" where
  "insert_each key before duplicate after [] seen = ([], seen)"
| "insert_each key before duplicate after (x # xs) seen =
     (let (errors, seen') = insert_each key before duplicate after xs (bt_insert (key x) x seen) in
      (before x @ push_if (bt_contains (key x) seen) (duplicate x) @ after x @ errors, seen'))"

definition validate_devices :: "media_device list \<Rightarrow> string list \<times> (string, media_device) btree" where
  "validate_devices devices =
     (let (errors, seen) = insert_each dv_device_id validate_device
            (\<lambda>d. ''duplicate device_id '' @ dv_device_id d) (\<lambda>_. []) devices [] in
      (push_if (devices = []) ''devices must not be empty'' @ errors, seen))"

section \<open>Sources\<close>

definition require_capture_authority :: "media_source \<Rightarrow> string \<Rightarrow> string list" where
  "require_capture_authority s expected =
     push_if (so_capture_authority s \<noteq> expected)
       (''source '' @ so_source_id s @ '' with kind '' @ so_source_kind s
        @ '' requires capture_authority '' @ expected)"

definition validate_display_descriptor :: "string \<Rightarrow> display_capture \<Rightarrow> string list" where
  "validate_display_descriptor source_id d =
     validate_required_text ''display.display_id'' (di_display_id d)
     @ validate_required_text ''display.rotation'' (di_rotation d)
     @ validate_required_text ''display.protected_content_policy'' (di_protected_content_policy d)
     @ validate_required_text ''display.consent_state'' (di_consent_state d)
     @ validate_required_text ''display.privacy_indicator'' (di_privacy_indicator d)
     @ validate_required_text ''display.foreground_package_reporting'' (di_foreground_package_reporting d)
     @ push_if (di_density_dpi d = 0) (''display source '' @ source_id @ '' density_dpi must be nonzero'')
     @ push_if (cw_width (di_content_crop d) = 0 \<or> cw_height (di_content_crop d) = 0)
         (''display source '' @ source_id @ '' content crop dimensions must be nonzero'')
     @ push_if (di_protected_content_policy d
           \<notin> {''omit-protected-content'', ''black-frame-protected-content'', ''unknown-lab-observe-only''})
         (''display source '' @ source_id @ '' has unsupported protected_content_policy ''
          @ di_protected_content_policy d)
     @ push_if (di_privacy_indicator d
           \<notin> {''system-capture-indicator-required'', ''developer-lab-indicator-required''})
         (''display source '' @ source_id @ '' has unsupported privacy_indicator '' @ di_privacy_indicator d)
     @ push_if (di_foreground_package_reporting d \<notin> {''not-collected'', ''low-rate-debug-only''})
         (''display source '' @ source_id @ '' has unsupported foreground_package_reporting ''
          @ di_foreground_package_reporting d)"

definition validate_camera_source :: "media_source \<Rightarrow> string list" where
  "validate_camera_source s =
     require_capture_authority s ''android_camera_permission''
     @ push_if (so_developer_shell_required s)
         (''camera2 source '' @ so_source_id s @ '' must not require developer shell'')
     @ push_if (so_consent_required s \<or> so_display s \<noteq> None)
         (''camera2 source '' @ so_source_id s @ '' must not inherit display consent or display metadata'')
     @ (case so_camera s of
          None \<Rightarrow> [''camera2_mediacodec_surface source '' @ so_source_id s @ '' requires camera capture metadata'']
        | Some camera \<Rightarrow>
            validate_required_text ''camera.camera_id'' (cam_camera_id camera)
            @ (if so_track_role s = ''stereo'' then
                 push_if (set (map cat_track_role (cam_camera_ids camera)) \<noteq> {''left'', ''right''}
                     \<or> length (remdups (map cat_camera_id (cam_camera_ids camera))) \<noteq> 2)
                   (''stereo camera source '' @ so_source_id s
                    @ '' requires distinct left and right camera bindings'')
               else [])
            @ validate_required_text ''camera.camera_facing'' (cam_camera_facing camera)
            @ validate_required_text ''camera.permission_policy'' (cam_permission_policy camera)
            @ push_if (cam_permission_policy camera \<noteq> ''camera_permission_required'')
                (''camera2 source '' @ so_source_id s @ '' requires camera_permission_required''))"

definition validate_display_composite_source :: "media_source \<Rightarrow> string list" where
  "validate_display_composite_source s =
     require_capture_authority s ''android_mediaprojection_consent''
     @ push_if (so_developer_shell_required s)
         (''display-composite source '' @ so_source_id s @ '' must not require developer shell'')
     @ push_if (\<not> so_consent_required s)
         (''display-composite source '' @ so_source_id s @ '' requires consent_required=true'')
     @ push_if (so_camera s \<noteq> None)
         (''display-composite source '' @ so_source_id s
          @ '' must not inherit camera metadata or permission policy'')
     @ (case so_display s of
          None \<Rightarrow> [''display_composite_mediaprojection_mediacodec_surface source '' @ so_source_id s
            @ '' requires display capture metadata'']
        | Some display \<Rightarrow>
            validate_display_descriptor (so_source_id s) display
            @ push_if (di_consent_state display \<noteq> ''android-mediaprojection-consent-required'')
                (''display-composite source '' @ so_source_id s
                 @ '' requires android-mediaprojection-consent-required consent_state''))"

definition validate_shell_display_source :: "media_source \<Rightarrow> string list" where
  "validate_shell_display_source s =
     require_capture_authority s ''adb_shell_hidden_api_developer_only''
     @ push_if (so_deployment_classification s \<noteq> ''lab_developer_only'')
         (''shell display mirror sources must be lab_developer_only: '' @ so_source_id s)
     @ push_if (\<not> so_developer_shell_required s)
         (''shell display mirror source '' @ so_source_id s @ '' requires developer_shell_required=true'')
     @ push_if (so_consent_required s)
         (''shell display mirror source '' @ so_source_id s @ '' must not claim MediaProjection consent'')
     @ (case so_display s of
          None \<Rightarrow> [''shell_display_mirror_mediacodec_surface source '' @ so_source_id s
            @ '' requires display capture metadata'']
        | Some display \<Rightarrow>
            validate_display_descriptor (so_source_id s) display
            @ push_if (di_consent_state display \<noteq> ''developer-shell-only-no-mediaprojection-consent'')
                (''shell display mirror source '' @ so_source_id s
                 @ '' requires developer-shell-only consent_state''))"

definition validate_source_policy :: "media_source \<Rightarrow> string list" where
  "validate_source_policy s =
     (let kind = so_source_kind s in
      if kind = ''external_h264_socket'' then require_capture_authority s ''external_h264_adapter''
      else if kind = ''camera2_mediacodec_surface'' then validate_camera_source s
      else if kind = ''display_composite_mediaprojection_mediacodec_surface'' then
        validate_display_composite_source s
      else if kind = ''shell_display_mirror_mediacodec_surface'' then validate_shell_display_source s
      else if kind = ''diagnostic_synthetic_mediacodec_surface'' then
        require_capture_authority s ''diagnostic_synthetic_source''
      else [''source '' @ so_source_id s @ '' has unsupported source_kind '' @ kind])"

definition validate_source :: "(string, media_device) btree \<Rightarrow> media_source \<Rightarrow> string list" where
  "validate_source devices s =
     validate_required_text ''source_id'' (so_source_id s)
     @ validate_required_text ''source.device_id'' (so_device_id s)
     @ validate_required_text ''source_family'' (so_source_family s)
     @ validate_required_text ''source_kind'' (so_source_kind s)
     @ validate_required_text ''capture_route'' (so_capture_route s)
     @ validate_required_text ''capture_authority'' (so_capture_authority s)
     @ validate_required_text ''deployment_classification'' (so_deployment_classification s)
     @ validate_required_text ''source.track_role'' (so_track_role s)
     @ validate_route_token ''source.source_id'' (so_source_id s)
     @ validate_route_token ''source.source_family'' (so_source_family s)
     @ validate_route_token ''source.source_kind'' (so_source_kind s)
     @ validate_track_role ''source.track_role'' (so_track_role s)
     @ push_if (so_deployment_classification s
           \<notin> {''production_candidate'', ''diagnostic_only'', ''lab_developer_only''})
         (''source '' @ so_source_id s @ '' has unsupported deployment_classification ''
          @ so_deployment_classification s)
     @ (case bt_get devices (so_device_id s) of
          Some device \<Rightarrow>
            push_if (dv_device_kind device = ''relay'')
              (''source '' @ so_source_id s @ '' must target a media endpoint, not a relay'')
        | None \<Rightarrow> [''source '' @ so_source_id s @ '' references unknown device_id '' @ so_device_id s])
     @ validate_source_policy s"

definition validate_sources ::
  "media_source list \<Rightarrow> (string, media_device) btree \<Rightarrow> string list \<times> (string, media_source) btree" where
  "validate_sources sources devices =
     (let (errors, seen) = insert_each so_source_id (validate_source devices)
            (\<lambda>s. ''duplicate source_id '' @ so_source_id s) (\<lambda>_. []) sources [] in
      (push_if (sources = []) ''sources must not be empty'' @ errors, seen))"

section \<open>Lanes\<close>

definition validate_media :: "string \<Rightarrow> media_config \<Rightarrow> string list" where
  "validate_media lane_id m =
     validate_required_text ''track_id'' (mc_track_id m)
     @ validate_required_text ''track_role'' (mc_track_role m)
     @ validate_required_text ''track_kind'' (mc_track_kind m)
     @ validate_required_text ''codec'' (mc_codec m)
     @ validate_required_text ''stream_framing'' (mc_stream_framing m)
     @ validate_required_text ''metadata_transport'' (mc_metadata_transport m)
     @ validate_required_text ''timestamp_domain'' (mc_timestamp_domain m)
     @ validate_required_text ''high_rate_payload_plane'' (mc_high_rate_payload_plane m)
     @ validate_track_role ''media.track_role'' (mc_track_role m)
     @ validate_route_token ''media.track_role'' (mc_track_role m)
     @ validate_route_token ''media.stream_framing'' (mc_stream_framing m)
     @ push_if (mc_track_kind m \<noteq> ''video'') (''lane '' @ lane_id @ '' must use video track_kind'')
     @ push_if (mc_codec m \<noteq> ''h264'')
         (''lane '' @ lane_id @ '' must use H.264 as the first reusable media stream codec'')
     @ push_if (mc_stream_framing m \<notin> {''diagnostic-h264-packet-stream'', ''rmanvid-v4-packed-stereo''})
         (''lane '' @ lane_id @ '' has unsupported reusable H.264 framing'')
     @ push_if ((mc_stream_framing m = ''rmanvid-v4-packed-stereo'') \<noteq> (mc_track_role m = ''stereo''))
         (''lane '' @ lane_id @ '' packed RMANVID framing and stereo role must be selected together'')
     @ push_if (mc_high_rate_payload_plane m \<noteq> ''binary-media'')
         (''lane '' @ lane_id @ '' high-rate media must use binary-media payload plane'')
     @ push_if (mc_metadata_transport m = ''inline-json-frame-payload'')
         (''lane '' @ lane_id @ '' must not carry high-rate metadata inside JSON frame payloads'')
     @ push_if (mc_width m = 0 \<or> mc_height m = 0)
         (''lane '' @ lane_id @ '' media dimensions must be nonzero'')
     @ push_if (4096 < mc_width m \<or> 4096 < mc_height m)
         (''lane '' @ lane_id @ '' first media-stream slice must stay at or below 4096 pixels per axis'')
     @ push_if (mc_frame_rate_hz m = 0 \<or> 120 < mc_frame_rate_hz m)
         (''lane '' @ lane_id @ '' frame_rate_hz must be 1..=120'')
     @ push_if (mc_bitrate_bps m = 0) (''lane '' @ lane_id @ '' bitrate_bps must be nonzero'')
     @ push_if (\<not> (64 * 1024 \<le> mc_max_packet_bytes m \<and> mc_max_packet_bytes m \<le> 8 * 1024 * 1024))
         (''lane '' @ lane_id @ '' max_packet_bytes must be 65536..=8388608'')"

definition validate_transport :: "string \<Rightarrow> transport_config \<Rightarrow> string list" where
  "validate_transport lane_id t =
     validate_required_text ''transport_kind'' (tp_transport_kind t)
     @ push_if (tp_transport_kind t \<notin> {''lan_tcp'', ''relay_tls''})
         (''lane '' @ lane_id @ '' unsupported transport_kind '' @ tp_transport_kind t)
     @ push_if (tp_relay_required t \<and> (case tp_relay_session_id t of None \<Rightarrow> True | Some i \<Rightarrow> i = []))
         (''lane '' @ lane_id @ '' relay lanes must declare relay_session_id'')
     @ push_if (tp_transport_kind t = ''relay_tls'' \<and> \<not> tp_encryption_required t)
         (''lane '' @ lane_id @ '' relay_tls requires encryption_required=true'')"

definition validate_queue :: "string \<Rightarrow> queue_policy \<Rightarrow> string list" where
  "validate_queue lane_id q =
     validate_required_text ''drop_policy'' (qu_drop_policy q)
     @ push_if (qu_max_buffered_packets q = 0 \<or> 256 < qu_max_buffered_packets q)
         (''lane '' @ lane_id @ '' max_buffered_packets must be 1..=256'')
     @ push_if (qu_max_buffered_bytes q = 0 \<or> 32 * 1024 * 1024 < qu_max_buffered_bytes q)
         (''lane '' @ lane_id @ '' max_buffered_bytes must be 1..=33554432'')
     @ push_if (\<not> qu_slow_peer_close q)
         (''lane '' @ lane_id @ '' must close slow peers instead of buffering forever'')"

text \<open>The checks of a lane around the insertion of its id.\<close>

definition validate_lane_ids :: "media_lane \<Rightarrow> string list" where
  "validate_lane_ids l =
     validate_required_text ''lane_id'' (la_lane_id l)
     @ validate_required_text ''direction'' (la_direction l)
     @ validate_required_text ''source_id'' (la_source_id l)
     @ validate_required_text ''source_device_id'' (la_source_device_id l)
     @ validate_required_text ''sink_device_id'' (la_sink_device_id l)
     @ validate_route_token ''lane.lane_id'' (la_lane_id l)
     @ validate_route_token ''lane.source_id'' (la_source_id l)"

definition validate_lane ::
  "(string, media_device) btree \<Rightarrow> (string, media_source) btree \<Rightarrow> media_lane \<Rightarrow> string list" where
  "validate_lane devices sources l =
     push_if (la_direction l \<notin> {''outgoing'', ''incoming'', ''bidirectional''})
       (''unsupported lane direction '' @ la_direction l)
     @ push_if (bt_get sources (la_source_id l) = None)
         (''lane '' @ la_lane_id l @ '' references unknown source_id '' @ la_source_id l)
     @ push_if (\<not> bt_contains (la_source_device_id l) devices)
         (''lane '' @ la_lane_id l @ '' references unknown source_device_id '' @ la_source_device_id l)
     @ push_if (\<not> bt_contains (la_sink_device_id l) devices)
         (''lane '' @ la_lane_id l @ '' references unknown sink_device_id '' @ la_sink_device_id l)
     @ push_if (la_source_device_id l = la_sink_device_id l)
         (''lane '' @ la_lane_id l @ '' source and sink must differ'')
     @ (case bt_get sources (la_source_id l) of
          None \<Rightarrow> []
        | Some source \<Rightarrow>
            push_if (so_device_id source \<noteq> la_source_device_id l)
              (''lane '' @ la_lane_id l @ '' source_device_id must match source '' @ la_source_id l
               @ '' device_id'')
            @ push_if (so_track_role source \<noteq> mc_track_role (la_media l))
                (''lane '' @ la_lane_id l @ '' media track_role must match source '' @ la_source_id l
                 @ '' track_role''))
     @ push_if (\<not> la_receiver_first_required l)
         (''lane '' @ la_lane_id l @ '' must require receiver-first start'')
     @ validate_media (la_lane_id l) (la_media l)
     @ validate_transport (la_lane_id l) (la_transport l)
     @ validate_queue (la_lane_id l) (la_queue l)"

definition validate_lanes ::
  "media_lane list \<Rightarrow> (string, media_device) btree \<Rightarrow> (string, media_source) btree \<Rightarrow> string list" where
  "validate_lanes lanes devices sources =
     push_if (lanes = []) ''lanes must not be empty''
     @ fst (insert_each la_lane_id validate_lane_ids (\<lambda>l. ''duplicate lane_id '' @ la_lane_id l)
              (validate_lane devices sources) lanes [])"

section \<open>Runtime endpoints\<close>

definition validate_source_binding ::
  "runtime_endpoint \<Rightarrow> (string, media_source) btree \<Rightarrow> source_binding \<Rightarrow> string list" where
  "validate_source_binding e sources b =
     validate_required_text ''source_binding.source_id'' (sb_source_id b)
     @ validate_required_text ''source_binding.track_role'' (sb_track_role b)
     @ validate_required_text ''source_binding.source_host'' (sb_source_host b)
     @ validate_track_role ''source_binding.track_role'' (sb_track_role b)
     @ validate_route_token ''source_binding.source_id'' (sb_source_id b)
     @ push_if (sb_source_port b = 0)
         (''runtime endpoint '' @ ep_device_id e @ '' source_binding port for '' @ sb_track_role b
          @ '' must be nonzero'')
     @ (case bt_get sources (sb_source_id b) of
          Some source \<Rightarrow>
            push_if (so_device_id source \<noteq> ep_device_id e)
              (''runtime endpoint '' @ ep_device_id e @ '' source_binding '' @ sb_source_id b
               @ '' must belong to same device'')
            @ push_if (so_track_role source \<noteq> sb_track_role b)
                (''runtime endpoint '' @ ep_device_id e @ '' source_binding '' @ sb_source_id b
                 @ '' track_role must match source'')
        | None \<Rightarrow> [''runtime endpoint '' @ ep_device_id e
            @ '' source_binding references unknown source_id '' @ sb_source_id b])"

definition validate_source_bindings ::
  "runtime_endpoint \<Rightarrow> (string, media_source) btree \<Rightarrow> string list" where
  "validate_source_bindings e sources =
     fst (insert_each sb_source_id (validate_source_binding e sources)
            (\<lambda>b. ''runtime endpoint '' @ ep_device_id e @ '' repeats source_binding '' @ sb_source_id b)
            (\<lambda>_. []) (ep_source_bindings e) [])"

primrec port_binding_loop ::
  "string \<Rightarrow> string \<Rightarrow> port_binding list \<Rightarrow> string list \<Rightarrow> u16 list \<Rightarrow> string list" where
  "port_binding_loop device_id what [] roles ports = []"
| "port_binding_loop device_id what (b # bs) roles ports =
     validate_required_text ''runtime_endpoint.port.track_role'' (pt_track_role b)
     @ validate_track_role ''runtime_endpoint.port.track_role'' (pt_track_role b)
     @ push_if (pt_port b = 0)
         (''runtime endpoint '' @ device_id @ '' '' @ what @ '' port for '' @ pt_track_role b
          @ '' must be nonzero'')
     @ push_if (pt_track_role b \<in> set roles)
         (''runtime endpoint '' @ device_id @ '' '' @ what @ '' repeats track_role '' @ pt_track_role b)
     @ push_if (pt_port b \<in> set ports)
         (''runtime endpoint '' @ device_id @ '' '' @ what @ '' repeats port ''
          @ decimal (unat (pt_port b)))
     @ port_binding_loop device_id what bs (pt_track_role b # roles) (pt_port b # ports)"

definition validate_port_bindings ::
  "string \<Rightarrow> string \<Rightarrow> port_binding list \<Rightarrow> bool \<Rightarrow> string list" where
  "validate_port_bindings device_id what bindings required =
     push_if (required \<and> bindings = [])
       (''runtime endpoint '' @ device_id @ '' '' @ what @ '' must not be empty'')
     @ port_binding_loop device_id what bindings [] []"

definition adapter_kinds :: "string list" where
  "adapter_kinds = [''quest_manifold_broker_android'', ''android_companion'', ''windows_hostess'',
     ''termux_sidecar'', ''pc_viewer'', ''quest_native_openxr_renderer'',
     ''quest_meta_spatial_sdk_renderer'']"

definition validate_endpoint_ids ::
  "(string, media_device) btree \<Rightarrow> runtime_endpoint \<Rightarrow> string list" where
  "validate_endpoint_ids devices e =
     validate_required_text ''runtime_endpoint.device_id'' (ep_device_id e)
     @ validate_required_text ''runtime_endpoint.adapter_kind'' (ep_adapter_kind e)
     @ validate_required_text ''runtime_endpoint.receiver_bind_host'' (ep_receiver_bind_host e)
     @ validate_required_text ''runtime_endpoint.transport_bind_host'' (ep_transport_bind_host e)
     @ push_if (ep_adapter_kind e \<notin> set adapter_kinds)
         (''runtime endpoint '' @ ep_device_id e @ '' has unsupported adapter_kind '' @ ep_adapter_kind e)
     @ (case bt_get devices (ep_device_id e) of
          Some device \<Rightarrow>
            push_if (dv_device_kind device = ''relay'')
              (''runtime endpoint '' @ ep_device_id e @ '' must target a media endpoint, not a relay'')
        | None \<Rightarrow> [''runtime endpoint references unknown device_id '' @ ep_device_id e])"

definition validate_endpoint ::
  "(string, media_source) btree \<Rightarrow> media_lane list \<Rightarrow> runtime_endpoint \<Rightarrow> string list" where
  "validate_endpoint sources lanes e =
     (let sinks_required = list_ex (\<lambda>l. la_sink_device_id l = ep_device_id e) lanes in
      validate_source_bindings e sources
      @ push_if (list_ex (\<lambda>l. la_source_device_id l = ep_device_id e) lanes \<and> ep_source_bindings e = [])
          (''runtime endpoint '' @ ep_device_id e @ '' source_bindings must not be empty'')
      @ validate_port_bindings (ep_device_id e) ''receiver_ports'' (ep_receiver_ports e) sinks_required
      @ validate_port_bindings (ep_device_id e) ''transport_receive_ports''
          (ep_transport_receive_ports e) sinks_required)"

definition validate_runtime_endpoints ::
  "runtime_endpoint list \<Rightarrow> (string, media_device) btree \<Rightarrow> (string, media_source) btree
     \<Rightarrow> media_lane list \<Rightarrow> string list \<times> (string, runtime_endpoint) btree" where
  "validate_runtime_endpoints endpoints devices sources lanes =
     insert_each ep_device_id (validate_endpoint_ids devices)
       (\<lambda>e. ''duplicate runtime endpoint for device_id '' @ ep_device_id e)
       (validate_endpoint sources lanes) endpoints []"

definition validate_runtime_endpoint_coverage ::
  "(string, media_device) btree \<Rightarrow> (string, runtime_endpoint) btree \<Rightarrow> string list" where
  "validate_runtime_endpoint_coverage devices endpoints =
     concat (map (\<lambda>d. push_if (dv_device_kind d \<noteq> ''relay'' \<and> \<not> bt_contains (dv_device_id d) endpoints)
         (''device '' @ dv_device_id d @ '' requires a runtime endpoint'')) (map snd devices))"

definition validate_source_binding_coverage ::
  "(string, media_source) btree \<Rightarrow> (string, runtime_endpoint) btree \<Rightarrow> string list" where
  "validate_source_binding_coverage sources endpoints =
     concat (map (\<lambda>s. case bt_get endpoints (so_device_id s) of
         None \<Rightarrow> []
       | Some e \<Rightarrow> push_if (\<not> list_ex (\<lambda>b. sb_source_id b = so_source_id s) (ep_source_bindings e))
           (''source '' @ so_source_id s @ '' requires a source_binding on endpoint '' @ so_device_id s))
       (map snd sources))"

section \<open>Transport routes\<close>

definition blank_option :: "string option \<Rightarrow> bool" where
  "blank_option x = (case x of None \<Rightarrow> True | Some text \<Rightarrow> trim_is_empty text)"

definition validate_direct_route ::
  "transport_route \<Rightarrow> media_lane \<Rightarrow> (string, runtime_endpoint) btree \<Rightarrow> string list" where
  "validate_direct_route r l endpoints =
     push_if (tp_transport_kind (la_transport l) \<noteq> ''lan_tcp'' \<or> tp_relay_required (la_transport l))
       (''transport route '' @ tro_lane_id r @ '' direct TCP/P2P requires a non-relay lan_tcp lane'')
     @ (case bt_get endpoints (tro_sink_device_id r) of
          Some e \<Rightarrow>
            push_if (\<not> list_ex (\<lambda>b. pt_track_role b = tro_track_role r \<and> pt_port b = tro_connect_port r)
                (ep_transport_receive_ports e))
              (''transport route '' @ tro_lane_id r
               @ '' connect_port must match sink transport_receive_ports for '' @ tro_track_role r)
        | None \<Rightarrow> [''transport route '' @ tro_lane_id r @ '' sink '' @ tro_sink_device_id r
            @ '' has no runtime endpoint''])"

definition validate_relay_route :: "transport_route \<Rightarrow> media_lane \<Rightarrow> string list" where
  "validate_relay_route r l =
     push_if (tp_transport_kind (la_transport l) \<noteq> ''relay_tls'' \<or> \<not> tp_relay_required (la_transport l)
         \<or> \<not> tp_encryption_required (la_transport l))
       (''transport route '' @ tro_lane_id r @ '' relay_tls_client requires relay_tls with encryption'')
     @ push_if (blank_option (tro_relay_channel r))
         (''transport route '' @ tro_lane_id r @ '' relay_tls_client requires relay_channel'')
     @ push_if (blank_option (tro_relay_token_ref r))
         (''transport route '' @ tro_lane_id r @ '' relay_tls_client requires relay_token_ref'')"

definition validate_route_ids :: "transport_route \<Rightarrow> string list" where
  "validate_route_ids r =
     validate_required_text ''transport_route.lane_id'' (tro_lane_id r)
     @ validate_required_text ''transport_route.source_device_id'' (tro_source_device_id r)
     @ validate_required_text ''transport_route.sink_device_id'' (tro_sink_device_id r)
     @ validate_required_text ''transport_route.track_role'' (tro_track_role r)
     @ validate_required_text ''transport_route.route_kind'' (tro_route_kind r)
     @ validate_required_text ''transport_route.connect_host'' (tro_connect_host r)
     @ validate_route_token ''transport_route.lane_id'' (tro_lane_id r)
     @ validate_track_role ''transport_route.track_role'' (tro_track_role r)
     @ push_if (tro_connect_port r = 0)
         (''transport route '' @ tro_lane_id r @ '' connect_port must be nonzero'')"

definition validate_route ::
  "(string, media_lane) btree \<Rightarrow> (string, runtime_endpoint) btree \<Rightarrow> transport_route \<Rightarrow> string list" where
  "validate_route lanes_by_id endpoints r =
     push_if (tro_route_kind r \<notin> {''direct_tcp_connect'', ''direct_p2p_tcp'', ''relay_tls_client''})
       (''transport route '' @ tro_lane_id r @ '' has unsupported route_kind '' @ tro_route_kind r)
     @ (case bt_get lanes_by_id (tro_lane_id r) of
          None \<Rightarrow> [''transport route references unknown lane '' @ tro_lane_id r]
        | Some l \<Rightarrow>
            push_if (tro_source_device_id r \<noteq> la_source_device_id l
                \<or> tro_sink_device_id r \<noteq> la_sink_device_id l
                \<or> tro_track_role r \<noteq> mc_track_role (la_media l))
              (''transport route '' @ tro_lane_id r @ '' must match lane source, sink, and track_role'')
            @ (if tro_route_kind r \<in> {''direct_tcp_connect'', ''direct_p2p_tcp''}
               then validate_direct_route r l endpoints
               else if tro_route_kind r = ''relay_tls_client'' then validate_relay_route r l
               else []))"

definition collect_by :: "('a \<Rightarrow> string) \<Rightarrow> 'a list \<Rightarrow> (string, 'a) btree" where
  "collect_by key xs = fold (\<lambda>x. bt_insert (key x) x) xs []"

definition validate_transport_routes ::
  "transport_route list \<Rightarrow> media_lane list \<Rightarrow> (string, runtime_endpoint) btree \<Rightarrow> string list" where
  "validate_transport_routes routes lanes endpoints =
     (let (errors, seen) = insert_each tro_lane_id validate_route_ids
            (\<lambda>r. ''duplicate transport route for lane '' @ tro_lane_id r)
            (validate_route (collect_by la_lane_id lanes) endpoints) routes [] in
      push_if (routes = [] \<and> lanes \<noteq> []) ''transport_routes must not be empty''
      @ errors
      @ concat (map (\<lambda>l. push_if (\<not> bt_contains (la_lane_id l) seen)
          (''lane '' @ la_lane_id l @ '' requires a transport route'')) lanes))"

section \<open>Privacy, security, topology and observability\<close>

definition privacy_local :: string where
  "privacy_local = ''local_lan_diagnostic''"

definition validate_privacy_tier :: "session_plan \<Rightarrow> string list" where
  "validate_privacy_tier p =
     push_if (mp_privacy_tier p \<notin> {privacy_local, ''trusted_relay_transport_encrypted'',
         ''untrusted_relay_end_to_end_encrypted_candidate''})
       (''unsupported privacy_tier '' @ mp_privacy_tier p)
     @ push_if (mp_privacy_tier p \<noteq> privacy_local
           \<and> list_ex (\<lambda>l. \<not> tp_encryption_required (la_transport l)) (mp_lanes p))
         ''non-local media stream sessions require encrypted transport on every lane''"

definition validate_security :: "security_policy \<Rightarrow> string \<Rightarrow> string list" where
  "validate_security s privacy_tier =
     push_if (\<not> sec_visible_streaming_indicator s)
       ''media stream sessions require visible_streaming_indicator=true''
     @ push_if (\<not> sec_explicit_pairing_required s)
         ''media stream sessions require explicit_pairing_required=true''
     @ validate_required_text ''immediate_stop_command'' (sec_immediate_stop_command s)
     @ push_if (privacy_tier \<noteq> privacy_local \<and> sec_raw_media_logging s)
         ''raw media logging is allowed only for local diagnostic sessions''"

definition device_of_kind :: "(string, media_device) btree \<Rightarrow> string \<Rightarrow> string \<Rightarrow> bool" where
  "device_of_kind devices kind device_id =
     (case bt_get devices device_id of None \<Rightarrow> False | Some d \<Rightarrow> dv_device_kind d = kind)"

definition has_lane_between :: "session_plan \<Rightarrow> string \<Rightarrow> string \<Rightarrow> bool" where
  "has_lane_between p source sink =
     list_ex (\<lambda>l. la_source_device_id l = source \<and> la_sink_device_id l = sink
        \<and> mc_high_rate_payload_plane (la_media l) = ''binary-media'') (mp_lanes p)"

definition has_kind_lane ::
  "session_plan \<Rightarrow> (string, media_device) btree \<Rightarrow> (string, media_source) btree \<Rightarrow> string set \<Rightarrow> bool" where
  "has_kind_lane p devices sources kinds =
     list_ex (\<lambda>l. device_of_kind devices ''quest'' (la_source_device_id l)
        \<and> device_of_kind devices ''windows_pc'' (la_sink_device_id l)
        \<and> (case bt_get sources (la_source_id l) of None \<Rightarrow> False | Some s \<Rightarrow> so_source_kind s \<in> kinds))
       (mp_lanes p)"

definition validate_quest_display_to_pc ::
  "session_plan \<Rightarrow> (string, media_device) btree \<Rightarrow> (string, media_source) btree \<Rightarrow> string list" where
  "validate_quest_display_to_pc p devices sources =
     push_if (\<not> has_kind_lane p devices sources
         {''display_composite_mediaprojection_mediacodec_surface'', ''shell_display_mirror_mediacodec_surface''})
       ''quest_display_to_pc requires a Quest display source lane to a windows_pc sink''"

definition validate_quest_camera_to_pc ::
  "session_plan \<Rightarrow> (string, media_device) btree \<Rightarrow> (string, media_source) btree \<Rightarrow> string list" where
  "validate_quest_camera_to_pc p devices sources =
     push_if (\<not> has_kind_lane p devices sources {''camera2_mediacodec_surface''})
       ''quest_camera_to_pc requires a Quest Camera2 source lane to a windows_pc sink''"

definition app_renderer_lane ::
  "(string, media_device) btree \<Rightarrow> (string, media_source) btree \<Rightarrow> media_lane \<Rightarrow> bool" where
  "app_renderer_lane devices sources l =
     ((case bt_get sources (la_source_id l) of None \<Rightarrow> False
       | Some s \<Rightarrow> so_capture_route s \<in> {''display-composite'', ''camera2-mediacodec-surface''})
      \<and> device_of_kind devices ''quest'' (la_source_device_id l)
      \<and> device_of_kind devices ''quest'' (la_sink_device_id l)
      \<and> la_source_device_id l \<noteq> la_sink_device_id l)"

definition validate_quest_app_renderer ::
  "session_plan \<Rightarrow> (string, media_device) btree \<Rightarrow> (string, media_source) btree \<Rightarrow> string list" where
  "validate_quest_app_renderer p devices sources =
     (let valid_lanes = length (filter (app_renderer_lane devices sources) (mp_lanes p)) in
      push_if (valid_lanes \<noteq> length (mp_lanes p) \<or> valid_lanes = 0)
        ''Quest app-renderer topology requires distinct Quest source and render-sink devices'')"

definition ids_of_kind :: "string \<Rightarrow> (string, media_device) btree \<Rightarrow> string list" where
  "ids_of_kind kind devices =
     map dv_device_id (filter (\<lambda>d. dv_device_kind d = kind) (map snd devices))"

definition validate_quest_to_quest_two_way ::
  "session_plan \<Rightarrow> (string, media_device) btree \<Rightarrow> string list" where
  "validate_quest_to_quest_two_way p devices =
     (case ids_of_kind ''quest'' devices of
        first # second # _ \<Rightarrow>
          push_if (\<not> has_lane_between p first second \<or> \<not> has_lane_between p second first)
            ''quest_to_quest_two_way requires lanes in both Quest directions''
      | _ \<Rightarrow> [''quest_to_quest_two_way requires at least two Quest devices''])"

definition validate_quest_android_phone_duplex ::
  "session_plan \<Rightarrow> (string, media_device) btree \<Rightarrow> string list" where
  "validate_quest_android_phone_duplex p devices =
     (case (ids_of_kind ''quest'' devices, ids_of_kind ''android_phone'' devices) of
        (quest # _, phone # _) \<Rightarrow>
          push_if (\<not> has_lane_between p quest phone)
            ''quest_android_phone_duplex requires a Quest-to-phone media lane''
          @ push_if (\<not> has_lane_between p phone quest)
              ''quest_android_phone_duplex requires a phone-to-Quest media lane''
      | _ \<Rightarrow> [''quest_android_phone_duplex requires a Quest and an Android phone''])"

definition validate_topology ::
  "session_plan \<Rightarrow> (string, media_device) btree \<Rightarrow> (string, media_source) btree \<Rightarrow> string list" where
  "validate_topology p devices sources =
     (let topology = mp_topology_id p in
      if topology = ''quest_display_to_pc'' then validate_quest_display_to_pc p devices sources
      else if topology = ''quest_camera_to_pc'' then validate_quest_camera_to_pc p devices sources
      else if topology = ''quest_to_quest_two_way'' then validate_quest_to_quest_two_way p devices
      else if topology \<in> {''quest_display_to_native_renderer'', ''quest_display_to_spatial_camera_panel'',
          ''quest_camera_to_spatial_camera_panel''} then validate_quest_app_renderer p devices sources
      else if topology = ''quest_android_phone_duplex'' then validate_quest_android_phone_duplex p devices
      else if topology = ''diagnostic_loopback'' then []
      else [''unsupported topology_id '' @ topology])"

definition required_counters :: "string list" where
  "required_counters = [''bytes_sent'', ''bytes_received'', ''media_packets'', ''codec_config_packets'',
     ''keyframes'', ''queue_drops'', ''close_reason'', ''capture_to_encode_ms'', ''encode_to_receive_ms'']"

definition validate_observability :: "observability_policy \<Rightarrow> string list" where
  "validate_observability ob =
     concat (map (\<lambda>required. push_if (required \<notin> set (ob_required_counters ob))
       (''observability must require counter '' @ required)) required_counters)"

section \<open>The plan\<close>

definition session_schema :: string where
  "session_schema = ''rusty.quest.media_stream_session.v1''"

definition session_errors :: "session_plan \<Rightarrow> string list" where
  "session_errors p =
     (let (device_errors, devices) = validate_devices (mp_devices p);
          (source_errors, sources) = validate_sources (mp_sources p) devices;
          (endpoint_errors, endpoints) =
            validate_runtime_endpoints (mp_runtime_endpoints p) devices sources (mp_lanes p) in
      validate_required_text ''schema'' (mp_schema p)
      @ validate_required_text ''session_id'' (mp_session_id p)
      @ validate_required_text ''topology_id'' (mp_topology_id p)
      @ push_if (mp_schema p \<noteq> session_schema)
          (''unsupported media stream session schema '' @ mp_schema p)
      @ validate_privacy_tier p
      @ validate_security (mp_security p) (mp_privacy_tier p)
      @ device_errors
      @ source_errors
      @ validate_lanes (mp_lanes p) devices sources
      @ endpoint_errors
      @ validate_runtime_endpoint_coverage devices endpoints
      @ validate_source_binding_coverage sources endpoints
      @ validate_transport_routes (mp_transport_routes p) (mp_lanes p) endpoints
      @ validate_topology p devices sources
      @ validate_observability (mp_observability p))"

definition errors_result :: "string list \<Rightarrow> string list + unit" where
  "errors_result errors = (if errors = [] then Inr () else Inl errors)"

lemma errors_result_Inr [simp]: "errors_result errors = Inr u \<longleftrightarrow> errors = []"
  by (simp add: errors_result_def)

definition validate_media_stream_session :: "session_plan \<Rightarrow> string list + unit" where
  "validate_media_stream_session p = errors_result (session_errors p)"

end
