(* ===== verification/P2p_Route.thy ===== *)
theory P2p_Route
  imports Media_Plan
begin

text \<open>
  The direct-P2P socket route contract of
  \<open>crates/rusty-quest-device-link/src/direct_p2p_socket_authority.rs\<close>. \<open>parse_ipv4\<close> is
  \<open>str::parse::<Ipv4Addr>\<close> of the Rust library: four decimal octets of one to three digits
  without leading zeros, separated by dots.
\<close>

section \<open>IPv4 addresses\<close>

type_synonym ipv4 = "nat \<times> nat \<times> nat \<times> nat"

definition decimal_value :: "string \<Rightarrow> nat" where
  "decimal_value s = foldl (\<lambda>n c. 10 * n + (byte_of c - 48)) 0 s"

definition parse_octet :: "string \<Rightarrow> nat option" where
  "parse_octet s =
     (if 1 \<le> length s \<and> length s \<le> 3 \<and> list_all is_ascii_digit s
         \<and> (hd s = CHR ''0'' \<longrightarrow> length s = 1) \<and> decimal_value s < 256
      then Some (decimal_value s) else None)"

definition parse_ipv4 :: "string \<Rightarrow> ipv4 option" where
  "parse_ipv4 s =
     (case map parse_octet (split_on CHR ''.'' s) of
        [Some a, Some b, Some c, Some d] \<Rightarrow> Some (a, b, c, d)
      | _ \<Rightarrow> None)"

section \<open>Routes\<close>

record p2p_route =
  pp_schema :: string
  pp_route_id :: string
  pp_route_kind :: string
  pp_socket_authority :: string
  pp_socket_scope :: string
  pp_expected_interface :: string
  pp_local_bind_host :: string
  pp_peer_host :: string
  pp_peer_port :: u16
  pp_android_network_required :: bool

record validated_p2p_route =
  vp_local_bind_ipv4 :: ipv4
  vp_peer_ipv4 :: ipv4
  vp_peer_port :: u16

definition p2p_route_schema :: string where
  "p2p_route_schema = ''rusty.quest.direct_p2p_socket_route.v1''"

definition p2p_route_kind :: string where
  "p2p_route_kind = ''direct_p2p_tcp''"

definition p2p_socket_authority :: string where
  "p2p_socket_authority = ''rusty_direct_p2p_socket_authority''"

definition p2p_socket_scope :: string where
  "p2p_socket_scope = ''rusty_owned_sockets_only''"

definition p2p_interface :: string where
  "p2p_interface = ''p2p0''"

definition is_supported_direct_p2p_ipv4 :: "ipv4 \<Rightarrow> bool" where
  "is_supported_direct_p2p_ipv4 = (\<lambda>(a, b, c, d).
     a = 192 \<and> b = 168 \<and> c \<in> {49, 137} \<and> d \<notin> {0, 255})"

definition parse_supported_p2p_ipv4 ::
  "string \<Rightarrow> string \<Rightarrow> string \<Rightarrow> string list \<times> ipv4 option" where
  "parse_supported_p2p_ipv4 route_id label text =
     (if trim_is_empty text then ([''direct P2P route '' @ route_id @ '' requires '' @ label], None)
      else case parse_ipv4 text of
          None \<Rightarrow> ([''direct P2P route '' @ route_id @ '' '' @ label
            @ '' must be a concrete IPv4 address''], None)
        | Some address \<Rightarrow>
            if is_supported_direct_p2p_ipv4 address then ([], Some address)
            else ([''direct P2P route '' @ route_id @ '' '' @ label
              @ '' must be a supported P2P IPv4 address''], None))"

definition is_safe_route_id :: "string \<Rightarrow> bool" where
  "is_safe_route_id s =
     (1 \<le> length s \<and> length s \<le> 64
      \<and> list_all (\<lambda>c. is_ascii_alphanumeric c \<or> c \<in> {CHR ''.'', CHR ''_'', CHR ''-''}) s)"

definition p2p_route_errors :: "p2p_route \<Rightarrow> string list" where
  "p2p_route_errors r =
     push_if (pp_schema r \<noteq> p2p_route_schema) ''direct P2P socket route schema is unsupported''
     @ push_if (\<not> is_safe_route_id (pp_route_id r))
         ''direct P2P socket route_id must be a 1..=64 character safe token''
     @ push_if (pp_route_kind r \<noteq> p2p_route_kind)
         (''direct P2P route '' @ pp_route_id r @ '' route_kind must be '' @ p2p_route_kind)
     @ push_if (pp_socket_authority r \<noteq> p2p_socket_authority)
         (''direct P2P route '' @ pp_route_id r @ '' requires socket_authority '' @ p2p_socket_authority)
     @ push_if (pp_socket_scope r \<noteq> p2p_socket_scope)
         (''direct P2P route '' @ pp_route_id r
          @ '' socket authority must remain scoped to Rusty-owned sockets'')
     @ push_if (pp_expected_interface r \<noteq> p2p_interface)
         (''direct P2P route '' @ pp_route_id r @ '' expected_interface must be '' @ p2p_interface)
     @ push_if (pp_android_network_required r)
         (''direct P2P route '' @ pp_route_id r
          @ '' must not require or claim an Android Network substitution'')
     @ push_if (pp_peer_port r = 0)
         (''direct P2P route '' @ pp_route_id r @ '' peer_port must be nonzero'')"

definition same_subnet :: "ipv4 \<Rightarrow> ipv4 \<Rightarrow> bool" where
  "same_subnet = (\<lambda>(a, b, c, _) (a', b', c', _). a = a' \<and> b = b' \<and> c = c')"

definition validate_direct_p2p_socket_route :: "p2p_route \<Rightarrow> string list + validated_p2p_route" where
  "validate_direct_p2p_socket_route r =
     (let (local_errors, local) =
            parse_supported_p2p_ipv4 (pp_route_id r) ''local_bind_host'' (pp_local_bind_host r);
          (peer_errors, peer) = parse_supported_p2p_ipv4 (pp_route_id r) ''peer_host'' (pp_peer_host r);
          pair_errors = (case (local, peer) of
              (Some l, Some q) \<Rightarrow>
                push_if (\<not> same_subnet l q)
                  (''direct P2P route '' @ pp_route_id r
                   @ '' local and peer addresses must share an IPv4 /24'')
                @ push_if (l = q)
                    (''direct P2P route '' @ pp_route_id r @ '' local and peer addresses must differ'')
            | _ \<Rightarrow> []);
          errors = p2p_route_errors r @ local_errors @ peer_errors @ pair_errors in
      if errors \<noteq> [] then Inl errors
      else case (local, peer) of
          (Some l, Some q) \<Rightarrow>
            Inr \<lparr>vp_local_bind_ipv4 = l, vp_peer_ipv4 = q, vp_peer_port = pp_peer_port r\<rparr>
        | _ \<Rightarrow> Inl [''direct P2P route address validation did not produce parsed addresses''])"

section \<open>What a validated route is\<close>

lemma same_subnet_supported:
  "same_subnet a b \<Longrightarrow> is_supported_direct_p2p_ipv4 a \<Longrightarrow> is_supported_direct_p2p_ipv4 b \<Longrightarrow> a \<noteq> b \<Longrightarrow>
     \<exists>c m n. a = (192, 168, c, m) \<and> b = (192, 168, c, n) \<and> c \<in> {49, 137} \<and> m \<noteq> n"
  by (cases a; cases b) (auto simp: same_subnet_def is_supported_direct_p2p_ipv4_def)

lemma parse_supported_ok:
  "parse_supported_p2p_ipv4 i label text = ([], x) \<longleftrightarrow>
     \<not> trim_is_empty text
     \<and> (\<exists>a. x = Some a \<and> parse_ipv4 text = Some a \<and> is_supported_direct_p2p_ipv4 a)"
  by (auto simp: parse_supported_p2p_ipv4_def split: option.splits if_splits)

lemma parse_supported_cases:
  "\<exists>errors x. parse_supported_p2p_ipv4 i label text = (errors, x) \<and> (x = None \<longrightarrow> errors \<noteq> [])"
  by (simp add: parse_supported_p2p_ipv4_def split: option.splits)

lemma validate_p2p_iff:
  "validate_direct_p2p_socket_route r = Inr v \<longleftrightarrow>
     p2p_route_errors r = []
     \<and> (\<exists>a b. v = \<lparr>vp_local_bind_ipv4 = a, vp_peer_ipv4 = b, vp_peer_port = pp_peer_port r\<rparr>
          \<and> parse_supported_p2p_ipv4 (pp_route_id r) ''local_bind_host'' (pp_local_bind_host r) = ([], Some a)
          \<and> parse_supported_p2p_ipv4 (pp_route_id r) ''peer_host'' (pp_peer_host r) = ([], Some b)
          \<and> same_subnet a b \<and> a \<noteq> b)"
proof -
  obtain le l where l:
    "parse_supported_p2p_ipv4 (pp_route_id r) ''local_bind_host'' (pp_local_bind_host r) = (le, l)"
    "l = None \<longrightarrow> le \<noteq> []"
    using parse_supported_cases by blast
  obtain pe q where q:
    "parse_supported_p2p_ipv4 (pp_route_id r) ''peer_host'' (pp_peer_host r) = (pe, q)"
    "q = None \<longrightarrow> pe \<noteq> []"
    using parse_supported_cases by blast
  show ?thesis
    by (cases l; cases q) (use l q in \<open>auto simp: validate_direct_p2p_socket_route_def Let_def\<close>)
qed

end
