(* ===== verification/Media_Spec.thy ===== *)
theory Media_Spec
  imports Owner_Types P2p_Route "HOL-Library.Option_ord"
begin

text \<open>
  Runtime specifications of media sessions: the composition records and
  \<open>validate_media_stream_runtime_spec\<close> of \<open>crates/rusty-quest-media-stream/src/runtime.rs\<close>, with
  the owner selections of \<open>product_runtime.rs\<close> that are part of the specification, their order and
  the order in which the owners of a selection act.
\<close>

section \<open>Composition\<close>

record processor_descriptor =
  pd_processor_id :: string
  pd_processor_kind :: string
  pd_input_track_roles :: "string list"
  pd_output_track_roles :: "string list"
  pd_owns_codec :: bool
  pd_cpu_pixel_copy :: bool
  pd_application_policy_fields :: "string list"

record sink_descriptor =
  sk_sink_id :: string
  sk_device_id :: string
  sk_sink_kind :: string
  sk_required_permissions :: "string list"
  sk_application_policy_fields :: "string list"

record lane_runtime_binding =
  lb_lane_id :: string
  lb_processor_ids :: "string list"
  lb_sink_id :: string

record p2p_binding =
  pb_lane_id :: string
  pb_route :: p2p_route

record runtime_spec =
  sp_spec_schema :: string
  sp_runtime_spec_id :: string
  sp_manifold_session_revision :: u64
  sp_plan :: session_plan
  sp_processors :: "processor_descriptor list"
  sp_sinks :: "sink_descriptor list"
  sp_lane_bindings :: "lane_runtime_binding list"
  sp_direct_p2p_routes :: "p2p_binding list"
  sp_owner_selections :: "owner_selection list"
  sp_compatibility_adapter_id :: "string option"

definition runtime_spec_schema :: string where
  "runtime_spec_schema = ''rusty.quest.media_stream_runtime_spec.v1''"

section \<open>Owner selections\<close>

text \<open>
  The derived order of \<open>MediaStreamOwnerSelection\<close> compares its fields in order; a selection is
  ordered by the tuple of its fields, and an ordered map keyed by selections is keyed by that
  tuple.
\<close>

type_synonym selection_key = "owner_kind \<times> string \<times> string \<times> string option \<times> string"

definition selection_key :: "owner_selection \<Rightarrow> selection_key" where
  "selection_key s =
     (sel_owner_kind s, sel_owner_id s, sel_resource_id s, sel_lane_id s, sel_provider_kind s)"

definition key_selection :: "selection_key \<Rightarrow> owner_selection" where
  "key_selection = (\<lambda>(kind, owner, resource, lane, provider).
     \<lparr>sel_owner_kind = kind, sel_owner_id = owner, sel_resource_id = resource, sel_lane_id = lane,
      sel_provider_kind = provider\<rparr>)"

lemma key_selection_inverse [simp]: "key_selection (selection_key s) = s"
  by (simp add: key_selection_def selection_key_def)

lemma selection_key_inverse [simp]: "selection_key (key_selection k) = k"
  by (cases k) (simp add: key_selection_def selection_key_def)

lemma selection_key_inj [simp]: "selection_key s = selection_key t \<longleftrightarrow> s = t"
  by (metis key_selection_inverse)

text \<open>\<open>slice.windows(2).all(|pair| pair[0] < pair[1])\<close>.\<close>

fun ascending_pairs :: "'a::linorder list \<Rightarrow> bool" where
  "ascending_pairs (x # y # zs) = (x < y \<and> ascending_pairs (y # zs))"
| "ascending_pairs _ = True"

lemma ascending_pairs_iff: "ascending_pairs xs \<longleftrightarrow> sorted_wrt (<) xs"
  by (induction xs rule: ascending_pairs.induct) (auto intro: less_trans)

fun contains_text :: "string \<Rightarrow> string \<Rightarrow> bool" where
  "contains_text [] p = (p = [])"
| "contains_text (c # s) p = (starts_with (c # s) p \<or> contains_text s p)"

definition owner_kinds :: "owner_kind list" where
  "owner_kinds = [Source, Processor, Route, Socket, Codec, Sink, Cleanup]"

primrec owner_kind_debug :: "owner_kind \<Rightarrow> string" where
  "owner_kind_debug Source = ''Source''"
| "owner_kind_debug Processor = ''Processor''"
| "owner_kind_debug Route = ''Route''"
| "owner_kind_debug Socket = ''Socket''"
| "owner_kind_debug Codec = ''Codec''"
| "owner_kind_debug Sink = ''Sink''"
| "owner_kind_debug Cleanup = ''Cleanup''"

primrec expected_owner_resources :: "runtime_spec \<Rightarrow> owner_kind \<Rightarrow> string list" where
  "expected_owner_resources p Source = map so_source_id (mp_sources (sp_plan p))"
| "expected_owner_resources p Processor = map pd_processor_id (sp_processors p)"
| "expected_owner_resources p Route = map tro_lane_id (mp_transport_routes (sp_plan p))"
| "expected_owner_resources p Socket = map tro_lane_id (mp_transport_routes (sp_plan p))"
| "expected_owner_resources p Codec = map la_lane_id (mp_lanes (sp_plan p))"
| "expected_owner_resources p Sink = map sk_sink_id (sp_sinks p)"
| "expected_owner_resources p Cleanup = [sp_runtime_spec_id p]"

definition remote_camera_named :: "owner_selection \<Rightarrow> bool" where
  "remote_camera_named s =
     (contains_text (sel_owner_id s) ''remote_camera'' \<or> contains_text (sel_owner_id s) ''remote-camera''
      \<or> contains_text (sel_provider_kind s) ''remote_camera''
      \<or> contains_text (sel_provider_kind s) ''remote-camera'')"

text \<open>The body of the loop over the selections, \<open>earlier\<close> being those already seen.\<close>

definition validate_selection ::
  "runtime_spec \<Rightarrow> owner_selection list \<Rightarrow> owner_selection \<Rightarrow> string list" where
  "validate_selection p earlier s =
     push_if (trim_is_empty (sel_owner_id s) \<or> trim_is_empty (sel_resource_id s)
         \<or> trim_is_empty (sel_provider_kind s))
       ''owner selections require owner, resource, and provider identities''
     @ push_if ((sel_owner_kind s, sel_resource_id s)
           \<in> set (map (\<lambda>e. (sel_owner_kind e, sel_resource_id e)) earlier))
         ''each owner kind may select a product resource exactly once''
     @ push_if (sel_owner_kind s = Cleanup
           \<and> (sel_resource_id s \<noteq> sp_runtime_spec_id p \<or> sel_lane_id s \<noteq> None))
         ''cleanup owner must bind the runtime spec and no lane''
     @ push_if (sel_owner_kind s \<noteq> Cleanup \<and> sel_lane_id s = Some [])
         ''owner lane id must not be empty''
     @ push_if (sp_compatibility_adapter_id p = None \<and> remote_camera_named s)
         ''generic media owner selections must not inherit remote-camera identities''"

primrec validate_selection_loop ::
  "runtime_spec \<Rightarrow> owner_selection list \<Rightarrow> owner_selection list \<Rightarrow> string list" where
  "validate_selection_loop p earlier [] = []"
| "validate_selection_loop p earlier (s # ss) =
     validate_selection p earlier s @ validate_selection_loop p (s # earlier) ss"

text \<open>\<open>selected.get(&kind)\<close>: absent when no selection has the kind.\<close>

definition selected_resources :: "runtime_spec \<Rightarrow> owner_kind \<Rightarrow> string set option" where
  "selected_resources p kind =
     (case filter (\<lambda>s. sel_owner_kind s = kind) (sp_owner_selections p) of
        [] \<Rightarrow> None
      | selections \<Rightarrow> Some (set (map sel_resource_id selections)))"

definition validate_media_stream_owner_selections :: "runtime_spec \<Rightarrow> string list" where
  "validate_media_stream_owner_selections p =
     push_if (\<not> ascending_pairs (map selection_key (sp_owner_selections p)))
       ''owner selections must be a strict canonical sorted set''
     @ validate_selection_loop p [] (sp_owner_selections p)
     @ concat (map (\<lambda>kind.
         push_if (selected_resources p kind \<noteq> Some (set (expected_owner_resources p kind)))
           (owner_kind_debug kind @ '' owner resources do not exactly cover the selected product''))
         owner_kinds)
     @ push_if (length (filter (\<lambda>kind. selected_resources p kind \<noteq> None) owner_kinds) \<noteq> 7)
         ''source, processor, route, socket, codec, sink, and cleanup owners are required''
     @ push_if (case sp_compatibility_adapter_id p of None \<Rightarrow> False
           | Some adapter \<Rightarrow> adapter \<noteq> ''remote_camera_compatibility'')
         ''unknown media compatibility adapter identity''"

section \<open>The order of owner actions\<close>

fun owner_action_kind_for :: "platform_operation \<Rightarrow> owner_kind \<Rightarrow> owner_action_kind" where
  "owner_action_kind_for OpStart Sink = ArmReceiver"
| "owner_action_kind_for OpStart Cleanup = ArmCleanup"
| "owner_action_kind_for OpStart _ = ActStart"
| "owner_action_kind_for OpStop Cleanup = ActCleanup"
| "owner_action_kind_for OpStop _ = ActStop"

fun owner_priority :: "platform_operation \<Rightarrow> owner_kind \<Rightarrow> nat" where
  "owner_priority OpStart Cleanup = 0"
| "owner_priority OpStart Sink = 1"
| "owner_priority OpStart Route = 2"
| "owner_priority OpStart Socket = 3"
| "owner_priority OpStart Codec = 4"
| "owner_priority OpStart Processor = 5"
| "owner_priority OpStart Source = 6"
| "owner_priority OpStop Source = 0"
| "owner_priority OpStop Processor = 1"
| "owner_priority OpStop Codec = 2"
| "owner_priority OpStop Socket = 3"
| "owner_priority OpStop Route = 4"
| "owner_priority OpStop Sink = 5"
| "owner_priority OpStop Cleanup = 6"

definition owner_action_for :: "platform_operation \<Rightarrow> owner_selection \<Rightarrow> owner_action" where
  "owner_action_for op s =
     \<lparr>oa_selection = s, oa_action_kind = owner_action_kind_for op (sel_owner_kind s)\<rparr>"

definition ordered_owner_actions ::
  "owner_selection list \<Rightarrow> platform_operation \<Rightarrow> owner_action list" where
  "ordered_owner_actions selections op =
     sort_key (\<lambda>a. (owner_priority op (sel_owner_kind (oa_selection a)), selection_key (oa_selection a)))
       (map (owner_action_for op) selections)"

section \<open>Conformance of sources and processors\<close>

record processor_receipt =
  prr_processor_id :: string
  prr_processor_kind :: string
  prr_role_shape_valid :: bool
  prr_codec_owner_external :: bool
  prr_application_policy_absent :: bool

definition role_shape_valid :: "processor_descriptor \<Rightarrow> bool" where
  "role_shape_valid d =
     (let kind = pd_processor_kind d in
      if kind = ''passthrough_h264'' then
        pd_input_track_roles d = pd_output_track_roles d \<and> length (pd_input_track_roles d) = 1
      else if kind = ''dual_lane_independent'' then
        pd_input_track_roles d = [''left'', ''right''] \<and> pd_output_track_roles d = [''left'', ''right'']
      else if kind = ''packed_sbs_left_right'' then
        pd_input_track_roles d = [''left'', ''right''] \<and> pd_output_track_roles d = [''stereo'']
        \<and> \<not> pd_cpu_pixel_copy d
      else False)"

definition validate_media_stream_processor ::
  "processor_descriptor \<Rightarrow> string + processor_receipt" where
  "validate_media_stream_processor d =
     (if \<not> role_shape_valid d \<or> pd_owns_codec d \<or> pd_application_policy_fields d \<noteq> []
      then Inl ''processor ownership or role shape is invalid''
      else Inr \<lparr>prr_processor_id = pd_processor_id d, prr_processor_kind = pd_processor_kind d,
        prr_role_shape_valid = role_shape_valid d, prr_codec_owner_external = True,
        prr_application_policy_absent = True\<rparr>)"

record source_receipt =
  srr_source_id :: string
  srr_source_kind :: string
  srr_capture_authority :: string
  srr_camera_permission_required :: bool
  srr_consent_required :: bool
  srr_permission_or_profile_bleed :: bool

definition validate_media_stream_source_conformance ::
  "session_plan \<Rightarrow> string \<Rightarrow> string list + source_receipt" where
  "validate_media_stream_source_conformance p source_id =
     and_then (validate_media_stream_session p) (\<lambda>_.
     case find (\<lambda>s. so_source_id s = source_id) (mp_sources p) of
       None \<Rightarrow> Inl [''source conformance id is unknown'']
     | Some s \<Rightarrow> Inr \<lparr>srr_source_id = so_source_id s, srr_source_kind = so_source_kind s,
         srr_capture_authority = so_capture_authority s,
         srr_camera_permission_required = (so_camera s \<noteq> None),
         srr_consent_required = so_consent_required s, srr_permission_or_profile_bleed = False\<rparr>)"

section \<open>The specification\<close>

primrec collect_unique :: "string \<Rightarrow> string list \<Rightarrow> string list \<Rightarrow> string list" where
  "collect_unique label seen [] = []"
| "collect_unique label seen (x # xs) =
     push_if (trim_is_empty x \<or> x \<in> set seen) (label @ '' must be nonempty and unique'')
     @ collect_unique label (x # seen) xs"

text \<open>The set it returns: a blank id is reported before it is inserted.\<close>

definition collected :: "string list \<Rightarrow> string list" where
  "collected xs = filter (\<lambda>x. \<not> trim_is_empty x) xs"

definition validate_sink :: "string list \<Rightarrow> sink_descriptor \<Rightarrow> string list" where
  "validate_sink devices s =
     push_if (trim_is_empty (sk_sink_kind s) \<or> sk_device_id s \<notin> set devices)
       (''sink '' @ sk_sink_id s @ '' must name a plan device and sink kind'')
     @ push_if (sk_application_policy_fields s \<noteq> [])
         (''sink '' @ sk_sink_id s @ '' contains application policy'')"

primrec validate_lane_bindings ::
  "string list \<Rightarrow> string list \<Rightarrow> string list \<Rightarrow> string list \<Rightarrow> lane_runtime_binding list \<Rightarrow> string list" where
  "validate_lane_bindings lanes sinks processors bound [] = []"
| "validate_lane_bindings lanes sinks processors bound (b # bs) =
     push_if (lb_lane_id b \<in> set bound \<or> lb_lane_id b \<notin> set lanes)
       (''lane runtime binding '' @ lb_lane_id b @ '' is duplicate or unknown'')
     @ push_if (lb_sink_id b \<notin> set sinks)
         (''lane '' @ lb_lane_id b @ '' references unknown sink'')
     @ concat (map (\<lambda>i. push_if (i \<notin> set processors)
         (''lane '' @ lb_lane_id b @ '' references unknown processor'')) (lb_processor_ids b))
     @ validate_lane_bindings lanes sinks processors (lb_lane_id b # bound) bs"

primrec validate_p2p_bindings ::
  "(string, transport_route) btree \<Rightarrow> string list \<Rightarrow> p2p_binding list \<Rightarrow> string list" where
  "validate_p2p_bindings routes seen [] = []"
| "validate_p2p_bindings routes seen (b # bs) =
     push_if (pb_lane_id b \<in> set seen) ''direct-P2P lane binding is duplicated''
     @ push_if (case bt_get routes (pb_lane_id b) of None \<Rightarrow> True
           | Some r \<Rightarrow> \<not> (tro_connect_host r = pp_peer_host (pb_route b)
                         \<and> tro_connect_port r = pp_peer_port (pb_route b)))
         (''direct-P2P route for lane '' @ pb_lane_id b @ '' must match the plan peer endpoint'')
     @ (case validate_direct_p2p_socket_route (pb_route b) of Inl errors \<Rightarrow> errors | Inr _ \<Rightarrow> [])
     @ validate_p2p_bindings routes (pb_lane_id b # seen) bs"

definition runtime_spec_errors :: "runtime_spec \<Rightarrow> string list" where
  "runtime_spec_errors p =
     (let plan = sp_plan p;
          processors = map pd_processor_id (sp_processors p);
          sinks = map sk_sink_id (sp_sinks p);
          lanes = map la_lane_id (mp_lanes plan) in
      push_if (sp_spec_schema p \<noteq> runtime_spec_schema) ''unsupported media runtime spec schema''
      @ push_if (trim_is_empty (sp_runtime_spec_id p) \<or> sp_manifold_session_revision p = 0)
          ''runtime spec requires identity and an accepted Manifold decision revision''
      @ (case validate_media_stream_session plan of Inl errors \<Rightarrow> errors | Inr _ \<Rightarrow> [])
      @ collect_unique ''processor_id'' [] processors
      @ concat (map (\<lambda>d. push_if (\<not> is_ok (validate_media_stream_processor d))
          (''processor '' @ pd_processor_id d @ '' failed conformance'')) (sp_processors p))
      @ collect_unique ''sink_id'' [] sinks
      @ concat (map (validate_sink (map dv_device_id (mp_devices plan))) (sp_sinks p))
      @ validate_lane_bindings lanes (collected sinks) (collected processors) [] (sp_lane_bindings p)
      @ push_if (length (remdups (map lb_lane_id (sp_lane_bindings p))) \<noteq> length (remdups lanes))
          ''every media lane requires exactly one runtime binding''
      @ validate_p2p_bindings (collect_by tro_lane_id (mp_transport_routes plan)) []
          (sp_direct_p2p_routes p)
      @ validate_media_stream_owner_selections p)"

definition validate_media_stream_runtime_spec :: "runtime_spec \<Rightarrow> string list + unit" where
  "validate_media_stream_runtime_spec p = errors_result (runtime_spec_errors p)"

end
