(* ===== verification/Media_Lifecycle.thy ===== *)
theory Media_Lifecycle
  imports Media_Spec
begin

text \<open>
  The platform lifecycle of a media session: \<open>MediaStreamSessionRuntime\<close> and
  \<open>review_media_stream_runtime_request\<close> of \<open>crates/rusty-quest-media-stream/src/runtime.rs\<close>. A
  request names the revision it expects; an accepted one advances the revision by one and is
  never accepted again.
\<close>

section \<open>State and requests\<close>

datatype runtime_phase = Planned | ReceiversArmed | SourcesStarted | Streaming | Stopped

datatype runtime_action = ArmReceivers | StartSources | ConfirmStreaming | StopRuntime

record runtime_state =
  ls_schema :: string
  ls_runtime_spec_id :: string
  ls_runtime_revision :: u64
  ls_phase :: runtime_phase
  ls_applied_request_ids :: "string list"

record runtime_evidence =
  le_receivers_armed :: bool
  le_sources_started :: bool
  le_received_media_frames :: u64
  le_cleanup_complete :: bool

definition no_evidence :: runtime_evidence where
  "no_evidence = \<lparr>le_receivers_armed = False, le_sources_started = False,
     le_received_media_frames = 0, le_cleanup_complete = False\<rparr>"

record runtime_request =
  lr_request_id :: string
  lr_expected_runtime_revision :: u64
  lr_action :: runtime_action
  lr_evidence :: runtime_evidence

record runtime_decision =
  ld_schema :: string
  ld_request_id :: string
  ld_decision_owner :: string
  ld_accepted :: bool
  ld_applied :: bool
  ld_rejection_reason :: "string option"
  ld_prior_runtime_revision :: u64
  ld_resulting_runtime_revision :: u64
  ld_resulting_phase :: runtime_phase

definition runtime_state_schema :: string where
  "runtime_state_schema = ''rusty.quest.media_stream_runtime_state.v1''"

definition runtime_decision_schema :: string where
  "runtime_decision_schema = ''rusty.quest.media_stream_runtime_decision.v1''"

definition runtime_authority :: string where
  "runtime_authority = ''rusty_quest_media_stream_session_runtime''"

section \<open>Review\<close>

definition transition_rejection ::
  "runtime_phase \<Rightarrow> runtime_action \<Rightarrow> runtime_evidence \<Rightarrow> string option" where
  "transition_rejection phase action evidence =
     (if phase = Planned \<and> action = ArmReceivers \<and> le_receivers_armed evidence then None
      else if phase = ReceiversArmed \<and> action = StartSources \<and> le_sources_started evidence then None
      else if phase = SourcesStarted \<and> action = ConfirmStreaming
          \<and> 0 < le_received_media_frames evidence then None
      else if action = StopRuntime \<and> phase \<noteq> Stopped \<and> le_cleanup_complete evidence then None
      else Some (case action of
          StartSources \<Rightarrow> ''receivers_not_armed''
        | ConfirmStreaming \<Rightarrow> ''media_not_observed''
        | StopRuntime \<Rightarrow> ''cleanup_incomplete''
        | ArmReceivers \<Rightarrow> ''invalid_phase_transition''))"

definition request_rejection :: "runtime_state \<Rightarrow> runtime_request \<Rightarrow> string option" where
  "request_rejection state request =
     (if trim_is_empty (lr_request_id request) then Some ''missing_request_id''
      else if ls_runtime_revision state = - 1 then Some ''runtime_revision_exhausted''
      else if lr_expected_runtime_revision request \<noteq> ls_runtime_revision state
        then Some ''stale_runtime_revision''
      else if lr_request_id request \<in> set (ls_applied_request_ids state) then Some ''replayed_request''
      else transition_rejection (ls_phase state) (lr_action request) (lr_evidence request))"

primrec action_phase :: "runtime_action \<Rightarrow> runtime_phase" where
  "action_phase ArmReceivers = ReceiversArmed"
| "action_phase StartSources = SourcesStarted"
| "action_phase ConfirmStreaming = Streaming"
| "action_phase StopRuntime = Stopped"

definition review_media_stream_runtime_request ::
  "runtime_state \<Rightarrow> runtime_request \<Rightarrow> runtime_decision" where
  "review_media_stream_runtime_request state request =
     (let rejection = request_rejection state request in
      \<lparr>ld_schema = runtime_decision_schema, ld_request_id = lr_request_id request,
       ld_decision_owner = runtime_authority, ld_accepted = (rejection = None), ld_applied = False,
       ld_rejection_reason = rejection, ld_prior_runtime_revision = ls_runtime_revision state,
       ld_resulting_runtime_revision =
         ls_runtime_revision state + (if rejection = None then 1 else 0),
       ld_resulting_phase =
         (if rejection \<noteq> None then ls_phase state else action_phase (lr_action request))\<rparr>)"

section \<open>The runtime\<close>

record session_runtime =
  sr_spec :: runtime_spec
  sr_state :: runtime_state

definition session_runtime_new :: "runtime_spec \<Rightarrow> string list + session_runtime" where
  "session_runtime_new p =
     and_then (validate_media_stream_runtime_spec p) (\<lambda>_.
     Inr \<lparr>sr_spec = p, sr_state = \<lparr>ls_schema = runtime_state_schema,
       ls_runtime_spec_id = sp_runtime_spec_id p, ls_runtime_revision = 1, ls_phase = Planned,
       ls_applied_request_ids = []\<rparr>\<rparr>)"

definition restore_cleanup_state ::
  "runtime_spec \<Rightarrow> runtime_state \<Rightarrow> string list + session_runtime" where
  "restore_cleanup_state p state =
     and_then (validate_media_stream_runtime_spec p) (\<lambda>_.
     if ls_schema state \<noteq> runtime_state_schema
        \<or> ls_runtime_spec_id state \<noteq> sp_runtime_spec_id p
        \<or> ls_runtime_revision state = 0
        \<or> list_ex trim_is_empty (ls_applied_request_ids state)
        \<or> length (ls_applied_request_ids state) \<noteq> length (remdups (ls_applied_request_ids state))
     then Inl [''media recovery lifecycle state is malformed'']
     else Inr \<lparr>sr_spec = p, sr_state = state\<rparr>)"

definition runtime_execute ::
  "runtime_request \<Rightarrow> session_runtime \<Rightarrow> runtime_decision \<times> session_runtime" where
  "runtime_execute request r =
     (let decision = review_media_stream_runtime_request (sr_state r) request in
      if ld_accepted decision
      then (decision\<lparr>ld_applied := True\<rparr>,
            r\<lparr>sr_state := (sr_state r)
              \<lparr>ls_runtime_revision := ld_resulting_runtime_revision decision,
               ls_phase := ld_resulting_phase decision,
               ls_applied_request_ids := ls_applied_request_ids (sr_state r) @ [lr_request_id request]\<rparr>\<rparr>)
      else (decision, r))"

section \<open>Lifecycle facts\<close>

primrec phase_rank :: "runtime_phase \<Rightarrow> nat" where
  "phase_rank Planned = 0"
| "phase_rank ReceiversArmed = 1"
| "phase_rank SourcesStarted = 2"
| "phase_rank Streaming = 3"
| "phase_rank Stopped = 4"

definition lifecycle_wf :: "runtime_state \<Rightarrow> bool" where
  "lifecycle_wf s =
     (unat (ls_runtime_revision s) = Suc (length (ls_applied_request_ids s))
      \<and> distinct (ls_applied_request_ids s)
      \<and> list_all (\<lambda>i. \<not> trim_is_empty i) (ls_applied_request_ids s)
      \<and> (ls_phase s \<noteq> Stopped \<longrightarrow> phase_rank (ls_phase s) = length (ls_applied_request_ids s))
      \<and> (ls_phase s = Stopped \<longrightarrow> 1 \<le> length (ls_applied_request_ids s)
            \<and> length (ls_applied_request_ids s) \<le> 4))"

lemma session_runtime_new_wf: "session_runtime_new p = Inr r \<Longrightarrow> lifecycle_wf (sr_state r)"
  by (auto simp: session_runtime_new_def result_simps lifecycle_wf_def)

lemma transition_forward:
  "transition_rejection phase action evidence = None \<Longrightarrow>
     phase \<noteq> Stopped \<and> phase_rank phase < phase_rank (action_phase action)
     \<and> (action \<noteq> StopRuntime \<longrightarrow> phase_rank (action_phase action) = Suc (phase_rank phase))"
  by (cases phase; cases action) (simp_all add: transition_rejection_def split: if_splits)

lemma review_accepted:
  "ld_accepted (review_media_stream_runtime_request s q) \<longleftrightarrow> request_rejection s q = None"
  by (simp add: review_media_stream_runtime_request_def Let_def)

lemma request_accepted_iff:
  "request_rejection s q = None \<longleftrightarrow>
     \<not> trim_is_empty (lr_request_id q) \<and> ls_runtime_revision s \<noteq> - 1
     \<and> lr_expected_runtime_revision q = ls_runtime_revision s
     \<and> lr_request_id q \<notin> set (ls_applied_request_ids s)
     \<and> transition_rejection (ls_phase s) (lr_action q) (lr_evidence q) = None"
  by (simp add: request_rejection_def)

lemma runtime_execute_cases:
  obtains (rejected) "snd (runtime_execute q r) = r" "\<not> ld_accepted (fst (runtime_execute q r))"
    "\<not> ld_applied (fst (runtime_execute q r))"
  | (accepted) "request_rejection (sr_state r) q = None"
    "ld_accepted (fst (runtime_execute q r))" "ld_applied (fst (runtime_execute q r))"
    "snd (runtime_execute q r) = r\<lparr>sr_state := (sr_state r)
       \<lparr>ls_runtime_revision := ls_runtime_revision (sr_state r) + 1,
        ls_phase := action_phase (lr_action q),
        ls_applied_request_ids := ls_applied_request_ids (sr_state r) @ [lr_request_id q]\<rparr>\<rparr>"
  by (cases "request_rejection (sr_state r) q = None")
    (auto simp: runtime_execute_def review_media_stream_runtime_request_def Let_def)

lemma unat_next_revision: "(v :: u64) \<noteq> - 1 \<Longrightarrow> unat (v + 1) = Suc (unat v)"
  by (metis add.commute unatSuc add_eq_0_iff add.inverse_inverse)

lemma lifecycle_wf_execute:
  assumes "lifecycle_wf (sr_state r)"
  shows "lifecycle_wf (sr_state (snd (runtime_execute q r)))"
proof (cases q r rule: runtime_execute_cases)
  case accepted
  let ?s = "sr_state r"
  have revision: "unat (ls_runtime_revision ?s + 1) = Suc (unat (ls_runtime_revision ?s))"
    using accepted(1) by (simp add: request_accepted_iff unat_next_revision)
  have forward: "ls_phase ?s \<noteq> Stopped"
    "phase_rank (ls_phase ?s) < phase_rank (action_phase (lr_action q))"
    "lr_action q \<noteq> StopRuntime \<Longrightarrow>
       phase_rank (action_phase (lr_action q)) = Suc (phase_rank (ls_phase ?s))"
    using accepted(1) transition_forward [of "ls_phase ?s" "lr_action q" "lr_evidence q"]
    by (simp_all add: request_accepted_iff)
  have short: "phase_rank (ls_phase ?s) < 4"
    using forward(1) by (cases "ls_phase ?s") simp_all
  have "action_phase (lr_action q) = Stopped \<longleftrightarrow> lr_action q = StopRuntime"
    by (cases "lr_action q") simp_all
  with assms accepted revision forward short show ?thesis
    by (auto simp: lifecycle_wf_def request_accepted_iff)
qed (use assms in simp)

end
