(* ===== verification/Product_Types.thy ===== *)
theory Product_Types
  imports Media_Lifecycle Json_Value Exactly_Once
begin

text \<open>
  The data of the media product runtime
  (\<open>crates/rusty-quest-media-stream/src/product_runtime.rs\<close>). The types of the Rusty Manifold
  crates are not in the repository: they are records of the fields the source reads, with their
  remaining content in type parameters (\<open>'b\<close> for a product binding, \<open>'l\<close> for a control lease), and
  the functions of those crates are the fields of \<open>product_externals\<close>.
\<close>

section \<open>Accepted media sessions\<close>

datatype session_status = StatusCurrent | StatusRevoked | StatusOther string

record session_descriptor =
  sd_session_id :: string
  sd_authority_revision :: u64
  sd_platform_runtime_spec_id :: string
  sd_source_ids :: "string list"
  sd_processor_ids :: "string list"
  sd_route_ids :: "string list"
  sd_sink_ids :: "string list"
  sd_stream_ids :: "string list"

record 'b session_product =
  sn_descriptor :: session_descriptor
  sn_descriptor_canonical_sha256 :: string
  sn_rest :: 'b

record 'b accepted_session =
  ac_schema_id :: string
  ac_decision_id :: string
  ac_request_id :: string
  ac_session_id :: string
  ac_session_authority_revision :: u64
  ac_product_descriptor_canonical_sha256 :: string
  ac_provider_epoch_id :: string
  ac_platform_runtime_spec_id :: string
  ac_product_id :: string
  ac_feature_lock_id :: string
  ac_feature_lock_fingerprint :: string
  ac_capability_id :: string
  ac_admission_grant_id :: string
  ac_runtime_authority_host_id :: string
  ac_runtime_command_request_id :: string
  ac_runtime_command_id :: string
  ac_runtime_client_id :: string
  ac_runtime_lease_id :: string
  ac_runtime_params_digest :: string
  ac_runtime_dispatch_id :: string
  ac_runtime_application_receipt_id :: string
  ac_runtime_resulting_authority_revision :: u64
  ac_accepted_at_ms :: u64
  ac_expires_at_ms :: u64
  ac_product_binding :: "'b session_product"
  ac_lifecycle_status :: session_status
  ac_ended_by_id :: "string option"

record 'b current_receipt =
  cu_receipt_schema_id :: string
  cu_decision_id :: string
  cu_session :: "'b accepted_session option"
  cu_current :: bool
  cu_rejection_reason :: "string option"
  cu_acceptance_state_authority_revision :: u64
  cu_validated_at_ms :: u64

record 'b renewal_receipt =
  rn_applied :: bool
  rn_request_id :: string
  rn_provider_epoch_id :: string
  rn_prior_media :: "'b accepted_session"
  rn_renewed_media :: "'b accepted_session"

section \<open>Trusted revokers\<close>

record 'l revoker_adoption =
  ra_provider_epoch_id :: string
  ra_revoker_id :: string
  ra_adoption_applied :: bool
  ra_adoption_id :: string
  ra_lease :: 'l

datatype termination_action = Revoke | OtherTermination string

record termination_request =
  tq_request_id :: string
  tq_action :: termination_action
  tq_decision_id :: string
  tq_session_id :: string
  tq_expected_provider_epoch_id :: string

record termination_receipt =
  tm_applied :: bool
  tm_source_id :: string

record 'l revoker_evidence =
  re_adoption :: "'l revoker_adoption"
  re_cleanup_requester_adoption :: "'l revoker_adoption option"
  re_request :: termination_request
  re_termination :: termination_receipt

type_synonym 'l product_action = "'l revoker_evidence platform_action"

record audit_event =
  ad_media_session_termination :: bool
  ad_source_id :: string
  ad_applied :: bool

section \<open>Receipts, snapshots and the runtime\<close>

record product_binding =
  bd_schema_id :: string
  bd_spec :: runtime_spec
  bd_runtime_spec_canonical_sha256 :: string

record completion_receipt =
  cm_selection :: owner_selection
  cm_action_kind :: owner_action_kind
  cm_receipt_id :: string
  cm_completion_sequence :: u32
  cm_provider_handle_id :: string
  cm_provider_state_revision :: u64
  cm_observed_state :: string

record provider_handle =
  ph_selection :: owner_selection
  ph_provider_handle_id :: string
  ph_provider_state_revision :: u64

record 'l completed_abort =
  cb_schema_id :: string
  cb_original_action :: "'l product_action"
  cb_started_receipts :: "completion_receipt list"
  cb_uncertain_owner :: "owner_action option"
  cb_rollback_action :: "'l product_action"
  cb_rollback_receipts :: "completion_receipt list"

record ('b, 'l) recovery_snapshot =
  rv_schema_id :: string
  rv_binding :: product_binding
  rv_accepted_subject :: "'b current_receipt"
  rv_provider_epoch_id :: string
  rv_lifecycle :: runtime_state
  rv_pending_action :: "'l product_action option"
  rv_pending_owner_receipts :: "completion_receipt list"
  rv_pending_uncertain_owner :: "owner_action option"
  rv_pending_abort_receipts :: "completion_receipt list"
  rv_pending_abort_uncertain_owner :: "owner_action option"
  rv_abort_in_progress :: bool
  rv_active_provider_handles :: "provider_handle list"
  rv_active_start_receipts :: "completion_receipt list"
  rv_active_start_action :: "'l product_action option"
  rv_active_client_authority :: "client_authority option"
  rv_applied_action_ids :: "string list"
  rv_aborted_action_ids :: "string list"
  rv_completed_start_abort :: "'l completed_abort option"

text \<open>
  The runtime's handles on shared objects are the names under which an operation's environment
  reads them. Two fields observe the outside: what the recovery journal's store holds, and the
  provider calls made so far, each with what the store held when it was made.
\<close>

record authority_source =
  sa_host :: nat
  sa_broker :: "nat option"
  sa_decision_id :: string

datatype 'l provider_call =
    ExecuteCall "'l product_action" owner_action
  | CompensateCall "'l product_action" owner_action

record ('b, 'l) product_runtime =
  pm_binding :: product_binding
  pm_current_acceptance :: "'b current_receipt"
  pm_authority :: authority_source
  pm_authority_epoch_id :: string
  pm_runtime :: session_runtime
  pm_pending_action :: "'l product_action option"
  pm_pending_owner_receipts :: "completion_receipt list"
  pm_pending_uncertain_owner :: "owner_action option"
  pm_pending_abort_receipts :: "completion_receipt list"
  pm_pending_abort_uncertain_owner :: "owner_action option"
  pm_abort_in_progress :: bool
  pm_active_provider_handles :: "(selection_key, string \<times> u64) btree"
  pm_active_start_receipts :: "completion_receipt list"
  pm_active_start_action :: "'l product_action option"
  pm_active_client_authority :: "client_authority option"
  pm_applied_action_ids :: "string list"
  pm_aborted_action_ids :: "string list"
  pm_completed_start_abort :: "'l completed_abort option"
  pm_cleanup_only_after_restore :: bool
  pm_recovery_receipts_revalidated :: bool
  pm_recovery_journal :: bool
  pm_recovery_journal_poisoned :: bool
  pm_durable :: "('b, 'l) recovery_snapshot option"
  pm_calls :: "('l provider_call \<times> ('b, 'l) recovery_snapshot option) list"

datatype product_error =
    BindingSchemaMismatch | RuntimeSpecInvalid "string list" | Encode | RuntimeSpecDigestMismatch
  | InvalidDescriptorDigest | AcceptedSessionMismatch | AcceptedProviderEpochMismatch
  | AcceptedSessionNotCurrent | AcceptedSessionSuperseded | MissingAuthorityEpoch
  | AuthorityProviderUnavailable | MissingActionId | MissingClientAuthority
  | ClientAuthorityMismatch | ReplayedAction | PendingActionExists | AbortInProgress
  | UncertainOwnerAttemptPending | NoUncertainOwnerAttempt | AbortRequiresPendingStart
  | AbortCallbacksIncomplete | NoPendingAction | TerminalRuntime | RecoveryStartForbidden
  | RecoveryRequiresTargetedStop | RecoverySnapshotInvalid | RecoveryReceiptsUnverified
  | RecoveryJournalUnavailable | InvalidOperationPhase | CompletionSchemaMismatch
  | CompletionBindingMismatch | OwnerCompletionMismatch | OwnerCallbackOrderMismatch
  | OwnerReadbackMismatch | OwnerProviderMismatch | OwnerProviderFailed
  | OwnerHandleLifecycleMismatch | OwnerCallbacksIncomplete | ReceiverFirstViolation
  | CleanupOrderViolation | LifecycleRejected

record application_receipt =
  ax_schema_id :: string
  ax_action_id :: string
  ax_authority_epoch_id :: string
  ax_media_acceptance_authority_revision :: u64
  ax_platform_effect_completed :: bool
  ax_resulting_runtime_revision :: u64
  ax_resulting_phase :: runtime_phase
  ax_lifecycle_decisions :: "runtime_decision list"
  ax_owner_receipt_ids :: "string list"

record abort_receipt =
  bx_schema_id :: string
  bx_action_id :: string
  bx_abort_action_id :: string
  bx_authority_epoch_id :: string
  bx_client_authority :: client_authority
  bx_rollback_receipts :: "completion_receipt list"
  bx_uncertain_attempts_compensated :: u32
  bx_cleanup_complete :: bool
  bx_platform_effect_completed :: bool
  bx_resulting_phase :: runtime_phase
  bx_resulting_runtime_revision :: u64

record 'b adoption_receipt =
  dx_schema_id :: string
  dx_owner_request_id :: string
  dx_current_acceptance :: "'b current_receipt"
  dx_prior_physical_graph_sha256 :: string
  dx_physical_graph_sha256 :: string

record cleanup_cursor =
  cc_original_action_id :: string
  cc_authority_epoch_id :: string
  cc_target_client_authority :: client_authority
  cc_owner :: owner_action
  cc_sequence :: u32
  cc_partial_start_abort :: bool
  cc_uncertain_attempt :: bool

record stop_progress =
  st_verified_owner_receipts :: "completion_receipt list"
  st_uncertain_owner :: "owner_action option"

section \<open>What the code outside the repository answers\<close>

record ('h, 'r, 'b, 'l, 'n) product_externals =
  px_validate_media_session :: "'h \<Rightarrow> string \<Rightarrow> u64 \<Rightarrow> 'b current_receipt"
  px_validate_with_live_broker :: "'h \<Rightarrow> 'r \<Rightarrow> string \<Rightarrow> u64 \<Rightarrow> 'b current_receipt option"
  px_validate_owned_state :: "'h \<Rightarrow> 'r \<Rightarrow> bool"
  px_provider_epoch_id :: "'h \<Rightarrow> string"
  px_concurrent_media_renewals :: "'h \<Rightarrow> 'b renewal_receipt list"
  px_reviewed_adoption_ids :: "'h \<Rightarrow> string list"
  px_leases :: "'h \<Rightarrow> 'l list"
  px_trusted_media_revoker_ids :: "'h \<Rightarrow> string list"
  px_audit_events :: "'h \<Rightarrow> audit_event list"
  px_lease_derivative :: "'l \<Rightarrow> bool"
  px_lease_expires_at_ms :: "'l \<Rightarrow> u64"
  px_product_binding_valid :: "'b session_product \<Rightarrow> bool"
  px_spec_to_vec :: "runtime_spec \<Rightarrow> bytes option"
  px_snapshot_to_value :: "('b, 'l) recovery_snapshot \<Rightarrow> 'n json option"
  px_value_to_vec :: "'n json \<Rightarrow> bytes option"
  px_snapshot_to_vec :: "('b, 'l) recovery_snapshot \<Rightarrow> bytes option"
  px_snapshot_from_str :: "string \<Rightarrow> ('b, 'l) recovery_snapshot option"
  px_sha256 :: "bytes \<Rightarrow> bytes"

text \<open>
  What one operation meets: the shared objects as their locks give them (\<open>None\<close> for a poisoned
  lock), and the outcome of a commit of the recovery journal.
\<close>

record ('h, 'r, 'b, 'l) product_env =
  ev_host :: "nat \<Rightarrow> 'h option"
  ev_broker :: "nat \<Rightarrow> 'r option"
  ev_commit :: "('b, 'l) recovery_snapshot \<Rightarrow> commit_outcome"

record 'l owner_provider =
  pv_owner_kind :: owner_kind
  pv_execute_and_readback :: "'l product_action \<Rightarrow> owner_action \<Rightarrow> owner_provider_readback option"
  pv_compensate_uncertain_attempt ::
    "'l product_action \<Rightarrow> owner_action \<Rightarrow> owner_provider_readback option"
  pv_verify_readback :: "'l product_action \<Rightarrow> owner_action \<Rightarrow> owner_provider_readback \<Rightarrow> bool"

end
