(* ===== verification/Product_Rules.thy ===== *)
theory Product_Rules
  imports Product_Types
begin

text \<open>
  The pure checks of \<open>crates/rusty-quest-media-stream/src/product_runtime.rs\<close>: the binding of a
  specification to its digest, the currency of an accepted session, the completions of an
  action's owners, the rollback of a partial start, and the consistency of a recovery snapshot.
\<close>

section \<open>Bindings and digests\<close>

definition product_binding_schema :: string where
  "product_binding_schema = ''rusty.quest.media_stream_runtime_product_binding.v1''"

definition platform_action_schema :: string where
  "platform_action_schema = ''rusty.quest.media_stream_platform_action.v1''"

definition product_recovery_schema :: string where
  "product_recovery_schema = ''rusty.quest.media_stream_product_recovery.v1''"

definition abort_recovery_schema :: string where
  "abort_recovery_schema = ''rusty.quest.media_stream_product_recovery.v2''"

definition completed_abort_schema :: string where
  "completed_abort_schema = ''rusty.quest.media_stream.completed_start_abort.v1''"

definition max_recovery_bytes :: nat where
  "max_recovery_bytes = 1024 * 1024"

definition canonical_media_stream_runtime_sha256 ::
  "('h, 'r, 'b, 'l, 'n) product_externals \<Rightarrow> runtime_spec \<Rightarrow> product_error + string" where
  "canonical_media_stream_runtime_sha256 x p =
     and_then (ok_or Encode (px_spec_to_vec x p)) (\<lambda>canonical.
     Inr (''sha256:'' @ lower_hex (px_sha256 x canonical)))"

definition product_binding_validate ::
  "('h, 'r, 'b, 'l, 'n) product_externals \<Rightarrow> product_binding \<Rightarrow> product_error + unit" where
  "product_binding_validate x b =
     and_then (reject_if (bd_schema_id b \<noteq> product_binding_schema) BindingSchemaMismatch) (\<lambda>_.
     and_then (map_err RuntimeSpecInvalid (validate_media_stream_runtime_spec (bd_spec b))) (\<lambda>_.
     and_then (canonical_media_stream_runtime_sha256 x (bd_spec b)) (\<lambda>expected.
     reject_if (bd_runtime_spec_canonical_sha256 b \<noteq> expected) RuntimeSpecDigestMismatch)))"

definition validate_sha256 :: "string \<Rightarrow> product_error + unit" where
  "validate_sha256 s =
     (case strip_prefix ''sha256:'' s of
        None \<Rightarrow> Inl InvalidDescriptorDigest
      | Some hex \<Rightarrow> reject_if (length hex \<noteq> 64 \<or> \<not> list_all is_lower_hex hex) InvalidDescriptorDigest)"

section \<open>Accepted sessions\<close>

definition same_session_holder :: "client_authority \<Rightarrow> client_authority \<Rightarrow> bool" where
  "same_session_holder active candidate =
     (ca_client_id active = ca_client_id candidate
      \<and> ca_lease_id active = ca_lease_id candidate
      \<and> ca_product_id active = ca_product_id candidate
      \<and> ca_feature_lock_id active = ca_feature_lock_id candidate
      \<and> ca_feature_lock_fingerprint active = ca_feature_lock_fingerprint candidate
      \<and> ca_session_capability_id active = ca_session_capability_id candidate
      \<and> ca_session_admission_grant_id active = ca_session_admission_grant_id candidate)"

definition same_accepted_subject :: "'b accepted_session \<Rightarrow> 'b accepted_session \<Rightarrow> bool" where
  "same_accepted_subject current prior =
     (ac_schema_id current = ac_schema_id prior
      \<and> ac_decision_id current = ac_decision_id prior
      \<and> ac_request_id current = ac_request_id prior
      \<and> ac_session_id current = ac_session_id prior
      \<and> ac_session_authority_revision current = ac_session_authority_revision prior
      \<and> ac_product_descriptor_canonical_sha256 current = ac_product_descriptor_canonical_sha256 prior
      \<and> ac_provider_epoch_id current = ac_provider_epoch_id prior
      \<and> ac_platform_runtime_spec_id current = ac_platform_runtime_spec_id prior
      \<and> ac_product_id current = ac_product_id prior
      \<and> ac_feature_lock_id current = ac_feature_lock_id prior
      \<and> ac_feature_lock_fingerprint current = ac_feature_lock_fingerprint prior
      \<and> ac_capability_id current = ac_capability_id prior
      \<and> ac_admission_grant_id current = ac_admission_grant_id prior
      \<and> ac_runtime_authority_host_id current = ac_runtime_authority_host_id prior
      \<and> ac_runtime_command_request_id current = ac_runtime_command_request_id prior
      \<and> ac_runtime_command_id current = ac_runtime_command_id prior
      \<and> ac_runtime_client_id current = ac_runtime_client_id prior
      \<and> ac_runtime_lease_id current = ac_runtime_lease_id prior
      \<and> ac_runtime_params_digest current = ac_runtime_params_digest prior
      \<and> ac_runtime_dispatch_id current = ac_runtime_dispatch_id prior
      \<and> ac_runtime_application_receipt_id current = ac_runtime_application_receipt_id prior
      \<and> ac_runtime_resulting_authority_revision current = ac_runtime_resulting_authority_revision prior
      \<and> ac_accepted_at_ms current = ac_accepted_at_ms prior
      \<and> ac_expires_at_ms current = ac_expires_at_ms prior
      \<and> ac_product_binding current = ac_product_binding prior)"

text \<open>The two schema constants are defined by the Manifold crates; their values are parameters.\<close>

record manifold_schemas =
  mx_current_receipt_schema :: string
  mx_accepted_session_schema :: string

definition exact_session ::
  "manifold_schemas \<Rightarrow> runtime_spec \<Rightarrow> 'b accepted_session \<Rightarrow> string \<Rightarrow> bool" where
  "exact_session mx p accepted live_provider_epoch_id =
     (let descriptor = sn_descriptor (ac_product_binding accepted) in
      ac_schema_id accepted = mx_accepted_session_schema mx
      \<and> \<not> trim_is_empty (ac_decision_id accepted)
      \<and> ac_session_id accepted = sd_session_id descriptor
      \<and> ac_session_id accepted = mp_session_id (sp_plan p)
      \<and> ac_session_authority_revision accepted = sd_authority_revision descriptor
      \<and> ac_session_authority_revision accepted = sp_manifold_session_revision p
      \<and> ac_product_descriptor_canonical_sha256 accepted
          = sn_descriptor_canonical_sha256 (ac_product_binding accepted)
      \<and> ac_platform_runtime_spec_id accepted = sd_platform_runtime_spec_id descriptor
      \<and> ac_platform_runtime_spec_id accepted = sp_runtime_spec_id p
      \<and> ac_provider_epoch_id accepted = live_provider_epoch_id
      \<and> \<not> trim_is_empty (ac_runtime_client_id accepted)
      \<and> \<not> trim_is_empty (ac_runtime_lease_id accepted)
      \<and> sd_source_ids descriptor = map so_source_id (mp_sources (sp_plan p))
      \<and> sd_processor_ids descriptor = map pd_processor_id (sp_processors p)
      \<and> sd_route_ids descriptor = map tro_lane_id (mp_transport_routes (sp_plan p))
      \<and> sd_sink_ids descriptor = map sk_sink_id (sp_sinks p)
      \<and> sd_stream_ids descriptor = map (\<lambda>l. mc_track_id (la_media l)) (mp_lanes (sp_plan p)))"

definition supersedes_prior ::
  "'b current_receipt \<Rightarrow> 'b accepted_session \<Rightarrow> 'b current_receipt option \<Rightarrow> product_error + unit" where
  "supersedes_prior current accepted prior =
     (case prior of
        None \<Rightarrow> Inr ()
      | Some prior \<Rightarrow>
          and_then (ok_or AcceptedSessionSuperseded (cu_session prior)) (\<lambda>prior_session.
          reject_if (cu_acceptance_state_authority_revision current
                < cu_acceptance_state_authority_revision prior
              \<or> cu_decision_id current \<noteq> cu_decision_id prior
              \<or> \<not> same_accepted_subject accepted prior_session) AcceptedSessionSuperseded))"

definition validate_current_acceptance ::
  "('h, 'r, 'b, 'l, 'n) product_externals \<Rightarrow> manifold_schemas \<Rightarrow> product_binding \<Rightarrow> 'b current_receipt
     \<Rightarrow> string \<Rightarrow> u64 \<Rightarrow> bool \<Rightarrow> 'b current_receipt option \<Rightarrow> product_error + unit" where
  "validate_current_acceptance x mx b current live_provider_epoch_id now_ms require_current prior =
     and_then (reject_if (cu_receipt_schema_id current \<noteq> mx_current_receipt_schema mx
         \<or> cu_acceptance_state_authority_revision current = 0
         \<or> cu_validated_at_ms current \<noteq> now_ms) AcceptedSessionNotCurrent) (\<lambda>_.
     and_then (ok_or AcceptedSessionNotCurrent (cu_session current)) (\<lambda>accepted.
     and_then (reject_if (cu_decision_id current \<noteq> ac_decision_id accepted
         \<or> ac_provider_epoch_id accepted \<noteq> live_provider_epoch_id
         \<or> now_ms < ac_accepted_at_ms accepted) AcceptedSessionNotCurrent) (\<lambda>_.
     and_then (reject_if (require_current
         \<and> (\<not> cu_current current \<or> cu_rejection_reason current \<noteq> None
            \<or> ac_lifecycle_status accepted \<noteq> StatusCurrent
            \<or> ac_expires_at_ms accepted \<le> now_ms)) AcceptedSessionNotCurrent) (\<lambda>_.
     and_then (supersedes_prior current accepted prior) (\<lambda>_.
     and_then (reject_if (\<not> px_product_binding_valid x (ac_product_binding accepted))
         AcceptedSessionMismatch) (\<lambda>_.
     and_then (validate_sha256 (ac_product_descriptor_canonical_sha256 accepted)) (\<lambda>_.
     reject_if (\<not> exact_session mx (bd_spec b) accepted live_provider_epoch_id)
       AcceptedSessionMismatch)))))))"

section \<open>Owner completions\<close>

primrec expected_provider_state :: "owner_action_kind \<Rightarrow> string" where
  "expected_provider_state ArmReceiver = ''receiver_armed''"
| "expected_provider_state ArmCleanup = ''cleanup_armed''"
| "expected_provider_state ActStart = ''started''"
| "expected_provider_state ActStop = ''stopped''"
| "expected_provider_state ActCleanup = ''cleaned''"

definition u32_of_len :: "nat \<Rightarrow> u32 option" where
  "u32_of_len n = (if n < 2 ^ 32 then Some (of_nat n) else None)"

definition u32_or_max :: "nat \<Rightarrow> u32" where
  "u32_or_max n = (case u32_of_len n of Some k \<Rightarrow> k | None \<Rightarrow> - 1)"

text \<open>
  One step of the loops over an action's owners and their receipts: \<open>ids\<close> and \<open>handles\<close> are the
  receipt ids and handles seen before, \<open>index\<close> the position.
\<close>

definition receipt_fits ::
  "owner_action \<Rightarrow> completion_receipt \<Rightarrow> nat \<Rightarrow> string list \<Rightarrow> string list \<Rightarrow> bool" where
  "receipt_fits expected r index ids handles =
     (cm_selection r = oa_selection expected
      \<and> cm_action_kind r = oa_action_kind expected
      \<and> cm_completion_sequence r = u32_or_max (index + 1)
      \<and> \<not> trim_is_empty (cm_receipt_id r)
      \<and> \<not> trim_is_empty (cm_provider_handle_id r)
      \<and> cm_provider_state_revision r \<noteq> 0
      \<and> cm_observed_state r = expected_provider_state (oa_action_kind expected)
      \<and> cm_receipt_id r \<notin> set ids
      \<and> cm_provider_handle_id r \<notin> set handles)"

fun receipts_fit ::
  "nat \<Rightarrow> string list \<Rightarrow> string list \<Rightarrow> owner_action list \<Rightarrow> completion_receipt list \<Rightarrow> bool" where
  "receipts_fit index ids handles (a # as) (r # rs) =
     (receipt_fits a r index ids handles
      \<and> receipts_fit (Suc index) (cm_receipt_id r # ids) (cm_provider_handle_id r # handles) as rs)"
| "receipts_fit index ids handles _ _ = True"

definition valid_recovery_receipt_prefix :: "'l product_action \<Rightarrow> completion_receipt list \<Rightarrow> bool" where
  "valid_recovery_receipt_prefix action receipts =
     (length receipts \<le> length (pa_owner_actions action)
      \<and> receipts_fit 0 [] [] (pa_owner_actions action) receipts)"

definition sequences_of :: "(owner_kind \<Rightarrow> bool) \<Rightarrow> completion_receipt list \<Rightarrow> u32 list" where
  "sequences_of chosen receipts =
     map cm_completion_sequence (filter (\<lambda>r. chosen (sel_owner_kind (cm_selection r))) receipts)"

definition receiver_first :: "completion_receipt list \<Rightarrow> product_error + unit" where
  "receiver_first receipts =
     (let sources = sequences_of (\<lambda>kind. kind = Source) receipts;
          others = sequences_of (\<lambda>kind. kind \<noteq> Source) receipts in
      if sources = [] \<or> others = [] then Inl OwnerCompletionMismatch
      else reject_if (Min (set sources) \<le> Max (set others)) ReceiverFirstViolation)"

definition cleanup_last :: "completion_receipt list \<Rightarrow> product_error + unit" where
  "cleanup_last receipts =
     (case find (\<lambda>r. sel_owner_kind (cm_selection r) = Cleanup) receipts of
        None \<Rightarrow> Inl OwnerCompletionMismatch
      | Some cleanup \<Rightarrow>
          let stops = sequences_of (\<lambda>kind. kind \<noteq> Cleanup) receipts in
          if stops = [] then Inl OwnerCompletionMismatch
          else reject_if (cm_completion_sequence cleanup \<le> Max (set stops)) CleanupOrderViolation)"

definition validate_owner_completions ::
  "'l product_action \<Rightarrow> completion_receipt list \<Rightarrow> product_error + unit" where
  "validate_owner_completions action receipts =
     (if length receipts \<noteq> length (pa_owner_actions action)
         \<or> \<not> receipts_fit 0 [] [] (pa_owner_actions action) receipts
      then Inl OwnerCompletionMismatch
      else case pa_operation action of
          OpStart \<Rightarrow> receiver_first receipts
        | OpStop \<Rightarrow> cleanup_last receipts)"

section \<open>Rolling back a partial start\<close>

definition undo_kind :: "owner_action_kind \<Rightarrow> owner_action_kind" where
  "undo_kind kind = (if kind = ArmCleanup then ActCleanup else ActStop)"

definition partial_start_abort_action ::
  "'l product_action \<Rightarrow> completion_receipt list \<Rightarrow> owner_action option \<Rightarrow> 'l product_action" where
  "partial_start_abort_action action completed uncertain =
     action\<lparr>pa_action_id := pa_action_id action @ ''.abort'',
       pa_owner_actions :=
         map (\<lambda>attempt. \<lparr>oa_selection = oa_selection attempt,
             oa_action_kind = undo_kind (oa_action_kind attempt)\<rparr>)
           (case uncertain of None \<Rightarrow> [] | Some attempt \<Rightarrow> [attempt])
         @ map (\<lambda>r. \<lparr>oa_selection = cm_selection r, oa_action_kind = undo_kind (cm_action_kind r)\<rparr>)
             (List.rev completed)\<rparr>"

end
