(* ===== verification/Product_Recovery.thy ===== *)
theory Product_Recovery
  imports Product_Rules
begin

text \<open>
  The consistency of a recovery snapshot, \<open>validate_product_recovery_snapshot\<close> of
  \<open>crates/rusty-quest-media-stream/src/product_runtime.rs\<close>: every failure but that of the encoder
  is the one error \<open>RecoverySnapshotInvalid\<close>, so the parts are predicates.
\<close>

section \<open>Actions and completed rollbacks\<close>

definition strict_unique_ids :: "string list \<Rightarrow> bool" where
  "strict_unique_ids ids = (list_all (\<lambda>i. \<not> trim_is_empty i) ids \<and> ascending_pairs ids)"

primrec operation_capability :: "platform_operation \<Rightarrow> string" where
  "operation_capability OpStart = ''capability.command.media.session.start''"
| "operation_capability OpStop = ''capability.command.media.session.stop''"

definition valid_revoker_stop ::
  "'b accepted_session \<Rightarrow> 'l product_action \<Rightarrow> 'l revoker_evidence \<Rightarrow> bool" where
  "valid_revoker_stop accepted action evidence =
     (pa_operation action = OpStop
      \<and> tm_applied (re_termination evidence)
      \<and> tm_source_id (re_termination evidence) = tq_request_id (re_request evidence)
      \<and> tq_decision_id (re_request evidence) = ac_decision_id accepted
      \<and> tq_action (re_request evidence) = Revoke
      \<and> ac_lifecycle_status accepted = StatusRevoked
      \<and> ac_ended_by_id accepted = Some (tq_request_id (re_request evidence)))"

definition valid_recovery_action ::
  "product_binding \<Rightarrow> 'b accepted_session \<Rightarrow> ('b, 'l) recovery_snapshot \<Rightarrow> 'l product_action \<Rightarrow> bool" where
  "valid_recovery_action b accepted s action =
     (let holder = pa_client_authority action in
      pa_schema_id action = platform_action_schema
      \<and> \<not> trim_is_empty (pa_action_id action)
      \<and> pa_authority_epoch_id action = rv_provider_epoch_id s
      \<and> pa_runtime_spec_id action = sp_runtime_spec_id (bd_spec b)
      \<and> pa_runtime_spec_canonical_sha256 action = bd_runtime_spec_canonical_sha256 b
      \<and> pa_manifold_descriptor_canonical_sha256 action = ac_product_descriptor_canonical_sha256 accepted
      \<and> pa_manifold_decision_id action = ac_decision_id accepted
      \<and> pa_manifold_session_revision action = ac_session_authority_revision accepted
      \<and> pa_media_acceptance_authority_revision action \<noteq> 0
      \<and> pa_media_acceptance_authority_revision action
          \<le> cu_acceptance_state_authority_revision (rv_accepted_subject s)
      \<and> ca_client_id holder = ac_runtime_client_id accepted
      \<and> ca_lease_id holder = ac_runtime_lease_id accepted
      \<and> ca_product_id holder = ac_product_id accepted
      \<and> ca_feature_lock_id holder = ac_feature_lock_id accepted
      \<and> ca_feature_lock_fingerprint holder = ac_feature_lock_fingerprint accepted
      \<and> ca_session_capability_id holder = ac_capability_id accepted
      \<and> ca_session_admission_grant_id holder = ac_admission_grant_id accepted
      \<and> ca_operation_admission_grant_id holder = ac_admission_grant_id accepted
      \<and> \<not> trim_is_empty (ca_operation_admission_use_request_id holder)
      \<and> (case pa_trusted_revoker_cleanup action of
           None \<Rightarrow> ca_operation_capability_id holder = operation_capability (pa_operation action)
         | Some evidence \<Rightarrow> valid_revoker_stop accepted action evidence)
      \<and> pa_owner_actions action
          = ordered_owner_actions (sp_owner_selections (bd_spec b)) (pa_operation action))"

text \<open>A rollback receipt keeps the handle of the start receipt it undoes, at a newer revision.\<close>

definition undoes :: "completion_receipt \<Rightarrow> completion_receipt \<Rightarrow> bool" where
  "undoes rollback started =
     (cm_provider_handle_id rollback = cm_provider_handle_id started
      \<and> cm_provider_state_revision started < cm_provider_state_revision rollback)"

definition valid_completed_start_abort ::
  "product_binding \<Rightarrow> 'b accepted_session \<Rightarrow> ('b, 'l) recovery_snapshot \<Rightarrow> 'l completed_abort \<Rightarrow> bool" where
  "valid_completed_start_abort b accepted s c =
     (let original = cb_original_action c;
          expected = partial_start_abort_action original (cb_started_receipts c) (cb_uncertain_owner c);
          offset = (if cb_uncertain_owner c \<noteq> None then 1 else 0);
          lifecycle = rv_lifecycle s in
      valid_recovery_action b accepted s original
      \<and> cb_schema_id c = completed_abort_schema
      \<and> pa_operation original = OpStart
      \<and> pa_trusted_revoker_cleanup original = None
      \<and> pa_expected_runtime_revision original = 1
      \<and> pa_action_id original \<in> set (rv_aborted_action_ids s)
      \<and> rv_active_start_action s = None
      \<and> valid_recovery_receipt_prefix original (cb_started_receipts c)
      \<and> (case cb_uncertain_owner c of None \<Rightarrow> True
         | Some owner \<Rightarrow> length (cb_started_receipts c) < length (pa_owner_actions original)
             \<and> pa_owner_actions original ! length (cb_started_receipts c) = owner)
      \<and> cb_rollback_action c = expected
      \<and> length (cb_rollback_receipts c) = length (pa_owner_actions expected)
      \<and> valid_recovery_receipt_prefix expected (cb_rollback_receipts c)
      \<and> list_all (\<lambda>(rollback, started). undoes rollback started)
          (zip (drop offset (cb_rollback_receipts c)) (List.rev (cb_started_receipts c)))
      \<and> (if ls_phase lifecycle = Stopped
         then ls_runtime_revision lifecycle = 2
           \<and> (case rv_applied_action_ids s of
                [action_id] \<Rightarrow> ls_applied_request_ids lifecycle = [action_id @ ''.cleanup'']
              | _ \<Rightarrow> False)
           \<and> rv_pending_action s = None
         else ls_phase lifecycle = Planned
           \<and> ls_runtime_revision lifecycle = 1
           \<and> ls_applied_request_ids lifecycle = []
           \<and> rv_applied_action_ids s = []
           \<and> (case rv_pending_action s of None \<Rightarrow> True
              | Some action \<Rightarrow> pa_operation action = OpStop
                  \<and> pa_trusted_revoker_cleanup action \<noteq> None)))"

section \<open>The parts of a snapshot\<close>

definition valid_snapshot_frame ::
  "product_binding \<Rightarrow> ('b, 'l) recovery_snapshot \<Rightarrow> bytes \<Rightarrow> bool" where
  "valid_snapshot_frame b s encoded =
     (length encoded \<le> max_recovery_bytes
      \<and> rv_schema_id s \<in> {product_recovery_schema, abort_recovery_schema}
      \<and> ((rv_schema_id s = abort_recovery_schema) = (rv_completed_start_abort s \<noteq> None))
      \<and> rv_binding s = b
      \<and> \<not> trim_is_empty (rv_provider_epoch_id s)
      \<and> ls_schema (rv_lifecycle s) = runtime_state_schema
      \<and> ls_runtime_spec_id (rv_lifecycle s) = sp_runtime_spec_id (bd_spec b)
      \<and> ls_runtime_revision (rv_lifecycle s) \<noteq> 0
      \<and> strict_unique_ids (rv_applied_action_ids s)
      \<and> strict_unique_ids (rv_aborted_action_ids s)
      \<and> \<not> list_ex (\<lambda>i. i \<in> set (rv_aborted_action_ids s)) (rv_applied_action_ids s)
      \<and> length (rv_active_provider_handles s) \<le> length (sp_owner_selections (bd_spec b))
      \<and> length (rv_pending_owner_receipts s) \<le> length (sp_owner_selections (bd_spec b))
      \<and> length (rv_pending_abort_receipts s) \<le> length (sp_owner_selections (bd_spec b)) + 1)"

text \<open>The \<open>BTreeMap\<close>s collected from receipts and from handles.\<close>

definition collect_handles ::
  "(selection_key \<times> string \<times> u64) list \<Rightarrow> (selection_key, string \<times> u64) btree" where
  "collect_handles xs = fold (\<lambda>(k, v). bt_insert k v) xs []"

definition receipt_entry :: "completion_receipt \<Rightarrow> selection_key \<times> string \<times> u64" where
  "receipt_entry r =
     (selection_key (cm_selection r), cm_provider_handle_id r, cm_provider_state_revision r)"

definition handle_entry :: "provider_handle \<Rightarrow> selection_key \<times> string \<times> u64" where
  "handle_entry h =
     (selection_key (ph_selection h), ph_provider_handle_id h, ph_provider_state_revision h)"

definition valid_active_part ::
  "product_binding \<Rightarrow> 'b accepted_session \<Rightarrow> ('b, 'l) recovery_snapshot \<Rightarrow> bool" where
  "valid_active_part b accepted s =
     (let lifecycle = rv_lifecycle s in
      case rv_active_start_action s of
        Some action \<Rightarrow>
          valid_recovery_action b accepted s action
          \<and> pa_operation action = OpStart
          \<and> pa_expected_runtime_revision action = 1
          \<and> rv_applied_action_ids s = [pa_action_id action]
          \<and> is_ok (validate_owner_completions action (rv_active_start_receipts s))
          \<and> rv_active_client_authority s = Some (pa_client_authority action)
          \<and> ls_phase lifecycle \<in> {SourcesStarted, Streaming}
          \<and> collect_handles (map receipt_entry (rv_active_start_receipts s))
              = collect_handles (map handle_entry (rv_active_provider_handles s))
          \<and> length (collect_handles (map handle_entry (rv_active_provider_handles s)))
              = length (rv_active_provider_handles s)
          \<and> ascending_pairs (map (\<lambda>h. selection_key (ph_selection h)) (rv_active_provider_handles s))
          \<and> take 2 (ls_applied_request_ids lifecycle)
              = [pa_action_id action @ ''.arm_receivers'', pa_action_id action @ ''.start_sources'']
          \<and> ls_runtime_revision lifecycle = (if ls_phase lifecycle = Streaming then 4 else 3)
          \<and> length (ls_applied_request_ids lifecycle) = unat (ls_runtime_revision lifecycle - 1)
      | None \<Rightarrow>
          rv_active_start_receipts s = []
          \<and> rv_active_provider_handles s = []
          \<and> rv_active_client_authority s = None
          \<and> (rv_completed_start_abort s = None \<longrightarrow>
               rv_applied_action_ids s = []
               \<and> ls_phase lifecycle = Planned
               \<and> ls_runtime_revision lifecycle = 1
               \<and> ls_applied_request_ids lifecycle = []))"

definition valid_pending_start :: "('b, 'l) recovery_snapshot \<Rightarrow> 'l product_action \<Rightarrow> bool" where
  "valid_pending_start s action =
     (let abort = partial_start_abort_action action (rv_pending_owner_receipts s)
            (rv_pending_uncertain_owner s);
          offset = (if rv_pending_uncertain_owner s \<noteq> None then 1 else 0);
          count = length (rv_pending_abort_receipts s) in
      rv_active_start_action s = None
      \<and> ls_phase (rv_lifecycle s) = Planned
      \<and> (rv_abort_in_progress s \<or> rv_pending_abort_receipts s = [])
      \<and> (case rv_pending_abort_uncertain_owner s of None \<Rightarrow> True
         | Some owner \<Rightarrow> rv_abort_in_progress s \<and> count < length (pa_owner_actions abort)
             \<and> pa_owner_actions abort ! count = owner)
      \<and> valid_recovery_receipt_prefix abort (rv_pending_abort_receipts s)
      \<and> count - offset \<le> length (rv_pending_owner_receipts s)
      \<and> list_all (\<lambda>(rollback, started). undoes rollback started)
          (zip (drop offset (rv_pending_abort_receipts s)) (List.rev (rv_pending_owner_receipts s))))"

definition valid_stop_receipt :: "('b, 'l) recovery_snapshot \<Rightarrow> completion_receipt \<Rightarrow> bool" where
  "valid_stop_receipt s r =
     (case rv_completed_start_abort s of
        Some record \<Rightarrow>
          (case find (\<lambda>rollback. cm_selection rollback = cm_selection r) (cb_rollback_receipts record) of
             None \<Rightarrow> True
           | Some rollback \<Rightarrow> undoes r rollback)
      | None \<Rightarrow>
          (case find (\<lambda>h. ph_selection h = cm_selection r) (rv_active_provider_handles s) of
             None \<Rightarrow> False
           | Some h \<Rightarrow> cm_provider_handle_id r = ph_provider_handle_id h
               \<and> ph_provider_state_revision h < cm_provider_state_revision r))"

definition valid_pending_stop :: "('b, 'l) recovery_snapshot \<Rightarrow> 'l product_action \<Rightarrow> bool" where
  "valid_pending_stop s action =
     (case (case rv_active_start_action s of Some start \<Rightarrow> Some start
            | None \<Rightarrow> map_option cb_original_action (rv_completed_start_abort s)) of
        None \<Rightarrow> False
      | Some start \<Rightarrow>
          same_session_holder (pa_client_authority start) (pa_client_authority action)
          \<and> \<not> rv_abort_in_progress s
          \<and> rv_pending_abort_receipts s = []
          \<and> rv_pending_abort_uncertain_owner s = None
          \<and> list_all (valid_stop_receipt s) (rv_pending_owner_receipts s))"

definition valid_pending_part ::
  "product_binding \<Rightarrow> 'b accepted_session \<Rightarrow> ('b, 'l) recovery_snapshot \<Rightarrow> bool" where
  "valid_pending_part b accepted s =
     (case rv_pending_action s of
        None \<Rightarrow>
          rv_pending_owner_receipts s = []
          \<and> rv_pending_uncertain_owner s = None
          \<and> rv_pending_abort_receipts s = []
          \<and> rv_pending_abort_uncertain_owner s = None
          \<and> \<not> rv_abort_in_progress s
      | Some action \<Rightarrow>
          valid_recovery_action b accepted s action
          \<and> pa_action_id action \<notin> set (rv_applied_action_ids s)
          \<and> pa_action_id action \<notin> set (rv_aborted_action_ids s)
          \<and> pa_expected_runtime_revision action = ls_runtime_revision (rv_lifecycle s)
          \<and> valid_recovery_receipt_prefix action (rv_pending_owner_receipts s)
          \<and> (case rv_pending_uncertain_owner s of None \<Rightarrow> True
             | Some owner \<Rightarrow> length (rv_pending_owner_receipts s) < length (pa_owner_actions action)
                 \<and> pa_owner_actions action ! length (rv_pending_owner_receipts s) = owner)
          \<and> (case pa_operation action of
               OpStart \<Rightarrow> valid_pending_start s action
             | OpStop \<Rightarrow> valid_pending_stop s action))"

definition snapshot_receipts :: "('b, 'l) recovery_snapshot \<Rightarrow> completion_receipt list" where
  "snapshot_receipts s =
     rv_active_start_receipts s @ rv_pending_owner_receipts s @ rv_pending_abort_receipts s"

definition valid_snapshot ::
  "('h, 'r, 'b, 'l, 'n) product_externals \<Rightarrow> manifold_schemas \<Rightarrow> product_binding
     \<Rightarrow> ('b, 'l) recovery_snapshot \<Rightarrow> bytes \<Rightarrow> bool" where
  "valid_snapshot x mx b s encoded =
     (valid_snapshot_frame b s encoded
      \<and> (case cu_session (rv_accepted_subject s) of
           None \<Rightarrow> False
         | Some accepted \<Rightarrow>
             is_ok (validate_current_acceptance x mx b (rv_accepted_subject s) (rv_provider_epoch_id s)
               (cu_validated_at_ms (rv_accepted_subject s)) False None)
             \<and> (case rv_completed_start_abort s of None \<Rightarrow> True
                | Some c \<Rightarrow> valid_completed_start_abort b accepted s c)
             \<and> valid_active_part b accepted s
             \<and> strict_unique_ids (ls_applied_request_ids (rv_lifecycle s))
             \<and> valid_pending_part b accepted s)
      \<and> distinct (map cm_receipt_id (snapshot_receipts s)))"

definition validate_product_recovery_snapshot ::
  "('h, 'r, 'b, 'l, 'n) product_externals \<Rightarrow> manifold_schemas \<Rightarrow> product_binding
     \<Rightarrow> ('b, 'l) recovery_snapshot \<Rightarrow> product_error + unit" where
  "validate_product_recovery_snapshot x mx b s =
     (case px_snapshot_to_vec x s of
        None \<Rightarrow> Inl Encode
      | Some encoded \<Rightarrow> reject_if (\<not> valid_snapshot x mx b s encoded) RecoverySnapshotInvalid)"

end
