(* ===== verification/Product_Runtime.thy ===== *)
theory Product_Runtime
  imports Product_Recovery
begin

text \<open>
  The two-phase media product runtime, \<open>MediaStreamSessionProductRuntime\<close> of
  \<open>crates/rusty-quest-media-stream/src/product_runtime.rs\<close>. An operation takes the runtime to its
  result and the runtime after it; a failing operation keeps what it changed before the failure,
  as the source does.
\<close>

type_synonym ('b, 'l, 'a) product_op =
  "('b, 'l) product_runtime \<Rightarrow> (product_error + 'a) \<times> ('b, 'l) product_runtime"

section \<open>Sequencing\<close>

text \<open>\<open>and_do op f\<close> runs \<open>op\<close> and, when it succeeds, \<open>f\<close>: the \<open>?\<close> of a method call.\<close>

definition and_do ::
  "('s \<Rightarrow> ('e + 'a) \<times> 's) \<Rightarrow> ('a \<Rightarrow> 's \<Rightarrow> ('e + 'b) \<times> 's) \<Rightarrow> 's \<Rightarrow> ('e + 'b) \<times> 's" where
  "and_do op f s = (case op s of (Inl e, s') \<Rightarrow> (Inl e, s') | (Inr v, s') \<Rightarrow> f v s')"

definition give :: "'e + 'a \<Rightarrow> 's \<Rightarrow> ('e + 'a) \<times> 's" where
  "give r s = (r, s)"

definition modify :: "('s \<Rightarrow> 's) \<Rightarrow> 's \<Rightarrow> ('e + unit) \<times> 's" where
  "modify f s = (Inr (), f s)"

lemma and_do_eq_Inr:
  "and_do op f s = (Inr v, s') \<longleftrightarrow> (\<exists>u t. op s = (Inr u, t) \<and> f u t = (Inr v, s'))"
  by (auto simp: and_do_def split: prod.splits sum.splits)

lemma and_do_cases:
  obtains (err) e s' where "op s = (Inl e, s')" "and_do op f s = (Inl e, s')"
  | (ok) v s' where "op s = (Inr v, s')" "and_do op f s = f v s'"
  by (cases "op s"; cases "fst (op s)") (auto simp: and_do_def)

lemma give_eq [simp]: "give r s = (r', s') \<longleftrightarrow> r' = r \<and> s' = s"
  by (auto simp: give_def)

lemma modify_eq [simp]: "modify f s = (r, s') \<longleftrightarrow> r = Inr () \<and> s' = f s"
  by (auto simp: modify_def)

section \<open>The recovery journal\<close>

definition handle_list :: "(selection_key, string \<times> u64) btree \<Rightarrow> provider_handle list" where
  "handle_list m = map (\<lambda>(k, h, r). \<lparr>ph_selection = key_selection k, ph_provider_handle_id = h,
     ph_provider_state_revision = r\<rparr>) m"

definition snapshot_of :: "('b, 'l) product_runtime \<Rightarrow> ('b, 'l) recovery_snapshot" where
  "snapshot_of m = \<lparr>
     rv_schema_id = (if pm_completed_start_abort m \<noteq> None then abort_recovery_schema
       else product_recovery_schema),
     rv_binding = pm_binding m,
     rv_accepted_subject = pm_current_acceptance m,
     rv_provider_epoch_id = pm_authority_epoch_id m,
     rv_lifecycle = sr_state (pm_runtime m),
     rv_pending_action = pm_pending_action m,
     rv_pending_owner_receipts = pm_pending_owner_receipts m,
     rv_pending_uncertain_owner = pm_pending_uncertain_owner m,
     rv_pending_abort_receipts = pm_pending_abort_receipts m,
     rv_pending_abort_uncertain_owner = pm_pending_abort_uncertain_owner m,
     rv_abort_in_progress = pm_abort_in_progress m,
     rv_active_provider_handles = handle_list (pm_active_provider_handles m),
     rv_active_start_receipts = pm_active_start_receipts m,
     rv_active_start_action = pm_active_start_action m,
     rv_active_client_authority = pm_active_client_authority m,
     rv_applied_action_ids = pm_applied_action_ids m,
     rv_aborted_action_ids = pm_aborted_action_ids m,
     rv_completed_start_abort = pm_completed_start_abort m\<rparr>"

definition recovery_snapshot ::
  "('h, 'r, 'b, 'l, 'n) product_externals \<Rightarrow> ('b, 'l) product_runtime
     \<Rightarrow> product_error + ('b, 'l) recovery_snapshot" where
  "recovery_snapshot x m =
     and_then (ok_or Encode (px_snapshot_to_vec x (snapshot_of m))) (\<lambda>encoded.
     and_then (reject_if (max_recovery_bytes < length encoded) RecoverySnapshotInvalid) (\<lambda>_.
     Inr (snapshot_of m)))"

text \<open>
  \<open>journal.commit(&snapshot)\<close>: a failed commit poisons the runtime and leaves open whether the
  store took the snapshot.
\<close>

definition journal_commit ::
  "('h, 'r, 'b, 'l) product_env \<Rightarrow> ('b, 'l) recovery_snapshot \<Rightarrow> ('b, 'l, unit) product_op" where
  "journal_commit v s m =
     (let outcome = ev_commit v s;
          m = m\<lparr>pm_durable := commit_durable outcome (pm_durable m) (Some s)\<rparr> in
      case commit_result outcome of
        Inl _ \<Rightarrow> (Inl RecoveryJournalUnavailable, m\<lparr>pm_recovery_journal_poisoned := True\<rparr>)
      | Inr _ \<Rightarrow> (Inr (), m))"

definition install_recovery_journal ::
  "('h, 'r, 'b, 'l, 'n) product_externals \<Rightarrow> ('h, 'r, 'b, 'l) product_env
     \<Rightarrow> ('b, 'l, unit) product_op" where
  "install_recovery_journal x v m =
     (if pm_recovery_journal_poisoned m \<or> pm_recovery_journal m
      then (Inl RecoveryJournalUnavailable, m)
      else and_do (give (recovery_snapshot x m)) (\<lambda>s.
           and_do (journal_commit v s) (\<lambda>_.
           modify (\<lambda>m. m\<lparr>pm_recovery_journal := True\<rparr>))) m)"

definition commit_recovery_journal ::
  "('h, 'r, 'b, 'l, 'n) product_externals \<Rightarrow> ('h, 'r, 'b, 'l) product_env
     \<Rightarrow> ('b, 'l, unit) product_op" where
  "commit_recovery_journal x v m =
     (if pm_recovery_journal_poisoned m then (Inl RecoveryJournalUnavailable, m)
      else if \<not> pm_recovery_journal m then
        (if pm_cleanup_only_after_restore m then (Inl RecoveryJournalUnavailable, m) else (Inr (), m))
      else and_do (give (recovery_snapshot x m)) (journal_commit v) m)"

section \<open>Authority\<close>

definition read_current ::
  "('h, 'r, 'b, 'l, 'n) product_externals \<Rightarrow> ('h, 'r, 'b, 'l) product_env \<Rightarrow> authority_source
     \<Rightarrow> u64 \<Rightarrow> 'h \<Rightarrow> product_error + 'b current_receipt" where
  "read_current x v source now_ms host =
     (case sa_broker source of
        None \<Rightarrow> Inr (px_validate_media_session x host (sa_decision_id source) now_ms)
      | Some broker \<Rightarrow>
          and_then (ok_or AuthorityProviderUnavailable (ev_broker v broker)) (\<lambda>broker.
          ok_or AcceptedSessionNotCurrent
            (px_validate_with_live_broker x host broker (sa_decision_id source) now_ms)))"

definition refresh_authority ::
  "('h, 'r, 'b, 'l, 'n) product_externals \<Rightarrow> manifold_schemas \<Rightarrow> ('h, 'r, 'b, 'l) product_env
     \<Rightarrow> u64 \<Rightarrow> bool \<Rightarrow> ('b, 'l, unit) product_op" where
  "refresh_authority x mx v now_ms require_current m =
     (case and_then (ok_or AuthorityProviderUnavailable (ev_host v (sa_host (pm_authority m)))) (\<lambda>host.
           and_then (reject_if (px_provider_epoch_id x host \<noteq> pm_authority_epoch_id m)
             AcceptedProviderEpochMismatch) (\<lambda>_.
           and_then (read_current x v (pm_authority m) now_ms host) (\<lambda>current.
           and_then (validate_current_acceptance x mx (pm_binding m) current (pm_authority_epoch_id m)
             now_ms require_current (Some (pm_current_acceptance m))) (\<lambda>_.
           Inr current)))) of
        Inl e \<Rightarrow> (Inl e, m)
      | Inr current \<Rightarrow> (Inr (), m\<lparr>pm_current_acceptance := current\<rparr>))"

section \<open>Construction\<close>

definition fresh_runtime ::
  "product_binding \<Rightarrow> 'b current_receipt \<Rightarrow> authority_source \<Rightarrow> string \<Rightarrow> session_runtime
     \<Rightarrow> ('b, 'l) product_runtime" where
  "fresh_runtime b current source epoch runtime = \<lparr>
     pm_binding = b, pm_current_acceptance = current, pm_authority = source,
     pm_authority_epoch_id = epoch, pm_runtime = runtime, pm_pending_action = None,
     pm_pending_owner_receipts = [], pm_pending_uncertain_owner = None,
     pm_pending_abort_receipts = [], pm_pending_abort_uncertain_owner = None,
     pm_abort_in_progress = False, pm_active_provider_handles = [], pm_active_start_receipts = [],
     pm_active_start_action = None, pm_active_client_authority = None, pm_applied_action_ids = [],
     pm_aborted_action_ids = [], pm_completed_start_abort = None,
     pm_cleanup_only_after_restore = False, pm_recovery_receipts_revalidated = False,
     pm_recovery_journal = False, pm_recovery_journal_poisoned = False, pm_durable = None,
     pm_calls = []\<rparr>"

text \<open>\<open>new\<close> and, with a broker, \<open>new_with_live_broker_runtime\<close>.\<close>

definition product_runtime_new ::
  "('h, 'r, 'b, 'l, 'n) product_externals \<Rightarrow> manifold_schemas \<Rightarrow> ('h, 'r, 'b, 'l) product_env
     \<Rightarrow> product_binding \<Rightarrow> authority_source \<Rightarrow> u64 \<Rightarrow> product_error + ('b, 'l) product_runtime" where
  "product_runtime_new x mx v b source now_ms =
     and_then (product_binding_validate x b) (\<lambda>_.
     and_then (ok_or AuthorityProviderUnavailable (ev_host v (sa_host source))) (\<lambda>host.
     and_then (read_current x v source now_ms host) (\<lambda>current.
     and_then (validate_current_acceptance x mx b current (px_provider_epoch_id x host) now_ms True None) (\<lambda>_.
     and_then (map_err RuntimeSpecInvalid (session_runtime_new (bd_spec b))) (\<lambda>runtime.
     Inr (fresh_runtime b current source (px_provider_epoch_id x host) runtime))))))"

section \<open>Preparing an action\<close>

definition missing_client_authority :: "client_authority \<Rightarrow> bool" where
  "missing_client_authority c =
     (trim_is_empty (ca_client_id c) \<or> trim_is_empty (ca_lease_id c) \<or> trim_is_empty (ca_product_id c)
      \<or> trim_is_empty (ca_feature_lock_id c) \<or> \<not> is_ok (validate_sha256 (ca_feature_lock_fingerprint c))
      \<or> trim_is_empty (ca_session_capability_id c) \<or> trim_is_empty (ca_session_admission_grant_id c)
      \<or> trim_is_empty (ca_operation_admission_grant_id c)
      \<or> trim_is_empty (ca_operation_admission_use_request_id c))"

definition client_authority_matches ::
  "'b accepted_session \<Rightarrow> platform_operation \<Rightarrow> client_authority \<Rightarrow> bool" where
  "client_authority_matches accepted op c =
     (ac_runtime_client_id accepted = ca_client_id c
      \<and> ac_runtime_lease_id accepted = ca_lease_id c
      \<and> ac_product_id accepted = ca_product_id c
      \<and> ac_feature_lock_id accepted = ca_feature_lock_id c
      \<and> ac_feature_lock_fingerprint accepted = ca_feature_lock_fingerprint c
      \<and> ac_capability_id accepted = ca_session_capability_id c
      \<and> ac_admission_grant_id accepted = ca_session_admission_grant_id c
      \<and> ac_admission_grant_id accepted = ca_operation_admission_grant_id c
      \<and> ca_operation_capability_id c = operation_capability op)"

definition phase_review ::
  "('b, 'l) product_runtime \<Rightarrow> platform_operation \<Rightarrow> client_authority \<Rightarrow> product_error + unit" where
  "phase_review m op c =
     (let phase = ls_phase (sr_state (pm_runtime m)) in
      if phase = Planned \<and> op = OpStart then Inr ()
      else if phase = Stopped then Inl TerminalRuntime
      else if op = OpStart then Inl InvalidOperationPhase
      else case pm_active_client_authority m of
          Some active \<Rightarrow> reject_if (\<not> same_session_holder active c) ClientAuthorityMismatch
        | None \<Rightarrow> Inl ClientAuthorityMismatch)"

definition reviewed ::
  "('b, 'l) product_runtime \<Rightarrow> string \<Rightarrow> platform_operation \<Rightarrow> client_authority \<Rightarrow> product_error + unit" where
  "reviewed m action_id op c =
     first_err [
       reject_if (trim_is_empty action_id) MissingActionId,
       reject_if (action_id \<in> set (pm_applied_action_ids m) \<or> action_id \<in> set (pm_aborted_action_ids m))
         ReplayedAction,
       reject_if (pm_pending_action m \<noteq> None) PendingActionExists,
       reject_if (pm_completed_start_abort m \<noteq> None) RecoveryRequiresTargetedStop,
       reject_if (missing_client_authority c) MissingClientAuthority,
       and_then (ok_or AcceptedSessionMismatch (cu_session (pm_current_acceptance m))) (\<lambda>accepted.
         reject_if (\<not> client_authority_matches accepted op c) ClientAuthorityMismatch),
       phase_review m op c]"

definition review_prepare ::
  "('h, 'r, 'b, 'l, 'n) product_externals \<Rightarrow> manifold_schemas \<Rightarrow> ('h, 'r, 'b, 'l) product_env
     \<Rightarrow> string \<Rightarrow> platform_operation \<Rightarrow> client_authority \<Rightarrow> u64 \<Rightarrow> ('b, 'l, unit) product_op" where
  "review_prepare x mx v action_id op c now_ms m =
     (if pm_recovery_journal_poisoned m then (Inl RecoveryJournalUnavailable, m)
      else if pm_cleanup_only_after_restore m then
        (Inl (case op of OpStart \<Rightarrow> RecoveryStartForbidden | OpStop \<Rightarrow> RecoveryRequiresTargetedStop), m)
      else and_do (refresh_authority x mx v now_ms (op = OpStart)) (\<lambda>_ m.
           (reviewed m action_id op c, m)) m)"

definition action_for ::
  "('b, 'l) product_runtime \<Rightarrow> 'b accepted_session \<Rightarrow> string \<Rightarrow> platform_operation \<Rightarrow> client_authority
     \<Rightarrow> 'l revoker_evidence option \<Rightarrow> 'l product_action" where
  "action_for m accepted action_id op c evidence = \<lparr>
     pa_schema_id = platform_action_schema, pa_action_id = action_id,
     pa_authority_epoch_id = pm_authority_epoch_id m, pa_operation = op, pa_client_authority = c,
     pa_trusted_revoker_cleanup = evidence,
     pa_runtime_spec_id = sp_runtime_spec_id (bd_spec (pm_binding m)),
     pa_runtime_spec_canonical_sha256 = bd_runtime_spec_canonical_sha256 (pm_binding m),
     pa_manifold_descriptor_canonical_sha256 = ac_product_descriptor_canonical_sha256 accepted,
     pa_manifold_decision_id = ac_decision_id accepted,
     pa_manifold_session_revision = ac_session_authority_revision accepted,
     pa_media_acceptance_authority_revision =
       cu_acceptance_state_authority_revision (pm_current_acceptance m),
     pa_expected_runtime_revision = ls_runtime_revision (sr_state (pm_runtime m)),
     pa_owner_actions = ordered_owner_actions (sp_owner_selections (bd_spec (pm_binding m))) op\<rparr>"

definition prepare ::
  "('h, 'r, 'b, 'l, 'n) product_externals \<Rightarrow> manifold_schemas \<Rightarrow> ('h, 'r, 'b, 'l) product_env
     \<Rightarrow> string \<Rightarrow> platform_operation \<Rightarrow> client_authority \<Rightarrow> u64
     \<Rightarrow> ('b, 'l, 'l product_action) product_op" where
  "prepare x mx v action_id op c now_ms =
     and_do (review_prepare x mx v action_id op c now_ms) (\<lambda>_ m.
     and_do (give (ok_or AcceptedSessionMismatch (cu_session (pm_current_acceptance m)))) (\<lambda>accepted.
     let action = action_for m accepted action_id op c None in
     and_do (modify (\<lambda>m. m\<lparr>pm_pending_owner_receipts := [], pm_pending_uncertain_owner := None,
         pm_pending_abort_receipts := [], pm_pending_abort_uncertain_owner := None,
         pm_abort_in_progress := False, pm_pending_action := Some action\<rparr>)) (\<lambda>_.
     and_do (commit_recovery_journal x v) (\<lambda>_.
     give (Inr action)))) m)"

text \<open>
  \<open>prepare_with_live_authority\<close> works on a copy that reads another host, and keeps of a failed
  attempt only that the journal is poisoned; the store is the same for both.
\<close>

definition prepare_with_live_authority ::
  "('h, 'r, 'b, 'l, 'n) product_externals \<Rightarrow> manifold_schemas \<Rightarrow> ('h, 'r, 'b, 'l) product_env
     \<Rightarrow> nat \<Rightarrow> string \<Rightarrow> platform_operation \<Rightarrow> client_authority \<Rightarrow> u64
     \<Rightarrow> ('b, 'l, 'l product_action) product_op" where
  "prepare_with_live_authority x mx v host action_id op c now_ms m =
     (case prepare x mx v action_id op c now_ms
         (m\<lparr>pm_authority := (pm_authority m)\<lparr>sa_host := host\<rparr>\<rparr>) of
        (Inr action, candidate) \<Rightarrow> (Inr action, candidate)
      | (Inl e, candidate) \<Rightarrow>
          (Inl e, m\<lparr>pm_recovery_journal_poisoned :=
              (pm_recovery_journal_poisoned m \<or> pm_recovery_journal_poisoned candidate),
            pm_durable := pm_durable candidate\<rparr>))"

section \<open>Cleanup by a trusted revoker\<close>

definition revoker_accepted ::
  "('h, 'r, 'b, 'l, 'n) product_externals \<Rightarrow> ('b, 'l) product_runtime \<Rightarrow> 'h \<Rightarrow> 'l revoker_evidence
     \<Rightarrow> u64 \<Rightarrow> 'b accepted_session \<Rightarrow> 'b accepted_session \<Rightarrow> bool" where
  "revoker_accepted x m host evidence now_ms accepted ended =
     (let requester = (case re_cleanup_requester_adoption evidence of
            Some adoption \<Rightarrow> adoption | None \<Rightarrow> re_adoption evidence);
          request = re_request evidence in
      tm_applied (re_termination evidence)
      \<and> tm_source_id (re_termination evidence) = tq_request_id request
      \<and> tq_action request = Revoke
      \<and> tq_decision_id request = ac_decision_id accepted
      \<and> tq_session_id request = ac_session_id accepted
      \<and> tq_expected_provider_epoch_id request = pm_authority_epoch_id m
      \<and> ra_provider_epoch_id (re_adoption evidence) = pm_authority_epoch_id m
      \<and> ra_provider_epoch_id requester = ra_provider_epoch_id (re_adoption evidence)
      \<and> ra_revoker_id requester = ra_revoker_id (re_adoption evidence)
      \<and> ra_adoption_applied requester
      \<and> \<not> px_lease_derivative x (ra_lease requester)
      \<and> ra_adoption_id requester \<in> set (px_reviewed_adoption_ids x host)
      \<and> now_ms < px_lease_expires_at_ms x (ra_lease requester)
      \<and> ra_lease requester \<in> set (px_leases x host)
      \<and> ra_revoker_id requester \<in> set (px_trusted_media_revoker_ids x host)
      \<and> ac_lifecycle_status ended = StatusRevoked
      \<and> ac_ended_by_id ended = Some (tq_request_id request)
      \<and> list_ex (\<lambda>e. ad_media_session_termination e \<and> ad_source_id e = tq_request_id request
            \<and> ad_applied e) (px_audit_events x host)
      \<and> same_accepted_subject ended accepted)"

definition validate_trusted_cleanup_authority ::
  "('h, 'r, 'b, 'l, 'n) product_externals \<Rightarrow> ('b, 'l) product_runtime \<Rightarrow> 'h \<Rightarrow> 'l revoker_evidence
     \<Rightarrow> u64 \<Rightarrow> product_error + 'b current_receipt" where
  "validate_trusted_cleanup_authority x m host evidence now_ms =
     and_then (ok_or AcceptedSessionMismatch (cu_session (pm_current_acceptance m))) (\<lambda>accepted.
     let current = px_validate_media_session x host (ac_decision_id accepted) now_ms in
     and_then (ok_or AcceptedSessionMismatch (cu_session current)) (\<lambda>ended.
     and_then (reject_if (\<not> revoker_accepted x m host evidence now_ms accepted ended)
       AcceptedSessionMismatch) (\<lambda>_.
     Inr current)))"

definition cleanup_client_authority :: "('b, 'l) product_runtime \<Rightarrow> client_authority option" where
  "cleanup_client_authority m =
     (case pm_active_client_authority m of
        Some c \<Rightarrow> Some c
      | None \<Rightarrow> map_option (\<lambda>c. pa_client_authority (cb_original_action c)) (pm_completed_start_abort m))"

definition prepare_trusted_revoker_cleanup ::
  "('h, 'r, 'b, 'l, 'n) product_externals \<Rightarrow> ('h, 'r, 'b, 'l) product_env \<Rightarrow> 'h \<Rightarrow> 'l revoker_evidence
     \<Rightarrow> string \<Rightarrow> u64 \<Rightarrow> ('b, 'l, 'l product_action) product_op" where
  "prepare_trusted_revoker_cleanup x v host evidence action_id now_ms m =
     and_do (give
       (and_then (validate_trusted_cleanup_authority x m host evidence now_ms) (\<lambda>current.
        and_then (ok_or AcceptedSessionMismatch (cu_session current)) (\<lambda>ended.
        and_then (reject_if (pm_pending_action m \<noteq> None \<or> trim_is_empty action_id
            \<or> action_id \<in> set (pm_applied_action_ids m) \<or> action_id \<in> set (pm_aborted_action_ids m))
          AcceptedSessionMismatch) (\<lambda>_.
        and_then (ok_or MissingClientAuthority (cleanup_client_authority m)) (\<lambda>c.
        and_then (reject_if (pm_completed_start_abort m \<noteq> None \<and> pm_cleanup_only_after_restore m
            \<and> \<not> pm_recovery_receipts_revalidated m) RecoveryReceiptsUnverified) (\<lambda>_.
        Inr (current, ended, c))))))))
     (\<lambda>(current, ended, c).
     and_do (modify (\<lambda>m. m\<lparr>pm_current_acceptance := current\<rparr>)) (\<lambda>_ m.
     let action = action_for m ended action_id OpStop c (Some evidence) in
     and_do (modify (\<lambda>m. m\<lparr>pm_pending_owner_receipts := [], pm_pending_uncertain_owner := None,
         pm_pending_action := Some action\<rparr>)) (\<lambda>_.
     and_do (commit_recovery_journal x v) (\<lambda>_.
     give (Inr action))) m)) m"

section \<open>Owner completions\<close>

text \<open>
  What a readback has to show: it is the answer of the expected owner to this action. \<open>own\<close> is
  the check of the provider, \<open>seen\<close> the receipts already recorded.
\<close>

definition readback_answers ::
  "'l owner_provider \<Rightarrow> 'l product_action \<Rightarrow> owner_action \<Rightarrow> owner_provider_readback \<Rightarrow> bool" where
  "readback_answers provider action expected rb =
     (opr_action_id rb = pa_action_id action
      \<and> opr_authority_epoch_id rb = pa_authority_epoch_id action
      \<and> opr_media_acceptance_authority_revision rb = pa_media_acceptance_authority_revision action
      \<and> opr_client_id rb = ca_client_id (pa_client_authority action)
      \<and> opr_lease_id rb = ca_lease_id (pa_client_authority action)
      \<and> opr_provider_kind rb = sel_provider_kind (oa_selection expected)
      \<and> opr_resource_id rb = sel_resource_id (oa_selection expected)
      \<and> \<not> trim_is_empty (opr_provider_handle_id rb)
      \<and> opr_provider_state_revision rb \<noteq> 0
      \<and> opr_observed_state rb = expected_provider_state (oa_action_kind expected)
      \<and> \<not> trim_is_empty (opr_receipt_id rb)
      \<and> pv_verify_readback provider action expected rb)"

definition handle_continues ::
  "('b, 'l) product_runtime \<Rightarrow> 'l product_action \<Rightarrow> owner_action \<Rightarrow> owner_provider_readback \<Rightarrow> bool" where
  "handle_continues m action expected rb =
     (case pa_operation action of
        OpStart \<Rightarrow> \<not> bt_contains (selection_key (oa_selection expected)) (pm_active_provider_handles m)
      | OpStop \<Rightarrow>
          (case pm_completed_start_abort m of
             Some record \<Rightarrow>
               pa_trusted_revoker_cleanup action \<noteq> None
               \<and> same_session_holder (pa_client_authority (cb_original_action record))
                   (pa_client_authority action)
               \<and> (case find (\<lambda>r. cm_selection r = oa_selection expected) (cb_rollback_receipts record) of
                    None \<Rightarrow> True
                  | Some r \<Rightarrow> cm_provider_handle_id r = opr_provider_handle_id rb
                      \<and> cm_provider_state_revision r < opr_provider_state_revision rb)
           | None \<Rightarrow>
               (case bt_get (pm_active_provider_handles m) (selection_key (oa_selection expected)) of
                  None \<Rightarrow> False
                | Some (handle, revision) \<Rightarrow>
                    handle = opr_provider_handle_id rb \<and> revision < opr_provider_state_revision rb)))"

definition receipt_of :: "owner_action \<Rightarrow> u32 \<Rightarrow> owner_provider_readback \<Rightarrow> completion_receipt" where
  "receipt_of expected seq rb = \<lparr>
     cm_selection = oa_selection expected, cm_action_kind = oa_action_kind expected,
     cm_receipt_id = opr_receipt_id rb, cm_completion_sequence = seq,
     cm_provider_handle_id = opr_provider_handle_id rb,
     cm_provider_state_revision = opr_provider_state_revision rb,
     cm_observed_state = opr_observed_state rb\<rparr>"

definition record_owner_readback ::
  "('h, 'r, 'b, 'l, 'n) product_externals \<Rightarrow> ('h, 'r, 'b, 'l) product_env \<Rightarrow> 'l product_action
     \<Rightarrow> owner_action \<Rightarrow> 'l owner_provider \<Rightarrow> owner_provider_readback \<Rightarrow> nat
     \<Rightarrow> ('b, 'l, completion_receipt) product_op" where
  "record_owner_readback x v action expected provider rb sequence m =
     and_do (give
       (and_then (reject_if (\<not> readback_answers provider action expected rb
            \<or> list_ex (\<lambda>r. cm_receipt_id r = opr_receipt_id rb
                 \<or> cm_provider_handle_id r = opr_provider_handle_id rb) (pm_pending_owner_receipts m))
          OwnerReadbackMismatch) (\<lambda>_.
        and_then (reject_if (\<not> handle_continues m action expected rb) OwnerHandleLifecycleMismatch) (\<lambda>_.
        and_then (ok_or OwnerReadbackMismatch (u32_of_len (sequence + 1))) (\<lambda>seq.
        Inr (receipt_of expected seq rb))))))
     (\<lambda>receipt.
     and_do (modify (\<lambda>m. m\<lparr>pm_pending_owner_receipts := pm_pending_owner_receipts m @ [receipt],
         pm_pending_uncertain_owner := None\<rparr>)) (\<lambda>_.
     and_do (commit_recovery_journal x v) (\<lambda>_.
     give (Inr receipt)))) m"

definition call_provider ::
  "'l provider_call \<Rightarrow> owner_provider_readback option \<Rightarrow> ('b, 'l, owner_provider_readback) product_op" where
  "call_provider call answer m =
     (ok_or OwnerProviderFailed answer, m\<lparr>pm_calls := pm_calls m @ [(call, pm_durable m)]\<rparr>)"

text \<open>\<open>owner_actions.get(i)\<close>.\<close>

definition nth_action :: "'l product_action \<Rightarrow> nat \<Rightarrow> owner_action option" where
  "nth_action action i =
     (if i < length (pa_owner_actions action) then Some (pa_owner_actions action ! i) else None)"

definition pending_start :: "('b, 'l) product_runtime \<Rightarrow> bool" where
  "pending_start m =
     (case pm_pending_action m of None \<Rightarrow> False | Some action \<Rightarrow> pa_operation action = OpStart)"

text \<open>\<open>complete_source\<close> to \<open>complete_cleanup\<close> are \<open>complete_owner\<close> at their owner kind.\<close>

definition complete_owner ::
  "('h, 'r, 'b, 'l, 'n) product_externals \<Rightarrow> manifold_schemas \<Rightarrow> ('h, 'r, 'b, 'l) product_env
     \<Rightarrow> owner_kind \<Rightarrow> 'l owner_provider \<Rightarrow> u64 \<Rightarrow> ('b, 'l, completion_receipt) product_op" where
  "complete_owner x mx v kind provider now_ms m =
     (if pm_abort_in_progress m then (Inl AbortInProgress, m)
      else if pm_pending_uncertain_owner m \<noteq> None then (Inl UncertainOwnerAttemptPending, m)
      else and_do (refresh_authority x mx v now_ms (pending_start m)) (\<lambda>_ m.
        and_do (give
          (and_then (ok_or NoPendingAction (pm_pending_action m)) (\<lambda>action.
           and_then (ok_or OwnerCallbackOrderMismatch
             (nth_action action (length (pm_pending_owner_receipts m)))) (\<lambda>expected.
           and_then (reject_if (sel_owner_kind (oa_selection expected) \<noteq> kind)
             OwnerCallbackOrderMismatch) (\<lambda>_.
           and_then (reject_if (pv_owner_kind provider \<noteq> kind) OwnerProviderMismatch) (\<lambda>_.
           Inr (action, expected)))))))
        (\<lambda>(action, expected).
        and_do (modify (\<lambda>m. m\<lparr>pm_pending_uncertain_owner := Some expected\<rparr>)) (\<lambda>_.
        and_do (commit_recovery_journal x v) (\<lambda>_.
        and_do (call_provider (ExecuteCall action expected)
          (pv_execute_and_readback provider action expected)) (\<lambda>rb.
        record_owner_readback x v action expected provider rb (length (pm_pending_owner_receipts m)))))) m) m)"

definition complete_uncertain_stop_owner ::
  "('h, 'r, 'b, 'l, 'n) product_externals \<Rightarrow> manifold_schemas \<Rightarrow> ('h, 'r, 'b, 'l) product_env
     \<Rightarrow> 'l owner_provider \<Rightarrow> u64 \<Rightarrow> ('b, 'l, completion_receipt) product_op" where
  "complete_uncertain_stop_owner x mx v provider now_ms m =
     (if pm_abort_in_progress m then (Inl AbortInProgress, m)
      else and_do (give
          (and_then (ok_or InvalidOperationPhase (case pm_pending_action m of None \<Rightarrow> None
             | Some action \<Rightarrow> if pa_operation action = OpStop then Some action else None)) (\<lambda>action.
           and_then (ok_or NoUncertainOwnerAttempt (pm_pending_uncertain_owner m)) (\<lambda>expected.
           and_then (reject_if (nth_action action (length (pm_pending_owner_receipts m)) \<noteq> Some expected)
             OwnerCallbackOrderMismatch) (\<lambda>_.
           and_then (reject_if (pv_owner_kind provider \<noteq> sel_owner_kind (oa_selection expected))
             OwnerProviderMismatch) (\<lambda>_.
           Inr (action, expected)))))))
        (\<lambda>(action, expected).
        and_do (refresh_authority x mx v now_ms False) (\<lambda>_.
        and_do (commit_recovery_journal x v) (\<lambda>_.
        and_do (call_provider (CompensateCall action expected)
          (pv_compensate_uncertain_attempt provider action expected)) (\<lambda>rb.
        record_owner_readback x v action expected provider rb (length (pm_pending_owner_receipts m)))))) m)"

section \<open>Rolling back a partial start\<close>

definition begin_partial_start_abort ::
  "('h, 'r, 'b, 'l, 'n) product_externals \<Rightarrow> ('h, 'r, 'b, 'l) product_env
     \<Rightarrow> ('b, 'l, 'l product_action) product_op" where
  "begin_partial_start_abort x v m =
     and_do (give
       (and_then (ok_or NoPendingAction (pm_pending_action m)) (\<lambda>action.
        and_then (reject_if (pa_operation action \<noteq> OpStart) AbortRequiresPendingStart) (\<lambda>_.
        and_then (reject_if (pm_abort_in_progress m) AbortInProgress) (\<lambda>_.
        Inr action)))))
     (\<lambda>action.
     and_do (modify (\<lambda>m. m\<lparr>pm_abort_in_progress := True, pm_pending_abort_receipts := [],
         pm_pending_abort_uncertain_owner := None\<rparr>)) (\<lambda>_.
     and_do (commit_recovery_journal x v) (\<lambda>_ m.
     (Inr (partial_start_abort_action action (pm_pending_owner_receipts m)
        (pm_pending_uncertain_owner m)), m)))) m"

text \<open>
  \<open>pending_abort_action\<close> expects a pending action while a rollback is in progress; the model
  answers \<open>None\<close> where the source would panic.
\<close>

definition pending_abort_action :: "('b, 'l) product_runtime \<Rightarrow> 'l product_action option" where
  "pending_abort_action m =
     (if pm_abort_in_progress m
      then map_option (\<lambda>action. partial_start_abort_action action (pm_pending_owner_receipts m)
        (pm_pending_uncertain_owner m)) (pm_pending_action m)
      else None)"

definition uncertain_offset :: "('b, 'l) product_runtime \<Rightarrow> nat" where
  "uncertain_offset m = (if pm_pending_uncertain_owner m \<noteq> None then 1 else 0)"

text \<open>The start receipt that the next rollback step undoes, \<open>None\<close> for the uncertain owner.\<close>

definition started_receipt ::
  "('b, 'l) product_runtime \<Rightarrow> product_error + completion_receipt option" where
  "started_receipt m =
     (let sequence = length (pm_pending_abort_receipts m);
          completed = sequence - uncertain_offset m;
          total = length (pm_pending_owner_receipts m) in
      if sequence < uncertain_offset m then Inr None
      else if total < completed + 1 then Inl AbortCallbacksIncomplete
      else Inr (Some (pm_pending_owner_receipts m ! (total - (completed + 1)))))"

definition abort_readback_fits ::
  "completion_receipt option \<Rightarrow> owner_provider_readback \<Rightarrow> bool" where
  "abort_readback_fits started rb =
     (case started of None \<Rightarrow> True
      | Some r \<Rightarrow> opr_provider_handle_id rb = cm_provider_handle_id r
          \<and> cm_provider_state_revision r < opr_provider_state_revision rb)"

definition record_abort_readback ::
  "('h, 'r, 'b, 'l, 'n) product_externals \<Rightarrow> ('h, 'r, 'b, 'l) product_env \<Rightarrow> 'l product_action
     \<Rightarrow> owner_action \<Rightarrow> completion_receipt option \<Rightarrow> 'l owner_provider \<Rightarrow> owner_provider_readback
     \<Rightarrow> ('b, 'l, completion_receipt) product_op" where
  "record_abort_readback x v action expected started provider rb m =
     and_do (give
       (and_then (reject_if (\<not> readback_answers provider action expected rb
            \<or> \<not> abort_readback_fits started rb
            \<or> list_ex (\<lambda>r. cm_receipt_id r = opr_receipt_id rb \<or> cm_selection r = oa_selection expected)
                (pm_pending_abort_receipts m)) OwnerReadbackMismatch) (\<lambda>_.
        and_then (ok_or OwnerReadbackMismatch
          (u32_of_len (length (pm_pending_abort_receipts m) + 1))) (\<lambda>seq.
        Inr (receipt_of expected seq rb)))))
     (\<lambda>receipt.
     and_do (modify (\<lambda>m. m\<lparr>pm_pending_abort_receipts := pm_pending_abort_receipts m @ [receipt],
         pm_pending_abort_uncertain_owner := None\<rparr>)) (\<lambda>_.
     and_do (commit_recovery_journal x v) (\<lambda>_.
     give (Inr receipt)))) m"

definition complete_next_abort_owner ::
  "('h, 'r, 'b, 'l, 'n) product_externals \<Rightarrow> ('h, 'r, 'b, 'l) product_env \<Rightarrow> 'l owner_provider
     \<Rightarrow> ('b, 'l, completion_receipt) product_op" where
  "complete_next_abort_owner x v provider m =
     (let retrying = (pm_pending_abort_uncertain_owner m \<noteq> None) in
      and_do (give
        (and_then (ok_or AbortRequiresPendingStart (pending_abort_action m)) (\<lambda>action.
         and_then (started_receipt m) (\<lambda>started.
         and_then (ok_or AbortCallbacksIncomplete
           (nth_action action (length (pm_pending_abort_receipts m)))) (\<lambda>expected.
         and_then (reject_if (pv_owner_kind provider \<noteq> sel_owner_kind (oa_selection expected)
             \<or> (case started of None \<Rightarrow> False | Some r \<Rightarrow> oa_selection expected \<noteq> cm_selection r))
           OwnerProviderMismatch) (\<lambda>_.
         and_then (reject_if (case pm_pending_abort_uncertain_owner m of None \<Rightarrow> False
             | Some owner \<Rightarrow> owner \<noteq> expected) OwnerCallbackOrderMismatch) (\<lambda>_.
         Inr (action, started, expected))))))))
      (\<lambda>(action, started, expected).
      and_do (modify (\<lambda>m. m\<lparr>pm_pending_abort_uncertain_owner :=
          (if retrying then pm_pending_abort_uncertain_owner m else Some expected)\<rparr>)) (\<lambda>_.
      and_do (commit_recovery_journal x v) (\<lambda>_.
      and_do
        (if started \<noteq> None \<and> \<not> retrying
         then call_provider (ExecuteCall action expected)
           (pv_execute_and_readback provider action expected)
         else call_provider (CompensateCall action expected)
           (pv_compensate_uncertain_attempt provider action expected)) (\<lambda>rb.
      record_abort_readback x v action expected started provider rb)))) m)"

definition finalize_partial_start_abort ::
  "('h, 'r, 'b, 'l, 'n) product_externals \<Rightarrow> ('h, 'r, 'b, 'l) product_env
     \<Rightarrow> ('b, 'l, abort_receipt) product_op" where
  "finalize_partial_start_abort x v m =
     and_do (give
       (and_then (reject_if (pm_cleanup_only_after_restore m \<and> \<not> pm_recovery_receipts_revalidated m)
          RecoveryReceiptsUnverified) (\<lambda>_.
        and_then (reject_if (\<not> pm_abort_in_progress m) AbortRequiresPendingStart) (\<lambda>_.
        and_then (reject_if (pm_pending_abort_uncertain_owner m \<noteq> None) UncertainOwnerAttemptPending) (\<lambda>_.
        and_then (reject_if (length (pm_pending_abort_receipts m)
            \<noteq> length (pm_pending_owner_receipts m) + uncertain_offset m) AbortCallbacksIncomplete) (\<lambda>_.
        ok_or NoPendingAction (pm_pending_action m)))))))
     (\<lambda>action.
     and_do (modify (\<lambda>m. m\<lparr>
         pm_completed_start_abort := Some \<lparr>cb_schema_id = completed_abort_schema,
           cb_original_action = action, cb_started_receipts = pm_pending_owner_receipts m,
           cb_uncertain_owner = pm_pending_uncertain_owner m,
           cb_rollback_action = partial_start_abort_action action (pm_pending_owner_receipts m)
             (pm_pending_uncertain_owner m),
           cb_rollback_receipts = pm_pending_abort_receipts m\<rparr>,
         pm_aborted_action_ids := insort_insert (pa_action_id action) (pm_aborted_action_ids m),
         pm_pending_action := None, pm_pending_owner_receipts := [],
         pm_pending_uncertain_owner := None, pm_pending_abort_receipts := [],
         pm_pending_abort_uncertain_owner := None, pm_abort_in_progress := False\<rparr>)) (\<lambda>_.
     and_do (commit_recovery_journal x v) (\<lambda>_ m'.
     (Inr \<lparr>bx_schema_id = ''rusty.quest.media_stream_platform_abort.v1'',
        bx_action_id = pa_action_id action, bx_abort_action_id = pa_action_id action @ ''.abort'',
        bx_authority_epoch_id = pa_authority_epoch_id action,
        bx_client_authority = pa_client_authority action,
        bx_rollback_receipts = pm_pending_abort_receipts m,
        bx_uncertain_attempts_compensated = of_nat (uncertain_offset m), bx_cleanup_complete = True,
        bx_platform_effect_completed = False,
        bx_resulting_phase = ls_phase (sr_state (pm_runtime m')),
        bx_resulting_runtime_revision = ls_runtime_revision (sr_state (pm_runtime m'))\<rparr>, m')))) m"

section \<open>Applying the recorded completions\<close>

definition execute_request ::
  "string \<Rightarrow> u64 \<Rightarrow> runtime_action \<Rightarrow> runtime_evidence \<Rightarrow> ('b, 'l, runtime_decision) product_op" where
  "execute_request request_id revision action evidence m =
     (case runtime_execute \<lparr>lr_request_id = request_id, lr_expected_runtime_revision = revision,
         lr_action = action, lr_evidence = evidence\<rparr> (pm_runtime m) of
        (decision, runtime) \<Rightarrow>
          (if \<not> ld_accepted decision \<or> \<not> ld_applied decision then Inl LifecycleRejected
           else Inr decision, m\<lparr>pm_runtime := runtime\<rparr>))"

definition apply_lifecycle :: "'l product_action \<Rightarrow> ('b, 'l, runtime_decision list) product_op" where
  "apply_lifecycle action =
     (case pa_operation action of
        OpStart \<Rightarrow>
          and_do (execute_request (pa_action_id action @ ''.arm_receivers'')
            (pa_expected_runtime_revision action) ArmReceivers
            (no_evidence\<lparr>le_receivers_armed := True\<rparr>)) (\<lambda>arm.
          and_do (execute_request (pa_action_id action @ ''.start_sources'')
            (pa_expected_runtime_revision action + 1) StartSources
            (no_evidence\<lparr>le_sources_started := True\<rparr>)) (\<lambda>start.
          give (Inr [arm, start])))
      | OpStop \<Rightarrow>
          and_do (execute_request (pa_action_id action @ ''.cleanup'')
            (pa_expected_runtime_revision action) StopRuntime
            (no_evidence\<lparr>le_cleanup_complete := True\<rparr>)) (\<lambda>stop.
          give (Inr [stop])))"

definition adopt_effects ::
  "'l product_action \<Rightarrow> ('b, 'l) product_runtime \<Rightarrow> ('b, 'l) product_runtime" where
  "adopt_effects action m =
     (let m = m\<lparr>pm_applied_action_ids := insort_insert (pa_action_id action) (pm_applied_action_ids m)\<rparr> in
      case pa_operation action of
        OpStart \<Rightarrow> m\<lparr>pm_active_start_action := Some action,
          pm_active_start_receipts := pm_pending_owner_receipts m,
          pm_active_provider_handles := fold (\<lambda>r. bt_insert (selection_key (cm_selection r))
              (cm_provider_handle_id r, cm_provider_state_revision r))
            (pm_pending_owner_receipts m) (pm_active_provider_handles m),
          pm_active_client_authority := Some (pa_client_authority action),
          pm_pending_action := None, pm_pending_owner_receipts := []\<rparr>
      | OpStop \<Rightarrow> m\<lparr>pm_active_provider_handles := [], pm_active_start_receipts := [],
          pm_active_start_action := None, pm_active_client_authority := None,
          pm_pending_action := None, pm_pending_owner_receipts := []\<rparr>)"

definition apply_recorded_owner_completions ::
  "('h, 'r, 'b, 'l, 'n) product_externals \<Rightarrow> manifold_schemas \<Rightarrow> ('h, 'r, 'b, 'l) product_env
     \<Rightarrow> u64 \<Rightarrow> ('b, 'l, application_receipt) product_op" where
  "apply_recorded_owner_completions x mx v now_ms m =
     (if pm_cleanup_only_after_restore m \<and> pending_start m then (Inl RecoveryStartForbidden, m)
      else if pm_cleanup_only_after_restore m \<and> \<not> pm_recovery_receipts_revalidated m
        then (Inl RecoveryReceiptsUnverified, m)
      else if pm_abort_in_progress m then (Inl AbortInProgress, m)
      else and_do (refresh_authority x mx v now_ms (pending_start m)) (\<lambda>_ m.
        and_do (give
          (and_then (ok_or NoPendingAction (pm_pending_action m)) (\<lambda>action.
           and_then (reject_if (length (pm_pending_owner_receipts m) \<noteq> length (pa_owner_actions action))
             OwnerCallbacksIncomplete) (\<lambda>_.
           and_then (validate_owner_completions action (pm_pending_owner_receipts m)) (\<lambda>_.
           Inr action)))))
        (\<lambda>action.
        and_do (apply_lifecycle action) (\<lambda>decisions.
        and_do (modify (adopt_effects action)) (\<lambda>_.
        and_do (commit_recovery_journal x v) (\<lambda>_ m'.
        (Inr \<lparr>ax_schema_id = ''rusty.quest.media_stream_platform_application.v1'',
           ax_action_id = pa_action_id action, ax_authority_epoch_id = pm_authority_epoch_id m',
           ax_media_acceptance_authority_revision =
             cu_acceptance_state_authority_revision (pm_current_acceptance m'),
           ax_platform_effect_completed = True,
           ax_resulting_runtime_revision = ls_runtime_revision (sr_state (pm_runtime m')),
           ax_resulting_phase = ls_phase (sr_state (pm_runtime m')),
           ax_lifecycle_decisions = decisions,
           ax_owner_receipt_ids = map cm_receipt_id (pm_pending_owner_receipts m)\<rparr>, m'))))) m) m)"

section \<open>Restoring after a crash\<close>

definition restore_from_checked_snapshot ::
  "product_binding \<Rightarrow> ('b, 'l) recovery_snapshot \<Rightarrow> 'b current_receipt \<Rightarrow> authority_source
     \<Rightarrow> product_error + ('b, 'l) product_runtime" where
  "restore_from_checked_snapshot b s current source =
     and_then (reject_if (rv_completed_start_abort s \<noteq> None \<and> ls_phase (rv_lifecycle s) = Stopped)
       RecoverySnapshotInvalid) (\<lambda>_.
     and_then (map_err (\<lambda>_. RecoverySnapshotInvalid) (restore_cleanup_state (bd_spec b) (rv_lifecycle s)))
       (\<lambda>runtime.
     Inr \<lparr>pm_binding = b, pm_current_acceptance = current, pm_authority = source,
       pm_authority_epoch_id = rv_provider_epoch_id s, pm_runtime = runtime,
       pm_pending_action = rv_pending_action s,
       pm_pending_owner_receipts = rv_pending_owner_receipts s,
       pm_pending_uncertain_owner = rv_pending_uncertain_owner s,
       pm_pending_abort_receipts = rv_pending_abort_receipts s,
       pm_pending_abort_uncertain_owner = rv_pending_abort_uncertain_owner s,
       pm_abort_in_progress = (rv_abort_in_progress s
         \<or> (case rv_pending_action s of None \<Rightarrow> False | Some action \<Rightarrow> pa_operation action = OpStart)),
       pm_active_provider_handles = collect_handles (map handle_entry (rv_active_provider_handles s)),
       pm_active_start_receipts = rv_active_start_receipts s,
       pm_active_start_action = rv_active_start_action s,
       pm_active_client_authority = rv_active_client_authority s,
       pm_applied_action_ids = fold insort_insert (rv_applied_action_ids s) [],
       pm_aborted_action_ids = fold insort_insert (rv_aborted_action_ids s) [],
       pm_completed_start_abort = rv_completed_start_abort s,
       pm_cleanup_only_after_restore = True, pm_recovery_receipts_revalidated = False,
       pm_recovery_journal = False, pm_recovery_journal_poisoned = False,
       pm_durable = Some s, pm_calls = []\<rparr>))"

definition restore_cleanup_only_with_live_broker_runtime ::
  "('h, 'r, 'b, 'l, 'n) product_externals \<Rightarrow> manifold_schemas \<Rightarrow> ('h, 'r, 'b, 'l) product_env
     \<Rightarrow> product_binding \<Rightarrow> nat \<Rightarrow> nat \<Rightarrow> string \<Rightarrow> ('b, 'l) recovery_snapshot \<Rightarrow> u64
     \<Rightarrow> product_error + ('b, 'l) product_runtime" where
  "restore_cleanup_only_with_live_broker_runtime x mx v b host_name broker_name decision_id s now_ms =
     and_then (product_binding_validate x b) (\<lambda>_.
     and_then (validate_product_recovery_snapshot x mx b s) (\<lambda>_.
     and_then (ok_or AuthorityProviderUnavailable (ev_host v host_name)) (\<lambda>host.
     and_then (ok_or AuthorityProviderUnavailable (ev_broker v broker_name)) (\<lambda>broker.
     and_then (reject_if (px_provider_epoch_id x host \<noteq> rv_provider_epoch_id s)
       AcceptedProviderEpochMismatch) (\<lambda>_.
     and_then (reject_if (\<not> px_validate_owned_state x host broker) AcceptedSessionNotCurrent) (\<lambda>_.
     and_then (ok_or AcceptedSessionNotCurrent
       (px_validate_with_live_broker x host broker decision_id now_ms)) (\<lambda>current.
     and_then (validate_current_acceptance x mx b current (rv_provider_epoch_id s) now_ms False
       (Some (rv_accepted_subject s))) (\<lambda>_.
     restore_from_checked_snapshot b s current
       \<lparr>sa_host = host_name, sa_broker = Some broker_name, sa_decision_id = decision_id\<rparr>))))))))"

definition decode_recovery_snapshot_json ::
  "('h, 'r, 'b, 'l, 'n) product_externals \<Rightarrow> string \<Rightarrow> product_error + ('b, 'l) recovery_snapshot" where
  "decode_recovery_snapshot_json x text =
     and_then (reject_if (max_recovery_bytes < length text) RecoverySnapshotInvalid) (\<lambda>_.
     ok_or RecoverySnapshotInvalid (px_snapshot_from_str x text))"

definition recovery_cleanup_cursor :: "('b, 'l) product_runtime \<Rightarrow> cleanup_cursor option" where
  "recovery_cleanup_cursor m =
     (if \<not> pm_cleanup_only_after_restore m then None
      else case pm_pending_action m of
          None \<Rightarrow> None
        | Some action \<Rightarrow>
            if pa_operation action = OpStop then
              map_option (\<lambda>owner. \<lparr>cc_original_action_id = pa_action_id action,
                cc_authority_epoch_id = pa_authority_epoch_id action,
                cc_target_client_authority = pa_client_authority action, cc_owner = owner,
                cc_sequence = u32_or_max (length (pm_pending_owner_receipts m) + 1),
                cc_partial_start_abort = False,
                cc_uncertain_attempt = (pm_pending_uncertain_owner m \<noteq> None)\<rparr>)
              (nth_action action (length (pm_pending_owner_receipts m)))
            else case pending_abort_action m of
                None \<Rightarrow> None
              | Some abort \<Rightarrow>
                  let sequence = length (pm_pending_abort_receipts m) in
                  map_option (\<lambda>owner. \<lparr>cc_original_action_id = pa_action_id action,
                    cc_authority_epoch_id = pa_authority_epoch_id action,
                    cc_target_client_authority = pa_client_authority action, cc_owner = owner,
                    cc_sequence = u32_or_max (sequence + 1), cc_partial_start_abort = True,
                    cc_uncertain_attempt = (pm_pending_abort_uncertain_owner m \<noteq> None
                      \<or> (pm_pending_uncertain_owner m \<noteq> None \<and> sequence = 0))\<rparr>)
                  (nth_action abort sequence))"

definition retained_receipts_verified ::
  "('l product_action \<Rightarrow> completion_receipt \<Rightarrow> bool) \<Rightarrow> ('b, 'l) product_runtime \<Rightarrow> bool" where
  "retained_receipts_verified verify m =
     ((case pm_active_start_action m of None \<Rightarrow> True
       | Some action \<Rightarrow> list_all (verify action) (pm_active_start_receipts m))
      \<and> (case pm_pending_action m of None \<Rightarrow> True
         | Some action \<Rightarrow> list_all (verify action) (pm_pending_owner_receipts m))
      \<and> (case pending_abort_action m of None \<Rightarrow> True
         | Some action \<Rightarrow> list_all (verify action) (pm_pending_abort_receipts m))
      \<and> (case pm_completed_start_abort m of None \<Rightarrow> True
         | Some c \<Rightarrow> list_all (verify (cb_original_action c)) (cb_started_receipts c)
             \<and> list_all (verify (cb_rollback_action c)) (cb_rollback_receipts c)))"

definition revalidate_recovered_receipts ::
  "('l product_action \<Rightarrow> completion_receipt \<Rightarrow> bool) \<Rightarrow> ('b, 'l, unit) product_op" where
  "revalidate_recovered_receipts verify m =
     (if \<not> pm_cleanup_only_after_restore m \<or> pm_recovery_journal_poisoned m
      then (Inl RecoverySnapshotInvalid, m)
      else if retained_receipts_verified verify m
      then (Inr (), m\<lparr>pm_recovery_receipts_revalidated := True\<rparr>)
      else (Inl RecoveryReceiptsUnverified, m\<lparr>pm_recovery_receipts_revalidated := False\<rparr>))"

end
