(* ===== verification/Product_Renewal.thy ===== *)
theory Product_Renewal
  imports Product_Runtime
begin

text \<open>
  Concurrent authority renewals of the media product runtime and the remaining queries of
  \<open>crates/rusty-quest-media-stream/src/product_runtime.rs\<close>. A renewal replaces the accepted session
  under a running graph; the digest of everything else that is journaled shows that the graph did
  not change.
\<close>

definition concurrent_physical_graph_sha256 ::
  "('h, 'r, 'b, 'l, 'n) product_externals \<Rightarrow> ('b, 'l) product_runtime \<Rightarrow> product_error + string" where
  "concurrent_physical_graph_sha256 x m =
     and_then (recovery_snapshot x m) (\<lambda>s.
     and_then (ok_or Encode (px_snapshot_to_value x s)) (\<lambda>tree.
     and_then (ok_or RecoverySnapshotInvalid (as_object tree)) (\<lambda>entries.
     and_then (ok_or Encode (px_value_to_vec x (JObject (bt_remove ''accepted_subject'' entries)))) (\<lambda>encoded.
     Inr (''sha256:'' @ lower_hex (px_sha256 x encoded))))))"

definition adoption_schema :: string where
  "adoption_schema = ''rusty.quest.media_stream.concurrent_authority_adoption_receipt.v1''"

definition renewal_refused ::
  "('h, 'r, 'b, 'l, 'n) product_externals \<Rightarrow> 'h \<Rightarrow> 'b renewal_receipt \<Rightarrow> ('b, 'l) product_runtime \<Rightarrow> bool" where
  "renewal_refused x host receipt m =
     (\<not> rn_applied receipt
      \<or> rn_provider_epoch_id receipt \<noteq> pm_authority_epoch_id m
      \<or> receipt \<notin> set (px_concurrent_media_renewals x host)
      \<or> pm_pending_action m \<noteq> None
      \<or> pm_cleanup_only_after_restore m
      \<or> pm_abort_in_progress m)"

text \<open>The prior session with the renewed expiry, against which the renewed one is compared.\<close>

definition extended_prior ::
  "('b, 'l) product_runtime \<Rightarrow> 'b renewal_receipt \<Rightarrow> product_error + 'b current_receipt" where
  "extended_prior m receipt =
     and_then (ok_or AcceptedSessionMismatch (cu_session (pm_current_acceptance m))) (\<lambda>session.
     Inr ((pm_current_acceptance m)\<lparr>cu_session :=
       Some (session\<lparr>ac_expires_at_ms := ac_expires_at_ms (rn_renewed_media receipt)\<rparr>)\<rparr>))"

definition adopt_concurrent_authority_renewal ::
  "('h, 'r, 'b, 'l, 'n) product_externals \<Rightarrow> manifold_schemas \<Rightarrow> ('h, 'r, 'b, 'l) product_env
     \<Rightarrow> 'h \<Rightarrow> 'r \<Rightarrow> 'b renewal_receipt \<Rightarrow> u64 \<Rightarrow> ('b, 'l, 'b adoption_receipt) product_op" where
  "adopt_concurrent_authority_renewal x mx v host broker receipt now_ms m =
     and_do (give
       (and_then (concurrent_physical_graph_sha256 x m) (\<lambda>prior_graph.
        and_then (reject_if (renewal_refused x host receipt m) AcceptedSessionMismatch) (\<lambda>_.
        and_then (ok_or AcceptedSessionNotCurrent
          (px_validate_with_live_broker x host broker (ac_decision_id (rn_renewed_media receipt)) now_ms))
          (\<lambda>current.
        and_then (reject_if (cu_session current \<noteq> Some (rn_renewed_media receipt))
          AcceptedSessionMismatch) (\<lambda>_.
        Inr (prior_graph, current)))))))
     (\<lambda>(prior_graph, current).
     if cu_session (pm_current_acceptance m) = Some (rn_renewed_media receipt) then
       and_do (commit_recovery_journal x v) (\<lambda>_.
       give (Inr \<lparr>dx_schema_id = adoption_schema, dx_owner_request_id = rn_request_id receipt,
         dx_current_acceptance = current, dx_prior_physical_graph_sha256 = prior_graph,
         dx_physical_graph_sha256 = prior_graph\<rparr>))
     else
       and_do (give
         (and_then (reject_if (cu_session (pm_current_acceptance m) \<noteq> Some (rn_prior_media receipt))
            AcceptedSessionSuperseded) (\<lambda>_.
          and_then (extended_prior m receipt) (\<lambda>prior.
          validate_current_acceptance x mx (pm_binding m) current (pm_authority_epoch_id m) now_ms True
            (Some prior))))) (\<lambda>_.
       and_do (modify (\<lambda>m. m\<lparr>pm_current_acceptance := current\<rparr>)) (\<lambda>_.
       and_do (commit_recovery_journal x v) (\<lambda>_ m.
       (and_then (concurrent_physical_graph_sha256 x m) (\<lambda>graph.
        and_then (reject_if (graph \<noteq> prior_graph) AcceptedSessionMismatch) (\<lambda>_.
        Inr \<lparr>dx_schema_id = adoption_schema, dx_owner_request_id = rn_request_id receipt,
          dx_current_acceptance = pm_current_acceptance m,
          dx_prior_physical_graph_sha256 = prior_graph, dx_physical_graph_sha256 = graph\<rparr>)), m))))) m"

definition graph_running :: "('b, 'l) product_runtime \<Rightarrow> bool" where
  "graph_running m =
     (case pm_active_start_action m of
        None \<Rightarrow> False
      | Some action \<Rightarrow> ls_phase (sr_state (pm_runtime m)) \<in> {SourcesStarted, Streaming}
          \<and> length (pa_owner_actions action) = length (pm_active_start_receipts m))"

definition validate_current_concurrent_authority_identity ::
  "('h, 'r, 'b, 'l, 'n) product_externals \<Rightarrow> 'h \<Rightarrow> 'r \<Rightarrow> 'b renewal_receipt \<Rightarrow> u64
     \<Rightarrow> ('b, 'l) product_runtime \<Rightarrow> product_error + string" where
  "validate_current_concurrent_authority_identity x host broker receipt now_ms m =
     and_then (reject_if (\<not> px_validate_owned_state x host broker) AcceptedSessionNotCurrent) (\<lambda>_.
     and_then (reject_if (\<not> rn_applied receipt
         \<or> rn_provider_epoch_id receipt \<noteq> pm_authority_epoch_id m
         \<or> (case px_concurrent_media_renewals x host of [] \<Rightarrow> True | rs \<Rightarrow> last rs \<noteq> receipt)
         \<or> cu_session (pm_current_acceptance m) \<noteq> Some (rn_renewed_media receipt)
         \<or> pm_pending_action m \<noteq> None
         \<or> pm_cleanup_only_after_restore m
         \<or> pm_abort_in_progress m
         \<or> \<not> graph_running m) AcceptedSessionMismatch) (\<lambda>_.
     and_then (ok_or AcceptedSessionNotCurrent
       (px_validate_with_live_broker x host broker (ac_decision_id (rn_renewed_media receipt)) now_ms))
       (\<lambda>current.
     and_then (reject_if (\<not> cu_current current \<or> cu_session current \<noteq> Some (rn_renewed_media receipt))
       AcceptedSessionNotCurrent) (\<lambda>_.
     concurrent_physical_graph_sha256 x m))))"

section \<open>Queries\<close>

definition has_retained_start_abort :: "('b, 'l) product_runtime \<Rightarrow> bool" where
  "has_retained_start_abort m = (pm_abort_in_progress m \<or> pm_completed_start_abort m \<noteq> None)"

definition pending_abort_completed_count :: "('b, 'l) product_runtime \<Rightarrow> nat option" where
  "pending_abort_completed_count m =
     (if pm_abort_in_progress m then Some (length (pm_pending_abort_receipts m)) else None)"

definition pending_stop_progress :: "('b, 'l) product_runtime \<Rightarrow> stop_progress option" where
  "pending_stop_progress m =
     (case pm_pending_action m of
        None \<Rightarrow> None
      | Some action \<Rightarrow>
          if pa_operation action = OpStop
          then Some \<lparr>st_verified_owner_receipts = pm_pending_owner_receipts m,
            st_uncertain_owner = pm_pending_uncertain_owner m\<rparr>
          else None)"

definition retained_original_action :: "('b, 'l) product_runtime \<Rightarrow> 'l product_action option" where
  "retained_original_action m =
     (if pm_abort_in_progress m then
        (case pm_pending_action m of None \<Rightarrow> None
         | Some action \<Rightarrow> if pa_operation action = OpStart then Some action else None)
      else map_option cb_original_action (pm_completed_start_abort m))"

definition authorize_retained_start_abort ::
  "('h, 'r, 'b, 'l, 'n) product_externals \<Rightarrow> 'h \<Rightarrow> 'l revoker_evidence \<Rightarrow> u64
     \<Rightarrow> ('b, 'l) product_runtime \<Rightarrow> product_error + client_authority" where
  "authorize_retained_start_abort x host evidence now_ms m =
     and_then (validate_trusted_cleanup_authority x m host evidence now_ms) (\<lambda>_.
     and_then (ok_or AbortRequiresPendingStart (retained_original_action m)) (\<lambda>original.
     and_then (reject_if (pa_authority_epoch_id original \<noteq> pm_authority_epoch_id m
         \<or> pa_runtime_spec_id original \<noteq> sp_runtime_spec_id (bd_spec (pm_binding m))
         \<or> pa_runtime_spec_canonical_sha256 original
             \<noteq> bd_runtime_spec_canonical_sha256 (pm_binding m)) AcceptedSessionMismatch) (\<lambda>_.
     Inr (pa_client_authority original))))"

end
