(* ===== verification/Product_Steps.thy ===== *)
theory Product_Steps
  imports Product_Renewal
begin

text \<open>
  The media product runtime as a transition system, and its write-ahead discipline: a provider is
  called only when the store holds a snapshot that names the attempt, and a runtime whose journal
  failed calls nothing any more.
\<close>

section \<open>Steps\<close>

inductive product_step ::
  "('h, 'r, 'b, 'l, 'n) product_externals \<Rightarrow> manifold_schemas \<Rightarrow> ('b, 'l) product_runtime
     \<Rightarrow> ('b, 'l) product_runtime \<Rightarrow> bool" for x mx where
  step_install: "product_step x mx m (snd (install_recovery_journal x v m))"
| step_review: "product_step x mx m (snd (review_prepare x mx v i op c now m))"
| step_prepare: "product_step x mx m (snd (prepare x mx v i op c now m))"
| step_prepare_live: "product_step x mx m (snd (prepare_with_live_authority x mx v h i op c now m))"
| step_revoker: "product_step x mx m (snd (prepare_trusted_revoker_cleanup x v host e i now m))"
| step_complete: "product_step x mx m (snd (complete_owner x mx v kind provider now m))"
| step_uncertain: "product_step x mx m (snd (complete_uncertain_stop_owner x mx v provider now m))"
| step_begin_abort: "product_step x mx m (snd (begin_partial_start_abort x v m))"
| step_abort: "product_step x mx m (snd (complete_next_abort_owner x v provider m))"
| step_finalize: "product_step x mx m (snd (finalize_partial_start_abort x v m))"
| step_apply: "product_step x mx m (snd (apply_recorded_owner_completions x mx v now m))"
| step_revalidate: "product_step x mx m (snd (revalidate_recovered_receipts verify m))"
| step_adopt: "product_step x mx m
    (snd (adopt_concurrent_authority_renewal x mx v host broker receipt now m))"

abbreviation product_steps ::
  "('h, 'r, 'b, 'l, 'n) product_externals \<Rightarrow> manifold_schemas \<Rightarrow> ('b, 'l) product_runtime
     \<Rightarrow> ('b, 'l) product_runtime \<Rightarrow> bool" where
  "product_steps x mx \<equiv> (product_step x mx)\<^sup>*\<^sup>*"

section \<open>Rules for the sequencing operators\<close>

text \<open>A transitive relation holds across a sequence when it holds across its parts.\<close>

lemma and_do_trans:
  assumes "\<And>a b c. R a b \<Longrightarrow> R b c \<Longrightarrow> R a c"
    and "R s (snd (op s))"
    and "\<And>v s'. op s = (Inr v, s') \<Longrightarrow> R s' (snd (f v s'))"
  shows "R s (snd (and_do op f s))"
proof (cases rule: and_do_cases [where op = op and s = s and f = f])
  case (err e s')
  with assms(2) show ?thesis by simp
next
  case (ok v s')
  with assms show ?thesis by (metis snd_conv)
qed

lemma and_do_simps [simp]:
  "and_do (give (Inl e)) f s = (Inl e, s)"
  "and_do (give (Inr u)) f s = f u s"
  "and_do (modify g) h s = h () (g s)"
  by (simp_all add: and_do_def give_def modify_def)

lemma and_do_give_cases: "(\<And>u. r = Inr u \<Longrightarrow> P (f u s)) \<Longrightarrow> (\<And>e. r = Inl e \<Longrightarrow> P (Inl e, s)) \<Longrightarrow>
    P (and_do (give r) f s)"
  by (cases r) simp_all

section \<open>Commits\<close>

lemma recovery_snapshot_eq: "recovery_snapshot x m = Inr s \<Longrightarrow> s = snapshot_of m"
  by (auto simp: recovery_snapshot_def result_simps)

lemma journal_commit_cases:
  obtains (committed) "journal_commit v s m = (Inr (), m\<lparr>pm_durable := Some s\<rparr>)"
  | (failed) d where "d = pm_durable m \<or> d = Some s"
    "journal_commit v s m = (Inl RecoveryJournalUnavailable,
       m\<lparr>pm_durable := d, pm_recovery_journal_poisoned := True\<rparr>)"
proof (cases "ev_commit v s")
  case Committed
  then show thesis
    by (intro committed) (simp add: journal_commit_def commit_durable_def commit_result_def Let_def)
next
  case (CommitFailed e replaced)
  then show thesis
    by (intro failed [of "if replaced then Some s else pm_durable m"])
      (simp_all add: journal_commit_def commit_durable_def commit_result_def Let_def)
qed

lemma commit_cases:
  obtains (skipped) "\<not> pm_recovery_journal m" "\<not> pm_cleanup_only_after_restore m"
    "\<not> pm_recovery_journal_poisoned m" "commit_recovery_journal x v m = (Inr (), m)"
  | (refused) e where "commit_recovery_journal x v m = (Inl e, m)"
  | (committed) "pm_recovery_journal m" "\<not> pm_recovery_journal_poisoned m"
    "recovery_snapshot x m = Inr (snapshot_of m)"
    "commit_recovery_journal x v m = (Inr (), m\<lparr>pm_durable := Some (snapshot_of m)\<rparr>)"
  | (failed) d where "pm_recovery_journal m" "\<not> pm_recovery_journal_poisoned m"
    "recovery_snapshot x m = Inr (snapshot_of m)" "d = pm_durable m \<or> d = Some (snapshot_of m)"
    "commit_recovery_journal x v m = (Inl RecoveryJournalUnavailable,
       m\<lparr>pm_durable := d, pm_recovery_journal_poisoned := True\<rparr>)"
proof -
  consider (poisoned) "pm_recovery_journal_poisoned m"
    | (bare) "\<not> pm_recovery_journal_poisoned m" "\<not> pm_recovery_journal m"
    | (journal) "\<not> pm_recovery_journal_poisoned m" "pm_recovery_journal m"
    by blast
  then show thesis
  proof cases
    case poisoned
    then show thesis by (intro refused) (simp add: commit_recovery_journal_def)
  next
    case bare
    then show thesis
      by (cases "pm_cleanup_only_after_restore m")
        (auto intro: skipped refused simp: commit_recovery_journal_def)
  next
    case journal
    show thesis
    proof (cases "recovery_snapshot x m")
      case (Inl e)
      with journal show thesis by (intro refused) (simp add: commit_recovery_journal_def)
    next
      case (Inr s)
      with journal recovery_snapshot_eq [OF Inr] show thesis
        by (cases rule: journal_commit_cases [where v = v and s = s and m = m])
          (auto intro: committed failed simp: commit_recovery_journal_def)
    qed
  qed
qed

section \<open>Write-ahead discipline\<close>

definition call_target :: "'l provider_call \<Rightarrow> 'l product_action \<times> owner_action" where
  "call_target call =
     (case call of ExecuteCall action owner \<Rightarrow> (action, owner)
      | CompensateCall action owner \<Rightarrow> (action, owner))"

text \<open>
  A snapshot names an attempt: the attempted owner is the uncertain owner of the pending action,
  or of the rollback of the pending start.
\<close>

definition names_attempt :: "('b, 'l) recovery_snapshot \<Rightarrow> 'l product_action \<times> owner_action \<Rightarrow> bool" where
  "names_attempt s = (\<lambda>(action, owner).
     (rv_pending_action s = Some action \<and> rv_pending_uncertain_owner s = Some owner)
     \<or> (rv_abort_in_progress s \<and> rv_pending_abort_uncertain_owner s = Some owner
        \<and> (\<exists>start. rv_pending_action s = Some start
             \<and> action = partial_start_abort_action start (rv_pending_owner_receipts s)
                  (rv_pending_uncertain_owner s))))"

definition call_covered :: "'l provider_call \<times> ('b, 'l) recovery_snapshot option \<Rightarrow> bool" where
  "call_covered = (\<lambda>(call, store). \<exists>s. store = Some s \<and> names_attempt s (call_target call))"

definition journaled :: "('b, 'l) product_runtime \<Rightarrow> bool" where
  "journaled m = (pm_recovery_journal m \<or> pm_cleanup_only_after_restore m)"

definition careful :: "('b, 'l) product_runtime \<Rightarrow> ('b, 'l) product_runtime \<Rightarrow> bool" where
  "careful m m' =
     ((journaled m \<longrightarrow> journaled m')
      \<and> (pm_recovery_journal_poisoned m \<longrightarrow> pm_recovery_journal_poisoned m'
           \<and> pm_calls m' = pm_calls m \<and> pm_durable m' = pm_durable m)
      \<and> (\<exists>more. pm_calls m' = pm_calls m @ more \<and> (journaled m \<longrightarrow> list_all call_covered more)))"

lemma careful_trans: "careful a b \<Longrightarrow> careful b c \<Longrightarrow> careful a c"
  by (fastforce simp: careful_def)

lemma careful_refl [simp]: "careful m m"
  by (simp add: careful_def)

text \<open>Nothing but the two observations and the journal flags matters for the discipline.\<close>

lemma careful_update:
  "pm_calls m' = pm_calls m \<Longrightarrow> pm_durable m' = pm_durable m \<Longrightarrow>
     pm_recovery_journal m' = pm_recovery_journal m \<Longrightarrow>
     pm_recovery_journal_poisoned m' = pm_recovery_journal_poisoned m \<Longrightarrow>
     pm_cleanup_only_after_restore m' = pm_cleanup_only_after_restore m \<Longrightarrow> careful m m'"
  by (simp add: careful_def journaled_def)

lemma careful_seq:
  "careful m (snd (op m)) \<Longrightarrow> (\<And>u m'. op m = (Inr u, m') \<Longrightarrow> careful m' (snd (f u m'))) \<Longrightarrow>
     careful m (snd (and_do op f m))"
  by (rule and_do_trans [where R = careful, OF careful_trans])

lemma careful_commit: "careful m (snd (commit_recovery_journal x v m))"
  by (cases rule: commit_cases [where m = m and x = x and v = v]) (auto simp: careful_def journaled_def)

lemma careful_refresh: "careful m (snd (refresh_authority x mx v now current m))"
  by (auto simp: refresh_authority_def intro: careful_update split: sum.splits)

lemma snapshot_of_durable [simp]:
  "snapshot_of (m\<lparr>pm_durable := d\<rparr>) = snapshot_of m"
  "snapshot_of (m\<lparr>pm_recovery_journal_poisoned := p\<rparr>) = snapshot_of m"
  by (simp_all add: snapshot_of_def)

text \<open>The one place where providers are called: after a commit, on an attempt the snapshot names.\<close>

lemma careful_call:
  assumes "names_attempt (snapshot_of m) (call_target call)"
    and "\<And>rb m'. careful m' (snd (f rb m'))"
  shows "careful m (snd (and_do (commit_recovery_journal x v) (\<lambda>_. and_do (call_provider call answer) f) m))"
proof -
  let ?after = "\<lambda>m. m\<lparr>pm_calls := pm_calls m @ [(call, pm_durable m)]\<rparr>"
  have call: "careful m' (snd (and_do (call_provider call answer) f m'))"
    if "careful m' (?after m')" for m'
  proof (rule careful_seq)
    show "careful m' (snd (call_provider call answer m'))"
      using that by (simp add: call_provider_def)
  qed (rule assms(2))
  show ?thesis
  proof (cases rule: commit_cases [where m = m and x = x and v = v])
    case skipped
    then have "careful m (?after m)"
      by (simp add: careful_def journaled_def)
    with call skipped show ?thesis by (simp add: and_do_def)
  next
    case committed
    let ?m = "m\<lparr>pm_durable := Some (snapshot_of m)\<rparr>"
    have "careful m ?m" and "careful ?m (?after ?m)"
      using committed(1,2) assms(1) by (simp_all add: careful_def journaled_def call_covered_def)
    with call [of ?m] committed(4) show ?thesis
      by (auto simp: and_do_def intro: careful_trans)
  next
    case (failed d)
    with careful_commit [of m x v] show ?thesis by (simp add: and_do_def)
  qed (simp add: and_do_def)
qed

text \<open>The other pieces the operations are made of.\<close>

lemma careful_modify: "careful m (g m) \<Longrightarrow> careful (g m) (snd (f () (g m))) \<Longrightarrow>
    careful m (snd (and_do (modify g) f m))"
  by (auto intro: careful_trans)

lemma careful_give: "(\<And>u. r = Inr u \<Longrightarrow> careful m (snd (f u m))) \<Longrightarrow>
    careful m (snd (and_do (give r) f m))"
  by (cases r) simp_all

lemma careful_commit_last: "(\<And>m'. snd (f () m') = m') \<Longrightarrow>
    careful m (snd (and_do (commit_recovery_journal x v) f m))"
  by (rule careful_seq) (simp_all add: careful_commit)

lemmas careful_parts = careful_give careful_modify careful_commit_last careful_update

lemma careful_install: "careful m (snd (install_recovery_journal x v m))"
proof (cases "pm_recovery_journal_poisoned m \<or> pm_recovery_journal m")
  case False
  have "careful m (snd (and_do (journal_commit v s) (\<lambda>_. modify (pm_recovery_journal_update (\<lambda>_. True))) m))"
    if "\<not> pm_recovery_journal_poisoned m" for s
    using that by (cases rule: journal_commit_cases [where v = v and s = s and m = m])
      (simp_all add: and_do_def modify_def careful_def journaled_def)
  with False show ?thesis
    by (auto simp: install_recovery_journal_def intro: careful_give)
qed (auto simp: install_recovery_journal_def)

lemma careful_review: "careful m (snd (review_prepare x mx v i op c now m))"
  by (auto simp: review_prepare_def intro: careful_seq careful_refresh)

lemma careful_prepare: "careful m (snd (prepare x mx v i op c now m))"
  unfolding prepare_def Let_def by (intro careful_seq careful_review careful_parts) (simp_all add: give_def)

lemma careful_prepare_live: "careful m (snd (prepare_with_live_authority x mx v h i op c now m))"
proof -
  let ?m = "m\<lparr>pm_authority := (pm_authority m)\<lparr>sa_host := h\<rparr>\<rparr>"
  obtain r candidate where ran: "prepare x mx v i op c now ?m = (r, candidate)"
    by fastforce
  have "careful ?m candidate"
    using careful_prepare [of ?m x mx v i op c now] ran by simp
  with ran show ?thesis
    by (cases r) (auto simp: prepare_with_live_authority_def careful_def journaled_def)
qed

lemma careful_revoker: "careful m (snd (prepare_trusted_revoker_cleanup x v host e i now m))"
  unfolding prepare_trusted_revoker_cleanup_def Let_def
proof (rule careful_give, goal_cases)
  case (1 u)
  obtain current ended c where u: "u = (current, ended, c)"
    by (cases u)
  show ?case
    unfolding u prod.case by (intro careful_modify careful_commit_last careful_update) (simp_all add: give_def)
qed

lemma careful_record: "careful m (snd (record_owner_readback x v action expected provider rb n m))"
  unfolding record_owner_readback_def by (intro careful_parts) (simp_all add: give_def)

lemma careful_complete: "careful m (snd (complete_owner x mx v kind provider now m))"
proof -
  have attempt: "careful m (snd (and_do (modify (pm_pending_uncertain_owner_update (\<lambda>_. Some expected)))
      (\<lambda>_. and_do (commit_recovery_journal x v) (\<lambda>_. and_do (call_provider (ExecuteCall action expected) answer)
         (\<lambda>rb. record_owner_readback x v action expected provider rb n))) m))"
    if "pm_pending_action m = Some action" for m :: "('a, 'b) product_runtime" and action expected answer n
  proof (rule careful_modify, goal_cases)
    case 2
    show ?case
      using that by (intro careful_call careful_record)
        (simp add: names_attempt_def call_target_def snapshot_of_def)
  qed (simp add: careful_update)
  show ?thesis
    unfolding complete_owner_def
    by (auto intro!: careful_seq careful_refresh careful_give attempt simp: result_simps split: prod.splits)
qed

lemma careful_uncertain: "careful m (snd (complete_uncertain_stop_owner x mx v provider now m))"
proof -
  have attempt: "careful m (snd (and_do (refresh_authority x mx v now False)
      (\<lambda>_. and_do (commit_recovery_journal x v) (\<lambda>_. and_do (call_provider (CompensateCall action expected) answer)
         (\<lambda>rb. record_owner_readback x v action expected provider rb n))) m))"
    if "pm_pending_action m = Some action" "pm_pending_uncertain_owner m = Some expected"
    for action expected answer n
  proof (rule careful_seq)
    fix u m'
    assume "refresh_authority x mx v now False m = (Inr u, m')"
    then obtain current where "m' = m\<lparr>pm_current_acceptance := current\<rparr>"
      by (auto simp: refresh_authority_def split: sum.splits)
    with that show "careful m' (snd (and_do (commit_recovery_journal x v)
        (\<lambda>_. and_do (call_provider (CompensateCall action expected) answer)
           (\<lambda>rb. record_owner_readback x v action expected provider rb n)) m'))"
      by (intro careful_call careful_record) (simp add: names_attempt_def call_target_def snapshot_of_def)
  qed (rule careful_refresh)
  show ?thesis
    unfolding complete_uncertain_stop_owner_def
    by (auto intro!: careful_give attempt simp: result_simps split: prod.splits option.splits if_splits)
qed

lemma careful_begin_abort: "careful m (snd (begin_partial_start_abort x v m))"
  unfolding begin_partial_start_abort_def by (intro careful_parts) simp_all

lemma careful_record_abort:
  "careful m (snd (record_abort_readback x v action expected started provider rb m))"
  unfolding record_abort_readback_def by (intro careful_parts) (simp_all add: give_def)

lemma pending_abort_eq_Some:
  "pending_abort_action m = Some action \<longleftrightarrow> pm_abort_in_progress m \<and> (\<exists>start. pm_pending_action m = Some start
     \<and> action = partial_start_abort_action start (pm_pending_owner_receipts m) (pm_pending_uncertain_owner m))"
  by (auto simp: pending_abort_action_def)

lemma careful_abort: "careful m (snd (complete_next_abort_owner x v provider m))"
proof -
  let ?mark = "\<lambda>expected n. n\<lparr>pm_pending_abort_uncertain_owner :=
      (if pm_pending_abort_uncertain_owner m \<noteq> None then pm_pending_abort_uncertain_owner n else Some expected)\<rparr>"
  have attempt: "careful m (snd (and_do (modify (?mark expected)) (\<lambda>_. and_do (commit_recovery_journal x v)
      (\<lambda>_. and_do (call_provider call answer)
         (\<lambda>rb. record_abort_readback x v action expected started provider rb))) m))"
    if "pending_abort_action m = Some action" and "call_target call = (action, expected)"
      and "\<not> (case pm_pending_abort_uncertain_owner m of None \<Rightarrow> False | Some owner \<Rightarrow> owner \<noteq> expected)"
    for action expected call answer started
  proof (rule careful_modify, goal_cases)
    case 2
    have "pm_pending_abort_uncertain_owner (?mark expected m) = Some expected"
      using that(3) by (simp split: option.splits)
    with that(1,2) show ?case
      by (intro careful_call careful_record_abort)
        (auto simp: names_attempt_def snapshot_of_def pending_abort_eq_Some)
  qed (simp add: careful_update)
  show ?thesis
    unfolding complete_next_abort_owner_def Let_def
  proof (rule careful_give, goal_cases)
    case (1 u)
    obtain action started expected where u: "u = (action, started, expected)"
      by (cases u)
    have pending: "pending_abort_action m = Some action"
      "\<not> (case pm_pending_abort_uncertain_owner m of None \<Rightarrow> False | Some owner \<Rightarrow> owner \<noteq> expected)"
      using 1 by (auto simp: u result_simps)
    have execute: "call_target (ExecuteCall action expected) = (action, expected)"
      and compensate: "call_target (CompensateCall action expected) = (action, expected)"
      by (simp_all add: call_target_def)
    show ?case
    proof (cases "started \<noteq> None \<and> \<not> pm_pending_abort_uncertain_owner m \<noteq> None")
      case True
      show ?thesis
        unfolding u prod.case if_P [OF True] by (rule attempt [OF pending(1) execute pending(2)])
    next
      case False
      show ?thesis
        unfolding u prod.case if_not_P [OF False] by (rule attempt [OF pending(1) compensate pending(2)])
    qed
  qed
qed

lemma careful_finalize: "careful m (snd (finalize_partial_start_abort x v m))"
  unfolding finalize_partial_start_abort_def by (intro careful_parts) simp_all

lemma execute_request_runtime:
  "\<exists>runtime. snd (execute_request i r a e m) = m\<lparr>pm_runtime := runtime\<rparr>"
  by (simp add: execute_request_def split: prod.splits) blast

lemma careful_execute: "careful m (snd (execute_request i r a e m))"
  using execute_request_runtime [of i r a e m] by (auto intro: careful_update)

lemma careful_lifecycle: "careful m (snd (apply_lifecycle action m))"
  by (cases "pa_operation action")
    (auto simp: apply_lifecycle_def give_def intro!: careful_seq careful_execute)

lemma careful_adopt_effects: "careful m (adopt_effects action m)"
  by (rule careful_update) (simp_all add: adopt_effects_def Let_def split: platform_operation.splits)

lemma careful_apply: "careful m (snd (apply_recorded_owner_completions x mx v now m))"
proof -
  have "careful m (snd (and_do (refresh_authority x mx v now (pending_start m)) (\<lambda>_ m.
      and_do (give (E m)) (\<lambda>action. and_do (apply_lifecycle action) (\<lambda>decisions.
        and_do (modify (adopt_effects action)) (\<lambda>_.
        and_do (commit_recovery_journal x v) (\<lambda>_ m'. (Inr (F m action decisions m'), m'))))) m) m))"
    for E :: "('a, 'b) product_runtime \<Rightarrow> product_error + 'b product_action"
      and F :: "('a, 'b) product_runtime \<Rightarrow> 'b product_action \<Rightarrow> runtime_decision list
        \<Rightarrow> ('a, 'b) product_runtime \<Rightarrow> application_receipt"
    by (intro careful_seq [OF careful_refresh] careful_give careful_seq [OF careful_lifecycle]
        careful_modify careful_commit_last careful_adopt_effects) simp_all
  then show ?thesis
    unfolding apply_recorded_owner_completions_def by simp
qed

lemma careful_revalidate: "careful m (snd (revalidate_recovered_receipts verify m))"
  by (auto simp: revalidate_recovered_receipts_def intro: careful_update)

lemma careful_adopt: "careful m (snd (adopt_concurrent_authority_renewal x mx v host broker receipt now m))"
  unfolding adopt_concurrent_authority_renewal_def
proof (rule careful_give, goal_cases)
  case (1 u)
  obtain prior_graph current where u: "u = (prior_graph, current)"
    by (cases u)
  show ?case
    unfolding u prod.case
    by (cases "cu_session (pm_current_acceptance m) = Some (rn_renewed_media receipt)")
      (simp_all, (intro careful_parts; simp add: give_def)+)
qed

lemmas careful_operations = careful_install careful_review careful_prepare careful_prepare_live
  careful_revoker careful_complete careful_uncertain careful_begin_abort careful_abort
  careful_finalize careful_apply careful_revalidate careful_adopt

lemma careful_step: "product_step x mx m m' \<Longrightarrow> careful m m'"
  by (induction rule: product_step.induct) (rule careful_operations)+

lemma careful_run: "product_steps x mx m m' \<Longrightarrow> careful m m'"
  by (induction rule: rtranclp_induct) (auto dest: careful_step intro: careful_trans)

end
