(* ===== verification/Product_Micro.thy ===== *)
theory Product_Micro
  imports Product_Steps
begin

text \<open>
  A proof device for the media product runtime, not a specification of it: the atomic changes of its
  state, each with the conditions that invariants need. The changes are made by the functions of the
  model itself, and guards that no invariant relies on are left out. Every operation of the runtime
  is a sequence of such changes, so an invariant of the changes is an invariant of the runtime.
\<close>

section \<open>Atomic changes\<close>

definition prepared :: "'l product_action \<Rightarrow> ('b, 'l) product_runtime \<Rightarrow> ('b, 'l) product_runtime" where
  "prepared action m = m\<lparr>pm_pending_owner_receipts := [], pm_pending_uncertain_owner := None,
     pm_pending_abort_receipts := [], pm_pending_abort_uncertain_owner := None,
     pm_abort_in_progress := False, pm_pending_action := Some action\<rparr>"

definition recorded :: "completion_receipt \<Rightarrow> ('b, 'l) product_runtime \<Rightarrow> ('b, 'l) product_runtime" where
  "recorded receipt m = m\<lparr>pm_pending_owner_receipts := pm_pending_owner_receipts m @ [receipt],
     pm_pending_uncertain_owner := None\<rparr>"

definition abort_recorded ::
  "completion_receipt \<Rightarrow> ('b, 'l) product_runtime \<Rightarrow> ('b, 'l) product_runtime" where
  "abort_recorded receipt m = m\<lparr>pm_pending_abort_receipts := pm_pending_abort_receipts m @ [receipt],
     pm_pending_abort_uncertain_owner := None\<rparr>"

definition abort_finished :: "'l product_action \<Rightarrow> ('b, 'l) product_runtime \<Rightarrow> ('b, 'l) product_runtime" where
  "abort_finished action m = m\<lparr>
     pm_completed_start_abort := Some \<lparr>cb_schema_id = completed_abort_schema,
       cb_original_action = action, cb_started_receipts = pm_pending_owner_receipts m,
       cb_uncertain_owner = pm_pending_uncertain_owner m,
       cb_rollback_action = partial_start_abort_action action (pm_pending_owner_receipts m)
         (pm_pending_uncertain_owner m),
       cb_rollback_receipts = pm_pending_abort_receipts m\<rparr>,
     pm_aborted_action_ids := insort_insert (pa_action_id action) (pm_aborted_action_ids m),
     pm_pending_action := None, pm_pending_owner_receipts := [],
     pm_pending_uncertain_owner := None, pm_pending_abort_receipts := [],
     pm_pending_abort_uncertain_owner := None, pm_abort_in_progress := False\<rparr>"

definition attempt_pending :: "('b, 'l) product_runtime \<Rightarrow> 'l product_action \<Rightarrow> owner_action \<Rightarrow> bool" where
  "attempt_pending m action expected =
     (\<not> pm_abort_in_progress m \<and> pm_pending_action m = Some action
      \<and> nth_action action (length (pm_pending_owner_receipts m)) = Some expected)"

definition abort_pending ::
  "('b, 'l) product_runtime \<Rightarrow> 'l product_action \<Rightarrow> owner_action \<Rightarrow> completion_receipt option \<Rightarrow> bool" where
  "abort_pending m action expected started =
     (pending_abort_action m = Some action
      \<and> nth_action action (length (pm_pending_abort_receipts m)) = Some expected
      \<and> started_receipt m = Inr started
      \<and> (case started of None \<Rightarrow> True | Some r \<Rightarrow> oa_selection expected = cm_selection r))"

inductive micro ::
  "('h, 'r, 'b, 'l, 'n) product_externals \<Rightarrow> manifold_schemas \<Rightarrow> ('b, 'l) product_runtime
     \<Rightarrow> ('b, 'l) product_runtime \<Rightarrow> bool" for x mx where
  mi_commit: "recovery_snapshot x m = Inr s \<Longrightarrow> micro x mx m (m\<lparr>pm_durable := Some s\<rparr>)"
| mi_poison: "micro x mx m (m\<lparr>pm_recovery_journal_poisoned := True\<rparr>)"
| mi_journal: "micro x mx m (m\<lparr>pm_recovery_journal := True\<rparr>)"
| mi_refresh: "validate_current_acceptance x mx (pm_binding m) current (pm_authority_epoch_id m) now
      need (Some (pm_current_acceptance m)) = Inr () \<Longrightarrow>
    micro x mx m (m\<lparr>pm_current_acceptance := current\<rparr>)"
| mi_renew: "extended_prior m receipt = Inr prior \<Longrightarrow>
    validate_current_acceptance x mx (pm_binding m) current (pm_authority_epoch_id m) now
      True (Some prior) = Inr () \<Longrightarrow>
    micro x mx m (m\<lparr>pm_current_acceptance := current\<rparr>)"
| mi_host: "micro x mx m (m\<lparr>pm_authority := source\<rparr>)"
| mi_prepare: "\<not> pm_cleanup_only_after_restore m \<Longrightarrow> reviewed m i op c = Inr () \<Longrightarrow>
    cu_session (pm_current_acceptance m) = Some accepted \<Longrightarrow>
    micro x mx m (prepared (action_for m accepted i op c None) m)"
| mi_revoker: "validate_trusted_cleanup_authority x m host e now = Inr current \<Longrightarrow>
    cu_session current = Some ended \<Longrightarrow> pm_pending_action m = None \<Longrightarrow> \<not> trim_is_empty i \<Longrightarrow>
    i \<notin> set (pm_applied_action_ids m) \<Longrightarrow> i \<notin> set (pm_aborted_action_ids m) \<Longrightarrow>
    cleanup_client_authority m = Some c \<Longrightarrow> n = m\<lparr>pm_current_acceptance := current\<rparr> \<Longrightarrow>
    micro x mx m (n\<lparr>pm_pending_owner_receipts := [], pm_pending_uncertain_owner := None,
      pm_pending_action := Some (action_for n ended i OpStop c (Some e))\<rparr>)"
| mi_attempt: "attempt_pending m action expected \<Longrightarrow>
    micro x mx m (m\<lparr>pm_pending_uncertain_owner := Some expected\<rparr>)"
| mi_call: "names_attempt (snapshot_of m) (call_target call) \<Longrightarrow>
    (\<exists>started. abort_pending m (fst (call_target call)) (snd (call_target call)) started)
      \<or> attempt_pending m (fst (call_target call)) (snd (call_target call)) \<Longrightarrow>
    micro x mx m (m\<lparr>pm_calls := pm_calls m @ [(call, pm_durable m)]\<rparr>)"
| mi_record: "attempt_pending m action expected \<Longrightarrow> pm_pending_uncertain_owner m = Some expected \<Longrightarrow>
    readback_answers provider action expected rb \<Longrightarrow>
    \<not> list_ex (\<lambda>r. cm_receipt_id r = opr_receipt_id rb
       \<or> cm_provider_handle_id r = opr_provider_handle_id rb) (pm_pending_owner_receipts m) \<Longrightarrow>
    handle_continues m action expected rb \<Longrightarrow>
    u32_of_len (length (pm_pending_owner_receipts m) + 1) = Some seq \<Longrightarrow>
    micro x mx m (recorded (receipt_of expected seq rb) m)"
| mi_begin_abort: "pm_pending_action m = Some action \<Longrightarrow> pa_operation action = OpStart \<Longrightarrow>
    \<not> pm_abort_in_progress m \<Longrightarrow>
    micro x mx m (m\<lparr>pm_abort_in_progress := True, pm_pending_abort_receipts := [],
      pm_pending_abort_uncertain_owner := None\<rparr>)"
| mi_abort_attempt: "abort_pending m action expected started \<Longrightarrow>
    micro x mx m (m\<lparr>pm_pending_abort_uncertain_owner := Some expected\<rparr>)"
| mi_abort_record: "abort_pending m action expected started \<Longrightarrow>
    readback_answers provider action expected rb \<Longrightarrow> abort_readback_fits started rb \<Longrightarrow>
    \<not> list_ex (\<lambda>r. cm_receipt_id r = opr_receipt_id rb \<or> cm_selection r = oa_selection expected)
       (pm_pending_abort_receipts m) \<Longrightarrow>
    u32_of_len (length (pm_pending_abort_receipts m) + 1) = Some seq \<Longrightarrow>
    micro x mx m (abort_recorded (receipt_of expected seq rb) m)"
| mi_finalize: "pm_abort_in_progress m \<Longrightarrow> pm_pending_abort_uncertain_owner m = None \<Longrightarrow>
    length (pm_pending_abort_receipts m) = length (pm_pending_owner_receipts m) + uncertain_offset m \<Longrightarrow>
    pm_pending_action m = Some action \<Longrightarrow>
    micro x mx m (abort_finished action m)"
| mi_apply: "pm_pending_action m = Some action \<Longrightarrow> \<not> pm_abort_in_progress m \<Longrightarrow>
    (pm_cleanup_only_after_restore m \<longrightarrow> pa_operation action \<noteq> OpStart) \<Longrightarrow>
    validate_owner_completions action (pm_pending_owner_receipts m) = Inr () \<Longrightarrow>
    apply_lifecycle action m = (Inr decisions, m') \<Longrightarrow>
    micro x mx m (adopt_effects action m')"
| mi_apply_failed: "pm_pending_action m = Some action \<Longrightarrow> \<not> pm_abort_in_progress m \<Longrightarrow>
    (pm_cleanup_only_after_restore m \<longrightarrow> pa_operation action \<noteq> OpStart) \<Longrightarrow>
    validate_owner_completions action (pm_pending_owner_receipts m) = Inr () \<Longrightarrow>
    apply_lifecycle action m = (Inl error, m') \<Longrightarrow>
    micro x mx m m'"
| mi_revalidate: "pm_cleanup_only_after_restore m \<Longrightarrow>
    micro x mx m (m\<lparr>pm_recovery_receipts_revalidated := flag\<rparr>)"

inductive_cases microE: "micro x mx m m'"

abbreviation micros ::
  "('h, 'r, 'b, 'l, 'n) product_externals \<Rightarrow> manifold_schemas \<Rightarrow> ('b, 'l) product_runtime
     \<Rightarrow> ('b, 'l) product_runtime \<Rightarrow> bool" where
  "micros x mx \<equiv> (micro x mx)\<^sup>*\<^sup>*"

section \<open>The operations are sequences of changes\<close>

lemma micros_seq:
  "micros x mx m (snd (op m)) \<Longrightarrow> (\<And>u m'. op m = (Inr u, m') \<Longrightarrow> micros x mx m' (snd (f u m'))) \<Longrightarrow>
     micros x mx m (snd (and_do op f m))"
  by (rule and_do_trans [where R = "micros x mx", OF rtranclp_trans])

lemma micros_give: "(\<And>u. r = Inr u \<Longrightarrow> micros x mx m (snd (f u m))) \<Longrightarrow>
    micros x mx m (snd (and_do (give r) f m))"
  by (cases r) simp_all

lemma micros_then: "micro x mx m m' \<Longrightarrow> micros x mx m' m'' \<Longrightarrow> micros x mx m m''"
  by (rule converse_rtranclp_into_rtranclp)

lemma micros_modify: "micro x mx m (g m) \<Longrightarrow> micros x mx (g m) (snd (f () (g m))) \<Longrightarrow>
    micros x mx m (snd (and_do (modify g) f m))"
  by (simp add: micros_then)

lemma durable_poison: "m\<lparr>pm_durable := d, pm_recovery_journal_poisoned := True\<rparr>
    = (m\<lparr>pm_durable := d\<rparr>)\<lparr>pm_recovery_journal_poisoned := True\<rparr>"
  by simp

lemma micros_journal_commit:
  assumes "recovery_snapshot x m = Inr s"
  shows "micros x mx m (snd (journal_commit v s m))"
proof (cases rule: journal_commit_cases [where v = v and s = s and m = m])
  case committed
  then show ?thesis
    using mi_commit [OF assms] by auto
next
  case (failed d)
  from failed(1) have "micros x mx m (m\<lparr>pm_durable := d\<rparr>)"
    using mi_commit [OF assms, of mx] by auto
  then show ?thesis
    using failed(2) mi_poison [of x mx "m\<lparr>pm_durable := d\<rparr>"] by (simp add: rtranclp.rtrancl_into_rtrancl)
qed

lemma micros_commit: "micros x mx m (snd (commit_recovery_journal x v m))"
  by (auto simp: commit_recovery_journal_def intro: micros_give micros_journal_commit)

lemma commit_Inr: "commit_recovery_journal x v m = (Inr u, m') \<Longrightarrow> \<exists>d. m' = m\<lparr>pm_durable := d\<rparr>"
  by (cases rule: commit_cases [where x = x and v = v and m = m])
    (auto intro: exI [of _ "pm_durable m"])

text \<open>A commit changes only what the store holds, and what follows sees the same runtime.\<close>

lemma micros_commit_then:
  assumes "\<And>d. micros x mx (m\<lparr>pm_durable := d\<rparr>) (snd (f () (m\<lparr>pm_durable := d\<rparr>)))"
  shows "micros x mx m (snd (and_do (commit_recovery_journal x v) f m))"
proof (rule micros_seq)
  fix u m'
  assume "commit_recovery_journal x v m = (Inr u, m')"
  with assms show "micros x mx m' (snd (f u m'))"
    by (auto dest: commit_Inr)
qed (rule micros_commit)

lemma micros_commit_last: "(\<And>m'. snd (f () m') = m') \<Longrightarrow>
    micros x mx m (snd (and_do (commit_recovery_journal x v) f m))"
  by (rule micros_commit_then) simp

lemma refresh_cases:
  obtains (failed) e where "refresh_authority x mx v now need m = (Inl e, m)"
  | (current) current where "refresh_authority x mx v now need m = (Inr (), m\<lparr>pm_current_acceptance := current\<rparr>)"
    "validate_current_acceptance x mx (pm_binding m) current (pm_authority_epoch_id m) now need
       (Some (pm_current_acceptance m)) = Inr ()"
proof -
  obtain r m' where run: "refresh_authority x mx v now need m = (r, m')"
    by fastforce
  show thesis
  proof (cases r)
    case (Inl e)
    with run have "m' = m"
      by (auto simp: refresh_authority_def split: sum.splits)
    with run Inl show thesis
      by (intro failed) simp
  next
    case (Inr u)
    with run obtain current' where "m' = m\<lparr>pm_current_acceptance := current'\<rparr>"
      "validate_current_acceptance x mx (pm_binding m) current' (pm_authority_epoch_id m) now need
         (Some (pm_current_acceptance m)) = Inr ()"
      by (auto simp: refresh_authority_def result_simps split: sum.splits)
    with run Inr show thesis
      by (intro current) simp_all
  qed
qed

lemma micros_refresh: "micros x mx m (snd (refresh_authority x mx v now need m))"
  by (cases rule: refresh_cases [where x = x and mx = mx and v = v and now = now and need = need and m = m])
    (auto intro: mi_refresh)

lemma micros_refresh_then:
  assumes "\<And>current. validate_current_acceptance x mx (pm_binding m) current (pm_authority_epoch_id m) now need
       (Some (pm_current_acceptance m)) = Inr () \<Longrightarrow>
     micros x mx (m\<lparr>pm_current_acceptance := current\<rparr>) (snd (f () (m\<lparr>pm_current_acceptance := current\<rparr>)))"
  shows "micros x mx m (snd (and_do (refresh_authority x mx v now need) f m))"
proof (cases rule: refresh_cases [where x = x and mx = mx and v = v and now = now and need = need and m = m])
  case (failed e)
  then show ?thesis by (simp add: and_do_def)
next
  case (current current)
  then have "micros x mx m (m\<lparr>pm_current_acceptance := current\<rparr>)"
    by (auto intro: mi_refresh)
  with assms current show ?thesis
    by (simp add: and_do_def rtranclp_trans)
qed

lemma micros_install: "micros x mx m (snd (install_recovery_journal x v m))"
proof (cases "pm_recovery_journal_poisoned m \<or> pm_recovery_journal m")
  case False
  then show ?thesis
    unfolding install_recovery_journal_def if_not_P [OF False]
    by (intro micros_give micros_seq micros_journal_commit) (simp_all add: modify_def r_into_rtranclp mi_journal)
qed (auto simp: install_recovery_journal_def)

lemma micros_review: "micros x mx m (snd (review_prepare x mx v i op c now m))"
  by (auto simp: review_prepare_def intro: micros_refresh_then)

lemma micros_prepare: "micros x mx m (snd (prepare x mx v i op c now m))"
  unfolding prepare_def Let_def
proof (rule micros_seq [OF micros_review], rule micros_give, rule micros_modify)
  fix u m' accepted
  assume "review_prepare x mx v i op c now m = (Inr u, m')"
    and "ok_or AcceptedSessionMismatch (cu_session (pm_current_acceptance m')) = Inr accepted"
  then have "\<not> pm_cleanup_only_after_restore m'" "reviewed m' i op c = Inr ()"
    "cu_session (pm_current_acceptance m') = Some accepted"
    by (auto simp: review_prepare_def and_do_eq_Inr refresh_authority_def result_simps split: if_splits sum.splits)
  from mi_prepare [OF this] show "micro x mx m' (m'\<lparr>pm_pending_owner_receipts := [],
      pm_pending_uncertain_owner := None, pm_pending_abort_receipts := [],
      pm_pending_abort_uncertain_owner := None, pm_abort_in_progress := False,
      pm_pending_action := Some (action_for m' accepted i op c None)\<rparr>)"
    by (simp add: prepared_def)
qed (rule micros_commit_last, simp add: give_def)

lemma micros_revoker: "micros x mx m (snd (prepare_trusted_revoker_cleanup x v host e i now m))"
  unfolding prepare_trusted_revoker_cleanup_def Let_def
proof (rule micros_give, goal_cases)
  case (1 u)
  obtain current ended c where u: "u = (current, ended, c)"
    by (cases u)
  have "validate_trusted_cleanup_authority x m host e now = Inr current"
    "cu_session current = Some ended" "pm_pending_action m = None" "\<not> trim_is_empty i"
    "i \<notin> set (pm_applied_action_ids m)" "i \<notin> set (pm_aborted_action_ids m)"
    "cleanup_client_authority m = Some c"
    using 1 by (auto simp: u result_simps)
  from mi_revoker [OF this refl] show ?case
    unfolding u prod.case and_do_simps
    by (rule micros_then) (rule micros_commit_last, simp add: give_def)
qed

lemma micros_record:
  assumes "attempt_pending m action expected" and "pm_pending_uncertain_owner m = Some expected"
    and "n = length (pm_pending_owner_receipts m)"
  shows "micros x mx m (snd (record_owner_readback x v action expected provider rb n m))"
  unfolding record_owner_readback_def
proof (rule micros_give, rule micros_modify, goal_cases)
  case (1 receipt)
  then obtain seq where "readback_answers provider action expected rb"
    "\<not> list_ex (\<lambda>r. cm_receipt_id r = opr_receipt_id rb
       \<or> cm_provider_handle_id r = opr_provider_handle_id rb) (pm_pending_owner_receipts m)"
    "handle_continues m action expected rb"
    "u32_of_len (length (pm_pending_owner_receipts m) + 1) = Some seq" "receipt = receipt_of expected seq rb"
    by (auto simp: result_simps assms(3))
  with mi_record [OF assms(1,2) this(1-4)] show ?case
    by (simp add: recorded_def)
qed (rule micros_commit_last, simp add: give_def)

text \<open>A provider call with its commit before and its record after.\<close>

lemma micros_call:
  assumes "attempt_pending m action expected" and "pm_pending_uncertain_owner m = Some expected"
    and "call_target call = (action, expected)" and "n = length (pm_pending_owner_receipts m)"
  shows "micros x mx m (snd (and_do (commit_recovery_journal x v) (\<lambda>_. and_do (call_provider call answer)
      (\<lambda>rb. record_owner_readback x v action expected provider rb n)) m))"
proof (rule micros_commit_then, rule micros_seq)
  fix d
  let ?m = "m\<lparr>pm_durable := d\<rparr>"
  show "micros x mx ?m (snd (call_provider call answer ?m))"
    using assms(1,2,3) mi_call [of ?m call x mx]
    by (auto simp: call_provider_def names_attempt_def snapshot_of_def attempt_pending_def)
next
  fix d rb m'
  assume "call_provider call answer (m\<lparr>pm_durable := d\<rparr>) = (Inr rb, m')"
  then have "m' = m\<lparr>pm_durable := d, pm_calls := pm_calls m @ [(call, d)]\<rparr>"
    by (auto simp: call_provider_def)
  with assms show "micros x mx m' (snd (record_owner_readback x v action expected provider rb n m'))"
    by (intro micros_record) (simp_all add: attempt_pending_def)
qed

lemma micros_complete: "micros x mx m (snd (complete_owner x mx v kind provider now m))"
proof (cases "pm_abort_in_progress m \<or> pm_pending_uncertain_owner m \<noteq> None")
  case False
  then show ?thesis
    unfolding complete_owner_def if_not_P
  proof (simp, intro micros_refresh_then micros_give, goal_cases)
    case (1 current u)
    obtain action expected where u: "u = (action, expected)"
      by (cases u)
    let ?m = "m\<lparr>pm_current_acceptance := current\<rparr>"
    have pending: "attempt_pending ?m action expected"
      using 1 False by (auto simp: u result_simps attempt_pending_def)
    show ?case
      unfolding u prod.case and_do_simps
    proof (rule micros_then [OF mi_attempt [OF pending]], rule micros_call)
      show "attempt_pending (?m\<lparr>pm_pending_uncertain_owner := Some expected\<rparr>) action expected"
        using pending by (simp add: attempt_pending_def)
    qed (simp_all add: call_target_def)
  qed
qed (auto simp: complete_owner_def)

lemma micros_uncertain: "micros x mx m (snd (complete_uncertain_stop_owner x mx v provider now m))"
proof (cases "pm_abort_in_progress m")
  case False
  then show ?thesis
    unfolding complete_uncertain_stop_owner_def if_not_P [OF False]
  proof (intro micros_give, goal_cases)
    case (1 u)
    obtain action expected where u: "u = (action, expected)"
      by (cases u)
    have pending: "attempt_pending m action expected" "pm_pending_uncertain_owner m = Some expected"
      using 1 False by (auto simp: u result_simps attempt_pending_def split: option.splits if_splits)
    show ?case
      unfolding u prod.case
    proof (rule micros_refresh_then, rule micros_call)
      fix current
      show "attempt_pending (m\<lparr>pm_current_acceptance := current\<rparr>) action expected"
        using pending by (simp add: attempt_pending_def)
    qed (use pending in \<open>simp_all add: call_target_def\<close>)
  qed
qed (simp add: complete_uncertain_stop_owner_def)

lemma micros_begin_abort: "micros x mx m (snd (begin_partial_start_abort x v m))"
  unfolding begin_partial_start_abort_def
  by (rule micros_give, rule micros_modify, rule mi_begin_abort, auto simp: result_simps intro: micros_commit_last)

lemma micros_record_abort:
  assumes "abort_pending m action expected started"
  shows "micros x mx m (snd (record_abort_readback x v action expected started provider rb m))"
  unfolding record_abort_readback_def
proof (rule micros_give, rule micros_modify, goal_cases)
  case (1 receipt)
  then obtain seq where "readback_answers provider action expected rb" "abort_readback_fits started rb"
    "\<not> list_ex (\<lambda>r. cm_receipt_id r = opr_receipt_id rb \<or> cm_selection r = oa_selection expected)
       (pm_pending_abort_receipts m)"
    "u32_of_len (length (pm_pending_abort_receipts m) + 1) = Some seq" "receipt = receipt_of expected seq rb"
    by (auto simp: result_simps)
  with mi_abort_record [OF assms this(1-4)] show ?case
    by (simp add: abort_recorded_def)
qed (rule micros_commit_last, simp add: give_def)

lemma abort_pending_frame [simp]:
  "abort_pending (m\<lparr>pm_durable := d\<rparr>) = abort_pending m"
  "abort_pending (m\<lparr>pm_calls := calls\<rparr>) = abort_pending m"
  "abort_pending (m\<lparr>pm_pending_abort_uncertain_owner := owner\<rparr>) = abort_pending m"
  by (simp_all add: abort_pending_def pending_abort_action_def started_receipt_def
      uncertain_offset_def Let_def fun_eq_iff)

lemma micros_abort_call:
  assumes "abort_pending m action expected started" and "call_target call = (action, expected)"
    and "pm_pending_abort_uncertain_owner m = Some expected"
  shows "micros x mx m (snd (and_do (commit_recovery_journal x v) (\<lambda>_. and_do (call_provider call answer)
      (\<lambda>rb. record_abort_readback x v action expected started provider rb)) m))"
proof (rule micros_commit_then, rule micros_seq)
  {
    fix d
    let ?m = "m\<lparr>pm_durable := d\<rparr>"
    have "names_attempt (snapshot_of ?m) (call_target call)"
      using assms by (auto simp: names_attempt_def snapshot_of_def abort_pending_def pending_abort_eq_Some)
    with assms(1,2) show "micros x mx ?m (snd (call_provider call answer ?m))"
      using mi_call [of ?m call x mx] by (auto simp: call_provider_def)
  next
    fix d rb m'
    assume "call_provider call answer (m\<lparr>pm_durable := d\<rparr>) = (Inr rb, m')"
    then have "m' = m\<lparr>pm_durable := d, pm_calls := pm_calls m @ [(call, d)]\<rparr>"
      by (auto simp: call_provider_def)
    with assms(1) show "micros x mx m' (snd (record_abort_readback x v action expected started provider rb m'))"
      by (intro micros_record_abort) simp
  }
qed

lemma micros_abort: "micros x mx m (snd (complete_next_abort_owner x v provider m))"
  unfolding complete_next_abort_owner_def Let_def
proof (rule micros_give, goal_cases)
  case (1 u)
  obtain action started expected where u: "u = (action, started, expected)"
    by (cases u)
  have pending: "abort_pending m action expected started"
    and same: "\<not> (case pm_pending_abort_uncertain_owner m of None \<Rightarrow> False | Some owner \<Rightarrow> owner \<noteq> expected)"
    using 1 by (auto simp: u result_simps abort_pending_def split: option.splits)
  from same have mark: "m\<lparr>pm_pending_abort_uncertain_owner :=
      (if pm_pending_abort_uncertain_owner m \<noteq> None then pm_pending_abort_uncertain_owner m else Some expected)\<rparr>
      = m\<lparr>pm_pending_abort_uncertain_owner := Some expected\<rparr>"
    by (simp split: option.splits)
  let ?m = "m\<lparr>pm_pending_abort_uncertain_owner := Some expected\<rparr>"
  have marked: "abort_pending ?m action expected started" "pm_pending_abort_uncertain_owner ?m = Some expected"
    using pending by simp_all
  have execute: "call_target (ExecuteCall action expected) = (action, expected)"
    and compensate: "call_target (CompensateCall action expected) = (action, expected)"
    by (simp_all add: call_target_def)
  show ?case
  proof (cases "started \<noteq> None \<and> \<not> pm_pending_abort_uncertain_owner m \<noteq> None")
    case True
    show ?thesis
      unfolding u prod.case if_P [OF True] and_do_simps mark
      by (rule micros_then [OF mi_abort_attempt [OF pending]], rule micros_abort_call [OF marked(1) execute marked(2)])
  next
    case False
    show ?thesis
      unfolding u prod.case if_not_P [OF False] and_do_simps mark
      by (rule micros_then [OF mi_abort_attempt [OF pending]], rule micros_abort_call [OF marked(1) compensate marked(2)])
  qed
qed

lemma micros_finalize: "micros x mx m (snd (finalize_partial_start_abort x v m))"
  unfolding finalize_partial_start_abort_def
proof (rule micros_give, rule micros_modify, goal_cases)
  case (1 action)
  then show ?case
    using mi_finalize [of m action x mx] by (simp add: result_simps abort_finished_def)
qed (rule micros_commit_last, simp)

lemma micros_apply: "micros x mx m (snd (apply_recorded_owner_completions x mx v now m))"
proof -
  have body: "micros x mx n (snd (and_do (apply_lifecycle action) (\<lambda>decisions.
      and_do (modify (adopt_effects action)) (\<lambda>_.
      and_do (commit_recovery_journal x v) (\<lambda>_ m'. (Inr (F decisions m' :: application_receipt), m')))) n))"
    if "pm_pending_action n = Some action" "\<not> pm_abort_in_progress n"
      "pm_cleanup_only_after_restore n \<longrightarrow> pa_operation action \<noteq> OpStart"
      "validate_owner_completions action (pm_pending_owner_receipts n) = Inr ()"
    for n action F
  proof (cases "apply_lifecycle action n")
    case (Pair r m')
    show ?thesis
    proof (cases r)
      case (Inl e)
      with Pair show ?thesis
        using mi_apply_failed [OF that, of e m' x mx] by (auto simp: and_do_def)
    next
      case (Inr decisions)
      with Pair have "micro x mx n (adopt_effects action m')"
        using mi_apply [OF that] by blast
      then have "micros x mx n (snd (and_do (commit_recovery_journal x v)
          (\<lambda>_ m'. (Inr (F decisions m'), m')) (adopt_effects action m')))"
        by (rule micros_then) (rule micros_commit_last, simp)
      with Pair Inr show ?thesis
        by (simp add: and_do_def modify_def)
    qed
  qed
  show ?thesis
    unfolding apply_recorded_owner_completions_def
  proof (split if_split, intro conjI impI, simp, split if_split, intro conjI impI, simp, split if_split,
      intro conjI impI, simp, intro micros_refresh_then micros_give body, goal_cases)
    case (3 current action)
    then show ?case
      by (auto simp: result_simps pending_start_def)
  qed (auto simp: result_simps)
qed

lemma micros_revalidate: "micros x mx m (snd (revalidate_recovered_receipts verify m))"
  by (auto simp: revalidate_recovered_receipts_def intro!: r_into_rtranclp intro: mi_revalidate)

lemma micros_adopt: "micros x mx m (snd (adopt_concurrent_authority_renewal x mx v host broker receipt now m))"
  unfolding adopt_concurrent_authority_renewal_def
proof (rule micros_give, goal_cases)
  case (1 u)
  obtain prior_graph current where u: "u = (prior_graph, current)"
    by (cases u)
  show ?case
  proof (cases "cu_session (pm_current_acceptance m) = Some (rn_renewed_media receipt)")
    case True
    show ?thesis
      unfolding u prod.case if_P [OF True] by (rule micros_commit_last) (simp add: give_def)
  next
    case False
    show ?thesis
      unfolding u prod.case if_not_P [OF False]
      by (rule micros_give, rule micros_modify)
        (auto simp: result_simps intro: mi_renew micros_commit_last)
  qed
qed

text \<open>
  \<open>prepare_with_live_authority\<close> is the exception: a failed attempt ran on a copy, of which the
  runtime keeps the poisoned flag while the store keeps what the copy committed.
\<close>

definition keeps_store ::
  "('b, 'l) product_runtime \<Rightarrow> ('b, 'l) product_runtime \<Rightarrow> ('b, 'l) product_runtime" where
  "keeps_store candidate m =
     m\<lparr>pm_recovery_journal_poisoned :=
         (pm_recovery_journal_poisoned m \<or> pm_recovery_journal_poisoned candidate),
       pm_durable := pm_durable candidate\<rparr>"

lemma micros_prepare_live:
  assumes "m' = snd (prepare_with_live_authority x mx v h i op c now m)"
  shows "micros x mx m m' \<or> (\<exists>candidate. micros x mx m candidate \<and> m' = keeps_store candidate m)"
proof -
  let ?n = "m\<lparr>pm_authority := (pm_authority m)\<lparr>sa_host := h\<rparr>\<rparr>"
  obtain r candidate where run: "prepare x mx v i op c now ?n = (r, candidate)"
    by fastforce
  have "micros x mx ?n candidate"
    using micros_prepare [of x mx ?n v i op c now] run by simp
  with mi_host have "micros x mx m candidate"
    by (rule micros_then)
  with run assms show ?thesis
    by (cases r) (auto simp: prepare_with_live_authority_def keeps_store_def)
qed

lemmas micros_operations = micros_install micros_review micros_prepare micros_revoker
  micros_complete micros_uncertain micros_begin_abort micros_abort micros_finalize micros_apply
  micros_revalidate micros_adopt

text \<open>Every step of the runtime is such a sequence, up to that exception.\<close>

lemma operation_refines:
  "product_step x mx m m' \<Longrightarrow>
     micros x mx m m' \<or> (\<exists>candidate. micros x mx m candidate \<and> m' = keeps_store candidate m)"
proof (induction rule: product_step.induct)
  case (step_prepare_live m v h i op c now)
  show ?case
    by (rule micros_prepare_live [OF refl])
qed (rule disjI1, rule micros_operations)+

section \<open>Invariants\<close>

text \<open>What it takes for a property to hold in every state the runtime reaches.\<close>

locale runtime_invariant =
  fixes x :: "('h, 'r, 'b, 'l, 'n) product_externals"
    and mx :: manifold_schemas
    and holds :: "('b, 'l) product_runtime \<Rightarrow> bool"
  assumes kept: "micro x mx m m' \<Longrightarrow> holds m \<Longrightarrow> holds m'"
    and store_kept: "holds m \<Longrightarrow> holds candidate \<Longrightarrow> holds (keeps_store candidate m)"
begin

lemma micros_kept: "micros x mx m m' \<Longrightarrow> holds m \<Longrightarrow> holds m'"
  by (induction rule: rtranclp_induct) (auto intro: kept)

lemma step_kept: "product_step x mx m m' \<Longrightarrow> holds m \<Longrightarrow> holds m'"
  by (auto dest: operation_refines intro: micros_kept store_kept)

lemma run_kept: "product_steps x mx m m' \<Longrightarrow> holds m \<Longrightarrow> holds m'"
  by (induction rule: rtranclp_induct) (auto intro: step_kept)

end

end
