(* ===== verification/Product_Restore.thy ===== *)
theory Product_Restore
  imports Product_Micro
begin

text \<open>
  A runtime restored after a crash is restrained: it undoes what the dead process did, and starts
  nothing.
\<close>

section \<open>Undoing actions\<close>

definition undo_kinds :: "owner_action_kind set" where
  "undo_kinds = {ActStop, ActCleanup}"

definition undoing :: "'l product_action \<Rightarrow> bool" where
  "undoing action = list_all (\<lambda>a. oa_action_kind a \<in> undo_kinds) (pa_owner_actions action)"

lemma stop_kind: "owner_action_kind_for OpStop kind \<in> undo_kinds"
  by (cases kind) (simp_all add: undo_kinds_def)

lemma set_ordered_owner_actions: "set (ordered_owner_actions ss op) = owner_action_for op ` set ss"
  by (simp add: ordered_owner_actions_def)

lemma ordered_stop_undoing: "pa_owner_actions action = ordered_owner_actions ss OpStop \<Longrightarrow> undoing action"
  by (auto simp: undoing_def list_all_iff set_ordered_owner_actions owner_action_for_def stop_kind)

lemma abort_undoing: "undoing (partial_start_abort_action action completed uncertain)"
  by (auto simp: undoing_def partial_start_abort_action_def undo_kind_def undo_kinds_def list_all_iff
      split: option.splits)

lemma undoing_nth: "undoing action \<Longrightarrow> nth_action action i = Some owner \<Longrightarrow> oa_action_kind owner \<in> undo_kinds"
  by (auto simp: undoing_def nth_action_def list_all_iff split: if_splits)

section \<open>The lifecycle of an applied action\<close>

lemma execute_request_cases:
  obtains (rejected) "execute_request i r a e m = (Inl LifecycleRejected, m)"
  | (accepted) decision where "execute_request i r a e m = (Inr decision, m\<lparr>pm_runtime :=
       (pm_runtime m)\<lparr>sr_state := (sr_state (pm_runtime m))
         \<lparr>ls_runtime_revision := ls_runtime_revision (sr_state (pm_runtime m)) + 1,
          ls_phase := action_phase a,
          ls_applied_request_ids := ls_applied_request_ids (sr_state (pm_runtime m)) @ [i]\<rparr>\<rparr>\<rparr>)"
    "request_rejection (sr_state (pm_runtime m)) \<lparr>lr_request_id = i, lr_expected_runtime_revision = r,
       lr_action = a, lr_evidence = e\<rparr> = None"
proof -
  let ?q = "\<lparr>lr_request_id = i, lr_expected_runtime_revision = r, lr_action = a, lr_evidence = e\<rparr>"
  obtain decision runtime where run: "runtime_execute ?q (pm_runtime m) = (decision, runtime)"
    by fastforce
  show thesis
  proof (cases rule: runtime_execute_cases [where q = ?q and r = "pm_runtime m"])
    case rejected
    with run have "execute_request i r a e m = (Inl LifecycleRejected, m)"
      by (simp add: execute_request_def)
    then show thesis by (rule that(1))
  next
    case accepted
    with run show thesis
      by (intro that(2) [of decision]) (simp_all add: execute_request_def)
  qed
qed

lemma apply_stop_cases:
  assumes "pa_operation action = OpStop"
  obtains (rejected) "apply_lifecycle action m = (Inl LifecycleRejected, m)"
  | (accepted) decisions where "apply_lifecycle action m = (Inr decisions, m\<lparr>pm_runtime :=
       (pm_runtime m)\<lparr>sr_state := (sr_state (pm_runtime m))
         \<lparr>ls_runtime_revision := ls_runtime_revision (sr_state (pm_runtime m)) + 1, ls_phase := Stopped,
          ls_applied_request_ids := ls_applied_request_ids (sr_state (pm_runtime m))
            @ [pa_action_id action @ ''.cleanup'']\<rparr>\<rparr>\<rparr>)"
  using assms
  by (cases rule: execute_request_cases [where i = "pa_action_id action @ ''.cleanup''"
        and r = "pa_expected_runtime_revision action" and a = StopRuntime
        and e = "no_evidence\<lparr>le_cleanup_complete := True\<rparr>" and m = m])
    (auto simp: apply_lifecycle_def and_do_def give_def)

section \<open>The invariant of a restored runtime\<close>

definition restrained :: "runtime_phase \<Rightarrow> ('b, 'l) product_runtime \<Rightarrow> bool" where
  "restrained phase m =
     (pm_cleanup_only_after_restore m
      \<and> (case pm_pending_action m of None \<Rightarrow> True
         | Some action \<Rightarrow> if pa_operation action = OpStart then pm_abort_in_progress m else undoing action)
      \<and> list_all (\<lambda>(call, _). oa_action_kind (snd (call_target call)) \<in> undo_kinds) (pm_calls m)
      \<and> ls_phase (sr_state (pm_runtime m)) \<in> {phase, Stopped})"

lemma restrained_kept: "micro x mx m m' \<Longrightarrow> restrained phase m \<Longrightarrow> restrained phase m'"
proof (induction rule: micro.induct)
  case (mi_prepare m i op c accepted)
  then show ?case by (simp add: restrained_def)
next
  case (mi_revoker m host e now current ended i c n)
  then show ?case
    by (simp add: restrained_def action_for_def ordered_stop_undoing)
next
  case (mi_call m call)
  obtain action owner where target: "call_target call = (action, owner)"
    by fastforce
  have "oa_action_kind owner \<in> undo_kinds"
    using mi_call target
  proof (elim disjE exE)
    fix started
    assume "abort_pending m (fst (call_target call)) (snd (call_target call)) started"
    with target show ?thesis
      by (auto simp: abort_pending_def pending_abort_eq_Some intro: undoing_nth [OF abort_undoing])
  next
    assume "attempt_pending m (fst (call_target call)) (snd (call_target call))"
    with target mi_call.prems show ?thesis
      by (auto simp: attempt_pending_def restrained_def intro: undoing_nth split: if_splits)
  qed
  with target mi_call.prems show ?case
    by (simp add: restrained_def split: option.splits)
next
  case (mi_apply m action decisions m')
  then have stop: "pa_operation action = OpStop"
    by (cases "pa_operation action") (simp_all add: restrained_def)
  show ?case
    using mi_apply by (cases rule: apply_stop_cases [OF stop, where m = m])
      (auto simp: restrained_def adopt_effects_def Let_def stop)
next
  case (mi_apply_failed m action error m')
  then have stop: "pa_operation action = OpStop"
    by (cases "pa_operation action") (simp_all add: restrained_def)
  show ?case
    using mi_apply_failed by (cases rule: apply_stop_cases [OF stop, where m = m]) auto
qed (auto simp: restrained_def recorded_def abort_recorded_def abort_finished_def split: option.splits)

lemma restrained_store: "restrained phase m \<Longrightarrow> restrained phase (keeps_store candidate m)"
  by (simp add: restrained_def keeps_store_def split: option.splits)

interpretation restored: runtime_invariant x mx "restrained phase" for x mx phase
  by unfold_locales (rule restrained_kept restrained_store; assumption)+

lemma restore_restrained:
  assumes "restore_cleanup_only_with_live_broker_runtime x mx v b h r i s now = Inr m"
  shows "restrained (ls_phase (rv_lifecycle s)) m" and "pm_calls m = []" and "journaled m"
proof -
  have valid: "validate_product_recovery_snapshot x mx b s = Inr ()"
    and origin: "\<exists>current source. restore_from_checked_snapshot b s current source = Inr m"
    using assms by (auto simp: restore_cleanup_only_with_live_broker_runtime_def result_simps)
  have "undoing action" if "rv_pending_action s = Some action" "pa_operation action \<noteq> OpStart" for action
  proof (rule ordered_stop_undoing)
    have "pa_owner_actions action
        = ordered_owner_actions (sp_owner_selections (bd_spec b)) (pa_operation action)"
      using valid that(1) by (auto simp: validate_product_recovery_snapshot_def valid_snapshot_def
          valid_pending_part_def valid_recovery_action_def Let_def result_simps split: option.splits)
    with that(2) show "pa_owner_actions action = ordered_owner_actions (sp_owner_selections (bd_spec b)) OpStop"
      by (cases "pa_operation action") simp_all
  qed
  moreover have "ls_phase (sr_state runtime) = ls_phase (rv_lifecycle s)"
    if "restore_cleanup_state (bd_spec b) (rv_lifecycle s) = Inr runtime" for runtime
    using that by (auto simp: restore_cleanup_state_def result_simps split: if_splits)
  ultimately show "restrained (ls_phase (rv_lifecycle s)) m" "pm_calls m = []" "journaled m"
    using origin by (auto simp: restore_from_checked_snapshot_def result_simps restrained_def journaled_def
        split: option.splits)
qed

end
