(* ===== verification/Product_Recoverable.thy ===== *)
theory Product_Recoverable
  imports Product_Restore
begin

text \<open>
  The invariant of a runtime in ordinary operation, strong enough that its snapshots pass
  \<open>validate_product_recovery_snapshot\<close> up to the freshness of the identities that providers choose,
  and the changes of the runtime that keep it.
\<close>

section \<open>Texts and receipts\<close>

lemma blank_no_dot: "blank_bytes bs \<Longrightarrow> 46 \<notin> set bs"
  by (induction bs rule: blank_bytes.induct) (auto split: if_splits list.splits)

lemma dotted_not_blank: "CHR ''.'' \<in> set s \<Longrightarrow> \<not> trim_is_empty s"
proof
  assume "CHR ''.'' \<in> set s" and blank: "trim_is_empty s"
  then have "byte_of CHR ''.'' \<in> set (map byte_of s)"
    by simp
  moreover have "byte_of CHR ''.'' = 46"
    by (simp add: byte_of_def)
  ultimately show False
    using blank_no_dot [of "map byte_of s"] blank by (simp add: trim_is_empty_def)
qed

lemma append_less_iff: "(i @ s :: string) < i @ t \<longleftrightarrow> s < t"
  by (induction i) simp_all

lemma start_requests_ascend: "strict_unique_ids [i @ ''.arm_receivers'', i @ ''.start_sources'']"
  by (simp add: strict_unique_ids_def dotted_not_blank append_less_iff)

text \<open>A receipt that answers its owner at its position, without the freshness of its identities.\<close>

definition receipt_answers :: "owner_action \<Rightarrow> completion_receipt \<Rightarrow> nat \<Rightarrow> bool" where
  "receipt_answers expected r index =
     (cm_selection r = oa_selection expected
      \<and> cm_action_kind r = oa_action_kind expected
      \<and> cm_completion_sequence r = u32_or_max (index + 1)
      \<and> \<not> trim_is_empty (cm_receipt_id r)
      \<and> \<not> trim_is_empty (cm_provider_handle_id r)
      \<and> cm_provider_state_revision r \<noteq> 0
      \<and> cm_observed_state r = expected_provider_state (oa_action_kind expected))"

lemma receipt_fits_iff:
  "receipt_fits expected r index ids handles \<longleftrightarrow>
     receipt_answers expected r index \<and> cm_receipt_id r \<notin> set ids \<and> cm_provider_handle_id r \<notin> set handles"
  by (auto simp: receipt_fits_def receipt_answers_def)

lemma receipts_fit_iff:
  "length rs \<le> length as \<Longrightarrow> receipts_fit i ids handles as rs \<longleftrightarrow>
     (\<forall>k < length rs. receipt_answers (as ! k) (rs ! k) (i + k))
     \<and> distinct (map cm_receipt_id rs) \<and> set (map cm_receipt_id rs) \<inter> set ids = {}
     \<and> distinct (map cm_provider_handle_id rs) \<and> set (map cm_provider_handle_id rs) \<inter> set handles = {}"
proof (induction i ids handles as rs rule: receipts_fit.induct)
  case (1 i ids handles a as r rs)
  then show ?case
    by (auto simp: receipt_fits_iff All_less_Suc2)
qed auto

definition receipts_answer :: "'l product_action \<Rightarrow> completion_receipt list \<Rightarrow> bool" where
  "receipts_answer action rs =
     (length rs \<le> length (pa_owner_actions action)
      \<and> (\<forall>k < length rs. receipt_answers (pa_owner_actions action ! k) (rs ! k) k)
      \<and> distinct (map cm_receipt_id rs))"

lemma valid_prefix_iff:
  "valid_recovery_receipt_prefix action rs \<longleftrightarrow>
     receipts_answer action rs \<and> distinct (map cm_provider_handle_id rs)"
  by (auto simp: valid_recovery_receipt_prefix_def receipts_answer_def receipts_fit_iff)

lemma receipts_answer_Nil [simp]: "receipts_answer action []"
  by (simp add: receipts_answer_def)

lemma receipts_answer_snoc:
  "receipts_answer action (rs @ [r]) \<longleftrightarrow>
     receipts_answer action rs
     \<and> (\<exists>expected. nth_action action (length rs) = Some expected \<and> receipt_answers expected r (length rs))
     \<and> cm_receipt_id r \<notin> cm_receipt_id ` set rs"
  by (auto simp: receipts_answer_def nth_action_def nth_append less_Suc_eq split: if_splits)

lemma readback_receipt_answers:
  assumes "readback_answers provider action expected rb" and "u32_of_len (n + 1) = Some seq"
  shows "receipt_answers expected (receipt_of expected seq rb) n"
  using assms by (simp add: readback_answers_def receipt_answers_def receipt_of_def u32_or_max_def)

section \<open>Handles\<close>

lemma bt_insert_last: "\<forall>(a, b) \<in> set m. a < k \<Longrightarrow> bt_insert k v m = m @ [(k, v)]"
  by (induction k v m rule: bt_insert.induct) auto

lemma fold_bt_insert_sorted:
  "bt_wf (m @ n) \<Longrightarrow> fold (\<lambda>(k, v). bt_insert k v) n m = m @ n"
proof (induction n arbitrary: m)
  case (Cons e n)
  obtain k v where e: "e = (k, v)"
    by fastforce
  have "\<forall>(a, b) \<in> set m. a < k"
    using Cons.prems by (force simp: bt_wf_def e sorted_wrt_append)
  with Cons e show ?case
    by (simp add: bt_insert_last)
qed simp

lemma collect_sorted: "bt_wf m \<Longrightarrow> collect_handles m = m"
  using fold_bt_insert_sorted [of "[]" m] by (simp add: collect_handles_def)

lemma collect_wf: "bt_wf (collect_handles xs)"
proof -
  have "bt_wf (fold (\<lambda>(k, v). bt_insert k v) xs m)" if "bt_wf m" for m
    using that by (induction xs arbitrary: m) auto
  then show ?thesis
    by (simp add: collect_handles_def)
qed

lemma collect_length: "length (collect_handles xs) \<le> length xs"
proof -
  have "length (fold (\<lambda>(k, v). bt_insert k v) xs m) \<le> length m + length xs" if "bt_wf m" for m
    using that
  proof (induction xs arbitrary: m)
    case (Cons e xs)
    obtain k v where e: "e = (k, v)"
      by (cases e)
    have "length (bt_insert k v m) \<le> Suc (length m)"
      using Cons.prems by (simp add: bt_length_insert)
    with Cons.IH [of "bt_insert k v m"] Cons.prems e show ?case
      by simp
  qed simp
  from this [of "[]"] show ?thesis
    by (simp add: collect_handles_def)
qed

lemma handle_entries: "map handle_entry (handle_list m) = m"
  by (induction m) (auto simp: handle_list_def handle_entry_def)

lemma handle_list_keys: "map (\<lambda>h. selection_key (ph_selection h)) (handle_list m) = map fst m"
  by (induction m) (auto simp: handle_list_def)

lemma length_handle_list [simp]: "length (handle_list m) = length m"
  by (simp add: handle_list_def)

lemma find_handle:
  "find (\<lambda>h. ph_selection h = s) (handle_list m) =
     map_option (\<lambda>(h, r). \<lparr>ph_selection = s, ph_provider_handle_id = h, ph_provider_state_revision = r\<rparr>)
       (bt_get m (selection_key s))"
proof (induction m)
  case (Cons e m)
  obtain k h r where e: "e = (k, h, r)"
    by (cases e)
  have "key_selection k = s \<longleftrightarrow> selection_key s = k"
    by (metis key_selection_inverse selection_key_inverse)
  with Cons e show ?case
    by (simp add: handle_list_def)
qed (simp add: handle_list_def)

lemma fold_receipts_handles:
  "fold (\<lambda>r. bt_insert (selection_key (cm_selection r)) (cm_provider_handle_id r, cm_provider_state_revision r)) rs []
     = collect_handles (map receipt_entry rs)"
  by (simp add: collect_handles_def fold_map receipt_entry_def comp_def)

section \<open>The invariant\<close>

definition action_ok :: "('b, 'l) product_runtime \<Rightarrow> 'l product_action \<Rightarrow> bool" where
  "action_ok m action =
     (\<exists>accepted. cu_session (pm_current_acceptance m) = Some accepted
        \<and> valid_recovery_action (pm_binding m) accepted (snapshot_of m) action
        \<and> pa_trusted_revoker_cleanup action = None)"

definition uncertain_ok :: "'l product_action \<Rightarrow> nat \<Rightarrow> owner_action option \<Rightarrow> bool" where
  "uncertain_ok action n owner = (\<forall>o'. owner = Some o' \<longrightarrow> nth_action action n = Some o')"

definition undoes_all :: "owner_action option \<Rightarrow> completion_receipt list \<Rightarrow> completion_receipt list \<Rightarrow> bool" where
  "undoes_all uncertain rollback started =
     (list_all (\<lambda>(r, s). undoes r s)
        (zip (drop (if uncertain \<noteq> None then 1 else 0) rollback) (List.rev started)))"

text \<open>Nothing started yet.\<close>

definition planned_part :: "('b, 'l) product_runtime \<Rightarrow> bool" where
  "planned_part m =
     (pm_active_start_action m = None \<and> pm_active_start_receipts m = [] \<and> pm_active_provider_handles m = []
      \<and> pm_active_client_authority m = None \<and> pm_applied_action_ids m = []
      \<and> ls_phase (sr_state (pm_runtime m)) = Planned
      \<and> ls_runtime_revision (sr_state (pm_runtime m)) = 1
      \<and> ls_applied_request_ids (sr_state (pm_runtime m)) = [])"

text \<open>One start applied.\<close>

definition running_part :: "('b, 'l) product_runtime \<Rightarrow> 'l product_action \<Rightarrow> bool" where
  "running_part m start =
     (pm_active_start_action m = Some start \<and> action_ok m start
      \<and> pa_operation start = OpStart \<and> pa_expected_runtime_revision start = 1
      \<and> pm_applied_action_ids m = [pa_action_id start]
      \<and> validate_owner_completions start (pm_active_start_receipts m) = Inr ()
      \<and> pm_active_client_authority m = Some (pa_client_authority start)
      \<and> pm_active_provider_handles m = collect_handles (map receipt_entry (pm_active_start_receipts m))
      \<and> pm_completed_start_abort m = None \<and> pm_aborted_action_ids m = []
      \<and> ls_phase (sr_state (pm_runtime m)) = SourcesStarted
      \<and> ls_runtime_revision (sr_state (pm_runtime m)) = 3
      \<and> ls_applied_request_ids (sr_state (pm_runtime m))
          = [pa_action_id start @ ''.arm_receivers'', pa_action_id start @ ''.start_sources''])"

text \<open>A rolled back start.\<close>

definition aborted_part :: "('b, 'l) product_runtime \<Rightarrow> 'l completed_abort \<Rightarrow> bool" where
  "aborted_part m c =
     (pm_completed_start_abort m = Some c \<and> planned_part m
      \<and> pm_aborted_action_ids m = [pa_action_id (cb_original_action c)]
      \<and> action_ok m (cb_original_action c)
      \<and> cb_schema_id c = completed_abort_schema
      \<and> pa_operation (cb_original_action c) = OpStart
      \<and> pa_expected_runtime_revision (cb_original_action c) = 1
      \<and> receipts_answer (cb_original_action c) (cb_started_receipts c)
      \<and> distinct (map cm_provider_handle_id (cb_started_receipts c))
      \<and> uncertain_ok (cb_original_action c) (length (cb_started_receipts c)) (cb_uncertain_owner c)
      \<and> cb_rollback_action c = partial_start_abort_action (cb_original_action c) (cb_started_receipts c)
          (cb_uncertain_owner c)
      \<and> length (cb_rollback_receipts c) = length (pa_owner_actions (cb_rollback_action c))
      \<and> receipts_answer (cb_rollback_action c) (cb_rollback_receipts c)
      \<and> undoes_all (cb_uncertain_owner c) (cb_rollback_receipts c) (cb_started_receipts c))"

definition no_pending :: "('b, 'l) product_runtime \<Rightarrow> bool" where
  "no_pending m =
     (pm_pending_action m = None \<and> pm_pending_owner_receipts m = [] \<and> pm_pending_uncertain_owner m = None
      \<and> pm_pending_abort_receipts m = [] \<and> pm_pending_abort_uncertain_owner m = None
      \<and> \<not> pm_abort_in_progress m)"

definition start_pending :: "('b, 'l) product_runtime \<Rightarrow> 'l product_action \<Rightarrow> bool" where
  "start_pending m action =
     (pa_operation action = OpStart \<and> planned_part m
      \<and> pm_completed_start_abort m = None \<and> pm_aborted_action_ids m = []
      \<and> (pm_abort_in_progress m
         \<or> pm_pending_abort_receipts m = [] \<and> pm_pending_abort_uncertain_owner m = None)
      \<and> (let abort = partial_start_abort_action action (pm_pending_owner_receipts m)
               (pm_pending_uncertain_owner m) in
         uncertain_ok abort (length (pm_pending_abort_receipts m)) (pm_pending_abort_uncertain_owner m)
         \<and> receipts_answer abort (pm_pending_abort_receipts m))
      \<and> undoes_all (pm_pending_uncertain_owner m) (pm_pending_abort_receipts m) (pm_pending_owner_receipts m))"

definition stop_receipt_ok ::
  "(selection_key, string \<times> u64) btree \<Rightarrow> completion_receipt \<Rightarrow> bool" where
  "stop_receipt_ok handles r =
     (case bt_get handles (selection_key (cm_selection r)) of
        None \<Rightarrow> False
      | Some (h, revision) \<Rightarrow> cm_provider_handle_id r = h \<and> revision < cm_provider_state_revision r)"

definition stop_pending :: "('b, 'l) product_runtime \<Rightarrow> 'l product_action \<Rightarrow> bool" where
  "stop_pending m action =
     (pa_operation action = OpStop
      \<and> (\<exists>start. running_part m start
           \<and> same_session_holder (pa_client_authority start) (pa_client_authority action))
      \<and> \<not> pm_abort_in_progress m \<and> pm_pending_abort_receipts m = []
      \<and> pm_pending_abort_uncertain_owner m = None
      \<and> list_all (stop_receipt_ok (pm_active_provider_handles m)) (pm_pending_owner_receipts m))"

definition pending_ok :: "('b, 'l) product_runtime \<Rightarrow> 'l product_action \<Rightarrow> bool" where
  "pending_ok m action =
     (pm_pending_action m = Some action \<and> action_ok m action
      \<and> pa_action_id action \<notin> set (pm_applied_action_ids m)
      \<and> pa_expected_runtime_revision action = ls_runtime_revision (sr_state (pm_runtime m))
      \<and> receipts_answer action (pm_pending_owner_receipts m)
      \<and> distinct (map cm_provider_handle_id (pm_pending_owner_receipts m))
      \<and> uncertain_ok action (length (pm_pending_owner_receipts m)) (pm_pending_uncertain_owner m)
      \<and> (start_pending m action \<or> stop_pending m action))"

definition idle :: "('b, 'l) product_runtime \<Rightarrow> bool" where
  "idle m =
     (planned_part m \<and> pm_completed_start_abort m = None \<and> pm_aborted_action_ids m = []
      \<or> (\<exists>c. aborted_part m c)
      \<or> (\<exists>start. running_part m start)
      \<or> ls_phase (sr_state (pm_runtime m)) = Stopped)"

definition grounded ::
  "('h, 'r, 'b, 'l, 'n) product_externals \<Rightarrow> manifold_schemas \<Rightarrow> product_binding \<Rightarrow> string
     \<Rightarrow> ('b, 'l) product_runtime \<Rightarrow> bool" where
  "grounded x mx b epoch m =
     (pm_binding m = b \<and> pm_authority_epoch_id m = epoch
      \<and> ls_schema (sr_state (pm_runtime m)) = runtime_state_schema
      \<and> ls_runtime_spec_id (sr_state (pm_runtime m)) = sp_runtime_spec_id (bd_spec b)
      \<and> \<not> pm_cleanup_only_after_restore m
      \<and> validate_current_acceptance x mx b (pm_current_acceptance m) epoch
          (cu_validated_at_ms (pm_current_acceptance m)) False None = Inr ())"

definition orderly ::
  "('h, 'r, 'b, 'l, 'n) product_externals \<Rightarrow> manifold_schemas \<Rightarrow> product_binding \<Rightarrow> string
     \<Rightarrow> ('b, 'l) product_runtime \<Rightarrow> bool" where
  "orderly x mx b epoch m =
     (grounded x mx b epoch m \<and> (no_pending m \<and> idle m \<or> (\<exists>action. pending_ok m action)))"

text \<open>The identities that providers choose, as far as a snapshot needs them to be distinct.\<close>

definition fresh_identities :: "('b, 'l) recovery_snapshot \<Rightarrow> bool" where
  "fresh_identities s =
     (distinct (map cm_receipt_id (snapshot_receipts s))
      \<and> distinct (map cm_provider_handle_id (rv_pending_abort_receipts s))
      \<and> (case rv_completed_start_abort s of None \<Rightarrow> True
         | Some c \<Rightarrow> distinct (map cm_provider_handle_id (cb_rollback_receipts c))))"

section \<open>Snapshots of orderly states\<close>

lemma snapshot_sel [simp]:
  "rv_binding (snapshot_of m) = pm_binding m"
  "rv_accepted_subject (snapshot_of m) = pm_current_acceptance m"
  "rv_provider_epoch_id (snapshot_of m) = pm_authority_epoch_id m"
  "rv_lifecycle (snapshot_of m) = sr_state (pm_runtime m)"
  "rv_pending_action (snapshot_of m) = pm_pending_action m"
  "rv_pending_owner_receipts (snapshot_of m) = pm_pending_owner_receipts m"
  "rv_pending_uncertain_owner (snapshot_of m) = pm_pending_uncertain_owner m"
  "rv_pending_abort_receipts (snapshot_of m) = pm_pending_abort_receipts m"
  "rv_pending_abort_uncertain_owner (snapshot_of m) = pm_pending_abort_uncertain_owner m"
  "rv_abort_in_progress (snapshot_of m) = pm_abort_in_progress m"
  "rv_active_provider_handles (snapshot_of m) = handle_list (pm_active_provider_handles m)"
  "rv_active_start_receipts (snapshot_of m) = pm_active_start_receipts m"
  "rv_active_start_action (snapshot_of m) = pm_active_start_action m"
  "rv_active_client_authority (snapshot_of m) = pm_active_client_authority m"
  "rv_applied_action_ids (snapshot_of m) = pm_applied_action_ids m"
  "rv_aborted_action_ids (snapshot_of m) = pm_aborted_action_ids m"
  "rv_completed_start_abort (snapshot_of m) = pm_completed_start_abort m"
  by (simp_all add: snapshot_of_def)

lemma snapshot_schema:
  "rv_schema_id (snapshot_of m) \<in> {product_recovery_schema, abort_recovery_schema}"
  "rv_schema_id (snapshot_of m) = abort_recovery_schema \<longleftrightarrow> pm_completed_start_abort m \<noteq> None"
  by (simp_all add: snapshot_of_def product_recovery_schema_def abort_recovery_schema_def)

lemma length_ordered [simp]: "length (ordered_owner_actions ss op) = length ss"
  by (simp add: ordered_owner_actions_def)

lemma action_ok_owners:
  "action_ok m action \<Longrightarrow> length (pa_owner_actions action) = length (sp_owner_selections (bd_spec (pm_binding m)))"
  by (auto simp: action_ok_def valid_recovery_action_def Let_def)

lemma action_ok_id: "action_ok m action \<Longrightarrow> \<not> trim_is_empty (pa_action_id action)"
  by (auto simp: action_ok_def valid_recovery_action_def Let_def)

lemma action_okD:
  "action_ok m action \<Longrightarrow> cu_session (pm_current_acceptance m) = Some accepted \<Longrightarrow>
     valid_recovery_action (pm_binding m) accepted (snapshot_of m) action \<and> pa_trusted_revoker_cleanup action = None"
  by (auto simp: action_ok_def)

lemma length_abort_actions:
  "length (pa_owner_actions (partial_start_abort_action action completed uncertain)) =
     (if uncertain \<noteq> None then 1 else 0) + length completed"
  by (simp add: partial_start_abort_action_def split: option.splits)

lemma uncertain_ok_iff:
  "uncertain_ok action n owner \<longleftrightarrow>
     (case owner of None \<Rightarrow> True
      | Some o' \<Rightarrow> n < length (pa_owner_actions action) \<and> pa_owner_actions action ! n = o')"
  by (auto simp: uncertain_ok_def nth_action_def split: option.splits)

lemma running_handles_length:
  "running_part m start \<Longrightarrow>
     length (pm_active_provider_handles m) \<le> length (sp_owner_selections (bd_spec (pm_binding m)))"
  using collect_length [of "map receipt_entry (pm_active_start_receipts m)"]
  by (auto simp: running_part_def validate_owner_completions_def dest: action_ok_owners split: if_splits)

lemma valid_active_running:
  assumes "running_part m start" and "cu_session (pm_current_acceptance m) = Some accepted"
  shows "valid_active_part (pm_binding m) accepted (snapshot_of m)"
proof -
  have handles: "bt_wf (pm_active_provider_handles m)"
    using assms(1) by (simp add: running_part_def collect_wf)
  have "valid_recovery_action (pm_binding m) accepted (snapshot_of m) start"
    using assms by (auto simp: running_part_def dest: action_okD)
  with assms(1) handles show ?thesis
    by (simp add: valid_active_part_def running_part_def handle_entries collect_sorted collect_wf
        handle_list_keys ascending_pairs_iff bt_wf_def [symmetric])
qed

lemma valid_active_planned: "planned_part m \<Longrightarrow> valid_active_part b accepted (snapshot_of m)"
  by (simp add: valid_active_part_def planned_part_def handle_list_def)

lemma pending_start_valid:
  assumes "start_pending m action" and "distinct (map cm_provider_handle_id (pm_pending_abort_receipts m))"
  shows "valid_pending_start (snapshot_of m) action"
proof -
  let ?abort = "partial_start_abort_action action (pm_pending_owner_receipts m) (pm_pending_uncertain_owner m)"
  have answer: "receipts_answer ?abort (pm_pending_abort_receipts m)"
    "uncertain_ok ?abort (length (pm_pending_abort_receipts m)) (pm_pending_abort_uncertain_owner m)"
    using assms(1) by (simp_all add: start_pending_def Let_def)
  have "length (pm_pending_abort_receipts m) \<le> length (pa_owner_actions ?abort)"
    using answer(1) by (simp add: receipts_answer_def)
  then have "length (pm_pending_abort_receipts m) - (if pm_pending_uncertain_owner m \<noteq> None then 1 else 0)
      \<le> length (pm_pending_owner_receipts m)"
    by (simp add: length_abort_actions split: if_splits)
  with assms answer show ?thesis
    by (auto simp: valid_pending_start_def start_pending_def Let_def valid_prefix_iff
        uncertain_ok_iff undoes_all_def planned_part_def split: option.splits)
qed

lemma pending_stop_valid:
  assumes "stop_pending m action"
  shows "valid_pending_stop (snapshot_of m) action"
proof -
  obtain start where start: "running_part m start"
    "same_session_holder (pa_client_authority start) (pa_client_authority action)"
    using assms by (auto simp: stop_pending_def)
  have "valid_stop_receipt (snapshot_of m) r" if "stop_receipt_ok (pm_active_provider_handles m) r" for r
    using that start(1) by (auto simp: valid_stop_receipt_def stop_receipt_ok_def running_part_def find_handle
        split: option.splits)
  with assms start show ?thesis
    by (auto simp: valid_pending_stop_def stop_pending_def running_part_def list_all_iff)
qed

lemma pending_operation:
  "start_pending m action \<Longrightarrow> pa_operation action = OpStart"
  "stop_pending m action \<Longrightarrow> pa_operation action = OpStop"
  by (simp_all add: start_pending_def stop_pending_def)

lemma stop_pending_running: "stop_pending m action \<Longrightarrow> \<exists>start. running_part m start"
  by (auto simp: stop_pending_def)

lemma valid_abort_part:
  assumes "aborted_part m c" and "no_pending m" and "cu_session (pm_current_acceptance m) = Some accepted"
    and "distinct (map cm_provider_handle_id (cb_rollback_receipts c))"
  shows "valid_completed_start_abort (pm_binding m) accepted (snapshot_of m) c"
proof -
  have "valid_recovery_action (pm_binding m) accepted (snapshot_of m) (cb_original_action c)"
    "pa_trusted_revoker_cleanup (cb_original_action c) = None"
    using assms(1,3) by (auto simp: aborted_part_def dest: action_okD)
  with assms show ?thesis
    by (auto simp: valid_completed_start_abort_def Let_def aborted_part_def planned_part_def no_pending_def
        valid_prefix_iff uncertain_ok_iff undoes_all_def split: option.splits)
qed

lemma valid_pending_none: "no_pending m \<Longrightarrow> valid_pending_part b accepted (snapshot_of m)"
  by (simp add: valid_pending_part_def no_pending_def)

lemma valid_pending_of:
  assumes "pending_ok m action" and "cu_session (pm_current_acceptance m) = Some accepted"
    and "distinct (map cm_provider_handle_id (pm_pending_abort_receipts m))"
  shows "valid_pending_part (pm_binding m) accepted (snapshot_of m)"
proof -
  have "valid_recovery_action (pm_binding m) accepted (snapshot_of m) action"
    using assms(1,2) by (auto simp: pending_ok_def dest: action_okD)
  moreover have "pa_action_id action \<notin> set (pm_aborted_action_ids m)"
    using assms(1) by (auto simp: pending_ok_def start_pending_def stop_pending_def running_part_def)
  moreover have "case pa_operation action of OpStart \<Rightarrow> valid_pending_start (snapshot_of m) action
      | OpStop \<Rightarrow> valid_pending_stop (snapshot_of m) action"
    using assms(1,3) by (auto simp: pending_ok_def pending_operation intro: pending_start_valid pending_stop_valid)
  ultimately show ?thesis
    using assms(1) by (simp add: valid_pending_part_def pending_ok_def valid_prefix_iff uncertain_ok_iff
        split: option.splits)
qed

text \<open>The modes of an orderly runtime that is not stopped.\<close>

lemma orderly_cases:
  assumes "orderly x mx b epoch m" and "ls_phase (sr_state (pm_runtime m)) \<noteq> Stopped"
  obtains (planned) "planned_part m" "no_pending m" "pm_completed_start_abort m = None"
    "pm_aborted_action_ids m = []"
  | (aborted) c where "aborted_part m c" "no_pending m"
  | (running) start where "running_part m start" "no_pending m"
  | (starting) action where "pending_ok m action" "start_pending m action"
  | (stopping) action start where "pending_ok m action" "stop_pending m action" "running_part m start"
proof -
  consider "no_pending m" "idle m" | action where "pending_ok m action"
    using assms(1) by (auto simp: orderly_def)
  then show thesis
  proof cases
    case 1
    with assms(2) show thesis
      by (auto simp: idle_def intro: planned aborted running)
  next
    case 2
    then have "start_pending m action \<or> stop_pending m action"
      by (simp add: pending_ok_def)
    with 2 show thesis
      by (auto dest: stop_pending_running intro: starting stopping)
  qed
qed

lemma snapshot_lengths:
  assumes "orderly x mx b epoch m" and "ls_phase (sr_state (pm_runtime m)) \<noteq> Stopped"
  shows "length (pm_active_provider_handles m) \<le> length (sp_owner_selections (bd_spec (pm_binding m)))"
    and "length (pm_pending_owner_receipts m) \<le> length (sp_owner_selections (bd_spec (pm_binding m)))"
    and "length (pm_pending_abort_receipts m) \<le> length (sp_owner_selections (bd_spec (pm_binding m))) + 1"
proof -
  have owner: "length (pm_pending_owner_receipts m) \<le> length (sp_owner_selections (bd_spec (pm_binding m)))"
    if "pending_ok m action" for action
    using that action_ok_owners [of m action] by (simp add: pending_ok_def receipts_answer_def)
  have abort: "length (pm_pending_abort_receipts m) \<le> Suc (length (pm_pending_owner_receipts m))"
    if "start_pending m action" for action
    using that by (auto simp: start_pending_def Let_def receipts_answer_def length_abort_actions split: if_splits)
  show "length (pm_active_provider_handles m) \<le> length (sp_owner_selections (bd_spec (pm_binding m)))"
    using assms by (cases rule: orderly_cases)
      (auto simp: planned_part_def aborted_part_def start_pending_def intro: running_handles_length)
  show "length (pm_pending_owner_receipts m) \<le> length (sp_owner_selections (bd_spec (pm_binding m)))"
    using assms by (cases rule: orderly_cases) (auto simp: no_pending_def intro: owner)
  show "length (pm_pending_abort_receipts m) \<le> length (sp_owner_selections (bd_spec (pm_binding m))) + 1"
    using assms by (cases rule: orderly_cases)
      (auto simp: no_pending_def stop_pending_def dest!: owner abort)
qed

lemma snapshot_ids:
  assumes "orderly x mx b epoch m" and "ls_phase (sr_state (pm_runtime m)) \<noteq> Stopped"
  shows "strict_unique_ids (pm_applied_action_ids m)" and "strict_unique_ids (pm_aborted_action_ids m)"
    and "\<not> list_ex (\<lambda>i. i \<in> set (pm_aborted_action_ids m)) (pm_applied_action_ids m)"
    and "strict_unique_ids (ls_applied_request_ids (sr_state (pm_runtime m)))"
  using assms by (cases rule: orderly_cases,
      auto simp: planned_part_def aborted_part_def running_part_def start_pending_def strict_unique_ids_def
        dotted_not_blank append_less_iff dest: action_ok_id)+

lemma snapshot_parts:
  assumes "orderly x mx b epoch m" and "ls_phase (sr_state (pm_runtime m)) \<noteq> Stopped"
    and "cu_session (pm_current_acceptance m) = Some accepted" and "fresh_identities (snapshot_of m)"
  shows "valid_active_part b accepted (snapshot_of m)" and "valid_pending_part b accepted (snapshot_of m)"
    and "case pm_completed_start_abort m of None \<Rightarrow> True
         | Some c \<Rightarrow> valid_completed_start_abort b accepted (snapshot_of m) c"
proof -
  have b: "b = pm_binding m"
    using assms(1) by (simp add: orderly_def grounded_def)
  have handles: "distinct (map cm_provider_handle_id (pm_pending_abort_receipts m))"
    and rollback: "pm_completed_start_abort m = Some c \<Longrightarrow> distinct (map cm_provider_handle_id (cb_rollback_receipts c))" for c
    using assms(4) by (simp_all add: fresh_identities_def)
  note accepted = assms(3)
  show "valid_active_part b accepted (snapshot_of m)"
    unfolding b using assms(1,2) by (cases rule: orderly_cases)
      (auto simp: aborted_part_def start_pending_def intro: valid_active_planned valid_active_running accepted)
  show "valid_pending_part b accepted (snapshot_of m)"
    unfolding b using assms(1,2) by (cases rule: orderly_cases)
      (auto intro: valid_pending_of valid_pending_none accepted handles)
  show "case pm_completed_start_abort m of None \<Rightarrow> True
         | Some c \<Rightarrow> valid_completed_start_abort b accepted (snapshot_of m) c"
    using assms(1,2)
  proof (cases rule: orderly_cases)
    case (aborted c)
    then have "pm_completed_start_abort m = Some c"
      by (simp add: aborted_part_def)
    with valid_abort_part [OF aborted accepted rollback [OF this]] show ?thesis
      by (simp add: b)
  qed (auto simp: running_part_def start_pending_def)
qed

lemma orderly_snapshot_valid:
  assumes "orderly x mx b epoch m" and "ls_phase (sr_state (pm_runtime m)) \<noteq> Stopped"
    and "\<not> trim_is_empty epoch" and "length encoded \<le> max_recovery_bytes"
    and "fresh_identities (snapshot_of m)"
  shows "valid_snapshot x mx b (snapshot_of m) encoded"
proof -
  have ground: "grounded x mx b epoch m"
    using assms(1) by (simp add: orderly_def)
  then obtain accepted where accepted: "cu_session (pm_current_acceptance m) = Some accepted"
    by (auto simp: grounded_def validate_current_acceptance_def result_simps)
  have revision: "ls_runtime_revision (sr_state (pm_runtime m)) \<noteq> 0"
    using assms(1,2) by (cases rule: orderly_cases)
      (auto simp: planned_part_def aborted_part_def running_part_def start_pending_def)
  have "valid_snapshot_frame b (snapshot_of m) encoded"
    using ground assms(3,4) revision snapshot_lengths [OF assms(1,2)] snapshot_ids [OF assms(1,2)]
      snapshot_schema [of m]
    by (simp add: valid_snapshot_frame_def grounded_def)
  with snapshot_parts [OF assms(1,2) accepted assms(5)] snapshot_ids(4) [OF assms(1,2)] ground accepted assms(5)
  show ?thesis
    by (simp add: valid_snapshot_def grounded_def is_ok_unit fresh_identities_def)
qed

lemma valid_snapshot_fresh:
  assumes "valid_snapshot x mx b s encoded"
  shows "fresh_identities s"
proof -
  obtain accepted where parts: "valid_pending_part b accepted s"
    "case rv_completed_start_abort s of None \<Rightarrow> True | Some c \<Rightarrow> valid_completed_start_abort b accepted s c"
    "distinct (map cm_receipt_id (snapshot_receipts s))"
    using assms by (auto simp: valid_snapshot_def split: option.splits)
  have "distinct (map cm_provider_handle_id (rv_pending_abort_receipts s))"
    using parts(1) by (auto simp: valid_pending_part_def valid_pending_start_def valid_pending_stop_def Let_def
        valid_prefix_iff split: option.splits platform_operation.splits)
  moreover have "case rv_completed_start_abort s of None \<Rightarrow> True
      | Some c \<Rightarrow> distinct (map cm_provider_handle_id (cb_rollback_receipts c))"
    using parts(2) by (auto simp: valid_completed_start_abort_def Let_def valid_prefix_iff split: option.splits)
  ultimately show ?thesis
    using parts(3) by (simp add: fresh_identities_def)
qed

section \<open>The invariant is kept\<close>

text \<open>The invariant reads only what is journaled, the handles and the restored flag.\<close>

lemma orderly_frame:
  assumes same: "snapshot_of m' = snapshot_of m"
    and "pm_active_provider_handles m' = pm_active_provider_handles m"
    and "pm_cleanup_only_after_restore m' = pm_cleanup_only_after_restore m"
  shows "orderly x mx b epoch m' = orderly x mx b epoch m"
proof -
  have "pm_binding m' = pm_binding m" "pm_current_acceptance m' = pm_current_acceptance m"
    "pm_authority_epoch_id m' = pm_authority_epoch_id m" "sr_state (pm_runtime m') = sr_state (pm_runtime m)"
    "pm_pending_action m' = pm_pending_action m"
    "pm_pending_owner_receipts m' = pm_pending_owner_receipts m"
    "pm_pending_uncertain_owner m' = pm_pending_uncertain_owner m"
    "pm_pending_abort_receipts m' = pm_pending_abort_receipts m"
    "pm_pending_abort_uncertain_owner m' = pm_pending_abort_uncertain_owner m"
    "pm_abort_in_progress m' = pm_abort_in_progress m"
    "pm_active_start_receipts m' = pm_active_start_receipts m"
    "pm_active_start_action m' = pm_active_start_action m"
    "pm_active_client_authority m' = pm_active_client_authority m"
    "pm_applied_action_ids m' = pm_applied_action_ids m" "pm_aborted_action_ids m' = pm_aborted_action_ids m"
    "pm_completed_start_abort m' = pm_completed_start_abort m"
    using same by (metis snapshot_sel)+
  with assms show ?thesis
    unfolding orderly_def grounded_def idle_def no_pending_def pending_ok_def start_pending_def stop_pending_def
      planned_part_def running_part_def aborted_part_def action_ok_def
    by simp
qed

text \<open>What an action says of its session survives a change to a current session of the same subject.\<close>

definition same_holder :: "'b accepted_session \<Rightarrow> 'b accepted_session \<Rightarrow> bool" where
  "same_holder a c =
     (ac_product_descriptor_canonical_sha256 a = ac_product_descriptor_canonical_sha256 c
      \<and> ac_decision_id a = ac_decision_id c
      \<and> ac_session_authority_revision a = ac_session_authority_revision c
      \<and> ac_runtime_client_id a = ac_runtime_client_id c \<and> ac_runtime_lease_id a = ac_runtime_lease_id c
      \<and> ac_product_id a = ac_product_id c \<and> ac_feature_lock_id a = ac_feature_lock_id c
      \<and> ac_feature_lock_fingerprint a = ac_feature_lock_fingerprint c
      \<and> ac_capability_id a = ac_capability_id c \<and> ac_admission_grant_id a = ac_admission_grant_id c)"

lemma action_ok_current:
  assumes "action_ok m action" and "cu_session (pm_current_acceptance m) = Some old"
    and "cu_session current = Some new" and "same_holder new old"
    and "cu_acceptance_state_authority_revision (pm_current_acceptance m)
      \<le> cu_acceptance_state_authority_revision current"
  shows "action_ok (m\<lparr>pm_current_acceptance := current\<rparr>) action"
proof -
  have old: "valid_recovery_action (pm_binding m) old (snapshot_of m) action"
    and none: "pa_trusted_revoker_cleanup action = None"
    using action_okD [OF assms(1,2)] by simp_all
  have "pa_media_acceptance_authority_revision action \<le> cu_acceptance_state_authority_revision current"
    using old assms(5) by (auto simp: valid_recovery_action_def Let_def intro: order_trans)
  with old none assms(3,4) show ?thesis
    unfolding action_ok_def valid_recovery_action_def Let_def same_holder_def by simp
qed

lemma orderly_current:
  assumes "orderly x mx b epoch m" and "cu_session (pm_current_acceptance m) = Some old"
    and "cu_session current = Some new" and "same_holder new old"
    and "cu_acceptance_state_authority_revision (pm_current_acceptance m)
      \<le> cu_acceptance_state_authority_revision current"
    and "validate_current_acceptance x mx b current epoch (cu_validated_at_ms current) False None = Inr ()"
  shows "orderly x mx b epoch (m\<lparr>pm_current_acceptance := current\<rparr>)"
proof -
  let ?m = "m\<lparr>pm_current_acceptance := current\<rparr>"
  have action: "action_ok m action \<Longrightarrow> action_ok ?m action" for action
    using action_ok_current [OF _ assms(2-5)] by blast
  have run: "running_part m start \<Longrightarrow> running_part ?m start" for start
    by (auto simp: running_part_def intro: action)
  have plain: "planned_part ?m = planned_part m" "no_pending ?m = no_pending m"
    by (simp_all add: planned_part_def no_pending_def)
  have aborted: "aborted_part m c \<Longrightarrow> aborted_part ?m c" for c
    by (auto simp: aborted_part_def plain intro: action)
  have pending: "start_pending m a \<Longrightarrow> start_pending ?m a" "stop_pending m a \<Longrightarrow> stop_pending ?m a" for a
    by (auto simp: start_pending_def stop_pending_def plain intro: run)
  have "grounded x mx b epoch ?m"
    using assms(1,6) by (simp add: orderly_def grounded_def)
  moreover have "idle m \<Longrightarrow> idle ?m"
    using run aborted by (auto simp: idle_def plain)
  moreover have "pending_ok m a \<Longrightarrow> pending_ok ?m a" for a
    using action pending by (auto simp: pending_ok_def)
  ultimately show ?thesis
    using assms(1) by (auto simp: orderly_def plain)
qed

lemma current_weaken:
  assumes "validate_current_acceptance x mx b current epoch now need prior = Inr ()"
  shows "validate_current_acceptance x mx b current epoch (cu_validated_at_ms current) False None = Inr ()"
    and "\<exists>new. cu_session current = Some new"
  using assms by (auto simp: validate_current_acceptance_def supersedes_prior_def result_simps)

lemma current_supersedes:
  assumes "validate_current_acceptance x mx b current epoch now need (Some prior) = Inr ()"
    and "cu_session current = Some new"
  obtains old where "cu_session prior = Some old" "same_accepted_subject new old"
    "cu_acceptance_state_authority_revision prior \<le> cu_acceptance_state_authority_revision current"
  using assms by (auto simp: validate_current_acceptance_def supersedes_prior_def result_simps not_less)

lemma subject_holder: "same_accepted_subject new old \<Longrightarrow> same_holder new old"
  by (simp add: same_accepted_subject_def same_holder_def)

lemma orderly_refresh:
  assumes "orderly x mx b epoch m"
    and "validate_current_acceptance x mx (pm_binding m) current (pm_authority_epoch_id m) now need
      (Some (pm_current_acceptance m)) = Inr ()"
  shows "orderly x mx b epoch (m\<lparr>pm_current_acceptance := current\<rparr>)"
proof -
  have here: "pm_binding m = b" "pm_authority_epoch_id m = epoch"
    using assms(1) by (simp_all add: orderly_def grounded_def)
  obtain new where new: "cu_session current = Some new"
    using current_weaken(2) [OF assms(2)] by blast
  then show ?thesis
    using current_supersedes [OF assms(2) new] current_weaken(1) [OF assms(2)] orderly_current [OF assms(1)]
    by (metis here subject_holder)
qed

lemma orderly_renew:
  assumes "orderly x mx b epoch m" and "extended_prior m receipt = Inr prior"
    and "validate_current_acceptance x mx (pm_binding m) current (pm_authority_epoch_id m) now True
      (Some prior) = Inr ()"
  shows "orderly x mx b epoch (m\<lparr>pm_current_acceptance := current\<rparr>)"
proof -
  have here: "pm_binding m = b" "pm_authority_epoch_id m = epoch"
    using assms(1) by (simp_all add: orderly_def grounded_def)
  obtain session where session: "cu_session (pm_current_acceptance m) = Some session"
    "prior = (pm_current_acceptance m)\<lparr>cu_session :=
       Some (session\<lparr>ac_expires_at_ms := ac_expires_at_ms (rn_renewed_media receipt)\<rparr>)\<rparr>"
    using assms(2) by (auto simp: extended_prior_def result_simps)
  obtain new where new: "cu_session current = Some new"
    using current_weaken(2) [OF assms(3)] by blast
  have "same_holder new session"
    using current_supersedes [OF assms(3) new] session by (auto simp: same_accepted_subject_def same_holder_def)
  moreover have "cu_acceptance_state_authority_revision (pm_current_acceptance m)
      \<le> cu_acceptance_state_authority_revision current"
    using current_supersedes [OF assms(3) new] session by auto
  ultimately show ?thesis
    using orderly_current [OF assms(1) session(1) new] current_weaken(1) [OF assms(3)] here by simp
qed

lemma action_ok_frame:
  "pm_binding m' = pm_binding m \<Longrightarrow> pm_current_acceptance m' = pm_current_acceptance m \<Longrightarrow>
     pm_authority_epoch_id m' = pm_authority_epoch_id m \<Longrightarrow> action_ok m' action = action_ok m action"
  unfolding action_ok_def valid_recovery_action_def Let_def by simp

lemma reviewed_facts:
  assumes "reviewed m i op c = Inr ()"
  shows "\<not> trim_is_empty i" "i \<notin> set (pm_applied_action_ids m)" "i \<notin> set (pm_aborted_action_ids m)"
    "pm_pending_action m = None" "pm_completed_start_abort m = None" "\<not> missing_client_authority c"
    "cu_session (pm_current_acceptance m) = Some accepted \<Longrightarrow> client_authority_matches accepted op c"
    "phase_review m op c = Inr ()"
  using assms by (auto simp: reviewed_def result_simps)

lemma prepared_action_ok:
  assumes "grounded x mx b epoch m" and "reviewed m i op c = Inr ()"
    and "cu_session (pm_current_acceptance m) = Some accepted"
  shows "action_ok m (action_for m accepted i op c None)"
proof -
  have "cu_acceptance_state_authority_revision (pm_current_acceptance m) \<noteq> 0"
    using assms(1) by (auto simp: grounded_def validate_current_acceptance_def result_simps)
  moreover have "\<not> trim_is_empty (ca_operation_admission_use_request_id c)"
    using reviewed_facts(6) [OF assms(2)] by (simp add: missing_client_authority_def)
  ultimately show ?thesis
    using reviewed_facts(1,7) [OF assms(2)] assms(3)
    unfolding action_ok_def valid_recovery_action_def Let_def action_for_def client_authority_matches_def
    by auto
qed

lemma prepared_mode:
  assumes "orderly x mx b epoch m" and "reviewed m i op c = Inr ()"
  obtains (start) "op = OpStart" "planned_part m" "no_pending m" "pm_aborted_action_ids m = []"
  | (stop) start where "op = OpStop" "running_part m start" "no_pending m"
    "same_session_holder (pa_client_authority start) c"
proof -
  note facts = reviewed_facts [OF assms(2)]
  have alive: "ls_phase (sr_state (pm_runtime m)) \<noteq> Stopped"
    using facts(8) by (auto simp: phase_review_def Let_def split: if_splits)
  show thesis
    using assms(1) alive
  proof (cases rule: orderly_cases)
    case planned
    then have "op = OpStart"
      using facts(8) by (cases op) (auto simp: phase_review_def planned_part_def)
    with planned start show thesis by blast
  next
    case (running s)
    then have "op = OpStop" "same_session_holder (pa_client_authority s) c"
      using facts(8) by (auto simp: phase_review_def running_part_def result_simps split: if_splits)
        (cases op, simp_all)
    with running stop show thesis by blast
  qed (use facts in \<open>auto simp: aborted_part_def pending_ok_def\<close>)
qed

lemma running_part_frame:
  assumes "pm_binding m' = pm_binding m" "pm_current_acceptance m' = pm_current_acceptance m"
    "pm_authority_epoch_id m' = pm_authority_epoch_id m" "pm_runtime m' = pm_runtime m"
    "pm_active_start_action m' = pm_active_start_action m"
    "pm_active_start_receipts m' = pm_active_start_receipts m"
    "pm_active_provider_handles m' = pm_active_provider_handles m"
    "pm_active_client_authority m' = pm_active_client_authority m"
    "pm_applied_action_ids m' = pm_applied_action_ids m" "pm_aborted_action_ids m' = pm_aborted_action_ids m"
    "pm_completed_start_abort m' = pm_completed_start_abort m"
  shows "running_part m' start = running_part m start"
  using assms by (simp add: running_part_def action_ok_frame [of m' m])

lemma orderly_prepare:
  assumes "orderly x mx b epoch m" and "reviewed m i op c = Inr ()"
    and "cu_session (pm_current_acceptance m) = Some accepted"
  shows "orderly x mx b epoch (prepared (action_for m accepted i op c None) m)"
proof -
  let ?a = "action_for m accepted i op c None"
  let ?m = "prepared ?a m"
  have ground: "grounded x mx b epoch m"
    using assms(1) by (simp add: orderly_def)
  have ok: "action_ok ?m ?a"
    using prepared_action_ok [OF ground assms(2,3)] by (subst action_ok_frame [of _ m]) (simp_all add: prepared_def)
  have "start_pending ?m ?a \<or> stop_pending ?m ?a"
    using assms(1,2)
  proof (cases rule: prepared_mode)
    case start
    then show ?thesis
      using reviewed_facts(5) [OF assms(2)]
      by (simp add: start_pending_def prepared_def planned_part_def action_for_def uncertain_ok_def undoes_all_def)
  next
    case (stop s)
    have "running_part ?m s"
      using stop(2) by (subst running_part_frame [of _ m]) (simp_all add: prepared_def)
    with stop show ?thesis
      by (auto simp: stop_pending_def prepared_def action_for_def)
  qed
  with ok have "pending_ok ?m ?a"
    using reviewed_facts [OF assms(2)]
    by (simp add: pending_ok_def uncertain_ok_def) (simp add: prepared_def action_for_def)
  moreover have "grounded x mx b epoch ?m"
    using ground by (simp add: grounded_def prepared_def)
  ultimately show ?thesis
    by (auto simp: orderly_def)
qed

lemma orderly_pending:
  assumes "orderly x mx b epoch m" and "pm_pending_action m = Some action"
  shows "pending_ok m action"
  using assms by (auto simp: orderly_def no_pending_def pending_ok_def)

text \<open>A change of the pending fields alone keeps the ground and the active part.\<close>

lemma orderly_pendingI:
  assumes "orderly x mx b epoch m" and "pending_ok m' action"
    and "pm_binding m' = pm_binding m" "pm_current_acceptance m' = pm_current_acceptance m"
      "pm_authority_epoch_id m' = pm_authority_epoch_id m" "pm_runtime m' = pm_runtime m"
      "pm_cleanup_only_after_restore m' = pm_cleanup_only_after_restore m"
  shows "orderly x mx b epoch m'"
  using assms by (auto simp: orderly_def grounded_def)

lemma orderly_attempt:
  assumes "orderly x mx b epoch m" and "attempt_pending m action expected"
  shows "orderly x mx b epoch (m\<lparr>pm_pending_uncertain_owner := Some expected\<rparr>)"
proof -
  let ?m = "m\<lparr>pm_pending_uncertain_owner := Some expected\<rparr>"
  have attempt: "\<not> pm_abort_in_progress m" "pm_pending_action m = Some action"
    "nth_action action (length (pm_pending_owner_receipts m)) = Some expected"
    using assms(2) by (simp_all add: attempt_pending_def)
  have ok: "pending_ok m action"
    by (rule orderly_pending [OF assms(1) attempt(2)])
  have run: "running_part ?m start = running_part m start" for start
    by (rule running_part_frame) simp_all
  have act: "action_ok ?m action = action_ok m action"
    by (rule action_ok_frame) simp_all
  have "start_pending m action \<Longrightarrow> start_pending ?m action"
    using attempt(1) by (simp add: start_pending_def planned_part_def uncertain_ok_def undoes_all_def Let_def)
  moreover have "stop_pending m action \<Longrightarrow> stop_pending ?m action"
    by (simp add: stop_pending_def run)
  ultimately have "pending_ok ?m action"
    using ok attempt(3) by (auto simp: pending_ok_def act uncertain_ok_def)
  then show ?thesis
    by (rule orderly_pendingI [OF assms(1)]) simp_all
qed

lemma continued_receipt_ok:
  assumes "handle_continues m action expected rb" and "pa_operation action = OpStop"
    and "pm_completed_start_abort m = None"
  shows "stop_receipt_ok (pm_active_provider_handles m) (receipt_of expected seq rb)"
  using assms by (auto simp: handle_continues_def stop_receipt_ok_def receipt_of_def split: option.splits)

lemma orderly_record:
  assumes "orderly x mx b epoch m" and "attempt_pending m action expected"
    and "readback_answers provider action expected rb"
    and "\<not> list_ex (\<lambda>r. cm_receipt_id r = opr_receipt_id rb
       \<or> cm_provider_handle_id r = opr_provider_handle_id rb) (pm_pending_owner_receipts m)"
    and "handle_continues m action expected rb"
    and "u32_of_len (length (pm_pending_owner_receipts m) + 1) = Some seq"
  shows "orderly x mx b epoch (recorded (receipt_of expected seq rb) m)"
proof -
  let ?r = "receipt_of expected seq rb"
  let ?m = "recorded ?r m"
  have attempt: "\<not> pm_abort_in_progress m" "pm_pending_action m = Some action"
    "nth_action action (length (pm_pending_owner_receipts m)) = Some expected"
    using assms(2) by (simp_all add: attempt_pending_def)
  have ok: "pending_ok m action"
    by (rule orderly_pending [OF assms(1) attempt(2)])
  have run: "running_part ?m start = running_part m start" for start
    by (rule running_part_frame) (simp_all add: recorded_def)
  have act: "action_ok ?m action = action_ok m action"
    by (rule action_ok_frame) (simp_all add: recorded_def)
  have fresh: "cm_receipt_id ?r \<notin> cm_receipt_id ` set (pm_pending_owner_receipts m)"
    "cm_provider_handle_id ?r \<notin> cm_provider_handle_id ` set (pm_pending_owner_receipts m)"
    using assms(4) by (auto simp: list_ex_iff receipt_of_def)
  have answer: "receipts_answer action (pm_pending_owner_receipts m @ [?r])"
    using ok fresh(1) attempt(3) readback_receipt_answers [OF assms(3,6)]
    by (simp add: receipts_answer_snoc pending_ok_def)
  have "start_pending m action \<Longrightarrow> start_pending ?m action"
    using attempt(1) by (simp add: start_pending_def planned_part_def uncertain_ok_def undoes_all_def Let_def
        recorded_def)
  moreover have "stop_pending m action \<Longrightarrow> stop_pending ?m action"
    using continued_receipt_ok [OF assms(5)] run
    by (auto simp: stop_pending_def running_part_def [of m]) (simp add: recorded_def)+
  ultimately have "pending_ok ?m action"
    using ok fresh(2) answer by (auto simp: pending_ok_def act uncertain_ok_def) (simp_all add: recorded_def)
  then show ?thesis
    by (rule orderly_pendingI [OF assms(1)]) (simp_all add: recorded_def)
qed

lemma orderly_begin_abort:
  assumes "orderly x mx b epoch m" and "pm_pending_action m = Some action" and "pa_operation action = OpStart"
    and "\<not> pm_abort_in_progress m"
  shows "orderly x mx b epoch (m\<lparr>pm_abort_in_progress := True, pm_pending_abort_receipts := [],
    pm_pending_abort_uncertain_owner := None\<rparr>)"
proof -
  let ?m = "m\<lparr>pm_abort_in_progress := True, pm_pending_abort_receipts := [],
    pm_pending_abort_uncertain_owner := None\<rparr>"
  have ok: "pending_ok m action" "start_pending m action"
    using orderly_pending [OF assms(1,2)] assms(3) by (auto simp: pending_ok_def stop_pending_def)
  have act: "action_ok ?m action = action_ok m action"
    by (rule action_ok_frame) simp_all
  have "start_pending ?m action"
    using ok(2) by (simp add: start_pending_def planned_part_def uncertain_ok_def undoes_all_def Let_def)
  with ok(1) have "pending_ok ?m action"
    by (simp add: pending_ok_def act)
  then show ?thesis
    by (rule orderly_pendingI [OF assms(1)]) simp_all
qed

text \<open>During a rollback the pending action is a start.\<close>

lemma abort_pendingD:
  assumes "orderly x mx b epoch m" and "abort_pending m action expected started"
  obtains start where "pm_pending_action m = Some start" "pending_ok m start" "start_pending m start"
    "pm_abort_in_progress m"
    "action = partial_start_abort_action start (pm_pending_owner_receipts m) (pm_pending_uncertain_owner m)"
    "nth_action action (length (pm_pending_abort_receipts m)) = Some expected" "started_receipt m = Inr started"
proof -
  obtain start where start: "pm_abort_in_progress m" "pm_pending_action m = Some start"
    "action = partial_start_abort_action start (pm_pending_owner_receipts m) (pm_pending_uncertain_owner m)"
    using assms(2) by (auto simp: abort_pending_def pending_abort_eq_Some)
  have "pending_ok m start"
    by (rule orderly_pending [OF assms(1) start(2)])
  moreover from this start(1) have "start_pending m start"
    by (auto simp: pending_ok_def stop_pending_def)
  ultimately show thesis
    using start assms(2) by (intro that) (simp_all add: abort_pending_def)
qed

lemma orderly_abort_attempt:
  assumes "orderly x mx b epoch m" and "abort_pending m action expected started"
  shows "orderly x mx b epoch (m\<lparr>pm_pending_abort_uncertain_owner := Some expected\<rparr>)"
proof -
  let ?m = "m\<lparr>pm_pending_abort_uncertain_owner := Some expected\<rparr>"
  obtain start where start: "pending_ok m start" "start_pending m start" "pm_abort_in_progress m"
    "action = partial_start_abort_action start (pm_pending_owner_receipts m) (pm_pending_uncertain_owner m)"
    "nth_action action (length (pm_pending_abort_receipts m)) = Some expected"
    using abort_pendingD [OF assms] by metis
  have act: "action_ok ?m start = action_ok m start"
    by (rule action_ok_frame) simp_all
  have "start_pending ?m start"
    using start by (simp add: start_pending_def planned_part_def uncertain_ok_def Let_def)
  with start(1) have "pending_ok ?m start"
    by (simp add: pending_ok_def act)
  then show ?thesis
    by (rule orderly_pendingI [OF assms(1)]) simp_all
qed

lemma zip_snoc: "length xs < length ys \<Longrightarrow> zip (xs @ [r]) ys = zip xs ys @ [(r, ys ! length xs)]"
proof (induction xs arbitrary: ys)
  case Nil
  then show ?case by (cases ys) simp_all
next
  case (Cons x xs)
  then show ?case by (cases ys) simp_all
qed

lemma undoes_all_snoc:
  assumes "undoes_all uncertain rollback started" and "started_receipt m = Inr undone"
    and "rollback = pm_pending_abort_receipts m" "started = pm_pending_owner_receipts m"
      "uncertain = pm_pending_uncertain_owner m"
    and "abort_readback_fits undone rb" and "r = receipt_of expected seq rb"
  shows "undoes_all uncertain (rollback @ [r]) started"
proof (cases undone)
  case None
  then have "length rollback < (if uncertain \<noteq> None then 1 else 0)"
    using assms(2) by (auto simp: started_receipt_def uncertain_offset_def Let_def assms(3-5) split: if_splits)
  then show ?thesis
    by (simp add: undoes_all_def split: if_splits)
next
  case (Some u)
  let ?offset = "if uncertain \<noteq> None then 1 else 0 :: nat"
  let ?k = "length rollback - ?offset"
  have raw: "?offset \<le> length rollback \<and> ?k + 1 \<le> length started \<and> u = started ! (length started - (?k + 1))"
    using assms(2) Some unfolding started_receipt_def Let_def uncertain_offset_def assms(3-5)
    by (auto simp: not_less split: if_splits)
  then have position: "?offset \<le> length rollback" "?k < length started" "u = List.rev started ! ?k"
    by (auto simp: rev_nth)
  have "undoes r u"
    using assms(6,7) Some by (simp add: abort_readback_fits_def undoes_def receipt_of_def)
  moreover have "zip (drop ?offset (rollback @ [r])) (List.rev started)
      = zip (drop ?offset rollback) (List.rev started) @ [(r, u)]"
    using zip_snoc [of "drop ?offset rollback" "List.rev started" r] position by simp
  ultimately show ?thesis
    using assms(1) by (simp add: undoes_all_def)
qed

lemma orderly_abort_record:
  assumes "orderly x mx b epoch m" and "abort_pending m action expected started"
    and "readback_answers provider action expected rb" and "abort_readback_fits started rb"
    and "\<not> list_ex (\<lambda>r. cm_receipt_id r = opr_receipt_id rb \<or> cm_selection r = oa_selection expected)
       (pm_pending_abort_receipts m)"
    and "u32_of_len (length (pm_pending_abort_receipts m) + 1) = Some seq"
  shows "orderly x mx b epoch (abort_recorded (receipt_of expected seq rb) m)"
proof -
  let ?r = "receipt_of expected seq rb"
  let ?m = "abort_recorded ?r m"
  obtain start where start: "pending_ok m start" "start_pending m start" "pm_abort_in_progress m"
    "action = partial_start_abort_action start (pm_pending_owner_receipts m) (pm_pending_uncertain_owner m)"
    "nth_action action (length (pm_pending_abort_receipts m)) = Some expected" "started_receipt m = Inr started"
    using abort_pendingD [OF assms(1,2)] by metis
  have fresh: "cm_receipt_id ?r \<notin> cm_receipt_id ` set (pm_pending_abort_receipts m)"
    using assms(5) by (auto simp: list_ex_iff receipt_of_def)
  have "receipts_answer action (pm_pending_abort_receipts m @ [?r])"
    using start(2,4,5) fresh readback_receipt_answers [OF assms(3,6)]
    by (simp add: receipts_answer_snoc start_pending_def Let_def)
  moreover have "undoes_all (pm_pending_uncertain_owner m) (pm_pending_abort_receipts m @ [?r])
      (pm_pending_owner_receipts m)"
    using undoes_all_snoc [OF _ start(6) refl refl refl assms(4) refl] start(2) by (simp add: start_pending_def)
  ultimately have "start_pending ?m start"
    using start by (simp add: start_pending_def planned_part_def uncertain_ok_def Let_def abort_recorded_def)
  moreover have "action_ok ?m start = action_ok m start"
    by (rule action_ok_frame) (simp_all add: abort_recorded_def)
  ultimately have "pending_ok ?m start"
    using start(1) by (simp add: pending_ok_def) (simp add: abort_recorded_def)
  then show ?thesis
    by (rule orderly_pendingI [OF assms(1)]) (simp_all add: abort_recorded_def)
qed

lemma orderly_finalize:
  assumes "orderly x mx b epoch m" and "pm_abort_in_progress m"
    and "length (pm_pending_abort_receipts m) = length (pm_pending_owner_receipts m) + uncertain_offset m"
    and "pm_pending_action m = Some action"
  shows "orderly x mx b epoch (abort_finished action m)"
proof -
  let ?m = "abort_finished action m"
  have ok: "pending_ok m action"
    by (rule orderly_pending [OF assms(1,4)])
  then have start: "start_pending m action"
    using assms(2) by (auto simp: pending_ok_def stop_pending_def)
  have act: "action_ok ?m action = action_ok m action"
    by (rule action_ok_frame) (simp_all add: abort_finished_def)
  have "aborted_part ?m (the (pm_completed_start_abort ?m))"
    using ok start act assms(3)
    by (simp add: aborted_part_def pending_ok_def start_pending_def)
      (simp add: abort_finished_def planned_part_def Let_def length_abort_actions uncertain_offset_def
        insort_insert_key_def)
  moreover have "grounded x mx b epoch ?m" "no_pending ?m"
    using assms(1) by (simp_all add: orderly_def grounded_def no_pending_def abort_finished_def)
  ultimately show ?thesis
    by (auto simp: orderly_def idle_def)
qed

text \<open>A start applies to a planned lifecycle without fail.\<close>

definition started_state :: "'l product_action \<Rightarrow> runtime_state \<Rightarrow> runtime_state" where
  "started_state action s = s\<lparr>ls_runtime_revision := 3, ls_phase := SourcesStarted,
     ls_applied_request_ids := [pa_action_id action @ ''.arm_receivers'', pa_action_id action @ ''.start_sources'']\<rparr>"

lemma execute_request_accepted:
  assumes "request_rejection (sr_state (pm_runtime m)) \<lparr>lr_request_id = i, lr_expected_runtime_revision = r,
      lr_action = a, lr_evidence = e\<rparr> = None"
  obtains decision where "execute_request i r a e m = (Inr decision, m\<lparr>pm_runtime :=
      (pm_runtime m)\<lparr>sr_state := (sr_state (pm_runtime m))
        \<lparr>ls_runtime_revision := ls_runtime_revision (sr_state (pm_runtime m)) + 1, ls_phase := action_phase a,
         ls_applied_request_ids := ls_applied_request_ids (sr_state (pm_runtime m)) @ [i]\<rparr>\<rparr>\<rparr>)"
  using assms by (simp add: execute_request_def runtime_execute_def review_media_stream_runtime_request_def Let_def)

lemma apply_start:
  assumes "pa_operation action = OpStart" and "pa_expected_runtime_revision action = 1" and "planned_part m"
  obtains decisions where "apply_lifecycle action m = (Inr decisions, m\<lparr>pm_runtime :=
      (pm_runtime m)\<lparr>sr_state := started_state action (sr_state (pm_runtime m))\<rparr>\<rparr>)"
proof -
  let ?s = "sr_state (pm_runtime m)"
  let ?arm = "pa_action_id action @ ''.arm_receivers''" and ?start = "pa_action_id action @ ''.start_sources''"
  let ?n = "m\<lparr>pm_runtime := (pm_runtime m)\<lparr>sr_state := ?s\<lparr>ls_runtime_revision := ls_runtime_revision ?s + 1,
      ls_phase := ReceiversArmed, ls_applied_request_ids := ls_applied_request_ids ?s @ [?arm]\<rparr>\<rparr>\<rparr>"
  have planned: "ls_runtime_revision ?s = 1" "ls_phase ?s = Planned" "ls_applied_request_ids ?s = []"
    using assms(3) by (simp_all add: planned_part_def)
  have "request_rejection ?s \<lparr>lr_request_id = ?arm, lr_expected_runtime_revision = pa_expected_runtime_revision action,
      lr_action = ArmReceivers, lr_evidence = no_evidence\<lparr>le_receivers_armed := True\<rparr>\<rparr> = None"
    using planned assms(2) by (simp add: request_accepted_iff transition_rejection_def dotted_not_blank)
  then obtain arm where arm: "execute_request ?arm (pa_expected_runtime_revision action) ArmReceivers
      (no_evidence\<lparr>le_receivers_armed := True\<rparr>) m = (Inr arm, ?n)"
    by (rule execute_request_accepted) simp
  have "request_rejection (sr_state (pm_runtime ?n)) \<lparr>lr_request_id = ?start,
      lr_expected_runtime_revision = pa_expected_runtime_revision action + 1, lr_action = StartSources,
      lr_evidence = no_evidence\<lparr>le_sources_started := True\<rparr>\<rparr> = None"
    using planned assms(2) by (simp add: request_accepted_iff transition_rejection_def dotted_not_blank)
  then obtain start where start: "execute_request ?start (pa_expected_runtime_revision action + 1) StartSources
      (no_evidence\<lparr>le_sources_started := True\<rparr>) ?n = (Inr start, m\<lparr>pm_runtime :=
        (pm_runtime m)\<lparr>sr_state := started_state action ?s\<rparr>\<rparr>)"
    by (rule execute_request_accepted) (simp add: planned started_state_def)
  show thesis
    by (rule that [of "[arm, start]"])
      (use arm start assms(1) in \<open>simp add: apply_lifecycle_def and_do_def give_def\<close>)
qed

lemma orderly_apply_start:
  assumes "orderly x mx b epoch m" and "pm_pending_action m = Some action" and "\<not> pm_abort_in_progress m"
    and "validate_owner_completions action (pm_pending_owner_receipts m) = Inr ()"
    and "pa_operation action = OpStart"
    and "m' = m\<lparr>pm_runtime := (pm_runtime m)\<lparr>sr_state := started_state action (sr_state (pm_runtime m))\<rparr>\<rparr>"
  shows "orderly x mx b epoch (adopt_effects action m')"
proof -
  let ?m = "adopt_effects action m'"
  have ok: "pending_ok m action" and start: "start_pending m action"
    using orderly_pending [OF assms(1,2)] assms(5) by (auto simp: pending_ok_def stop_pending_def)
  have act: "action_ok ?m action = action_ok m action"
    by (rule action_ok_frame) (simp_all add: adopt_effects_def assms(5,6) Let_def)
  have "pm_pending_uncertain_owner m = None"
    using ok assms(4) by (auto simp: pending_ok_def uncertain_ok_def nth_action_def validate_owner_completions_def
        split: if_splits)
  then have "no_pending ?m"
    using start assms(3) by (simp add: no_pending_def adopt_effects_def assms(5,6) Let_def start_pending_def)
  moreover have "running_part ?m action"
    using ok start assms(4)
    by (simp add: running_part_def act pending_ok_def start_pending_def planned_part_def)
      (simp add: adopt_effects_def assms(5,6) Let_def started_state_def insort_insert_key_def fold_receipts_handles)
  moreover have "grounded x mx b epoch ?m"
    using assms(1) by (simp add: orderly_def grounded_def adopt_effects_def assms(5,6) Let_def started_state_def)
  ultimately show ?thesis
    by (auto simp: orderly_def idle_def)
qed

lemma orderly_apply_stop:
  assumes "orderly x mx b epoch m" and "pm_pending_action m = Some action" and "\<not> pm_abort_in_progress m"
    and "validate_owner_completions action (pm_pending_owner_receipts m) = Inr ()"
    and "pa_operation action = OpStop" and "apply_lifecycle action m = (Inr decisions, m')"
  shows "orderly x mx b epoch (adopt_effects action m')"
proof -
  let ?m = "adopt_effects action m'"
  have ok: "pending_ok m action" and stop: "stop_pending m action"
    using orderly_pending [OF assms(1,2)] assms(5) by (auto simp: pending_ok_def start_pending_def)
  obtain s where m': "m' = m\<lparr>pm_runtime := (pm_runtime m)\<lparr>sr_state := s\<rparr>\<rparr>" "ls_phase s = Stopped"
    "ls_schema s = ls_schema (sr_state (pm_runtime m))"
    "ls_runtime_spec_id s = ls_runtime_spec_id (sr_state (pm_runtime m))"
    using assms(6) by (cases rule: apply_stop_cases [OF assms(5), where m = m]) auto
  have "pm_pending_uncertain_owner m = None"
    using ok assms(4) by (auto simp: pending_ok_def uncertain_ok_def nth_action_def validate_owner_completions_def
        split: if_splits)
  then have "no_pending ?m"
    using stop by (simp add: no_pending_def adopt_effects_def assms(5) m'(1) Let_def stop_pending_def)
  moreover have "idle ?m"
    using m'(2) by (simp add: idle_def adopt_effects_def assms(5) m'(1) Let_def)
  moreover have "grounded x mx b epoch ?m"
    using assms(1) m' by (simp add: orderly_def grounded_def adopt_effects_def assms(5) Let_def)
  ultimately show ?thesis
    by (simp add: orderly_def)
qed

end
