(* ===== verification/Product_Revoked.thy ===== *)
theory Product_Revoked
  imports Product_Recoverable
begin

text \<open>
  The invariant of a runtime under all its operations: ordinary operation, a stop prepared by a
  trusted revoker, and the end. A revoker's stop adopts the host's receipt for the revoked session
  without checking it as a refresh does, so its snapshots depend on that receipt.
\<close>

section \<open>A stop by a trusted revoker\<close>

text \<open>The runtime without the pending stop and with an earlier acceptance.\<close>

definition before_revoke :: "'b current_receipt \<Rightarrow> ('b, 'l) product_runtime \<Rightarrow> ('b, 'l) product_runtime" where
  "before_revoke current m = m\<lparr>pm_current_acceptance := current, pm_pending_action := None,
     pm_pending_owner_receipts := [], pm_pending_uncertain_owner := None\<rparr>"

text \<open>The fields that \<open>prepare_trusted_revoker_cleanup\<close> gives the action.\<close>

definition revoker_stop ::
  "('b, 'l) product_runtime \<Rightarrow> 'b accepted_session \<Rightarrow> 'l product_action \<Rightarrow> 'l revoker_evidence \<Rightarrow> bool" where
  "revoker_stop m ended action e =
     (pa_schema_id action = platform_action_schema
      \<and> \<not> trim_is_empty (pa_action_id action)
      \<and> pa_action_id action \<notin> set (pm_applied_action_ids m)
      \<and> pa_action_id action \<notin> set (pm_aborted_action_ids m)
      \<and> pa_authority_epoch_id action = pm_authority_epoch_id m
      \<and> pa_operation action = OpStop
      \<and> cleanup_client_authority m = Some (pa_client_authority action)
      \<and> pa_trusted_revoker_cleanup action = Some e
      \<and> pa_runtime_spec_id action = sp_runtime_spec_id (bd_spec (pm_binding m))
      \<and> pa_runtime_spec_canonical_sha256 action = bd_runtime_spec_canonical_sha256 (pm_binding m)
      \<and> pa_manifold_descriptor_canonical_sha256 action = ac_product_descriptor_canonical_sha256 ended
      \<and> pa_manifold_decision_id action = ac_decision_id ended
      \<and> pa_manifold_session_revision action = ac_session_authority_revision ended
      \<and> pa_expected_runtime_revision action = ls_runtime_revision (sr_state (pm_runtime m))
      \<and> pa_owner_actions action = ordered_owner_actions (sp_owner_selections (bd_spec (pm_binding m))) OpStop
      \<and> tm_applied (re_termination e)
      \<and> tm_source_id (re_termination e) = tq_request_id (re_request e)
      \<and> tq_decision_id (re_request e) = ac_decision_id ended
      \<and> tq_action (re_request e) = Revoke)"

definition stop_underway :: "('b, 'l) product_runtime \<Rightarrow> 'l product_action \<Rightarrow> bool" where
  "stop_underway m action =
     (receipts_answer action (pm_pending_owner_receipts m)
      \<and> distinct (map cm_provider_handle_id (pm_pending_owner_receipts m))
      \<and> uncertain_ok action (length (pm_pending_owner_receipts m)) (pm_pending_uncertain_owner m)
      \<and> list_all (valid_stop_receipt (snapshot_of m)) (pm_pending_owner_receipts m))"

definition revoking ::
  "('h, 'r, 'b, 'l, 'n) product_externals \<Rightarrow> manifold_schemas \<Rightarrow> product_binding \<Rightarrow> string
     \<Rightarrow> ('b, 'l) product_runtime \<Rightarrow> bool" where
  "revoking x mx b epoch m =
     (ls_phase (sr_state (pm_runtime m)) \<noteq> Stopped
      \<and> (\<exists>current old ended action e.
           orderly x mx b epoch (before_revoke current m)
           \<and> cu_session current = Some old
           \<and> cu_session (pm_current_acceptance m) = Some ended \<and> same_holder ended old
           \<and> pm_pending_action m = Some action
           \<and> revoker_stop m ended action e \<and> stop_underway m action))"

text \<open>The end: nothing but stops can be pending.\<close>

definition ended :: "('b, 'l) product_runtime \<Rightarrow> bool" where
  "ended m =
     (ls_phase (sr_state (pm_runtime m)) = Stopped \<and> \<not> pm_abort_in_progress m
      \<and> (\<forall>action. pm_pending_action m = Some action \<longrightarrow> pa_operation action = OpStop))"

definition settled ::
  "('h, 'r, 'b, 'l, 'n) product_externals \<Rightarrow> manifold_schemas \<Rightarrow> product_binding \<Rightarrow> string
     \<Rightarrow> ('b, 'l) product_runtime \<Rightarrow> bool" where
  "settled x mx b epoch m = (orderly x mx b epoch m \<or> revoking x mx b epoch m \<or> ended m)"

lemma orderly_stopped:
  "orderly x mx b epoch m \<Longrightarrow> ls_phase (sr_state (pm_runtime m)) = Stopped \<Longrightarrow> ended m"
  by (auto simp: orderly_def ended_def no_pending_def pending_ok_def start_pending_def stop_pending_def
      planned_part_def running_part_def)

lemma before_revoke_sel [simp]:
  "pm_current_acceptance (before_revoke current m) = current"
  "pm_pending_action (before_revoke current m) = None"
  "pm_pending_owner_receipts (before_revoke current m) = []"
  "pm_pending_uncertain_owner (before_revoke current m) = None"
  "pm_binding (before_revoke current m) = pm_binding m"
  "pm_authority_epoch_id (before_revoke current m) = pm_authority_epoch_id m"
  "pm_runtime (before_revoke current m) = pm_runtime m"
  "pm_active_start_action (before_revoke current m) = pm_active_start_action m"
  "pm_active_start_receipts (before_revoke current m) = pm_active_start_receipts m"
  "pm_active_provider_handles (before_revoke current m) = pm_active_provider_handles m"
  "pm_active_client_authority (before_revoke current m) = pm_active_client_authority m"
  "pm_applied_action_ids (before_revoke current m) = pm_applied_action_ids m"
  "pm_aborted_action_ids (before_revoke current m) = pm_aborted_action_ids m"
  "pm_completed_start_abort (before_revoke current m) = pm_completed_start_abort m"
  "pm_pending_abort_receipts (before_revoke current m) = pm_pending_abort_receipts m"
  "pm_pending_abort_uncertain_owner (before_revoke current m) = pm_pending_abort_uncertain_owner m"
  "pm_abort_in_progress (before_revoke current m) = pm_abort_in_progress m"
  "pm_cleanup_only_after_restore (before_revoke current m) = pm_cleanup_only_after_restore m"
  by (simp_all add: before_revoke_def)

text \<open>What is behind a revoker's stop: a running session or a completed rollback.\<close>

lemma revoking_cases:
  assumes "revoking x mx b epoch m"
  obtains (running) current old ended action e start where
    "orderly x mx b epoch (before_revoke current m)" "cu_session current = Some old"
    "cu_session (pm_current_acceptance m) = Some ended" "same_holder ended old"
    "pm_pending_action m = Some action" "revoker_stop m ended action e" "stop_underway m action"
    "no_pending (before_revoke current m)" "running_part (before_revoke current m) start"
    "pa_client_authority action = pa_client_authority start"
  | (aborted) current old ended action e c where
    "orderly x mx b epoch (before_revoke current m)" "cu_session current = Some old"
    "cu_session (pm_current_acceptance m) = Some ended" "same_holder ended old"
    "pm_pending_action m = Some action" "revoker_stop m ended action e" "stop_underway m action"
    "no_pending (before_revoke current m)" "aborted_part (before_revoke current m) c"
    "pa_client_authority action = pa_client_authority (cb_original_action c)"
proof -
  from assms obtain current old ended action e where
    facts: "orderly x mx b epoch (before_revoke current m)" "cu_session current = Some old"
    "cu_session (pm_current_acceptance m) = Some ended" "same_holder ended old"
    "pm_pending_action m = Some action" "revoker_stop m ended action e" "stop_underway m action"
    and alive: "ls_phase (sr_state (pm_runtime (before_revoke current m))) \<noteq> Stopped"
    by (auto simp: revoking_def)
  from facts(6) have holder: "cleanup_client_authority m = Some (pa_client_authority action)"
    by (simp add: revoker_stop_def)
  from facts(1) alive show thesis
  proof (cases rule: orderly_cases)
    case (running start)
    with facts holder that(1) show thesis
      by (auto simp: running_part_def cleanup_client_authority_def)
  next
    case (aborted c)
    with facts holder that(2) show thesis
      by (auto simp: aborted_part_def planned_part_def cleanup_client_authority_def)
  qed (use holder in \<open>auto simp: planned_part_def cleanup_client_authority_def pending_ok_def\<close>)
qed


section \<open>Every operation keeps the invariant\<close>

lemma settledI:
  "orderly x mx b epoch m \<Longrightarrow> settled x mx b epoch m"
  "revoking x mx b epoch m \<Longrightarrow> settled x mx b epoch m"
  "ended m \<Longrightarrow> settled x mx b epoch m"
  by (simp_all add: settled_def)

lemma revoker_accepted_facts:
  assumes "validate_trusted_cleanup_authority x m host e now = Inr current" "cu_session current = Some gone"
  obtains old where "cu_session (pm_current_acceptance m) = Some old" "same_accepted_subject gone old"
    "tm_applied (re_termination e)" "tm_source_id (re_termination e) = tq_request_id (re_request e)"
    "tq_decision_id (re_request e) = ac_decision_id gone" "tq_action (re_request e) = Revoke"
  using assms
  by (auto simp: validate_trusted_cleanup_authority_def revoker_accepted_def same_accepted_subject_def Let_def
      result_simps)

lemma cleanup_client_authority_frame:
  "pm_active_client_authority m' = pm_active_client_authority m \<Longrightarrow>
     pm_completed_start_abort m' = pm_completed_start_abort m \<Longrightarrow>
     cleanup_client_authority m' = cleanup_client_authority m"
  by (simp add: cleanup_client_authority_def split: option.split)

lemma orderly_revoke:
  assumes "orderly x mx b epoch m" and "validate_trusted_cleanup_authority x m host e now = Inr current"
    and "cu_session current = Some gone" and "pm_pending_action m = None" and "\<not> trim_is_empty i"
    and "i \<notin> set (pm_applied_action_ids m)" and "i \<notin> set (pm_aborted_action_ids m)"
    and "cleanup_client_authority m = Some c" and "n = m\<lparr>pm_current_acceptance := current\<rparr>"
  shows "settled x mx b epoch (n\<lparr>pm_pending_owner_receipts := [], pm_pending_uncertain_owner := None,
      pm_pending_action := Some (action_for n gone i OpStop c (Some e))\<rparr>)"
proof -
  let ?a = "action_for n gone i OpStop c (Some e)"
  let ?m = "n\<lparr>pm_pending_owner_receipts := [], pm_pending_uncertain_owner := None, pm_pending_action := Some ?a\<rparr>"
  obtain old where old: "cu_session (pm_current_acceptance m) = Some old" "same_accepted_subject gone old"
    and evidence: "tm_applied (re_termination e)" "tm_source_id (re_termination e) = tq_request_id (re_request e)"
      "tq_decision_id (re_request e) = ac_decision_id gone" "tq_action (re_request e) = Revoke"
    using assms(2,3) by (rule revoker_accepted_facts)
  have none: "no_pending m"
    using assms(1,4) by (auto simp: orderly_def pending_ok_def)
  then have "before_revoke (pm_current_acceptance m) ?m = m"
    using assms(4) by (simp add: before_revoke_def assms(9) no_pending_def)
  moreover have "revoker_stop ?m gone ?a e"
    using assms(5-8) evidence cleanup_client_authority_frame [of ?m m]
    by (simp add: revoker_stop_def assms(9) action_for_def)
  moreover have "stop_underway ?m ?a"
    by (simp add: stop_underway_def uncertain_ok_def)
  moreover have "\<not> pm_abort_in_progress ?m" "ls_phase (sr_state (pm_runtime ?m)) = ls_phase (sr_state (pm_runtime m))"
    using none by (simp_all add: no_pending_def assms(9))
  ultimately have "revoking x mx b epoch ?m \<or> ended ?m"
    using old assms(1,3) subject_holder [OF old(2)] unfolding revoking_def ended_def
    by (simp add: assms(9)) (metis action_for_def platform_action.select_convs(4))
  then show ?thesis
    by (auto intro: settledI)
qed

lemma orderly_settles:
  assumes "micro x mx m m'" and "orderly x mx b epoch m"
  shows "settled x mx b epoch m'"
  using assms
proof (induction rule: micro.induct)
  case (mi_revoker m host e now current gone i c n)
  then show ?case
    by (intro orderly_revoke)
next
  case (mi_apply m action decisions m')
  show ?case
  proof (cases "pa_operation action")
    case OpStart
    then have "planned_part m" "pa_expected_runtime_revision action = 1"
      using orderly_pending [OF mi_apply.prems mi_apply(1)]
      by (auto simp: pending_ok_def start_pending_def stop_pending_def planned_part_def)
    with mi_apply OpStart show ?thesis
      by (metis apply_start orderly_apply_start prod.inject settledI(1))
  next
    case OpStop
    with mi_apply show ?thesis
      by (intro settledI(1) orderly_apply_stop)
  qed
next
  case (mi_apply_failed m action error m')
  show ?case
  proof (cases "pa_operation action")
    case OpStart
    then have "planned_part m" "pa_expected_runtime_revision action = 1"
      using orderly_pending [OF mi_apply_failed.prems mi_apply_failed(1)]
      by (auto simp: pending_ok_def start_pending_def stop_pending_def planned_part_def)
    with mi_apply_failed OpStart show ?thesis
      by (metis apply_start prod.inject sum.distinct(1))
  next
    case OpStop
    with mi_apply_failed show ?thesis
      by (cases rule: apply_stop_cases [OF OpStop, where m = m]) (auto intro: settledI(1))
  qed
next
  case (mi_revalidate m flag)
  then show ?case by (simp add: orderly_def grounded_def)
next
  case (mi_commit m s)
  then show ?case by (intro settledI(1), subst orderly_frame [of _ m]) (simp_all add: snapshot_of_def)
next
  case (mi_poison m)
  then show ?case by (intro settledI(1), subst orderly_frame [of _ m]) (simp_all add: snapshot_of_def)
next
  case (mi_journal m)
  then show ?case by (intro settledI(1), subst orderly_frame [of _ m]) (simp_all add: snapshot_of_def)
next
  case (mi_host m source)
  then show ?case by (intro settledI(1), subst orderly_frame [of _ m]) (simp_all add: snapshot_of_def)
next
  case (mi_call m call)
  then show ?case by (intro settledI(1), subst orderly_frame [of _ m]) (simp_all add: snapshot_of_def)
next
  case (mi_refresh m current now need)
  then show ?case by (intro settledI(1) orderly_refresh)
next
  case (mi_renew m receipt prior current now)
  then show ?case by (intro settledI(1) orderly_renew)
next
  case (mi_prepare m i op c accepted)
  then show ?case by (intro settledI(1) orderly_prepare)
next
  case (mi_attempt m action expected)
  then show ?case by (intro settledI(1) orderly_attempt)
next
  case (mi_record m action expected provider rb seq)
  then show ?case by (intro settledI(1) orderly_record)
next
  case (mi_begin_abort m action)
  then show ?case by (intro settledI(1) orderly_begin_abort)
next
  case (mi_abort_attempt m action expected started)
  then show ?case by (intro settledI(1) orderly_abort_attempt)
next
  case (mi_abort_record m action expected started provider rb seq)
  then show ?case by (intro settledI(1) orderly_abort_record)
next
  case (mi_finalize m action)
  then show ?case by (intro settledI(1) orderly_finalize)
qed



text \<open>The end is final.\<close>

lemma ended_kept:
  assumes "micro x mx m m'" and "ended m"
  shows "ended m'"
  using assms
proof (induction rule: micro.induct)
  case (mi_prepare m i op c accepted)
  then show ?case
    using reviewed_facts(8) [OF mi_prepare(2)] by (auto simp: ended_def phase_review_def Let_def split: if_splits)
next
  case (mi_apply m action decisions m')
  then have stop: "pa_operation action = OpStop"
    by (simp add: ended_def)
  from mi_apply stop show ?case
    by (cases rule: apply_stop_cases [OF stop, where m = m]) (auto simp: ended_def adopt_effects_def Let_def)
next
  case (mi_apply_failed m action error m')
  then have stop: "pa_operation action = OpStop"
    by (simp add: ended_def)
  from mi_apply_failed show ?case
    by (cases rule: apply_stop_cases [OF stop, where m = m]) auto
qed (auto simp: ended_def recorded_def abort_recorded_def action_for_def abort_pending_def pending_abort_eq_Some)

lemma valid_stop_receipt_frame:
  "rv_completed_start_abort s' = rv_completed_start_abort s \<Longrightarrow>
     rv_active_provider_handles s' = rv_active_provider_handles s \<Longrightarrow>
     valid_stop_receipt s' = valid_stop_receipt s"
  by (simp add: valid_stop_receipt_def fun_eq_iff split: option.split)

text \<open>A change outside the journaled state.\<close>

lemma snapshot_before_revoke:
  "snapshot_of (before_revoke current m) = (snapshot_of m)\<lparr>rv_accepted_subject := current,
     rv_pending_action := None, rv_pending_owner_receipts := [], rv_pending_uncertain_owner := None\<rparr>"
  by (simp add: snapshot_of_def)

lemma settled_frame:
  assumes same: "snapshot_of m' = snapshot_of m"
    and "pm_active_provider_handles m' = pm_active_provider_handles m"
    and "pm_cleanup_only_after_restore m' = pm_cleanup_only_after_restore m"
  shows "settled x mx b epoch m' = settled x mx b epoch m"
proof -
  have "orderly x mx b epoch (before_revoke current m') = orderly x mx b epoch (before_revoke current m)" for current
    using assms by (intro orderly_frame) (simp_all add: snapshot_before_revoke)
  moreover have "pm_binding m' = pm_binding m" "pm_current_acceptance m' = pm_current_acceptance m"
    "pm_authority_epoch_id m' = pm_authority_epoch_id m" "sr_state (pm_runtime m') = sr_state (pm_runtime m)"
    "pm_pending_action m' = pm_pending_action m"
    "pm_pending_owner_receipts m' = pm_pending_owner_receipts m"
    "pm_pending_uncertain_owner m' = pm_pending_uncertain_owner m"
    "pm_abort_in_progress m' = pm_abort_in_progress m"
    "pm_active_client_authority m' = pm_active_client_authority m"
    "pm_applied_action_ids m' = pm_applied_action_ids m" "pm_aborted_action_ids m' = pm_aborted_action_ids m"
    "pm_completed_start_abort m' = pm_completed_start_abort m"
    using same by (metis snapshot_sel)+
  ultimately show ?thesis
    using orderly_frame [OF assms, of x mx b epoch] cleanup_client_authority_frame [of m' m]
    unfolding settled_def revoking_def revoker_stop_def stop_underway_def ended_def same by simp
qed

text \<open>A revoker's stop in progress.\<close>

lemma revoking_current:
  assumes "revoking x mx b epoch m" and "cu_session (pm_current_acceptance m) = Some old"
    and "cu_session current = Some new" and "same_holder new old"
  shows "revoking x mx b epoch (m\<lparr>pm_current_acceptance := current\<rparr>)"
proof -
  let ?m = "m\<lparr>pm_current_acceptance := current\<rparr>"
  have before: "before_revoke c ?m = before_revoke c m" for c
    by (simp add: before_revoke_def)
  have stop: "revoker_stop ?m new a e" if "revoker_stop m old a e" for a e
    using that assms(4) cleanup_client_authority_frame [of ?m m] by (simp add: revoker_stop_def same_holder_def)
  have progress: "stop_underway ?m a = stop_underway m a" for a
    using valid_stop_receipt_frame [of "snapshot_of ?m" "snapshot_of m"] by (simp add: stop_underway_def)
  have "same_holder new first" if "same_holder old first" for first
    using assms(4) that by (simp add: same_holder_def)
  with assms(1-3) stop show ?thesis
    unfolding revoking_def before progress by fastforce
qed

lemma revoking_pending:
  assumes "revoking x mx b epoch m" and "pm_pending_action m = Some action"
    and "m' = m\<lparr>pm_pending_owner_receipts := rs, pm_pending_uncertain_owner := owner\<rparr>"
    and "stop_underway m action \<Longrightarrow> stop_underway m' action"
  shows "revoking x mx b epoch m'"
proof -
  have "before_revoke c m' = before_revoke c m" for c
    by (simp add: before_revoke_def assms(3))
  moreover have "revoker_stop m' gone a e = revoker_stop m gone a e" for gone a e
    using cleanup_client_authority_frame [of m' m] by (simp add: revoker_stop_def assms(3))
  moreover have "pm_pending_action m' = Some action" "pm_current_acceptance m' = pm_current_acceptance m"
    "pm_runtime m' = pm_runtime m"
    using assms(2) by (simp_all add: assms(3))
  ultimately show ?thesis
    using assms(1,2,4) unfolding revoking_def by auto
qed

lemma revoking_stop: "revoking x mx b epoch m \<Longrightarrow> pm_pending_action m = Some action \<Longrightarrow> pa_operation action = OpStop"
  and revoking_quiet: "revoking x mx b epoch m \<Longrightarrow> \<not> pm_abort_in_progress m \<and> pm_pending_action m \<noteq> None
      \<and> \<not> pm_cleanup_only_after_restore m"
proof -
  show "revoking x mx b epoch m \<Longrightarrow> pm_pending_action m = Some action \<Longrightarrow> pa_operation action = OpStop"
    by (auto simp: revoking_def revoker_stop_def)
  assume "revoking x mx b epoch m"
  then show "\<not> pm_abort_in_progress m \<and> pm_pending_action m \<noteq> None \<and> \<not> pm_cleanup_only_after_restore m"
    by (cases rule: revoking_cases) (auto simp: no_pending_def orderly_def grounded_def)
qed

lemma continued_stop_receipt:
  assumes "handle_continues m action expected rb" and "pa_operation action = OpStop"
  shows "valid_stop_receipt (snapshot_of m) (receipt_of expected seq rb)"
  using assms
  by (auto simp: handle_continues_def valid_stop_receipt_def receipt_of_def undoes_def find_handle split: option.splits)

lemma stop_underway_record:
  assumes "stop_underway m action" and "attempt_pending m action expected" and "pa_operation action = OpStop"
    and "readback_answers provider action expected rb"
    and "\<not> list_ex (\<lambda>r. cm_receipt_id r = opr_receipt_id rb
       \<or> cm_provider_handle_id r = opr_provider_handle_id rb) (pm_pending_owner_receipts m)"
    and "handle_continues m action expected rb"
    and "u32_of_len (length (pm_pending_owner_receipts m) + 1) = Some seq"
  shows "stop_underway (recorded (receipt_of expected seq rb) m) action"
proof -
  let ?r = "receipt_of expected seq rb"
  have fresh: "cm_receipt_id ?r \<notin> cm_receipt_id ` set (pm_pending_owner_receipts m)"
    "cm_provider_handle_id ?r \<notin> cm_provider_handle_id ` set (pm_pending_owner_receipts m)"
    using assms(5) by (auto simp: list_ex_iff receipt_of_def)
  have "receipts_answer action (pm_pending_owner_receipts m @ [?r])"
    using assms(1,2) fresh(1) readback_receipt_answers [OF assms(4,7)]
    by (simp add: receipts_answer_snoc stop_underway_def attempt_pending_def)
  moreover have "valid_stop_receipt (snapshot_of (recorded ?r m)) = valid_stop_receipt (snapshot_of m)"
    by (rule valid_stop_receipt_frame) (simp_all add: recorded_def)
  ultimately show ?thesis
    using assms(1) fresh(2) continued_stop_receipt [OF assms(6,3), of seq]
    unfolding stop_underway_def by (simp add: recorded_def uncertain_ok_def)
qed



lemma revoking_settles:
  assumes "micro x mx m m'" and "revoking x mx b epoch m"
  shows "settled x mx b epoch m'"
  using assms
proof (induction rule: micro.induct)
  case (mi_refresh m current now need)
  obtain old where old: "cu_session (pm_current_acceptance m) = Some old"
    using mi_refresh.prems by (auto simp: revoking_def)
  obtain new where new: "cu_session current = Some new"
    using current_weaken(2) [OF mi_refresh(1)] by blast
  have "same_holder new old"
    using current_supersedes [OF mi_refresh(1) new] old by (auto intro: subject_holder)
  with mi_refresh.prems old new show ?case
    by (intro settledI(2) revoking_current)
next
  case (mi_renew m receipt prior current now)
  obtain old where old: "cu_session (pm_current_acceptance m) = Some old"
    "prior = (pm_current_acceptance m)\<lparr>cu_session :=
       Some (old\<lparr>ac_expires_at_ms := ac_expires_at_ms (rn_renewed_media receipt)\<rparr>)\<rparr>"
    using mi_renew(1) by (auto simp: extended_prior_def result_simps)
  obtain new where new: "cu_session current = Some new"
    using current_weaken(2) [OF mi_renew(2)] by blast
  have "same_holder new old"
    using current_supersedes [OF mi_renew(2) new] old by (auto simp: same_accepted_subject_def same_holder_def)
  with mi_renew.prems old(1) new show ?case
    by (intro settledI(2) revoking_current)
next
  case (mi_attempt m action expected)
  let ?m = "m\<lparr>pm_pending_uncertain_owner := Some expected\<rparr>"
  have pending: "pm_pending_action m = Some action"
    using mi_attempt(1) by (simp add: attempt_pending_def)
  have "valid_stop_receipt (snapshot_of ?m) = valid_stop_receipt (snapshot_of m)"
    by (rule valid_stop_receipt_frame) simp_all
  then have progress: "stop_underway m action \<Longrightarrow> stop_underway ?m action"
    using mi_attempt(1) by (simp add: stop_underway_def uncertain_ok_def attempt_pending_def)
  have "?m = m\<lparr>pm_pending_owner_receipts := pm_pending_owner_receipts m, pm_pending_uncertain_owner := Some expected\<rparr>"
    by simp
  then show ?case
    by (rule settledI(2) [OF revoking_pending [OF mi_attempt.prems pending _ progress]])
next
  case (mi_record m action expected provider rb seq)
  then have pending: "pm_pending_action m = Some action"
    by (simp add: attempt_pending_def)
  have stop: "pa_operation action = OpStop"
    by (rule revoking_stop [OF mi_record.prems pending])
  show ?case
    by (rule settledI(2) [OF revoking_pending [OF mi_record.prems pending recorded_def
          stop_underway_record [OF _ mi_record(1) stop mi_record(3-6)]]])
next
  case (mi_apply m action decisions m')
  have stop: "pa_operation action = OpStop"
    using revoking_stop mi_apply by blast
  from mi_apply stop show ?case
    by (cases rule: apply_stop_cases [OF stop, where m = m])
      (auto simp: ended_def adopt_effects_def Let_def dest: revoking_quiet intro!: settledI(3))
next
  case (mi_apply_failed m action error m')
  have stop: "pa_operation action = OpStop"
    using revoking_stop mi_apply_failed by blast
  from mi_apply_failed show ?case
    by (cases rule: apply_stop_cases [OF stop, where m = m]) (auto intro: settledI)
next
  case (mi_commit m s)
  then show ?case by (subst settled_frame [of _ m]) (simp_all add: snapshot_of_def settledI)
next
  case (mi_poison m)
  then show ?case by (subst settled_frame [of _ m]) (simp_all add: snapshot_of_def settledI)
next
  case (mi_journal m)
  then show ?case by (subst settled_frame [of _ m]) (simp_all add: snapshot_of_def settledI)
next
  case (mi_host m source)
  then show ?case by (subst settled_frame [of _ m]) (simp_all add: snapshot_of_def settledI)
next
  case (mi_call m call)
  then show ?case by (subst settled_frame [of _ m]) (simp_all add: snapshot_of_def settledI)
next
  case (mi_prepare m i op c accepted)
  then show ?case using reviewed_facts(4) revoking_quiet by blast
next
  case (mi_revoker m host e now current gone i c n)
  then show ?case using revoking_quiet by blast
next
  case (mi_begin_abort m action)
  then show ?case using revoking_stop by fastforce
next
  case (mi_abort_attempt m action expected started)
  then show ?case using revoking_quiet by (fastforce simp: abort_pending_def pending_abort_eq_Some)
next
  case (mi_abort_record m action expected started provider rb seq)
  then show ?case using revoking_quiet by (fastforce simp: abort_pending_def pending_abort_eq_Some)
next
  case (mi_finalize m action)
  then show ?case using revoking_quiet by blast
next
  case (mi_revalidate m flag)
  then show ?case using revoking_quiet by blast
qed

lemma settled_kept: "micro x mx m m' \<Longrightarrow> settled x mx b epoch m \<Longrightarrow> settled x mx b epoch m'"
  unfolding settled_def [of x mx b epoch m]
  by (elim disjE) (rule orderly_settles revoking_settles settledI(3) [OF ended_kept]; assumption)+

section \<open>Completed rollbacks\<close>

definition rollback_complete :: "'l completed_abort \<Rightarrow> bool" where
  "rollback_complete c =
     (cb_rollback_action c = partial_start_abort_action (cb_original_action c) (cb_started_receipts c)
          (cb_uncertain_owner c)
      \<and> length (cb_rollback_receipts c) = length (pa_owner_actions (cb_rollback_action c))
      \<and> receipts_answer (cb_rollback_action c) (cb_rollback_receipts c)
      \<and> undoes_all (cb_uncertain_owner c) (cb_rollback_receipts c) (cb_started_receipts c))"

lemma aborted_rollback: "aborted_part m c \<Longrightarrow> rollback_complete c"
  unfolding aborted_part_def rollback_complete_def by iprover

definition rollbacks_complete :: "('b, 'l) product_runtime \<Rightarrow> bool" where
  "rollbacks_complete m = (case pm_completed_start_abort m of None \<Rightarrow> True | Some c \<Rightarrow> rollback_complete c)"

lemma lifecycle_abort: "apply_lifecycle action m = (r, m') \<Longrightarrow>
    pm_completed_start_abort m' = pm_completed_start_abort m"
proof -
  have "pm_completed_start_abort (snd (execute_request i r a e n)) = pm_completed_start_abort n"
    for i r a e and n :: "('a, 'b) product_runtime"
    using execute_request_runtime [of i r a e n] by auto
  then have "pm_completed_start_abort (snd (apply_lifecycle action m)) = pm_completed_start_abort m"
    by (auto simp: apply_lifecycle_def give_def and_do_def split: platform_operation.splits prod.splits sum.splits)
      (metis snd_conv)+
  then show "apply_lifecycle action m = (r, m') \<Longrightarrow> pm_completed_start_abort m' = pm_completed_start_abort m"
    by simp
qed

lemma micro_abort:
  "micro x mx m m' \<Longrightarrow> pm_completed_start_abort m' = pm_completed_start_abort m
     \<or> (\<exists>action. pm_abort_in_progress m \<and> pm_pending_action m = Some action
          \<and> length (pm_pending_abort_receipts m) = length (pm_pending_owner_receipts m) + uncertain_offset m
          \<and> m' = abort_finished action m)"
  by (induction rule: micro.induct)
    (auto simp: prepared_def recorded_def abort_recorded_def adopt_effects_def Let_def
      dest: lifecycle_abort split: platform_operation.splits)

lemma rollbacks_kept:
  assumes "micro x mx m m'" and "settled x mx b epoch m" and "rollbacks_complete m"
  shows "rollbacks_complete m'"
  using micro_abort [OF assms(1)]
proof
  assume "\<exists>action. pm_abort_in_progress m \<and> pm_pending_action m = Some action
    \<and> length (pm_pending_abort_receipts m) = length (pm_pending_owner_receipts m) + uncertain_offset m
    \<and> m' = abort_finished action m"
  then obtain action where fin: "pm_abort_in_progress m" "pm_pending_action m = Some action"
    "length (pm_pending_abort_receipts m) = length (pm_pending_owner_receipts m) + uncertain_offset m"
    "m' = abort_finished action m"
    by blast
  then have ord: "orderly x mx b epoch m"
    using assms(2) revoking_quiet [of x mx b epoch m] by (auto simp: settled_def ended_def)
  have fields: "pm_pending_action m' = None" "pm_completed_start_abort m' \<noteq> None"
    "ls_phase (sr_state (pm_runtime m')) = ls_phase (sr_state (pm_runtime m))"
    by (simp_all add: fin(4) abort_finished_def)
  have "ls_phase (sr_state (pm_runtime m)) \<noteq> Stopped"
    using orderly_stopped [OF ord] fin(1) by (auto simp: ended_def)
  then have alive: "ls_phase (sr_state (pm_runtime m')) \<noteq> Stopped"
    by (simp add: fields)
  have "orderly x mx b epoch m'"
    using orderly_finalize [OF ord fin(1,3,2)] by (simp add: fin(4))
  then show ?thesis
    using alive
  proof (cases rule: orderly_cases)
    case (aborted c)
    then have "pm_completed_start_abort m' = Some c"
      by (simp add: aborted_part_def)
    then show ?thesis
      using aborted_rollback [OF aborted(1)] by (simp add: rollbacks_complete_def)
  qed (use fields in \<open>auto simp: pending_ok_def running_part_def\<close>)
qed (use assms(3) in \<open>simp add: rollbacks_complete_def\<close>)



section \<open>Snapshots of a revoker's stop\<close>

definition pending_revoke :: "('b, 'l) recovery_snapshot \<Rightarrow> 'l revoker_evidence option" where
  "pending_revoke s = Option.bind (rv_pending_action s) pa_trusted_revoker_cleanup"

definition snapshot_actions :: "('b, 'l) recovery_snapshot \<Rightarrow> 'l product_action list" where
  "snapshot_actions s =
     (case rv_active_start_action s of None \<Rightarrow> [] | Some a \<Rightarrow> [a])
     @ (case rv_pending_action s of None \<Rightarrow> [] | Some a \<Rightarrow> [a])
     @ (case rv_completed_start_abort s of None \<Rightarrow> [] | Some c \<Rightarrow> [cb_original_action c])"

text \<open>
  What the host has to say of a session whose revocation is being carried out: a current receipt
  for the binding, the session revoked by the request of the evidence, at an acceptance revision
  that is not older than those of the actions.
\<close>

definition revoked_subject ::
  "('h, 'r, 'b, 'l, 'n) product_externals \<Rightarrow> manifold_schemas \<Rightarrow> product_binding
     \<Rightarrow> ('b, 'l) recovery_snapshot \<Rightarrow> 'l revoker_evidence \<Rightarrow> bool" where
  "revoked_subject x mx b s e =
     (case cu_session (rv_accepted_subject s) of
        None \<Rightarrow> False
      | Some gone \<Rightarrow>
          is_ok (validate_current_acceptance x mx b (rv_accepted_subject s) (rv_provider_epoch_id s)
            (cu_validated_at_ms (rv_accepted_subject s)) False None)
          \<and> ac_lifecycle_status gone = StatusRevoked
          \<and> ac_ended_by_id gone = Some (tq_request_id (re_request e))
          \<and> list_all (\<lambda>a. pa_media_acceptance_authority_revision a \<noteq> 0
                \<and> pa_media_acceptance_authority_revision a
                    \<le> cu_acceptance_state_authority_revision (rv_accepted_subject s))
              (snapshot_actions s))"

definition restores_iff ::
  "('h, 'r, 'b, 'l, 'n) product_externals \<Rightarrow> manifold_schemas \<Rightarrow> product_binding
     \<Rightarrow> ('b, 'l) recovery_snapshot \<Rightarrow> bool" where
  "restores_iff x mx b s =
     (\<not> trim_is_empty (rv_provider_epoch_id s) \<and> fresh_identities s
      \<and> (case pending_revoke s of None \<Rightarrow> True | Some e \<Rightarrow> revoked_subject x mx b s e))"

lemma action_revision:
  "valid_recovery_action b accepted s a \<Longrightarrow> pa_media_acceptance_authority_revision a \<noteq> 0
     \<and> pa_media_acceptance_authority_revision a \<le> cu_acceptance_state_authority_revision (rv_accepted_subject s)"
  by (simp add: valid_recovery_action_def Let_def)

lemma valid_snapshot_restores:
  assumes "valid_snapshot x mx b s encoded"
  shows "restores_iff x mx b s"
proof -
  obtain accepted where accepted: "cu_session (rv_accepted_subject s) = Some accepted"
    "is_ok (validate_current_acceptance x mx b (rv_accepted_subject s) (rv_provider_epoch_id s)
       (cu_validated_at_ms (rv_accepted_subject s)) False None)"
    "case rv_completed_start_abort s of None \<Rightarrow> True | Some c \<Rightarrow> valid_completed_start_abort b accepted s c"
    "valid_active_part b accepted s" "valid_pending_part b accepted s"
    using assms by (auto simp: valid_snapshot_def split: option.splits)
  have actions: "valid_recovery_action b accepted s a" if "a \<in> set (snapshot_actions s)" for a
    using that accepted(3-5)
    by (auto simp: snapshot_actions_def valid_active_part_def valid_pending_part_def valid_completed_start_abort_def
        Let_def split: option.splits)
  have "revoked_subject x mx b s e" if e: "pending_revoke s = Some e" for e
  proof -
    obtain action where action: "rv_pending_action s = Some action" "pa_trusted_revoker_cleanup action = Some e"
      using e by (auto simp: pending_revoke_def bind_eq_Some_conv)
    then have "valid_recovery_action b accepted s action"
      by (intro actions) (simp add: snapshot_actions_def)
    then have "valid_revoker_stop accepted action e"
      using action(2) by (simp add: valid_recovery_action_def Let_def)
    then show ?thesis
      using accepted(1,2) action_revision [OF actions]
      by (simp add: revoked_subject_def valid_revoker_stop_def list_all_iff)
  qed
  then show ?thesis
    using assms valid_snapshot_fresh [OF assms]
    by (auto simp: restores_iff_def valid_snapshot_def valid_snapshot_frame_def split: option.splits)
qed

text \<open>What an earlier acceptance says of an action, the host's receipt says too.\<close>

lemma action_transfer:
  assumes "valid_recovery_action b old (snapshot_of (before_revoke current m)) a"
    and "pa_trusted_revoker_cleanup a = None" and "same_holder gone old"
    and "pa_media_acceptance_authority_revision a
      \<le> cu_acceptance_state_authority_revision (pm_current_acceptance m)"
  shows "valid_recovery_action b gone (snapshot_of m) a"
  using assms unfolding valid_recovery_action_def Let_def same_holder_def by simp

lemma revoker_action_valid:
  assumes "revoker_stop m gone action e" and "pa_client_authority action = pa_client_authority start"
    and "valid_recovery_action (pm_binding m) gone (snapshot_of m) start"
    and "ac_lifecycle_status gone = StatusRevoked" "ac_ended_by_id gone = Some (tq_request_id (re_request e))"
    and "pa_media_acceptance_authority_revision action \<noteq> 0" "pa_media_acceptance_authority_revision action
      \<le> cu_acceptance_state_authority_revision (pm_current_acceptance m)"
  shows "valid_recovery_action (pm_binding m) gone (snapshot_of m) action"
  using assms unfolding valid_recovery_action_def Let_def revoker_stop_def valid_revoker_stop_def by simp

lemma active_transfer:
  assumes "valid_active_part b old (snapshot_of (before_revoke current m))"
    and "\<And>a. pm_active_start_action m = Some a \<Longrightarrow> valid_recovery_action b gone (snapshot_of m) a"
  shows "valid_active_part b gone (snapshot_of m)"
  using assms by (cases "pm_active_start_action m") (simp_all add: valid_active_part_def Let_def)

lemma abort_transfer:
  assumes "valid_completed_start_abort b old (snapshot_of (before_revoke current m)) c"
    and "valid_recovery_action b gone (snapshot_of m) (cb_original_action c)"
    and "pm_pending_action m = Some action" "revoker_stop m gone action e"
    and "ls_phase (sr_state (pm_runtime m)) \<noteq> Stopped"
  shows "valid_completed_start_abort b gone (snapshot_of m) c"
  using assms unfolding valid_completed_start_abort_def Let_def revoker_stop_def by simp


lemma revoked_actions:
  assumes "revoked_subject x mx b (snapshot_of m) e" and "a \<in> set (snapshot_actions (snapshot_of m))"
  shows "pa_media_acceptance_authority_revision a \<noteq> 0" "pa_media_acceptance_authority_revision a
    \<le> cu_acceptance_state_authority_revision (pm_current_acceptance m)"
  using assms by (auto simp: revoked_subject_def list_all_iff split: option.splits)

lemma revoker_pending_valid:
  assumes stop: "revoker_stop m gone action e" "stop_underway m action" "pm_pending_action m = Some action"
    and base: "no_pending (before_revoke current m)"
    and start: "(case pm_active_start_action m of Some start \<Rightarrow> Some start
        | None \<Rightarrow> map_option cb_original_action (pm_completed_start_abort m)) = Some start"
      "pa_client_authority action = pa_client_authority start"
    and valid: "valid_recovery_action (pm_binding m) gone (snapshot_of m) action"
  shows "valid_pending_part (pm_binding m) gone (snapshot_of m)"
proof -
  have "valid_pending_stop (snapshot_of m) action"
    unfolding valid_pending_stop_def snapshot_sel start(1)
    using base stop(2) start(2) by (simp add: no_pending_def stop_underway_def same_session_holder_def)
  then show ?thesis
    using stop valid
    by (auto simp: valid_pending_part_def valid_prefix_iff stop_underway_def revoker_stop_def uncertain_ok_iff
        split: option.splits)
qed

lemma revoking_frame:
  assumes "orderly x mx b epoch (before_revoke current m)" and "ls_phase (sr_state (pm_runtime m)) \<noteq> Stopped"
    and "revoker_stop m gone action e" "stop_underway m action"
    and "no_pending (before_revoke current m)"
    and "\<not> trim_is_empty epoch" "length encoded \<le> max_recovery_bytes"
  shows "valid_snapshot_frame b (snapshot_of m) encoded"
    and "strict_unique_ids (ls_applied_request_ids (sr_state (pm_runtime m)))"
proof -
  have alive: "ls_phase (sr_state (pm_runtime (before_revoke current m))) \<noteq> Stopped"
    using assms(2) by simp
  note ids = snapshot_ids [OF assms(1) alive]
  have revision: "ls_runtime_revision (sr_state (pm_runtime m)) \<noteq> 0"
    using assms(1) alive by (cases rule: orderly_cases)
      (auto simp: planned_part_def aborted_part_def running_part_def start_pending_def)
  have "length (pm_pending_owner_receipts m) \<le> length (sp_owner_selections (bd_spec (pm_binding m)))"
    using assms(3,4) by (simp add: stop_underway_def receipts_answer_def revoker_stop_def)
  then show "valid_snapshot_frame b (snapshot_of m) encoded"
    using assms(1,5-7) revision ids(1-3) snapshot_lengths(1) [OF assms(1) alive] snapshot_schema [of m]
    by (simp add: valid_snapshot_frame_def orderly_def grounded_def no_pending_def)
  show "strict_unique_ids (ls_applied_request_ids (sr_state (pm_runtime m)))"
    using ids(4) by simp
qed

lemma revoking_snapshot_valid:
  assumes "revoking x mx b epoch m" and "restores_iff x mx b (snapshot_of m)"
    and "length encoded \<le> max_recovery_bytes"
  shows "valid_snapshot x mx b (snapshot_of m) encoded"
proof -
  have alive: "ls_phase (sr_state (pm_runtime m)) \<noteq> Stopped"
    using assms(1) by (simp add: revoking_def)
  have fresh: "fresh_identities (snapshot_of m)"
    using assms(2) by (simp add: restores_iff_def)
  have subject: "revoked_subject x mx b (snapshot_of m) e"
    if "pm_pending_action m = Some action" "revoker_stop m gone action e" for action gone e
    using assms(2) that by (simp add: restores_iff_def pending_revoke_def revoker_stop_def)
  have whole: ?thesis
    if base: "orderly x mx b epoch (before_revoke current m)" "no_pending (before_revoke current m)"
      and gone: "cu_session (pm_current_acceptance m) = Some gone"
      and stop: "pm_pending_action m = Some action" "revoker_stop m gone action e" "stop_underway m action"
      and start: "(case pm_active_start_action m of Some start \<Rightarrow> Some start
          | None \<Rightarrow> map_option cb_original_action (pm_completed_start_abort m)) = Some start"
        "pa_client_authority action = pa_client_authority start"
        "valid_recovery_action (pm_binding m) gone (snapshot_of m) start"
      and active: "valid_active_part (pm_binding m) gone (snapshot_of m)"
      and abort: "\<And>c. pm_completed_start_abort m = Some c \<Longrightarrow>
          valid_completed_start_abort (pm_binding m) gone (snapshot_of m) c"
    for current gone action e start
  proof -
    note revoked = subject [OF stop(1,2)]
    have here: "pm_binding m = b" "pm_authority_epoch_id m = epoch"
      using base(1) by (simp_all add: orderly_def grounded_def)
    then have epoch: "\<not> trim_is_empty epoch"
      using assms(2) by (simp add: restores_iff_def)
    have action: "action \<in> set (snapshot_actions (snapshot_of m))"
      using stop(1) by (simp add: snapshot_actions_def)
    have "valid_recovery_action (pm_binding m) gone (snapshot_of m) action"
      using revoker_action_valid [OF stop(2) start(2,3) _ _ revoked_actions [OF revoked action]] revoked gone
      by (simp add: revoked_subject_def)
    then have "valid_pending_part (pm_binding m) gone (snapshot_of m)"
      by (rule revoker_pending_valid [OF stop(2,3,1) base(2) start(1,2)])
    with active abort revoking_frame [OF base(1) alive stop(2,3) base(2) epoch assms(3)] revoked gone fresh here
    show ?thesis
      by (auto simp: valid_snapshot_def revoked_subject_def fresh_identities_def split: option.splits)
  qed
  from assms(1) show ?thesis
  proof (cases rule: revoking_cases)
    case (running current old gone action e start)
    note revoked = subject [OF running(5,6)]
    have active: "pm_active_start_action m = Some start" "pm_completed_start_abort m = None"
      "action_ok (before_revoke current m) start"
      using running(9) by (simp_all add: running_part_def)
    have old: "valid_recovery_action (pm_binding m) old (snapshot_of (before_revoke current m)) start"
      "pa_trusted_revoker_cleanup start = None"
      using action_okD [OF active(3)] running(2) by simp_all
    have start: "valid_recovery_action (pm_binding m) gone (snapshot_of m) start"
      using action_transfer [OF old running(4)] revoked_actions(2) [OF revoked] active(1)
      by (simp add: snapshot_actions_def)
    have "valid_active_part (pm_binding m) old (snapshot_of (before_revoke current m))"
      using valid_active_running [OF running(9)] running(2) by simp
    then have part: "valid_active_part (pm_binding m) gone (snapshot_of m)"
      by (rule active_transfer) (use active(1) start in simp)
    show ?thesis
      by (rule whole [OF running(1,8,3,5,6,7) _ running(10) start part]) (simp_all add: active)
  next
    case (aborted current old gone action e c)
    note revoked = subject [OF aborted(5,6)]
    have kept: "pm_completed_start_abort m = Some c" "pm_active_start_action m = None"
      "action_ok (before_revoke current m) (cb_original_action c)"
      using aborted(9) by (simp_all add: aborted_part_def planned_part_def)
    have old: "valid_recovery_action (pm_binding m) old (snapshot_of (before_revoke current m)) (cb_original_action c)"
      "pa_trusted_revoker_cleanup (cb_original_action c) = None"
      using action_okD [OF kept(3)] aborted(2) by simp_all
    have original: "valid_recovery_action (pm_binding m) gone (snapshot_of m) (cb_original_action c)"
      using action_transfer [OF old aborted(4)] revoked_actions(2) [OF revoked] kept(1)
      by (simp add: snapshot_actions_def)
    have "distinct (map cm_provider_handle_id (cb_rollback_receipts c))"
      using fresh kept(1) by (simp add: fresh_identities_def)
    then have "valid_completed_start_abort (pm_binding m) old (snapshot_of (before_revoke current m)) c"
      using valid_abort_part [OF aborted(9,8)] aborted(2) by simp
    then have abort: "valid_completed_start_abort (pm_binding m) gone (snapshot_of m) c"
      using original aborted(5,6) alive by (rule abort_transfer)
    have "planned_part (before_revoke current m)"
      using aborted(9) by (simp add: aborted_part_def)
    then have "valid_active_part (pm_binding m) old (snapshot_of (before_revoke current m))"
      by (rule valid_active_planned)
    then have part: "valid_active_part (pm_binding m) gone (snapshot_of m)"
      by (rule active_transfer) (simp add: kept)
    show ?thesis
      by (rule whole [OF aborted(1,8,3,5,6,7) _ aborted(10) original part]) (use abort kept in simp_all)
  qed
qed

section \<open>The store\<close>

lemma lifecycle_store: "apply_lifecycle action m = (r, m') \<Longrightarrow> pm_durable m' = pm_durable m"
proof -
  have "pm_durable (snd (execute_request i r a e n)) = pm_durable n"
    for i r a e and n :: "('a, 'b) product_runtime"
    using execute_request_runtime [of i r a e n] by auto
  then have "pm_durable (snd (apply_lifecycle action m)) = pm_durable m"
    by (auto simp: apply_lifecycle_def give_def and_do_def split: platform_operation.splits prod.splits sum.splits)
      (metis snd_conv)+
  then show "apply_lifecycle action m = (r, m') \<Longrightarrow> pm_durable m' = pm_durable m"
    by simp
qed

lemma micro_store: "micro x mx m m' \<Longrightarrow> pm_durable m' = pm_durable m
    \<or> (\<exists>s. recovery_snapshot x m = Inr s \<and> pm_durable m' = Some s)"
  by (induction rule: micro.induct)
    (auto simp: prepared_def recorded_def abort_recorded_def abort_finished_def adopt_effects_def Let_def
      dest: lifecycle_store split: platform_operation.splits)

text \<open>
  What the store holds of a session that has not ended can be restored exactly when the host named
  its epoch, the providers chose fresh identities and, during a revocation, the host's receipt
  confirms it.
\<close>

definition stored_restores ::
  "('h, 'r, 'b, 'l, 'n) product_externals \<Rightarrow> manifold_schemas \<Rightarrow> product_binding
     \<Rightarrow> ('b, 'l) recovery_snapshot option \<Rightarrow> bool" where
  "stored_restores x mx b store =
     (\<forall>s. store = Some s \<longrightarrow> ls_phase (rv_lifecycle s) \<noteq> Stopped \<longrightarrow>
        (validate_product_recovery_snapshot x mx b s = Inr () \<longleftrightarrow> restores_iff x mx b s))"

definition accountable ::
  "('h, 'r, 'b, 'l, 'n) product_externals \<Rightarrow> manifold_schemas \<Rightarrow> product_binding \<Rightarrow> string
     \<Rightarrow> ('b, 'l) product_runtime \<Rightarrow> bool" where
  "accountable x mx b epoch m =
     (settled x mx b epoch m \<and> rollbacks_complete m \<and> stored_restores x mx b (pm_durable m))"

lemma orderly_no_revoke: "orderly x mx b epoch m \<Longrightarrow> pending_revoke (snapshot_of m) = None"
  by (auto simp: pending_revoke_def orderly_def no_pending_def pending_ok_def action_ok_def)

lemma settled_snapshot_valid:
  assumes "settled x mx b epoch m" and "ls_phase (sr_state (pm_runtime m)) \<noteq> Stopped"
    and "restores_iff x mx b (snapshot_of m)" and "length encoded \<le> max_recovery_bytes"
  shows "valid_snapshot x mx b (snapshot_of m) encoded"
  using assms(1) unfolding settled_def
proof (elim disjE)
  assume ord: "orderly x mx b epoch m"
  then have "pm_authority_epoch_id m = epoch"
    by (simp add: orderly_def grounded_def)
  then have "\<not> trim_is_empty epoch" "fresh_identities (snapshot_of m)"
    using assms(3) unfolding restores_iff_def snapshot_sel by blast+
  then show ?thesis
    using orderly_snapshot_valid [OF ord assms(2) _ assms(4)] by blast
next
  assume "ended m"
  with assms(2) show ?thesis by (simp add: ended_def)
qed (use assms in \<open>intro revoking_snapshot_valid\<close>)

lemma stored_restores_commit:
  assumes "settled x mx b epoch m" and "recovery_snapshot x m = Inr s"
  shows "stored_restores x mx b (Some s)"
proof -
  obtain encoded where encoded: "px_snapshot_to_vec x s = Some encoded" "length encoded \<le> max_recovery_bytes"
    "s = snapshot_of m"
    using assms(2) by (auto simp: recovery_snapshot_def result_simps)
  with settled_snapshot_valid [OF assms(1)] valid_snapshot_restores [of x mx b s encoded] show ?thesis
    by (auto simp: stored_restores_def validate_product_recovery_snapshot_def result_simps)
qed

lemma accountable_kept: "micro x mx m m' \<Longrightarrow> accountable x mx b epoch m \<Longrightarrow> accountable x mx b epoch m'"
  using micro_store [of x mx m m']
  by (auto simp: accountable_def intro: settled_kept rollbacks_kept stored_restores_commit)

lemma accountable_store: "accountable x mx b epoch m \<Longrightarrow> accountable x mx b epoch candidate \<Longrightarrow>
    accountable x mx b epoch (keeps_store candidate m)"
  using settled_frame [of "keeps_store candidate m" m x mx b epoch]
  by (simp add: accountable_def rollbacks_complete_def keeps_store_def snapshot_of_def)

interpretation accounts: runtime_invariant x mx "accountable x mx b epoch" for x mx b epoch
  by unfold_locales (rule accountable_kept accountable_store; assumption)+

lemma new_accountable:
  assumes "product_runtime_new x mx v b source now = Inr m"
  shows "accountable x mx b (pm_authority_epoch_id m) m"
proof -
  obtain host current runtime where new: "m = fresh_runtime b current source (px_provider_epoch_id x host) runtime"
    "validate_current_acceptance x mx b current (px_provider_epoch_id x host) now True None = Inr ()"
    "session_runtime_new (bd_spec b) = Inr runtime"
    using assms(1) by (auto simp: product_runtime_new_def result_simps)
  then have sel: "pm_binding m = b" "pm_current_acceptance m = current" "pm_runtime m = runtime"
    "pm_authority_epoch_id m = px_provider_epoch_id x host" "\<not> pm_cleanup_only_after_restore m"
    "pm_completed_start_abort m = None" "pm_aborted_action_ids m = []" "pm_durable m = None" "no_pending m"
    by (simp_all add: fresh_runtime_def no_pending_def)
  have state: "ls_schema (sr_state runtime) = runtime_state_schema"
    "ls_runtime_spec_id (sr_state runtime) = sp_runtime_spec_id (bd_spec b)"
    using new(3) by (auto simp: session_runtime_new_def result_simps)
  have "planned_part m"
    using new(1,3) by (auto simp: planned_part_def fresh_runtime_def session_runtime_new_def result_simps)
  then have "orderly x mx b (pm_authority_epoch_id m) m"
    using sel state current_weaken(1) [OF new(2)] by (simp add: orderly_def grounded_def idle_def)
  with sel show ?thesis
    by (simp add: accountable_def settled_def rollbacks_complete_def stored_restores_def)
qed

end
