(* ===== verification/Product_Demo.thy ===== *)
theory Product_Demo
  imports Product_Revoked
begin

text \<open>
  A concrete media product: the smallest session plan the validators accept (a diagnostic loopback
  between two devices), its runtime specification, a host that accepted it and an owner provider.
  Runs of it show that the hypotheses of the theorems on the product runtime can hold.
\<close>

section \<open>A session plan\<close>

definition demo_source :: media_source where
  "demo_source = \<lparr>so_source_id = ''s'', so_device_id = ''d1'', so_source_family = ''f'',
     so_source_kind = ''external_h264_socket'', so_capture_route = ''r'',
     so_capture_authority = ''external_h264_adapter'',
     so_deployment_classification = ''diagnostic_only'', so_track_role = ''mono'',
     so_developer_shell_required = False, so_consent_required = False, so_display = None,
     so_camera = None\<rparr>"

definition demo_media :: media_config where
  "demo_media = \<lparr>mc_track_id = ''t'', mc_track_role = ''mono'', mc_track_kind = ''video'',
     mc_codec = ''h264'', mc_stream_framing = ''diagnostic-h264-packet-stream'', mc_width = 64,
     mc_height = 64, mc_frame_rate_hz = 30, mc_bitrate_bps = 1000, mc_max_packet_bytes = 65536,
     mc_metadata_transport = ''m'', mc_timestamp_domain = ''c'',
     mc_high_rate_payload_plane = ''binary-media''\<rparr>"

definition demo_lane :: media_lane where
  "demo_lane = \<lparr>la_lane_id = ''l'', la_direction = ''outgoing'', la_source_id = ''s'',
     la_source_device_id = ''d1'', la_sink_device_id = ''d2'', la_media = demo_media,
     la_transport = \<lparr>tp_transport_kind = ''lan_tcp'', tp_relay_required = False,
       tp_encryption_required = False, tp_relay_session_id = None\<rparr>,
     la_queue = \<lparr>qu_max_buffered_packets = 8, qu_max_buffered_bytes = 1024, qu_drop_policy = ''p'',
       qu_slow_peer_close = True\<rparr>,
     la_receiver_first_required = True\<rparr>"

definition demo_endpoints :: "runtime_endpoint list" where
  "demo_endpoints =
     [\<lparr>ep_device_id = ''d1'', ep_adapter_kind = ''windows_hostess'',
       ep_source_bindings = [\<lparr>sb_source_id = ''s'', sb_track_role = ''mono'', sb_source_host = ''h'',
         sb_source_port = 1\<rparr>],
       ep_receiver_bind_host = ''h'', ep_receiver_ports = [], ep_transport_bind_host = ''h'',
       ep_transport_receive_ports = []\<rparr>,
      \<lparr>ep_device_id = ''d2'', ep_adapter_kind = ''pc_viewer'', ep_source_bindings = [],
       ep_receiver_bind_host = ''h'',
       ep_receiver_ports = [\<lparr>pt_track_role = ''mono'', pt_port = 2\<rparr>],
       ep_transport_bind_host = ''h'',
       ep_transport_receive_ports = [\<lparr>pt_track_role = ''mono'', pt_port = 3\<rparr>]\<rparr>]"

definition demo_plan :: session_plan where
  "demo_plan = \<lparr>mp_schema = session_schema, mp_session_id = ''session'',
     mp_topology_id = ''diagnostic_loopback'', mp_privacy_tier = privacy_local,
     mp_devices = [\<lparr>dv_device_id = ''d1'', dv_device_kind = ''windows_pc'', dv_role = ''a''\<rparr>,
       \<lparr>dv_device_id = ''d2'', dv_device_kind = ''windows_pc'', dv_role = ''b''\<rparr>],
     mp_sources = [demo_source], mp_lanes = [demo_lane], mp_runtime_endpoints = demo_endpoints,
     mp_transport_routes = [\<lparr>tro_lane_id = ''l'', tro_source_device_id = ''d1'',
       tro_sink_device_id = ''d2'', tro_track_role = ''mono'', tro_route_kind = ''direct_tcp_connect'',
       tro_connect_host = ''h'', tro_connect_port = 3, tro_relay_channel = None,
       tro_relay_token_ref = None, tro_tls_server_name = None\<rparr>],
     mp_security = \<lparr>sec_visible_streaming_indicator = True, sec_explicit_pairing_required = True,
       sec_immediate_stop_command = ''stop'', sec_raw_media_logging = False\<rparr>,
     mp_observability = \<lparr>ob_required_markers = [], ob_required_counters = required_counters\<rparr>\<rparr>"

definition demo_selection :: "owner_kind \<Rightarrow> string \<Rightarrow> string \<Rightarrow> owner_selection" where
  "demo_selection kind owner resource = \<lparr>sel_owner_kind = kind, sel_owner_id = owner,
     sel_resource_id = resource, sel_lane_id = None, sel_provider_kind = ''k''\<rparr>"

definition demo_spec :: runtime_spec where
  "demo_spec = \<lparr>sp_spec_schema = runtime_spec_schema, sp_runtime_spec_id = ''x'',
     sp_manifold_session_revision = 1, sp_plan = demo_plan,
     sp_processors = [\<lparr>pd_processor_id = ''p'', pd_processor_kind = ''passthrough_h264'',
       pd_input_track_roles = [''mono''], pd_output_track_roles = [''mono''], pd_owns_codec = False,
       pd_cpu_pixel_copy = False, pd_application_policy_fields = []\<rparr>],
     sp_sinks = [\<lparr>sk_sink_id = ''k'', sk_device_id = ''d2'', sk_sink_kind = ''viewer'',
       sk_required_permissions = [], sk_application_policy_fields = []\<rparr>],
     sp_lane_bindings = [\<lparr>lb_lane_id = ''l'', lb_processor_ids = [''p''], lb_sink_id = ''k''\<rparr>],
     sp_direct_p2p_routes = [],
     sp_owner_selections = [demo_selection Source ''o1'' ''s'', demo_selection Processor ''o2'' ''p'',
       demo_selection Route ''o3'' ''l'', demo_selection Socket ''o4'' ''l'',
       demo_selection Codec ''o5'' ''l'', demo_selection Sink ''o6'' ''k'',
       demo_selection Cleanup ''o7'' ''x''],
     sp_compatibility_adapter_id = None\<rparr>"

lemma demo_plan_valid: "validate_media_stream_session demo_plan = Inr ()"
  by code_simp

lemma demo_spec_valid: "validate_media_stream_runtime_spec demo_spec = Inr ()"
  by code_simp

section \<open>A host, a client and a provider\<close>

definition demo_digest :: string where
  "demo_digest = ''sha256:'' @ replicate 64 CHR ''0''"

definition demo_session :: "unit accepted_session" where
  "demo_session = \<lparr>ac_schema_id = ''as'', ac_decision_id = ''d'', ac_request_id = ''q'',
     ac_session_id = ''session'', ac_session_authority_revision = 1,
     ac_product_descriptor_canonical_sha256 = demo_digest, ac_provider_epoch_id = ''e'',
     ac_platform_runtime_spec_id = ''x'', ac_product_id = ''pr'', ac_feature_lock_id = ''fl'',
     ac_feature_lock_fingerprint = demo_digest, ac_capability_id = ''cap'',
     ac_admission_grant_id = ''g'', ac_runtime_authority_host_id = ''h'',
     ac_runtime_command_request_id = ''cr'', ac_runtime_command_id = ''cm'',
     ac_runtime_client_id = ''cl'', ac_runtime_lease_id = ''le'', ac_runtime_params_digest = ''pd'',
     ac_runtime_dispatch_id = ''di'', ac_runtime_application_receipt_id = ''ar'',
     ac_runtime_resulting_authority_revision = 1, ac_accepted_at_ms = 1, ac_expires_at_ms = 100,
     ac_product_binding = \<lparr>sn_descriptor = \<lparr>sd_session_id = ''session'', sd_authority_revision = 1,
         sd_platform_runtime_spec_id = ''x'', sd_source_ids = [''s''], sd_processor_ids = [''p''],
         sd_route_ids = [''l''], sd_sink_ids = [''k''], sd_stream_ids = [''t'']\<rparr>,
       sn_descriptor_canonical_sha256 = demo_digest, sn_rest = ()\<rparr>,
     ac_lifecycle_status = StatusCurrent, ac_ended_by_id = None\<rparr>"

definition demo_current :: "unit current_receipt" where
  "demo_current = \<lparr>cu_receipt_schema_id = ''cs'', cu_decision_id = ''d'',
     cu_session = Some demo_session, cu_current = True, cu_rejection_reason = None,
     cu_acceptance_state_authority_revision = 1, cu_validated_at_ms = 5\<rparr>"

definition demo_externals :: "(unit, unit, unit, unit, unit) product_externals" where
  "demo_externals = \<lparr>px_validate_media_session = (\<lambda>_ _ _. demo_current),
     px_validate_with_live_broker = (\<lambda>_ _ _ _. Some demo_current),
     px_validate_owned_state = (\<lambda>_ _. True), px_provider_epoch_id = (\<lambda>_. ''e''),
     px_concurrent_media_renewals = (\<lambda>_. []), px_reviewed_adoption_ids = (\<lambda>_. []),
     px_leases = (\<lambda>_. []), px_trusted_media_revoker_ids = (\<lambda>_. []), px_audit_events = (\<lambda>_. []),
     px_lease_derivative = (\<lambda>_. False), px_lease_expires_at_ms = (\<lambda>_. 0),
     px_product_binding_valid = (\<lambda>_. True), px_spec_to_vec = (\<lambda>_. Some []),
     px_snapshot_to_value = (\<lambda>_. None), px_value_to_vec = (\<lambda>_. None),
     px_snapshot_to_vec = (\<lambda>_. Some []), px_snapshot_from_str = (\<lambda>_. None),
     px_sha256 = (\<lambda>_. replicate 32 0)\<rparr>"

definition demo_schemas :: manifold_schemas where
  "demo_schemas = \<lparr>mx_current_receipt_schema = ''cs'', mx_accepted_session_schema = ''as''\<rparr>"

definition demo_env :: "(unit, unit, unit, unit) product_env" where
  "demo_env = \<lparr>ev_host = (\<lambda>_. Some ()), ev_broker = (\<lambda>_. Some ()), ev_commit = (\<lambda>_. Committed)\<rparr>"

definition demo_binding :: product_binding where
  "demo_binding = \<lparr>bd_schema_id = product_binding_schema, bd_spec = demo_spec,
     bd_runtime_spec_canonical_sha256 = demo_digest\<rparr>"

definition demo_client :: "platform_operation \<Rightarrow> client_authority" where
  "demo_client op = \<lparr>ca_client_id = ''cl'', ca_lease_id = ''le'', ca_product_id = ''pr'',
     ca_feature_lock_id = ''fl'', ca_feature_lock_fingerprint = demo_digest,
     ca_session_capability_id = ''cap'', ca_session_admission_grant_id = ''g'',
     ca_operation_capability_id = operation_capability op, ca_operation_admission_grant_id = ''g'',
     ca_operation_admission_use_request_id = ''u''\<rparr>"

definition demo_readback :: "unit product_action \<Rightarrow> owner_action \<Rightarrow> owner_provider_readback option" where
  "demo_readback action owner = Some \<lparr>
     opr_action_id = pa_action_id action, opr_authority_epoch_id = pa_authority_epoch_id action,
     opr_media_acceptance_authority_revision = pa_media_acceptance_authority_revision action,
     opr_client_id = ''cl'', opr_lease_id = ''le'', opr_provider_kind = ''k'',
     opr_resource_id = sel_resource_id (oa_selection owner),
     opr_provider_handle_id = ''h.'' @ sel_owner_id (oa_selection owner),
     opr_provider_state_revision = (if oa_action_kind owner \<in> {ActStop, ActCleanup} then 2 else 1),
     opr_observed_state = expected_provider_state (oa_action_kind owner),
     opr_receipt_id = pa_action_id action @ ''.'' @ sel_owner_id (oa_selection owner)\<rparr>"

definition demo_provider :: "owner_kind \<Rightarrow> unit owner_provider" where
  "demo_provider kind = \<lparr>pv_owner_kind = kind, pv_execute_and_readback = demo_readback,
     pv_compensate_uncertain_attempt = demo_readback, pv_verify_readback = (\<lambda>_ _ _. True)\<rparr>"

section \<open>Runs\<close>

type_synonym demo_runtime = "(unit, unit) product_runtime"

definition demo_authority :: authority_source where
  "demo_authority = \<lparr>sa_host = 0, sa_broker = None, sa_decision_id = ''d''\<rparr>"

definition demo_new :: demo_runtime where
  "demo_new = fresh_runtime demo_binding demo_current demo_authority ''e''
     \<lparr>sr_spec = demo_spec, sr_state = \<lparr>ls_schema = runtime_state_schema, ls_runtime_spec_id = ''x'',
       ls_runtime_revision = 1, ls_phase = Planned, ls_applied_request_ids = []\<rparr>\<rparr>"

definition demo_start :: "unit product_action" where
  "demo_start = action_for demo_new demo_session ''a'' OpStart (demo_client OpStart) None"

definition demo_installed :: demo_runtime where
  "demo_installed = snd (install_recovery_journal demo_externals demo_env demo_new)"

definition demo_prepared :: demo_runtime where
  "demo_prepared = snd (prepare demo_externals demo_schemas demo_env ''a'' OpStart (demo_client OpStart) 5
     demo_installed)"

text \<open>The first owner did not answer.\<close>

definition demo_crashed :: demo_runtime where
  "demo_crashed = snd (complete_owner demo_externals demo_schemas demo_env Cleanup
     ((demo_provider Cleanup)\<lparr>pv_execute_and_readback := \<lambda>_ _. None\<rparr>) 5 demo_prepared)"

lemma demo_binding_valid: "product_binding_validate demo_externals demo_binding = Inr ()"
  by code_simp

lemma demo_current_valid:
  "validate_current_acceptance demo_externals demo_schemas demo_binding demo_current ''e'' 5 True None = Inr ()"
  by code_simp

lemma demo_current_again:
  "validate_current_acceptance demo_externals demo_schemas demo_binding demo_current ''e'' 5 need
     (Some demo_current) = Inr ()"
proof (cases need)
  case True
  have "validate_current_acceptance demo_externals demo_schemas demo_binding demo_current ''e'' 5 True
      (Some demo_current) = Inr ()"
    by code_simp
  with True show ?thesis by simp
next
  case False
  have "validate_current_acceptance demo_externals demo_schemas demo_binding demo_current ''e'' 5 False
      (Some demo_current) = Inr ()"
    by code_simp
  with False show ?thesis by simp
qed

lemma demo_new_accepted: "product_runtime_new demo_externals demo_schemas demo_env demo_binding
    demo_authority 5 = Inr demo_new"
proof -
  have "bd_spec demo_binding = demo_spec" "sp_runtime_spec_id demo_spec = ''x''"
    by (simp_all add: demo_binding_def demo_spec_def)
  then show ?thesis
    using demo_binding_valid demo_spec_valid demo_current_valid
    by (simp add: product_runtime_new_def session_runtime_new_def demo_new_def read_current_def
        demo_authority_def demo_externals_def demo_env_def and_then_def ok_or_def map_err_def)
qed

lemma demo_refresh:
  assumes "pm_binding m = demo_binding" "pm_current_acceptance m = demo_current"
    "pm_authority m = demo_authority" "pm_authority_epoch_id m = ''e''"
  shows "refresh_authority demo_externals demo_schemas demo_env 5 need m = (Inr (), m)"
proof -
  have "read_current demo_externals demo_env demo_authority 5 () = Inr demo_current"
    "px_provider_epoch_id demo_externals () = ''e''" "ev_host demo_env 0 = Some ()" "sa_host demo_authority = 0"
    by (simp_all add: read_current_def demo_authority_def demo_externals_def demo_env_def)
  moreover have "m\<lparr>pm_current_acceptance := demo_current\<rparr> = m"
    using assms(2) by simp
  ultimately show ?thesis
    using demo_current_again [of need]
    by (simp add: refresh_authority_def assms and_then_def ok_or_def reject_if_def)
qed

lemma demo_commit:
  assumes "pm_recovery_journal m" "\<not> pm_recovery_journal_poisoned m"
  shows "commit_recovery_journal demo_externals demo_env m
    = (Inr (), m\<lparr>pm_durable := Some (snapshot_of m)\<rparr>)"
  using assms by (simp add: commit_recovery_journal_def recovery_snapshot_def journal_commit_def
      demo_externals_def demo_env_def and_then_def ok_or_def reject_if_def commit_durable_def commit_result_def
      Let_def)

lemma demo_install:
  assumes "\<not> pm_recovery_journal m" "\<not> pm_recovery_journal_poisoned m"
  shows "install_recovery_journal demo_externals demo_env m
    = (Inr (), m\<lparr>pm_durable := Some (snapshot_of m), pm_recovery_journal := True\<rparr>)"
  using assms by (simp add: install_recovery_journal_def recovery_snapshot_def journal_commit_def
      demo_externals_def demo_env_def and_then_def ok_or_def reject_if_def commit_durable_def commit_result_def
      Let_def and_do_def modify_def give_def)

lemma demo_installed_eq:
  "demo_installed = demo_new\<lparr>pm_durable := Some (snapshot_of demo_new), pm_recovery_journal := True\<rparr>"
proof -
  have "\<not> pm_recovery_journal demo_new" "\<not> pm_recovery_journal_poisoned demo_new"
    by (simp_all add: demo_new_def fresh_runtime_def)
  then show ?thesis
    by (simp add: demo_installed_def demo_install)
qed

definition demo_pending :: demo_runtime where
  "demo_pending = demo_installed\<lparr>pm_pending_action := Some demo_start\<rparr>"

lemma demo_prepared_eq: "demo_prepared = demo_pending\<lparr>pm_durable := Some (snapshot_of demo_pending)\<rparr>"
proof -
  have start: "action_for demo_installed demo_session ''a'' OpStart (demo_client OpStart) None = demo_start"
    by (simp add: demo_start_def action_for_def demo_installed_eq)
  have "reviewed demo_new ''a'' OpStart (demo_client OpStart) = Inr ()"
    by code_simp
  moreover have "reviewed demo_installed i op c = reviewed demo_new i op c" for i op c
    by (simp add: reviewed_def phase_review_def demo_installed_eq)
  ultimately have "reviewed demo_installed ''a'' OpStart (demo_client OpStart) = Inr ()"
    by simp
  moreover have "refresh_authority demo_externals demo_schemas demo_env 5 True demo_installed
      = (Inr (), demo_installed)"
    by (rule demo_refresh) (simp_all add: demo_installed_eq demo_new_def fresh_runtime_def)
  moreover have session: "\<not> pm_recovery_journal_poisoned demo_installed"
    "\<not> pm_cleanup_only_after_restore demo_installed"
    "cu_session (pm_current_acceptance demo_installed) = Some demo_session"
    by (simp_all add: demo_installed_eq demo_new_def fresh_runtime_def demo_current_def)
  ultimately have review: "review_prepare demo_externals demo_schemas demo_env ''a'' OpStart (demo_client OpStart) 5
      demo_installed = (Inr (), demo_installed)"
    by (simp add: review_prepare_def and_do_def)
  have pending: "demo_installed\<lparr>pm_pending_owner_receipts := [], pm_pending_uncertain_owner := None,
      pm_pending_abort_receipts := [], pm_pending_abort_uncertain_owner := None,
      pm_abort_in_progress := False, pm_pending_action := Some demo_start\<rparr> = demo_pending"
    by (simp add: demo_pending_def demo_installed_eq demo_new_def fresh_runtime_def)
  have "commit_recovery_journal demo_externals demo_env demo_pending
      = (Inr (), demo_pending\<lparr>pm_durable := Some (snapshot_of demo_pending)\<rparr>)"
    by (rule demo_commit) (simp_all add: demo_pending_def demo_installed_eq demo_new_def fresh_runtime_def)
  with review pending start session show ?thesis
    by (simp add: demo_prepared_def prepare_def and_do_def modify_def give_def ok_or_def)
qed

text \<open>The first owner, and the attempt at it.\<close>

definition demo_owner :: owner_action where
  "demo_owner = \<lparr>oa_selection = demo_selection Cleanup ''o7'' ''x'', oa_action_kind = ArmCleanup\<rparr>"

definition demo_attempt :: demo_runtime where
  "demo_attempt = demo_prepared\<lparr>pm_pending_uncertain_owner := Some demo_owner\<rparr>"

lemma demo_first: "nth_action demo_start 0 = Some demo_owner"
  by code_simp

lemma demo_prepared_facts:
  "pm_pending_action demo_prepared = Some demo_start" "pm_pending_owner_receipts demo_prepared = []"
  "\<not> pm_abort_in_progress demo_prepared" "pm_pending_uncertain_owner demo_prepared = None"
  "pm_recovery_journal demo_prepared" "\<not> pm_recovery_journal_poisoned demo_prepared"
  "pm_binding demo_prepared = demo_binding" "pm_current_acceptance demo_prepared = demo_current"
  "pm_authority demo_prepared = demo_authority" "pm_authority_epoch_id demo_prepared = ''e''"
  "pm_calls demo_prepared = []" "\<not> pm_cleanup_only_after_restore demo_prepared"
  "pm_runtime demo_prepared = pm_runtime demo_new"
  by (simp_all add: demo_prepared_eq demo_pending_def demo_installed_eq demo_new_def fresh_runtime_def)

lemma demo_crashed_eq: "demo_crashed = demo_attempt\<lparr>pm_durable := Some (snapshot_of demo_attempt),
    pm_calls := [(ExecuteCall demo_start demo_owner, Some (snapshot_of demo_attempt))]\<rparr>"
proof -
  have "commit_recovery_journal demo_externals demo_env demo_attempt
      = (Inr (), demo_attempt\<lparr>pm_durable := Some (snapshot_of demo_attempt)\<rparr>)"
    by (rule demo_commit) (simp_all add: demo_attempt_def demo_prepared_facts)
  moreover have "refresh_authority demo_externals demo_schemas demo_env 5 need demo_prepared
      = (Inr (), demo_prepared)" for need
    by (rule demo_refresh) (simp_all add: demo_prepared_facts)
  moreover have "sel_owner_kind (oa_selection demo_owner) = Cleanup" "pv_owner_kind (demo_provider Cleanup) = Cleanup"
    by (simp_all add: demo_owner_def demo_selection_def demo_provider_def)
  moreover have "pm_calls demo_attempt = []"
    by (simp add: demo_attempt_def demo_prepared_facts)
  ultimately show ?thesis
    by (simp add: demo_crashed_def complete_owner_def demo_prepared_facts demo_first and_do_def give_def modify_def
        and_then_def ok_or_def reject_if_def call_provider_def demo_attempt_def [symmetric])
qed

lemma demo_run: "product_steps demo_externals demo_schemas demo_new demo_crashed"
proof -
  have "product_steps demo_externals demo_schemas demo_new demo_installed"
    unfolding demo_installed_def by (rule r_into_rtranclp) (rule step_install)
  also have "product_steps demo_externals demo_schemas demo_installed demo_prepared"
    unfolding demo_prepared_def by (rule r_into_rtranclp) (rule step_prepare)
  also have "product_steps demo_externals demo_schemas demo_prepared demo_crashed"
    unfolding demo_crashed_def by (rule r_into_rtranclp) (rule step_complete)
  finally show ?thesis .
qed

section \<open>After the crash\<close>

lemma demo_attempt_facts:
  "pm_pending_action demo_attempt = Some demo_start" "pm_pending_owner_receipts demo_attempt = []"
  "pm_pending_uncertain_owner demo_attempt = Some demo_owner"
  "pm_pending_abort_receipts demo_attempt = []" "pm_pending_abort_uncertain_owner demo_attempt = None"
  "pm_active_start_receipts demo_attempt = []" "pm_completed_start_abort demo_attempt = None"
  "pm_authority_epoch_id demo_attempt = ''e''" "pm_current_acceptance demo_attempt = demo_current"
  "sr_state (pm_runtime demo_attempt) = sr_state (pm_runtime demo_new)"
  by (simp_all add: demo_attempt_def demo_prepared_eq demo_pending_def demo_installed_eq demo_new_def
      fresh_runtime_def)

lemma demo_new_state:
  "sr_state (pm_runtime demo_new) = \<lparr>ls_schema = runtime_state_schema, ls_runtime_spec_id = ''x'',
     ls_runtime_revision = 1, ls_phase = Planned, ls_applied_request_ids = []\<rparr>"
  by (simp add: demo_new_def fresh_runtime_def)

lemma demo_epoch: "pm_authority_epoch_id demo_new = ''e''" "\<not> trim_is_empty ''e''"
  by (simp add: demo_new_def fresh_runtime_def) code_simp

lemma demo_restores_iff: "restores_iff demo_externals demo_schemas demo_binding (snapshot_of demo_attempt)"
  by (simp add: restores_iff_def pending_revoke_def fresh_identities_def snapshot_receipts_def demo_attempt_facts
      demo_epoch demo_start_def action_for_def)

lemma demo_stored: "validate_product_recovery_snapshot demo_externals demo_schemas demo_binding
    (snapshot_of demo_attempt) = Inr ()"
proof -
  have "stored_restores demo_externals demo_schemas demo_binding (Some (snapshot_of demo_attempt))"
    using accounts.run_kept [OF demo_run new_accountable [OF demo_new_accepted]]
    by (simp add: accountable_def demo_crashed_eq)
  moreover have "ls_phase (rv_lifecycle (snapshot_of demo_attempt)) \<noteq> Stopped"
    by (simp add: demo_attempt_facts demo_new_state)
  ultimately show ?thesis
    using demo_restores_iff by (simp add: stored_restores_def)
qed

definition demo_restored :: demo_runtime where
  "demo_restored = (case restore_cleanup_only_with_live_broker_runtime demo_externals demo_schemas demo_env
     demo_binding 0 0 ''d'' (snapshot_of demo_attempt) 5 of Inr m \<Rightarrow> m | Inl _ \<Rightarrow> demo_new)"

lemma demo_restored_from:
  "restore_cleanup_only_with_live_broker_runtime demo_externals demo_schemas demo_env demo_binding 0 0 ''d''
     (snapshot_of demo_attempt) 5
   = restore_from_checked_snapshot demo_binding (snapshot_of demo_attempt) demo_current
       \<lparr>sa_host = 0, sa_broker = Some 0, sa_decision_id = ''d''\<rparr>"
proof -
  have "ev_host demo_env 0 = Some ()" "ev_broker demo_env 0 = Some ()"
    "px_provider_epoch_id demo_externals () = ''e''" "px_validate_owned_state demo_externals () ()"
    "px_validate_with_live_broker demo_externals () () ''d'' 5 = Some demo_current"
    by (simp_all add: demo_env_def demo_externals_def)
  then show ?thesis
    using demo_binding_valid demo_stored demo_current_again [of False]
    by (simp add: restore_cleanup_only_with_live_broker_runtime_def and_then_def ok_or_def reject_if_def
        demo_attempt_facts)
qed

lemma demo_restores: "restore_cleanup_only_with_live_broker_runtime demo_externals demo_schemas demo_env
    demo_binding 0 0 ''d'' (snapshot_of demo_attempt) 5 = Inr demo_restored"
  and demo_restored_facts: "pm_pending_action demo_restored = Some demo_start"
  "pm_pending_owner_receipts demo_restored = []" "pm_pending_uncertain_owner demo_restored = Some demo_owner"
  "pm_pending_abort_receipts demo_restored = []" "pm_pending_abort_uncertain_owner demo_restored = None"
  "pm_abort_in_progress demo_restored" "\<not> pm_recovery_journal demo_restored"
  "\<not> pm_recovery_journal_poisoned demo_restored" "pm_calls demo_restored = []"
proof -
  have "bd_spec demo_binding = demo_spec" "sp_runtime_spec_id demo_spec = ''x''"
    by (simp_all add: demo_binding_def demo_spec_def)
  then have state: "restore_cleanup_state (bd_spec demo_binding) (sr_state (pm_runtime demo_new))
      = Inr \<lparr>sr_spec = demo_spec, sr_state = sr_state (pm_runtime demo_new)\<rparr>"
    using demo_spec_valid by (simp add: restore_cleanup_state_def and_then_def demo_new_state)
  have "pa_operation demo_start = OpStart"
    by (simp add: demo_start_def action_for_def)
  then obtain m where m: "restore_from_checked_snapshot demo_binding (snapshot_of demo_attempt) demo_current
      \<lparr>sa_host = 0, sa_broker = Some 0, sa_decision_id = ''d''\<rparr> = Inr m"
    "pm_pending_action m = Some demo_start"
    "pm_pending_owner_receipts m = []" "pm_pending_uncertain_owner m = Some demo_owner"
    "pm_pending_abort_receipts m = []" "pm_pending_abort_uncertain_owner m = None"
    "pm_abort_in_progress m" "\<not> pm_recovery_journal m"
    "\<not> pm_recovery_journal_poisoned m" "pm_calls m = []"
    by (simp add: restore_from_checked_snapshot_def and_then_def reject_if_def map_err_def demo_attempt_facts state)
  then have "demo_restored = m"
    by (simp add: demo_restored_def demo_restored_from)
  with m show "restore_cleanup_only_with_live_broker_runtime demo_externals demo_schemas demo_env
      demo_binding 0 0 ''d'' (snapshot_of demo_attempt) 5 = Inr demo_restored"
    "pm_pending_action demo_restored = Some demo_start"
    "pm_pending_owner_receipts demo_restored = []" "pm_pending_uncertain_owner demo_restored = Some demo_owner"
    "pm_pending_abort_receipts demo_restored = []" "pm_pending_abort_uncertain_owner demo_restored = None"
    "pm_abort_in_progress demo_restored" "\<not> pm_recovery_journal demo_restored"
    "\<not> pm_recovery_journal_poisoned demo_restored" "pm_calls demo_restored = []"
    by (simp_all add: demo_restored_from)
qed

text \<open>The restored runtime journals again and compensates the attempt.\<close>

definition demo_undone :: demo_runtime where
  "demo_undone = snd (complete_next_abort_owner demo_externals demo_env (demo_provider Cleanup)
     (snd (install_recovery_journal demo_externals demo_env demo_restored)))"

lemma demo_undone_run: "product_steps demo_externals demo_schemas demo_restored demo_undone"
proof -
  have "product_steps demo_externals demo_schemas demo_restored
      (snd (install_recovery_journal demo_externals demo_env demo_restored))"
    by (rule r_into_rtranclp) (rule step_install)
  also have "product_steps demo_externals demo_schemas \<dots> demo_undone"
    unfolding demo_undone_def by (rule r_into_rtranclp) (rule step_abort)
  finally show ?thesis .
qed

definition demo_undo :: "unit product_action" where
  "demo_undo = partial_start_abort_action demo_start [] (Some demo_owner)"

definition demo_undo_owner :: owner_action where
  "demo_undo_owner = \<lparr>oa_selection = demo_selection Cleanup ''o7'' ''x'', oa_action_kind = ActCleanup\<rparr>"

lemma commit_calls: "pm_calls (snd (commit_recovery_journal x v m)) = pm_calls m"
  by (cases rule: commit_cases [where x = x and v = v and m = m]) simp_all

lemma record_abort_calls: "pm_calls (snd (record_abort_readback x v action owner started p rb m)) = pm_calls m"
  unfolding record_abort_readback_def
proof (rule and_do_give_cases)
  fix r
  let ?m = "m\<lparr>pm_pending_abort_receipts := pm_pending_abort_receipts m @ [r],
    pm_pending_abort_uncertain_owner := None\<rparr>"
  show "pm_calls (snd (and_do (modify (\<lambda>m. m\<lparr>pm_pending_abort_receipts := pm_pending_abort_receipts m @ [r],
      pm_pending_abort_uncertain_owner := None\<rparr>)) (\<lambda>_. and_do (commit_recovery_journal x v) (\<lambda>_.
      give (Inr r))) m)) = pm_calls m"
    using commit_calls [of x v ?m]
    by (cases rule: and_do_cases [where op = "commit_recovery_journal x v" and s = ?m and f = "\<lambda>_. give (Inr r)"])
      (simp_all add: give_def)
qed simp

lemma demo_undone_calls:
  "map fst (pm_calls demo_undone) = [CompensateCall demo_undo demo_undo_owner]"
proof -
  let ?m = "demo_restored\<lparr>pm_durable := Some (snapshot_of demo_restored), pm_recovery_journal := True\<rparr>"
  let ?n = "?m\<lparr>pm_pending_abort_uncertain_owner := Some demo_undo_owner\<rparr>"
  have "pending_abort_action ?m = Some demo_undo" "started_receipt ?m = Inr None"
    by (simp_all add: pending_abort_action_def started_receipt_def uncertain_offset_def demo_restored_facts
        demo_undo_def Let_def)
  moreover have "nth_action demo_undo 0 = Some demo_undo_owner"
    by (simp add: nth_action_def demo_undo_def partial_start_abort_action_def demo_undo_owner_def demo_owner_def
        undo_kind_def)
  moreover have "commit_recovery_journal demo_externals demo_env ?n = (Inr (), ?n\<lparr>pm_durable := Some (snapshot_of ?n)\<rparr>)"
    by (rule demo_commit) (simp_all add: demo_restored_facts)
  moreover have "sel_owner_kind (oa_selection demo_undo_owner) = Cleanup"
    "pv_owner_kind (demo_provider Cleanup) = Cleanup"
    "pv_compensate_uncertain_attempt (demo_provider Cleanup) = demo_readback"
    by (simp_all add: demo_undo_owner_def demo_selection_def demo_provider_def)
  moreover obtain rb where "demo_readback demo_undo demo_undo_owner = Some rb"
    by (simp add: demo_readback_def)
  ultimately show ?thesis
    by (simp add: demo_undone_def demo_install demo_restored_facts complete_next_abort_owner_def and_do_def give_def
        modify_def and_then_def ok_or_def reject_if_def call_provider_def Let_def
        record_abort_calls)
qed

section \<open>A start that is rolled back\<close>

definition demo_receipt :: completion_receipt where
  "demo_receipt = \<lparr>cm_selection = oa_selection demo_owner, cm_action_kind = ArmCleanup,
     cm_receipt_id = ''a.o7'', cm_completion_sequence = 1, cm_provider_handle_id = ''h.o7'',
     cm_provider_state_revision = 1, cm_observed_state = ''cleanup_armed''\<rparr>"

definition demo_rollback_receipt :: completion_receipt where
  "demo_rollback_receipt = \<lparr>cm_selection = oa_selection demo_owner, cm_action_kind = ActCleanup,
     cm_receipt_id = ''a.abort.o7'', cm_completion_sequence = 1, cm_provider_handle_id = ''h.o7'',
     cm_provider_state_revision = 2, cm_observed_state = ''cleaned''\<rparr>"

definition demo_completed :: demo_runtime where
  "demo_completed = snd (complete_owner demo_externals demo_schemas demo_env Cleanup (demo_provider Cleanup) 5
     demo_prepared)"

definition demo_aborting :: demo_runtime where
  "demo_aborting = snd (begin_partial_start_abort demo_externals demo_env demo_completed)"

definition demo_rolled_back :: demo_runtime where
  "demo_rolled_back = snd (complete_next_abort_owner demo_externals demo_env (demo_provider Cleanup) demo_aborting)"

definition demo_aborted :: demo_runtime where
  "demo_aborted = snd (finalize_partial_start_abort demo_externals demo_env demo_rolled_back)"

lemma demo_aborted_run: "product_steps demo_externals demo_schemas demo_new demo_aborted"
proof -
  have "product_steps demo_externals demo_schemas demo_new demo_installed"
    unfolding demo_installed_def by (rule r_into_rtranclp) (rule step_install)
  also have "product_steps demo_externals demo_schemas demo_installed demo_prepared"
    unfolding demo_prepared_def by (rule r_into_rtranclp) (rule step_prepare)
  also have "product_steps demo_externals demo_schemas demo_prepared demo_completed"
    unfolding demo_completed_def by (rule r_into_rtranclp) (rule step_complete)
  also have "product_steps demo_externals demo_schemas demo_completed demo_aborting"
    unfolding demo_aborting_def by (rule r_into_rtranclp) (rule step_begin_abort)
  also have "product_steps demo_externals demo_schemas demo_aborting demo_rolled_back"
    unfolding demo_rolled_back_def by (rule r_into_rtranclp) (rule step_abort)
  also have "product_steps demo_externals demo_schemas demo_rolled_back demo_aborted"
    unfolding demo_aborted_def by (rule r_into_rtranclp) (rule step_finalize)
  finally show ?thesis .
qed

lemma demo_completed_facts:
  "pm_pending_action demo_completed = Some demo_start" "pm_pending_owner_receipts demo_completed = [demo_receipt]"
  "pm_pending_uncertain_owner demo_completed = None" "\<not> pm_abort_in_progress demo_completed"
  "pm_recovery_journal demo_completed" "\<not> pm_recovery_journal_poisoned demo_completed"
  "\<not> pm_cleanup_only_after_restore demo_completed"
  "pm_runtime demo_completed = pm_runtime demo_new"
proof -
  let ?a = "demo_attempt\<lparr>pm_durable := Some (snapshot_of demo_attempt),
    pm_calls := [(ExecuteCall demo_start demo_owner, Some (snapshot_of demo_attempt))]\<rparr>"
  let ?r = "?a\<lparr>pm_pending_owner_receipts := [demo_receipt], pm_pending_uncertain_owner := None\<rparr>"
  obtain rb where rb: "demo_readback demo_start demo_owner = Some rb"
    by (simp add: demo_readback_def)
  have fits: "readback_answers (demo_provider Cleanup) demo_start demo_owner rb"
  proof -
    have "case demo_readback demo_start demo_owner of None \<Rightarrow> False
      | Some rb \<Rightarrow> readback_answers (demo_provider Cleanup) demo_start demo_owner rb"
      by code_simp
    with rb show ?thesis by simp
  qed
  have receipt: "receipt_of demo_owner 1 rb = demo_receipt"
  proof -
    have "case demo_readback demo_start demo_owner of None \<Rightarrow> False
      | Some rb \<Rightarrow> receipt_of demo_owner 1 rb = demo_receipt"
      by code_simp
    with rb show ?thesis by simp
  qed
  have continues: "handle_continues ?a demo_start demo_owner rb"
    by (simp add: handle_continues_def demo_start_def action_for_def demo_attempt_def demo_prepared_eq
        demo_pending_def demo_installed_eq demo_new_def fresh_runtime_def bt_contains_def)
  have "commit_recovery_journal demo_externals demo_env demo_attempt
      = (Inr (), demo_attempt\<lparr>pm_durable := Some (snapshot_of demo_attempt)\<rparr>)"
    "commit_recovery_journal demo_externals demo_env ?r = (Inr (), ?r\<lparr>pm_durable := Some (snapshot_of ?r)\<rparr>)"
    by (rule demo_commit; simp add: demo_attempt_def demo_prepared_facts)+
  moreover have "refresh_authority demo_externals demo_schemas demo_env 5 need demo_prepared
      = (Inr (), demo_prepared)" for need
    by (rule demo_refresh) (simp_all add: demo_prepared_facts)
  moreover have "sel_owner_kind (oa_selection demo_owner) = Cleanup" "pv_owner_kind (demo_provider Cleanup) = Cleanup"
    "pv_execute_and_readback (demo_provider Cleanup) = demo_readback"
    by (simp_all add: demo_owner_def demo_selection_def demo_provider_def)
  moreover have "pm_calls demo_attempt = []" "u32_of_len 1 = Some 1" "pm_pending_owner_receipts demo_attempt = []"
    by (simp_all add: demo_attempt_def demo_prepared_facts u32_of_len_def)
  ultimately have eq: "demo_completed = ?r\<lparr>pm_durable := Some (snapshot_of ?r)\<rparr>"
    using fits receipt continues rb
    by (simp add: demo_completed_def complete_owner_def demo_prepared_facts demo_first and_do_def give_def modify_def
        and_then_def ok_or_def reject_if_def call_provider_def demo_attempt_def [symmetric]
        record_owner_readback_def)
  show "pm_pending_action demo_completed = Some demo_start"
    "pm_pending_owner_receipts demo_completed = [demo_receipt]"
    "pm_pending_uncertain_owner demo_completed = None" "\<not> pm_abort_in_progress demo_completed"
    "pm_recovery_journal demo_completed" "\<not> pm_recovery_journal_poisoned demo_completed"
    "\<not> pm_cleanup_only_after_restore demo_completed"
    "pm_runtime demo_completed = pm_runtime demo_new"
    unfolding eq by (simp_all add: demo_attempt_def demo_prepared_facts)
qed

lemma demo_aborting_eq:
  assumes "n = demo_completed\<lparr>pm_abort_in_progress := True, pm_pending_abort_receipts := [],
    pm_pending_abort_uncertain_owner := None\<rparr>"
  shows "demo_aborting = n\<lparr>pm_durable := Some (snapshot_of n)\<rparr>"
proof -
  have "commit_recovery_journal demo_externals demo_env n = (Inr (), n\<lparr>pm_durable := Some (snapshot_of n)\<rparr>)"
    by (rule demo_commit) (simp_all add: assms demo_completed_facts)
  moreover have "pa_operation demo_start = OpStart"
    by (simp add: demo_start_def action_for_def)
  ultimately show ?thesis
    by (simp add: demo_aborting_def begin_partial_start_abort_def demo_completed_facts and_do_def give_def modify_def
        and_then_def ok_or_def reject_if_def assms [symmetric])
qed

lemma demo_aborting_facts:
  "pm_pending_action demo_aborting = Some demo_start" "pm_pending_owner_receipts demo_aborting = [demo_receipt]"
  "pm_pending_uncertain_owner demo_aborting = None" "pm_abort_in_progress demo_aborting"
  "pm_pending_abort_receipts demo_aborting = []" "pm_pending_abort_uncertain_owner demo_aborting = None"
  "pm_recovery_journal demo_aborting" "\<not> pm_recovery_journal_poisoned demo_aborting"
  "\<not> pm_cleanup_only_after_restore demo_aborting" "pm_runtime demo_aborting = pm_runtime demo_new"
  by (simp_all add: demo_aborting_eq [OF refl] demo_completed_facts)

definition demo_rollback :: "unit product_action" where
  "demo_rollback = partial_start_abort_action demo_start [demo_receipt] None"

lemma demo_rolled_back_facts:
  "pm_pending_action demo_rolled_back = Some demo_start"
  "pm_pending_owner_receipts demo_rolled_back = [demo_receipt]"
  "pm_pending_uncertain_owner demo_rolled_back = None" "pm_abort_in_progress demo_rolled_back"
  "pm_pending_abort_receipts demo_rolled_back = [demo_rollback_receipt]"
  "pm_pending_abort_uncertain_owner demo_rolled_back = None"
  "pm_recovery_journal demo_rolled_back" "\<not> pm_recovery_journal_poisoned demo_rolled_back"
  "\<not> pm_cleanup_only_after_restore demo_rolled_back" "pm_runtime demo_rolled_back = pm_runtime demo_new"
proof -
  let ?n = "demo_aborting\<lparr>pm_pending_abort_uncertain_owner := Some demo_undo_owner\<rparr>"
  let ?c = "?n\<lparr>pm_durable := Some (snapshot_of ?n),
    pm_calls := pm_calls demo_aborting @ [(ExecuteCall demo_rollback demo_undo_owner, Some (snapshot_of ?n))]\<rparr>"
  let ?r = "?c\<lparr>pm_pending_abort_receipts := [demo_rollback_receipt], pm_pending_abort_uncertain_owner := None\<rparr>"
  obtain rb where rb: "demo_readback demo_rollback demo_undo_owner = Some rb"
    by (simp add: demo_readback_def)
  have "case demo_readback demo_rollback demo_undo_owner of None \<Rightarrow> False
    | Some rb \<Rightarrow> readback_answers (demo_provider Cleanup) demo_rollback demo_undo_owner rb
        \<and> abort_readback_fits (Some demo_receipt) rb \<and> receipt_of demo_undo_owner 1 rb = demo_rollback_receipt"
    by code_simp
  with rb have answer: "readback_answers (demo_provider Cleanup) demo_rollback demo_undo_owner rb"
    "abort_readback_fits (Some demo_receipt) rb" "receipt_of demo_undo_owner 1 rb = demo_rollback_receipt"
    by simp_all
  have "pending_abort_action demo_aborting = Some demo_rollback" "started_receipt demo_aborting = Inr (Some demo_receipt)"
    by (simp_all add: pending_abort_action_def started_receipt_def uncertain_offset_def demo_aborting_facts
        demo_rollback_def Let_def)
  moreover have "nth_action demo_rollback 0 = Some demo_undo_owner"
    "sel_owner_kind (oa_selection demo_undo_owner) = Cleanup" "cm_selection demo_receipt = oa_selection demo_undo_owner"
    by (simp_all add: nth_action_def demo_rollback_def partial_start_abort_action_def demo_undo_owner_def demo_owner_def
        undo_kind_def demo_receipt_def demo_selection_def)
  moreover have "commit_recovery_journal demo_externals demo_env ?n = (Inr (), ?n\<lparr>pm_durable := Some (snapshot_of ?n)\<rparr>)"
    "commit_recovery_journal demo_externals demo_env ?r = (Inr (), ?r\<lparr>pm_durable := Some (snapshot_of ?r)\<rparr>)"
    by (rule demo_commit; simp add: demo_aborting_facts)+
  moreover have "pv_owner_kind (demo_provider Cleanup) = Cleanup"
    "pv_execute_and_readback (demo_provider Cleanup) = demo_readback" "u32_of_len 1 = Some 1"
    by (simp_all add: demo_provider_def u32_of_len_def)
  ultimately have eq: "demo_rolled_back = ?r\<lparr>pm_durable := Some (snapshot_of ?r)\<rparr>"
    using answer rb
    by (simp add: demo_rolled_back_def complete_next_abort_owner_def and_do_def give_def modify_def and_then_def
        ok_or_def reject_if_def call_provider_def record_abort_readback_def demo_aborting_facts)
  show "pm_pending_action demo_rolled_back = Some demo_start"
    "pm_pending_owner_receipts demo_rolled_back = [demo_receipt]"
    "pm_pending_uncertain_owner demo_rolled_back = None" "pm_abort_in_progress demo_rolled_back"
    "pm_pending_abort_receipts demo_rolled_back = [demo_rollback_receipt]"
    "pm_pending_abort_uncertain_owner demo_rolled_back = None"
    "pm_recovery_journal demo_rolled_back" "\<not> pm_recovery_journal_poisoned demo_rolled_back"
    "\<not> pm_cleanup_only_after_restore demo_rolled_back" "pm_runtime demo_rolled_back = pm_runtime demo_new"
    unfolding eq by (simp_all add: demo_aborting_facts)
qed

definition demo_abort :: "unit completed_abort" where
  "demo_abort = \<lparr>cb_schema_id = completed_abort_schema, cb_original_action = demo_start,
     cb_started_receipts = [demo_receipt], cb_uncertain_owner = None, cb_rollback_action = demo_rollback,
     cb_rollback_receipts = [demo_rollback_receipt]\<rparr>"

lemma demo_aborted_facts:
  "pm_completed_start_abort demo_aborted = Some demo_abort" "pm_runtime demo_aborted = pm_runtime demo_new"
proof -
  let ?n = "abort_finished demo_start demo_rolled_back"
  have "commit_recovery_journal demo_externals demo_env ?n = (Inr (), ?n\<lparr>pm_durable := Some (snapshot_of ?n)\<rparr>)"
    by (rule demo_commit) (simp_all add: abort_finished_def demo_rolled_back_facts)
  moreover have "uncertain_offset demo_rolled_back = 0"
    by (simp add: uncertain_offset_def demo_rolled_back_facts)
  ultimately have eq: "demo_aborted = ?n\<lparr>pm_durable := Some (snapshot_of ?n)\<rparr>"
    by (simp add: demo_aborted_def finalize_partial_start_abort_def demo_rolled_back_facts and_do_def give_def
        modify_def and_then_def ok_or_def reject_if_def abort_finished_def)
  show "pm_completed_start_abort demo_aborted = Some demo_abort" "pm_runtime demo_aborted = pm_runtime demo_new"
    unfolding eq by (simp_all add: abort_finished_def demo_abort_def demo_rollback_def demo_rolled_back_facts)
qed

end
