(* ===== verification/Product_Claims.thy ===== *)
theory Product_Claims
  imports Product_Demo
begin

text \<open>
  What the product runtime guarantees: provider calls are written ahead, a failed journal ends
  everything, a restored runtime only undoes, and what was committed can be restored.
\<close>

section \<open>Write-ahead\<close>

text \<open>C2. Write-ahead recovery journal. Once a runtime keeps a recovery journal, or was restored from
  one, every call it makes to an owner provider (\<open>execute_and_readback\<close> or
  \<open>compensate_uncertain_attempt\<close>) happens while the store holds a snapshot that names exactly this
  attempt as uncertain, whatever operations run, whatever hosts, providers and commits answer.
\<close>

theorem provider_calls_are_written_ahead:
  assumes "journaled m" and "pm_calls m = []" and "product_steps x mx m m'"
    and "(call, store) \<in> set (pm_calls m')"
  shows "\<exists>s. store = Some s \<and> names_attempt s (call_target call)"
  using careful_run [OF assms(3)] assms(1,2,4) by (auto simp: careful_def call_covered_def list_all_iff)

theorem provider_calls_are_written_ahead_witness:
  "\<exists>store. pm_calls demo_crashed = [(ExecuteCall demo_start demo_owner, store)]
     \<and> (\<exists>s. store = Some s \<and> names_attempt s (demo_start, demo_owner))"
proof -
  have "product_steps demo_externals demo_schemas demo_prepared demo_crashed"
    unfolding demo_crashed_def by (rule r_into_rtranclp) (rule step_complete)
  moreover have "journaled demo_prepared" "pm_calls demo_prepared = []"
    by (simp_all add: journaled_def demo_prepared_facts)
  moreover have "pm_calls demo_crashed
      = [(ExecuteCall demo_start demo_owner, Some (snapshot_of demo_attempt))]"
    by (simp add: demo_crashed_eq)
  ultimately show ?thesis
    using provider_calls_are_written_ahead [of demo_prepared demo_externals demo_schemas demo_crashed
        "ExecuteCall demo_start demo_owner" "Some (snapshot_of demo_attempt)"]
    by (simp add: call_target_def)
qed

text \<open>C25. A failed commit is final. After the recovery journal failed once, no operation calls a
  provider, commits a snapshot or clears the failure, in any run.
\<close>

theorem poisoned_journal_is_final:
  assumes "pm_recovery_journal_poisoned m" and "product_steps x mx m m'"
  shows "pm_recovery_journal_poisoned m' \<and> pm_calls m' = pm_calls m \<and> pm_durable m' = pm_durable m"
  using careful_run [OF assms(2)] assms(1) by (simp add: careful_def)

theorem poisoned_journal_is_final_witness:
  "pm_calls (snd (complete_owner demo_externals demo_schemas demo_env Cleanup (demo_provider Cleanup) 5
     (demo_prepared\<lparr>pm_recovery_journal_poisoned := True\<rparr>))) = []"
proof -
  let ?m = "demo_prepared\<lparr>pm_recovery_journal_poisoned := True\<rparr>"
  have "product_steps demo_externals demo_schemas ?m
      (snd (complete_owner demo_externals demo_schemas demo_env Cleanup (demo_provider Cleanup) 5 ?m))"
    by (rule r_into_rtranclp) (rule step_complete)
  from poisoned_journal_is_final [OF _ this] show ?thesis
    by (simp add: demo_prepared_facts)
qed

section \<open>Restoring\<close>

text \<open>C6. A runtime restored after a crash only cleans up. Whatever runs afterwards, every provider
  call stops or cleans (no owner is started or armed), and the phase of the session is the one of
  the snapshot or stopped.
\<close>

theorem restored_runtime_only_cleans_up:
  assumes "restore_cleanup_only_with_live_broker_runtime x mx v b h r i s now = Inr m"
    and "product_steps x mx m m'"
  shows "(\<forall>(call, store) \<in> set (pm_calls m'). oa_action_kind (snd (call_target call)) \<in> {ActStop, ActCleanup})
    \<and> ls_phase (sr_state (pm_runtime m')) \<in> {ls_phase (rv_lifecycle s), Stopped}"
  using restored.run_kept [OF assms(2) restore_restrained(1) [OF assms(1)]]
  by (simp add: restrained_def undo_kinds_def list_all_iff)

theorem restored_runtime_only_cleans_up_witness:
  "map fst (pm_calls demo_undone) = [CompensateCall demo_undo demo_undo_owner]
   \<and> oa_action_kind demo_undo_owner \<in> {ActStop, ActCleanup}
   \<and> ls_phase (sr_state (pm_runtime demo_undone)) \<in> {Planned, Stopped}"
proof -
  obtain store where calls: "pm_calls demo_undone = [(CompensateCall demo_undo demo_undo_owner, store)]"
    using demo_undone_calls by (cases "pm_calls demo_undone") auto
  show ?thesis
    using restored_runtime_only_cleans_up [OF demo_restores demo_undone_run] calls
    by (simp add: call_target_def demo_attempt_facts demo_new_state)
qed

text \<open>C4. What is committed can be restored. In every state that a new runtime reaches, a snapshot
  in the store whose session has not stopped passes \<open>validate_product_recovery_snapshot\<close> exactly
  when the provider epoch that the host named is not blank, the identities chosen by the providers
  are fresh (the receipt ids of the active start, of the pending action and of its rollback are
  distinct, and so are the handles of a rollback) and, while the stop of a trusted revoker is
  pending, the receipt adopted from the host for the revoked session would itself pass the check of
  a refresh, reports the revocation by the request of the evidence and is no older than the actions.
  The last condition is needed: \<open>prepare_trusted_revoker_cleanup\<close> commits a snapshot with that
  receipt and does not check it.
\<close>

theorem committed_snapshot_recovers_iff_fresh:
  assumes "product_runtime_new x mx v b source now = Inr m"
    and "product_steps x mx m m'" and "pm_durable m' = Some s"
    and "ls_phase (rv_lifecycle s) \<noteq> Stopped"
  shows "validate_product_recovery_snapshot x mx b s = Inr ()
    \<longleftrightarrow> \<not> trim_is_empty (rv_provider_epoch_id s) \<and> fresh_identities s
        \<and> (case pending_revoke s of None \<Rightarrow> True | Some e \<Rightarrow> revoked_subject x mx b s e)"
  using accounts.run_kept [OF assms(2) new_accountable [OF assms(1)]] assms(3,4)
  unfolding accountable_def stored_restores_def restores_iff_def by blast

theorem committed_snapshot_recovers_iff_fresh_witness:
  "validate_product_recovery_snapshot demo_externals demo_schemas demo_binding (snapshot_of demo_attempt) = Inr ()
   \<and> pm_durable demo_crashed = Some (snapshot_of demo_attempt)"
proof -
  have "pm_durable demo_crashed = Some (snapshot_of demo_attempt)"
    by (simp add: demo_crashed_eq)
  then show ?thesis
    using committed_snapshot_recovers_iff_fresh [OF demo_new_accepted demo_run] demo_restores_iff
    by (simp add: restores_iff_def demo_attempt_facts demo_new_state)
qed

section \<open>Rollback\<close>

lemma list_all_zip_nth: "list_all P (zip xs ys) \<longleftrightarrow> (\<forall>i < min (length xs) (length ys). P (xs ! i, ys ! i))"
  by (auto simp: list_all_iff set_zip)

lemma rollback_selection: "rollback_complete c \<Longrightarrow> k < length (cb_rollback_receipts c) \<Longrightarrow>
    cm_selection (cb_rollback_receipts c ! k) = oa_selection (pa_owner_actions (cb_rollback_action c) ! k)"
  by (simp add: rollback_complete_def receipts_answer_def receipt_answers_def)

lemma rollback_uncertain: "rollback_complete c \<Longrightarrow> cb_uncertain_owner c = Some owner \<Longrightarrow>
    oa_selection (pa_owner_actions (cb_rollback_action c) ! 0) = oa_selection owner"
  by (simp add: rollback_complete_def partial_start_abort_action_def)

lemma rollback_owner:
  assumes "rollback_complete c" and "i < length (cb_started_receipts c)"
  shows "pa_owner_actions (cb_rollback_action c) ! ((if cb_uncertain_owner c \<noteq> None then 1 else 0) + i)
    = \<lparr>oa_selection = cm_selection (List.rev (cb_started_receipts c) ! i),
       oa_action_kind = undo_kind (cm_action_kind (List.rev (cb_started_receipts c) ! i))\<rparr>"
  using assms by (auto simp: rollback_complete_def partial_start_abort_action_def split: option.splits)

text \<open>C13. A finished rollback undid everything. Whenever a runtime holds a completed abort, whatever
  operations ran, its rollback has one receipt for the owner whose start was uncertain, if there was
  one, followed by one receipt per started owner, in the reverse order of the starts, each for the
  same owner selection and provider handle and at a later provider revision.
\<close>

theorem completed_abort_undoes_every_start:
  assumes "product_runtime_new x mx v b source now = Inr m"
    and "product_steps x mx m m'" and "pm_completed_start_abort m' = Some c"
  shows "(let offset = (if cb_uncertain_owner c \<noteq> None then 1 else 0);
            started = cb_started_receipts c; undone = cb_rollback_receipts c in
     length undone = offset + length started
     \<and> (\<forall>owner. cb_uncertain_owner c = Some owner \<longrightarrow> cm_selection (undone ! 0) = oa_selection owner)
     \<and> (\<forall>i < length started. let r = undone ! (offset + i); u = started ! (length started - Suc i) in
          cm_selection r = cm_selection u \<and> cm_provider_handle_id r = cm_provider_handle_id u
          \<and> cm_provider_state_revision u < cm_provider_state_revision r))"
proof -
  have ab: "rollback_complete c"
    using accounts.run_kept [OF assms(2) new_accountable [OF assms(1)]] assms(3)
    by (simp add: accountable_def rollbacks_complete_def)
  define offset :: nat where "offset = (if cb_uncertain_owner c \<noteq> None then 1 else 0)"
  have size: "length (cb_rollback_receipts c) = offset + length (cb_started_receipts c)"
    using ab by (auto simp: rollback_complete_def partial_start_abort_action_def offset_def split: option.splits)
  have "cm_selection (cb_rollback_receipts c ! 0) = oa_selection owner" if "cb_uncertain_owner c = Some owner" for owner
    using rollback_selection [OF ab, of 0] rollback_uncertain [OF ab that] size that by (simp add: offset_def)
  moreover have "cm_selection (cb_rollback_receipts c ! (offset + i)) = cm_selection (List.rev (cb_started_receipts c) ! i)"
    if "i < length (cb_started_receipts c)" for i
    using rollback_selection [OF ab, of "offset + i"] rollback_owner [OF ab that] size that
    unfolding offset_def [symmetric] by simp
  moreover have "undoes (cb_rollback_receipts c ! (offset + i)) (List.rev (cb_started_receipts c) ! i)"
    if "i < length (cb_started_receipts c)" for i
    using ab that size by (auto simp: rollback_complete_def undoes_all_def list_all_zip_nth offset_def)
  ultimately show ?thesis
    unfolding offset_def [symmetric] Let_def using size by (simp add: undoes_def rev_nth)
qed

theorem completed_abort_undoes_every_start_witness:
  "cb_started_receipts demo_abort = [demo_receipt] \<and> cb_rollback_receipts demo_abort = [demo_rollback_receipt]
   \<and> cm_selection demo_rollback_receipt = cm_selection demo_receipt
   \<and> cm_provider_handle_id demo_rollback_receipt = cm_provider_handle_id demo_receipt
   \<and> cm_provider_state_revision demo_receipt < cm_provider_state_revision demo_rollback_receipt"
  using completed_abort_undoes_every_start [OF demo_new_accepted demo_aborted_run demo_aborted_facts(1)]
  by (simp add: demo_abort_def Let_def)

end
