(* ===== verification/Media_Claims.thy ===== *)
theory Media_Claims
  imports Product_Demo
begin

text \<open>
  What the validators of session plans and runtime specifications establish, and how the platform
  lifecycle of a session can go.
\<close>

section \<open>The loops that fill the maps\<close>

definition last_by :: "('a \<Rightarrow> string) \<Rightarrow> 'a list \<Rightarrow> (string \<rightharpoonup> 'a) \<Rightarrow> (string \<rightharpoonup> 'a)" where
  "last_by key xs = fold (\<lambda>x m. m(key x \<mapsto> x)) xs"

lemma last_by_simps [simp]:
  "last_by key [] m = m"
  "last_by key (x # xs) m = last_by key xs (m(key x \<mapsto> x))"
  by (simp_all add: last_by_def)

lemma last_by_Some: "last_by key xs m k = Some x \<Longrightarrow> m k = Some x \<or> (x \<in> set xs \<and> key x = k)"
proof (induction xs arbitrary: m)
  case (Cons a xs)
  from Cons.prems have "(m(key a \<mapsto> a)) k = Some x \<or> (x \<in> set xs \<and> key x = k)"
    by (intro Cons.IH) (simp only: last_by_simps)
  then show ?case
    by (auto split: if_splits)
qed simp

lemma last_by_in: "last_by key xs m k \<noteq> None \<longleftrightarrow> m k \<noteq> None \<or> k \<in> key ` set xs"
  by (induction xs arbitrary: m) auto

lemma last_by_fresh: "k \<notin> key ` set xs \<Longrightarrow> last_by key xs m k = m k"
  by (induction xs arbitrary: m) auto

lemma last_by_distinct: "distinct (map key xs) \<Longrightarrow> x \<in> set xs \<Longrightarrow> last_by key xs m (key x) = Some x"
  by (induction xs arbitrary: m) (auto simp: last_by_fresh)

lemma insert_each_get: "bt_get (snd (insert_each key before duplicate after xs seen)) = last_by key xs (bt_get seen)"
  by (induction xs arbitrary: seen) (simp_all add: case_prod_beta Let_def)

lemma collect_by_get: "bt_get (collect_by key xs) = last_by key xs Map.empty"
proof -
  have "bt_get (fold (\<lambda>x. bt_insert (key x) x) xs seen) = last_by key xs (bt_get seen)" for seen
    by (induction xs arbitrary: seen) simp_all
  then show ?thesis
    by (simp add: collect_by_def)
qed

lemma insert_each_ok:
  "fst (insert_each key before duplicate after xs seen) = [] \<longleftrightarrow>
     (\<forall>x \<in> set xs. before x = [] \<and> after x = []) \<and> distinct (map key xs)
     \<and> (\<forall>x \<in> set xs. bt_get seen (key x) = None)"
proof (induction xs arbitrary: seen)
  case (Cons a xs)
  have "(\<forall>x \<in> set xs. bt_get (bt_insert (key a) a seen) (key x) = None)
      \<longleftrightarrow> (\<forall>x \<in> set xs. bt_get seen (key x) = None) \<and> key a \<notin> key ` set xs"
    unfolding bt_get_insert by (auto simp: image_iff split: if_splits)
  with Cons.IH [of "bt_insert (key a) a seen"] show ?case
    by (auto simp: case_prod_beta Let_def bt_contains_def simp del: bt_get_insert)
qed simp

lemma filter_key_once: "distinct (map key xs) \<Longrightarrow> k \<in> key ` set xs \<Longrightarrow> length (filter (\<lambda>x. key x = k) xs) = 1"
  by (induction xs) (auto simp: filter_empty_conv image_iff)

section \<open>Accepted plans\<close>

lemma concat_map_Nil: "concat (map f xs) = [] \<longleftrightarrow> (\<forall>x \<in> set xs. f x = [])"
  by simp

lemma session_parts:
  assumes "validate_media_stream_session p = Inr ()"
  defines "devices \<equiv> snd (validate_devices (mp_devices p))"
  defines "sources \<equiv> snd (validate_sources (mp_sources p) devices)"
  defines "endpoints \<equiv> snd (validate_runtime_endpoints (mp_runtime_endpoints p) devices sources (mp_lanes p))"
  shows "validate_privacy_tier p = []" and "validate_security (mp_security p) (mp_privacy_tier p) = []"
    and "validate_lanes (mp_lanes p) devices sources = []"
    and "validate_transport_routes (mp_transport_routes p) (mp_lanes p) endpoints = []"
    and "fst (validate_runtime_endpoints (mp_runtime_endpoints p) devices sources (mp_lanes p)) = []"
    and "bt_get sources = last_by so_source_id (mp_sources p) Map.empty"
    and "bt_get endpoints = last_by ep_device_id (mp_runtime_endpoints p) Map.empty"
  using assms(1)
  by (simp_all add: validate_media_stream_session_def session_errors_def devices_def sources_def endpoints_def
      case_prod_beta Let_def)
    (simp_all add: validate_sources_def validate_runtime_endpoints_def insert_each_get case_prod_beta Let_def)

definition lane_sourced :: "session_plan \<Rightarrow> media_lane \<Rightarrow> bool" where
  "lane_sourced p l =
     (\<exists>s \<in> set (mp_sources p). so_source_id s = la_source_id l \<and> so_device_id s = la_source_device_id l
        \<and> so_track_role s = mc_track_role (la_media l))"

definition route_serves :: "media_lane \<Rightarrow> transport_route \<Rightarrow> bool" where
  "route_serves l r =
     (tro_lane_id r = la_lane_id l \<and> tro_source_device_id r = la_source_device_id l
      \<and> tro_sink_device_id r = la_sink_device_id l \<and> tro_track_role r = mc_track_role (la_media l)
      \<and> tro_connect_port r \<noteq> 0)"

definition route_lands :: "session_plan \<Rightarrow> media_lane \<Rightarrow> transport_route \<Rightarrow> bool" where
  "route_lands p l r =
     (if tro_route_kind r = ''relay_tls_client'' then tp_encryption_required (la_transport l)
      else \<exists>e \<in> set (mp_runtime_endpoints p). ep_device_id e = la_sink_device_id l
             \<and> (\<exists>b \<in> set (ep_transport_receive_ports e). pt_track_role b = mc_track_role (la_media l)
                  \<and> pt_port b = tro_connect_port r))"

lemma valid_lane:
  assumes "validate_media_stream_session p = Inr ()" and "l \<in> set (mp_lanes p)"
  shows "lane_sourced p l" and "la_source_device_id l \<noteq> la_sink_device_id l" and "la_receiver_first_required l"
proof -
  obtain devices sources where lane: "validate_lane devices sources l = []"
    and sources: "bt_get sources = last_by so_source_id (mp_sources p) Map.empty"
    using session_parts(3,6) [OF assms(1)] assms(2) by (force simp: validate_lanes_def insert_each_ok)
  then obtain s where s: "bt_get sources (la_source_id l) = Some s" "so_device_id s = la_source_device_id l"
    "so_track_role s = mc_track_role (la_media l)"
    by (auto simp: validate_lane_def split: option.splits)
  with sources have "s \<in> set (mp_sources p) \<and> so_source_id s = la_source_id l"
    by (auto dest: last_by_Some)
  with s show "lane_sourced p l"
    by (auto simp: lane_sourced_def)
  show "la_source_device_id l \<noteq> la_sink_device_id l" "la_receiver_first_required l"
    using lane by (simp_all add: validate_lane_def)
qed

lemma valid_route:
  assumes "validate_media_stream_session p = Inr ()" and "r \<in> set (mp_transport_routes p)"
    and "l \<in> set (mp_lanes p)" and "tro_lane_id r = la_lane_id l"
  shows "route_serves l r" and "route_lands p l r"
proof -
  obtain endpoints where routes: "validate_transport_routes (mp_transport_routes p) (mp_lanes p) endpoints = []"
    and endpoints: "bt_get endpoints = last_by ep_device_id (mp_runtime_endpoints p) Map.empty"
    using session_parts(4,7) [OF assms(1)] by blast
  have checked: "validate_route_ids r = []" "validate_route (collect_by la_lane_id (mp_lanes p)) endpoints r = []"
    using routes assms(2) by (auto simp: validate_transport_routes_def case_prod_beta insert_each_ok)
  have "distinct (map la_lane_id (mp_lanes p))"
    using session_parts(3) [OF assms(1)] by (simp add: validate_lanes_def insert_each_ok)
  then have lane: "bt_get (collect_by la_lane_id (mp_lanes p)) (tro_lane_id r) = Some l"
    by (simp add: collect_by_get last_by_distinct assms(3,4))
  show serves: "route_serves l r"
    using checked lane assms(4) by (auto simp: validate_route_def validate_route_ids_def route_serves_def)
  show "route_lands p l r"
  proof (cases "tro_route_kind r = ''relay_tls_client''")
    case True
    then show ?thesis
      using checked(2) lane by (auto simp: validate_route_def validate_relay_route_def route_lands_def)
  next
    case False
    with checked(2) lane have "validate_direct_route r l endpoints = []"
      by (auto simp: validate_route_def split: if_splits)
    then obtain e b where e: "bt_get endpoints (tro_sink_device_id r) = Some e"
      "b \<in> set (ep_transport_receive_ports e)" "pt_track_role b = tro_track_role r" "pt_port b = tro_connect_port r"
      by (auto simp: validate_direct_route_def list_ex_iff split: option.splits)
    with endpoints have "e \<in> set (mp_runtime_endpoints p) \<and> ep_device_id e = tro_sink_device_id r"
      by (auto dest: last_by_Some)
    with e serves False show ?thesis
      by (auto simp: route_lands_def route_serves_def)
  qed
qed

text \<open>C11. An accepted plan is wired. Every lane of a plan that \<open>validate_media_stream_session\<close>
  accepts has a source of the plan on its source device with its track role, distinct source and
  sink devices, receiver-first start, and exactly one transport route; that route names the lane's
  devices, role and a port that is not zero, and it either goes to a port on which the endpoint of
  the sink device receives this role or through an encrypted relay. Outside local diagnostics every
  lane is encrypted and raw media is not logged.
\<close>

theorem accepted_plan_is_wired:
  assumes "validate_media_stream_session p = Inr ()"
  shows "(\<forall>l \<in> set (mp_lanes p).
       lane_sourced p l \<and> la_source_device_id l \<noteq> la_sink_device_id l \<and> la_receiver_first_required l
       \<and> length (filter (\<lambda>r. tro_lane_id r = la_lane_id l) (mp_transport_routes p)) = 1
       \<and> (\<forall>r \<in> set (mp_transport_routes p). tro_lane_id r = la_lane_id l \<longrightarrow>
            route_serves l r \<and> route_lands p l r))
    \<and> (mp_privacy_tier p \<noteq> privacy_local \<longrightarrow>
         (\<forall>l \<in> set (mp_lanes p). tp_encryption_required (la_transport l))
         \<and> \<not> sec_raw_media_logging (mp_security p))"
proof -
  obtain endpoints where routes: "validate_transport_routes (mp_transport_routes p) (mp_lanes p) endpoints = []"
    using session_parts(4) [OF assms] by blast
  have once: "distinct (map tro_lane_id (mp_transport_routes p))"
    and covered: "la_lane_id l \<in> tro_lane_id ` set (mp_transport_routes p)" if "l \<in> set (mp_lanes p)" for l
    using routes that last_by_in [of tro_lane_id "mp_transport_routes p" Map.empty "la_lane_id l"]
    by (auto simp: validate_transport_routes_def case_prod_beta insert_each_ok bt_contains_def insert_each_get)
  have "length (filter (\<lambda>r. tro_lane_id r = la_lane_id l) (mp_transport_routes p)) = 1"
    if "l \<in> set (mp_lanes p)" for l
    using once [OF that] covered [OF that]
    by (rule filter_key_once)
  moreover have "mp_privacy_tier p \<noteq> privacy_local \<longrightarrow>
      (\<forall>l \<in> set (mp_lanes p). tp_encryption_required (la_transport l)) \<and> \<not> sec_raw_media_logging (mp_security p)"
    using session_parts(1,2) [OF assms] by (auto simp: validate_privacy_tier_def validate_security_def list_ex_iff)
  ultimately show ?thesis
    using valid_lane [OF assms] valid_route [OF assms] by auto
qed

theorem accepted_plan_is_wired_witness:
  "mp_lanes demo_plan = [demo_lane] \<and> lane_sourced demo_plan demo_lane
   \<and> length (filter (\<lambda>r. tro_lane_id r = la_lane_id demo_lane) (mp_transport_routes demo_plan)) = 1"
proof -
  have "mp_lanes demo_plan = [demo_lane]"
    by (simp add: demo_plan_def)
  then show ?thesis
    using accepted_plan_is_wired [OF demo_plan_valid] by simp
qed

section \<open>The order of owners\<close>

lemma fit_sequence:
  assumes "length rs = length as" and "receipts_fit 0 [] [] as rs" and "length as < 2 ^ 32" and "k < length rs"
  shows "cm_selection (rs ! k) = oa_selection (as ! k)" and "cm_completion_sequence (rs ! k) = of_nat (Suc k)"
  using assms by (simp_all add: receipts_fit_iff receipt_answers_def u32_or_max_def u32_of_len_def)

lemma sequence_less: "k < n \<Longrightarrow> n < m \<Longrightarrow> m < 2 ^ 32 \<Longrightarrow> (of_nat (Suc k) :: u32) < of_nat (Suc n)"
  by (subst of_nat_word_less_iff) (simp add: take_bit_nat_eq_self)

lemma ordered_priorities:
  assumes "as = ordered_owner_actions ss op" and "i \<le> j" and "j < length as"
  shows "owner_priority op (sel_owner_kind (oa_selection (as ! i))) \<le> owner_priority op (sel_owner_kind (oa_selection (as ! j)))"
proof -
  let ?key = "\<lambda>a. (owner_priority op (sel_owner_kind (oa_selection a)), selection_key (oa_selection a))"
  have "sorted (map ?key as)"
    by (simp add: assms(1) ordered_owner_actions_def)
  then have "?key (as ! i) \<le> ?key (as ! j)"
    using assms(2,3) by (auto simp: sorted_iff_nth_mono)
  then show ?thesis
    by (auto simp: less_eq_prod_def)
qed

text \<open>If owners of one class have higher priority than all others, their sequence numbers are later.\<close>

lemma class_after:
  assumes "length rs = length as" and "receipts_fit 0 [] [] as rs" and "length as < 2 ^ 32"
    and "as = ordered_owner_actions ss op"
    and "\<And>k l. chosen k \<Longrightarrow> \<not> chosen l \<Longrightarrow> owner_priority op l < owner_priority op k"
    and "s \<in> set (sequences_of chosen rs)" and "t \<in> set (sequences_of (\<lambda>k. \<not> chosen k) rs)"
  shows "t < s"
proof -
  obtain i where i: "i < length rs" "chosen (sel_owner_kind (oa_selection (as ! i)))" "s = of_nat (Suc i)"
    using assms(6) fit_sequence [OF assms(1-3)] by (auto simp: sequences_of_def in_set_conv_nth)
  obtain j where j: "j < length rs" "\<not> chosen (sel_owner_kind (oa_selection (as ! j)))" "t = of_nat (Suc j)"
    using assms(7) fit_sequence [OF assms(1-3)] by (auto simp: sequences_of_def in_set_conv_nth)
  have "\<not> i \<le> j"
    using ordered_priorities [OF assms(4), of i j] assms(5) [OF i(2) j(2)] j(1) assms(1) by auto
  then show ?thesis
    using sequence_less [of j i "length as"] i j assms(1,3) by simp
qed

lemma spec_kinds:
  assumes "validate_media_stream_runtime_spec p = Inr ()"
  shows "\<exists>s \<in> set (sp_owner_selections p). sel_owner_kind s = kind"
proof -
  have "selected_resources p kind \<noteq> None" for kind
    using assms by (cases kind) (auto simp: validate_media_stream_runtime_spec_def runtime_spec_errors_def Let_def
        validate_media_stream_owner_selections_def owner_kinds_def)
  then have "filter (\<lambda>s. sel_owner_kind s = kind) (sp_owner_selections p) \<noteq> []"
    unfolding selected_resources_def by (metis list.simps(4))
  then show ?thesis
    by (simp add: filter_empty_conv)
qed

lemma sequences_nonempty:
  assumes "length rs = length as" and "receipts_fit 0 [] [] as rs" and "length as < 2 ^ 32"
    and "a \<in> set as" and "chosen (sel_owner_kind (oa_selection a))"
  shows "sequences_of chosen rs \<noteq> []"
proof -
  obtain k where k: "k < length as" "a = as ! k"
    using assms(4) by (auto simp: in_set_conv_nth)
  then have "rs ! k \<in> set rs" "chosen (sel_owner_kind (cm_selection (rs ! k)))"
    using fit_sequence(1) [OF assms(1-3)] assms(1,5) by auto
  then show ?thesis
    by (auto simp: sequences_of_def filter_empty_conv)
qed

text \<open>C18. The order of the owners is right by construction. For an action whose owners are the ordered
  selections of an accepted runtime specification, receipts that answer the owners one by one are
  accepted: \<open>validate_owner_completions\<close> never reports a receiver-first or a cleanup-order
  violation. On a start every source comes after all other owners, on a stop the cleanup owner
  comes last.
\<close>

theorem ordered_owners_meet_the_order_rules:
  assumes "validate_media_stream_runtime_spec p = Inr ()" and "length (sp_owner_selections p) < 2 ^ 32"
    and "pa_owner_actions action = ordered_owner_actions (sp_owner_selections p) (pa_operation action)"
  shows "validate_owner_completions action rs = Inr () \<longleftrightarrow>
     length rs = length (pa_owner_actions action) \<and> receipts_fit 0 [] [] (pa_owner_actions action) rs"
proof
  assume "length rs = length (pa_owner_actions action) \<and> receipts_fit 0 [] [] (pa_owner_actions action) rs"
  then have fit: "length rs = length (pa_owner_actions action)" "receipts_fit 0 [] [] (pa_owner_actions action) rs"
    "length (pa_owner_actions action) < 2 ^ 32"
    using assms(2,3) by simp_all
  have some: "sequences_of chosen rs \<noteq> []" if "chosen kind" for chosen kind
  proof -
    obtain s where "s \<in> set (sp_owner_selections p)" "sel_owner_kind s = kind"
      using spec_kinds [OF assms(1)] by blast
    with that show ?thesis
      by (intro sequences_nonempty [OF fit, of "owner_action_for (pa_operation action) s"])
        (auto simp: assms(3) set_ordered_owner_actions, simp add: owner_action_for_def)
  qed
  show "validate_owner_completions action rs = Inr ()"
  proof (cases "pa_operation action")
    case OpStart
    have "owner_priority OpStart l < owner_priority OpStart k" if "k = Source" "\<not> l = Source" for k l
      using that by (cases l) simp_all
    then have "t < s" if "s \<in> set (sequences_of (\<lambda>k. k = Source) rs)" "t \<in> set (sequences_of (\<lambda>k. k \<noteq> Source) rs)" for s t
      using class_after [OF fit, of _ OpStart "\<lambda>k. k = Source"] assms(3) OpStart that by metis
    then have "receiver_first rs = Inr ()"
      using some [of "\<lambda>k. k = Source" Source] some [of "\<lambda>k. k \<noteq> Source" Sink]
      by (auto simp: receiver_first_def Let_def reject_if_def not_le)
    with fit OpStart show ?thesis
      by (simp add: validate_owner_completions_def)
  next
    case OpStop
    have "owner_priority OpStop l < owner_priority OpStop k" if "k = Cleanup" "\<not> l = Cleanup" for k l
      using that by (cases l) simp_all
    then have late: "t < s" if "s \<in> set (sequences_of (\<lambda>k. k = Cleanup) rs)"
      "t \<in> set (sequences_of (\<lambda>k. k \<noteq> Cleanup) rs)" for s t
      using class_after [OF fit, of _ OpStop "\<lambda>k. k = Cleanup"] assms(3) OpStop that by metis
    obtain r where r: "find (\<lambda>r. sel_owner_kind (cm_selection r) = Cleanup) rs = Some r"
      using some [of "\<lambda>k. k = Cleanup" Cleanup]
      by (cases "find (\<lambda>r. sel_owner_kind (cm_selection r) = Cleanup) rs")
        (auto simp: sequences_of_def find_None_iff filter_empty_conv)
    then have "cm_completion_sequence r \<in> set (sequences_of (\<lambda>k. k = Cleanup) rs)"
      by (force simp: sequences_of_def find_Some_iff in_set_conv_nth)
    with late r have "cleanup_last rs = Inr ()"
      using some [of "\<lambda>k. k \<noteq> Cleanup" Sink]
      by (auto simp: cleanup_last_def Let_def reject_if_def not_le)
    with fit OpStop show ?thesis
      by (simp add: validate_owner_completions_def)
  qed
qed (auto simp: validate_owner_completions_def split: if_splits)

definition demo_owners :: "owner_action list" where
  "demo_owners = map (\<lambda>(kind, owner, resource, action). \<lparr>oa_selection = demo_selection kind owner resource,
       oa_action_kind = action\<rparr>)
     [(Cleanup, ''o7'', ''x'', ArmCleanup), (Sink, ''o6'', ''k'', ArmReceiver), (Route, ''o3'', ''l'', ActStart),
      (Socket, ''o4'', ''l'', ActStart), (Codec, ''o5'', ''l'', ActStart), (Processor, ''o2'', ''p'', ActStart),
      (Source, ''o1'', ''s'', ActStart)]"

definition demo_receipts :: "completion_receipt list" where
  "demo_receipts = map (\<lambda>(i, a). \<lparr>cm_selection = oa_selection a, cm_action_kind = oa_action_kind a,
       cm_receipt_id = ''a.'' @ sel_owner_id (oa_selection a), cm_completion_sequence = of_nat (Suc i),
       cm_provider_handle_id = ''h.'' @ sel_owner_id (oa_selection a), cm_provider_state_revision = 1,
       cm_observed_state = expected_provider_state (oa_action_kind a)\<rparr>) (enumerate 0 demo_owners)"

theorem ordered_owners_meet_the_order_rules_witness:
  "length demo_receipts = 7 \<and> validate_owner_completions demo_start demo_receipts = Inr ()"
proof -
  have owners: "pa_owner_actions demo_start = demo_owners"
    by code_simp
  have "pa_owner_actions demo_start = ordered_owner_actions (sp_owner_selections demo_spec) (pa_operation demo_start)"
    by (simp add: demo_start_def action_for_def demo_new_def fresh_runtime_def demo_binding_def)
  moreover have "length (sp_owner_selections demo_spec) < 2 ^ 32" "length demo_receipts = 7" "length demo_owners = 7"
    by (simp_all add: demo_spec_def demo_receipts_def demo_owners_def)
  moreover have "receipts_fit 0 [] [] demo_owners demo_receipts"
    by (simp add: demo_receipts_def demo_owners_def receipt_fits_def demo_selection_def dotted_not_blank
        u32_or_max_def u32_of_len_def)
  ultimately show ?thesis
    using ordered_owners_meet_the_order_rules [OF demo_spec_valid, of demo_start demo_receipts] owners
    by simp
qed

section \<open>Direct-P2P routes\<close>

text \<open>C39. A validated direct-P2P route stays on the local link: its two addresses are the parsed host
  texts of the route, both in the same /24 of the Wi-Fi Direct networks 192.168.49 and 192.168.137,
  different, neither the network nor the broadcast address, and its port is not zero.
\<close>

theorem validated_p2p_route_is_local_link:
  assumes "validate_direct_p2p_socket_route r = Inr v"
  shows "\<exists>c m n. parse_ipv4 (pp_local_bind_host r) = Some (192, 168, c, m)
     \<and> parse_ipv4 (pp_peer_host r) = Some (192, 168, c, n)
     \<and> vp_local_bind_ipv4 v = (192, 168, c, m) \<and> vp_peer_ipv4 v = (192, 168, c, n)
     \<and> c \<in> {49, 137} \<and> m \<noteq> n \<and> m \<notin> {0, 255} \<and> n \<notin> {0, 255}
     \<and> vp_peer_port v = pp_peer_port r \<and> pp_peer_port r \<noteq> 0"
proof -
  obtain a b where v: "v = \<lparr>vp_local_bind_ipv4 = a, vp_peer_ipv4 = b, vp_peer_port = pp_peer_port r\<rparr>"
    "parse_ipv4 (pp_local_bind_host r) = Some a" "parse_ipv4 (pp_peer_host r) = Some b"
    "is_supported_direct_p2p_ipv4 a" "is_supported_direct_p2p_ipv4 b" "same_subnet a b" "a \<noteq> b"
    using assms unfolding validate_p2p_iff parse_supported_ok by blast
  moreover have "pp_peer_port r \<noteq> 0"
    using assms unfolding validate_p2p_iff by (simp add: p2p_route_errors_def)
  moreover obtain c m n where "a = (192, 168, c, m)" "b = (192, 168, c, n)" "c \<in> {49, 137}" "m \<noteq> n"
    using same_subnet_supported v by blast
  ultimately show ?thesis
    by (auto simp: is_supported_direct_p2p_ipv4_def)
qed

definition demo_p2p_route :: p2p_route where
  "demo_p2p_route = \<lparr>pp_schema = p2p_route_schema, pp_route_id = ''r1'', pp_route_kind = p2p_route_kind,
     pp_socket_authority = p2p_socket_authority, pp_socket_scope = p2p_socket_scope,
     pp_expected_interface = p2p_interface, pp_local_bind_host = ''192.168.49.1'',
     pp_peer_host = ''192.168.49.20'', pp_peer_port = 9000, pp_android_network_required = False\<rparr>"

theorem validated_p2p_route_is_local_link_witness:
  "parse_ipv4 ''192.168.49.20'' = Some (192, 168, 49, 20)
   \<and> (\<exists>c m n. parse_ipv4 ''192.168.49.1'' = Some (192, 168, c, m)
        \<and> parse_ipv4 ''192.168.49.20'' = Some (192, 168, c, n) \<and> c \<in> {49, 137} \<and> m \<noteq> n)"
proof -
  have "validate_direct_p2p_socket_route demo_p2p_route
      = Inr \<lparr>vp_local_bind_ipv4 = (192, 168, 49, 1), vp_peer_ipv4 = (192, 168, 49, 20), vp_peer_port = 9000\<rparr>"
    by code_simp
  moreover have "parse_ipv4 ''192.168.49.20'' = Some (192, 168, 49, 20)"
    by code_simp
  ultimately show ?thesis
    using validated_p2p_route_is_local_link [of demo_p2p_route] by (auto simp: demo_p2p_route_def)
qed

section \<open>Lifecycle\<close>

definition lifecycle_run :: "runtime_request list \<Rightarrow> session_runtime \<Rightarrow> session_runtime" where
  "lifecycle_run qs r = fold (\<lambda>q r. snd (runtime_execute q r)) qs r"

lemma lifecycle_run_wf: "lifecycle_wf (sr_state r) \<Longrightarrow> lifecycle_wf (sr_state (lifecycle_run qs r))"
  by (induction qs arbitrary: r) (simp_all add: lifecycle_run_def lifecycle_wf_execute)

lemma execute_stopped: "ls_phase (sr_state r) = Stopped \<Longrightarrow> snd (runtime_execute q r) = r"
proof (cases q r rule: runtime_execute_cases)
  case accepted
  then show "ls_phase (sr_state r) = Stopped \<Longrightarrow> ?thesis"
    using transition_forward by (auto simp: request_accepted_iff)
qed simp

lemma run_stopped: "ls_phase (sr_state r) = Stopped \<Longrightarrow> lifecycle_run qs r = r"
  by (induction qs) (simp_all add: lifecycle_run_def execute_stopped)

text \<open>C26. The platform lifecycle. Whatever requests a new session runtime gets, its revision is one
  more than the number of accepted requests, whose ids are distinct and not blank; at most four are
  ever accepted; before the stop the phase is the one that this many accepted requests reach; and a
  stopped runtime does not change any more.
\<close>

theorem lifecycle_advances_once_per_request:
  assumes "session_runtime_new p = Inr r"
  shows "(let s = sr_state (lifecycle_run qs r) in
      unat (ls_runtime_revision s) = Suc (length (ls_applied_request_ids s))
      \<and> distinct (ls_applied_request_ids s) \<and> list_all (\<lambda>i. \<not> trim_is_empty i) (ls_applied_request_ids s)
      \<and> length (ls_applied_request_ids s) \<le> 4
      \<and> (ls_phase s \<noteq> Stopped \<longrightarrow>
           ls_phase s = [Planned, ReceiversArmed, SourcesStarted, Streaming] ! length (ls_applied_request_ids s))
      \<and> (ls_phase s = Stopped \<longrightarrow> lifecycle_run qs' (lifecycle_run qs r) = lifecycle_run qs r))"
proof -
  let ?s = "sr_state (lifecycle_run qs r)"
  have wf: "lifecycle_wf ?s"
    using assms session_runtime_new_wf lifecycle_run_wf by blast
  have rank: "phase \<noteq> Stopped \<Longrightarrow>
      phase = [Planned, ReceiversArmed, SourcesStarted, Streaming] ! phase_rank phase \<and> phase_rank phase \<le> 4" for phase
    by (cases phase) simp_all
  have "ls_phase ?s \<noteq> Stopped \<longrightarrow>
      ls_phase ?s = [Planned, ReceiversArmed, SourcesStarted, Streaming] ! length (ls_applied_request_ids ?s)
      \<and> length (ls_applied_request_ids ?s) \<le> 4"
    using wf rank [of "ls_phase ?s"] by (auto simp: lifecycle_wf_def)
  with wf run_stopped [of "lifecycle_run qs r" qs'] show ?thesis
    by (auto simp: lifecycle_wf_def Let_def)
qed

definition demo_request :: "string \<Rightarrow> u64 \<Rightarrow> runtime_action \<Rightarrow> runtime_request" where
  "demo_request i v a = \<lparr>lr_request_id = i, lr_expected_runtime_revision = v, lr_action = a,
     lr_evidence = \<lparr>le_receivers_armed = True, le_sources_started = True, le_received_media_frames = 1,
       le_cleanup_complete = True\<rparr>\<rparr>"

definition demo_requests :: "runtime_request list" where
  "demo_requests = [demo_request ''q'' 1 StartSources, demo_request ''q'' 1 ArmReceivers,
     demo_request ''q'' 2 StartSources, demo_request ''s'' 2 StopRuntime]"

theorem lifecycle_advances_once_per_request_witness:
  "\<exists>r. session_runtime_new demo_spec = Inr r
     \<and> ls_applied_request_ids (sr_state (lifecycle_run demo_requests r)) = [''q'', ''s'']
     \<and> unat (ls_runtime_revision (sr_state (lifecycle_run demo_requests r))) = 3"
proof -
  let ?r = "\<lparr>sr_spec = demo_spec, sr_state = \<lparr>ls_schema = runtime_state_schema, ls_runtime_spec_id = ''x'',
    ls_runtime_revision = 1, ls_phase = Planned, ls_applied_request_ids = []\<rparr>\<rparr>"
  have "sp_runtime_spec_id demo_spec = ''x''"
    by (simp add: demo_spec_def)
  then have new: "session_runtime_new demo_spec = Inr ?r"
    using demo_spec_valid by (simp add: session_runtime_new_def and_then_def)
  moreover have "ls_applied_request_ids (sr_state (lifecycle_run demo_requests ?r)) = [''q'', ''s'']"
    by code_simp
  ultimately show ?thesis
    using lifecycle_advances_once_per_request [OF new, of demo_requests "[]"] by (auto simp: Let_def)
qed

end
