(* ===== verification/Ieee_Float.thy ===== *)
theory Ieee_Float
  imports Quest_Prelude
begin

text \<open>
  The part of Rust's \<open>f64\<close> (IEEE 754 binary64, round to nearest, ties to even) and \<open>f32\<close> that
  the breath crate uses: comparison, \<open>is_finite\<close>, negation, \<open>+\<close>, \<open>-\<close>, \<open>*\<close>, \<open>/\<close>,
  \<open>f64::mul_add\<close> and decimal literals. A finite value is a sign, a magnitude and a power of two;
  every operation computes the exact rational result and rounds it once.
  Not-a-number payloads and the difference between quiet and signalling values, which no code of
  the crate can observe, are not represented.
\<close>

datatype ieee =
    NaN
  | Infinite bool
  | Finite bool int int

type_synonym f64 = ieee
type_synonym f32 = ieee

section \<open>Comparison\<close>

definition signed_part :: "bool \<Rightarrow> int \<Rightarrow> int" where
  "signed_part s m = (if s then - m else m)"

text \<open>Two magnitudes brought to the smaller of their exponents.\<close>

definition aligned :: "int \<Rightarrow> int \<Rightarrow> int \<Rightarrow> int" where
  "aligned m e low = m * 2 ^ nat (e - low)"

definition compare_by :: "(int \<Rightarrow> int \<Rightarrow> bool) \<Rightarrow> ieee \<Rightarrow> ieee \<Rightarrow> bool" where
  "compare_by r a b =
     (case (a, b) of
        (Finite s m e, Finite t n d) \<Rightarrow>
          (let low = min e d
           in r (aligned (signed_part s m) e low) (aligned (signed_part t n) d low))
      | (Infinite s, Finite _ _ _) \<Rightarrow> r (signed_part s 1) 0
      | (Finite _ _ _, Infinite t) \<Rightarrow> r 0 (signed_part t 1)
      | (Infinite s, Infinite t) \<Rightarrow> r (signed_part s 1) (signed_part t 1)
      | _ \<Rightarrow> False)"

definition f_le :: "ieee \<Rightarrow> ieee \<Rightarrow> bool" where
  "f_le = compare_by (\<le>)"

definition f_lt :: "ieee \<Rightarrow> ieee \<Rightarrow> bool" where
  "f_lt = compare_by (<)"

definition f_eq :: "ieee \<Rightarrow> ieee \<Rightarrow> bool" where
  "f_eq = compare_by (=)"

definition is_finite :: "ieee \<Rightarrow> bool" where
  "is_finite a = (case a of Finite _ _ _ \<Rightarrow> True | _ \<Rightarrow> False)"

section \<open>Rounding to binary64\<close>

function bit_length :: "int \<Rightarrow> nat" where
  "bit_length n = (if n \<le> 0 then 0 else Suc (bit_length (n div 2)))"
  by pat_completeness auto
termination
  by (relation "measure nat") auto

declare bit_length.simps [simp del]

text \<open>The integer nearest to \<open>n / d\<close>, the even one of two equally near.\<close>

definition half_even :: "int \<Rightarrow> int \<Rightarrow> int" where
  "half_even n d =
     (let q = n div d; r = 2 * (n mod d)
      in if r < d then q else if d < r then q + 1 else if even q then q else q + 1)"

definition pow2_above :: "int \<Rightarrow> int" where
  "pow2_above e = 2 ^ nat e"

text \<open>
  \<open>f64_round s n d\<close> is the binary64 value nearest to \<open>n / d\<close> with sign \<open>s\<close>, for \<open>0 \<le> n\<close> and
  \<open>0 < d\<close>. \<open>k\<close> is the exponent of the leading bit, \<open>e\<close> the exponent of the last place:
  52 below it for a normal value, \<open>- 1074\<close> for a subnormal one.
\<close>

definition f64_round :: "bool \<Rightarrow> int \<Rightarrow> int \<Rightarrow> f64" where
  "f64_round s n d =
     (if n = 0 then Finite s 0 0
      else
        let b = int (bit_length n) - int (bit_length d);
            k = (if d * pow2_above b \<le> n * pow2_above (- b) then b else b - 1);
            e = max (k - 52) (- 1074);
            m = half_even (n * pow2_above (- e)) (d * pow2_above e)
        in if m = 0 then Finite s 0 0
           else if m = 2 ^ 53
             then (if 971 < e + 1 then Infinite s else Finite s (2 ^ 52) (e + 1))
           else if 971 < e then Infinite s
           else Finite s m e)"

text \<open>A decimal literal: \<open>0.035\<close> is \<open>f64_literal 35 1000\<close>.\<close>

definition f64_literal :: "int \<Rightarrow> int \<Rightarrow> f64" where
  "f64_literal n d = f64_round False n d"

definition f64_of_int :: "int \<Rightarrow> f64" where
  "f64_of_int n = f64_round False n 1"

text \<open>The exact value \<open>v * 2 ^ e\<close> rounded; an exact zero takes the sign \<open>z\<close>.\<close>

definition f64_exact :: "bool \<Rightarrow> int \<Rightarrow> int \<Rightarrow> f64" where
  "f64_exact z v e =
     (if v = 0 then Finite z 0 0
      else f64_round (v < 0) (\<bar>v\<bar> * pow2_above e) (pow2_above (- e)))"

section \<open>Arithmetic\<close>

definition f_neg :: "ieee \<Rightarrow> ieee" where
  "f_neg a =
     (case a of NaN \<Rightarrow> NaN | Infinite s \<Rightarrow> Infinite (\<not> s) | Finite s m e \<Rightarrow> Finite (\<not> s) m e)"

text \<open>
  A sum of two finite values that is exactly zero is negative only when both of them are
  negative zeros.
\<close>

definition f_add :: "f64 \<Rightarrow> f64 \<Rightarrow> f64" where
  "f_add a b =
     (case (a, b) of
        (Finite s m e, Finite t n d) \<Rightarrow>
          (let low = min e d
           in f64_exact (s \<and> t)
                (aligned (signed_part s m) e low + aligned (signed_part t n) d low) low)
      | (Infinite s, Finite _ _ _) \<Rightarrow> Infinite s
      | (Finite _ _ _, Infinite t) \<Rightarrow> Infinite t
      | (Infinite s, Infinite t) \<Rightarrow> (if s = t then Infinite s else NaN)
      | _ \<Rightarrow> NaN)"

definition f_sub :: "f64 \<Rightarrow> f64 \<Rightarrow> f64" where
  "f_sub a b = f_add a (f_neg b)"

definition f_mul :: "f64 \<Rightarrow> f64 \<Rightarrow> f64" where
  "f_mul a b =
     (case (a, b) of
        (Finite s m e, Finite t n d) \<Rightarrow>
          f64_exact (s \<noteq> t) (signed_part s m * signed_part t n) (e + d)
      | (Infinite s, Finite t n _) \<Rightarrow> (if n = 0 then NaN else Infinite (s \<noteq> t))
      | (Finite s m _, Infinite t) \<Rightarrow> (if m = 0 then NaN else Infinite (s \<noteq> t))
      | (Infinite s, Infinite t) \<Rightarrow> Infinite (s \<noteq> t)
      | _ \<Rightarrow> NaN)"

definition f_div :: "f64 \<Rightarrow> f64 \<Rightarrow> f64" where
  "f_div a b =
     (case (a, b) of
        (Finite s m e, Finite t n d) \<Rightarrow>
          (if n = 0 then (if m = 0 then NaN else Infinite (s \<noteq> t))
           else f64_round (s \<noteq> t) (m * pow2_above (e - d)) (n * pow2_above (d - e)))
      | (Infinite s, Finite t _ _) \<Rightarrow> Infinite (s \<noteq> t)
      | (Finite s _ _, Infinite t) \<Rightarrow> Finite (s \<noteq> t) 0 0
      | _ \<Rightarrow> NaN)"

text \<open>\<open>a.mul_add(b, c)\<close>: the product is not rounded before the addition.\<close>

definition f_mul_add :: "f64 \<Rightarrow> f64 \<Rightarrow> f64 \<Rightarrow> f64" where
  "f_mul_add a b c =
     (case (a, b, c) of
        (Finite s m e, Finite t n d, Finite u p x) \<Rightarrow>
          (let low = min (e + d) x
           in f64_exact ((s \<noteq> t) \<and> u)
                (aligned (signed_part s m * signed_part t n) (e + d) low
                 + aligned (signed_part u p) x low) low)
      | (Finite _ _ _, Finite _ _ _, _) \<Rightarrow> c
      | _ \<Rightarrow> f_add (f_mul a b) c)"

section \<open>The unit interval\<close>

abbreviation f_zero :: f64 where
  "f_zero \<equiv> Finite False 0 0"

text \<open>The literal \<open>1.0\<close> as rounding represents it: the leading bit is bit 52.\<close>

definition f_one :: f64 where
  "f_one = Finite False (2 ^ 52) (- 52)"

text \<open>\<open>(0.0..=1.0).contains(&v)\<close>.\<close>

definition in_unit_range :: "ieee \<Rightarrow> bool" where
  "in_unit_range v = (f_le f_zero v \<and> f_le v f_one)"

lemma f_one_literal: "f_one = f64_literal 1 1"
  by (simp add: f_one_def f64_literal_def f64_round_def bit_length.simps half_even_def pow2_above_def)

lemma in_unit_range_finite: "in_unit_range v \<Longrightarrow> is_finite v"
  by (cases v) (auto simp: in_unit_range_def f_le_def compare_by_def is_finite_def f_one_def
      signed_part_def split: if_splits)

lemma compare_irrefl: "f_lt a a \<Longrightarrow> False"
  by (cases a) (simp_all add: f_lt_def compare_by_def Let_def)

lemma f_le_total: "is_finite a \<Longrightarrow> is_finite b \<Longrightarrow> f_le a b \<or> f_lt b a"
  by (cases a; cases b) (auto simp: f_le_def f_lt_def compare_by_def is_finite_def Let_def min.commute)

section \<open>Square root, order and bounds\<close>

text \<open>The integer square root, rounded down.\<close>

function int_sqrt :: "int \<Rightarrow> int" where
  "int_sqrt n =
     (if n \<le> 0 then 0
      else let r = 2 * int_sqrt (n div 4) in if (r + 1) * (r + 1) \<le> n then r + 1 else r)"
  by pat_completeness auto
termination
  by (relation "measure nat") auto

declare int_sqrt.simps [simp del]

lemma int_sqrt_bounds:
  "0 \<le> n \<Longrightarrow> 0 \<le> int_sqrt n \<and> int_sqrt n * int_sqrt n \<le> n \<and> n < (int_sqrt n + 1) * (int_sqrt n + 1)"
proof (induction n rule: int_sqrt.induct)
  case (1 n)
  show ?case
  proof (cases "n \<le> 0")
    case True
    with 1 show ?thesis by (simp add: int_sqrt.simps)
  next
    case False
    define q where "q = int_sqrt (n div 4)"
    have q: "0 \<le> q" "q * q \<le> n div 4" "n div 4 < (q + 1) * (q + 1)"
      using "1.IH" False by (auto simp: q_def)
    have "4 * (q * q) \<le> n" "n < 4 * ((q + 1) * (q + 1))"
      using q(2,3) by linarith+
    then have "2 * q * (2 * q) \<le> n" "n < (2 * q + 1 + 1) * (2 * q + 1 + 1)"
      by (simp_all add: algebra_simps)
    then show ?thesis
      using q(1) False by (subst (1 2 3 4 5) int_sqrt.simps) (auto simp: Let_def q_def)
  qed
qed

text \<open>
  \<open>f64::sqrt\<close>, correctly rounded: the root is taken of at least 110 bits, so that its last bit
  together with the bit that marks an inexact root decides the rounding.
\<close>

definition f_sqrt :: "f64 \<Rightarrow> f64" where
  "f_sqrt a =
     (case a of
        NaN \<Rightarrow> NaN
      | Infinite s \<Rightarrow> if s then NaN else Infinite False
      | Finite s m e \<Rightarrow>
          if m = 0 then Finite s 0 0
          else if s then NaN
          else
            let k = 112 + e mod 2; n = m * 2 ^ nat k; r = int_sqrt n
            in f64_exact False (2 * r + (if r * r = n then 0 else 1)) ((e - k) div 2 - 1))"

definition f_abs :: "ieee \<Rightarrow> ieee" where
  "f_abs a =
     (case a of NaN \<Rightarrow> NaN | Infinite _ \<Rightarrow> Infinite False | Finite _ m e \<Rightarrow> Finite False m e)"

text \<open>
  \<open>f64::max\<close> and \<open>f64::min\<close> return the other argument when one is not a number. Which zero they
  return for zeros of different sign is unspecified; here it is the first.
\<close>

definition f_max :: "f64 \<Rightarrow> f64 \<Rightarrow> f64" where
  "f_max a b = (if a = NaN then b else if f_lt a b then b else a)"

definition f_min :: "f64 \<Rightarrow> f64 \<Rightarrow> f64" where
  "f_min a b = (if a = NaN then b else if f_lt b a then b else a)"

definition f_clamp :: "f64 \<Rightarrow> f64 \<Rightarrow> f64 \<Rightarrow> f64" where
  "f_clamp x lo hi =
     (let x = (if f_lt x lo then lo else x) in if f_lt hi x then hi else x)"

text \<open>
  \<open>f64::total_cmp\<close> as the relation ``not greater'': negative zero before positive zero, and
  a value that is not a number, taken to be positive, after everything.
\<close>

definition total_le :: "f64 \<Rightarrow> f64 \<Rightarrow> bool" where
  "total_le a b =
     (if b = NaN then True
      else if a = NaN then False
      else if f_eq a b then
        (case (a, b) of (Finite s m _, Finite t _ _) \<Rightarrow> m = 0 \<and> t \<longrightarrow> s | _ \<Rightarrow> True)
      else f_lt a b)"

text \<open>The stable sort of \<open>slice::sort_by\<close> and the last maximum of \<open>Iterator::max_by\<close>.\<close>

primrec insert_by :: "('a \<Rightarrow> 'a \<Rightarrow> bool) \<Rightarrow> 'a \<Rightarrow> 'a list \<Rightarrow> 'a list" where
  "insert_by le x [] = [x]"
| "insert_by le x (y # ys) = (if le x y then x # y # ys else y # insert_by le x ys)"

definition sort_by :: "('a \<Rightarrow> 'a \<Rightarrow> bool) \<Rightarrow> 'a list \<Rightarrow> 'a list" where
  "sort_by le xs = foldr (insert_by le) xs []"

definition max_by :: "('a \<Rightarrow> 'a \<Rightarrow> bool) \<Rightarrow> 'a \<Rightarrow> 'a list \<Rightarrow> 'a" where
  "max_by le x xs = foldl (\<lambda>best y. if le best y then y else best) x xs"

lemma length_insert_by [simp]: "length (insert_by le x xs) = Suc (length xs)"
  by (induction xs) auto

lemma length_sort_by [simp]: "length (sort_by le xs) = length xs"
  unfolding sort_by_def by (induction xs) auto

lemma set_insert_by [simp]: "set (insert_by le x xs) = insert x (set xs)"
  by (induction xs) auto

lemma set_sort_by [simp]: "set (sort_by le xs) = set xs"
  unfolding sort_by_def by (induction xs) auto

lemma max_by_member: "max_by le x xs \<in> insert x (set xs)"
  unfolding max_by_def by (induction xs arbitrary: x) (auto split: if_splits)

lemma f_le_refl: "is_finite a \<Longrightarrow> f_le a a"
  by (cases a) (simp_all add: is_finite_def f_le_def compare_by_def Let_def)

lemma not_f_lt: "a \<noteq> NaN \<Longrightarrow> b \<noteq> NaN \<Longrightarrow> \<not> f_lt a b \<Longrightarrow> f_le b a"
  by (cases a; cases b) (auto simp: f_le_def f_lt_def compare_by_def Let_def min.commute signed_part_def
      split: if_splits)

lemma f_zero_le_one: "f_le f_zero f_one"
  by (simp add: f_le_def compare_by_def f_one_def signed_part_def aligned_def)

text \<open>Clamping into the unit interval ends there, unless the value is not a number.\<close>

lemma clamp_unit: "f_clamp x f_zero f_one = NaN \<or> in_unit_range (f_clamp x f_zero f_one)"
proof (cases "x = NaN")
  case True
  then show ?thesis
    by (simp add: f_clamp_def f_lt_def compare_by_def f_one_def)
next
  case False
  have one: "f_one \<noteq> NaN" "is_finite f_one" "is_finite f_zero"
    by (simp_all add: f_one_def is_finite_def)
  then show ?thesis
    using False not_f_lt [of x f_zero] not_f_lt [of f_one x] not_f_lt [of f_one f_zero] f_zero_le_one
      f_le_refl
    by (auto simp: f_clamp_def Let_def in_unit_range_def)
qed

end
