(* ===== verification/Breath_Contract.thy ===== *)
theory Breath_Contract
  imports Ieee_Float
begin

text \<open>
  \<open>rusty-quest-breath-contract/src/lib.rs\<close>: the lifecycle owner of one bounded breath input and
  its replay harness. Every operation takes the injected time, returns the new owner and the
  observation \<open>snapshot\<close> it hands to the caller, and fences its caller by generation.
  Timestamps and counters are 64-bit words; samples are IEEE values.
\<close>

type_synonym timestamp = u64
type_synonym generation = u64

definition MAX_REPLAY_ACTIONS :: nat where
  "MAX_REPLAY_ACTIONS = 1024"

definition MAX_STALE_AFTER_MICROS :: u64 where
  "MAX_STALE_AFTER_MICROS = 60000000"

definition MAX_DISCONTINUITY_AFTER_MICROS :: u64 where
  "MAX_DISCONTINUITY_AFTER_MICROS = 600000000"

definition breath_observation_schema :: string where
  "breath_observation_schema = ''rusty.quest.breath_contract.observation.v1''"

definition increment :: "u64 \<Rightarrow> u64" where
  "increment n = saturating_add n 1"

section \<open>Data\<close>

datatype generation_error = Zero

definition breath_generation_new :: "u64 \<Rightarrow> generation_error + generation" where
  "breath_generation_new v = (if v = 0 then Inl Zero else Inr v)"

record breath_configuration =
  cfg_stale_after :: u64
  cfg_discontinuity_after :: u64

datatype configuration_error = InvalidStaleInterval | InvalidDiscontinuityInterval

definition breath_configuration_new ::
    "u64 \<Rightarrow> u64 \<Rightarrow> configuration_error + breath_configuration" where
  "breath_configuration_new stale discontinuity =
     (if stale = 0 \<or> MAX_STALE_AFTER_MICROS < stale then Inl InvalidStaleInterval
      else if discontinuity \<le> stale \<or> MAX_DISCONTINUITY_AFTER_MICROS < discontinuity
        then Inl InvalidDiscontinuityInterval
      else Inr \<lparr>cfg_stale_after = stale, cfg_discontinuity_after = discontinuity\<rparr>)"

datatype breath_lifecycle = Disabled | Configured | Running | Cancelled

datatype breath_action_kind = KReset | KConfigure | KStart | KCancel | KObserve

datatype breath_input =
    MissingSample
  | BreathSample (sampled_at: timestamp) (value01: f32) (quality01: f32)

record accepted_sample =
  acc_sampled_at :: timestamp
  acc_observed_at :: timestamp
  acc_age_micros :: u64
  acc_value01 :: f32
  acc_quality01 :: f32

datatype breath_status =
    StDisabled | StReset | StConfigured | StStarted | StCancelled | SampleAccepted
  | MissingInput | StaleInput | TimeDiscontinuity | RejectedInvalidConfiguration
  | RejectedInvalidLifecycle | RejectedGeneration | RejectedTimeRegression
  | RejectedMalformedInput | RejectedOutOfOrderInput | RejectedGenerationExhausted

datatype sample_error =
    NonFiniteValue | ValueOutOfBounds | NonFiniteQuality | QualityOutOfBounds | FutureTimestamp

datatype breath_rejection =
    InvalidConfiguration configuration_error
  | InvalidLifecycle breath_action_kind breath_lifecycle
  | GenerationMismatch generation "generation option"
  | TimeRegression timestamp timestamp
  | MalformedSample sample_error
  | OutOfOrderSample timestamp timestamp
  | GenerationExhausted

record breath_telemetry =
  reset_count :: u64
  configure_count :: u64
  start_count :: u64
  cancel_count :: u64
  accepted_sample_count :: u64
  missing_input_count :: u64
  stale_input_count :: u64
  malformed_input_count :: u64
  out_of_order_input_count :: u64
  generation_rejection_count :: u64
  time_regression_count :: u64
  discontinuity_count :: u64
  lifecycle_rejection_count :: u64
  configuration_rejection_count :: u64

definition breath_telemetry_default :: breath_telemetry where
  "breath_telemetry_default =
     \<lparr>reset_count = 0, configure_count = 0, start_count = 0, cancel_count = 0,
      accepted_sample_count = 0, missing_input_count = 0, stale_input_count = 0,
      malformed_input_count = 0, out_of_order_input_count = 0, generation_rejection_count = 0,
      time_regression_count = 0, discontinuity_count = 0, lifecycle_rejection_count = 0,
      configuration_rejection_count = 0\<rparr>"

record breath_observation =
  obs_schema_id :: string
  obs_lifecycle :: breath_lifecycle
  obs_generation :: "generation option"
  obs_status :: breath_status
  obs_rejection :: "breath_rejection option"
  obs_sample :: "accepted_sample option"
  obs_last_action_at :: "timestamp option"
  obs_telemetry :: breath_telemetry

record breath_contract =
  lifecycle :: breath_lifecycle
  configuration :: "breath_configuration option"
  generation :: "generation option"
  next_generation :: u64
  last_action_at :: "timestamp option"
  last_input_at :: "timestamp option"
  sample :: "accepted_sample option"
  status :: breath_status
  rejection :: "breath_rejection option"
  telemetry :: breath_telemetry

text \<open>\<open>BreathContract::default\<close>, which is also \<open>BreathContract::new\<close>.\<close>

definition breath_contract_default :: breath_contract where
  "breath_contract_default =
     \<lparr>lifecycle = Disabled, configuration = None, generation = None, next_generation = 1,
      last_action_at = None, last_input_at = None, sample = None, status = StDisabled,
      rejection = None, telemetry = breath_telemetry_default\<rparr>"

definition breath_snapshot :: "breath_contract \<Rightarrow> breath_observation" where
  "breath_snapshot c =
     \<lparr>obs_schema_id = breath_observation_schema, obs_lifecycle = lifecycle c,
      obs_generation = generation c, obs_status = status c, obs_rejection = rejection c,
      obs_sample = sample c, obs_last_action_at = last_action_at c,
      obs_telemetry = telemetry c\<rparr>"

text \<open>An operation ends with \<open>self.snapshot()\<close>: the updated owner and its observation.\<close>

definition observed :: "breath_contract \<Rightarrow> breath_contract \<times> breath_observation" where
  "observed c = (c, breath_snapshot c)"

section \<open>Rejections\<close>

definition breath_reject ::
    "breath_status \<Rightarrow> breath_rejection \<Rightarrow> breath_contract \<Rightarrow> breath_contract \<times> breath_observation" where
  "breath_reject s r c = observed (c\<lparr>status := s, rejection := Some r\<rparr>)"

definition reject_time_regression ::
    "timestamp \<Rightarrow> breath_contract \<Rightarrow> (breath_contract \<times> breath_observation) option" where
  "reject_time_regression at c =
     (case last_action_at c of
        None \<Rightarrow> None
      | Some last_accepted \<Rightarrow>
          if last_accepted \<le> at then None
          else Some (breath_reject RejectedTimeRegression (TimeRegression at last_accepted)
            (c\<lparr>telemetry := (telemetry c)\<lparr>time_regression_count :=
                increment (time_regression_count (telemetry c))\<rparr>\<rparr>)))"

definition reject_lifecycle ::
    "breath_action_kind \<Rightarrow> breath_contract \<Rightarrow> breath_contract \<times> breath_observation" where
  "reject_lifecycle action c =
     breath_reject RejectedInvalidLifecycle (InvalidLifecycle action (lifecycle c))
       (c\<lparr>telemetry := (telemetry c)\<lparr>lifecycle_rejection_count :=
           increment (lifecycle_rejection_count (telemetry c))\<rparr>\<rparr>)"

definition reject_generation ::
    "generation \<Rightarrow> breath_contract \<Rightarrow> breath_contract \<times> breath_observation" where
  "reject_generation submitted c =
     breath_reject RejectedGeneration (GenerationMismatch submitted (generation c))
       (c\<lparr>telemetry := (telemetry c)\<lparr>generation_rejection_count :=
           increment (generation_rejection_count (telemetry c))\<rparr>\<rparr>)"

definition reject_malformed ::
    "sample_error \<Rightarrow> breath_contract \<Rightarrow> breath_contract \<times> breath_observation" where
  "reject_malformed e c =
     breath_reject RejectedMalformedInput (MalformedSample e)
       (c\<lparr>sample := None,
          telemetry := (telemetry c)\<lparr>malformed_input_count :=
            increment (malformed_input_count (telemetry c))\<rparr>\<rparr>)"

section \<open>Lifecycle operations\<close>

definition breath_reset ::
    "timestamp \<Rightarrow> breath_contract \<Rightarrow> breath_contract \<times> breath_observation" where
  "breath_reset at c =
     (case reject_time_regression at c of
        Some rejected \<Rightarrow> rejected
      | None \<Rightarrow>
          observed (c\<lparr>lifecycle := Disabled, configuration := None, generation := None,
            last_action_at := Some at, last_input_at := None, sample := None, status := StReset,
            rejection := None,
            telemetry := breath_telemetry_default\<lparr>reset_count :=
              increment (reset_count breath_telemetry_default)\<rparr>\<rparr>))"

definition breath_configure ::
    "timestamp \<Rightarrow> configuration_error + breath_configuration \<Rightarrow> breath_contract
     \<Rightarrow> breath_contract \<times> breath_observation" where
  "breath_configure at cfg c =
     (case reject_time_regression at c of
        Some rejected \<Rightarrow> rejected
      | None \<Rightarrow>
          if lifecycle c = Running then reject_lifecycle KConfigure c
          else (case cfg of
              Inl e \<Rightarrow>
                breath_reject RejectedInvalidConfiguration (InvalidConfiguration e)
                  (c\<lparr>telemetry := (telemetry c)\<lparr>configuration_rejection_count :=
                      increment (configuration_rejection_count (telemetry c))\<rparr>\<rparr>)
            | Inr checked \<Rightarrow>
                observed (c\<lparr>lifecycle := Configured, configuration := Some checked,
                  generation := None, last_action_at := Some at, last_input_at := None,
                  sample := None, status := StConfigured, rejection := None,
                  telemetry := (telemetry c)\<lparr>configure_count :=
                    increment (configure_count (telemetry c))\<rparr>\<rparr>)))"

definition breath_start ::
    "timestamp \<Rightarrow> breath_contract \<Rightarrow> breath_contract \<times> breath_observation" where
  "breath_start at c =
     (case reject_time_regression at c of
        Some rejected \<Rightarrow> rejected
      | None \<Rightarrow>
          if configuration c = None \<or> \<not> (lifecycle c = Configured \<or> lifecycle c = Cancelled)
          then reject_lifecycle KStart c
          else (case checked_add (next_generation c) 1 of
              None \<Rightarrow> breath_reject RejectedGenerationExhausted GenerationExhausted c
            | Some successor \<Rightarrow>
                observed (c\<lparr>next_generation := successor, lifecycle := Running,
                  generation := Some (next_generation c), last_action_at := Some at,
                  last_input_at := None, sample := None, status := StStarted,
                  rejection := None,
                  telemetry := (telemetry c)\<lparr>start_count :=
                    increment (start_count (telemetry c))\<rparr>\<rparr>)))"

definition breath_cancel ::
    "timestamp \<Rightarrow> generation \<Rightarrow> breath_contract \<Rightarrow> breath_contract \<times> breath_observation" where
  "breath_cancel at g c =
     (if lifecycle c \<noteq> Running then reject_lifecycle KCancel c
      else if generation c \<noteq> Some g then reject_generation g c
      else (case reject_time_regression at c of
          Some rejected \<Rightarrow> rejected
        | None \<Rightarrow>
            observed (c\<lparr>lifecycle := Cancelled, generation := None, last_action_at := Some at,
              last_input_at := None, sample := None, status := StCancelled, rejection := None,
              telemetry := (telemetry c)\<lparr>cancel_count :=
                increment (cancel_count (telemetry c))\<rparr>\<rparr>)))"

text \<open>
  The last part of \<open>observe\<close>: the checks on the contents of a sample, whose source time has
  already been recorded. \<open>at.get() - sampled_at.get()\<close> cannot wrap there, because a sample from
  the future has been refused.
\<close>

definition admit_sample ::
    "timestamp \<Rightarrow> breath_configuration \<Rightarrow> timestamp \<Rightarrow> f32 \<Rightarrow> f32 \<Rightarrow> breath_contract
     \<Rightarrow> breath_contract \<times> breath_observation" where
  "admit_sample at cfg sampled v q c =
     (if \<not> is_finite v then reject_malformed NonFiniteValue c
      else if \<not> in_unit_range v then reject_malformed ValueOutOfBounds c
      else if \<not> is_finite q then reject_malformed NonFiniteQuality c
      else if \<not> in_unit_range q then reject_malformed QualityOutOfBounds c
      else
        let age = at - sampled
        in if cfg_stale_after cfg < age then
             observed (c\<lparr>sample := None, status := StaleInput, rejection := None,
               telemetry := (telemetry c)\<lparr>stale_input_count :=
                 increment (stale_input_count (telemetry c))\<rparr>\<rparr>)
           else
             observed (c\<lparr>
               sample := Some \<lparr>acc_sampled_at = sampled, acc_observed_at = at,
                 acc_age_micros = age, acc_value01 = v, acc_quality01 = q\<rparr>,
               status := SampleAccepted, rejection := None,
               telemetry := (telemetry c)\<lparr>accepted_sample_count :=
                 increment (accepted_sample_count (telemetry c))\<rparr>\<rparr>))"

text \<open>The \<open>match input\<close> of \<open>observe\<close>.\<close>

definition observe_input ::
    "timestamp \<Rightarrow> breath_configuration \<Rightarrow> breath_input \<Rightarrow> breath_contract
     \<Rightarrow> breath_contract \<times> breath_observation" where
  "observe_input at cfg input c =
     (case input of
        MissingSample \<Rightarrow>
          observed (c\<lparr>sample := None, status := MissingInput, rejection := None,
            telemetry := (telemetry c)\<lparr>missing_input_count :=
              increment (missing_input_count (telemetry c))\<rparr>\<rparr>)
      | BreathSample sampled v q \<Rightarrow>
          if at < sampled then reject_malformed FutureTimestamp c
          else (case last_input_at c of
              Some last_input \<Rightarrow>
                if sampled \<le> last_input then
                  breath_reject RejectedOutOfOrderInput (OutOfOrderSample sampled last_input)
                    (c\<lparr>sample := None,
                       telemetry := (telemetry c)\<lparr>out_of_order_input_count :=
                         increment (out_of_order_input_count (telemetry c))\<rparr>\<rparr>)
                else admit_sample at cfg sampled v q (c\<lparr>last_input_at := Some sampled\<rparr>)
            | None \<Rightarrow> admit_sample at cfg sampled v q (c\<lparr>last_input_at := Some sampled\<rparr>)))"

definition breath_observe ::
    "timestamp \<Rightarrow> generation \<Rightarrow> breath_input \<Rightarrow> breath_contract
     \<Rightarrow> breath_contract \<times> breath_observation" where
  "breath_observe at g input c =
     (if lifecycle c \<noteq> Running then reject_lifecycle KObserve c
      else if generation c \<noteq> Some g then reject_generation g c
      else (case reject_time_regression at c of
          Some rejected \<Rightarrow> rejected
        | None \<Rightarrow>
            (case configuration c of
               None \<Rightarrow> reject_lifecycle KObserve c
             | Some cfg \<Rightarrow>
                 if (case last_action_at c of
                       Some last_action \<Rightarrow> cfg_discontinuity_after cfg < saturating_sub at last_action
                     | None \<Rightarrow> False)
                 then observed (c\<lparr>last_action_at := Some at, sample := None,
                   status := TimeDiscontinuity, rejection := None,
                   telemetry := (telemetry c)\<lparr>discontinuity_count :=
                     increment (discontinuity_count (telemetry c))\<rparr>\<rparr>)
                 else observe_input at cfg input (c\<lparr>last_action_at := Some at\<rparr>))))"

section \<open>Bounded replay\<close>

datatype replay_generation = Current | Exact generation

datatype replay_action =
    ReplayReset timestamp
  | ReplayConfigure timestamp "configuration_error + breath_configuration"
  | ReplayStart timestamp
  | ReplayCancel timestamp replay_generation
  | ReplayObserve timestamp replay_generation breath_input

datatype replay_error =
    InvalidActionLimit
  | ActionLimitExceeded nat nat
  | CurrentGenerationUnavailable nat

definition resolve_replay_generation ::
    "breath_contract \<Rightarrow> replay_generation \<Rightarrow> nat \<Rightarrow> replay_error + generation" where
  "resolve_replay_generation c selector index =
     (case selector of
        Current \<Rightarrow> ok_or (CurrentGenerationUnavailable index) (generation c)
      | Exact g \<Rightarrow> Inr g)"

definition replay_step ::
    "nat \<Rightarrow> replay_action \<Rightarrow> breath_contract \<Rightarrow> replay_error + breath_contract \<times> breath_observation" where
  "replay_step index action c =
     (case action of
        ReplayReset at \<Rightarrow> Inr (breath_reset at c)
      | ReplayConfigure at cfg \<Rightarrow> Inr (breath_configure at cfg c)
      | ReplayStart at \<Rightarrow> Inr (breath_start at c)
      | ReplayCancel at selector \<Rightarrow>
          and_then (resolve_replay_generation c selector index) (\<lambda>g. Inr (breath_cancel at g c))
      | ReplayObserve at selector input \<Rightarrow>
          and_then (resolve_replay_generation c selector index)
            (\<lambda>g. Inr (breath_observe at g input c)))"

text \<open>The loop of \<open>run_bounded_replay\<close> from action \<open>index\<close> on: the observations in order.\<close>

primrec replay_from ::
    "nat \<Rightarrow> replay_action list \<Rightarrow> breath_contract \<Rightarrow> replay_error + breath_observation list" where
  "replay_from index [] c = Inr []"
| "replay_from index (a # as) c =
     and_then (replay_step index a c) (\<lambda>(c', obs).
       and_then (replay_from (Suc index) as c') (\<lambda>rest. Inr (obs # rest)))"

definition run_bounded_replay ::
    "replay_action list \<Rightarrow> nat \<Rightarrow> replay_error + breath_observation list" where
  "run_bounded_replay actions max_actions =
     (if max_actions = 0 \<or> MAX_REPLAY_ACTIONS < max_actions then Inl InvalidActionLimit
      else if max_actions < length actions
        then Inl (ActionLimitExceeded (length actions) max_actions)
      else replay_from 0 actions breath_contract_default)"

definition final_observation :: "breath_observation list \<Rightarrow> breath_observation option" where
  "final_observation os = (if os = [] then None else Some (last os))"

end
