(* ===== verification/Generation_Fence.thy ===== *)
theory Generation_Fence
  imports Quest_Prelude
begin

text \<open>
  The contract that owners with a generation allocator share: the allocator only moves forward,
  the current generation was allocated, and a step either keeps it or installs one that the
  allocator had not yet issued. Clients rely on the two consequences: an issued generation that is
  no longer current never becomes current again, and generation numbers do not go back.
\<close>

locale generation_fence =
  fixes step :: "'s \<Rightarrow> 's \<Rightarrow> bool"
    and wf_state :: "'s \<Rightarrow> bool"
    and current :: "'s \<Rightarrow> u64 option"
    and upcoming :: "'s \<Rightarrow> u64"
  assumes kept_wf: "step a b \<Longrightarrow> wf_state a \<Longrightarrow> wf_state b"
    and issued: "wf_state a \<Longrightarrow> current a = Some g \<Longrightarrow> g < upcoming a"
    and forward: "step a b \<Longrightarrow> wf_state a \<Longrightarrow> upcoming a \<le> upcoming b"
    and fresh: "step a b \<Longrightarrow> wf_state a \<Longrightarrow> current b = Some g
      \<Longrightarrow> current a = Some g \<or> upcoming a \<le> g"
begin

lemma steps_wf: "step\<^sup>*\<^sup>* a b \<Longrightarrow> wf_state a \<Longrightarrow> wf_state b"
  by (induction rule: rtranclp_induct) (auto intro: kept_wf)

lemma steps_forward: "step\<^sup>*\<^sup>* a b \<Longrightarrow> wf_state a \<Longrightarrow> upcoming a \<le> upcoming b"
  by (induction rule: rtranclp_induct) (auto dest: forward steps_wf intro: order_trans)

lemma fenced:
  assumes "step\<^sup>*\<^sup>* a b" "wf_state a" "g < upcoming a" "current a \<noteq> Some g"
  shows "current b \<noteq> Some g"
  using assms
proof (induction rule: rtranclp_induct)
  case (step y z)
  then have "wf_state y" "g < upcoming y"
    using steps_wf steps_forward by (blast intro: less_le_trans)+
  with step show ?case
    using fresh [of y z g] by auto
qed

lemma generations_increase:
  assumes "step\<^sup>*\<^sup>* a b" "wf_state a" "current a = Some g" "current b = Some h"
  shows "g \<le> h"
  using assms
proof (induction arbitrary: h rule: rtranclp_induct)
  case (step y z)
  have "g < upcoming y"
    using issued [OF step.prems(1,2)] steps_forward [OF step.hyps(1) step.prems(1)] by (rule less_le_trans)
  with step show ?case
    using fresh [OF step.hyps(2) steps_wf [OF step.hyps(1) step.prems(1)] step.prems(3)] by force
qed simp

end

end
