(* ===== verification/Breath_Proofs.thy ===== *)
theory Breath_Proofs
  imports Breath_Contract Generation_Fence
begin

text \<open>
  The step relation of the breath lifecycle owner, its well-formedness invariant and the order
  that two observations of one run stand in. The invariant and the order are proved once per
  operation; runs follow by induction.
\<close>

text \<open>One call of a public operation; \<open>o'\<close> is the observation the caller gets.\<close>

inductive breath_step :: "breath_contract \<Rightarrow> breath_contract \<Rightarrow> bool" where
  step_reset: "breath_reset at c = (c', o') \<Longrightarrow> breath_step c c'"
| step_configure: "breath_configure at cfg c = (c', o') \<Longrightarrow> breath_step c c'"
| step_start: "breath_start at c = (c', o') \<Longrightarrow> breath_step c c'"
| step_cancel: "breath_cancel at g c = (c', o') \<Longrightarrow> breath_step c c'"
| step_observe: "breath_observe at g input c = (c', o') \<Longrightarrow> breath_step c c'"

inductive breath_run :: "breath_contract \<Rightarrow> breath_contract \<Rightarrow> bool" where
  run_refl: "breath_run c c"
| run_step: "breath_run c c' \<Longrightarrow> breath_step c' c'' \<Longrightarrow> breath_run c c''"

text \<open>What must hold of an accepted sample in the state that carries it.\<close>

definition sample_wf :: "breath_contract \<Rightarrow> accepted_sample \<Rightarrow> bool" where
  "sample_wf c s =
     (lifecycle c = Running
      \<and> last_action_at c = Some (acc_observed_at s)
      \<and> last_input_at c = Some (acc_sampled_at s)
      \<and> acc_sampled_at s \<le> acc_observed_at s
      \<and> acc_age_micros s = acc_observed_at s - acc_sampled_at s
      \<and> (case configuration c of
           Some cfg \<Rightarrow> acc_age_micros s \<le> cfg_stale_after cfg | None \<Rightarrow> False)
      \<and> in_unit_range (acc_value01 s) \<and> in_unit_range (acc_quality01 s))"

definition breath_wf :: "breath_contract \<Rightarrow> bool" where
  "breath_wf c =
     (next_generation c \<noteq> 0
      \<and> (lifecycle c = Running \<longleftrightarrow> generation c \<noteq> None)
      \<and> (lifecycle c = Disabled \<longleftrightarrow> configuration c = None)
      \<and> (\<forall>g. generation c = Some g \<longrightarrow> g \<noteq> 0 \<and> g < next_generation c)
      \<and> (\<forall>s. sample c = Some s \<longrightarrow> sample_wf c s)
      \<and> (status c = SampleAccepted \<longrightarrow> sample c \<noteq> None))"

definition not_after :: "timestamp option \<Rightarrow> timestamp option \<Rightarrow> bool" where
  "not_after a b = (case a of None \<Rightarrow> True | Some t \<Rightarrow> (case b of None \<Rightarrow> False | Some u \<Rightarrow> t \<le> u))"

lemma not_after_refl [simp]: "not_after a a"
  by (simp add: not_after_def split: option.splits)

lemma not_after_trans: "not_after a b \<Longrightarrow> not_after b c \<Longrightarrow> not_after a c"
  by (auto simp: not_after_def split: option.splits)

lemma not_after_Some [simp]:
  "not_after (Some t) x \<longleftrightarrow> (\<exists>u. x = Some u \<and> t \<le> u)"
  "not_after None x"
  by (auto simp: not_after_def split: option.splits)

lemma default_wf: "breath_wf breath_contract_default"
  by (simp add: breath_wf_def breath_contract_default_def)

lemma checked_succ: "checked_add n 1 = Some m \<Longrightarrow> n < m \<and> m \<noteq> 0"
  by (auto simp: checked_add_eq_Some_iff word_less_nat_alt)

text \<open>
  A rejection outside a running observation keeps the whole state but the status, the reason and
  a counter.
\<close>

definition same_owner :: "breath_contract \<Rightarrow> breath_contract \<Rightarrow> bool" where
  "same_owner c c' =
     (lifecycle c' = lifecycle c \<and> configuration c' = configuration c
      \<and> generation c' = generation c \<and> next_generation c' = next_generation c)"

definition kept :: "breath_contract \<Rightarrow> breath_contract \<Rightarrow> bool" where
  "kept c c' =
     (same_owner c c' \<and> last_action_at c' = last_action_at c \<and> last_input_at c' = last_input_at c
      \<and> sample c' = sample c \<and> status c' \<noteq> SampleAccepted)"

lemma kept_reject [simp]:
  "s \<noteq> SampleAccepted \<Longrightarrow> kept c (fst (breath_reject s r (c\<lparr>telemetry := t\<rparr>)))"
  "s \<noteq> SampleAccepted \<Longrightarrow> kept c (fst (breath_reject s r c))"
  by (simp_all add: kept_def same_owner_def breath_reject_def observed_def)

lemma kept_rejections [simp]:
  "kept c (fst (reject_lifecycle a c))"
  "kept c (fst (reject_generation g c))"
  "reject_time_regression at c = Some p \<Longrightarrow> kept c (fst p)"
  by (auto simp: reject_lifecycle_def reject_generation_def reject_time_regression_def
      split: option.splits if_splits)

lemma no_regression: "reject_time_regression at c = None \<Longrightarrow> not_after (last_action_at c) (Some at)"
  by (auto simp: reject_time_regression_def not_after_def split: option.splits if_splits)

text \<open>A sample disappears with the input that displaced it: \<open>dropped\<close> is such an observation.\<close>

definition dropped :: "timestamp \<Rightarrow> breath_contract \<Rightarrow> breath_contract \<Rightarrow> bool" where
  "dropped at c c' =
     (same_owner c c' \<and> last_action_at c' = Some at
      \<and> not_after (last_input_at c) (last_input_at c')
      \<and> sample c' = None \<and> status c' \<noteq> SampleAccepted)"

definition accepted :: "timestamp \<Rightarrow> breath_contract \<Rightarrow> breath_contract \<Rightarrow> bool" where
  "accepted at c c' =
     (same_owner c c' \<and> last_action_at c' = Some at \<and> status c' = SampleAccepted
      \<and> (case (sample c', configuration c) of
           (Some s, Some cfg) \<Rightarrow>
             acc_observed_at s = at \<and> acc_sampled_at s \<le> at
             \<and> acc_age_micros s = at - acc_sampled_at s \<and> acc_age_micros s \<le> cfg_stale_after cfg
             \<and> in_unit_range (acc_value01 s) \<and> in_unit_range (acc_quality01 s)
             \<and> last_input_at c' = Some (acc_sampled_at s)
             \<and> (case last_input_at c of None \<Rightarrow> True | Some t \<Rightarrow> t < acc_sampled_at s)
         | _ \<Rightarrow> False))"

lemma admit_sample_outcome:
  assumes cfg: "configuration c = Some cfg" and past: "sampled \<le> at"
    and newer: "\<forall>u. last_input_at c = Some u \<longrightarrow> u < sampled"
  shows "dropped at c (fst (admit_sample at cfg sampled v q
             (c\<lparr>last_action_at := Some at, last_input_at := Some sampled\<rparr>)))
         \<or> accepted at c (fst (admit_sample at cfg sampled v q
             (c\<lparr>last_action_at := Some at, last_input_at := Some sampled\<rparr>)))"
  using assms
  by (auto simp: admit_sample_def reject_malformed_def breath_reject_def observed_def Let_def
      not_less less_imp_le dropped_def accepted_def same_owner_def not_after_def
      split: option.splits)

lemma observe_input_outcome:
  assumes cfg: "configuration c = Some cfg"
  shows "dropped at c (fst (observe_input at cfg input (c\<lparr>last_action_at := Some at\<rparr>)))
         \<or> accepted at c (fst (observe_input at cfg input (c\<lparr>last_action_at := Some at\<rparr>)))"
proof (cases input)
  case MissingSample
  then show ?thesis
    by (simp add: observe_input_def observed_def dropped_def same_owner_def)
next
  case (BreathSample sampled v q)
  consider "at < sampled" | "\<not> at < sampled" "\<exists>u. last_input_at c = Some u \<and> sampled \<le> u"
    | "sampled \<le> at" "\<forall>u. last_input_at c = Some u \<longrightarrow> u < sampled"
    by (meson not_less)
  then show ?thesis
  proof cases
    case 1
    then show ?thesis
      using BreathSample
      by (simp add: observe_input_def reject_malformed_def breath_reject_def observed_def
          dropped_def same_owner_def)
  next
    case 2
    then show ?thesis
      using BreathSample
      by (auto simp: observe_input_def breath_reject_def observed_def dropped_def same_owner_def)
  next
    case 3
    then have "fst (observe_input at cfg input (c\<lparr>last_action_at := Some at\<rparr>))
      = fst (admit_sample at cfg sampled v q
          (c\<lparr>last_action_at := Some at, last_input_at := Some sampled\<rparr>))"
      using BreathSample by (auto simp: observe_input_def not_less split: option.splits)
    then show ?thesis
      using admit_sample_outcome [OF cfg 3] by simp
  qed
qed

lemma observe_outcome:
  "kept c (fst (breath_observe at g input c))
   \<or> lifecycle c = Running \<and> generation c = Some g \<and> not_after (last_action_at c) (Some at)
     \<and> (dropped at c (fst (breath_observe at g input c))
        \<or> accepted at c (fst (breath_observe at g input c)))"
proof -
  consider "lifecycle c \<noteq> Running \<or> generation c \<noteq> Some g \<or> reject_time_regression at c \<noteq> None
      \<or> configuration c = None"
    | cfg where "lifecycle c = Running" "generation c = Some g"
      "reject_time_regression at c = None" "configuration c = Some cfg"
    by blast
  then show ?thesis
  proof cases
    case 1
    then show ?thesis
      by (auto simp: breath_observe_def split: option.splits)
  next
    case (2 cfg)
    then show ?thesis
      using observe_input_outcome [OF 2(4), of at input]
      by (auto simp: breath_observe_def no_regression observed_def dropped_def same_owner_def)
  qed
qed

text \<open>\<open>stopped\<close>: reset, configure and cancel end a generation; \<open>started\<close>: start allocates one.\<close>

definition stopped :: "timestamp \<Rightarrow> breath_contract \<Rightarrow> breath_contract \<Rightarrow> bool" where
  "stopped at c c' =
     (last_action_at c' = Some at \<and> generation c' = None \<and> sample c' = None
      \<and> lifecycle c' \<noteq> Running \<and> (lifecycle c' = Disabled \<longleftrightarrow> configuration c' = None)
      \<and> next_generation c' = next_generation c \<and> status c' \<noteq> SampleAccepted)"

definition started :: "timestamp \<Rightarrow> breath_contract \<Rightarrow> breath_contract \<Rightarrow> bool" where
  "started at c c' =
     (last_action_at c' = Some at \<and> generation c' = Some (next_generation c) \<and> sample c' = None
      \<and> last_input_at c' = None \<and> lifecycle c' = Running \<and> configuration c' \<noteq> None
      \<and> generation c = None \<and> next_generation c < next_generation c'
      \<and> status c' \<noteq> SampleAccepted)"

lemma reset_outcome:
  "kept c (fst (breath_reset at c))
   \<or> not_after (last_action_at c) (Some at) \<and> stopped at c (fst (breath_reset at c))"
  by (cases "reject_time_regression at c")
    (simp_all add: breath_reset_def observed_def stopped_def no_regression)

lemma configure_outcome:
  "kept c (fst (breath_configure at cfg c))
   \<or> not_after (last_action_at c) (Some at) \<and> stopped at c (fst (breath_configure at cfg c))"
  by (cases "reject_time_regression at c"; cases cfg)
    (simp_all add: breath_configure_def observed_def stopped_def no_regression)

lemma cancel_outcome:
  assumes "breath_wf c"
  shows "kept c (fst (breath_cancel at g c))
    \<or> not_after (last_action_at c) (Some at) \<and> stopped at c (fst (breath_cancel at g c))"
  using assms by (cases "reject_time_regression at c")
    (auto simp: breath_cancel_def observed_def stopped_def no_regression breath_wf_def)

lemma start_outcome:
  assumes "breath_wf c"
  shows "kept c (fst (breath_start at c))
    \<or> not_after (last_action_at c) (Some at) \<and> started at c (fst (breath_start at c))"
proof (cases "reject_time_regression at c")
  case None
  have "generation c = None" if "lifecycle c = Configured \<or> lifecycle c = Cancelled"
    using assms that by (auto simp: breath_wf_def)
  with None show ?thesis
    by (cases "checked_add (next_generation c) 1")
      (auto simp: breath_start_def observed_def started_def no_regression dest: checked_succ)
qed (simp add: breath_start_def)

lemma step_outcome:
  assumes "breath_step c c'" "breath_wf c"
  obtains "kept c c'"
  | at where "not_after (last_action_at c) (Some at)" "stopped at c c'"
  | at where "not_after (last_action_at c) (Some at)" "started at c c'"
  | at where "not_after (last_action_at c) (Some at)" "lifecycle c = Running" "dropped at c c'"
  | at where "not_after (last_action_at c) (Some at)" "lifecycle c = Running" "accepted at c c'"
  using assms
proof cases
  case (step_reset at o')
  then show ?thesis using reset_outcome [of c at] that by auto
next
  case (step_configure at cfg o')
  then show ?thesis using configure_outcome [of c at cfg] that by auto
next
  case (step_start at o')
  then show ?thesis using start_outcome [OF assms(2), of at] that by auto
next
  case (step_cancel at g o')
  then show ?thesis using cancel_outcome [OF assms(2), of at g] that by auto
next
  case (step_observe at g input o')
  then show ?thesis using observe_outcome [of c at g input] that by auto
qed

lemma step_wf:
  assumes "breath_step c c'" "breath_wf c"
  shows "breath_wf c'"
  using assms
proof (cases rule: step_outcome)
  case 1
  with assms(2) show ?thesis by (auto simp: breath_wf_def kept_def same_owner_def sample_wf_def)
next
  case 2
  with assms(2) show ?thesis by (auto simp: breath_wf_def stopped_def)
next
  case 3
  with assms(2) show ?thesis by (auto simp: breath_wf_def started_def)
next
  case 4
  with assms(2) show ?thesis by (auto simp: breath_wf_def dropped_def same_owner_def)
next
  case 5
  with assms(2) show ?thesis by (auto simp: breath_wf_def accepted_def same_owner_def sample_wf_def split: option.splits)
qed

lemma run_wf: "breath_run c c' \<Longrightarrow> breath_wf c \<Longrightarrow> breath_wf c'"
  by (induction rule: breath_run.induct) (auto intro: step_wf)

section \<open>What one call may change\<close>

text \<open>
  \<open>moves_on c c'\<close>: time and the generation allocator do not go back; a generation other than the
  current one is freshly allocated; within a generation source times only advance, and an
  accepted sample is strictly newer than every sample the generation has seen.
\<close>

definition moves_on :: "breath_contract \<Rightarrow> breath_contract \<Rightarrow> bool" where
  "moves_on c c' =
     (next_generation c \<le> next_generation c'
      \<and> not_after (last_action_at c) (last_action_at c')
      \<and> (\<forall>g. generation c' = Some g \<longrightarrow> generation c = Some g \<or> next_generation c \<le> g)
      \<and> (generation c' = generation c \<and> generation c \<noteq> None \<longrightarrow>
           not_after (last_input_at c) (last_input_at c')
           \<and> (\<forall>t s. status c' = SampleAccepted \<and> last_input_at c = Some t \<and> sample c' = Some s
                \<longrightarrow> t < acc_sampled_at s)))"

lemma step_moves_on:
  assumes "breath_step c c'" "breath_wf c"
  shows "moves_on c c'"
  using assms
proof (cases rule: step_outcome)
  case 1
  then show ?thesis by (auto simp: moves_on_def kept_def same_owner_def)
next
  case 2
  then show ?thesis by (auto simp: moves_on_def stopped_def)
next
  case 3
  then show ?thesis by (auto simp: moves_on_def started_def)
next
  case 4
  then show ?thesis by (auto simp: moves_on_def dropped_def same_owner_def)
next
  case 5
  then show ?thesis
    by (auto simp: moves_on_def accepted_def same_owner_def not_after_def less_imp_le split: option.splits)
qed

section \<open>Replays\<close>

text \<open>Every operation hands out the snapshot of the state it leaves.\<close>

lemma reject_snapshots:
  "snd (breath_reject s r c) = breath_snapshot (fst (breath_reject s r c))"
  "snd (reject_lifecycle a c) = breath_snapshot (fst (reject_lifecycle a c))"
  "snd (reject_generation g c) = breath_snapshot (fst (reject_generation g c))"
  "snd (reject_malformed e c) = breath_snapshot (fst (reject_malformed e c))"
  "snd (observed c) = breath_snapshot (fst (observed c))"
  "reject_time_regression at c = Some p \<Longrightarrow> snd p = breath_snapshot (fst p)"
  by (auto simp: reject_lifecycle_def reject_generation_def reject_malformed_def breath_reject_def
      observed_def reject_time_regression_def split: option.splits if_splits)

lemma admit_sample_snapshot:
  "snd (admit_sample at cfg sampled v q c) = breath_snapshot (fst (admit_sample at cfg sampled v q c))"
  by (simp add: admit_sample_def Let_def reject_snapshots)

lemma observe_input_snapshot:
  "snd (observe_input at cfg input c) = breath_snapshot (fst (observe_input at cfg input c))"
  by (simp add: observe_input_def reject_snapshots admit_sample_snapshot
      split: breath_input.splits option.splits)

lemma operation_snapshots:
  "snd (breath_reset at c) = breath_snapshot (fst (breath_reset at c))"
  "snd (breath_configure at cfg c) = breath_snapshot (fst (breath_configure at cfg c))"
  "snd (breath_start at c) = breath_snapshot (fst (breath_start at c))"
  "snd (breath_cancel at g c) = breath_snapshot (fst (breath_cancel at g c))"
  "snd (breath_observe at g input c) = breath_snapshot (fst (breath_observe at g input c))"
  by (simp_all add: breath_reset_def breath_configure_def breath_start_def breath_cancel_def
      breath_observe_def reject_snapshots observe_input_snapshot split: option.splits sum.splits)

lemma operation_steps:
  "breath_step c (fst (breath_reset at c))"
  "breath_step c (fst (breath_configure at cfg c))"
  "breath_step c (fst (breath_start at c))"
  "breath_step c (fst (breath_cancel at g c))"
  "breath_step c (fst (breath_observe at g input c))"
  by (rule breath_step.intros [OF surjective_pairing])+

lemma replay_step_sound:
  assumes "replay_step i a c = Inr p"
  shows "breath_step c (fst p) \<and> snd p = breath_snapshot (fst p)"
  using assms
  by (auto simp: replay_step_def and_then_eq_Inr operation_steps operation_snapshots
      split: replay_action.splits)

lemma replay_from_Cons:
  "replay_from i (a # as) c = Inr os \<longleftrightarrow>
     (\<exists>c' rest. replay_step i a c = Inr (c', breath_snapshot c')
        \<and> replay_from (Suc i) as c' = Inr rest \<and> os = breath_snapshot c' # rest)"
proof
  assume "replay_from i (a # as) c = Inr os"
  then obtain p rest where p: "replay_step i a c = Inr p" "replay_from (Suc i) as (fst p) = Inr rest"
      "os = snd p # rest"
    by (auto simp: and_then_eq_Inr split: prod.splits)
  moreover have "snd p = breath_snapshot (fst p)"
    using replay_step_sound [OF p(1)] by simp
  ultimately show "\<exists>c' rest. replay_step i a c = Inr (c', breath_snapshot c')
        \<and> replay_from (Suc i) as c' = Inr rest \<and> os = breath_snapshot c' # rest"
    by (metis prod.collapse)
qed auto

text \<open>What an observation made in or after state \<open>c\<close> may show.\<close>

definition seen_from :: "breath_contract \<Rightarrow> breath_observation \<Rightarrow> bool" where
  "seen_from c ob =
     (not_after (last_action_at c) (obs_last_action_at ob)
      \<and> (\<forall>g. obs_generation ob = Some g \<longrightarrow> generation c = Some g \<or> next_generation c \<le> g)
      \<and> (\<forall>g t s. obs_generation ob = Some g \<and> generation c = Some g
           \<and> obs_status ob = SampleAccepted \<and> last_input_at c = Some t \<and> obs_sample ob = Some s
           \<longrightarrow> t < acc_sampled_at s))"

lemma seen_from_step:
  "moves_on c c' \<Longrightarrow> seen_from c (breath_snapshot c')"
  by (auto simp: seen_from_def moves_on_def breath_snapshot_def)

lemma seen_from_moves:
  assumes "moves_on c c'" "breath_wf c" "seen_from c' ob"
  shows "seen_from c ob"
proof -
  have "t < acc_sampled_at s"
    if here: "obs_generation ob = Some g" "generation c = Some g" "obs_status ob = SampleAccepted"
      "last_input_at c = Some t" "obs_sample ob = Some s" for g t s
  proof -
    have "g < next_generation c'"
      using here(2) assms(1,2) by (auto simp: breath_wf_def moves_on_def)
    then have "generation c' = Some g"
      using here(1) assms(3) by (force simp: seen_from_def)
    then obtain u where "last_input_at c' = Some u" "t \<le> u"
      using assms(1) here(2,4) by (auto simp: moves_on_def)
    then show ?thesis
      using assms(3) here \<open>generation c' = Some g\<close> by (fastforce simp: seen_from_def)
  qed
  moreover have "generation c = Some g \<or> next_generation c \<le> g" if "obs_generation ob = Some g" for g
    using that assms(1,3) unfolding seen_from_def moves_on_def by (meson order_trans)
  ultimately show ?thesis
    using assms(1,3) not_after_trans unfolding seen_from_def moves_on_def by blast
qed

lemma replay_seen_from:
  "breath_wf c \<Longrightarrow> replay_from i as c = Inr os \<Longrightarrow> ob \<in> set os \<Longrightarrow> seen_from c ob"
proof (induction as arbitrary: i c os)
  case (Cons a as)
  then obtain c' rest where step: "replay_step i a c = Inr (c', breath_snapshot c')"
      and rest: "replay_from (Suc i) as c' = Inr rest" "os = breath_snapshot c' # rest"
    by (auto simp only: replay_from_Cons)
  have "breath_step c c'"
    using replay_step_sound [OF step] by simp
  then have "moves_on c c'" "breath_wf c'"
    using Cons.prems(1) by (auto intro: step_moves_on step_wf)
  then show ?case
    using Cons.IH [OF _ rest(1)] Cons.prems rest(2) seen_from_step seen_from_moves by auto
qed simp

text \<open>
  \<open>ob\<close> comes before \<open>ob'\<close> in one run: action time and generation numbers do not go back, and a
  sample accepted later in the same generation has a later source time.
\<close>

definition precedes :: "breath_observation \<Rightarrow> breath_observation \<Rightarrow> bool" where
  "precedes ob ob' =
     (not_after (obs_last_action_at ob) (obs_last_action_at ob')
      \<and> (\<forall>g h. obs_generation ob = Some g \<and> obs_generation ob' = Some h \<longrightarrow> g \<le> h)
      \<and> (\<forall>s s'. obs_generation ob = obs_generation ob' \<and> obs_status ob' = SampleAccepted
           \<and> obs_sample ob = Some s \<and> obs_sample ob' = Some s'
           \<longrightarrow> acc_sampled_at s < acc_sampled_at s'))"

lemma seen_from_precedes:
  assumes "breath_wf c" "seen_from c ob"
  shows "precedes (breath_snapshot c) ob"
proof -
  have "acc_sampled_at s < acc_sampled_at s'"
    if here: "generation c = obs_generation ob" "obs_status ob = SampleAccepted"
      "sample c = Some s" "obs_sample ob = Some s'" for s s'
  proof -
    have "lifecycle c = Running" "last_input_at c = Some (acc_sampled_at s)"
      using assms(1) here(3) by (auto simp: breath_wf_def sample_wf_def)
    moreover obtain g where "generation c = Some g"
      using assms(1) \<open>lifecycle c = Running\<close> by (auto simp: breath_wf_def)
    ultimately show ?thesis
      using assms(2) here by (auto simp: seen_from_def)
  qed
  moreover have "g \<le> h" if "generation c = Some g" "obs_generation ob = Some h" for g h
    using assms that by (force simp: breath_wf_def seen_from_def)
  ultimately show ?thesis
    using assms(2) by (auto simp: precedes_def breath_snapshot_def seen_from_def)
qed

lemma replay_sorted:
  "breath_wf c \<Longrightarrow> replay_from i as c = Inr os \<Longrightarrow> sorted_wrt precedes os"
proof (induction as arbitrary: i c os)
  case (Cons a as)
  then obtain c' rest where step: "replay_step i a c = Inr (c', breath_snapshot c')"
      and rest: "replay_from (Suc i) as c' = Inr rest" "os = breath_snapshot c' # rest"
    by (auto simp only: replay_from_Cons)
  have "breath_wf c'"
    using replay_step_sound [OF step] Cons.prems(1) by (auto intro: step_wf)
  then show ?case
    using Cons.IH [OF _ rest(1)] replay_seen_from [OF _ rest(1)] rest(2) seen_from_precedes
    by auto
qed simp

text \<open>Observations only ever show well-formed states.\<close>

lemma replay_shows_wf:
  "breath_wf c \<Longrightarrow> replay_from i as c = Inr os \<Longrightarrow> ob \<in> set os
   \<Longrightarrow> \<exists>c'. breath_wf c' \<and> breath_run c c' \<and> ob = breath_snapshot c'"
proof (induction as arbitrary: i c os)
  case (Cons a as)
  then obtain c' rest where step: "replay_step i a c = Inr (c', breath_snapshot c')"
      and rest: "replay_from (Suc i) as c' = Inr rest" "os = breath_snapshot c' # rest"
    by (auto simp only: replay_from_Cons)
  have next_step: "breath_step c c'"
    using replay_step_sound [OF step] by simp
  then have wf: "breath_wf c'"
    using Cons.prems(1) by (rule step_wf)
  have joined: "breath_run c d" if "breath_run c' d" for d
    using that next_step by (induction rule: breath_run.induct) (auto intro: breath_run.intros)
  show ?case
    using Cons.IH [OF wf rest(1)] Cons.prems(3) rest(2) wf joined run_refl by fastforce
qed simp

text \<open>A generation that is over stays over.\<close>

interpretation breath: generation_fence breath_step breath_wf generation next_generation
proof
  fix a b g
  assume step: "breath_step a b" "breath_wf a"
  then show "breath_wf b"
    by (rule step_wf)
  show "next_generation a \<le> next_generation b"
    using step_moves_on [OF step] by (simp add: moves_on_def)
  show "generation a = Some g \<or> next_generation a \<le> g" if "generation b = Some g"
    using step_moves_on [OF step] that by (simp add: moves_on_def)
next
  fix a g
  assume "breath_wf a" "generation a = Some g"
  then show "g < next_generation a"
    by (simp add: breath_wf_def)
qed

lemma run_steps: "breath_run c c' \<Longrightarrow> breath_step\<^sup>*\<^sup>* c c'"
  by (induction rule: breath_run.induct) auto

end
