(* ===== verification/Breath_Phase.thy ===== *)
theory Breath_Phase
  imports Breath_Contract
begin

text \<open>
  \<open>rusty-quest-breath-contract/src/phase.rs\<close>: the classifier that turns a normalized signal into
  a committed breathing phase, with derivative filtering, hysteresis, confirmation, dwell and a
  reset of all history on every irregular input. The derivative is computed in IEEE arithmetic
  exactly as the source orders the operations.
\<close>

definition phase_observation_schema :: string where
  "phase_observation_schema = ''rusty.quest.breath_phase.observation.v1''"

definition MAX_DERIVATIVE_PER_SECOND :: f64 where
  "MAX_DERIVATIVE_PER_SECOND = f64_literal 1000 1"

definition MAX_PHASE_INTERVAL_MICROS :: u64 where
  "MAX_PHASE_INTERVAL_MICROS = 10000000"

section \<open>Data\<close>

datatype common_phase = Unknown | Inhale | Exhale | Hold | BadTracking

record phase_parameters =
  enter_derivative :: f64
  exit_derivative :: f64
  filter_alpha :: f64
  directional_confirmation :: u64
  hold_confirmation :: u64
  minimum_dwell :: u64
  phase_stale_after :: u64
  phase_discontinuity_after :: u64
  inverted :: bool

definition phase_parameters_default :: phase_parameters where
  "phase_parameters_default =
     \<lparr>enter_derivative = f64_literal 10 100, exit_derivative = f64_literal 35 1000,
      filter_alpha = f64_literal 45 100, directional_confirmation = 100000,
      hold_confirmation = 140000, minimum_dwell = 160000, phase_stale_after = 250000,
      phase_discontinuity_after = 1500000, inverted = False\<rparr>"

datatype phase_configuration_error =
    InvalidEnterDerivative | InvalidExitDerivative | InvalidFilterAlpha
  | InvalidDirectionalConfirmation | InvalidHoldConfirmation | InvalidMinimumDwell
  | InvalidPhaseStaleInterval | InvalidPhaseDiscontinuityInterval

text \<open>\<open>CommonPhaseConfiguration::new\<close>; a configuration is the parameters it has checked.\<close>

definition phase_configuration_new ::
    "phase_parameters \<Rightarrow> phase_configuration_error + phase_parameters" where
  "phase_configuration_new p =
     (if \<not> is_finite (enter_derivative p) \<or> f_le (enter_derivative p) f_zero
          \<or> f_lt MAX_DERIVATIVE_PER_SECOND (enter_derivative p)
        then Inl InvalidEnterDerivative
      else if \<not> is_finite (exit_derivative p) \<or> f_lt (exit_derivative p) f_zero
          \<or> f_le (enter_derivative p) (exit_derivative p)
        then Inl InvalidExitDerivative
      else if \<not> is_finite (filter_alpha p) \<or> \<not> in_unit_range (filter_alpha p)
          \<or> f_eq (filter_alpha p) f_zero
        then Inl InvalidFilterAlpha
      else if directional_confirmation p = 0
          \<or> MAX_PHASE_INTERVAL_MICROS < directional_confirmation p
        then Inl InvalidDirectionalConfirmation
      else if hold_confirmation p = 0 \<or> MAX_PHASE_INTERVAL_MICROS < hold_confirmation p
        then Inl InvalidHoldConfirmation
      else if MAX_PHASE_INTERVAL_MICROS < minimum_dwell p then Inl InvalidMinimumDwell
      else if phase_stale_after p = 0 \<or> MAX_STALE_AFTER_MICROS < phase_stale_after p
        then Inl InvalidPhaseStaleInterval
      else if phase_discontinuity_after p \<le> phase_stale_after p
          \<or> MAX_DISCONTINUITY_AFTER_MICROS < phase_discontinuity_after p
        then Inl InvalidPhaseDiscontinuityInterval
      else Inr p)"

datatype phase_input =
    PhaseMissing
  | PhaseSample (in_sequence: u64) (in_sampled_at: timestamp) (in_value01: f64)

datatype phase_reset_reason =
    ResetExplicit | ResetSourceChanged | ResetCalibrationChanged | ResetMissing | ResetStale
  | ResetMalformed | ResetOutOfOrder | ResetTimeRegression | ResetTimeDiscontinuity
  | ResetLifecycleChanged

datatype phase_status =
    Primed | Confirming | Stable | Transitioned | PhaseReset phase_reset_reason

record phase_telemetry =
  pt_received_input :: u64
  pt_accepted_sample :: u64
  pt_candidate_change :: u64
  pt_phase_transition :: u64
  pt_hold_transition :: u64
  pt_missing_reset :: u64
  pt_stale_reset :: u64
  pt_malformed_reset :: u64
  pt_out_of_order_reset :: u64
  pt_time_regression_reset :: u64
  pt_discontinuity_reset :: u64
  pt_explicit_reset :: u64

definition phase_telemetry_default :: phase_telemetry where
  "phase_telemetry_default =
     \<lparr>pt_received_input = 0, pt_accepted_sample = 0, pt_candidate_change = 0,
      pt_phase_transition = 0, pt_hold_transition = 0, pt_missing_reset = 0,
      pt_stale_reset = 0, pt_malformed_reset = 0, pt_out_of_order_reset = 0,
      pt_time_regression_reset = 0, pt_discontinuity_reset = 0, pt_explicit_reset = 0\<rparr>"

record phase_observation =
  po_schema_id :: string
  po_status :: phase_status
  po_phase :: common_phase
  po_candidate :: common_phase
  po_sequence_id :: "u64 option"
  po_sampled_at :: "timestamp option"
  po_observed_at :: timestamp
  po_raw_derivative :: "f64 option"
  po_filtered_derivative :: "f64 option"
  po_candidate_age :: "u64 option"
  po_phase_dwell :: "u64 option"
  po_telemetry :: phase_telemetry

record phase_classifier =
  ph_configuration :: phase_parameters
  ph_phase :: common_phase
  ph_phase_started_at :: "timestamp option"
  ph_candidate :: common_phase
  ph_candidate_started_at :: "timestamp option"
  ph_last_sequence_id :: "u64 option"
  ph_last_sampled_at :: "timestamp option"
  ph_last_value01 :: "f64 option"
  ph_filtered_derivative :: "f64 option"
  ph_last_observed_at :: "timestamp option"
  ph_telemetry :: phase_telemetry

definition phase_classifier_new :: "phase_parameters \<Rightarrow> phase_classifier" where
  "phase_classifier_new p =
     \<lparr>ph_configuration = p, ph_phase = Unknown, ph_phase_started_at = None,
      ph_candidate = Unknown, ph_candidate_started_at = None, ph_last_sequence_id = None,
      ph_last_sampled_at = None, ph_last_value01 = None, ph_filtered_derivative = None,
      ph_last_observed_at = None, ph_telemetry = phase_telemetry_default\<rparr>"

definition is_primed :: "phase_classifier \<Rightarrow> bool" where
  "is_primed k = (ph_last_sampled_at k \<noteq> None)"

section \<open>Snapshots and resets\<close>

text \<open>\<open>a.zip(b).map(|(sampled, started)| sampled.saturating_sub(started))\<close>.\<close>

definition elapsed_between :: "timestamp option \<Rightarrow> timestamp option \<Rightarrow> u64 option" where
  "elapsed_between sampled started =
     (case (sampled, started) of
        (Some a, Some b) \<Rightarrow> Some (saturating_sub a b)
      | _ \<Rightarrow> None)"

definition phase_snapshot ::
    "phase_classifier \<Rightarrow> timestamp \<Rightarrow> phase_status \<Rightarrow> f64 option \<Rightarrow> f64 option
     \<Rightarrow> phase_observation" where
  "phase_snapshot k at s raw filtered =
     \<lparr>po_schema_id = phase_observation_schema, po_status = s, po_phase = ph_phase k,
      po_candidate = ph_candidate k, po_sequence_id = ph_last_sequence_id k,
      po_sampled_at = ph_last_sampled_at k, po_observed_at = at, po_raw_derivative = raw,
      po_filtered_derivative = filtered,
      po_candidate_age = elapsed_between (ph_last_sampled_at k) (ph_candidate_started_at k),
      po_phase_dwell = elapsed_between (ph_last_sampled_at k) (ph_phase_started_at k),
      po_telemetry = ph_telemetry k\<rparr>"

definition phase_reset_internal ::
    "timestamp \<Rightarrow> phase_reset_reason \<Rightarrow> phase_classifier \<Rightarrow> phase_classifier \<times> phase_observation" where
  "phase_reset_internal at reason k =
     (let k' = k\<lparr>ph_phase := Unknown, ph_phase_started_at := None, ph_candidate := Unknown,
            ph_candidate_started_at := None, ph_last_sequence_id := None,
            ph_last_sampled_at := None, ph_last_value01 := None,
            ph_filtered_derivative := None\<rparr>
      in (k', phase_snapshot k' at (PhaseReset reason) None None))"

definition count_reset :: "phase_reset_reason \<Rightarrow> phase_telemetry \<Rightarrow> phase_telemetry" where
  "count_reset reason t =
     (case reason of
        ResetMissing \<Rightarrow> t\<lparr>pt_missing_reset := increment (pt_missing_reset t)\<rparr>
      | ResetStale \<Rightarrow> t\<lparr>pt_stale_reset := increment (pt_stale_reset t)\<rparr>
      | ResetMalformed \<Rightarrow> t\<lparr>pt_malformed_reset := increment (pt_malformed_reset t)\<rparr>
      | ResetOutOfOrder \<Rightarrow> t\<lparr>pt_out_of_order_reset := increment (pt_out_of_order_reset t)\<rparr>
      | ResetTimeRegression \<Rightarrow>
          t\<lparr>pt_time_regression_reset := increment (pt_time_regression_reset t)\<rparr>
      | ResetTimeDiscontinuity \<Rightarrow>
          t\<lparr>pt_discontinuity_reset := increment (pt_discontinuity_reset t)\<rparr>
      | _ \<Rightarrow> t\<lparr>pt_explicit_reset := increment (pt_explicit_reset t)\<rparr>)"

definition phase_reset_recorded ::
    "timestamp \<Rightarrow> phase_reset_reason \<Rightarrow> phase_classifier \<Rightarrow> phase_classifier \<times> phase_observation" where
  "phase_reset_recorded at reason k =
     phase_reset_internal at reason (k\<lparr>ph_telemetry := count_reset reason (ph_telemetry k)\<rparr>)"

definition phase_reset_history ::
    "timestamp \<Rightarrow> phase_reset_reason \<Rightarrow> phase_classifier \<Rightarrow> phase_classifier \<times> phase_observation" where
  "phase_reset_history at reason k =
     phase_reset_recorded at reason (k\<lparr>ph_last_observed_at := Some at\<rparr>)"

definition phase_full_reset ::
    "timestamp \<Rightarrow> phase_classifier \<Rightarrow> phase_classifier \<times> phase_observation" where
  "phase_full_reset at k =
     phase_reset_internal at ResetExplicit
       (k\<lparr>ph_telemetry := phase_telemetry_default, ph_last_observed_at := Some at\<rparr>)"

definition phase_prime :: "u64 \<Rightarrow> timestamp \<Rightarrow> f64 \<Rightarrow> phase_classifier \<Rightarrow> phase_classifier" where
  "phase_prime sequence sampled v k =
     k\<lparr>ph_last_sequence_id := Some sequence, ph_last_sampled_at := Some sampled,
       ph_last_value01 := Some v\<rparr>"

section \<open>Classification\<close>

definition classify_candidate :: "common_phase \<Rightarrow> f64 \<Rightarrow> phase_parameters \<Rightarrow> common_phase" where
  "classify_candidate phase d p =
     (if phase = Inhale \<and> f_le (exit_derivative p) d then Inhale
      else if phase = Exhale \<and> f_le d (f_neg (exit_derivative p)) then Exhale
      else if f_le (enter_derivative p) d then Inhale
      else if f_le d (f_neg (enter_derivative p)) then Exhale
      else Hold)"

text \<open>\<open>f64::from(u32::try_from(micros).unwrap_or(u32::MAX))\<close>.\<close>

definition micros_as_f64 :: "u64 \<Rightarrow> f64" where
  "micros_as_f64 n = f64_of_int (min (uint n) (2 ^ 32 - 1))"

definition raw_derivative :: "bool \<Rightarrow> f64 \<Rightarrow> f64 \<Rightarrow> u64 \<Rightarrow> f64" where
  "raw_derivative reversed v previous elapsed =
     (let direction = (if reversed then f_neg f_one else f_one)
      in f_div (f_mul (f_mul direction (f_sub v previous)) (f64_literal 1000000 1))
           (micros_as_f64 elapsed))"

definition filter_derivative :: "f64 \<Rightarrow> f64 \<Rightarrow> f64 option \<Rightarrow> f64" where
  "filter_derivative alpha raw old =
     (case old of
        None \<Rightarrow> raw
      | Some previous \<Rightarrow> f_mul_add alpha raw (f_mul (f_sub f_one alpha) previous))"

definition confirmation_for :: "common_phase \<Rightarrow> phase_parameters \<Rightarrow> u64" where
  "confirmation_for candidate p =
     (if candidate = Hold then hold_confirmation p else directional_confirmation p)"

text \<open>
  The candidate's bookkeeping: a changed candidate starts its own clock, an unchanged one keeps
  it. Either way the candidate is timed afterwards, which is what the source's \<open>expect\<close> relies on.
\<close>

definition propose :: "common_phase \<Rightarrow> timestamp \<Rightarrow> phase_classifier \<Rightarrow> phase_classifier \<times> timestamp" where
  "propose candidate sampled k =
     (if candidate \<noteq> ph_candidate k then
        (k\<lparr>ph_candidate := candidate, ph_candidate_started_at := Some sampled,
           ph_telemetry := (ph_telemetry k)\<lparr>pt_candidate_change :=
             increment (pt_candidate_change (ph_telemetry k))\<rparr>\<rparr>, sampled)
      else (case ph_candidate_started_at k of
          None \<Rightarrow> (k\<lparr>ph_candidate_started_at := Some sampled\<rparr>, sampled)
        | Some started \<Rightarrow> (k, started)))"

definition commit_phase :: "common_phase \<Rightarrow> timestamp \<Rightarrow> phase_classifier \<Rightarrow> phase_classifier" where
  "commit_phase candidate sampled k =
     (let t = ph_telemetry k;
          t = t\<lparr>pt_phase_transition := increment (pt_phase_transition t)\<rparr>;
          t = (if candidate = Hold
               then t\<lparr>pt_hold_transition := increment (pt_hold_transition t)\<rparr> else t)
      in k\<lparr>ph_phase := candidate, ph_phase_started_at := Some sampled, ph_telemetry := t\<rparr>)"

text \<open>The decision at the end of \<open>accept_sample\<close>: confirm, dwell, then commit.\<close>

definition decide_phase ::
    "common_phase \<Rightarrow> timestamp \<Rightarrow> phase_parameters \<Rightarrow> phase_classifier \<Rightarrow> phase_classifier \<times> phase_status" where
  "decide_phase candidate sampled p k =
     (let (k, started) = propose candidate sampled k;
          age = saturating_sub sampled started;
          dwell = (case ph_phase_started_at k of None \<Rightarrow> 0 | Some t \<Rightarrow> saturating_sub sampled t);
          dwell_satisfied = (ph_phase k = Unknown \<or> minimum_dwell p \<le> dwell)
      in if candidate \<noteq> ph_phase k \<and> confirmation_for candidate p \<le> age \<and> dwell_satisfied
         then (commit_phase candidate sampled k, Transitioned)
         else if candidate \<noteq> ph_phase k then (k, Confirming)
         else (k, Stable))"

definition accept_sample ::
    "timestamp \<Rightarrow> u64 \<Rightarrow> timestamp \<Rightarrow> f64 \<Rightarrow> phase_parameters \<Rightarrow> phase_classifier
     \<Rightarrow> phase_classifier \<times> phase_observation" where
  "accept_sample at sequence sampled v p k =
     (let k = k\<lparr>ph_telemetry := (ph_telemetry k)\<lparr>pt_accepted_sample :=
            increment (pt_accepted_sample (ph_telemetry k))\<rparr>\<rparr>
      in case (ph_last_sampled_at k, ph_last_value01 k) of
           (Some previous_at, Some previous) \<Rightarrow>
             (let raw = raw_derivative (inverted p) v previous (sampled - previous_at);
                  filtered = filter_derivative (filter_alpha p) raw (ph_filtered_derivative k);
                  k = k\<lparr>ph_last_sequence_id := Some sequence, ph_last_sampled_at := Some sampled,
                        ph_last_value01 := Some v, ph_filtered_derivative := Some filtered\<rparr>;
                  (k, s) = decide_phase (classify_candidate (ph_phase k) filtered p) sampled p k
              in (k, phase_snapshot k at s (Some raw) (Some filtered)))
         | _ \<Rightarrow>
             (let k = phase_prime sequence sampled v k
              in (k, phase_snapshot k at Primed None None)))"

definition regressed :: "timestamp option \<Rightarrow> timestamp \<Rightarrow> bool" where
  "regressed previous at = (case previous of None \<Rightarrow> False | Some t \<Rightarrow> at < t)"

definition not_increasing :: "u64 option \<Rightarrow> u64 \<Rightarrow> bool" where
  "not_increasing previous n = (case previous of None \<Rightarrow> False | Some m \<Rightarrow> n \<le> m)"

definition gap_exceeds :: "timestamp option \<Rightarrow> timestamp \<Rightarrow> u64 \<Rightarrow> bool" where
  "gap_exceeds previous sampled limit =
     (case previous of None \<Rightarrow> False | Some t \<Rightarrow> limit < saturating_sub sampled t)"

definition phase_observe ::
    "timestamp \<Rightarrow> phase_input \<Rightarrow> phase_classifier \<Rightarrow> phase_classifier \<times> phase_observation" where
  "phase_observe at input k =
     (let k = k\<lparr>ph_telemetry := (ph_telemetry k)\<lparr>pt_received_input :=
            increment (pt_received_input (ph_telemetry k))\<rparr>\<rparr>
      in if regressed (ph_last_observed_at k) at
         then phase_reset_recorded at ResetTimeRegression k
         else
           let k = k\<lparr>ph_last_observed_at := Some at\<rparr>; p = ph_configuration k
           in case input of
                PhaseMissing \<Rightarrow> phase_reset_recorded at ResetMissing k
              | PhaseSample sequence sampled v \<Rightarrow>
                  if sequence = 0 \<or> at < sampled \<or> \<not> is_finite v \<or> \<not> in_unit_range v
                  then phase_reset_recorded at ResetMalformed k
                  else if phase_stale_after p < saturating_sub at sampled
                  then phase_reset_recorded at ResetStale k
                  else if not_increasing (ph_last_sequence_id k) sequence
                    \<or> not_increasing (ph_last_sampled_at k) sampled
                  then phase_reset_recorded at ResetOutOfOrder k
                  else if gap_exceeds (ph_last_sampled_at k) sampled (phase_discontinuity_after p)
                  then phase_reset_recorded at ResetTimeDiscontinuity k
                  else accept_sample at sequence sampled v p k)"

end
