(* ===== verification/Breath_Phase_Proofs.thy ===== *)
theory Breath_Phase_Proofs
  imports Breath_Phase
begin

text \<open>
  Runs of the phase classifier and the invariant that ties its clocks to the observations it has
  handed out: the candidate clock names the observation since which the candidate has been
  proposed without a break, the phase clock is not older than the last committed transition.
\<close>

section \<open>Runs\<close>

datatype phase_action =
    ObservePhase timestamp phase_input
  | ResetHistory timestamp phase_reset_reason
  | FullReset timestamp

definition phase_act :: "phase_action \<Rightarrow> phase_classifier \<Rightarrow> phase_classifier \<times> phase_observation" where
  "phase_act a k =
     (case a of
        ObservePhase at input \<Rightarrow> phase_observe at input k
      | ResetHistory at reason \<Rightarrow> phase_reset_history at reason k
      | FullReset at \<Rightarrow> phase_full_reset at k)"

primrec phase_trace :: "phase_classifier \<Rightarrow> phase_action list \<Rightarrow> phase_observation list" where
  "phase_trace k [] = []"
| "phase_trace k (a # as) =
     (let (k', ob) = phase_act a k in ob # phase_trace k' as)"

definition is_reset :: "phase_observation \<Rightarrow> bool" where
  "is_reset ob = (case po_status ob of PhaseReset _ \<Rightarrow> True | _ \<Rightarrow> False)"

text \<open>The classifier proposed \<open>c\<close> for the sample of this observation.\<close>

definition proposes :: "common_phase \<Rightarrow> phase_observation \<Rightarrow> bool" where
  "proposes c ob =
     (po_candidate ob = c \<and> po_sampled_at ob \<noteq> None
      \<and> po_status ob \<in> {Confirming, Stable, Transitioned})"

section \<open>Outcomes of one action\<close>

definition cleared :: "phase_classifier \<Rightarrow> bool" where
  "cleared k =
     (ph_phase k = Unknown \<and> ph_phase_started_at k = None \<and> ph_candidate k = Unknown
      \<and> ph_candidate_started_at k = None \<and> ph_last_sequence_id k = None
      \<and> ph_last_sampled_at k = None \<and> ph_last_value01 k = None
      \<and> ph_filtered_derivative k = None)"

lemma reset_recorded_outcome:
  assumes "phase_reset_recorded at reason k = (k', ob)"
  shows "cleared k' \<and> ph_configuration k' = ph_configuration k
    \<and> ph_last_observed_at k' = ph_last_observed_at k
    \<and> ph_telemetry k' = count_reset reason (ph_telemetry k)
    \<and> ob = phase_snapshot k' at (PhaseReset reason) None None"
  using assms
  by (auto simp: phase_reset_recorded_def phase_reset_internal_def Let_def cleared_def)

text \<open>What a sample passed before \<open>accept_sample\<close> saw it.\<close>

definition admissible :: "phase_classifier \<Rightarrow> timestamp \<Rightarrow> phase_input \<Rightarrow> bool" where
  "admissible k at input =
     (case input of
        PhaseMissing \<Rightarrow> False
      | PhaseSample sequence sampled v \<Rightarrow>
          \<not> regressed (ph_last_observed_at k) at
          \<and> sequence \<noteq> 0 \<and> sampled \<le> at \<and> in_unit_range v
          \<and> saturating_sub at sampled \<le> phase_stale_after (ph_configuration k)
          \<and> \<not> not_increasing (ph_last_sequence_id k) sequence
          \<and> \<not> not_increasing (ph_last_sampled_at k) sampled
          \<and> \<not> gap_exceeds (ph_last_sampled_at k) sampled
                (phase_discontinuity_after (ph_configuration k)))"

lemma admissible_sample:
  "admissible k at input \<Longrightarrow> \<exists>sequence sampled v. input = PhaseSample sequence sampled v"
  by (cases input) (simp_all add: admissible_def)

definition counted :: "phase_classifier \<Rightarrow> phase_classifier" where
  "counted k =
     k\<lparr>ph_telemetry := (ph_telemetry k)\<lparr>pt_received_input :=
         increment (pt_received_input (ph_telemetry k))\<rparr>\<rparr>"

lemma observe_admissible:
  assumes "admissible k at (PhaseSample sequence sampled v)"
  shows "phase_observe at (PhaseSample sequence sampled v) k =
    accept_sample at sequence sampled v (ph_configuration k)
      ((counted k)\<lparr>ph_last_observed_at := Some at\<rparr>)"
  using assms in_unit_range_finite
  by (auto simp: phase_observe_def admissible_def counted_def Let_def not_less not_le)

definition reset_reason_of :: "phase_classifier \<Rightarrow> timestamp \<Rightarrow> phase_input \<Rightarrow> phase_reset_reason" where
  "reset_reason_of k at input =
     (if regressed (ph_last_observed_at k) at then ResetTimeRegression
      else case input of
        PhaseMissing \<Rightarrow> ResetMissing
      | PhaseSample sequence sampled v \<Rightarrow>
          if sequence = 0 \<or> at < sampled \<or> \<not> in_unit_range v then ResetMalformed
          else if phase_stale_after (ph_configuration k) < saturating_sub at sampled then ResetStale
          else if not_increasing (ph_last_sequence_id k) sequence
            \<or> not_increasing (ph_last_sampled_at k) sampled then ResetOutOfOrder
          else ResetTimeDiscontinuity)"

lemma observe_inadmissible:
  assumes "\<not> admissible k at input"
  shows "phase_observe at input k =
    phase_reset_recorded at (reset_reason_of k at input)
      (if regressed (ph_last_observed_at k) at then counted k
       else (counted k)\<lparr>ph_last_observed_at := Some at\<rparr>)"
proof (cases "regressed (ph_last_observed_at k) at")
  case True
  then show ?thesis
    by (simp add: phase_observe_def counted_def Let_def reset_reason_of_def)
next
  case False
  then show ?thesis
    using assms in_unit_range_finite
    by (cases input)
      (auto simp: phase_observe_def counted_def Let_def reset_reason_of_def admissible_def not_le not_less)
qed

lemma act_reset:
  assumes "phase_act a k = (k', ob)"
    "\<forall>at input. a = ObservePhase at input \<longrightarrow> \<not> admissible k at input"
  obtains "cleared k'" "ph_configuration k' = ph_configuration k" "is_reset ob"
    "po_phase ob = Unknown" "po_candidate ob = Unknown" "po_sampled_at ob = None"
proof -
  have "cleared k' \<and> ph_configuration k' = ph_configuration k
    \<and> (\<exists>at r. ob = phase_snapshot k' at (PhaseReset r) None None)"
  proof (cases a)
    case (ObservePhase at input)
    then have "phase_observe at input k = (k', ob)" "\<not> admissible k at input"
      using assms by (simp_all add: phase_act_def)
    then show ?thesis
      using reset_recorded_outcome [of at "reset_reason_of k at input" _ k' ob]
      by (auto simp: observe_inadmissible counted_def split: if_splits)
  next
    case (ResetHistory at reason)
    then show ?thesis
      using assms(1) reset_recorded_outcome [of at reason "k\<lparr>ph_last_observed_at := Some at\<rparr>" k' ob]
      by (auto simp: phase_act_def phase_reset_history_def)
  next
    case (FullReset at)
    then show ?thesis
      using assms(1)
      by (auto simp: phase_act_def phase_full_reset_def phase_reset_internal_def Let_def cleared_def)
  qed
  then show thesis
    using that by (auto simp: phase_snapshot_def is_reset_def cleared_def)
qed

text \<open>What a decision on one sample does to the two clocks.\<close>

definition decided ::
    "common_phase \<Rightarrow> timestamp \<Rightarrow> phase_parameters \<Rightarrow> phase_classifier \<Rightarrow> phase_classifier
     \<Rightarrow> phase_status \<Rightarrow> bool" where
  "decided c sampled p k k' s =
     (ph_configuration k' = ph_configuration k \<and> ph_last_sampled_at k' = ph_last_sampled_at k
      \<and> ph_last_sequence_id k' = ph_last_sequence_id k \<and> ph_last_value01 k' = ph_last_value01 k
      \<and> ph_candidate k' = c
      \<and> (\<exists>t. ph_candidate_started_at k' = Some t
           \<and> (t = sampled \<or> ph_candidate k = c \<and> ph_candidate_started_at k = Some t)
           \<and> (if s = Transitioned
              then c \<noteq> ph_phase k \<and> ph_phase k' = c \<and> ph_phase_started_at k' = Some sampled
                \<and> confirmation_for c p \<le> saturating_sub sampled t
                \<and> (ph_phase k = Unknown
                   \<or> minimum_dwell p \<le> (case ph_phase_started_at k of
                        None \<Rightarrow> 0 | Some u \<Rightarrow> saturating_sub sampled u))
              else s \<in> {Confirming, Stable} \<and> ph_phase k' = ph_phase k
                \<and> ph_phase_started_at k' = ph_phase_started_at k)))"

lemma decide_phase_outcome:
  "decide_phase c sampled p k = (k', s) \<Longrightarrow> decided c sampled p k k' s"
  by (auto simp: decide_phase_def propose_def commit_phase_def decided_def Let_def
      split: if_splits option.splits)

lemma classified: "classify_candidate phase d p \<in> {Inhale, Exhale, Hold}"
  by (simp add: classify_candidate_def)

text \<open>The history half of the invariant: which fields are set together, and in which order.\<close>

definition history_wf :: "phase_classifier \<Rightarrow> bool" where
  "history_wf k =
     ((ph_last_sampled_at k = None \<longleftrightarrow> ph_last_value01 k = None)
      \<and> (ph_last_sampled_at k = None \<longleftrightarrow> ph_last_sequence_id k = None)
      \<and> (ph_last_sampled_at k = None \<longrightarrow> cleared k)
      \<and> (ph_candidate_started_at k = None \<longrightarrow> ph_phase k = Unknown \<and> ph_phase_started_at k = None)
      \<and> (ph_phase k = Unknown \<longleftrightarrow> ph_phase_started_at k = None)
      \<and> (\<forall>u. ph_phase_started_at k = Some u \<longrightarrow> (\<exists>t. ph_last_sampled_at k = Some t \<and> u \<le> t)))"

lemma cleared_wf: "cleared k \<Longrightarrow> history_wf k"
  by (simp add: cleared_def history_wf_def)

lemma accept_prime:
  assumes "accept_sample at sequence sampled v p k = (k', ob)" "ph_last_sampled_at k = None"
  shows "ph_phase k' = ph_phase k \<and> ph_phase_started_at k' = ph_phase_started_at k
    \<and> ph_candidate k' = ph_candidate k \<and> ph_candidate_started_at k' = ph_candidate_started_at k
    \<and> ph_configuration k' = ph_configuration k \<and> ph_last_sequence_id k' = Some sequence
    \<and> ph_last_sampled_at k' = Some sampled \<and> ph_last_value01 k' = Some v
    \<and> ob = phase_snapshot k' at Primed None None"
  using assms by (auto simp: accept_sample_def phase_prime_def Let_def)

text \<open>
  A decision made in state \<open>j\<close>, which differs from the tied state \<open>k\<close> only in the sample it has
  just recorded.
\<close>

definition sampled_as :: "phase_classifier \<Rightarrow> u64 \<Rightarrow> timestamp \<Rightarrow> f64 \<Rightarrow> phase_classifier \<Rightarrow> bool" where
  "sampled_as k sequence sampled v j =
     (ph_phase j = ph_phase k \<and> ph_phase_started_at j = ph_phase_started_at k
      \<and> ph_candidate j = ph_candidate k \<and> ph_candidate_started_at j = ph_candidate_started_at k
      \<and> ph_configuration j = ph_configuration k \<and> ph_last_sampled_at j = Some sampled
      \<and> ph_last_sequence_id j = Some sequence \<and> ph_last_value01 j = Some v)"

text \<open>The state \<open>accept_sample\<close> hands to the decision, and the derivative it computed.\<close>

definition recorded :: "u64 \<Rightarrow> timestamp \<Rightarrow> f64 \<Rightarrow> f64 \<Rightarrow> phase_classifier \<Rightarrow> phase_classifier" where
  "recorded sequence sampled v filtered k =
     k\<lparr>ph_telemetry := (ph_telemetry k)\<lparr>pt_accepted_sample :=
         increment (pt_accepted_sample (ph_telemetry k))\<rparr>,
       ph_last_sequence_id := Some sequence, ph_last_sampled_at := Some sampled,
       ph_last_value01 := Some v, ph_filtered_derivative := Some filtered\<rparr>"

lemma accept_sample_decides:
  assumes "ph_last_sampled_at k = Some u" "ph_last_value01 k = Some w"
    and raw: "raw = raw_derivative (inverted p) v w (sampled - u)"
    and filtered: "filtered = filter_derivative (filter_alpha p) raw (ph_filtered_derivative k)"
    and d: "d = decide_phase (classify_candidate (ph_phase k) filtered p) sampled p
      (recorded sequence sampled v filtered k)"
  shows "accept_sample at sequence sampled v p k
    = (fst d, phase_snapshot (fst d) at (snd d) (Some raw) (Some filtered))"
  using assms by (simp add: accept_sample_def recorded_def Let_def case_prod_unfold)

lemma accept_decide:
  assumes "accept_sample at sequence sampled v p k = (k', ob)"
    "ph_last_sampled_at k = Some u" "ph_last_value01 k = Some w"
  obtains c j s raw filtered where
    "c \<in> {Inhale, Exhale, Hold}" "decided c sampled p j k' s"
    "ob = phase_snapshot k' at s (Some raw) (Some filtered)"
    "sampled_as k sequence sampled v j"
proof -
  define raw where "raw = raw_derivative (inverted p) v w (sampled - u)"
  define filtered where
    "filtered = filter_derivative (filter_alpha p) raw (ph_filtered_derivative k)"
  define c where "c = classify_candidate (ph_phase k) filtered p"
  define j where "j = recorded sequence sampled v filtered k"
  have "(k', ob) = (fst (decide_phase c sampled p j),
      phase_snapshot (fst (decide_phase c sampled p j)) at (snd (decide_phase c sampled p j))
        (Some raw) (Some filtered))"
    using assms(1) accept_sample_decides [OF assms(2,3) raw_def filtered_def refl, of at sequence]
    by (auto simp: c_def j_def)
  then show thesis
    using that [of c j "snd (decide_phase c sampled p j)" raw filtered] classified
      decide_phase_outcome [of c sampled p j k' "snd (decide_phase c sampled p j)"]
    by (auto simp: c_def j_def recorded_def sampled_as_def)
qed

section \<open>Clocks and observations\<close>

definition sample_time :: "phase_observation \<Rightarrow> timestamp" where
  "sample_time ob = (case po_sampled_at ob of None \<Rightarrow> 0 | Some t \<Rightarrow> t)"

text \<open>Since the observation of source time \<open>t\<close> every observation has proposed \<open>c\<close>.\<close>

definition proposed_since :: "common_phase \<Rightarrow> timestamp \<Rightarrow> phase_observation list \<Rightarrow> bool" where
  "proposed_since c t obs =
     (\<exists>i < length obs. po_sampled_at (obs ! i) = Some t
        \<and> (\<forall>m. i \<le> m \<and> m < length obs \<longrightarrow> proposes c (obs ! m)))"

text \<open>Observation \<open>i\<close> committed a phase and nothing has been reset after it.\<close>

definition stands :: "nat \<Rightarrow> phase_observation list \<Rightarrow> bool" where
  "stands i obs =
     (po_status (obs ! i) = Transitioned
      \<and> (\<forall>m. i < m \<and> m < length obs \<longrightarrow> \<not> is_reset (obs ! m)))"

definition tied :: "phase_parameters \<Rightarrow> phase_observation list \<Rightarrow> phase_classifier \<Rightarrow> bool" where
  "tied p obs k =
     (ph_configuration k = p \<and> history_wf k
      \<and> (\<forall>t. ph_candidate_started_at k = Some t \<longrightarrow> proposed_since (ph_candidate k) t obs)
      \<and> (\<forall>i < length obs. stands i obs \<longrightarrow>
           (\<exists>t. ph_phase_started_at k = Some t \<and> sample_time (obs ! i) \<le> t)))"

lemma proposed_since_snoc:
  assumes "proposes c ob" "proposed_since c t obs \<or> po_sampled_at ob = Some t"
  shows "proposed_since c t (obs @ [ob])"
proof -
  consider i where "i < length obs" "po_sampled_at (obs ! i) = Some t"
      "\<forall>m. i \<le> m \<and> m < length obs \<longrightarrow> proposes c (obs ! m)"
    | "po_sampled_at ob = Some t"
    using assms(2) by (auto simp: proposed_since_def)
  then show ?thesis
  proof cases
    case (1 i)
    then show ?thesis
      unfolding proposed_since_def using assms(1)
      by (intro exI [of _ i]) (auto simp: nth_append less_Suc_eq)
  next
    case 2
    then show ?thesis
      unfolding proposed_since_def using assms(1)
      by (intro exI [of _ "length obs"]) (auto simp: nth_append less_Suc_eq)
  qed
qed

lemma stands_snoc:
  "i < length obs \<Longrightarrow> stands i (obs @ [ob]) \<longleftrightarrow> stands i obs \<and> \<not> is_reset ob"
  by (auto simp: stands_def nth_append less_Suc_eq)

lemma stands_last: "stands (length obs) (obs @ [ob]) \<longleftrightarrow> po_status ob = Transitioned"
  by (auto simp: stands_def)

text \<open>The two rules a committed transition at position \<open>j\<close> of a run has to meet.\<close>

definition confirmed :: "phase_parameters \<Rightarrow> phase_observation list \<Rightarrow> nat \<Rightarrow> bool" where
  "confirmed p obs j =
     (\<exists>i \<le> j. (\<forall>m. i \<le> m \<and> m \<le> j \<longrightarrow> proposes (po_phase (obs ! j)) (obs ! m))
        \<and> confirmation_for (po_phase (obs ! j)) p
            \<le> saturating_sub (sample_time (obs ! j)) (sample_time (obs ! i)))"

definition dwelt :: "phase_parameters \<Rightarrow> phase_observation list \<Rightarrow> nat \<Rightarrow> bool" where
  "dwelt p obs j =
     (\<forall>i < j. po_status (obs ! i) = Transitioned
        \<and> (\<forall>m. i < m \<and> m < j \<longrightarrow> \<not> is_reset (obs ! m))
        \<longrightarrow> minimum_dwell p \<le> saturating_sub (sample_time (obs ! j)) (sample_time (obs ! i)))"

definition earned :: "phase_parameters \<Rightarrow> phase_observation list \<Rightarrow> bool" where
  "earned p obs =
     (\<forall>j < length obs. po_status (obs ! j) = Transitioned \<longrightarrow> confirmed p obs j \<and> dwelt p obs j)"

lemma confirmed_prefix:
  assumes same: "\<And>m. m \<le> j \<Longrightarrow> ys ! m = xs ! m" and "confirmed p xs j"
  shows "confirmed p ys j"
proof -
  obtain i where "i \<le> j" "\<forall>m. i \<le> m \<and> m \<le> j \<longrightarrow> proposes (po_phase (xs ! j)) (xs ! m)"
      "confirmation_for (po_phase (xs ! j)) p
         \<le> saturating_sub (sample_time (xs ! j)) (sample_time (xs ! i))"
    using assms(2) by (auto simp: confirmed_def)
  then show ?thesis
    unfolding confirmed_def using same by (intro exI [of _ i]) simp
qed

lemma dwelt_prefix:
  assumes same: "\<And>m. m \<le> j \<Longrightarrow> ys ! m = xs ! m" and "dwelt p xs j"
  shows "dwelt p ys j"
  using assms unfolding dwelt_def by (metis less_imp_le order_refl)

lemma earned_snoc:
  assumes "earned p obs"
    "po_status ob = Transitioned
     \<Longrightarrow> confirmed p (obs @ [ob]) (length obs) \<and> dwelt p (obs @ [ob]) (length obs)"
  shows "earned p (obs @ [ob])"
proof -
  have same: "(obs @ [ob]) ! m = obs ! m" if "m \<le> j" "j < length obs" for m j
    using that by (simp add: nth_append)
  have "confirmed p (obs @ [ob]) j \<and> dwelt p (obs @ [ob]) j"
    if "j < length obs" "po_status (obs ! j) = Transitioned" for j
    using assms(1) that same confirmed_prefix [of j "obs @ [ob]" obs p]
      dwelt_prefix [of j "obs @ [ob]" obs p]
    by (auto simp: earned_def)
  then show ?thesis
    using assms(2) by (auto simp: earned_def less_Suc_eq nth_append)
qed

lemma saturating_sub_mono: "b \<le> c \<Longrightarrow> saturating_sub a c \<le> saturating_sub a b"
  by (simp add: word_le_nat_alt unat_saturating_sub)

lemma tied_reset:
  assumes "cleared k'" "ph_configuration k' = p" "is_reset ob"
  shows "tied p (obs @ [ob]) k' \<and> po_status ob \<noteq> Transitioned"
proof -
  have "po_status ob \<noteq> Transitioned"
    using assms(3) by (auto simp: is_reset_def)
  then show ?thesis
    using assms cleared_wf
    by (auto simp: tied_def cleared_def less_Suc_eq stands_snoc stands_last)
qed

lemma tied_primed:
  assumes "tied p obs k" "ph_last_sampled_at k = None"
    "ph_phase k' = ph_phase k" "ph_phase_started_at k' = ph_phase_started_at k"
    "ph_candidate k' = ph_candidate k" "ph_candidate_started_at k' = ph_candidate_started_at k"
    "ph_configuration k' = ph_configuration k" "ph_last_sequence_id k' = Some sequence"
    "ph_last_sampled_at k' = Some sampled" "ph_last_value01 k' = Some v"
    "po_status ob = Primed"
  shows "tied p (obs @ [ob]) k'"
proof -
  have "cleared k"
    using assms(1,2) by (simp add: tied_def history_wf_def)
  moreover from this have "\<not> stands i obs" if "i < length obs" for i
    using assms(1) that by (auto simp: tied_def cleared_def)
  ultimately show ?thesis
    using assms by (auto simp: tied_def history_wf_def cleared_def less_Suc_eq stands_snoc stands_last)
qed

lemma confirmedI:
  assumes "proposed_since c t (obs @ [ob])" "po_phase ob = c"
    "confirmation_for c p \<le> saturating_sub (sample_time ob) t"
  shows "confirmed p (obs @ [ob]) (length obs)"
proof -
  obtain i where "i \<le> length obs" "po_sampled_at ((obs @ [ob]) ! i) = Some t"
      "\<forall>m. i \<le> m \<and> m \<le> length obs \<longrightarrow> proposes c ((obs @ [ob]) ! m)"
    using assms(1) by (auto simp: proposed_since_def less_Suc_eq_le)
  then show ?thesis
    unfolding confirmed_def using assms(2,3)
    by (intro exI [of _ i]) (simp add: sample_time_def)
qed

lemma dweltI:
  assumes "\<And>i. i < length obs \<Longrightarrow> stands i obs
      \<Longrightarrow> minimum_dwell p \<le> saturating_sub (sample_time ob) (sample_time (obs ! i))"
  shows "dwelt p (obs @ [ob]) (length obs)"
  unfolding dwelt_def
proof (intro allI impI)
  fix i
  assume i: "i < length obs"
    and here: "po_status ((obs @ [ob]) ! i) = Transitioned
      \<and> (\<forall>m. i < m \<and> m < length obs \<longrightarrow> \<not> is_reset ((obs @ [ob]) ! m))"
  then have "stands i obs"
    by (auto simp: stands_def nth_append)
  then show "minimum_dwell p \<le> saturating_sub (sample_time ((obs @ [ob]) ! length obs))
      (sample_time ((obs @ [ob]) ! i))"
    using assms i by (simp add: nth_append)
qed

lemma decided_clock:
  assumes "decided c sampled p j k' s" "sampled_as k sequence sampled v j"
  shows "if s = Transitioned then ph_phase_started_at k' = Some sampled \<and> ph_phase k' = c
    else ph_phase_started_at k' = ph_phase_started_at k \<and> ph_phase k' = ph_phase k"
  using assms by (auto simp: decided_def sampled_as_def)

lemma decided_wf:
  assumes "history_wf k" "ph_last_sampled_at k = Some u" "u < sampled" "c \<in> {Inhale, Exhale, Hold}"
    and decided: "decided c sampled p j k' s" and j: "sampled_as k sequence sampled v j"
  shows "history_wf k'"
proof -
  have "ph_last_sampled_at k' = Some sampled" "ph_last_sequence_id k' = Some sequence"
      "ph_last_value01 k' = Some v" "ph_candidate_started_at k' \<noteq> None"
    using decided j by (auto simp: decided_def sampled_as_def)
  moreover have "x \<le> sampled" if "ph_phase_started_at k = Some x" for x
    using that assms(1-3) by (auto simp: history_wf_def)
  moreover have "ph_phase k = Unknown \<longleftrightarrow> ph_phase_started_at k = None" "c \<noteq> Unknown"
    using assms(1,4) by (auto simp: history_wf_def)
  ultimately show ?thesis
    using decided_clock [OF decided j] by (auto simp: history_wf_def split: if_splits)
qed

lemma decided_standing:
  assumes tied: "tied p obs k" and "ph_last_sampled_at k = Some u" "u < sampled"
    and decided: "decided c sampled p j k' s" and j: "sampled_as k sequence sampled v j"
    and ob: "po_status ob = s" "sample_time ob = sampled"
    and i: "i < Suc (length obs)" "stands i (obs @ [ob])"
  shows "\<exists>x. ph_phase_started_at k' = Some x \<and> sample_time ((obs @ [ob]) ! i) \<le> x"
proof (cases "i < length obs")
  case True
  then obtain x where "ph_phase_started_at k = Some x" "sample_time (obs ! i) \<le> x"
    using tied i(2) stands_snoc unfolding tied_def by blast
  moreover from this have "x \<le> sampled"
    using assms(1-3) by (auto simp: tied_def history_wf_def)
  ultimately show ?thesis
    using decided_clock [OF decided j] True by (auto simp: nth_append intro: order_trans split: if_splits)
next
  case False
  then have "i = length obs" "s = Transitioned"
    using i ob by (auto simp: less_Suc_eq stands_last)
  then show ?thesis
    using decided_clock [OF decided j] ob by simp
qed

lemma tied_decided:
  assumes tied: "tied p obs k" and last: "ph_last_sampled_at k = Some u" "u < sampled"
    and c: "c \<in> {Inhale, Exhale, Hold}" and decided: "decided c sampled p j k' s"
    and ob: "ob = phase_snapshot k' at s raw filtered" and j: "sampled_as k sequence sampled v j"
  shows "tied p (obs @ [ob]) k'
    \<and> (po_status ob = Transitioned \<longrightarrow>
         confirmed p (obs @ [ob]) (length obs) \<and> dwelt p (obs @ [ob]) (length obs))"
proof -
  obtain t where t: "ph_candidate_started_at k' = Some t"
      "t = sampled \<or> ph_candidate k = c \<and> ph_candidate_started_at k = Some t"
    using decided j by (auto simp: decided_def sampled_as_def)
  have s: "s \<in> {Confirming, Stable, Transitioned}" and k': "ph_candidate k' = c"
    using decided by (auto simp: decided_def split: if_splits)
  have sampled: "po_sampled_at ob = Some sampled" "sample_time ob = sampled" "po_status ob = s"
      "po_phase ob = ph_phase k'"
    using ob decided j by (auto simp: phase_snapshot_def decided_def sample_time_def sampled_as_def)
  have "proposes c ob"
    using s k' sampled ob by (auto simp: proposes_def phase_snapshot_def)
  then have proposed: "proposed_since c t (obs @ [ob])"
    using t(2) tied sampled by (intro proposed_since_snoc) (auto simp: tied_def)
  have "tied p (obs @ [ob]) k'"
    using t(1) k' proposed tied decided j decided_wf [OF _ last c decided j]
      decided_standing [OF tied last decided j sampled(3,2)]
    by (auto simp: tied_def decided_def sampled_as_def)
  moreover have "confirmed p (obs @ [ob]) (length obs)" if "s = Transitioned"
    using that decided t(1) sampled by (intro confirmedI [OF proposed]) (auto simp: decided_def)
  moreover have "dwelt p (obs @ [ob]) (length obs)" if "s = Transitioned"
  proof (rule dweltI)
    fix i
    assume "i < length obs" "stands i obs"
    then obtain x where x: "ph_phase_started_at k = Some x" "sample_time (obs ! i) \<le> x"
      using tied by (auto simp: tied_def)
    then have "ph_phase k \<noteq> Unknown"
      using tied by (auto simp: tied_def history_wf_def)
    then have "minimum_dwell p \<le> saturating_sub sampled x"
      using that decided j x(1) by (auto simp: decided_def sampled_as_def)
    then show "minimum_dwell p \<le> saturating_sub (sample_time ob) (sample_time (obs ! i))"
      using saturating_sub_mono [OF x(2), of sampled] sampled by simp
  qed
  ultimately show ?thesis
    using sampled by blast
qed

lemma tied_step:
  assumes "tied p obs k" "phase_act a k = (k', ob)"
  shows "tied p (obs @ [ob]) k'
    \<and> (po_status ob = Transitioned \<longrightarrow>
         confirmed p (obs @ [ob]) (length obs) \<and> dwelt p (obs @ [ob]) (length obs))"
proof (cases "\<exists>at input. a = ObservePhase at input \<and> admissible k at input")
  case False
  then show ?thesis
    using act_reset [OF assms(2)] tied_reset [of k' p ob obs] assms(1)
    by (metis tied_def)
next
  case True
  then obtain at sequence sampled v where a: "a = ObservePhase at (PhaseSample sequence sampled v)"
      and ok: "admissible k at (PhaseSample sequence sampled v)"
    by (metis admissible_sample)
  define j where "j = (counted k)\<lparr>ph_last_observed_at := Some at\<rparr>"
  have accept: "accept_sample at sequence sampled v p j = (k', ob)"
    using assms a observe_admissible [OF ok] by (simp add: phase_act_def j_def tied_def)
  have tied: "tied p obs j"
    using assms(1) by (auto simp: tied_def history_wf_def cleared_def j_def counted_def)
  show ?thesis
  proof (cases "ph_last_sampled_at j")
    case None
    then show ?thesis
      using accept_prime [OF accept None] tied_primed [OF tied None, of k' sequence sampled v ob]
      by (auto simp: phase_snapshot_def)
  next
    case (Some u)
    moreover obtain w where "ph_last_value01 j = Some w"
      using tied Some by (auto simp: tied_def history_wf_def)
    moreover have "u < sampled"
      using ok Some by (auto simp: admissible_def not_increasing_def j_def counted_def)
    ultimately show ?thesis
      using accept_decide [OF accept] tied_decided [OF tied] by metis
  qed
qed

lemma trace_earned:
  "tied p obs k \<Longrightarrow> earned p obs \<Longrightarrow> earned p (obs @ phase_trace k as)"
proof (induction as arbitrary: obs k)
  case (Cons a as)
  obtain k' ob where act: "phase_act a k = (k', ob)"
    by fastforce
  then have "tied p (obs @ [ob]) k'" "earned p (obs @ [ob])"
    using tied_step [OF Cons.prems(1)] Cons.prems(2) by (auto intro: earned_snoc)
  then show ?case
    using Cons.IH [of "obs @ [ob]" k'] act by simp
qed simp

lemma new_tied: "tied p [] (phase_classifier_new p)"
  by (simp add: tied_def phase_classifier_new_def history_wf_def cleared_def)

section \<open>Nothing survives a reset\<close>

text \<open>States and observations without their counters.\<close>

definition forget :: "phase_classifier \<Rightarrow> phase_classifier" where
  "forget k = k\<lparr>ph_telemetry := phase_telemetry_default\<rparr>"

definition forget_counts :: "phase_observation \<Rightarrow> phase_observation" where
  "forget_counts ob = ob\<lparr>po_telemetry := phase_telemetry_default\<rparr>"

definition alike :: "phase_classifier \<times> phase_observation \<Rightarrow> phase_classifier \<times> phase_observation \<Rightarrow> bool" where
  "alike x y = (forget (fst x) = forget (fst y) \<and> forget_counts (snd x) = forget_counts (snd y))"

lemma forget_eqD:
  assumes "forget k = forget j"
  shows "k = j\<lparr>ph_telemetry := ph_telemetry k\<rparr>"
  using assms by (cases k; cases j) (simp add: forget_def)

lemma reset_recorded_alike:
  assumes "forget k = forget j"
  shows "alike (phase_reset_recorded at r k) (phase_reset_recorded at r j)"
  by (subst forget_eqD [OF assms])
    (simp add: alike_def phase_reset_recorded_def phase_reset_internal_def Let_def forget_def
      forget_counts_def phase_snapshot_def)

lemma decide_phase_forget:
  "forget (fst (decide_phase c sampled p (k\<lparr>ph_telemetry := t\<rparr>))) = forget (fst (decide_phase c sampled p k))
   \<and> snd (decide_phase c sampled p (k\<lparr>ph_telemetry := t\<rparr>)) = snd (decide_phase c sampled p k)"
  by (auto simp: decide_phase_def propose_def commit_phase_def forget_def Let_def
      split: option.splits prod.splits)

lemma decide_phase_alike:
  assumes "forget k = forget j"
  shows "forget (fst (decide_phase c sampled p k)) = forget (fst (decide_phase c sampled p j))"
    "snd (decide_phase c sampled p k) = snd (decide_phase c sampled p j)"
  using decide_phase_forget [where c = c and sampled = sampled and p = p and k = j and t = "ph_telemetry k"]
    forget_eqD [OF assms]
  by metis+

lemma snapshot_alike:
  "forget k = forget j
   \<Longrightarrow> forget_counts (phase_snapshot k at s raw filtered) = forget_counts (phase_snapshot j at s raw filtered)"
  by (drule forget_eqD, erule ssubst) (simp add: forget_counts_def phase_snapshot_def)

lemma accept_sample_alike:
  assumes "forget k = forget j"
  shows "alike (accept_sample at sequence sampled v p k) (accept_sample at sequence sampled v p j)"
proof (cases "ph_last_sampled_at j = None \<or> ph_last_value01 j = None")
  case True
  then show ?thesis
    by (subst forget_eqD [OF assms])
      (auto simp: alike_def accept_sample_def phase_prime_def Let_def forget_def forget_counts_def
        phase_snapshot_def split: option.splits)
next
  case False
  then obtain u w where "ph_last_sampled_at j = Some u" "ph_last_value01 j = Some w"
    by auto
  moreover from this have k: "ph_last_sampled_at k = Some u" "ph_last_value01 k = Some w"
      "ph_phase k = ph_phase j" "ph_filtered_derivative k = ph_filtered_derivative j"
    by (subst forget_eqD [OF assms], simp)+
  moreover have "forget (recorded sequence sampled v f k) = forget (recorded sequence sampled v f j)" for f
    using assms by (cases k; cases j) (simp add: forget_def recorded_def)
  note alike = decide_phase_alike [OF this]
  ultimately show ?thesis
    using accept_sample_decides [OF _ _ refl refl refl, of k u w]
      accept_sample_decides [OF _ _ refl refl refl, of j u w] snapshot_alike [OF alike(1)]
    by (simp add: alike_def alike)
qed

lemma observe_alike:
  assumes "forget k = forget j"
  shows "alike (phase_observe at input k) (phase_observe at input j)"
proof -
  have same: "ph_last_observed_at k = ph_last_observed_at j" "ph_configuration k = ph_configuration j"
      "ph_last_sequence_id k = ph_last_sequence_id j" "ph_last_sampled_at k = ph_last_sampled_at j"
    by (subst forget_eqD [OF assms], simp)+
  then have admissible: "admissible k at input \<longleftrightarrow> admissible j at input"
    by (simp add: admissible_def split: phase_input.splits)
  have reason: "reset_reason_of k at input = reset_reason_of j at input"
    using same by (simp add: reset_reason_of_def split: phase_input.splits)
  have counted: "forget (counted k) = forget (counted j)"
      "forget ((counted k)\<lparr>ph_last_observed_at := Some at\<rparr>)
       = forget ((counted j)\<lparr>ph_last_observed_at := Some at\<rparr>)"
    using assms by (cases k; cases j; simp add: forget_def counted_def)+
  show ?thesis
  proof (cases "admissible j at input")
    case True
    then obtain sequence sampled v where "input = PhaseSample sequence sampled v"
      using admissible_sample by blast
    then show ?thesis
      using True admissible observe_admissible accept_sample_alike counted same by metis
  next
    case False
    then show ?thesis
      using admissible observe_inadmissible reason counted same
      by (simp add: reset_recorded_alike)
  qed
qed

lemma act_alike:
  assumes "forget k = forget j"
  shows "alike (phase_act a k) (phase_act a j)"
proof (cases a)
  case (ObservePhase at input)
  then show ?thesis
    using observe_alike [OF assms] by (simp add: phase_act_def)
next
  case (ResetHistory at r)
  have "forget (k\<lparr>ph_last_observed_at := Some at\<rparr>) = forget (j\<lparr>ph_last_observed_at := Some at\<rparr>)"
    using assms by (cases k; cases j) (simp add: forget_def)
  then show ?thesis
    using ResetHistory reset_recorded_alike by (simp add: phase_act_def phase_reset_history_def)
next
  case (FullReset at)
  then show ?thesis
    by (subst forget_eqD [OF assms]) (simp add: phase_act_def phase_full_reset_def alike_def)
qed

lemma trace_alike:
  "forget k = forget j \<Longrightarrow> map forget_counts (phase_trace k as) = map forget_counts (phase_trace j as)"
proof (induction as arbitrary: k j)
  case (Cons a as)
  show ?case
    using act_alike [OF Cons.prems, of a] Cons.IH [of "fst (phase_act a k)" "fst (phase_act a j)"]
    by (simp add: alike_def case_prod_unfold Let_def)
qed simp

lemma cleared_is_new:
  "cleared k \<Longrightarrow> forget k =
     forget ((phase_classifier_new (ph_configuration k))\<lparr>ph_last_observed_at := ph_last_observed_at k\<rparr>)"
  by (cases k) (simp add: cleared_def forget_def phase_classifier_new_def)

lemma reset_clears:
  assumes "phase_act a k = (k', ob)" "is_reset ob" "history_wf k"
  shows "cleared k' \<and> ph_configuration k' = ph_configuration k"
proof (cases "\<exists>at input. a = ObservePhase at input \<and> admissible k at input")
  case False
  then show ?thesis
    using act_reset [OF assms(1)] by metis
next
  case True
  then obtain at sequence sampled v where "a = ObservePhase at (PhaseSample sequence sampled v)"
      and ok: "admissible k at (PhaseSample sequence sampled v)"
    by (metis admissible_sample)
  then have accept: "accept_sample at sequence sampled v (ph_configuration k)
      ((counted k)\<lparr>ph_last_observed_at := Some at\<rparr>) = (k', ob)"
    using assms(1) observe_admissible [OF ok] by (simp add: phase_act_def)
  have "\<not> is_reset ob"
  proof (cases "ph_last_sampled_at k")
    case None
    then show ?thesis
      using accept_prime [OF accept] by (simp add: counted_def is_reset_def phase_snapshot_def)
  next
    case (Some u)
    then obtain w where w: "ph_last_value01 k = Some w"
      using assms(3) by (auto simp: history_wf_def)
    obtain c j s raw filtered where "decided c sampled (ph_configuration k) j k' s"
        "ob = phase_snapshot k' at s raw filtered"
      using Some w accept_decide [OF accept, of u w] by (simp add: counted_def) metis
    then show ?thesis
      by (auto simp: is_reset_def phase_snapshot_def decided_def split: if_splits)
  qed
  with assms(2) show ?thesis by simp
qed

section \<open>Every input is accounted for\<close>

text \<open>After \<open>n\<close> inputs: each was accepted or counted under the reason of its reset.\<close>

definition balanced :: "nat \<Rightarrow> phase_telemetry \<Rightarrow> bool" where
  "balanced n t =
     (unat (pt_received_input t) = n
      \<and> n = unat (pt_accepted_sample t) + unat (pt_missing_reset t) + unat (pt_stale_reset t)
          + unat (pt_malformed_reset t) + unat (pt_out_of_order_reset t)
          + unat (pt_time_regression_reset t) + unat (pt_discontinuity_reset t))"

lemma unat_increment: "Suc (unat n) < 2 ^ 64 \<Longrightarrow> unat (increment n) = Suc (unat n)"
  by (simp add: increment_def unat_saturating_add)

lemma decide_phase_counters:
  "ph_telemetry (fst (decide_phase c sampled p k)) =
     (ph_telemetry k)\<lparr>
       pt_candidate_change := pt_candidate_change (ph_telemetry (fst (decide_phase c sampled p k))),
       pt_phase_transition := pt_phase_transition (ph_telemetry (fst (decide_phase c sampled p k))),
       pt_hold_transition := pt_hold_transition (ph_telemetry (fst (decide_phase c sampled p k)))\<rparr>"
  by (auto simp: decide_phase_def propose_def commit_phase_def Let_def split: option.splits)

lemma accept_sample_counters:
  assumes "history_wf k"
    and t: "t = ph_telemetry (fst (accept_sample at sequence sampled v p k))"
  shows "pt_received_input t = pt_received_input (ph_telemetry k)
    \<and> pt_accepted_sample t = increment (pt_accepted_sample (ph_telemetry k))
    \<and> pt_missing_reset t = pt_missing_reset (ph_telemetry k)
    \<and> pt_stale_reset t = pt_stale_reset (ph_telemetry k)
    \<and> pt_malformed_reset t = pt_malformed_reset (ph_telemetry k)
    \<and> pt_out_of_order_reset t = pt_out_of_order_reset (ph_telemetry k)
    \<and> pt_time_regression_reset t = pt_time_regression_reset (ph_telemetry k)
    \<and> pt_discontinuity_reset t = pt_discontinuity_reset (ph_telemetry k)"
proof (cases "ph_last_sampled_at k")
  case None
  then show ?thesis
    by (simp add: t accept_sample_def phase_prime_def Let_def)
next
  case (Some u)
  then obtain w where w: "ph_last_value01 k = Some w"
    using assms(1) by (auto simp: history_wf_def)
  show ?thesis
    unfolding t accept_sample_decides [OF Some w refl refl refl] fst_conv
    by (subst decide_phase_counters, simp add: recorded_def)+
qed

lemma reset_reason_counted:
  "reset_reason_of k at input \<in> {ResetMissing, ResetStale, ResetMalformed, ResetOutOfOrder,
     ResetTimeRegression, ResetTimeDiscontinuity}"
  by (simp add: reset_reason_of_def split: phase_input.splits)

lemma balanced_reset:
  assumes "balanced n t" "Suc n < 2 ^ 64"
    "r \<in> {ResetMissing, ResetStale, ResetMalformed, ResetOutOfOrder, ResetTimeRegression,
       ResetTimeDiscontinuity}"
  shows "balanced (Suc n) (count_reset r (t\<lparr>pt_received_input := increment (pt_received_input t)\<rparr>))"
  using assms by (auto simp: balanced_def count_reset_def unat_increment)

lemma history_wf_observed: "history_wf k \<Longrightarrow> history_wf ((counted k)\<lparr>ph_last_observed_at := x\<rparr>)"
  by (auto simp: history_wf_def cleared_def counted_def)

lemma observe_balanced:
  assumes "balanced n (ph_telemetry k)" "Suc n < 2 ^ 64" "history_wf k"
  shows "balanced (Suc n) (ph_telemetry (fst (phase_observe at input k)))"
proof (cases "admissible k at input")
  case True
  then obtain sequence sampled v where input: "input = PhaseSample sequence sampled v"
    using admissible_sample by blast
  show ?thesis
    using assms True accept_sample_counters [OF history_wf_observed [OF assms(3), of "Some at"] refl,
        of at sequence sampled v "ph_configuration k"]
    unfolding input by (simp add: observe_admissible balanced_def counted_def unat_increment)
next
  case False
  show ?thesis
    unfolding observe_inadmissible [OF False]
    using balanced_reset [OF assms(1,2) reset_reason_counted]
    by (simp add: phase_reset_recorded_def phase_reset_internal_def Let_def counted_def)
qed

lemma tied_history: "tied p obs k \<Longrightarrow> history_wf k"
  by (simp add: tied_def)

text \<open>The classifier after a run.\<close>

definition phase_after :: "phase_classifier \<Rightarrow> phase_action list \<Rightarrow> phase_classifier" where
  "phase_after k as = fold (\<lambda>a k. fst (phase_act a k)) as k"

lemma observations_balanced:
  "tied p obs k \<Longrightarrow> balanced n (ph_telemetry k) \<Longrightarrow> n + length ins < 2 ^ 64
   \<Longrightarrow> balanced (n + length ins)
         (ph_telemetry (phase_after k (map (\<lambda>(at, input). ObservePhase at input) ins)))"
proof (induction ins arbitrary: obs k n)
  case (Cons x ins)
  obtain at input where x: "x = (at, input)"
    by fastforce
  define k' where "k' = fst (phase_observe at input k)"
  have act: "phase_act (ObservePhase at input) k = (k', snd (phase_observe at input k))"
    by (simp add: phase_act_def k'_def)
  then have "tied p (obs @ [snd (phase_observe at input k)]) k'"
    using tied_step [OF Cons.prems(1)] by blast
  moreover have "balanced (Suc n) (ph_telemetry k')"
    using observe_balanced [OF Cons.prems(2) _ tied_history [OF Cons.prems(1)]] Cons.prems(3)
    by (simp add: k'_def)
  ultimately show ?case
    using Cons.IH [of _ k' "Suc n"] Cons.prems(3) act by (simp add: x phase_after_def)
qed (simp add: phase_after_def)

lemma reachable_tied: "tied p obs k \<Longrightarrow> \<exists>obs'. tied p obs' (phase_after k as)"
proof (induction as arbitrary: obs k)
  case (Cons a as)
  then have "tied p (obs @ [snd (phase_act a k)]) (fst (phase_act a k))"
    using tied_step [OF Cons.prems, of a] by simp
  then show ?case
    using Cons.IH by (simp add: phase_after_def)
qed (auto simp: phase_after_def)

end
