(* ===== verification/Breath_Calibration.thy ===== *)
theory Breath_Calibration
  imports Breath_Phase
begin

text \<open>
  \<open>rusty-quest-breath-contract/src/calibration.rs\<close>: collection of accepted motion frames, the
  principal-axis fit and the live projection. A vector or matrix of the source is a list of three.
  The functions of the platform's mathematics library, whose precision Rust leaves open, are the
  fields of \<open>math_env\<close>, together with the zero that an empty floating-point sum starts from, which
  depends on the version of the standard library. An operation that would panic has the
  value \<^const>\<open>None\<close>.
\<close>

record math_env =
  me_sin :: "f64 \<Rightarrow> f64"
  me_cos :: "f64 \<Rightarrow> f64"
  me_atan2 :: "f64 \<Rightarrow> f64 \<Rightarrow> f64"
  me_hypot :: "f64 \<Rightarrow> f64 \<Rightarrow> f64"
  me_sum_negative_zero :: bool

type_synonym vec3 = "f64 list"

definition calibration_schema :: string where
  "calibration_schema = ''rusty.quest.breath_calibration.observation.v1''"

definition MIN_ANALYSIS_INTERVAL_MICROS :: u64 where
  "MIN_ANALYSIS_INTERVAL_MICROS = 100000"

definition MIN_ACCEPTED_FRAME_TARGET :: nat where
  "MIN_ACCEPTED_FRAME_TARGET = 8"

definition MAX_ACCEPTED_FRAME_TARGET :: nat where
  "MAX_ACCEPTED_FRAME_TARGET = 512"

definition MAX_CALIBRATION_WATCHDOG_MICROS :: u64 where
  "MAX_CALIBRATION_WATCHDOG_MICROS = 60000000"

definition LIVE_MEDIAN_CAPACITY :: nat where
  "LIVE_MEDIAN_CAPACITY = 5"

definition EIGEN_EPSILON :: f64 where
  "EIGEN_EPSILON = f64_literal 1 (10 ^ 12)"

definition MAX_FINITE_PARAMETER :: f64 where
  "MAX_FINITE_PARAMETER = f64_literal (10 ^ 9) 1"

section \<open>Configuration\<close>

datatype projection_space = Full3d | Xz

record calibration_parameters =
  cp_projection_space :: projection_space
  cp_accepted_frame_target :: nat
  cp_analysis_interval :: u64
  cp_watchdog :: u64
  cp_stale_after :: u64
  cp_useful_signal_min_norm :: f64
  cp_motion_deadband :: f64
  cp_maximum_component_abs :: f64
  cp_maximum_step :: f64
  cp_minimum_span :: f64
  cp_minimum_axis_dominance :: f64
  cp_live_ema_alpha :: f64
  cp_adaptive_expand_step :: f64
  cp_adaptive_contract_step :: f64
  cp_adaptive_maximum_expansion :: f64
  cp_inverted :: bool

definition calibration_parameters_default :: calibration_parameters where
  "calibration_parameters_default =
     \<lparr>cp_projection_space = Xz, cp_accepted_frame_target = 120,
      cp_analysis_interval = MIN_ANALYSIS_INTERVAL_MICROS, cp_watchdog = 30000000,
      cp_stale_after = 250000, cp_useful_signal_min_norm = f64_literal 1 10000,
      cp_motion_deadband = f64_literal 8 10000, cp_maximum_component_abs = f64_literal 32 1,
      cp_maximum_step = f64_literal 4 1, cp_minimum_span = f64_literal 2 100,
      cp_minimum_axis_dominance = f64_literal 5 100, cp_live_ema_alpha = f64_literal 45 100,
      cp_adaptive_expand_step = f64_literal 2 100, cp_adaptive_contract_step = f64_literal 2 1000,
      cp_adaptive_maximum_expansion = f64_literal 5 10, cp_inverted = False\<rparr>"

datatype calibration_configuration_error =
    AcceptedFrameTarget | AnalysisInterval | CfgWatchdog | StaleInterval | UsefulSignalThreshold
  | MotionDeadband | MaximumComponent | MaximumStep | MinimumSpan | AxisDominance
  | LiveFilterAlpha | AdaptiveExpandStep | AdaptiveContractStep | AdaptiveMaximumExpansion

definition is_finite_positive_bounded :: "f64 \<Rightarrow> bool" where
  "is_finite_positive_bounded v = (is_finite v \<and> f_lt f_zero v \<and> f_le v MAX_FINITE_PARAMETER)"

definition is_finite_nonnegative_bounded :: "f64 \<Rightarrow> bool" where
  "is_finite_nonnegative_bounded v =
     (is_finite v \<and> f_le f_zero v \<and> f_le v MAX_FINITE_PARAMETER)"

definition open_unit :: "f64 \<Rightarrow> bool" where
  "open_unit v = (is_finite v \<and> in_unit_range v \<and> \<not> f_eq v f_zero)"

text \<open>\<open>u64::checked_mul\<close> of the analysis interval with the number of gaps.\<close>

definition minimum_collection :: "calibration_parameters \<Rightarrow> u64 option" where
  "minimum_collection p =
     (let product = uint (cp_analysis_interval p) * int (cp_accepted_frame_target p - 1)
      in if product < 2 ^ 64 then Some (of_int product) else None)"

definition calibration_configuration_new ::
    "calibration_parameters \<Rightarrow> calibration_configuration_error + calibration_parameters" where
  "calibration_configuration_new p =
     and_then (reject_if
        (\<not> (MIN_ACCEPTED_FRAME_TARGET \<le> cp_accepted_frame_target p
            \<and> cp_accepted_frame_target p \<le> MAX_ACCEPTED_FRAME_TARGET)) AcceptedFrameTarget) (\<lambda>_.
     and_then (reject_if (cp_analysis_interval p < MIN_ANALYSIS_INTERVAL_MICROS) AnalysisInterval) (\<lambda>_.
     and_then (ok_or CfgWatchdog (minimum_collection p)) (\<lambda>minimum.
     and_then (first_err
       [reject_if (cp_watchdog p < minimum \<or> MAX_CALIBRATION_WATCHDOG_MICROS < cp_watchdog p)
          CfgWatchdog,
        reject_if (cp_stale_after p = 0 \<or> cp_watchdog p < cp_stale_after p) StaleInterval,
        reject_if (\<not> is_finite_nonnegative_bounded (cp_useful_signal_min_norm p))
          UsefulSignalThreshold,
        reject_if (\<not> is_finite_positive_bounded (cp_motion_deadband p)) MotionDeadband,
        reject_if (\<not> is_finite_positive_bounded (cp_maximum_component_abs p)) MaximumComponent,
        reject_if (\<not> is_finite_positive_bounded (cp_maximum_step p)
          \<or> f_le (cp_maximum_step p) (cp_motion_deadband p)) MaximumStep,
        reject_if (\<not> is_finite_positive_bounded (cp_minimum_span p)) MinimumSpan,
        reject_if (\<not> open_unit (cp_minimum_axis_dominance p)) AxisDominance,
        reject_if (\<not> open_unit (cp_live_ema_alpha p)) LiveFilterAlpha,
        reject_if (\<not> is_finite_positive_bounded (cp_adaptive_expand_step p)) AdaptiveExpandStep,
        reject_if (\<not> is_finite_nonnegative_bounded (cp_adaptive_contract_step p))
          AdaptiveContractStep,
        reject_if (\<not> is_finite_positive_bounded (cp_adaptive_maximum_expansion p)
          \<or> f_lt (cp_adaptive_maximum_expansion p) (cp_adaptive_expand_step p))
          AdaptiveMaximumExpansion]) (\<lambda>_.
     Inr p))))"

section \<open>Linear algebra\<close>

definition f64_sum :: "math_env \<Rightarrow> f64 list \<Rightarrow> f64" where
  "f64_sum e xs = foldl f_add (Finite (me_sum_negative_zero e) 0 0) xs"

text \<open>\<open>f64::from(u32::try_from(n).expect(..))\<close>.\<close>

definition count_as_f64 :: "nat \<Rightarrow> f64 option" where
  "count_as_f64 n = (if int n < 2 ^ 32 then Some (f64_of_int (int n)) else None)"

definition vec_add :: "vec3 \<Rightarrow> vec3 \<Rightarrow> vec3" where
  "vec_add a b = map2 f_add a b"

definition vec_mean :: "vec3 list \<Rightarrow> vec3 option" where
  "vec_mean frames =
     map_option (\<lambda>divisor. map (\<lambda>s. f_div s divisor) (foldl vec_add [f_zero, f_zero, f_zero] frames))
       (count_as_f64 (length frames))"

definition frame_delta :: "vec3 \<Rightarrow> projection_space \<Rightarrow> vec3 \<Rightarrow> vec3" where
  "frame_delta center space frame =
     (let d = [f_sub (frame ! 0) (center ! 0), f_sub (frame ! 1) (center ! 1),
               f_sub (frame ! 2) (center ! 2)]
      in if space = Xz then d[1 := f_zero] else d)"

text \<open>The running sums \<open>xx xy xz yy yz zz\<close>.\<close>

definition covariance_sums :: "vec3 list \<Rightarrow> f64 list" where
  "covariance_sums deltas =
     foldl (\<lambda>acc d. map2 f_add acc
         [f_mul (d ! 0) (d ! 0), f_mul (d ! 0) (d ! 1), f_mul (d ! 0) (d ! 2),
          f_mul (d ! 1) (d ! 1), f_mul (d ! 1) (d ! 2), f_mul (d ! 2) (d ! 2)])
       (replicate 6 f_zero) deltas"

definition covariance :: "vec3 list \<Rightarrow> vec3 \<Rightarrow> projection_space \<Rightarrow> vec3 list option" where
  "covariance frames center space =
     map_option (\<lambda>divisor.
       let s = map (\<lambda>v. f_div v divisor) (covariance_sums (map (frame_delta center space) frames))
       in [[s ! 0, s ! 1, s ! 2], [s ! 1, s ! 3, s ! 4], [s ! 2, s ! 4, s ! 5]])
       (count_as_f64 (length frames))"

definition mat_get :: "vec3 list \<Rightarrow> nat \<Rightarrow> nat \<Rightarrow> f64" where
  "mat_get m i j = m ! i ! j"

definition mat_set :: "nat \<Rightarrow> nat \<Rightarrow> f64 \<Rightarrow> vec3 list \<Rightarrow> vec3 list" where
  "mat_set i j v m = m[i := (m ! i)[j := v]]"

definition largest_off_diagonal :: "vec3 list \<Rightarrow> nat \<times> nat \<times> f64" where
  "largest_off_diagonal m =
     max_by (\<lambda>l r. total_le (snd (snd l)) (snd (snd r)))
       (0, 1, f_abs (mat_get m 0 1)) [(0, 2, f_abs (mat_get m 0 2)), (1, 2, f_abs (mat_get m 1 2))]"

definition rotate_off_diagonal :: "nat \<Rightarrow> nat \<Rightarrow> f64 \<Rightarrow> f64 \<Rightarrow> nat \<Rightarrow> vec3 list \<Rightarrow> vec3 list" where
  "rotate_off_diagonal p q cosine sine i m =
     (if i \<noteq> p \<and> i \<noteq> q then
        let a = mat_get m i p; b = mat_get m i q;
            u = f_sub (f_mul cosine a) (f_mul sine b);
            w = f_add (f_mul sine a) (f_mul cosine b)
        in mat_set q i w (mat_set i q w (mat_set p i u (mat_set i p u m)))
      else m)"

definition rotate_diagonal :: "nat \<Rightarrow> nat \<Rightarrow> f64 \<Rightarrow> f64 \<Rightarrow> vec3 list \<Rightarrow> vec3 list" where
  "rotate_diagonal p q cosine sine m =
     (let a = mat_get m p p; b = mat_get m q q; cross = mat_get m p q; two = f64_literal 2 1;
          first = f_mul_add cosine (f_sub (f_mul cosine a) (f_mul (f_mul two sine) cross))
            (f_mul (f_mul sine sine) b);
          second = f_mul_add sine (f_add (f_mul sine a) (f_mul (f_mul two cosine) cross))
            (f_mul (f_mul cosine cosine) b)
      in mat_set q p f_zero (mat_set p q f_zero (mat_set q q second (mat_set p p first m))))"

definition rotate_row :: "nat \<Rightarrow> nat \<Rightarrow> f64 \<Rightarrow> f64 \<Rightarrow> vec3 \<Rightarrow> vec3" where
  "rotate_row p q cosine sine row =
     (let a = row ! p; b = row ! q
      in row[p := f_sub (f_mul cosine a) (f_mul sine b),
             q := f_add (f_mul sine a) (f_mul cosine b)])"

text \<open>At most \<open>n\<close> Jacobi rotations; the source makes at most 24.\<close>

primrec jacobi :: "math_env \<Rightarrow> nat \<Rightarrow> vec3 list \<Rightarrow> vec3 list \<Rightarrow> vec3 list \<times> vec3 list" where
  "jacobi e 0 m vectors = (m, vectors)"
| "jacobi e (Suc n) m vectors =
     (let (p, q, magnitude) = largest_off_diagonal m
      in if f_le magnitude EIGEN_EPSILON then (m, vectors)
         else
           let angle = f_mul (f64_literal 5 10)
                 (me_atan2 e (f_mul (f64_literal 2 1) (mat_get m p q))
                   (f_sub (mat_get m q q) (mat_get m p p)));
               cosine = me_cos e angle; sine = me_sin e angle;
               m' = fold (rotate_off_diagonal p q cosine sine) [0, 1, 2] m
           in jacobi e n (rotate_diagonal p q cosine sine m')
                (map (rotate_row p q cosine sine) vectors))"

definition identity3 :: "vec3 list" where
  "identity3 = [[f_one, f_zero, f_zero], [f_zero, f_one, f_zero], [f_zero, f_zero, f_one]]"

definition symmetric_eigen :: "math_env \<Rightarrow> vec3 list \<Rightarrow> f64 list \<times> vec3 list" where
  "symmetric_eigen e m =
     (let (m, vectors) = jacobi e 24 m identity3;
          pairs = map (\<lambda>i. (mat_get m i i, map (\<lambda>row. row ! i) vectors)) [0, 1, 2];
          sorted = sort_by (\<lambda>l r. total_le (fst r) (fst l)) pairs
      in (map fst sorted, map snd sorted))"

definition space_indices :: "projection_space \<Rightarrow> nat \<times> nat list" where
  "space_indices space = (case space of Full3d \<Rightarrow> (0, [1, 2]) | Xz \<Rightarrow> (0, [2]))"

definition anchor_direction :: "projection_space \<Rightarrow> vec3 \<Rightarrow> vec3" where
  "anchor_direction space axis =
     (let (first, rest) = space_indices space;
          dominant = max_by (\<lambda>l r. total_le (f_abs (axis ! l)) (f_abs (axis ! r))) first rest
      in if f_lt (axis ! dominant) f_zero then map f_neg axis else axis)"

definition normalize :: "math_env \<Rightarrow> vec3 \<Rightarrow> vec3" where
  "normalize e v =
     (let norm = f_sqrt (f64_sum e (map (\<lambda>x. f_mul x x) v))
      in if f_lt EIGEN_EPSILON norm then map (\<lambda>x. f_div x norm) v else v)"

definition project :: "math_env \<Rightarrow> vec3 \<Rightarrow> vec3 \<Rightarrow> vec3 \<Rightarrow> f64" where
  "project e v center axis =
     f64_sum e (map (\<lambda>((x, c), a). f_mul (f_sub x c) a) (zip (zip v center) axis))"

definition projected_norm :: "math_env \<Rightarrow> vec3 \<Rightarrow> projection_space \<Rightarrow> f64" where
  "projected_norm e v space =
     (case space of
        Full3d \<Rightarrow> f_sqrt (f64_sum e (map (\<lambda>x. f_mul x x) v))
      | Xz \<Rightarrow> me_hypot e (v ! 0) (v ! 2))"

definition projected_distance :: "math_env \<Rightarrow> vec3 \<Rightarrow> vec3 \<Rightarrow> projection_space \<Rightarrow> f64" where
  "projected_distance e l r space =
     projected_norm e [f_sub (l ! 0) (r ! 0), f_sub (l ! 1) (r ! 1), f_sub (l ! 2) (r ! 2)] space"

text \<open>Indexing an empty slice panics.\<close>

definition percentile :: "f64 list \<Rightarrow> nat \<Rightarrow> f64 option" where
  "percentile xs percent =
     (let position = (length xs - 1) * percent; low = position div 100; rest = position mod 100;
          high = (if rest = 0 then low else low + 1)
      in if length xs \<le> high then None
         else if low = high then Some (xs ! low)
         else Some (f_add (xs ! low)
           (f_mul (f_div (f64_of_int (int rest)) (f64_literal 100 1)) (f_sub (xs ! high) (xs ! low)))))"

text \<open>The median of at most five values; of none the source would index before the slice.\<close>

definition median :: "f64 list \<Rightarrow> f64 option" where
  "median xs =
     (let ordered = sort_by total_le xs; middle = length xs div 2
      in if xs = [] \<or> LIVE_MEDIAN_CAPACITY < length xs then None
         else if even (length xs)
           then Some (f_mul (f_add (ordered ! (middle - 1)) (ordered ! middle)) (f64_literal 5 10))
         else Some (ordered ! middle))"

section \<open>Data\<close>

text \<open>\<open>CalibrationLifecycle\<close>, which the assessments carry too.\<close>

datatype calibration_lifecycle =
    CalDisabled | CalConfigured | CalCollecting | CalReady | CalCancelled | CalFailed

record motion_frame =
  mf_sequence_id :: u64
  mf_sampled_at :: timestamp
  mf_vector :: vec3

datatype calibration_input = CalMissing | CalFrame motion_frame

datatype calibration_status =
    CsDisabled | CsReset | CsConfigured | CsStarted | AnalysisDeferred | AnalysisFrameAccepted
  | MotionBelowDeadband | LiveUpdated | CsReady | CsMissingInput | InputRejected | CsCancelled
  | CsFailed | ActionRejected

datatype calibration_action_kind = CkReset | CkConfigure | CkStart | CkCancel | CkObserve

datatype calibration_input_error =
    NonFiniteComponent nat
  | ComponentOutOfBounds nat f64 f64
  | CalFutureTimestamp
  | OutOfOrderTimestamp timestamp timestamp
  | OutOfOrderSequence u64 u64
  | CalStale u64 u64
  | NotUsefulSignal f64 f64
  | StepOutOfBounds f64 f64

datatype calibration_rejection =
    CalInvalidConfiguration calibration_configuration_error
  | CalInvalidLifecycle calibration_action_kind calibration_lifecycle
  | CalGenerationMismatch generation "generation option"
  | GenerationNotFresh generation generation
  | CalTimeRegression timestamp timestamp
  | CalInput calibration_input_error

datatype watchdog_cause = NoUsefulSignal | InsufficientMotion | InsufficientAcceptedFrames

datatype calibration_failure =
    FailWatchdog watchdog_cause nat nat u64
  | DegenerateAxis f64 f64 f64 f64
  | InsufficientSpan f64 f64

record calibration_model =
  cm_projection_space :: projection_space
  cm_center :: vec3
  cm_axis :: vec3
  cm_initial_lower :: f64
  cm_initial_upper :: f64
  cm_lower :: f64
  cm_upper :: f64
  cm_initial_span :: f64
  cm_axis_dominance01 :: f64
  cm_inverted :: bool

record live_output =
  lo_sequence_id :: u64
  lo_sampled_at :: timestamp
  lo_observed_at :: timestamp
  lo_raw_projection :: f64
  lo_filtered_projection :: f64
  lo_volume01 :: f64
  lo_analysis_admitted :: bool

record calibration_telemetry =
  kt_received_input :: u64
  kt_structurally_admitted :: u64
  kt_useful_frame :: u64
  kt_rejected_frame :: u64
  kt_analysis_tick :: u64
  kt_accepted_analysis_frame :: u64
  kt_motion_deadband_rejection :: u64
  kt_analysis_deferred :: u64
  kt_live_update :: u64
  kt_adaptive_update :: u64
  kt_missing_input :: u64
  kt_stale_input :: u64
  kt_malformed_input :: u64
  kt_out_of_order_input :: u64
  kt_not_useful_input :: u64
  kt_excessive_step :: u64
  kt_generation_rejection :: u64
  kt_time_regression :: u64
  kt_lifecycle_rejection :: u64

definition calibration_telemetry_default :: calibration_telemetry where
  "calibration_telemetry_default =
     \<lparr>kt_received_input = 0, kt_structurally_admitted = 0, kt_useful_frame = 0,
      kt_rejected_frame = 0, kt_analysis_tick = 0, kt_accepted_analysis_frame = 0,
      kt_motion_deadband_rejection = 0, kt_analysis_deferred = 0, kt_live_update = 0,
      kt_adaptive_update = 0, kt_missing_input = 0, kt_stale_input = 0, kt_malformed_input = 0,
      kt_out_of_order_input = 0, kt_not_useful_input = 0, kt_excessive_step = 0,
      kt_generation_rejection = 0, kt_time_regression = 0, kt_lifecycle_rejection = 0\<rparr>"

record calibration_observation =
  co_schema_id :: string
  co_lifecycle :: calibration_lifecycle
  co_generation :: "generation option"
  co_status :: calibration_status
  co_rejection :: "calibration_rejection option"
  co_failure :: "calibration_failure option"
  co_accepted_frames :: nat
  co_target_frames :: "nat option"
  co_progress01 :: f64
  co_watchdog_age :: "u64 option"
  co_model :: "calibration_model option"
  co_live :: "live_output option"
  co_telemetry :: calibration_telemetry

record calibration =
  cal_lifecycle :: calibration_lifecycle
  cal_configuration :: "calibration_parameters option"
  cal_generation :: "generation option"
  cal_highest_started :: "generation option"
  cal_started_at :: "timestamp option"
  cal_last_action_at :: "timestamp option"
  cal_last_input_at :: "timestamp option"
  cal_last_sequence_id :: "u64 option"
  cal_last_useful_vector :: "vec3 option"
  cal_last_analysis_at :: "timestamp option"
  cal_last_analysis_vector :: "vec3 option"
  cal_accepted_frames :: "vec3 list"
  cal_model :: "calibration_model option"
  cal_median_values :: "f64 list"
  cal_median_len :: nat
  cal_median_next :: nat
  cal_filtered_projection :: "f64 option"
  cal_live :: "live_output option"
  cal_status :: calibration_status
  cal_rejection :: "calibration_rejection option"
  cal_failure :: "calibration_failure option"
  cal_telemetry :: calibration_telemetry

definition calibration_default :: calibration where
  "calibration_default =
     \<lparr>cal_lifecycle = CalDisabled, cal_configuration = None, cal_generation = None,
      cal_highest_started = None, cal_started_at = None, cal_last_action_at = None,
      cal_last_input_at = None, cal_last_sequence_id = None, cal_last_useful_vector = None,
      cal_last_analysis_at = None, cal_last_analysis_vector = None, cal_accepted_frames = [],
      cal_model = None, cal_median_values = replicate LIVE_MEDIAN_CAPACITY f_zero,
      cal_median_len = 0, cal_median_next = 0, cal_filtered_projection = None, cal_live = None,
      cal_status = CsDisabled, cal_rejection = None, cal_failure = None,
      cal_telemetry = calibration_telemetry_default\<rparr>"

section \<open>Fit\<close>

definition fit_dominance :: "f64 \<Rightarrow> f64 \<Rightarrow> f64" where
  "fit_dominance largest second =
     (if f_le largest EIGEN_EPSILON then f_zero
      else f_clamp (f_div (f_sub largest second) largest) f_zero f_one)"

definition fit_axis :: "math_env \<Rightarrow> calibration_parameters \<Rightarrow> vec3 \<Rightarrow> vec3" where
  "fit_axis e p axis =
     (let axis = (if cp_projection_space p = Xz then axis[1 := f_zero] else axis);
          axis = anchor_direction (cp_projection_space p) (normalize e axis)
      in if cp_inverted p then map f_neg axis else axis)"

definition fit_bounds ::
    "math_env \<Rightarrow> calibration_parameters \<Rightarrow> vec3 list \<Rightarrow> vec3 \<Rightarrow> vec3 \<Rightarrow> f64
     \<Rightarrow> (calibration_failure + calibration_model) option" where
  "fit_bounds e p frames center axis dominance =
     (let projections = sort_by total_le (map (\<lambda>f. project e f center axis) frames)
      in case (percentile projections 5, percentile projections 95) of
           (Some lower, Some upper) \<Rightarrow>
             (let span = f_sub upper lower
              in Some (if \<not> is_finite span \<or> f_lt span (cp_minimum_span p)
                   then Inl (InsufficientSpan span (cp_minimum_span p))
                   else Inr \<lparr>cm_projection_space = cp_projection_space p, cm_center = center,
                     cm_axis = axis, cm_initial_lower = lower, cm_initial_upper = upper,
                     cm_lower = lower, cm_upper = upper, cm_initial_span = span,
                     cm_axis_dominance01 = dominance, cm_inverted = cp_inverted p\<rparr>))
         | _ \<Rightarrow> None)"

definition fit_model ::
    "math_env \<Rightarrow> vec3 list \<Rightarrow> calibration_parameters \<Rightarrow> (calibration_failure + calibration_model) option" where
  "fit_model e frames p =
     (case vec_mean frames of
        None \<Rightarrow> None
      | Some center \<Rightarrow>
          (case covariance frames center (cp_projection_space p) of
             None \<Rightarrow> None
           | Some m \<Rightarrow>
               (let (eigenvalues, eigenvectors) = symmetric_eigen e m;
                    largest = f_max (eigenvalues ! 0) f_zero;
                    second = f_max (eigenvalues ! 1) f_zero;
                    dominance = fit_dominance largest second
                in if f_le largest EIGEN_EPSILON \<or> f_lt dominance (cp_minimum_axis_dominance p)
                   then Some (Inl (DegenerateAxis largest second dominance
                     (cp_minimum_axis_dominance p)))
                   else fit_bounds e p frames center (fit_axis e p (eigenvectors ! 0)) dominance)))"

text \<open>The same fit in stages, each of which evaluates its arguments once.\<close>

definition fit_checked ::
    "math_env \<Rightarrow> calibration_parameters \<Rightarrow> vec3 list \<Rightarrow> vec3 \<Rightarrow> vec3 \<Rightarrow> f64 \<Rightarrow> f64
     \<Rightarrow> f64 \<Rightarrow> (calibration_failure + calibration_model) option" where
  "fit_checked e p frames center axis largest second dominance =
     (if f_le largest EIGEN_EPSILON \<or> f_lt dominance (cp_minimum_axis_dominance p)
      then Some (Inl (DegenerateAxis largest second dominance (cp_minimum_axis_dominance p)))
      else fit_bounds e p frames center (fit_axis e p axis) dominance)"

definition fit_spectrum ::
    "math_env \<Rightarrow> calibration_parameters \<Rightarrow> vec3 list \<Rightarrow> vec3 \<Rightarrow> vec3 \<Rightarrow> f64 \<Rightarrow> f64
     \<Rightarrow> (calibration_failure + calibration_model) option" where
  "fit_spectrum e p frames center axis largest second =
     fit_checked e p frames center axis largest second (fit_dominance largest second)"

fun fit_eigen ::
    "math_env \<Rightarrow> calibration_parameters \<Rightarrow> vec3 list \<Rightarrow> vec3 \<Rightarrow> f64 list \<times> vec3 list
     \<Rightarrow> (calibration_failure + calibration_model) option" where
  "fit_eigen e p frames center (eigenvalues, eigenvectors) =
     fit_spectrum e p frames center (eigenvectors ! 0) (f_max (eigenvalues ! 0) f_zero)
       (f_max (eigenvalues ! 1) f_zero)"

lemma fit_model_code [code]:
  "fit_model e frames p =
     (case vec_mean frames of
        None \<Rightarrow> None
      | Some center \<Rightarrow>
          (case covariance frames center (cp_projection_space p) of
             None \<Rightarrow> None
           | Some m \<Rightarrow> fit_eigen e p frames center (symmetric_eigen e m)))"
  by (simp add: fit_model_def fit_spectrum_def fit_checked_def Let_def split: option.split prod.split)

definition adapt_bounds :: "f64 \<Rightarrow> calibration_parameters \<Rightarrow> calibration_model \<Rightarrow> calibration_model" where
  "adapt_bounds projection p m =
     (let minimum_lower = f_sub (cm_initial_lower m) (cp_adaptive_maximum_expansion p);
          maximum_upper = f_add (cm_initial_upper m) (cp_adaptive_maximum_expansion p);
          lower = (if f_lt projection (cm_lower m)
            then f_max (f_sub (cm_lower m)
              (f_min (f_sub (cm_lower m) projection) (cp_adaptive_expand_step p))) minimum_lower
            else if f_lt (cm_lower m) (cm_initial_lower m)
            then f_min (f_add (cm_lower m) (cp_adaptive_contract_step p)) (cm_initial_lower m)
            else cm_lower m);
          upper = (if f_lt (cm_upper m) projection
            then f_min (f_add (cm_upper m)
              (f_min (f_sub projection (cm_upper m)) (cp_adaptive_expand_step p))) maximum_upper
            else if f_lt (cm_initial_upper m) (cm_upper m)
            then f_max (f_sub (cm_upper m) (cp_adaptive_contract_step p)) (cm_initial_upper m)
            else cm_upper m)
      in if f_lt (f_sub upper lower) (cp_minimum_span p) then
           let midpoint = f_mul (f_add upper lower) (f64_literal 5 10);
               half_span = f_mul (cp_minimum_span p) (f64_literal 5 10)
           in m\<lparr>cm_lower := f_sub midpoint half_span, cm_upper := f_add midpoint half_span\<rparr>
         else m\<lparr>cm_lower := lower, cm_upper := upper\<rparr>)"

section \<open>Snapshots, rejections and failures\<close>

definition bounded_u32 :: "nat \<Rightarrow> f64" where
  "bounded_u32 n = f64_of_int (min (int n) (2 ^ 32 - 1))"

definition calibration_snapshot :: "calibration \<Rightarrow> calibration_observation" where
  "calibration_snapshot c =
     (let target = map_option cp_accepted_frame_target (cal_configuration c)
      in \<lparr>co_schema_id = calibration_schema, co_lifecycle = cal_lifecycle c,
          co_generation = cal_generation c, co_status = cal_status c,
          co_rejection = cal_rejection c, co_failure = cal_failure c,
          co_accepted_frames = length (cal_accepted_frames c), co_target_frames = target,
          co_progress01 = (case target of
             None \<Rightarrow> f_zero
           | Some n \<Rightarrow> f_clamp (f_div (bounded_u32 (length (cal_accepted_frames c))) (bounded_u32 n))
               f_zero f_one),
          co_watchdog_age = elapsed_between (cal_last_action_at c) (cal_started_at c),
          co_model = cal_model c, co_live = cal_live c, co_telemetry = cal_telemetry c\<rparr>)"

definition cal_shown :: "calibration \<Rightarrow> calibration \<times> calibration_observation" where
  "cal_shown c = (c, calibration_snapshot c)"

text \<open>Count one event: \<open>tally kt_missing_input_update\<close> increments that counter.\<close>

definition tally ::
    "((u64 \<Rightarrow> u64) \<Rightarrow> calibration_telemetry \<Rightarrow> calibration_telemetry) \<Rightarrow> calibration \<Rightarrow> calibration" where
  "tally counter c = c\<lparr>cal_telemetry := counter increment (cal_telemetry c)\<rparr>"

definition cal_reject :: "calibration_rejection \<Rightarrow> calibration \<Rightarrow> calibration \<times> calibration_observation" where
  "cal_reject r c = cal_shown (c\<lparr>cal_status := ActionRejected, cal_rejection := Some r\<rparr>)"

definition cal_reject_time_regression ::
    "timestamp \<Rightarrow> calibration \<Rightarrow> (calibration \<times> calibration_observation) option" where
  "cal_reject_time_regression at c =
     (case cal_last_action_at c of
        None \<Rightarrow> None
      | Some previous \<Rightarrow>
          if previous \<le> at then None
          else Some (cal_reject (CalTimeRegression at previous) (tally kt_time_regression_update c)))"

definition cal_reject_lifecycle ::
    "calibration_action_kind \<Rightarrow> calibration \<Rightarrow> calibration \<times> calibration_observation" where
  "cal_reject_lifecycle action c =
     cal_reject (CalInvalidLifecycle action (cal_lifecycle c)) (tally kt_lifecycle_rejection_update c)"

definition cal_reject_generation :: "generation \<Rightarrow> calibration \<Rightarrow> calibration \<times> calibration_observation" where
  "cal_reject_generation submitted c =
     cal_reject (CalGenerationMismatch submitted (cal_generation c))
       (tally kt_generation_rejection_update c)"

definition reject_input :: "calibration_input_error \<Rightarrow> calibration \<Rightarrow> calibration \<times> calibration_observation" where
  "reject_input e c =
     cal_shown ((tally kt_rejected_frame_update c)\<lparr>cal_live := None, cal_status := InputRejected,
       cal_rejection := Some (CalInput e)\<rparr>)"

definition clear_generation_state :: "calibration \<Rightarrow> calibration" where
  "clear_generation_state c =
     c\<lparr>cal_started_at := None, cal_last_input_at := None, cal_last_sequence_id := None,
       cal_last_useful_vector := None, cal_last_analysis_at := None,
       cal_last_analysis_vector := None, cal_accepted_frames := [], cal_model := None,
       cal_median_values := replicate LIVE_MEDIAN_CAPACITY f_zero, cal_median_len := 0,
       cal_median_next := 0, cal_filtered_projection := None, cal_live := None\<rparr>"

definition cal_fail :: "calibration_failure \<Rightarrow> calibration \<Rightarrow> calibration \<times> calibration_observation" where
  "cal_fail f c =
     cal_shown (c\<lparr>cal_lifecycle := CalFailed, cal_live := None, cal_status := CsFailed,
       cal_rejection := None, cal_failure := Some f\<rparr>)"

section \<open>Lifecycle operations\<close>

definition cal_reset :: "timestamp \<Rightarrow> calibration \<Rightarrow> calibration \<times> calibration_observation" where
  "cal_reset at c =
     (case cal_reject_time_regression at c of
        Some rejected \<Rightarrow> rejected
      | None \<Rightarrow>
          cal_shown ((clear_generation_state c)\<lparr>cal_lifecycle := CalDisabled,
            cal_configuration := None, cal_generation := None, cal_last_action_at := Some at,
            cal_status := CsReset, cal_rejection := None, cal_failure := None,
            cal_telemetry := calibration_telemetry_default\<rparr>))"

definition cal_configure ::
    "timestamp \<Rightarrow> calibration_configuration_error + calibration_parameters \<Rightarrow> calibration
     \<Rightarrow> calibration \<times> calibration_observation" where
  "cal_configure at cfg c =
     (case cal_reject_time_regression at c of
        Some rejected \<Rightarrow> rejected
      | None \<Rightarrow>
          if cal_lifecycle c \<in> {CalCollecting, CalReady} then cal_reject_lifecycle CkConfigure c
          else (case cfg of
              Inl err \<Rightarrow> cal_reject (CalInvalidConfiguration err) c
            | Inr p \<Rightarrow>
                cal_shown ((clear_generation_state c)\<lparr>cal_configuration := Some p,
                  cal_lifecycle := CalConfigured, cal_generation := None,
                  cal_last_action_at := Some at, cal_status := CsConfigured,
                  cal_rejection := None, cal_failure := None\<rparr>)))"

definition cal_start ::
    "timestamp \<Rightarrow> generation \<Rightarrow> calibration \<Rightarrow> calibration \<times> calibration_observation" where
  "cal_start at g c =
     (case cal_reject_time_regression at c of
        Some rejected \<Rightarrow> rejected
      | None \<Rightarrow>
          if cal_configuration c = None
            \<or> cal_lifecycle c \<notin> {CalConfigured, CalCancelled, CalFailed}
          then cal_reject_lifecycle CkStart c
          else
            let proceed = cal_shown ((clear_generation_state c)\<lparr>cal_lifecycle := CalCollecting,
                  cal_generation := Some g, cal_highest_started := Some g,
                  cal_started_at := Some at, cal_last_action_at := Some at,
                  cal_status := CsStarted, cal_rejection := None, cal_failure := None\<rparr>)
            in case cal_highest_started c of
                 Some previous \<Rightarrow>
                   if g \<le> previous then cal_reject (GenerationNotFresh g previous) c else proceed
               | None \<Rightarrow> proceed)"

definition cal_cancel ::
    "timestamp \<Rightarrow> generation \<Rightarrow> calibration \<Rightarrow> calibration \<times> calibration_observation" where
  "cal_cancel at g c =
     (if cal_lifecycle c \<notin> {CalCollecting, CalReady, CalFailed} then cal_reject_lifecycle CkCancel c
      else if cal_generation c \<noteq> Some g then cal_reject_generation g c
      else (case cal_reject_time_regression at c of
          Some rejected \<Rightarrow> rejected
        | None \<Rightarrow>
            cal_shown ((clear_generation_state c)\<lparr>cal_lifecycle := CalCancelled,
              cal_generation := None, cal_last_action_at := Some at, cal_status := CsCancelled,
              cal_rejection := None, cal_failure := None\<rparr>)))"

section \<open>Observation\<close>

type_synonym cal_result = "(calibration \<times> calibration_observation) option"

definition update_live ::
    "math_env \<Rightarrow> timestamp \<Rightarrow> motion_frame \<Rightarrow> calibration_parameters \<Rightarrow> bool \<Rightarrow> calibration_status
     \<Rightarrow> calibration \<Rightarrow> cal_result" where
  "update_live e at frame p analysis s c =
     (case cal_model c of
        None \<Rightarrow> None
      | Some model \<Rightarrow>
          if length (cal_median_values c) \<le> cal_median_next c then None
          else
            let raw = project e (mf_vector frame) (cm_center model) (cm_axis model);
                values = (cal_median_values c)[cal_median_next c := raw];
                c = c\<lparr>cal_median_values := values,
                      cal_median_next := (cal_median_next c + 1) mod LIVE_MEDIAN_CAPACITY,
                      cal_median_len := min (cal_median_len c + 1) LIVE_MEDIAN_CAPACITY\<rparr>
            in case median (take (cal_median_len c) (cal_median_values c)) of
                 None \<Rightarrow> None
               | Some middle \<Rightarrow>
                   (let filtered = (case cal_filtered_projection c of
                          None \<Rightarrow> middle
                        | Some previous \<Rightarrow>
                            f_add previous (f_mul (cp_live_ema_alpha p) (f_sub middle previous)));
                        model = (if analysis then adapt_bounds filtered p model else model);
                        c = (if analysis
                             then (tally kt_adaptive_update_update c)\<lparr>cal_model := Some model\<rparr> else c);
                        span = f_max (f_sub (cm_upper model) (cm_lower model)) (cp_minimum_span p);
                        volume = f_clamp (f_div (f_sub filtered (cm_lower model)) span) f_zero f_one
                    in Some (cal_shown ((tally kt_live_update_update c)\<lparr>
                         cal_filtered_projection := Some filtered,
                         cal_live := Some \<lparr>lo_sequence_id = mf_sequence_id frame,
                           lo_sampled_at = mf_sampled_at frame, lo_observed_at = at,
                           lo_raw_projection = raw, lo_filtered_projection = filtered,
                           lo_volume01 = volume, lo_analysis_admitted = analysis\<rparr>,
                         cal_status := s, cal_rejection := None\<rparr>))))"

definition observe_collecting ::
    "math_env \<Rightarrow> timestamp \<Rightarrow> motion_frame \<Rightarrow> calibration_parameters \<Rightarrow> bool \<Rightarrow> calibration
     \<Rightarrow> cal_result" where
  "observe_collecting e at frame p due c =
     (if \<not> due then
        Some (cal_shown ((tally kt_analysis_deferred_update c)\<lparr>cal_status := AnalysisDeferred,
          cal_rejection := None, cal_live := None\<rparr>))
      else if (case cal_last_analysis_vector c of
                 None \<Rightarrow> False
               | Some previous \<Rightarrow>
                   f_lt (projected_distance e previous (mf_vector frame) (cp_projection_space p))
                     (cp_motion_deadband p))
      then Some (cal_shown ((tally kt_motion_deadband_rejection_update c)\<lparr>
          cal_status := MotionBelowDeadband, cal_rejection := None, cal_live := None\<rparr>))
      else
        let c = (tally kt_accepted_analysis_frame_update c)\<lparr>
              cal_last_analysis_vector := Some (mf_vector frame),
              cal_accepted_frames := cal_accepted_frames c @ [mf_vector frame]\<rparr>
        in if length (cal_accepted_frames c) < cp_accepted_frame_target p then
             Some (cal_shown (c\<lparr>cal_status := AnalysisFrameAccepted, cal_rejection := None\<rparr>))
           else (case fit_model e (cal_accepted_frames c) p of
               None \<Rightarrow> None
             | Some (Inl failure) \<Rightarrow> Some (cal_fail failure c)
             | Some (Inr model) \<Rightarrow>
                 update_live e at frame p False CsReady
                   (c\<lparr>cal_model := Some model, cal_lifecycle := CalReady, cal_status := CsReady,
                      cal_rejection := None, cal_failure := None\<rparr>)))"

text \<open>The check of the coordinates, in order.\<close>

definition component_error :: "calibration_parameters \<Rightarrow> nat \<times> f64 \<Rightarrow> calibration_input_error option" where
  "component_error p x =
     (case x of (i, v) \<Rightarrow>
        if \<not> is_finite v then Some (NonFiniteComponent i)
        else if f_lt (cp_maximum_component_abs p) (f_abs v)
          then Some (ComponentOutOfBounds i v (cp_maximum_component_abs p))
        else None)"

primrec first_component_error ::
    "calibration_parameters \<Rightarrow> (nat \<times> f64) list \<Rightarrow> calibration_input_error option" where
  "first_component_error p [] = None"
| "first_component_error p (x # xs) =
     (case component_error p x of Some err \<Rightarrow> Some err | None \<Rightarrow> first_component_error p xs)"

text \<open>The second half of \<open>observe_frame\<close>, from the analysis cadence on.\<close>

definition analyse_frame ::
    "math_env \<Rightarrow> timestamp \<Rightarrow> motion_frame \<Rightarrow> calibration_parameters \<Rightarrow> calibration \<Rightarrow> cal_result" where
  "analyse_frame e at frame p c =
     (let c = (tally kt_useful_frame_update c)\<lparr>cal_last_useful_vector := Some (mf_vector frame)\<rparr>;
          due = (case cal_last_analysis_at c of
             None \<Rightarrow> True
           | Some previous \<Rightarrow> cp_analysis_interval p \<le> saturating_sub at previous);
          c = (if due then (tally kt_analysis_tick_update c)\<lparr>cal_last_analysis_at := Some at\<rparr> else c)
      in if cal_lifecycle c = CalCollecting then observe_collecting e at frame p due c
         else update_live e at frame p due LiveUpdated c)"

text \<open>
  The middle of \<open>observe_frame\<close>: age, useful signal and step. The age is an unchecked subtraction
  of the source, which panics when it underflows.
\<close>

definition assess_frame ::
    "math_env \<Rightarrow> timestamp \<Rightarrow> motion_frame \<Rightarrow> calibration_parameters \<Rightarrow> calibration \<Rightarrow> cal_result" where
  "assess_frame e at frame p c =
     (case checked_sub at (mf_sampled_at frame) of
        None \<Rightarrow> None
      | Some age \<Rightarrow>
          let c = c\<lparr>cal_last_input_at := Some (mf_sampled_at frame),
                cal_last_sequence_id := Some (mf_sequence_id frame)\<rparr>
          in if cp_stale_after p < age then
               Some (reject_input (CalStale age (cp_stale_after p)) (tally kt_stale_input_update c))
             else
               let c = tally kt_structurally_admitted_update c;
                   norm = projected_norm e (mf_vector frame) (cp_projection_space p)
               in if f_lt norm (cp_useful_signal_min_norm p) then
                    Some (reject_input (NotUsefulSignal norm (cp_useful_signal_min_norm p))
                      (tally kt_not_useful_input_update c))
                  else (case cal_last_useful_vector c of
                      Some previous \<Rightarrow>
                        (let step = projected_distance e previous (mf_vector frame) (cp_projection_space p)
                         in if f_lt (cp_maximum_step p) step then
                              Some (reject_input (StepOutOfBounds step (cp_maximum_step p))
                                (tally kt_excessive_step_update c))
                            else analyse_frame e at frame p c)
                    | None \<Rightarrow> analyse_frame e at frame p c))"

definition observe_frame ::
    "math_env \<Rightarrow> timestamp \<Rightarrow> motion_frame \<Rightarrow> calibration \<Rightarrow> cal_result" where
  "observe_frame e at frame c =
     (case cal_configuration c of
        None \<Rightarrow> None
      | Some p \<Rightarrow>
          if at < mf_sampled_at frame then Some (reject_input CalFutureTimestamp c)
          else if not_increasing (cal_last_input_at c) (mf_sampled_at frame) then
            map_option (\<lambda>previous. reject_input (OutOfOrderTimestamp (mf_sampled_at frame) previous)
              (tally kt_out_of_order_input_update c)) (cal_last_input_at c)
          else if not_increasing (cal_last_sequence_id c) (mf_sequence_id frame) then
            map_option (\<lambda>previous. reject_input (OutOfOrderSequence (mf_sequence_id frame) previous)
              (tally kt_out_of_order_input_update c)) (cal_last_sequence_id c)
          else (case first_component_error p (enumerate 0 (mf_vector frame)) of
              Some err \<Rightarrow> Some (reject_input err (tally kt_malformed_input_update c))
            | None \<Rightarrow> assess_frame e at frame p c))"

definition watchdog_expired :: "timestamp \<Rightarrow> calibration \<Rightarrow> bool option" where
  "watchdog_expired at c =
     map_option (\<lambda>p. case cal_started_at c of
         None \<Rightarrow> False
       | Some started \<Rightarrow> cp_watchdog p < saturating_sub at started) (cal_configuration c)"

definition fail_watchdog :: "timestamp \<Rightarrow> calibration \<Rightarrow> cal_result" where
  "fail_watchdog at c =
     (case (cal_configuration c, cal_started_at c) of
        (Some p, Some started) \<Rightarrow>
          (let cause =
             (if kt_useful_frame (cal_telemetry c) = 0 then NoUsefulSignal
              else if 0 < kt_motion_deadband_rejection (cal_telemetry c)
                \<and> length (cal_accepted_frames c) \<le> 1 then InsufficientMotion
              else InsufficientAcceptedFrames)
           in Some (cal_fail (FailWatchdog cause (length (cal_accepted_frames c))
                (cp_accepted_frame_target p) (saturating_sub at started)) c))
      | _ \<Rightarrow> None)"

definition cal_observe ::
    "math_env \<Rightarrow> timestamp \<Rightarrow> generation \<Rightarrow> calibration_input \<Rightarrow> calibration \<Rightarrow> cal_result" where
  "cal_observe e at g input c =
     (if cal_lifecycle c \<notin> {CalCollecting, CalReady} then Some (cal_reject_lifecycle CkObserve c)
      else if cal_generation c \<noteq> Some g then Some (cal_reject_generation g c)
      else (case cal_reject_time_regression at c of
          Some rejected \<Rightarrow> Some rejected
        | None \<Rightarrow>
            (let c = (tally kt_received_input_update c)\<lparr>cal_last_action_at := Some at\<rparr>
             in case (if cal_lifecycle c = CalCollecting then watchdog_expired at c else Some False) of
                  None \<Rightarrow> None
                | Some True \<Rightarrow> fail_watchdog at c
                | Some False \<Rightarrow>
                    (case input of
                       CalMissing \<Rightarrow>
                         Some (cal_shown ((tally kt_missing_input_update c)\<lparr>cal_live := None,
                           cal_status := CsMissingInput, cal_rejection := None\<rparr>))
                     | CalFrame frame \<Rightarrow> observe_frame e at frame c))))"

end
