(* ===== verification/Breath_Calibration_Proofs.thy ===== *)
theory Breath_Calibration_Proofs
  imports Breath_Calibration
begin

text \<open>
  The invariant of the calibration owner: which parts of its state belong to which lifecycle, how
  far the accepted frames may have come in the time since the start, and what a live output shows.
  From it follow that no reachable call panics and that analysis keeps its cadence, whatever the
  mathematics library returns.
\<close>

section \<open>The invariant\<close>

definition target_ok :: "calibration_parameters \<Rightarrow> bool" where
  "target_ok p = (8 \<le> cp_accepted_frame_target p \<and> cp_accepted_frame_target p \<le> 512
     \<and> MIN_ANALYSIS_INTERVAL_MICROS \<le> cp_analysis_interval p)"

definition active :: "calibration \<Rightarrow> bool" where
  "active c = (cal_lifecycle c \<in> {CalCollecting, CalReady, CalFailed})"

text \<open>\<open>n\<close> accepted frames, the last of them at or before \<open>t\<close>, took \<open>n - 1\<close> whole intervals.\<close>

definition paced :: "calibration_parameters \<Rightarrow> nat \<Rightarrow> timestamp \<Rightarrow> timestamp \<Rightarrow> bool" where
  "paced p n s t = (s \<le> t \<and> (n - 1) * unat (cp_analysis_interval p) \<le> unat t - unat s)"

definition timing_ok ::
    "calibration_parameters \<Rightarrow> timestamp option \<Rightarrow> timestamp option \<Rightarrow> timestamp option \<Rightarrow> nat \<Rightarrow> bool" where
  "timing_ok p started acted analysed n =
     (case (started, acted, analysed) of
        (Some s, Some a, None) \<Rightarrow> s \<le> a \<and> n = 0
      | (Some s, Some a, Some t) \<Rightarrow> t \<le> a \<and> paced p n s t
      | _ \<Rightarrow> False)"

abbreviation timed :: "calibration_parameters \<Rightarrow> calibration \<Rightarrow> bool" where
  "timed p c \<equiv> timing_ok p (cal_started_at c) (cal_last_action_at c) (cal_last_analysis_at c)
     (length (cal_accepted_frames c))"

definition median_ok :: "calibration \<Rightarrow> bool" where
  "median_ok c =
     (length (cal_median_values c) = 5 \<and> cal_median_next c < 5 \<and> cal_median_len c \<le> 5)"

definition idle_ok :: "calibration \<Rightarrow> bool" where
  "idle_ok c = (cal_generation c = None \<and> cal_accepted_frames c = [] \<and> cal_model c = None)"

definition active_ok :: "calibration \<Rightarrow> calibration_parameters \<Rightarrow> bool" where
  "active_ok c p =
     (cal_generation c \<noteq> None \<and> cal_generation c = cal_highest_started c \<and> timed p c
      \<and> (cal_lifecycle c = CalCollecting \<longrightarrow>
           cal_model c = None \<and> length (cal_accepted_frames c) < cp_accepted_frame_target p)
      \<and> (cal_lifecycle c = CalReady \<longrightarrow>
           cal_model c \<noteq> None \<and> length (cal_accepted_frames c) = cp_accepted_frame_target p)
      \<and> length (cal_accepted_frames c) \<le> cp_accepted_frame_target p)"

definition cal_core :: "calibration \<Rightarrow> bool" where
  "cal_core c =
     (median_ok c
      \<and> (cal_lifecycle c = CalDisabled \<longleftrightarrow> cal_configuration c = None)
      \<and> (cal_lifecycle c = CalFailed \<longleftrightarrow> cal_failure c \<noteq> None)
      \<and> (\<forall>p. cal_configuration c = Some p \<longrightarrow> target_ok p \<and> (active c \<longrightarrow> active_ok c p))
      \<and> (\<not> active c \<longrightarrow> idle_ok c))"

definition live_ok :: "calibration \<Rightarrow> live_output \<Rightarrow> bool" where
  "live_ok c l =
     (cal_lifecycle c = CalReady \<and> cal_last_action_at c = Some (lo_observed_at l)
      \<and> lo_sampled_at l \<le> lo_observed_at l
      \<and> (case cal_configuration c of
           None \<Rightarrow> False | Some p \<Rightarrow> lo_observed_at l - lo_sampled_at l \<le> cp_stale_after p)
      \<and> (lo_volume01 l = NaN \<or> in_unit_range (lo_volume01 l)))"

definition cal_wf :: "calibration \<Rightarrow> bool" where
  "cal_wf c = (cal_core c \<and> (\<forall>l. cal_live c = Some l \<longrightarrow> live_ok c l))"

lemmas core_defs = cal_core_def median_ok_def idle_ok_def active_ok_def active_def

text \<open>Fields the invariant does not mention.\<close>

lemma core_updates [simp]:
  "cal_core (c\<lparr>cal_status := s\<rparr>) = cal_core c"
  "cal_core (c\<lparr>cal_rejection := r\<rparr>) = cal_core c"
  "cal_core (c\<lparr>cal_telemetry := t\<rparr>) = cal_core c"
  "cal_core (c\<lparr>cal_live := l\<rparr>) = cal_core c"
  "cal_core (c\<lparr>cal_last_input_at := i\<rparr>) = cal_core c"
  "cal_core (c\<lparr>cal_last_sequence_id := n\<rparr>) = cal_core c"
  "cal_core (c\<lparr>cal_last_useful_vector := v\<rparr>) = cal_core c"
  "cal_core (c\<lparr>cal_last_analysis_vector := v\<rparr>) = cal_core c"
  "cal_core (c\<lparr>cal_filtered_projection := f\<rparr>) = cal_core c"
  by (simp_all add: core_defs)

lemma tally_core [simp]: "cal_core (tally k c) = cal_core c"
  by (simp add: tally_def)

lemma tally_fields [simp]:
  "cal_lifecycle (tally k c) = cal_lifecycle c" "cal_configuration (tally k c) = cal_configuration c"
  "cal_generation (tally k c) = cal_generation c" "cal_started_at (tally k c) = cal_started_at c"
  "cal_highest_started (tally k c) = cal_highest_started c"
  "cal_last_action_at (tally k c) = cal_last_action_at c"
  "cal_last_input_at (tally k c) = cal_last_input_at c"
  "cal_last_sequence_id (tally k c) = cal_last_sequence_id c"
  "cal_last_useful_vector (tally k c) = cal_last_useful_vector c"
  "cal_last_analysis_at (tally k c) = cal_last_analysis_at c"
  "cal_last_analysis_vector (tally k c) = cal_last_analysis_vector c"
  "cal_accepted_frames (tally k c) = cal_accepted_frames c" "cal_model (tally k c) = cal_model c"
  "cal_median_values (tally k c) = cal_median_values c" "cal_median_len (tally k c) = cal_median_len c"
  "cal_median_next (tally k c) = cal_median_next c" "cal_live (tally k c) = cal_live c"
  "cal_filtered_projection (tally k c) = cal_filtered_projection c"
  "cal_failure (tally k c) = cal_failure c"
  by (simp_all add: tally_def)

lemma reject_wf:
  "cal_wf c \<Longrightarrow> cal_wf (fst (cal_reject r c))"
  "cal_wf c \<Longrightarrow> cal_wf (fst (cal_reject_lifecycle a c))"
  "cal_wf c \<Longrightarrow> cal_wf (fst (cal_reject_generation g c))"
  "cal_wf c \<Longrightarrow> cal_reject_time_regression at c = Some x \<Longrightarrow> cal_wf (fst x)"
  by (auto simp: cal_wf_def live_ok_def cal_reject_def cal_shown_def cal_reject_lifecycle_def
      cal_reject_generation_def cal_reject_time_regression_def split: option.splits if_splits)

lemma no_cal_regression:
  "cal_reject_time_regression at c = None \<Longrightarrow> cal_last_action_at c = Some a \<Longrightarrow> a \<le> at"
  by (auto simp: cal_reject_time_regression_def split: if_splits)

section \<open>Lifecycle operations\<close>

lemma reset_wf: "cal_wf c \<Longrightarrow> cal_wf (fst (cal_reset at c))"
  by (cases "cal_reject_time_regression at c")
    (simp_all add: cal_reset_def reject_wf, simp add: cal_shown_def cal_wf_def core_defs
      clear_generation_state_def LIVE_MEDIAN_CAPACITY_def)

lemma configured_target: "calibration_configuration_new q = Inr p \<Longrightarrow> target_ok p \<and> p = q"
  by (auto simp: calibration_configuration_new_def target_ok_def MIN_ACCEPTED_FRAME_TARGET_def
      MAX_ACCEPTED_FRAME_TARGET_def result_simps not_less)

lemma configure_wf:
  assumes "cal_wf c" "\<And>p. cfg = Inr p \<Longrightarrow> target_ok p"
  shows "cal_wf (fst (cal_configure at cfg c))"
  using assms
  by (cases "cal_reject_time_regression at c"; cases cfg)
    (simp_all add: cal_configure_def reject_wf, simp add: cal_shown_def cal_wf_def core_defs
      clear_generation_state_def LIVE_MEDIAN_CAPACITY_def)

lemma start_wf:
  assumes "cal_wf c"
  shows "cal_wf (fst (cal_start at g c))"
proof -
  have "cal_wf ((clear_generation_state c)\<lparr>cal_lifecycle := CalCollecting,
      cal_generation := Some g, cal_highest_started := Some g, cal_started_at := Some at,
      cal_last_action_at := Some at, cal_status := CsStarted, cal_rejection := None,
      cal_failure := None\<rparr>)" if "cal_configuration c \<noteq> None"
    using assms that
    by (auto simp: cal_wf_def core_defs clear_generation_state_def LIVE_MEDIAN_CAPACITY_def target_ok_def timing_ok_def)
  then show ?thesis
    using assms
    by (simp add: cal_start_def Let_def cal_shown_def reject_wf split: option.splits)
qed

lemma cancel_wf:
  assumes "cal_wf c"
  shows "cal_wf (fst (cal_cancel at g c))"
proof -
  have "cal_wf ((clear_generation_state c)\<lparr>cal_lifecycle := CalCancelled, cal_generation := None,
      cal_last_action_at := Some at, cal_status := CsCancelled, cal_rejection := None,
      cal_failure := None\<rparr>)" if "cal_lifecycle c \<noteq> CalDisabled"
    using assms that
    by (auto simp: cal_wf_def core_defs clear_generation_state_def LIVE_MEDIAN_CAPACITY_def)
  then show ?thesis
    using assms
    by (simp add: cal_cancel_def cal_shown_def reject_wf split: option.splits)
qed

section \<open>No panic in the fit\<close>

lemma percentile_defined:
  assumes "xs \<noteq> []" "percent < 100"
  shows "percentile xs percent \<noteq> None"
proof -
  define position where "position = (length xs - 1) * percent"
  have low: "position div 100 < length xs"
  proof -
    have "position \<le> (length xs - 1) * 100"
      using assms(2) by (simp add: position_def)
    then have "position div 100 \<le> length xs - 1"
      by linarith
    then show ?thesis
      using assms(1) by (cases xs) auto
  qed
  moreover have "position div 100 + 1 < length xs" if "position mod 100 \<noteq> 0"
  proof -
    have "length xs - 1 \<noteq> 0"
      using that by (auto simp: position_def)
    then have "position < (length xs - 1) * 100"
      using assms(2) by (simp add: position_def)
    then have "position div 100 < length xs - 1"
      by (simp add: div_less_iff_less_mult)
    then show ?thesis by simp
  qed
  ultimately show ?thesis
    unfolding position_def by (auto simp: percentile_def Let_def not_le)
qed

lemma fit_model_defined:
  assumes "frames \<noteq> []" "length frames < 2 ^ 32"
  shows "fit_model e frames p \<noteq> None"
proof -
  have bounds: "\<exists>r. fit_bounds e p frames center axis dominance = Some r" for center axis dominance
  proof -
    define xs where "xs = sort_by total_le (map (\<lambda>f. project e f center axis) frames)"
    have "length xs = length frames"
      by (simp add: xs_def)
    then have "xs \<noteq> []"
      using assms(1) by auto
    then obtain lower upper where "percentile xs 5 = Some lower" "percentile xs 95 = Some upper"
      using percentile_defined [of xs 5] percentile_defined [of xs 95] by auto
    then show ?thesis
      by (simp add: fit_bounds_def xs_def [symmetric] Let_def)
  qed
  obtain divisor where "count_as_f64 (length frames) = Some divisor"
    using assms(2) by (simp add: count_as_f64_def)
  then show ?thesis
    using bounds by (simp add: fit_model_def vec_mean_def covariance_def Let_def case_prod_unfold)
qed

lemma median_defined: "xs \<noteq> [] \<Longrightarrow> length xs \<le> 5 \<Longrightarrow> median xs \<noteq> None"
  by (simp add: median_def Let_def LIVE_MEDIAN_CAPACITY_def)

section \<open>Observation\<close>

text \<open>A call returns, and returns a well-formed owner.\<close>

definition returns_wf :: "cal_result \<Rightarrow> bool" where
  "returns_wf x = (case x of None \<Rightarrow> False | Some y \<Rightarrow> cal_wf (fst y))"

lemma returns_simps [simp]: "returns_wf (Some y) = cal_wf (fst y)" "\<not> returns_wf None"
  by (simp_all add: returns_wf_def)

lemma shown_silent: "cal_core c \<Longrightarrow> cal_live c = None \<Longrightarrow> cal_wf (fst (cal_shown c))"
  by (simp add: cal_shown_def cal_wf_def)

lemma reject_input_wf: "cal_core c \<Longrightarrow> cal_wf (fst (reject_input err c))"
  by (simp add: reject_input_def cal_shown_def cal_wf_def)

lemma fail_wf:
  assumes "median_ok c" "cal_configuration c = Some p" "target_ok p" "timed p c"
    "cal_generation c \<noteq> None" "cal_generation c = cal_highest_started c"
    "length (cal_accepted_frames c) \<le> cp_accepted_frame_target p"
  shows "cal_wf (fst (cal_fail f c))"
  using assms by (simp add: cal_fail_def cal_shown_def cal_wf_def core_defs)

lemma core_median:
  assumes "cal_core c" "length vs = 5" "i < 5" "n \<le> 5"
  shows "cal_core (c\<lparr>cal_median_values := vs, cal_median_next := i, cal_median_len := n\<rparr>)"
  using assms by (auto simp: core_defs)

lemma core_model:
  "cal_core c \<Longrightarrow> cal_lifecycle c = CalReady \<Longrightarrow> cal_core (c\<lparr>cal_model := Some m\<rparr>)"
  by (auto simp: core_defs)

lemma live_update_wf:
  assumes "cal_core c" "cal_lifecycle c = CalReady" "cal_configuration c = Some p"
    "cal_last_action_at c = Some (lo_observed_at l)" "lo_sampled_at l \<le> lo_observed_at l"
    "lo_observed_at l - lo_sampled_at l \<le> cp_stale_after p"
    "lo_volume01 l = NaN \<or> in_unit_range (lo_volume01 l)"
  shows "cal_wf (fst (cal_shown ((tally k c)\<lparr>cal_filtered_projection := f, cal_live := Some l,
    cal_status := s, cal_rejection := r\<rparr>)))"
  using assms by (simp add: cal_shown_def cal_wf_def live_ok_def)

lemma update_live_wf:
  assumes core: "cal_core c" and ready: "cal_lifecycle c = CalReady"
    and cfg: "cal_configuration c = Some p" and at: "cal_last_action_at c = Some at"
    and age: "mf_sampled_at frame \<le> at" "at - mf_sampled_at frame \<le> cp_stale_after p"
  shows "returns_wf (update_live e at frame p analysis s c)"
proof -
  obtain model where model: "cal_model c = Some model"
    using core ready cfg by (auto simp: core_defs)
  define vs where "vs = (cal_median_values c)[cal_median_next c := project e (mf_vector frame) (cm_center model) (cm_axis model)]"
  define n where "n = min (Suc (cal_median_len c)) LIVE_MEDIAN_CAPACITY"
  define j where "j = c\<lparr>cal_median_values := vs,
    cal_median_next := Suc (cal_median_next c) mod LIVE_MEDIAN_CAPACITY, cal_median_len := n\<rparr>"
  have med: "length (cal_median_values c) = 5" "cal_median_next c < 5"
    using core by (simp_all add: core_defs)
  have "take n vs \<noteq> []" "length (take n vs) \<le> 5"
    using med by (auto simp: n_def vs_def LIVE_MEDIAN_CAPACITY_def)
  then obtain middle where middle: "median (take n vs) = Some middle"
    using median_defined by blast
  have j: "cal_core j" "cal_lifecycle j = CalReady" "cal_configuration j = Some p"
      "cal_last_action_at j = Some at"
    using core ready cfg at med by (simp_all add: j_def core_median vs_def n_def LIVE_MEDIAN_CAPACITY_def)
  show ?thesis
    using model med middle j age clamp_unit
    by (cases analysis) (simp_all add: update_live_def Let_def vs_def [symmetric] n_def [symmetric]
        j_def [symmetric] live_update_wf [where p = p] core_model)
qed

text \<open>What a due analysis tick at \<open>at\<close> leaves: time for one more frame.\<close>

definition room :: "calibration_parameters \<Rightarrow> timestamp \<Rightarrow> calibration \<Rightarrow> bool" where
  "room p at c =
     (case cal_started_at c of
        None \<Rightarrow> False
      | Some s \<Rightarrow> s \<le> at
          \<and> length (cal_accepted_frames c) * unat (cp_analysis_interval p) \<le> unat at - unat s)"

lemma room_paced:
  "room p at c \<Longrightarrow> cal_started_at c = Some s \<Longrightarrow> paced p (Suc (length (cal_accepted_frames c))) s at"
  by (simp add: room_def paced_def)

lemma tick_room:
  assumes "timed p c" "cal_last_action_at c = Some at"
    "case cal_last_analysis_at c of None \<Rightarrow> True
     | Some previous \<Rightarrow> cp_analysis_interval p \<le> saturating_sub at previous"
  shows "room p at c \<and> timing_ok p (cal_started_at c) (Some at) (Some at) (length (cal_accepted_frames c))"
proof -
  obtain s where s: "cal_started_at c = Some s"
    using assms(1) by (auto simp: timing_ok_def split: option.splits)
  show ?thesis
  proof (cases "cal_last_analysis_at c")
    case None
    then show ?thesis
      using assms s by (simp add: timing_ok_def room_def paced_def)
  next
    case (Some t)
    define i where "i = unat (cp_analysis_interval p)"
    define n where "n = length (cal_accepted_frames c)"
    have t: "t \<le> at" "s \<le> t" "(n - 1) * i \<le> unat t - unat s" "i \<le> unat at - unat t"
      using assms s Some
      by (auto simp: timing_ok_def paced_def i_def n_def word_le_nat_alt unat_saturating_sub)
    have "n * i \<le> (n - 1) * i + i"
      by (cases n) simp_all
    then have full: "n * i \<le> unat at - unat s"
      using t by (simp add: word_le_nat_alt)
    have "(n - 1) * i \<le> n * i"
      by simp
    then have "(n - 1) * i \<le> unat at - unat s"
      using full by (rule order_trans)
    then show ?thesis
      using full t s by (auto simp: room_def timing_ok_def paced_def i_def n_def)
  qed
qed

lemma core_tick:
  assumes "cal_core c" "active c" "cal_configuration c = Some p" "cal_last_action_at c = Some at"
    "timing_ok p (cal_started_at c) (Some at) (Some at) (length (cal_accepted_frames c))"
  shows "cal_core (c\<lparr>cal_last_analysis_at := Some at\<rparr>)"
  using assms by (auto simp: core_defs)

lemma collecting_core:
  assumes "cal_core c" "cal_lifecycle c = CalCollecting" "cal_configuration c = Some p"
  shows "median_ok c" "target_ok p" "timed p c" "cal_generation c \<noteq> None"
    "cal_generation c = cal_highest_started c" "cal_model c = None"
    "length (cal_accepted_frames c) < cp_accepted_frame_target p" "cal_failure c = None"
  using assms by (auto simp: core_defs)

text \<open>The state after one more accepted frame.\<close>

lemma collecting_accept:
  assumes core: "cal_core c" "cal_lifecycle c = CalCollecting" "cal_configuration c = Some p"
    and at: "cal_last_action_at c = Some at" "cal_last_analysis_at c = Some at" and room: "room p at c"
    and c': "c' = (tally k c)\<lparr>cal_last_analysis_vector := v,
      cal_accepted_frames := cal_accepted_frames c @ [w]\<rparr>"
  shows "median_ok c'" "timed p c'" "length (cal_accepted_frames c') \<le> cp_accepted_frame_target p"
    "length (cal_accepted_frames c') < cp_accepted_frame_target p \<Longrightarrow> cal_core c'"
proof -
  obtain s where s: "cal_started_at c = Some s"
    using room by (auto simp: room_def split: option.splits)
  show timed: "timed p c'"
    using room_paced [OF room s] s at by (simp add: c' timing_ok_def)
  show "median_ok c'" "length (cal_accepted_frames c') \<le> cp_accepted_frame_target p"
    using collecting_core [OF core] by (simp_all add: c' median_ok_def)
  show "cal_core c'" if "length (cal_accepted_frames c') < cp_accepted_frame_target p"
    using collecting_core [OF core] core timed that by (auto simp: c' core_defs)
qed

text \<open>The collection is full: the fit fails, or the owner is ready and live.\<close>

lemma finish_collection_wf:
  assumes "median_ok c" "timed p c" "target_ok p" and c: "cal_configuration c = Some p"
      "cal_generation c \<noteq> None" "cal_generation c = cal_highest_started c"
      "cal_last_action_at c = Some at"
    and full: "length (cal_accepted_frames c) = cp_accepted_frame_target p"
    and age: "mf_sampled_at frame \<le> at" "at - mf_sampled_at frame \<le> cp_stale_after p"
  shows "returns_wf (case fit_model e (cal_accepted_frames c) p of
      None \<Rightarrow> None
    | Some (Inl failure) \<Rightarrow> Some (cal_fail failure c)
    | Some (Inr model) \<Rightarrow>
        update_live e at frame p False CsReady
          (c\<lparr>cal_model := Some model, cal_lifecycle := CalReady, cal_status := CsReady,
             cal_rejection := None, cal_failure := None\<rparr>))"
proof -
  have "cal_accepted_frames c \<noteq> []" "length (cal_accepted_frames c) < 2 ^ 32"
    using full assms(3) by (auto simp: target_ok_def)
  then obtain r where r: "fit_model e (cal_accepted_frames c) p = Some r"
    using fit_model_defined by blast
  show ?thesis
  proof (cases r)
    case (Inl failure)
    then show ?thesis
      using r fail_wf [OF assms(1) c(1) assms(3,2) c(2,3)] full by simp
  next
    case (Inr model)
    have "cal_core (c\<lparr>cal_model := Some model, cal_lifecycle := CalReady, cal_status := CsReady,
        cal_rejection := None, cal_failure := None\<rparr>)"
      using assms(1-3) c full by (auto simp: core_defs)
    then show ?thesis
      using r Inr c age by (simp add: update_live_wf)
  qed
qed

lemma observe_collecting_wf:
  assumes core: "cal_core c" "cal_lifecycle c = CalCollecting" "cal_configuration c = Some p"
    and at: "cal_last_action_at c = Some at"
    and due: "due \<Longrightarrow> cal_last_analysis_at c = Some at \<and> room p at c"
    and silent: "cal_live c = None"
    and age: "mf_sampled_at frame \<le> at" "at - mf_sampled_at frame \<le> cp_stale_after p"
  shows "returns_wf (observe_collecting e at frame p due c)"
proof -
  define still where "still = (case cal_last_analysis_vector c of
      None \<Rightarrow> False
    | Some previous \<Rightarrow> f_lt (projected_distance e previous (mf_vector frame) (cp_projection_space p))
        (cp_motion_deadband p))"
  define c' where "c' = (tally kt_accepted_analysis_frame_update c)\<lparr>
    cal_last_analysis_vector := Some (mf_vector frame),
    cal_accepted_frames := cal_accepted_frames c @ [mf_vector frame]\<rparr>"
  note facts = collecting_core [OF core]
  note acc = collecting_accept [OF core at _ _ c'_def]
  have c': "cal_configuration c' = Some p" "cal_generation c' \<noteq> None"
      "cal_generation c' = cal_highest_started c'" "cal_last_action_at c' = Some at" "cal_live c' = None"
    using facts core at silent by (simp_all add: c'_def)
  consider "\<not> due \<or> still"
    | "due" "\<not> still" "length (cal_accepted_frames c') < cp_accepted_frame_target p"
    | "due" "\<not> still" "\<not> length (cal_accepted_frames c') < cp_accepted_frame_target p"
    by blast
  then show ?thesis
  proof cases
    case 1
    then show ?thesis
      using core by (auto simp: observe_collecting_def still_def [symmetric] shown_silent)
  next
    case 2
    then show ?thesis
      using acc(4) due c'(5)
      by (simp add: observe_collecting_def still_def [symmetric] c'_def [symmetric] Let_def shown_silent)
  next
    case 3
    then have "length (cal_accepted_frames c') = cp_accepted_frame_target p"
      using acc(3) due by fastforce
    then show ?thesis
      using 3 due acc(1,2) facts(2) c' age
      by (simp add: observe_collecting_def still_def [symmetric] c'_def [symmetric] Let_def
          finish_collection_wf)
  qed
qed

lemma analyse_frame_wf:
  assumes core: "cal_core c" "cal_lifecycle c \<in> {CalCollecting, CalReady}" "cal_configuration c = Some p"
    and at: "cal_last_action_at c = Some at"
    and silent: "cal_lifecycle c = CalCollecting \<Longrightarrow> cal_live c = None"
    and age: "mf_sampled_at frame \<le> at" "at - mf_sampled_at frame \<le> cp_stale_after p"
  shows "returns_wf (analyse_frame e at frame p c)"
proof -
  define due where "due = (case cal_last_analysis_at c of
      None \<Rightarrow> True | Some previous \<Rightarrow> cp_analysis_interval p \<le> saturating_sub at previous)"
  define j where "j = (if due then (tally kt_analysis_tick_update ((tally kt_useful_frame_update c)\<lparr>
      cal_last_useful_vector := Some (mf_vector frame)\<rparr>))\<lparr>cal_last_analysis_at := Some at\<rparr>
    else (tally kt_useful_frame_update c)\<lparr>cal_last_useful_vector := Some (mf_vector frame)\<rparr>)"
  have eq: "analyse_frame e at frame p c =
    (if cal_lifecycle j = CalCollecting then observe_collecting e at frame p due j
     else update_live e at frame p due LiveUpdated j)"
    by (simp add: analyse_frame_def Let_def due_def [symmetric] j_def)
  have "active c"
    using core(2) by (auto simp: active_def)
  then have "timed p c"
    using core by (auto simp: cal_core_def active_ok_def)
  note tick = tick_room [OF this at]
  have "cal_core (c\<lparr>cal_last_analysis_at := Some at\<rparr>)" if due
    using core_tick [OF core(1) \<open>active c\<close> core(3) at] tick that by (simp add: due_def)
  then have jcore: "cal_core j"
    using core(1) by (auto simp: j_def tally_def core_defs)
  have j: "cal_lifecycle j = cal_lifecycle c" "cal_configuration j = Some p"
      "cal_last_action_at j = Some at" "cal_live j = cal_live c"
      "due \<Longrightarrow> cal_last_analysis_at j = Some at" "due \<Longrightarrow> room p at j"
    using core at tick by (auto simp: j_def room_def due_def split: option.splits)
  show ?thesis
    unfolding eq using j jcore core(2) silent age
    by (auto intro!: observe_collecting_wf update_live_wf)
qed

lemma assess_frame_wf:
  assumes core: "cal_core c" "cal_lifecycle c \<in> {CalCollecting, CalReady}" "cal_configuration c = Some p"
    and at: "cal_last_action_at c = Some at"
    and silent: "cal_lifecycle c = CalCollecting \<Longrightarrow> cal_live c = None"
    and past: "mf_sampled_at frame \<le> at"
  shows "returns_wf (assess_frame e at frame p c)"
proof -
  define j where "j = tally kt_structurally_admitted_update (c\<lparr>
    cal_last_input_at := Some (mf_sampled_at frame), cal_last_sequence_id := Some (mf_sequence_id frame)\<rparr>)"
  have j: "cal_core j" "cal_lifecycle j \<in> {CalCollecting, CalReady}" "cal_configuration j = Some p"
      "cal_last_action_at j = Some at" "cal_lifecycle j = CalCollecting \<Longrightarrow> cal_live j = None"
    using core at silent by (simp_all add: j_def)
  have "returns_wf (analyse_frame e at frame p j)" if "at - mf_sampled_at frame \<le> cp_stale_after p"
    using analyse_frame_wf [OF j past that] .
  then show ?thesis
    using core(1) j(1) past
    by (simp add: assess_frame_def checked_sub_def Let_def j_def [symmetric] reject_input_wf not_less
        split: option.splits)
qed

lemma observe_frame_wf:
  assumes core: "cal_core c" "cal_lifecycle c \<in> {CalCollecting, CalReady}" "cal_configuration c = Some p"
    and at: "cal_last_action_at c = Some at"
    and silent: "cal_lifecycle c = CalCollecting \<Longrightarrow> cal_live c = None"
  shows "returns_wf (observe_frame e at frame c)"
proof -
  have "returns_wf (assess_frame e at frame p c)" if "\<not> at < mf_sampled_at frame"
    using assess_frame_wf [OF core at silent] that by simp
  then show ?thesis
    using core(1,3)
    by (auto simp: observe_frame_def not_increasing_def reject_input_wf split: option.splits)
qed

lemma core_advance:
  assumes "cal_core c" "active c" "cal_reject_time_regression at c = None"
  shows "cal_core (c\<lparr>cal_last_action_at := Some at\<rparr>)"
proof -
  have "timing_ok p (cal_started_at c) (Some at) (cal_last_analysis_at c) n"
    if "timing_ok p (cal_started_at c) (cal_last_action_at c) (cal_last_analysis_at c) n" for p n
    using that no_cal_regression [OF assms(3)]
    by (auto simp: timing_ok_def split: option.splits intro: order_trans)
  then show ?thesis
    using assms(1,2) by (auto simp: core_defs)
qed

text \<open>The part of \<open>observe\<close> after its three guards, on the state that has received the input.\<close>

definition dispatch_input :: "math_env \<Rightarrow> timestamp \<Rightarrow> calibration_input \<Rightarrow> calibration \<Rightarrow> cal_result" where
  "dispatch_input e at input c =
     (case (if cal_lifecycle c = CalCollecting then watchdog_expired at c else Some False) of
        None \<Rightarrow> None
      | Some True \<Rightarrow> fail_watchdog at c
      | Some False \<Rightarrow>
          (case input of
             CalMissing \<Rightarrow>
               Some (cal_shown ((tally kt_missing_input_update c)\<lparr>cal_live := None,
                 cal_status := CsMissingInput, cal_rejection := None\<rparr>))
           | CalFrame frame \<Rightarrow> observe_frame e at frame c))"

lemma observe_dispatches:
  "cal_lifecycle c \<in> {CalCollecting, CalReady} \<Longrightarrow> cal_generation c = Some g
   \<Longrightarrow> cal_reject_time_regression at c = None
   \<Longrightarrow> cal_observe e at g input c =
     dispatch_input e at input ((tally kt_received_input_update c)\<lparr>cal_last_action_at := Some at\<rparr>)"
  by (simp add: cal_observe_def dispatch_input_def Let_def)

lemma dispatch_input_wf:
  assumes core: "cal_core c" "cal_lifecycle c \<in> {CalCollecting, CalReady}"
    and at: "cal_last_action_at c = Some at"
    and silent: "cal_lifecycle c = CalCollecting \<Longrightarrow> cal_live c = None"
  shows "returns_wf (dispatch_input e at input c)"
proof -
  obtain p where p: "cal_configuration c = Some p"
    using core by (auto simp: cal_core_def)
  have "active c"
    using core(2) by (auto simp: active_def)
  then have facts: "median_ok c" "target_ok p" "timed p c" "cal_generation c \<noteq> None"
      "cal_generation c = cal_highest_started c"
      "length (cal_accepted_frames c) \<le> cp_accepted_frame_target p"
    using core p by (auto simp: cal_core_def active_ok_def)
  obtain st where st: "cal_started_at c = Some st"
    using facts(3) by (auto simp: timing_ok_def split: option.splits)
  have "returns_wf (fail_watchdog at c)"
    using fail_wf [OF facts(1) p facts(2,3,4,5,6)] by (simp add: fail_watchdog_def p st Let_def)
  then show ?thesis
    using core(1) observe_frame_wf [OF core p at silent] p
    by (simp add: dispatch_input_def watchdog_expired_def shown_silent
        split: option.splits bool.splits calibration_input.splits)
qed

text \<open>On a well-formed owner an observation returns, and keeps it well formed.\<close>

lemma cal_observe_wf:
  assumes wf: "cal_wf c"
  shows "returns_wf (cal_observe e at g input c)"
proof (cases "cal_lifecycle c \<in> {CalCollecting, CalReady} \<and> cal_generation c = Some g
    \<and> cal_reject_time_regression at c = None")
  case False
  then show ?thesis
    using wf reject_wf by (auto simp: cal_observe_def split: option.splits)
next
  case True
  define j where "j = (tally kt_received_input_update c)\<lparr>cal_last_action_at := Some at\<rparr>"
  have "active c"
    using True by (auto simp: active_def)
  then have "cal_core (c\<lparr>cal_last_action_at := Some at\<rparr>)"
    using wf True core_advance by (simp add: cal_wf_def)
  then have "cal_core j" "cal_lifecycle j \<in> {CalCollecting, CalReady}"
      "cal_last_action_at j = Some at"
    using True by (auto simp: j_def tally_def core_defs)
  moreover have "cal_lifecycle j = CalCollecting \<Longrightarrow> cal_live j = None"
    using wf by (cases "cal_live c") (auto simp: cal_wf_def live_ok_def j_def)
  ultimately have "returns_wf (dispatch_input e at input j)"
    by (rule dispatch_input_wf)
  then show ?thesis
    using True observe_dispatches [of c g at e input] by (simp add: j_def)
qed

section \<open>Runs\<close>

text \<open>The configurations a caller can pass are the results of \<open>CalibrationConfiguration::new\<close>.\<close>

inductive cal_step :: "math_env \<Rightarrow> calibration \<Rightarrow> calibration \<Rightarrow> bool" for e where
  step_cal_reset: "cal_step e c (fst (cal_reset at c))"
| step_cal_configure: "cal_step e c (fst (cal_configure at (calibration_configuration_new q) c))"
| step_cal_start: "cal_step e c (fst (cal_start at g c))"
| step_cal_cancel: "cal_step e c (fst (cal_cancel at g c))"
| step_cal_observe: "cal_observe e at g input c = Some y \<Longrightarrow> cal_step e c (fst y)"

abbreviation cal_run :: "math_env \<Rightarrow> calibration \<Rightarrow> calibration \<Rightarrow> bool" where
  "cal_run e \<equiv> (cal_step e)\<^sup>*\<^sup>*"

lemma calibration_default_wf: "cal_wf calibration_default"
  by (simp add: cal_wf_def core_defs calibration_default_def LIVE_MEDIAN_CAPACITY_def)

lemma cal_step_wf:
  assumes "cal_step e c c'" "cal_wf c"
  shows "cal_wf c'"
  using assms
proof cases
  case (step_cal_configure at q)
  then show ?thesis
    using configure_wf assms(2) configured_target by blast
next
  case (step_cal_observe at g input y)
  then show ?thesis
    using cal_observe_wf [OF assms(2), of e at g input] by simp
qed (use assms(2) reset_wf start_wf cancel_wf in auto)

lemma cal_run_wf: "cal_run e c c' \<Longrightarrow> cal_wf c \<Longrightarrow> cal_wf c'"
  by (induction rule: rtranclp_induct) (auto intro: cal_step_wf)

end
