(* ===== verification/Breath_Composition.thy ===== *)
theory Breath_Composition
  imports Breath_Calibration Generation_Fence
begin

text \<open>
  \<open>rusty-quest-breath-contract/src/assessment.rs\<close> and \<open>composition.rs\<close>: validated assessments
  of one source, and the authority that lets one selected source drive one selected mapping when
  the feature lock of the package and of the running system agree. A digest is its 32 bytes.
\<close>

section \<open>Assessments\<close>

definition assessment_schema :: string where
  "assessment_schema = ''rusty.quest.breath_assessment.observation.v1''"

datatype tracking_state =
    TrackDisabled | TrackValid | TrackCalibrating | TrackMissing | TrackStale | TrackMalformed
  | TrackOutOfOrder | TrackRejectedMotion | TrackRejectedRotation

record assessment_fields =
  af_generation :: generation
  af_sequence_id :: u64
  af_sampled_at :: timestamp
  af_observed_at :: timestamp
  af_volume01 :: "f64 option"
  af_phase :: common_phase
  af_calibration :: calibration_lifecycle
  af_tracking :: tracking_state
  af_quality01 :: f64

text \<open>\<open>BreathAssessmentObservation\<close>: the checked fields under a schema identifier.\<close>

record assessment = assessment_fields +
  as_schema_id :: string

datatype assessment_error =
    AssessFutureTimestamp | AssessNonFiniteVolume | AssessVolumeOutOfBounds
  | AssessNonFiniteQuality | AssessQualityOutOfBounds

definition is_some_and :: "'a option \<Rightarrow> ('a \<Rightarrow> bool) \<Rightarrow> bool" where
  "is_some_and x q = (case x of None \<Rightarrow> False | Some v \<Rightarrow> q v)"

definition assessment_new :: "assessment_fields \<Rightarrow> assessment_error + assessment" where
  "assessment_new f =
     (if af_observed_at f < af_sampled_at f then Inl AssessFutureTimestamp
      else if is_some_and (af_volume01 f) (\<lambda>v. \<not> is_finite v) then Inl AssessNonFiniteVolume
      else if is_some_and (af_volume01 f) (\<lambda>v. \<not> in_unit_range v)
        then Inl AssessVolumeOutOfBounds
      else if \<not> is_finite (af_quality01 f) then Inl AssessNonFiniteQuality
      else if \<not> in_unit_range (af_quality01 f) then Inl AssessQualityOutOfBounds
      else Inr (assessment_fields.extend f \<lparr>as_schema_id = assessment_schema\<rparr>))"

section \<open>Composition data\<close>

definition composition_schema :: string where
  "composition_schema = ''rusty.quest.breath_composition.snapshot.v1''"

datatype composition_binding = BindingMissing | BindingMalformed | BindingDigest bytes

definition zero_digest :: bytes where
  "zero_digest = replicate 32 0"

definition digest_or_zero :: "composition_binding \<Rightarrow> bytes" where
  "digest_or_zero b = (case b of BindingDigest v \<Rightarrow> v | _ \<Rightarrow> zero_digest)"

datatype composition_source = Controller | PolarAcc

datatype composition_mapping = VolumeMapping | StateMapping

datatype controller_projection = FixedOrientation | ControllerDynamicAxis

datatype polar_projection = PolarXz | PolarFull3d | PolarDynamicAxis | TiltClassifier | AdaptiveTiltClassifier

record composition_request =
  rq_source :: composition_source
  rq_mapping :: composition_mapping
  rq_controller_projection :: controller_projection
  rq_polar_projection :: polar_projection
  rq_inverted :: bool

record composition_capabilities =
  controller_assessment :: bool
  polar_acc_assessment :: bool
  volume_mapping :: bool
  state_mapping :: bool
  same_apk_panel :: bool

definition supports :: "composition_capabilities \<Rightarrow> composition_request \<Rightarrow> bool" where
  "supports caps r =
     ((case rq_source r of
         Controller \<Rightarrow> controller_assessment caps | PolarAcc \<Rightarrow> polar_acc_assessment caps)
      \<and> (case rq_mapping r of
           VolumeMapping \<Rightarrow> volume_mapping caps | StateMapping \<Rightarrow> state_mapping caps)
      \<and> same_apk_panel caps)"

datatype composition_status =
    CompDisabled | CompRejectedUnavailable | CompSelected | CompConfigured | CompRunning
  | CompCancelled

datatype composition_action = ActConfigure | ActStart | ActCancel generation | ActReset

datatype composition_rejection =
    InactiveFeatureLock | MissingPackagedBinding | MalformedPackagedBinding
  | MissingRuntimeBinding | MalformedRuntimeBinding | ActivationBindingMismatch
  | UnavailableSelection | InvalidAction | UnselectedSource | CompGenerationMismatch
  | StaleAssessment | InputNotReady | MalformedAssessment

record composition_output =
  out_source :: composition_source
  out_mapping :: composition_mapping
  out_sequence_id :: u64
  out_sampled_at :: timestamp
  out_volume01 :: "f64 option"
  out_phase :: "common_phase option"
  out_quality01 :: f64

record composition_telemetry =
  ct_selection_request :: u64
  ct_selection_change :: u64
  ct_mapping_change :: u64
  ct_hard_reset :: u64
  ct_received_assessment :: u64
  ct_accepted_assessment :: u64
  ct_rejected_assessment :: u64

record composition_authority =
  feature_lock_active :: bool
  feature_lock_sha256 :: bytes
  packaged_feature_lock_sha256 :: bytes
  activation_rejection :: "composition_rejection option"
  capabilities :: composition_capabilities
  requested :: "composition_request option"
  effective :: "composition_request option"
  comp_status :: composition_status
  comp_generation :: "generation option"
  comp_next_generation :: u64
  comp_output :: "composition_output option"
  latest_assessment :: "assessment option"
  comp_rejection :: "composition_rejection option"
  comp_telemetry :: composition_telemetry
  stale_after_micros :: u64

record composition_snapshot =
  sn_schema_id :: string
  sn_feature_lock_active :: bool
  sn_feature_lock_sha256 :: bytes
  sn_packaged_feature_lock_sha256 :: bytes
  sn_requested :: "composition_request option"
  sn_effective :: "composition_request option"
  sn_status :: composition_status
  sn_generation :: "generation option"
  sn_output :: "composition_output option"
  sn_latest_assessment :: "assessment option"
  sn_rejection :: "composition_rejection option"
  sn_telemetry :: composition_telemetry

section \<open>The authority\<close>

definition binding_rejection ::
    "composition_binding \<Rightarrow> composition_binding \<Rightarrow> composition_rejection option" where
  "binding_rejection packaged runtime =
     (case packaged of
        BindingMissing \<Rightarrow> Some MissingPackagedBinding
      | BindingMalformed \<Rightarrow> Some MalformedPackagedBinding
      | BindingDigest expected \<Rightarrow>
          if expected = zero_digest then Some MalformedPackagedBinding
          else (case runtime of
              BindingMissing \<Rightarrow> Some MissingRuntimeBinding
            | BindingMalformed \<Rightarrow> Some MalformedRuntimeBinding
            | BindingDigest found \<Rightarrow>
                if found = zero_digest then Some MalformedRuntimeBinding
                else if expected \<noteq> found then Some ActivationBindingMismatch
                else None))"

definition composition_new ::
    "bool \<Rightarrow> composition_binding \<Rightarrow> composition_binding \<Rightarrow> composition_capabilities \<Rightarrow> u64
     \<Rightarrow> composition_authority" where
  "composition_new enabled packaged runtime caps stale =
     (let refused =
        (if \<not> enabled then None
         else if stale = 0 \<or> MAX_STALE_AFTER_MICROS < stale then Some InactiveFeatureLock
         else binding_rejection packaged runtime)
      in \<lparr>feature_lock_active = (enabled \<and> refused = None),
          feature_lock_sha256 = digest_or_zero runtime,
          packaged_feature_lock_sha256 = digest_or_zero packaged,
          activation_rejection = refused, capabilities = caps, requested = None,
          effective = None, comp_status = CompDisabled, comp_generation = None,
          comp_next_generation = 1, comp_output = None, latest_assessment = None,
          comp_rejection = refused,
          comp_telemetry = \<lparr>ct_selection_request = 0, ct_selection_change = 0,
            ct_mapping_change = 0, ct_hard_reset = 0, ct_received_assessment = 0,
            ct_accepted_assessment = 0, ct_rejected_assessment = 0\<rparr>,
          stale_after_micros = stale\<rparr>)"

definition composition_snapshot_of :: "composition_authority \<Rightarrow> composition_snapshot" where
  "composition_snapshot_of a =
     \<lparr>sn_schema_id = composition_schema, sn_feature_lock_active = feature_lock_active a,
      sn_feature_lock_sha256 = feature_lock_sha256 a,
      sn_packaged_feature_lock_sha256 = packaged_feature_lock_sha256 a,
      sn_requested = requested a, sn_effective = effective a, sn_status = comp_status a,
      sn_generation = comp_generation a, sn_output = comp_output a,
      sn_latest_assessment = latest_assessment a, sn_rejection = comp_rejection a,
      sn_telemetry = comp_telemetry a\<rparr>"

definition shown :: "composition_authority \<Rightarrow> composition_authority \<times> composition_snapshot" where
  "shown a = (a, composition_snapshot_of a)"

definition hard_reset :: "composition_authority \<Rightarrow> composition_authority" where
  "hard_reset a =
     a\<lparr>comp_generation := None, comp_output := None, latest_assessment := None,
       comp_telemetry := (comp_telemetry a)\<lparr>ct_hard_reset :=
         increment (ct_hard_reset (comp_telemetry a))\<rparr>\<rparr>"

definition count_change :: "composition_authority \<Rightarrow> composition_authority" where
  "count_change a =
     a\<lparr>comp_telemetry := (comp_telemetry a)\<lparr>ct_selection_change :=
         increment (ct_selection_change (comp_telemetry a))\<rparr>\<rparr>"

definition activation_refusal :: "composition_authority \<Rightarrow> composition_rejection option" where
  "activation_refusal a =
     (case activation_rejection a of None \<Rightarrow> Some InactiveFeatureLock | Some r \<Rightarrow> Some r)"

text \<open>Two requests that differ in their mapping at most.\<close>

definition same_assessment :: "composition_request \<Rightarrow> composition_request \<Rightarrow> bool" where
  "same_assessment previous r =
     (rq_source previous = rq_source r
      \<and> rq_controller_projection previous = rq_controller_projection r
      \<and> rq_polar_projection previous = rq_polar_projection r
      \<and> rq_inverted previous = rq_inverted r)"

text \<open>The end of \<open>select\<close>, for a request that does not only change the mapping.\<close>

definition install_selection :: "composition_request \<Rightarrow> composition_authority \<Rightarrow> composition_authority" where
  "install_selection r a =
     (let a = (case effective a of
                 None \<Rightarrow> a
               | Some previous \<Rightarrow> if previous \<noteq> r then hard_reset a else a);
          a = (if effective a \<noteq> Some r then count_change a else a)
      in a\<lparr>effective := Some r, comp_status := CompSelected\<rparr>)"

definition composition_select ::
    "composition_request option \<Rightarrow> composition_authority
     \<Rightarrow> composition_authority \<times> composition_snapshot" where
  "composition_select request a =
     (let a = a\<lparr>comp_telemetry := (comp_telemetry a)\<lparr>ct_selection_request :=
              increment (ct_selection_request (comp_telemetry a))\<rparr>,
            requested := request, comp_rejection := None\<rparr>
      in case request of
           None \<Rightarrow>
             (let a = (if effective a \<noteq> None then hard_reset a else a)
              in shown (a\<lparr>effective := None, comp_status := CompDisabled\<rparr>))
         | Some r \<Rightarrow>
             if \<not> feature_lock_active a then
               shown ((hard_reset (a\<lparr>effective := None\<rparr>))\<lparr>comp_status := CompDisabled,
                 comp_rejection := activation_refusal a\<rparr>)
             else if \<not> supports (capabilities a) r then
               shown ((hard_reset (a\<lparr>effective := None\<rparr>))\<lparr>
                 comp_status := CompRejectedUnavailable,
                 comp_rejection := Some UnavailableSelection\<rparr>)
             else (case effective a of
                 Some previous \<Rightarrow>
                   if same_assessment previous r \<and> rq_mapping previous \<noteq> rq_mapping r then
                     (let t = comp_telemetry a;
                          t = t\<lparr>ct_mapping_change := increment (ct_mapping_change t)\<rparr>;
                          t = t\<lparr>ct_selection_change := increment (ct_selection_change t)\<rparr>
                      in shown (a\<lparr>comp_telemetry := t, effective := Some r, comp_output := None\<rparr>))
                   else shown (install_selection r a)
               | None \<Rightarrow> shown (install_selection r a)))"

definition start_composition :: "composition_authority \<Rightarrow> composition_authority" where
  "start_composition a =
     (case breath_generation_new (comp_next_generation a) of
        Inl _ \<Rightarrow> a\<lparr>comp_rejection := Some InvalidAction\<rparr>
      | Inr g \<Rightarrow>
          (case checked_add (comp_next_generation a) 1 of
             None \<Rightarrow> a\<lparr>comp_rejection := Some InvalidAction\<rparr>
           | Some successor \<Rightarrow>
               a\<lparr>comp_next_generation := successor, comp_generation := Some g, comp_output := None,
                 comp_status := CompRunning\<rparr>))"

definition composition_act ::
    "composition_action \<Rightarrow> composition_authority \<Rightarrow> composition_authority \<times> composition_snapshot" where
  "composition_act action a =
     (let a = a\<lparr>comp_rejection := None\<rparr>
      in if \<not> feature_lock_active a \<or> effective a = None
         then shown (a\<lparr>comp_rejection := activation_refusal a\<rparr>)
         else shown (case action of
             ActConfigure \<Rightarrow>
               if comp_status a \<in> {CompSelected, CompCancelled, CompConfigured}
               then a\<lparr>comp_generation := None, comp_output := None, comp_status := CompConfigured\<rparr>
               else a\<lparr>comp_rejection := Some InvalidAction\<rparr>
           | ActStart \<Rightarrow>
               if comp_status a \<in> {CompConfigured, CompCancelled} then start_composition a
               else a\<lparr>comp_rejection := Some InvalidAction\<rparr>
           | ActCancel g \<Rightarrow>
               if comp_status a = CompRunning \<and> comp_generation a = Some g
               then a\<lparr>comp_generation := None, comp_output := None, comp_status := CompCancelled\<rparr>
               else a\<lparr>comp_rejection := Some InvalidAction\<rparr>
           | ActReset \<Rightarrow> (hard_reset a)\<lparr>comp_status := CompSelected\<rparr>))"

definition reject_assessment ::
    "composition_rejection \<Rightarrow> composition_authority \<Rightarrow> composition_authority \<times> composition_snapshot" where
  "reject_assessment reason a =
     shown (a\<lparr>comp_rejection := Some reason,
       comp_telemetry := (comp_telemetry a)\<lparr>ct_rejected_assessment :=
         increment (ct_rejected_assessment (comp_telemetry a))\<rparr>\<rparr>)"

text \<open>The \<open>match selection.mapping\<close> of \<open>observe\<close>: the one dimension the mapping exposes.\<close>

definition mapped_output ::
    "composition_mapping \<Rightarrow> assessment \<Rightarrow> composition_rejection + f64 option \<times> common_phase option" where
  "mapped_output mapping s =
     (case mapping of
        VolumeMapping \<Rightarrow>
          if af_calibration s \<noteq> CalReady then Inl InputNotReady
          else (case af_volume01 s of
              None \<Rightarrow> Inl MalformedAssessment
            | Some v \<Rightarrow>
                if is_finite v \<and> in_unit_range v then Inr (Some v, None)
                else Inl MalformedAssessment)
      | StateMapping \<Rightarrow>
          if af_phase s = Unknown \<or> af_phase s = BadTracking then Inl InputNotReady
          else Inr (None, Some (af_phase s)))"

definition composition_observe ::
    "timestamp \<Rightarrow> composition_source \<Rightarrow> assessment \<Rightarrow> composition_authority
     \<Rightarrow> composition_authority \<times> composition_snapshot" where
  "composition_observe at source s a =
     (let a = a\<lparr>comp_telemetry := (comp_telemetry a)\<lparr>ct_received_assessment :=
              increment (ct_received_assessment (comp_telemetry a))\<rparr>,
            comp_output := None, latest_assessment := Some s, comp_rejection := None\<rparr>
      in case effective a of
           None \<Rightarrow> reject_assessment InactiveFeatureLock a
         | Some selection \<Rightarrow>
             if comp_status a \<noteq> CompRunning then reject_assessment InvalidAction a
             else if rq_source selection \<noteq> source then reject_assessment UnselectedSource a
             else if comp_generation a \<noteq> Some (af_generation s)
               then reject_assessment CompGenerationMismatch a
             else if at < af_sampled_at s
                 \<or> stale_after_micros a < saturating_sub at (af_sampled_at s)
               then reject_assessment StaleAssessment a
             else if af_tracking s \<noteq> TrackValid then reject_assessment InputNotReady a
             else (case mapped_output (rq_mapping selection) s of
                 Inl reason \<Rightarrow> reject_assessment reason a
               | Inr (volume, phase) \<Rightarrow>
                   if \<not> is_finite (af_quality01 s) \<or> \<not> in_unit_range (af_quality01 s)
                   then reject_assessment MalformedAssessment a
                   else shown (a\<lparr>
                     comp_output := Some \<lparr>out_source = source, out_mapping = rq_mapping selection,
                       out_sequence_id = af_sequence_id s, out_sampled_at = af_sampled_at s,
                       out_volume01 = volume, out_phase = phase,
                       out_quality01 = af_quality01 s\<rparr>,
                     comp_telemetry := (comp_telemetry a)\<lparr>ct_accepted_assessment :=
                       increment (ct_accepted_assessment (comp_telemetry a))\<rparr>\<rparr>)))"

section \<open>The invariant of the authority\<close>

inductive composition_step :: "composition_authority \<Rightarrow> composition_authority \<Rightarrow> bool" where
  step_select: "composition_step a (fst (composition_select request a))"
| step_act: "composition_step a (fst (composition_act action a))"
| step_assess: "composition_step a (fst (composition_observe at source s a))"

inductive composition_run :: "composition_authority \<Rightarrow> composition_authority \<Rightarrow> bool" where
  comp_refl: "composition_run a a"
| comp_step: "composition_run a b \<Longrightarrow> composition_step b c \<Longrightarrow> composition_run a c"

text \<open>An output repeats an assessment of the current generation in the selected dimension only.\<close>

definition output_wf :: "composition_authority \<Rightarrow> composition_output \<Rightarrow> bool" where
  "output_wf a w =
     (case (effective a, latest_assessment a) of
        (Some r, Some s) \<Rightarrow>
          out_source w = rq_source r \<and> out_mapping w = rq_mapping r
          \<and> comp_generation a = Some (af_generation s) \<and> af_tracking s = TrackValid
          \<and> out_sequence_id w = af_sequence_id s \<and> out_sampled_at w = af_sampled_at s
          \<and> mapped_output (rq_mapping r) s = Inr (out_volume01 w, out_phase w)
          \<and> out_quality01 w = af_quality01 s \<and> in_unit_range (out_quality01 w)
      | _ \<Rightarrow> False)"

definition composition_wf :: "composition_authority \<Rightarrow> bool" where
  "composition_wf a =
     ((\<forall>r. effective a = Some r \<longrightarrow> feature_lock_active a \<and> supports (capabilities a) r)
      \<and> (comp_status a = CompRunning \<longrightarrow> comp_generation a \<noteq> None)
      \<and> comp_next_generation a \<noteq> 0
      \<and> (\<forall>g. comp_generation a = Some g \<longrightarrow> g \<noteq> 0 \<and> g < comp_next_generation a)
      \<and> (\<forall>w. comp_output a = Some w \<longrightarrow> output_wf a w))"

text \<open>What the operations never change.\<close>

definition same_activation :: "composition_authority \<Rightarrow> composition_authority \<Rightarrow> bool" where
  "same_activation a b =
     (feature_lock_active b = feature_lock_active a \<and> capabilities b = capabilities a
      \<and> stale_after_micros b = stale_after_micros a)"

lemma hard_reset_fields [simp]:
  "comp_generation (hard_reset a) = None" "comp_output (hard_reset a) = None"
  "latest_assessment (hard_reset a) = None" "effective (hard_reset a) = effective a"
  "feature_lock_active (hard_reset a) = feature_lock_active a"
  "capabilities (hard_reset a) = capabilities a"
  "stale_after_micros (hard_reset a) = stale_after_micros a"
  "comp_next_generation (hard_reset a) = comp_next_generation a"
  "comp_status (hard_reset a) = comp_status a"
  by (simp_all add: hard_reset_def)

lemma count_change_fields [simp]:
  "comp_generation (count_change a) = comp_generation a" "comp_output (count_change a) = comp_output a"
  "latest_assessment (count_change a) = latest_assessment a" "effective (count_change a) = effective a"
  "feature_lock_active (count_change a) = feature_lock_active a"
  "capabilities (count_change a) = capabilities a"
  "stale_after_micros (count_change a) = stale_after_micros a"
  "comp_next_generation (count_change a) = comp_next_generation a"
  by (simp_all add: count_change_def)

text \<open>
  The four things an operation can do: leave generation, selection and output alone; end with no
  output; start a generation; expose an output.
\<close>

definition unchanged :: "composition_authority \<Rightarrow> composition_authority \<Rightarrow> bool" where
  "unchanged a b =
     (same_activation a b \<and> effective b = effective a \<and> comp_generation b = comp_generation a
      \<and> comp_next_generation b = comp_next_generation a \<and> comp_output b = comp_output a
      \<and> latest_assessment b = latest_assessment a
      \<and> (comp_status b = CompRunning \<longrightarrow> comp_status a = CompRunning))"

definition silent :: "composition_authority \<Rightarrow> composition_authority \<Rightarrow> bool" where
  "silent a b =
     (same_activation a b \<and> comp_output b = None
      \<and> comp_next_generation b = comp_next_generation a
      \<and> (\<forall>r. effective b = Some r \<longrightarrow> feature_lock_active a \<and> supports (capabilities a) r)
      \<and> (comp_generation b = None \<or> comp_generation b = comp_generation a)
      \<and> (comp_status b = CompRunning \<longrightarrow>
           comp_status a = CompRunning \<and> comp_generation b = comp_generation a))"

definition begun :: "composition_authority \<Rightarrow> composition_authority \<Rightarrow> bool" where
  "begun a b =
     (same_activation a b \<and> effective b = effective a \<and> comp_output b = None
      \<and> comp_generation b = Some (comp_next_generation a)
      \<and> comp_next_generation a < comp_next_generation b)"

definition exposed :: "composition_authority \<Rightarrow> composition_authority \<Rightarrow> bool" where
  "exposed a b =
     (same_activation a b \<and> effective b = effective a \<and> comp_generation b = comp_generation a
      \<and> comp_next_generation b = comp_next_generation a \<and> comp_status b = comp_status a
      \<and> (\<forall>w. comp_output b = Some w \<longrightarrow> output_wf b w))"

lemmas composition_outcomes = unchanged_def silent_def begun_def exposed_def same_activation_def

lemma output_wf_cong:
  "effective b = effective a \<Longrightarrow> latest_assessment b = latest_assessment a
   \<Longrightarrow> comp_generation b = comp_generation a \<Longrightarrow> output_wf b w = output_wf a w"
  by (simp add: output_wf_def split: option.splits)

lemma outcome_wf:
  assumes "composition_wf a" "unchanged a b \<or> silent a b \<or> begun a b \<or> exposed a b"
  shows "composition_wf b"
proof -
  have "composition_wf b" if "unchanged a b"
    using assms(1) that output_wf_cong [of b a] by (auto simp: composition_wf_def composition_outcomes)
  moreover have "composition_wf b" if "silent a b"
    using assms(1) that by (auto simp: composition_wf_def composition_outcomes)
  moreover have "composition_wf b" if "begun a b"
    using assms(1) that by (auto simp: composition_wf_def composition_outcomes)
  moreover have "composition_wf b" if "exposed a b"
    using assms(1) that by (auto simp: composition_wf_def composition_outcomes)
  ultimately show ?thesis
    using assms(2) by blast
qed

lemma unchanged_before:
  assumes "unchanged a j"
  shows "unchanged j b \<Longrightarrow> unchanged a b" "silent j b \<Longrightarrow> silent a b" "begun j b \<Longrightarrow> begun a b"
  using assms by (auto simp: composition_outcomes)

lemma install_selection_outcome:
  assumes "composition_wf a" "feature_lock_active a" "supports (capabilities a) r"
  shows "unchanged a (install_selection r a) \<or> silent a (install_selection r a)"
proof (cases "effective a = Some r")
  case True
  then show ?thesis
    by (simp add: install_selection_def composition_outcomes)
next
  case False
  moreover have "comp_output a = None" if "effective a = None"
    using assms(1) that by (cases "comp_output a") (auto simp: composition_wf_def output_wf_def)
  ultimately show ?thesis
    using assms(2,3)
    by (cases "effective a") (simp_all add: install_selection_def composition_outcomes)
qed

definition select_received :: "composition_request option \<Rightarrow> composition_authority \<Rightarrow> composition_authority" where
  "select_received request a =
     a\<lparr>comp_telemetry := (comp_telemetry a)\<lparr>ct_selection_request :=
         increment (ct_selection_request (comp_telemetry a))\<rparr>,
       requested := request, comp_rejection := None\<rparr>"

lemma select_installs:
  assumes "feature_lock_active a" "supports (capabilities a) r"
    "\<And>previous. effective a = Some previous
       \<Longrightarrow> \<not> (same_assessment previous r \<and> rq_mapping previous \<noteq> rq_mapping r)"
  shows "fst (composition_select (Some r) a) = install_selection r (select_received (Some r) a)"
  using assms
  by (cases "effective a") (auto simp: composition_select_def Let_def shown_def select_received_def)

lemma select_outcome:
  assumes "composition_wf a"
  shows "unchanged a (fst (composition_select request a)) \<or> silent a (fst (composition_select request a))"
proof (cases request)
  case None
  have "comp_output a = None" if "effective a = None"
    using assms that by (cases "comp_output a") (auto simp: composition_wf_def output_wf_def)
  then have "silent a (fst (composition_select request a))"
    using None by (cases "effective a")
      (simp_all add: composition_select_def Let_def shown_def composition_outcomes)
  then show ?thesis by simp
next
  case (Some r)
  consider "\<not> feature_lock_active a \<or> \<not> supports (capabilities a) r"
    | previous where "feature_lock_active a" "supports (capabilities a) r"
        "effective a = Some previous" "same_assessment previous r \<and> rq_mapping previous \<noteq> rq_mapping r"
    | "feature_lock_active a" "supports (capabilities a) r"
        "\<And>previous. effective a = Some previous
           \<Longrightarrow> \<not> (same_assessment previous r \<and> rq_mapping previous \<noteq> rq_mapping r)"
    by blast
  then show ?thesis
  proof cases
    case 1
    then have "silent a (fst (composition_select request a))"
      using Some by (cases "feature_lock_active a")
        (simp_all add: composition_select_def Let_def shown_def composition_outcomes)
    then show ?thesis by simp
  next
    case 2
    then have "silent a (fst (composition_select request a))"
      using Some by (simp add: composition_select_def Let_def shown_def composition_outcomes)
    then show ?thesis by simp
  next
    case 3
    have same: "unchanged a (select_received (Some r) a)"
      by (simp add: select_received_def composition_outcomes)
    have "composition_wf (select_received (Some r) a)"
      using outcome_wf [OF assms] same by blast
    then show ?thesis
      using Some select_installs [OF 3] install_selection_outcome [of "select_received (Some r) a" r]
        3(1,2) unchanged_before [OF same]
      by (simp add: select_received_def) blast
  qed
qed

lemma act_outcome:
  assumes "composition_wf a"
  shows "unchanged a (fst (composition_act action a)) \<or> silent a (fst (composition_act action a))
    \<or> begun a (fst (composition_act action a))"
proof -
  define j where "j = a\<lparr>comp_rejection := None\<rparr>"
  have j: "unchanged a j" "\<And>r. effective j = Some r \<Longrightarrow> feature_lock_active j \<and> supports (capabilities j) r"
    using assms by (auto simp: composition_wf_def j_def composition_outcomes)
  have start: "unchanged j (start_composition j) \<or> begun j (start_composition j)"
    by (auto simp: start_composition_def breath_generation_new_def composition_outcomes
        checked_add_eq_Some_iff word_less_nat_alt split: option.splits)
  have "unchanged j (fst (composition_act action a)) \<or> silent j (fst (composition_act action a))
    \<or> begun j (fst (composition_act action a))"
    unfolding composition_act_def j_def [symmetric] Let_def shown_def
    using start j(2) by (cases action) (auto simp: composition_outcomes)
  then show ?thesis
    using unchanged_before [OF j(1)] by blast
qed

text \<open>The output is cleared before an assessment is looked at: a rejected one leaves none.\<close>

lemma observe_exposes:
  "exposed a (fst (composition_observe at source s a))"
proof -
  define j where "j = a\<lparr>comp_telemetry := (comp_telemetry a)\<lparr>ct_received_assessment :=
      increment (ct_received_assessment (comp_telemetry a))\<rparr>,
    comp_output := None, latest_assessment := Some s, comp_rejection := None\<rparr>"
  have j: "same_activation a j" "effective j = effective a" "comp_generation j = comp_generation a"
      "comp_next_generation j = comp_next_generation a" "comp_status j = comp_status a"
      "comp_output j = None" "latest_assessment j = Some s"
    by (simp_all add: j_def same_activation_def)
  then have rejected: "exposed a (fst (reject_assessment reason j))" for reason
    by (simp add: reject_assessment_def shown_def exposed_def same_activation_def)
  have accepted: "exposed a (fst (shown (j\<lparr>
      comp_output := Some \<lparr>out_source = source, out_mapping = rq_mapping selection,
        out_sequence_id = af_sequence_id s, out_sampled_at = af_sampled_at s,
        out_volume01 = volume, out_phase = phase, out_quality01 = af_quality01 s\<rparr>,
      comp_telemetry := t\<rparr>)))"
    if "effective j = Some selection" "rq_source selection = source"
      "comp_generation j = Some (af_generation s)" "af_tracking s = TrackValid"
      "mapped_output (rq_mapping selection) s = Inr (volume, phase)" "in_unit_range (af_quality01 s)"
    for selection volume phase t
    using that j by (simp add: shown_def exposed_def same_activation_def output_wf_def)
  show ?thesis
    unfolding composition_observe_def j_def [symmetric] Let_def
    by (simp add: rejected accepted split: option.splits sum.splits prod.splits)
qed

lemma step_outcomes:
  assumes "composition_step a b" "composition_wf a"
  shows "unchanged a b \<or> silent a b \<or> begun a b \<or> exposed a b"
  using assms select_outcome act_outcome observe_exposes by (metis composition_step.cases)

lemma step_composition_wf: "composition_step a b \<Longrightarrow> composition_wf a \<Longrightarrow> composition_wf b"
  using outcome_wf step_outcomes by blast

lemma run_composition_wf: "composition_run a b \<Longrightarrow> composition_wf a \<Longrightarrow> composition_wf b"
  by (induction rule: composition_run.induct) (auto intro: step_composition_wf)

lemma step_same_activation:
  assumes "composition_step a b" "composition_wf a"
  shows "same_activation a b"
  using step_outcomes [OF assms] by (auto simp: composition_outcomes)

lemma run_same_activation:
  "composition_run a b \<Longrightarrow> composition_wf a \<Longrightarrow> same_activation a b"
proof (induction rule: composition_run.induct)
  case (comp_step a b c)
  then have "same_activation b c"
    using run_composition_wf step_same_activation by blast
  with comp_step show ?case
    by (simp add: same_activation_def)
qed (simp add: same_activation_def)

lemma new_composition_wf: "composition_wf (composition_new enabled packaged runtime caps stale)"
  by (simp add: composition_new_def Let_def composition_wf_def)

lemma binding_accepted:
  "binding_rejection packaged runtime = None \<longleftrightarrow>
     (\<exists>d. d \<noteq> zero_digest \<and> packaged = BindingDigest d \<and> runtime = BindingDigest d)"
  by (auto simp: binding_rejection_def split: composition_binding.splits if_splits)

lemma mapped_output_dimension:
  assumes "mapped_output m s = Inr (v, ph)"
  shows "case m of
      VolumeMapping \<Rightarrow> ph = None \<and> af_calibration s = CalReady
        \<and> v = af_volume01 s \<and> is_some_and v in_unit_range
    | StateMapping \<Rightarrow> v = None \<and> ph = Some (af_phase s) \<and> af_phase s \<in> {Inhale, Exhale, Hold}"
proof (cases m)
  case VolumeMapping
  with assms show ?thesis
    by (cases "af_volume01 s"; cases v) (auto simp: mapped_output_def is_some_and_def split: if_splits)
next
  case StateMapping
  with assms show ?thesis
    by (cases "af_phase s") (simp_all add: mapped_output_def)
qed

interpretation composition: generation_fence composition_step composition_wf comp_generation
    comp_next_generation
proof
  fix a b g
  assume step: "composition_step a b" "composition_wf a"
  then show "composition_wf b"
    by (rule step_composition_wf)
  show "comp_next_generation a \<le> comp_next_generation b"
    using step_outcomes [OF step] by (auto simp: composition_outcomes)
  show "comp_generation a = Some g \<or> comp_next_generation a \<le> g" if "comp_generation b = Some g"
    using step_outcomes [OF step] that by (auto simp: composition_outcomes)
next
  fix a g
  assume "composition_wf a" "comp_generation a = Some g"
  then show "g < comp_next_generation a"
    by (simp add: composition_wf_def)
qed

text \<open>An assessment of a generation that is over can never be shown again.\<close>

lemma ended_composition_is_fenced:
  assumes "composition_run a b" "composition_wf a" "g < comp_next_generation a"
    "comp_generation a \<noteq> Some g"
  shows "comp_generation b \<noteq> Some g"
proof -
  have "composition_step\<^sup>*\<^sup>* a b"
    using assms(1) by (induction rule: composition_run.induct) auto
  then show ?thesis
    using assms(2-4) by (rule composition.fenced)
qed

end
