(* ===== verification/Breath_Claims.thy ===== *)
theory Breath_Claims
  imports Breath_Proofs Breath_Phase_Proofs Breath_Calibration_Proofs Breath_Composition
begin

text \<open>
  The properties of the breath crate: what a replay may show, that an ended generation stays
  ended, that a phase is committed only after confirmation and dwell, that nothing survives a
  reset of the classifier, that every input is counted once, that calibration returns in every
  reachable state and keeps its bounds, and that the composition exposes an
  output only for the selected source under a matching feature lock. Each has a run of the source's
  own operations beside it.
\<close>

section \<open>The lifecycle owner\<close>

definition half :: f32 where
  "half = Finite False 1 (- 1)"

text \<open>One generation with two samples, then its cancellation and a second generation.\<close>

definition demo_configuration :: "configuration_error + breath_configuration" where
  "demo_configuration = breath_configuration_new 100 1000"

definition demo_replay :: "replay_action list" where
  "demo_replay =
     [ReplayConfigure 1 demo_configuration, ReplayStart 2,
      ReplayObserve 10 Current (BreathSample 9 half half),
      ReplayObserve 20 (Exact 1) (BreathSample 19 half half),
      ReplayCancel 30 Current, ReplayStart 40,
      ReplayObserve 50 (Exact 1) (BreathSample 49 half half),
      ReplayObserve 60 (Exact 2) (BreathSample 59 half half)]"

lemma demo_replay_statuses:
  "map_err (\<lambda>_. ()) (and_then (run_bounded_replay demo_replay 8) (\<lambda>os. Inr (map obs_status os)))
   = Inr [StConfigured, StStarted, SampleAccepted, SampleAccepted, StCancelled, StStarted,
       RejectedGeneration, SampleAccepted]"
  by code_simp

lemma replay_length: "replay_from i as c = Inr os \<Longrightarrow> length os = length as"
  by (induction as arbitrary: i c os) (auto simp: and_then_eq_Inr split: prod.splits)

lemma run_bounded_replay_eq_Inr:
  "run_bounded_replay actions n = Inr os \<longleftrightarrow>
     n \<noteq> 0 \<and> n \<le> MAX_REPLAY_ACTIONS \<and> length actions \<le> n
     \<and> replay_from 0 actions breath_contract_default = Inr os"
  by (auto simp: run_bounded_replay_def)

text \<open>C34. A replay that succeeds gives one observation per action, at most 1024. In each of them a
  generation is shown exactly while the owner runs and is never zero, an accepted sample is shown,
  and a shown sample belongs to the running generation, was observed at the last action, is not
  from the future, carries its exact age and has value and quality in the unit interval.
\<close>

theorem replay_observations_are_well_formed:
  assumes "run_bounded_replay actions n = Inr os" "ob \<in> set os"
  shows "length os = length actions \<and> length os \<le> 1024
    \<and> (obs_lifecycle ob = Running \<longleftrightarrow> obs_generation ob \<noteq> None)
    \<and> obs_generation ob \<noteq> Some 0
    \<and> (obs_status ob = SampleAccepted \<longrightarrow> obs_sample ob \<noteq> None)
    \<and> (\<forall>s. obs_sample ob = Some s \<longrightarrow>
         obs_lifecycle ob = Running \<and> obs_last_action_at ob = Some (acc_observed_at s)
         \<and> acc_sampled_at s \<le> acc_observed_at s
         \<and> unat (acc_age_micros s) = unat (acc_observed_at s) - unat (acc_sampled_at s)
         \<and> in_unit_range (acc_value01 s) \<and> in_unit_range (acc_quality01 s))"
proof -
  have run: "replay_from 0 actions breath_contract_default = Inr os" "length actions \<le> 1024"
    using assms(1) by (auto simp: run_bounded_replay_eq_Inr MAX_REPLAY_ACTIONS_def)
  obtain c where "breath_wf c" "ob = breath_snapshot c"
    using replay_shows_wf [OF default_wf run(1) assms(2)] by blast
  then show ?thesis
    using run replay_length [OF run(1)]
    by (auto simp: breath_wf_def breath_snapshot_def sample_wf_def unat_sub word_le_nat_alt)
qed

definition demo_report :: "breath_observation list" where
  "demo_report = (case run_bounded_replay demo_replay 8 of Inl _ \<Rightarrow> [] | Inr os \<Rightarrow> os)"

lemma demo_report_facts:
  "is_ok (run_bounded_replay demo_replay 8)" "length demo_report = 8"
  "map obs_generation demo_report
   = [None, Some 1, Some 1, Some 1, None, Some 2, Some 2, Some 2]"
  "map (map_option acc_sampled_at) (map obs_sample demo_report)
   = [None, None, Some 9, Some 19, None, None, None, Some 59]"
  "map obs_status demo_report
   = [StConfigured, StStarted, SampleAccepted, SampleAccepted, StCancelled, StStarted,
       RejectedGeneration, SampleAccepted]"
  by code_simp+

lemma demo_runs: "run_bounded_replay demo_replay 8 = Inr demo_report"
  using demo_report_facts(1) by (cases "run_bounded_replay demo_replay 8") (simp_all add: demo_report_def)

theorem replay_observations_are_well_formed_witness:
  "obs_generation (demo_report ! 3) \<noteq> Some 0
   \<and> (case obs_sample (demo_report ! 3) of
        None \<Rightarrow> False
      | Some s \<Rightarrow> unat (acc_age_micros s) = unat (acc_observed_at s) - unat (acc_sampled_at s))"
proof -
  have "demo_report ! 3 \<in> set demo_report"
    using demo_report_facts(2) by simp
  moreover have "map obs_status demo_report ! 3 = SampleAccepted"
    by (simp add: demo_report_facts)
  ultimately show ?thesis
    using replay_observations_are_well_formed [OF demo_runs, of "demo_report ! 3"] demo_report_facts(2)
    by (cases "obs_sample (demo_report ! 3)") simp_all
qed

text \<open>C30. In the report of a replay an earlier observation precedes a later one: the time of the last
  action and the generation numbers never go back, and within one generation a sample accepted
  later has a strictly later source time than every sample shown before it.
\<close>

theorem replayed_samples_advance:
  assumes "run_bounded_replay actions n = Inr os" "i < j" "j < length os"
  shows "precedes (os ! i) (os ! j)"
proof -
  have "replay_from 0 actions breath_contract_default = Inr os"
    using assms(1) by (simp add: run_bounded_replay_eq_Inr)
  then show ?thesis
    using replay_sorted [OF default_wf] assms(2,3) sorted_wrt_nth_less by blast
qed

theorem replayed_samples_advance_witness:
  "precedes (demo_report ! 2) (demo_report ! 3) \<and> obs_status (demo_report ! 3) = SampleAccepted
   \<and> obs_generation (demo_report ! 2) = obs_generation (demo_report ! 3)"
proof -
  have "map obs_status demo_report ! 3 = SampleAccepted"
      "map obs_generation demo_report ! 2 = map obs_generation demo_report ! 3"
    by (simp_all add: demo_report_facts)
  then show ?thesis
    using replayed_samples_advance [OF demo_runs, of 2 3] demo_report_facts(2) by simp
qed

text \<open>C29. Generations are fenced for ever: once a generation that has been issued is no longer the
  current one, no sequence of calls makes it current again, and an observation or a cancellation
  submitted for it changes neither lifecycle, configuration, generation, sample nor any clock.
\<close>

theorem ended_generation_is_fenced:
  assumes "breath_run breath_contract_default c" "g < next_generation c" "generation c \<noteq> Some g"
    "breath_run c c'"
  shows "generation c' \<noteq> Some g \<and> kept c' (fst (breath_observe at g input c'))
    \<and> kept c' (fst (breath_cancel at' g c'))"
proof -
  have "breath_wf c"
    using assms(1) default_wf by (rule run_wf)
  then have "generation c' \<noteq> Some g"
    using breath.fenced [OF run_steps [OF assms(4)]] assms(2,3) by blast
  then show ?thesis
    by (auto simp: breath_observe_def breath_cancel_def)
qed

definition demo_cancelled :: breath_contract where
  "demo_cancelled = fst (breath_cancel 30 1 (fst (breath_start 2
     (fst (breath_configure 1 demo_configuration breath_contract_default)))))"

definition demo_restarted :: breath_contract where
  "demo_restarted = fst (breath_start 40 demo_cancelled)"

lemma demo_runs_on:
  "breath_run breath_contract_default demo_cancelled" "breath_run demo_cancelled demo_restarted"
  unfolding demo_cancelled_def demo_restarted_def
  by (rule run_step [OF run_step [OF run_step [OF run_refl operation_steps(2)] operation_steps(3)]
        operation_steps(4)], rule run_step [OF run_refl operation_steps(3)])

lemma demo_generations:
  "generation demo_cancelled = None" "next_generation demo_cancelled = 2"
  "generation demo_restarted = Some 2"
  by code_simp+

theorem ended_generation_is_fenced_witness:
  "generation demo_restarted = Some 2
   \<and> kept demo_restarted (fst (breath_observe 50 1 (BreathSample 49 half half) demo_restarted))
   \<and> kept demo_restarted (fst (breath_cancel 50 1 demo_restarted))"
  using ended_generation_is_fenced [OF demo_runs_on(1) _ _ demo_runs_on(2), of 1 50
      "BreathSample 49 half half" 50] demo_generations
  by simp

section \<open>The phase classifier\<close>

text \<open>C27. A phase is committed only when it is earned. In every run of a classifier, when an
  observation reports a transition, the classifier has proposed the new phase on every observation
  since one whose source time lies at least the confirmation interval back, and any earlier
  transition with no reset in between lies at least the minimum dwell back.
\<close>

theorem committed_phase_is_earned:
  "earned p (phase_trace (phase_classifier_new p) actions)"
  using trace_earned [OF new_tied, of p actions] by (simp add: earned_def)

text \<open>The run of the source's own test: a rise, a plateau and a fall at ten samples a second.\<close>

definition demo_parameters :: phase_parameters where
  "demo_parameters =
     \<lparr>enter_derivative = f64_literal 2 10, exit_derivative = f64_literal 8 100,
      filter_alpha = f64_literal 1 1, directional_confirmation = 100000,
      hold_confirmation = 100000, minimum_dwell = 100000, phase_stale_after = 200000,
      phase_discontinuity_after = 800000, inverted = False\<rparr>"

definition demo_values :: "f64 list" where
  "demo_values = map (\<lambda>n. f64_literal n 1000) [500, 530, 560, 590, 590, 591, 591, 560, 530, 500]"

definition demo_inputs :: "(timestamp \<times> phase_input) list" where
  "demo_inputs =
     map (\<lambda>(i, v). (of_nat i * 100000 + 1, PhaseSample (of_nat i + 1) (of_nat i * 100000 + 1) v))
       (enumerate 0 demo_values)"

abbreviation observe_all :: "(timestamp \<times> phase_input) list \<Rightarrow> phase_action list" where
  "observe_all ins \<equiv> map (\<lambda>(at, input). ObservePhase at input) ins"

lemma demo_configuration_checked: "phase_configuration_new demo_parameters = Inr demo_parameters"
  by code_simp

lemma demo_phases:
  "map (\<lambda>ob. (po_status ob, po_phase ob))
     (phase_trace (phase_classifier_new demo_parameters) (observe_all demo_inputs))
   = [(Primed, Unknown), (Confirming, Unknown), (Transitioned, Inhale), (Stable, Inhale),
      (Confirming, Inhale), (Transitioned, Hold), (Stable, Hold), (Confirming, Hold),
      (Transitioned, Exhale), (Stable, Exhale)]"
  by code_simp

text \<open>C33. Nothing survives a reset. Whenever an action of a run ends in a reset, every later
  observation is, counters apart, the one that a new classifier with the same parameters makes whose
  last action time is that of the reset one: only the clock that detects time regressions is kept,
  and no phase, candidate, filter state or sample leaks across.
\<close>

theorem reset_leaves_no_history:
  assumes "phase_act a (phase_after (phase_classifier_new p) before) = (k', ob)" "is_reset ob"
  shows "map forget_counts (phase_trace k' later)
    = map forget_counts (phase_trace
        ((phase_classifier_new p)\<lparr>ph_last_observed_at := ph_last_observed_at k'\<rparr>) later)"
proof -
  obtain obs where "tied p obs (phase_after (phase_classifier_new p) before)"
    using reachable_tied [OF new_tied] by blast
  then have "cleared k'" "ph_configuration k' = p"
    using reset_clears [OF assms] by (auto simp: tied_def)
  then show ?thesis
    using cleared_is_new [of k'] by (intro trace_alike) simp
qed

definition demo_reset :: "phase_classifier \<times> phase_observation" where
  "demo_reset = phase_act (ObservePhase 400000 PhaseMissing)
     (phase_after (phase_classifier_new demo_parameters) (observe_all (take 4 demo_inputs)))"

lemma demo_reset_facts: "is_reset (snd demo_reset)" "ph_last_observed_at (fst demo_reset) = Some 400000"
  by code_simp+

theorem reset_leaves_no_history_witness:
  "is_reset (snd demo_reset)
   \<and> map forget_counts (phase_trace (fst demo_reset) (observe_all (drop 5 demo_inputs)))
     = map forget_counts (phase_trace
         ((phase_classifier_new demo_parameters)\<lparr>ph_last_observed_at := Some 400000\<rparr>)
         (observe_all (drop 5 demo_inputs)))"
  using reset_leaves_no_history [of "ObservePhase 400000 PhaseMissing" demo_parameters
      "observe_all (take 4 demo_inputs)" "fst demo_reset" "snd demo_reset"
      "observe_all (drop 5 demo_inputs)"] demo_reset_facts
  by (simp add: demo_reset_def)

text \<open>Every input is counted exactly once: after fewer than two to the sixty-four observations the
  received counter is their number, and it is the sum of the accepted samples and of the six
  counters of resets that an input can cause, so no counter has saturated or wrapped.
\<close>

theorem every_input_is_counted:
  assumes "length ins < 2 ^ 64"
  shows "balanced (length ins)
    (ph_telemetry (phase_after (phase_classifier_new p) (observe_all ins)))"
proof -
  have "balanced 0 (ph_telemetry (phase_classifier_new p))"
    by (simp add: balanced_def phase_classifier_new_def phase_telemetry_default_def)
  then show ?thesis
    using observations_balanced [OF new_tied, of 0 p ins] assms by simp
qed

theorem every_input_is_counted_witness:
  "balanced 10 (ph_telemetry (phase_after (phase_classifier_new demo_parameters)
     (observe_all demo_inputs)))"
proof -
  have "length demo_inputs = 10"
    by (simp add: demo_inputs_def demo_values_def)
  then show ?thesis
    using every_input_is_counted [of demo_inputs demo_parameters] by simp
qed

section \<open>Calibration\<close>

text \<open>C31. The calibration owner never panics: in every state its operations can reach, for every
  input, time and generation and whatever the mathematics library returns, an observation returns.
  None of its \<open>expect\<close> calls, slice indices and conversions can fail.
\<close>

theorem calibration_never_panics:
  assumes "cal_run e calibration_default c"
  shows "\<exists>c' ob. cal_observe e at g input c = Some (c', ob)"
  using cal_observe_wf [OF cal_run_wf [OF assms calibration_default_wf], of e at g input]
  by (cases "cal_observe e at g input c") auto

text \<open>C32. Calibration stays within its bounds. In every reachable state of an active generation the
  accepted frames do not exceed the target, which is at most 512, and \<open>n\<close> of them have taken at
  least \<open>n - 1\<close> whole analysis intervals of at least 100 milliseconds since the start. A live
  output exists only for a ready owner with a model, was made at the last action from a frame not
  older than the age bound, and its volume is in the unit interval unless it is not a number.
\<close>

theorem calibration_stays_in_bounds:
  assumes "cal_run e calibration_default c" "cal_configuration c = Some p" "cal_generation c = Some g"
  shows "length (cal_accepted_frames c) \<le> cp_accepted_frame_target p
    \<and> cp_accepted_frame_target p \<le> 512 \<and> 100000 \<le> unat (cp_analysis_interval p)
    \<and> (\<exists>s a. cal_started_at c = Some s \<and> cal_last_action_at c = Some a
         \<and> (length (cal_accepted_frames c) - 1) * unat (cp_analysis_interval p) \<le> unat a - unat s)
    \<and> (case cal_live c of
         None \<Rightarrow> True
       | Some l \<Rightarrow> cal_lifecycle c = CalReady \<and> cal_model c \<noteq> None
           \<and> cal_last_action_at c = Some (lo_observed_at l) \<and> lo_sampled_at l \<le> lo_observed_at l
           \<and> lo_observed_at l - lo_sampled_at l \<le> cp_stale_after p
           \<and> (lo_volume01 l = NaN \<or> in_unit_range (lo_volume01 l)))"
proof -
  have wf: "cal_wf c"
    using cal_run_wf [OF assms(1) calibration_default_wf] .
  then have active: "active_ok c p" "target_ok p"
    using assms(2,3) by (auto simp: cal_wf_def cal_core_def idle_ok_def)
  then have "100000 \<le> unat (cp_analysis_interval p)"
    by (simp add: target_ok_def MIN_ANALYSIS_INTERVAL_MICROS_def word_le_nat_alt)
  moreover have "\<exists>s a. cal_started_at c = Some s \<and> cal_last_action_at c = Some a
      \<and> (length (cal_accepted_frames c) - 1) * unat (cp_analysis_interval p) \<le> unat a - unat s"
    using active(1)
    by (auto simp: active_ok_def timing_ok_def paced_def word_le_nat_alt split: option.splits)
  moreover have "live_ok c l" if "cal_live c = Some l" for l
    using wf that by (simp add: cal_wf_def)
  ultimately show ?thesis
    using active assms(2) by (auto simp: active_ok_def target_ok_def live_ok_def split: option.splits)
qed

text \<open>
  A concrete library for a run whose frames lie on one axis: no rotation is made, and the
  hypotenuse of a coordinate and zero is its absolute value. Eight frames, ten a second, make the
  owner ready.
\<close>

definition demo_math :: math_env where
  "demo_math =
     \<lparr>me_sin = (\<lambda>_. f_zero), me_cos = (\<lambda>_. f_one), me_atan2 = (\<lambda>_ _. f_zero),
      me_hypot = (\<lambda>a b. f_add (f_abs a) (f_abs b)), me_sum_negative_zero = True\<rparr>"

definition demo_calibration_parameters :: calibration_parameters where
  "demo_calibration_parameters = calibration_parameters_default\<lparr>cp_accepted_frame_target := 8\<rparr>"

lemma demo_calibration_checked:
  "calibration_configuration_new demo_calibration_parameters = Inr demo_calibration_parameters"
  by code_simp

definition demo_frame :: "nat \<Rightarrow> motion_frame" where
  "demo_frame i =
     \<lparr>mf_sequence_id = of_nat i + 1, mf_sampled_at = (of_nat i + 1) * 100000,
      mf_vector = [f64_literal (8 + int i) 8, f_zero, f_zero]\<rparr>"

definition demo_calibrate :: "calibration \<Rightarrow> motion_frame \<Rightarrow> calibration" where
  "demo_calibrate c frame =
     (case cal_observe demo_math (mf_sampled_at frame + 5) 1 (CalFrame frame) c of
        None \<Rightarrow> c
      | Some y \<Rightarrow> fst y)"

definition demo_collecting :: calibration where
  "demo_collecting = fst (cal_start 50000 1 (fst (cal_configure 0
     (calibration_configuration_new demo_calibration_parameters) calibration_default)))"

definition demo_ready :: calibration where
  "demo_ready = foldl demo_calibrate demo_collecting (map demo_frame [0, 1, 2, 3, 4, 5, 6, 7])"

lemma demo_calibrate_run:
  "cal_run demo_math calibration_default c \<Longrightarrow> cal_run demo_math calibration_default (demo_calibrate c frame)"
  by (cases "cal_observe demo_math (mf_sampled_at frame + 5) 1 (CalFrame frame) c")
    (auto simp: demo_calibrate_def dest: step_cal_observe)

lemma demo_collecting_run: "cal_run demo_math calibration_default demo_collecting"
  unfolding demo_collecting_def
  by (rule rtranclp.rtrancl_into_rtrancl [OF r_into_rtranclp], rule step_cal_configure, rule step_cal_start)

lemma demo_ready_run: "cal_run demo_math calibration_default demo_ready"
proof -
  have "cal_run demo_math calibration_default (foldl demo_calibrate c fs)"
    if "cal_run demo_math calibration_default c" for c fs
    using that by (induction fs arbitrary: c) (auto intro: demo_calibrate_run)
  then show ?thesis
    by (simp only: demo_ready_def demo_collecting_run)
qed

definition demo_ready_check :: "calibration \<Rightarrow> bool" where
  "demo_ready_check c =
     (cal_configuration c = Some demo_calibration_parameters \<and> cal_generation c = Some 1
      \<and> cal_lifecycle c = CalReady \<and> length (cal_accepted_frames c) = 8
      \<and> map_option lo_observed_at (cal_live c) = Some 800005)"

lemma demo_ready_checked: "demo_ready_check demo_ready"
  by code_simp

lemmas demo_ready_facts = demo_ready_checked [unfolded demo_ready_check_def]

theorem calibration_never_panics_witness:
  "\<exists>c' ob. cal_observe demo_math 900000 1 CalMissing demo_ready = Some (c', ob)"
  using calibration_never_panics [OF demo_ready_run] .

theorem calibration_stays_in_bounds_witness:
  "cal_live demo_ready \<noteq> None
   \<and> (case cal_live demo_ready of
        None \<Rightarrow> False
      | Some l \<Rightarrow> lo_observed_at l - lo_sampled_at l \<le> cp_stale_after demo_calibration_parameters)"
  using calibration_stays_in_bounds [OF demo_ready_run, of demo_calibration_parameters 1] demo_ready_facts
  by (cases "cal_live demo_ready") simp_all

section \<open>Composition\<close>

text \<open>C28. An output is exposed only with authority. Whatever calls have been made on an authority, when
  it shows an output then it was enabled, the package and the running system carry the same
  non-zero lock digest, the age bound is admissible, the effective request lies in the capability
  closure, the output repeats a valid assessment of the current generation from the selected
  source, only the selected dimension is present, and volume and quality lie in the unit interval.
\<close>

theorem exposed_output_is_authorised:
  assumes "composition_run (composition_new enabled packaged runtime caps stale) a"
    "comp_output a = Some w"
  shows "enabled \<and> (\<exists>d. d \<noteq> zero_digest \<and> packaged = BindingDigest d \<and> runtime = BindingDigest d)
    \<and> stale \<noteq> 0 \<and> stale \<le> MAX_STALE_AFTER_MICROS
    \<and> (\<exists>r s. effective a = Some r \<and> supports caps r
         \<and> out_source w = rq_source r \<and> out_mapping w = rq_mapping r
         \<and> latest_assessment a = Some s \<and> comp_generation a = Some (af_generation s)
         \<and> af_tracking s = TrackValid \<and> in_unit_range (out_quality01 w)
         \<and> (case rq_mapping r of
              VolumeMapping \<Rightarrow> out_phase w = None \<and> af_calibration s = CalReady
                \<and> out_volume01 w = af_volume01 s \<and> is_some_and (out_volume01 w) in_unit_range
            | StateMapping \<Rightarrow> out_volume01 w = None \<and> out_phase w = Some (af_phase s)
                \<and> af_phase s \<in> {Inhale, Exhale, Hold}))"
proof -
  have wf: "composition_wf a"
    and same: "same_activation (composition_new enabled packaged runtime caps stale) a"
    using assms(1) new_composition_wf by (auto intro: run_composition_wf run_same_activation)
  then obtain r s where r: "effective a = Some r" "latest_assessment a = Some s"
      "feature_lock_active a" "supports (capabilities a) r" "output_wf a w"
    using assms(2) by (auto simp: composition_wf_def output_wf_def split: option.splits)
  then have "feature_lock_active (composition_new enabled packaged runtime caps stale)"
      "supports caps r"
    using same by (auto simp: same_activation_def composition_new_def Let_def)
  then have "enabled" "stale \<noteq> 0" "stale \<le> MAX_STALE_AFTER_MICROS"
      "binding_rejection packaged runtime = None"
    by (auto simp: composition_new_def Let_def not_less split: if_splits)
  moreover have "mapped_output (rq_mapping r) s = Inr (out_volume01 w, out_phase w)"
    using r by (simp add: output_wf_def)
  ultimately show ?thesis
    using r \<open>supports caps r\<close> binding_accepted mapped_output_dimension
    by (auto simp: output_wf_def)
qed

definition demo_request :: composition_request where
  "demo_request =
     \<lparr>rq_source = Controller, rq_mapping = StateMapping,
      rq_controller_projection = ControllerDynamicAxis, rq_polar_projection = PolarXz,
      rq_inverted = False\<rparr>"

definition demo_capabilities :: composition_capabilities where
  "demo_capabilities =
     \<lparr>controller_assessment = True, polar_acc_assessment = True, volume_mapping = True,
      state_mapping = True, same_apk_panel = True\<rparr>"

definition demo_digest :: bytes where
  "demo_digest = replicate 32 90"

definition demo_fields :: assessment_fields where
  "demo_fields =
     \<lparr>af_generation = 1, af_sequence_id = 7, af_sampled_at = 100000, af_observed_at = 110000,
      af_volume01 = None, af_phase = Hold, af_calibration = CalCollecting,
      af_tracking = TrackValid, af_quality01 = half\<rparr>"

definition demo_assessment :: assessment where
  "demo_assessment = assessment_fields.extend demo_fields \<lparr>as_schema_id = assessment_schema\<rparr>"

lemma demo_assessment_checked: "assessment_new demo_fields = Inr demo_assessment"
  by code_simp

definition demo_authority :: composition_authority where
  "demo_authority = composition_new True (BindingDigest demo_digest) (BindingDigest demo_digest)
     demo_capabilities 250000"

definition demo_started :: composition_authority where
  "demo_started = fst (composition_act ActStart (fst (composition_act ActConfigure
     (fst (composition_select (Some demo_request) demo_authority)))))"

definition demo_exposed :: composition_authority where
  "demo_exposed = fst (composition_observe 120000 Controller demo_assessment demo_started)"

definition demo_output :: composition_output where
  "demo_output =
     \<lparr>out_source = Controller, out_mapping = StateMapping, out_sequence_id = 7,
      out_sampled_at = 100000, out_volume01 = None, out_phase = Some Hold, out_quality01 = half\<rparr>"

lemma demo_composition_runs:
  "composition_run demo_authority demo_started" "composition_run demo_authority demo_exposed"
proof -
  show started: "composition_run demo_authority demo_started"
    unfolding demo_started_def
    by (rule comp_step [OF comp_step [OF comp_step [OF comp_refl step_select] step_act] step_act])
  then show "composition_run demo_authority demo_exposed"
    unfolding demo_exposed_def by (rule comp_step [OF _ step_assess])
qed

lemma demo_exposes: "comp_output demo_exposed = Some demo_output"
  by code_simp

theorem exposed_output_is_authorised_witness:
  "\<exists>r s. effective demo_exposed = Some r \<and> supports demo_capabilities r
     \<and> latest_assessment demo_exposed = Some s
     \<and> comp_generation demo_exposed = Some (af_generation s) \<and> out_source demo_output = rq_source r"
  using exposed_output_is_authorised [OF demo_composition_runs(2) [unfolded demo_authority_def] demo_exposes]
  by blast

section \<open>Selecting again while a generation runs\<close>

text \<open>
  Selecting the request that is already effective while its generation runs takes the status back
  to selected, but keeps the generation and the output in the snapshot, and the exact generation
  can then no longer be cancelled.
\<close>

definition demo_reselected :: composition_authority where
  "demo_reselected = fst (composition_select (Some demo_request) demo_exposed)"

lemma reselection_keeps_stopped_generation:
  "comp_status demo_exposed = CompRunning \<and> comp_status demo_reselected = CompSelected
   \<and> comp_generation demo_reselected = Some 1 \<and> comp_output demo_reselected = Some demo_output
   \<and> comp_rejection (fst (composition_act (ActCancel 1) demo_reselected)) = Some InvalidAction"
  by code_simp

end
