(* ===== verification/Spec2Isabelle.thy ===== *)
theory Spec2Isabelle
  imports Package_Theorems Peer_Wire Media_Failure Media_Pair Owner_Server_Proofs Activation_Proofs
    Cleanup_Proofs Executor_Proofs Canonical_Proofs Feature_V2_Proofs Product_Claims Media_Claims
    Breath_Claims
begin

text \<open>
  \<^bold>\<open>Rusty Quest: a verification of its core logic.\<close>

  Rusty Quest is a set of Rust crates and Android applications for headsets. Most of the lines are
  rendering, JNI and device glue; what decides anything is in the crates under \<open>src/crates\<close>, and
  this development models the ones that keep state and refuse input: package updates, the media
  session product with its owners, the protocols between its processes, feature locks, and the
  breath input. Every definition is a translation of the function the manifest names, with its
  guards in the source's order, its errors as values and its integers at their width.

  \<^bold>\<open>The parts and how they interact.\<close> A package is admitted by the updater and carries feature
  locks, which decide what the running system activates. A media session is planned and validated
  (\<open>rusty-quest-media-stream\<close>), then started and stopped by the product runtime, which calls owners
  through providers and journals every call. In the Android crate
  (\<open>rusty-quest-media-stream-android\<close>) those owners live in other processes: a dispatch server, an
  activation server and a cleanup server each answer signed requests once, and executors are their
  clients. Renewal receipts cross the peer wire (\<open>rusty-quest-peer-wire\<close>); a session's sockets obey
  the direct P2P route contract (\<open>rusty-quest-device-link\<close>). The breath crate
  (\<open>rusty-quest-breath-contract\<close>) is a chain of its own: lifecycle owner, motion calibration,
  phase classifier, assessment and composition, the last one bound to the feature lock of the package.

  \<^bold>\<open>Shared theories.\<close>
  \<^item> \<open>Quest_Prelude\<close>: words, saturating and checked arithmetic, results and the \<open>?\<close> operator,
    Rust strings as bytes, ordered maps, decimal text.
  \<^item> \<open>Base64_Bits\<close>: the bit arithmetic and the locale of the two Base64 codecs.
  \<^item> \<open>Json_Value\<close>: \<open>serde_json\<close> values and accessors. \<open>Ieee_Float\<close>: the part of \<open>f64\<close> and \<open>f32\<close>
    that the breath crate computes with; every operation rounds the exact result once.
  \<^item> \<open>Dfs_Acyclic\<close>: the depth-first cycle check of the feature locks, proved equivalent to
    acyclicity. Its fuel is the number of nodes plus one, which bounds the depth because a node on
    the stack is not entered again.
  \<^item> \<open>Exactly_Once\<close>: the locale of an effect journal, interpreted by the three servers.
  \<^item> \<open>Generation_Fence\<close>: the locale of a generation allocator, interpreted by the breath lifecycle
    owner and by the breath composition.

  \<^bold>\<open>Package updates\<close> (\<open>rusty-quest-package-updater/src/lib.rs\<close>). \<open>Package_Codec\<close>,
  \<open>Package_Identity\<close>, \<open>Package_Updater\<close>: base64url, lexical checks, key registry, policy, rollback
  state, admission and commit. \<open>Package_Rollback\<close> states the checkpoint store as a locale and
  proves that guarded histories are monotone; \<open>Package_Admission\<close> and \<open>Package_Theorems\<close> show that
  what is admitted is signed by the policy's key and inside the policy, that commits never roll a
  release back, that a refusal changes nothing, and that an observed admitted update commits.

  \<^bold>\<open>Feature locks\<close> (\<open>rusty-quest-feature-activation/src/lib.rs\<close>). \<open>Feature_Lock\<close>,
  \<open>Feature_Lock_V2\<close> and \<open>Canonical_Json\<close> model both lock generations and the canonical JSON text;
  \<open>Feature_Proofs\<close>, \<open>Feature_V2_Proofs\<close> and \<open>Canonical_Proofs\<close> prove the closure checks equivalent
  to specifications without indices, loops or search, the activation decision exact, inspection
  faithful to the accepted bytes, and the canonical text injective.

  \<^bold>\<open>Owner protocols\<close> (\<open>rusty-quest-media-stream-android/src\<close>: \<open>owner_dispatch.rs\<close>,
  \<open>remote_cleanup_proof.rs\<close>, \<open>retained_cleanup.rs\<close>, \<open>retained_cleanup_server.rs\<close>, \<open>lib.rs\<close>).
  \<open>Owner_Types\<close>, \<open>Owner_Codec\<close>, \<open>Owner_Wire\<close> and \<open>Owner_Evidence\<close> hold the data, the frames, the
  signed layouts and the proofs; \<open>Replay_Journal\<close>, \<open>Owner_Server\<close>, \<open>Activation_Server\<close> and
  \<open>Cleanup_Server\<close> the servers; \<open>Owner_Executor\<close> the clients. \<open>Owner_Server_Proofs\<close>,
  \<open>Activation_Proofs\<close> and \<open>Cleanup_Proofs\<close> show that no identity enters a platform registry twice
  whatever requests, crashes and restores interleave, that effects are authenticated, that journals
  stay bounded and that a committed cleanup journal always restores. \<open>Owner_Proofs\<close> shows among
  other things that nested cleanup proofs are decided with one level of fuel, since a proof inside
  a proof is refused. \<open>Owner_Wire_Proofs\<close> shows that the frames of requests and responses decode to
  what was encoded, although a response frame carries the readback as text and not as a member;
  \<open>Executor_Proofs\<close> that a lost response costs nothing and that an accepted remote effect is the one
  that was dispatched.

  \<^bold>\<open>Media sessions\<close> (\<open>rusty-quest-media-stream/src\<close>). \<open>Media_Plan\<close>, \<open>Media_Spec\<close> and
  \<open>Media_Lifecycle\<close> model plans, runtime specifications and the platform lifecycle (\<open>model.rs\<close>,
  \<open>validation.rs\<close>, \<open>runtime.rs\<close>), \<open>P2p_Route\<close> the route contract, \<open>Media_Failure\<close> the failure and
  recovery harness, \<open>Media_Pair\<close> the stereo pairing of the Android crate. \<open>Media_Claims\<close> shows what
  an accepted plan, an owner order, a route and a lifecycle request establish.

  \<^bold>\<open>The product runtime\<close> (\<open>rusty-quest-media-stream/src/product_runtime.rs\<close>). \<open>Product_Types\<close>,
  \<open>Product_Rules\<close>, \<open>Product_Recovery\<close>, \<open>Product_Runtime\<close> and \<open>Product_Renewal\<close> model the runtime:
  binding checks, ordered start and stop, rollback, the recovery journal, restore and renewals, as
  functions on a state that also records the calls made and the snapshots stored.
  \<open>Product_Steps\<close> makes it a transition system and proves the write-ahead discipline;
  \<open>Product_Micro\<close> decomposes every operation into atomic changes of the state, the library's
  induction principle for invariants; \<open>Product_Restore\<close> shows that a restored runtime only undoes.
  \<open>Product_Recoverable\<close> is the invariant of ordinary operation and \<open>Product_Revoked\<close> extends it to
  the stop of a trusted revoker and to the end of a session; they say exactly when a committed
  snapshot passes the restore check, for every host. \<open>Product_Demo\<close> runs a concrete product through
  start, crash, restore and rollback, and \<open>Product_Claims\<close> states the guarantees. The operation
  \<open>prepare_trusted_revoker_cleanup\<close> adopts the receipt of the host without the check that a refresh
  makes, so the condition for restoring names that check while such a stop is pending.

  \<^bold>\<open>Peer wire\<close> (\<open>rusty-quest-peer-wire/src\<close>). \<open>Peer_Wire\<close>: the projection of renewal receipts loses
  nothing.

  \<^bold>\<open>Breath input\<close> (\<open>rusty-quest-breath-contract/src\<close>). \<open>Breath_Contract\<close> is the lifecycle owner and
  its bounded replay (\<open>lib.rs\<close>), \<open>Breath_Phase\<close> the phase classifier (\<open>phase.rs\<close>),
  \<open>Breath_Calibration\<close> the accepted-frame calibration with its principal-axis fit
  (\<open>calibration.rs\<close>; at most 24 Jacobi rotations, as in the source; a failed \<open>expect\<close>, a bad
  index and an age that underflows are \<open>None\<close>),
  \<open>Breath_Composition\<close> assessments and the composition authority (\<open>assessment.rs\<close>,
  \<open>composition.rs\<close>). \<open>Breath_Proofs\<close>, \<open>Breath_Phase_Proofs\<close> and \<open>Breath_Calibration_Proofs\<close>
  hold the step relations and invariants; \<open>Breath_Claims\<close> shows that observations are well formed and ordered, that an ended
  generation is fenced for ever, that a phase is committed only after confirmation and dwell, that
  nothing but the action clock survives a reset, that every input is counted, that calibration never panics and keeps its
  bounds, and that an output is shown only with
  authority. The run of the source's own test evaluates to the phases the test expects.

  \<^bold>\<open>Code outside the repository\<close> is a parameter: the externals records of the updater and of the
  locks (\<open>serde_json\<close>, \<open>serde_jcs\<close>, \<open>sha2\<close>, \<open>ed25519_dalek\<close>), of the media protocols (JSON
  parsing and printing, signatures, digests), the number text of \<open>serde_json\<close>, the functions of
  the platform's mathematics library that calibration calls (\<open>math_env\<close>), and the Rusty
  Manifold crates, whose schemas, checks and host state the product runtime receives together with
  the owner provider and the environment. Hypotheses about them are documented behaviour, such as
  that a parser inverts its printer; each theorem with one has an application to a concrete
  instance. For the dispatch frames this behaviour is spelled out in \<open>Owner_Wire_Proofs\<close>
  (\<open>value_serde\<close>, \<open>request_serde\<close>, \<open>response_serde\<close>): the derived conversions are laws, and the
  layout of the frames, which is the repository's, is proved.

  \<^bold>\<open>Bounds.\<close> Loops of the source are structural recursions, except for the cycle check and the
  nested proof check, whose fuel is stated above. Words keep their width; saturating counters
  saturate; where the source subtracts without a check, the guards before it and the invariants show that it
  cannot wrap.

  \<^bold>\<open>Not modelled.\<close> Of the modelled crates: the placement of embedded duplex owners
  (\<open>derive_embedded_duplex_owner_placements\<close>), the prepared start of the Android crate
  (\<open>prepared_start.rs\<close>), poisoned
  mutexes, sources of authority compiled only for tests, error display texts, telemetry tokens and
  plain accessors. Of the repository: the broker, fleet agent, remote camera, adapters and
  profile crates, which are conversions, or adapters onto crates that are not in the repository;
  the renderer and the Android applications, which are calls into Vulkan, OpenXR and the NDK; the
  command-line tools; and everything that is not Rust.
\<close>

end
